(* ===== verification/Prelude.thy ===== *)
theory Prelude
  imports Complex_Main "HOL-Library.AList" "HOL-Library.Char_ord" "HOL-Library.List_Lexorder"
begin

text \<open>
  Shared ground of the development: Python's exceptions as values, strings, floats and
  dictionaries as the program uses them, and the lemma collections every component adds to.

  \<^item> An operation that may raise returns \<open>exn + 'a\<close>; \<open>Inl\<close> carries the exception class
    (the message text of a raised exception is not modelled, the reason strings that the
    program stores in its results are). An operation that also changes an object
    returns the pair of that outcome and the new object, so that "nothing was changed
    on failure" is a statement about the model and not a convention.
  \<^item> Strings are lists of 8-bit characters read as the Unicode code points 0 to 255.
  \<^item> A \<open>dict\<close> is an association list in insertion order without repeated keys.
  \<^item> A float is a rational number, an infinity or NaN; the program only compares floats.
\<close>

section \<open>Lemma collections\<close>

named_theorems res_simps "evaluation of results that may be exceptions"
named_theorems frame "fields that an operation leaves alone"
named_theorems inv_intros "operations that keep an invariant"

section \<open>Exceptions and results\<close>

datatype exn =
    AppError | ConfigurationError | ValidationError | StateTransitionError | ProviderError
  | ValueError | TypeError | KeyError | AttributeError | AssertionError | RuntimeError
  | SelectorError | SupervisorError | ReasoningError
  | DuplicateTurnError | SessionTerminatedError | SessionNotFoundError
  | NotFoundError | StaleRevisionError | IdempotencyConflictError
  | InvalidPersistedPayloadError | TransactionFailedError
  | OverflowError | IndexError

type_synonym 'a res = "exn + 'a"

definition rbind :: "'a res \<Rightarrow> ('a \<Rightarrow> 'b res) \<Rightarrow> 'b res" where
  "rbind m f = (case m of Inl e \<Rightarrow> Inl e | Inr x \<Rightarrow> f x)"

lemma rbind_simps [simp, res_simps]:
  "rbind (Inl e) f = Inl e" "rbind (Inr x) f = f x"
  by (simp_all add: rbind_def)

lemma rbind_eq_Inr [res_simps]: "rbind m f = Inr y \<longleftrightarrow> (\<exists>x. m = Inr x \<and> f x = Inr y)"
  by (cases m) auto

lemma rbind_eq_Inl [res_simps]:
  "rbind m f = Inl e \<longleftrightarrow> m = Inl e \<or> (\<exists>x. m = Inr x \<and> f x = Inl e)"
  by (cases m) auto

text \<open>\<open>guard b e\<close> is \<^verbatim>\<open>if not b: raise e\<close>.\<close>

definition guard :: "bool \<Rightarrow> exn \<Rightarrow> unit res" where
  "guard b e = (if b then Inr () else Inl e)"

lemma guard_simps [simp, res_simps]:
  "guard True e = Inr ()" "guard False e = Inl e"
  "guard b e = Inr u \<longleftrightarrow> b" "guard b e = Inl e' \<longleftrightarrow> \<not> b \<and> e' = e"
  by (auto simp: guard_def)

text \<open>A comprehension whose element expression may raise: the first exception wins.\<close>

fun rmap :: "('a \<Rightarrow> 'b res) \<Rightarrow> 'a list \<Rightarrow> 'b list res" where
  "rmap f [] = Inr []"
| "rmap f (x # xs) = rbind (f x) (\<lambda>y. rbind (rmap f xs) (\<lambda>ys. Inr (y # ys)))"

text \<open>A \<^verbatim>\<open>for\<close> loop with an accumulator whose body may raise.\<close>

fun rfold :: "('b \<Rightarrow> 'a \<Rightarrow> 'b res) \<Rightarrow> 'b \<Rightarrow> 'a list \<Rightarrow> 'b res" where
  "rfold f acc [] = Inr acc"
| "rfold f acc (x # xs) = rbind (f acc x) (\<lambda>acc'. rfold f acc' xs)"

definition option_res :: "exn \<Rightarrow> 'a option \<Rightarrow> 'a res" where
  "option_res e x = (case x of None \<Rightarrow> Inl e | Some y \<Rightarrow> Inr y)"

lemma option_res_simps [simp, res_simps]:
  "option_res e None = Inl e" "option_res e (Some y) = Inr y"
  "option_res e x = Inr y \<longleftrightarrow> x = Some y"
  "option_res e x = Inl e' \<longleftrightarrow> x = None \<and> e' = e"
  by (auto simp: option_res_def split: option.splits)

text \<open>Evaluated outcomes: a computed \<open>isl\<close> says which branch was taken.\<close>

lemma not_isl_Inr: "isl x = False \<Longrightarrow> x = Inr (projr x)"
  by (cases x) auto

lemma outcome_Inr: "isl (fst out) = False \<Longrightarrow> out = (Inr (projr (fst out)), snd out)"
  by (cases out; cases "fst out") auto

lemma rmap_eq_Inr_iff:
  "rmap f xs = Inr ys \<longleftrightarrow> list_all2 (\<lambda>x y. f x = Inr y) xs ys"
  by (induction xs arbitrary: ys) (auto simp: res_simps list_all2_Cons1)

lemma rmap_length: "rmap f xs = Inr ys \<Longrightarrow> length ys = length xs"
  by (auto simp: rmap_eq_Inr_iff dest: list_all2_lengthD)

lemma rmap_in_set: "rmap f xs = Inr ys \<Longrightarrow> y \<in> set ys \<Longrightarrow> \<exists>x \<in> set xs. f x = Inr y"
  by (induction xs arbitrary: ys) (auto simp: res_simps)

lemma rfold_invariant:
  assumes "rfold f acc xs = Inr acc'"
    and "P acc"
    and "\<And>a x a'. P a \<Longrightarrow> x \<in> set xs \<Longrightarrow> f a x = Inr a' \<Longrightarrow> P a'"
  shows "P acc'"
  using assms
proof (induction xs arbitrary: acc)
  case Nil
  then show ?case by simp
next
  case (Cons x xs)
  from Cons.prems(1) obtain b where b: "f acc x = Inr b" and rest: "rfold f b xs = Inr acc'"
    by (auto simp: res_simps)
  have "P b" using Cons.prems(2) b by (intro Cons.prems(3) [of acc x b]) auto
  with rest Cons.prems(3) show ?case
    by (intro Cons.IH [of b]) auto
qed

section \<open>Strings\<close>

type_synonym str = string

text \<open>The whitespace of \<^verbatim>\<open>str.strip\<close> among the code points 0 to 255.\<close>

definition py_isspace :: "char \<Rightarrow> bool" where
  "py_isspace c = (let n = (of_char c :: nat) in
     (9 \<le> n \<and> n \<le> 13) \<or> (28 \<le> n \<and> n \<le> 32) \<or> n = 133 \<or> n = 160)"

definition py_strip :: "str \<Rightarrow> str" where
  "py_strip s = rev (dropWhile py_isspace (rev (dropWhile py_isspace s)))"

text \<open>\<open>blank s\<close> is \<^verbatim>\<open>not s or not s.strip()\<close>.\<close>

definition blank :: "str \<Rightarrow> bool" where
  "blank s = (py_strip s = [])"

lemma py_strip_Nil [simp]: "py_strip [] = []"
  by (simp add: py_strip_def)

lemma blank_Nil [simp]: "blank []"
  by (simp add: blank_def)

lemma not_blank_not_Nil: "\<not> blank s \<Longrightarrow> s \<noteq> []"
  by auto

lemma dropWhile_rev_eq_Nil: "(rev (dropWhile P xs) = []) = (\<forall>x \<in> set xs. P x)"
  by (simp add: dropWhile_eq_Nil_conv)

lemma blank_iff: "blank s \<longleftrightarrow> (\<forall>c \<in> set s. py_isspace c)"
proof -
  have "(\<forall>c \<in> set (dropWhile py_isspace s). py_isspace c) \<longleftrightarrow> (\<forall>c \<in> set s. py_isspace c)"
    by (induction s) auto
  then show ?thesis
    by (simp add: blank_def py_strip_def dropWhile_eq_Nil_conv)
qed

lemma py_strip_idem [simp]: "py_strip (py_strip s) = py_strip s"
proof -
  have hd_ok: "dropWhile P (rev (dropWhile P (rev (dropWhile P xs)))) =
      rev (dropWhile P (rev (dropWhile P xs)))" for P :: "char \<Rightarrow> bool" and xs
  proof (cases "dropWhile P xs")
    case Nil
    show ?thesis by (simp only: Nil) simp
  next
    case (Cons y ys)
    then have y: "\<not> P y" by (simp add: dropWhile_eq_Cons_conv)
    then obtain zs where "dropWhile P (rev ys @ [y]) = zs @ [y]"
      by (auto simp: dropWhile_append3)
    with y Cons show ?thesis by simp
  qed
  show ?thesis
    by (simp add: py_strip_def hd_ok)
qed

lemma blank_strip [simp]: "blank (py_strip s) = blank s"
  by (simp add: blank_def)

definition py_lower_char :: "char \<Rightarrow> char" where
  "py_lower_char c = (let n = (of_char c :: nat) in
     if (65 \<le> n \<and> n \<le> 90) \<or> (192 \<le> n \<and> n \<le> 222 \<and> n \<noteq> 215) then char_of (n + 32) else c)"

definition py_lower :: "str \<Rightarrow> str" where
  "py_lower s = map py_lower_char s"

text \<open>
  Upper case is exact on ASCII; the program upper-cases country codes only, which it
  hands to the phone number library.
\<close>

definition py_upper :: "str \<Rightarrow> str" where
  "py_upper s = map (\<lambda>c. let n = (of_char c :: nat) in
     if 97 \<le> n \<and> n \<le> 122 then char_of (n - 32) else c) s"

text \<open>The decimal rendering of an int in an f-string.\<close>

fun nat_str :: "nat \<Rightarrow> str" where
  "nat_str n = (if n < 10 then [char_of (48 + n)] else nat_str (n div 10) @ [char_of (48 + n mod 10)])"

declare nat_str.simps [simp del]

definition int_str :: "int \<Rightarrow> str" where
  "int_str i = (if i < 0 then CHR ''-'' # nat_str (nat (- i)) else nat_str (nat i))"

text \<open>An optional string in a boolean position: \<^verbatim>\<open>if value:\<close>.\<close>

definition truthy :: "str option \<Rightarrow> bool" where
  "truthy x = (case x of None \<Rightarrow> False | Some s \<Rightarrow> s \<noteq> [])"

lemma truthy_simps [simp]: "\<not> truthy None" "truthy (Some s) \<longleftrightarrow> s \<noteq> []"
  by (simp_all add: truthy_def)

section \<open>Floats\<close>

datatype py_float = Fin rat | PosInf | NegInf | NaN

fun py_le :: "py_float \<Rightarrow> py_float \<Rightarrow> bool" where
  "py_le (Fin a) (Fin b) = (a \<le> b)"
| "py_le NaN _ = False"
| "py_le _ NaN = False"
| "py_le NegInf _ = True"
| "py_le _ PosInf = True"
| "py_le _ _ = False"

fun py_lt :: "py_float \<Rightarrow> py_float \<Rightarrow> bool" where
  "py_lt (Fin a) (Fin b) = (a < b)"
| "py_lt NaN _ = False"
| "py_lt _ NaN = False"
| "py_lt NegInf b = (b \<noteq> NegInf)"
| "py_lt a PosInf = (a \<noteq> PosInf)"
| "py_lt _ _ = False"

fun is_finite :: "py_float \<Rightarrow> bool" where
  "is_finite (Fin _) = True"
| "is_finite _ = False"

lemma py_le_trans: "py_le a b \<Longrightarrow> py_le b c \<Longrightarrow> py_le a c"
  by (cases a; cases b; cases c) auto

lemma py_not_lt: "a \<noteq> NaN \<Longrightarrow> b \<noteq> NaN \<Longrightarrow> (\<not> py_lt a b) = py_le b a"
  by (cases a; cases b) auto

lemma unit_interval_finite: "py_le (Fin 0) x \<Longrightarrow> py_le x (Fin 1) \<Longrightarrow> is_finite x"
  by (cases x) auto

section \<open>Dictionaries\<close>

type_synonym ('k, 'v) dict = "('k \<times> 'v) list"

abbreviation dget :: "('k, 'v) dict \<Rightarrow> 'k \<Rightarrow> 'v option" where
  "dget d k \<equiv> map_of d k"

abbreviation dset :: "'k \<Rightarrow> 'v \<Rightarrow> ('k, 'v) dict \<Rightarrow> ('k, 'v) dict" where
  "dset k v d \<equiv> AList.update k v d"

abbreviation ddel :: "'k \<Rightarrow> ('k, 'v) dict \<Rightarrow> ('k, 'v) dict" where
  "ddel k d \<equiv> AList.delete k d"

abbreviation dkeys :: "('k, 'v) dict \<Rightarrow> 'k list" where
  "dkeys d \<equiv> map fst d"

lemma dget_dset [simp]: "dget (dset k v d) k' = (if k' = k then Some v else dget d k')"
  by (simp add: update_conv')

lemma dget_ddel [simp]: "dget (ddel k d) k' = (if k' = k then None else dget d k')"
  by (simp add: delete_conv')

lemma dkeys_dset: "set (dkeys (dset k v d)) = insert k (set (dkeys d))"
  by (induction d) auto

lemma distinct_dset [intro]: "distinct (dkeys d) \<Longrightarrow> distinct (dkeys (dset k v d))"
  by (rule distinct_update)

lemma dget_dom: "k \<in> set (dkeys d) \<longleftrightarrow> (\<exists>v. dget d k = Some v)"
  by (metis domD domI dom_map_of_conv_image_fst image_set)

lemma dset_new: "k \<notin> set (dkeys d) \<Longrightarrow> dset k v d = d @ [(k, v)]"
  by (induction d) auto

lemma set_dset_subset: "set (dset k v d) \<subseteq> insert (k, v) (set d)"
  by (induction d) auto

lemma dset_member: "(a, b) \<in> set (dset k v d) \<Longrightarrow> (a = k \<and> b = v) \<or> (a, b) \<in> set d"
  using set_dset_subset [of k v d] by auto

lemma dset_filter_other:
  "\<not> P k' \<Longrightarrow> filter (\<lambda>(k, v). P k) (dset k' v d) = filter (\<lambda>(k, v). P k) d"
  by (induction d) auto

section \<open>Sequences\<close>

text \<open>\<^verbatim>\<open>xs[-n:]\<close>\<close>

definition last_n :: "nat \<Rightarrow> 'a list \<Rightarrow> 'a list" where
  "last_n n xs = drop (length xs - n) xs"

lemma length_last_n [simp]: "length (last_n n xs) = min n (length xs)"
  by (simp add: last_n_def)

lemma set_last_n: "set (last_n n xs) \<subseteq> set xs"
  by (simp add: last_n_def set_drop_subset)

text \<open>The first element with a property: \<^verbatim>\<open>for x in xs: if p(x): return x\<close>.\<close>

lemma find_Some_in: "List.find P xs = Some x \<Longrightarrow> x \<in> set xs \<and> P x"
  by (auto simp: find_Some_iff)

lemma find_None_all: "List.find P xs = None \<longleftrightarrow> (\<forall>x \<in> set xs. \<not> P x)"
  by (auto simp: find_None_iff)

text \<open>\<^verbatim>\<open>sorted(xs, key=f)[0]\<close> is an element of least key.\<close>

lemma sort_key_Nil_iff [simp]: "sort_key f xs = [] \<longleftrightarrow> xs = []"
  by (metis length_0_conv length_sort)

lemma hd_sort_key_least:
  fixes f :: "'a \<Rightarrow> 'b :: linorder"
  assumes "xs \<noteq> []" and "x \<in> set xs"
  shows "f (hd (sort_key f xs)) \<le> f x"
proof -
  let ?ys = "sort_key f xs"
  have ne: "?ys \<noteq> []" using assms(1) by simp
  have s: "sorted (map f ?ys)" by simp
  have x: "x \<in> set ?ys" using assms(2) by simp
  from ne obtain y zs where yz: "?ys = y # zs" by (cases ?ys) auto
  from x yz have "x = y \<or> x \<in> set zs" by simp
  with s yz show ?thesis by auto
qed

lemma hd_sort_key_in: "xs \<noteq> [] \<Longrightarrow> hd (sort_key f xs) \<in> set xs"
  by (metis hd_in_set set_sort sort_key_Nil_iff)

section \<open>Runs of a step function\<close>

text \<open>
  What a component's step functions share: the state after a list of events is a left
  fold. A predicate that every step keeps holds along every run, and a relation that every
  step respects (a counter that never falls, a set that only grows) relates the two ends
  of every run.
\<close>

locale kept =
  fixes step :: "'s \<Rightarrow> 'e \<Rightarrow> 's"
    and inv :: "'s \<Rightarrow> bool"
  assumes step_keeps: "inv s \<Longrightarrow> inv (step s e)"
begin

lemma run_keeps: "inv s \<Longrightarrow> inv (foldl step s es)"
  by (induction es arbitrary: s) (auto intro: step_keeps)

lemma run_keeps_prefix: "inv s \<Longrightarrow> inv (foldl step s (take n es))"
  by (rule run_keeps)

end

locale monotone =
  fixes step :: "'s \<Rightarrow> 'e \<Rightarrow> 's"
    and below :: "'s \<Rightarrow> 's \<Rightarrow> bool"
  assumes below_refl: "below s s"
    and below_trans: "below s t \<Longrightarrow> below t u \<Longrightarrow> below s u"
    and step_below: "below s (step s e)"
begin

lemma run_below: "below s (foldl step s es)"
proof (induction es arbitrary: s)
  case Nil
  show ?case by (simp add: below_refl)
next
  case (Cons e es)
  have "below s (step s e)" by (rule step_below)
  moreover have "below (step s e) (foldl step (step s e) es)" by (rule Cons.IH)
  ultimately show ?case by (auto intro: below_trans)
qed

lemma run_below_later: "below (foldl step s es) (foldl step s (es @ fs))"
  by (simp add: run_below)

end

end
