(* ===== verification/Constants.thy ===== *)
theory Constants
  imports Prelude
begin

text \<open>
  The shared vocabulary of \<^verbatim>\<open>app/core/constants.py\<close>: one datatype per enumeration, the
  string value of each member (\<open>_value\<close>) and the conversion from a string that the
  \<^verbatim>\<open>_coerce_*\<close> functions of the configuration loaders use (\<open>_of\<close>, \<open>None\<close> where the
  enumeration's constructor raises \<^verbatim>\<open>ValueError\<close>). The values are pairwise different, so
  reading back a written value returns the member.
\<close>

datatype conversation_state =
    St_NEW_CALL | St_GREETING | St_IDENTIFY_PERSON | St_CHECK_HISTORY
  | St_INTRODUCE | St_FOLLOW_UP | St_REASON_FOR_CALL | St_LISTEN
  | St_HANDLE_QUESTION | St_EXPLORE_ALTERNATIVE | St_COLLECT_EMAIL | St_CONFIRM_CONTACT
  | St_SCHEDULE_CALLBACK | St_IDENTIFY_DECISION_MAKER | St_END_CALL

fun conversation_state_value :: "conversation_state \<Rightarrow> str" where
  "conversation_state_value St_NEW_CALL = ''new_call''"
| "conversation_state_value St_GREETING = ''greeting''"
| "conversation_state_value St_IDENTIFY_PERSON = ''identify_person''"
| "conversation_state_value St_CHECK_HISTORY = ''check_history''"
| "conversation_state_value St_INTRODUCE = ''introduce''"
| "conversation_state_value St_FOLLOW_UP = ''follow_up''"
| "conversation_state_value St_REASON_FOR_CALL = ''reason_for_call''"
| "conversation_state_value St_LISTEN = ''listen''"
| "conversation_state_value St_HANDLE_QUESTION = ''handle_question''"
| "conversation_state_value St_EXPLORE_ALTERNATIVE = ''explore_alternative''"
| "conversation_state_value St_COLLECT_EMAIL = ''collect_email''"
| "conversation_state_value St_CONFIRM_CONTACT = ''confirm_contact''"
| "conversation_state_value St_SCHEDULE_CALLBACK = ''schedule_callback''"
| "conversation_state_value St_IDENTIFY_DECISION_MAKER = ''identify_decision_maker''"
| "conversation_state_value St_END_CALL = ''end_call''"

definition all_conversation_state :: "conversation_state list" where
  "all_conversation_state = [St_NEW_CALL, St_GREETING, St_IDENTIFY_PERSON, St_CHECK_HISTORY, St_INTRODUCE, St_FOLLOW_UP, St_REASON_FOR_CALL, St_LISTEN, St_HANDLE_QUESTION, St_EXPLORE_ALTERNATIVE, St_COLLECT_EMAIL, St_CONFIRM_CONTACT, St_SCHEDULE_CALLBACK, St_IDENTIFY_DECISION_MAKER, St_END_CALL]"

definition conversation_state_of :: "str \<Rightarrow> conversation_state option" where
  "conversation_state_of v = List.find (\<lambda>x. conversation_state_value x = v) all_conversation_state"

lemma conversation_state_of_value [simp]: "conversation_state_of (conversation_state_value x) = Some x"
  by (cases x) (simp_all add: conversation_state_of_def all_conversation_state_def)

lemma conversation_state_of_Some: "conversation_state_of v = Some x \<longleftrightarrow> v = conversation_state_value x"
  by (auto simp: conversation_state_of_def dest!: find_Some_in) (simp flip: conversation_state_of_def)

lemma conversation_state_value_inj: "conversation_state_value x = conversation_state_value y \<longleftrightarrow> x = y"
  by (metis conversation_state_of_value option.inject)

lemma conversation_state_of_known [simp]:
  "conversation_state_of ''new_call'' = Some St_NEW_CALL"
  "conversation_state_of ''greeting'' = Some St_GREETING"
  "conversation_state_of ''identify_person'' = Some St_IDENTIFY_PERSON"
  "conversation_state_of ''check_history'' = Some St_CHECK_HISTORY"
  "conversation_state_of ''introduce'' = Some St_INTRODUCE"
  "conversation_state_of ''follow_up'' = Some St_FOLLOW_UP"
  "conversation_state_of ''reason_for_call'' = Some St_REASON_FOR_CALL"
  "conversation_state_of ''listen'' = Some St_LISTEN"
  "conversation_state_of ''handle_question'' = Some St_HANDLE_QUESTION"
  "conversation_state_of ''explore_alternative'' = Some St_EXPLORE_ALTERNATIVE"
  "conversation_state_of ''collect_email'' = Some St_COLLECT_EMAIL"
  "conversation_state_of ''confirm_contact'' = Some St_CONFIRM_CONTACT"
  "conversation_state_of ''schedule_callback'' = Some St_SCHEDULE_CALLBACK"
  "conversation_state_of ''identify_decision_maker'' = Some St_IDENTIFY_DECISION_MAKER"
  "conversation_state_of ''end_call'' = Some St_END_CALL"
  by (simp_all add: conversation_state_of_def all_conversation_state_def)

datatype agent_action =
    Act_GREET | Act_ASK_IDENTITY | Act_INTRODUCE_REASON | Act_ANSWER_QUESTION
  | Act_OFFER_SERVICE | Act_ASK_EMAIL | Act_CONFIRM_CONTACT | Act_CLARIFY_CONTACT
  | Act_SCHEDULE_CALLBACK | Act_MARK_DNC | Act_END_CALL

fun agent_action_value :: "agent_action \<Rightarrow> str" where
  "agent_action_value Act_GREET = ''greet''"
| "agent_action_value Act_ASK_IDENTITY = ''ask_identity''"
| "agent_action_value Act_INTRODUCE_REASON = ''introduce_reason''"
| "agent_action_value Act_ANSWER_QUESTION = ''answer_question''"
| "agent_action_value Act_OFFER_SERVICE = ''offer_service''"
| "agent_action_value Act_ASK_EMAIL = ''ask_email''"
| "agent_action_value Act_CONFIRM_CONTACT = ''confirm_contact''"
| "agent_action_value Act_CLARIFY_CONTACT = ''clarify_contact''"
| "agent_action_value Act_SCHEDULE_CALLBACK = ''schedule_callback''"
| "agent_action_value Act_MARK_DNC = ''mark_dnc''"
| "agent_action_value Act_END_CALL = ''end_call''"

definition all_agent_action :: "agent_action list" where
  "all_agent_action = [Act_GREET, Act_ASK_IDENTITY, Act_INTRODUCE_REASON, Act_ANSWER_QUESTION, Act_OFFER_SERVICE, Act_ASK_EMAIL, Act_CONFIRM_CONTACT, Act_CLARIFY_CONTACT, Act_SCHEDULE_CALLBACK, Act_MARK_DNC, Act_END_CALL]"

definition agent_action_of :: "str \<Rightarrow> agent_action option" where
  "agent_action_of v = List.find (\<lambda>x. agent_action_value x = v) all_agent_action"

lemma agent_action_of_value [simp]: "agent_action_of (agent_action_value x) = Some x"
  by (cases x) (simp_all add: agent_action_of_def all_agent_action_def)

lemma agent_action_of_Some: "agent_action_of v = Some x \<longleftrightarrow> v = agent_action_value x"
  by (auto simp: agent_action_of_def dest!: find_Some_in) (simp flip: agent_action_of_def)

lemma agent_action_value_inj: "agent_action_value x = agent_action_value y \<longleftrightarrow> x = y"
  by (metis agent_action_of_value option.inject)

lemma agent_action_of_known [simp]:
  "agent_action_of ''greet'' = Some Act_GREET"
  "agent_action_of ''ask_identity'' = Some Act_ASK_IDENTITY"
  "agent_action_of ''introduce_reason'' = Some Act_INTRODUCE_REASON"
  "agent_action_of ''answer_question'' = Some Act_ANSWER_QUESTION"
  "agent_action_of ''offer_service'' = Some Act_OFFER_SERVICE"
  "agent_action_of ''ask_email'' = Some Act_ASK_EMAIL"
  "agent_action_of ''confirm_contact'' = Some Act_CONFIRM_CONTACT"
  "agent_action_of ''clarify_contact'' = Some Act_CLARIFY_CONTACT"
  "agent_action_of ''schedule_callback'' = Some Act_SCHEDULE_CALLBACK"
  "agent_action_of ''mark_dnc'' = Some Act_MARK_DNC"
  "agent_action_of ''end_call'' = Some Act_END_CALL"
  by (simp_all add: agent_action_of_def all_agent_action_def)

datatype intent =
    Intent_INTERESTED | Intent_NOT_INTERESTED | Intent_BUSY | Intent_CALLBACK_REQUESTED
  | Intent_WRONG_PERSON | Intent_ASKING_QUESTION | Intent_DO_NOT_CALL | Intent_UNCLEAR

datatype tone =
    Tone_CALM | Tone_NEUTRAL | Tone_IMPATIENT | Tone_HARSH
  | Tone_HOSTILE

datatype topic_category =
    Topic_BUSINESS_QUESTION | Topic_SERVICE_DISCUSSION | Topic_OBJECTION | Topic_CALLBACK
  | Topic_CONTACT_COLLECTION | Topic_COMMERCIAL_REQUEST | Topic_QUALIFICATION | Topic_OFF_TOPIC
  | Topic_UNKNOWN

fun topic_category_value :: "topic_category \<Rightarrow> str" where
  "topic_category_value Topic_BUSINESS_QUESTION = ''business_question''"
| "topic_category_value Topic_SERVICE_DISCUSSION = ''service_discussion''"
| "topic_category_value Topic_OBJECTION = ''objection''"
| "topic_category_value Topic_CALLBACK = ''callback''"
| "topic_category_value Topic_CONTACT_COLLECTION = ''contact_collection''"
| "topic_category_value Topic_COMMERCIAL_REQUEST = ''commercial_request''"
| "topic_category_value Topic_QUALIFICATION = ''qualification''"
| "topic_category_value Topic_OFF_TOPIC = ''off_topic''"
| "topic_category_value Topic_UNKNOWN = ''unknown''"

definition all_topic_category :: "topic_category list" where
  "all_topic_category = [Topic_BUSINESS_QUESTION, Topic_SERVICE_DISCUSSION, Topic_OBJECTION, Topic_CALLBACK, Topic_CONTACT_COLLECTION, Topic_COMMERCIAL_REQUEST, Topic_QUALIFICATION, Topic_OFF_TOPIC, Topic_UNKNOWN]"

definition topic_category_of :: "str \<Rightarrow> topic_category option" where
  "topic_category_of v = List.find (\<lambda>x. topic_category_value x = v) all_topic_category"

lemma topic_category_of_value [simp]: "topic_category_of (topic_category_value x) = Some x"
  by (cases x) (simp_all add: topic_category_of_def all_topic_category_def)

lemma topic_category_of_Some: "topic_category_of v = Some x \<longleftrightarrow> v = topic_category_value x"
  by (auto simp: topic_category_of_def dest!: find_Some_in) (simp flip: topic_category_of_def)

lemma topic_category_value_inj: "topic_category_value x = topic_category_value y \<longleftrightarrow> x = y"
  by (metis topic_category_of_value option.inject)

lemma topic_category_of_known [simp]:
  "topic_category_of ''business_question'' = Some Topic_BUSINESS_QUESTION"
  "topic_category_of ''service_discussion'' = Some Topic_SERVICE_DISCUSSION"
  "topic_category_of ''objection'' = Some Topic_OBJECTION"
  "topic_category_of ''callback'' = Some Topic_CALLBACK"
  "topic_category_of ''contact_collection'' = Some Topic_CONTACT_COLLECTION"
  "topic_category_of ''commercial_request'' = Some Topic_COMMERCIAL_REQUEST"
  "topic_category_of ''qualification'' = Some Topic_QUALIFICATION"
  "topic_category_of ''off_topic'' = Some Topic_OFF_TOPIC"
  "topic_category_of ''unknown'' = Some Topic_UNKNOWN"
  by (simp_all add: topic_category_of_def all_topic_category_def)

datatype commercial_kind =
    Com_PRICING_DISCLOSURE | Com_DISCOUNT | Com_CUSTOM_PRICING | Com_QUOTATION
  | Com_SCOPE_CHANGE | Com_GUARANTEE | Com_CONTRACTUAL_COMMITMENT

fun commercial_kind_value :: "commercial_kind \<Rightarrow> str" where
  "commercial_kind_value Com_PRICING_DISCLOSURE = ''pricing_disclosure''"
| "commercial_kind_value Com_DISCOUNT = ''discount''"
| "commercial_kind_value Com_CUSTOM_PRICING = ''custom_pricing''"
| "commercial_kind_value Com_QUOTATION = ''quotation''"
| "commercial_kind_value Com_SCOPE_CHANGE = ''scope_change''"
| "commercial_kind_value Com_GUARANTEE = ''guarantee''"
| "commercial_kind_value Com_CONTRACTUAL_COMMITMENT = ''contractual_commitment''"

definition all_commercial_kind :: "commercial_kind list" where
  "all_commercial_kind = [Com_PRICING_DISCLOSURE, Com_DISCOUNT, Com_CUSTOM_PRICING, Com_QUOTATION, Com_SCOPE_CHANGE, Com_GUARANTEE, Com_CONTRACTUAL_COMMITMENT]"

definition commercial_kind_of :: "str \<Rightarrow> commercial_kind option" where
  "commercial_kind_of v = List.find (\<lambda>x. commercial_kind_value x = v) all_commercial_kind"

lemma commercial_kind_of_value [simp]: "commercial_kind_of (commercial_kind_value x) = Some x"
  by (cases x) (simp_all add: commercial_kind_of_def all_commercial_kind_def)

lemma commercial_kind_of_Some: "commercial_kind_of v = Some x \<longleftrightarrow> v = commercial_kind_value x"
  by (auto simp: commercial_kind_of_def dest!: find_Some_in) (simp flip: commercial_kind_of_def)

lemma commercial_kind_value_inj: "commercial_kind_value x = commercial_kind_value y \<longleftrightarrow> x = y"
  by (metis commercial_kind_of_value option.inject)

lemma commercial_kind_of_known [simp]:
  "commercial_kind_of ''pricing_disclosure'' = Some Com_PRICING_DISCLOSURE"
  "commercial_kind_of ''discount'' = Some Com_DISCOUNT"
  "commercial_kind_of ''custom_pricing'' = Some Com_CUSTOM_PRICING"
  "commercial_kind_of ''quotation'' = Some Com_QUOTATION"
  "commercial_kind_of ''scope_change'' = Some Com_SCOPE_CHANGE"
  "commercial_kind_of ''guarantee'' = Some Com_GUARANTEE"
  "commercial_kind_of ''contractual_commitment'' = Some Com_CONTRACTUAL_COMMITMENT"
  by (simp_all add: commercial_kind_of_def all_commercial_kind_def)

text \<open>\<^verbatim>\<open>_coerce_state\<close> and \<^verbatim>\<open>_coerce_action\<close> of the loaders: an unknown string is a configuration error.\<close>

definition coerce_state :: "str \<Rightarrow> conversation_state res" where
  "coerce_state v = option_res ConfigurationError (conversation_state_of v)"

definition coerce_action :: "str \<Rightarrow> agent_action res" where
  "coerce_action v = option_res ConfigurationError (agent_action_of v)"

end
