(* ===== verification/StateMachine.thy ===== *)
theory StateMachine
  imports Constants
begin

text \<open>
  \<^verbatim>\<open>app/conversation/state_machine\<close>: the typed configuration, the fail-fast loader
  (\<^verbatim>\<open>states.py\<close>), the transition record (\<^verbatim>\<open>transitions.py\<close>) and the per-session
  machine (\<^verbatim>\<open>machine.py\<close>). The YAML parser is not modelled: \<open>raw_config\<close> is the
  document it returns, with every leaf of the type the loader's annotations give it and a
  missing key read as its default (\<open>None\<close> or the empty list).
\<close>

section \<open>Configuration\<close>

definition PREVIOUS_STATE_SENTINEL :: str where
  "PREVIOUS_STATE_SENTINEL = ''__previous__''"

record transition_rule =
  tr_action :: agent_action
  tr_target :: str
  tr_outcome :: "str option"
  tr_requires :: "str list"
  tr_retry_bucket :: "str option"
  tr_preserve_interest :: bool

record state_definition =
  sd_name :: conversation_state
  sd_allowed_actions :: "agent_action set"
  sd_transitions :: "(agent_action, transition_rule) dict"
  sd_requires :: "str list"
  sd_is_detour :: bool
  sd_is_terminal :: bool

record fallback_mapping =
  fm_action :: agent_action
  fm_response_key :: str

record fallback_config =
  fc_by_state :: "(conversation_state, fallback_mapping) dict"
  fc_by_category :: "(str, fallback_mapping) dict"
  fc_default :: fallback_mapping

record machine_config =
  mc_initial_state :: conversation_state
  mc_states :: "(conversation_state, state_definition) dict"
  mc_terminal_states :: "conversation_state set"
  mc_limits :: "(str, int) dict"
  mc_fallbacks :: "fallback_config option"

section \<open>The loader\<close>

record raw_rule =
  rr_to :: "str option"
  rr_outcome :: "str option"
  rr_requires :: "str list"
  rr_retry :: "str option"
  rr_preserve_interest :: bool

record raw_state =
  rs_actions :: "str list"
  rs_requires :: "str list"
  rs_is_detour :: bool
  rs_transitions :: "(str, raw_rule) dict"

record raw_mapping =
  rm_action :: "str option"
  rm_response_key :: "str option"

record raw_fallbacks =
  rf_by_state :: "(str, raw_mapping) dict"
  rf_by_category :: "(str, raw_mapping) dict"
  rf_default :: "raw_mapping option"

record raw_config =
  rc_initial_state :: "str option"
  rc_terminal_states :: "str list"
  rc_states :: "(str, raw_state) dict"
  rc_limits :: "(str, int) dict"
  rc_fallbacks :: "raw_fallbacks option"

definition parse_mapping :: "raw_mapping \<Rightarrow> fallback_mapping res" where
  "parse_mapping body = (case (rm_action body, rm_response_key body) of
       (Some action_raw, Some key) \<Rightarrow>
         rbind (guard (\<not> blank key) ConfigurationError) (\<lambda>_.
         rbind (coerce_action action_raw) (\<lambda>a.
         Inr \<lparr>fm_action = a, fm_response_key = key\<rparr>))
     | _ \<Rightarrow> Inl ConfigurationError)"

definition parse_state_fallback ::
  "(conversation_state, state_definition) dict \<Rightarrow> (conversation_state, fallback_mapping) dict
    \<Rightarrow> str \<times> raw_mapping \<Rightarrow> (conversation_state, fallback_mapping) dict res" where
  "parse_state_fallback states acc kb =
     rbind (coerce_state (fst kb)) (\<lambda>state.
     rbind (parse_mapping (snd kb)) (\<lambda>mapping.
     rbind (option_res ConfigurationError (dget states state)) (\<lambda>sd.
     rbind (guard (fm_action mapping \<in> sd_allowed_actions sd) ConfigurationError) (\<lambda>_.
     Inr (dset state mapping acc)))))"

definition parse_category_fallback ::
  "(str, fallback_mapping) dict \<Rightarrow> str \<times> raw_mapping \<Rightarrow> (str, fallback_mapping) dict res" where
  "parse_category_fallback acc kb =
     rbind (parse_mapping (snd kb)) (\<lambda>mapping. Inr (dset (fst kb) mapping acc))"

definition parse_and_validate_fallbacks ::
  "raw_fallbacks \<Rightarrow> (conversation_state, state_definition) dict \<Rightarrow> fallback_config res" where
  "parse_and_validate_fallbacks raw states =
     rbind (rfold (parse_state_fallback states) [] (rf_by_state raw)) (\<lambda>by_state.
     rbind (rfold parse_category_fallback [] (rf_by_category raw)) (\<lambda>by_category.
     rbind (option_res ConfigurationError (rf_default raw)) (\<lambda>default_raw.
     rbind (parse_mapping default_raw) (\<lambda>default.
     Inr \<lparr>fc_by_state = by_state, fc_by_category = by_category, fc_default = default\<rparr>))))"

definition load_rule ::
  "(agent_action, transition_rule) dict \<Rightarrow> str \<times> raw_rule
    \<Rightarrow> (agent_action, transition_rule) dict res" where
  "load_rule acc kb =
     rbind (coerce_action (fst kb)) (\<lambda>action.
     rbind (option_res ConfigurationError (rr_to (snd kb))) (\<lambda>target.
     rbind (if target \<noteq> PREVIOUS_STATE_SENTINEL
            then rbind (coerce_state target) (\<lambda>_. Inr ()) else Inr ()) (\<lambda>_.
     Inr (dset action
       \<lparr>tr_action = action, tr_target = target, tr_outcome = rr_outcome (snd kb),
        tr_requires = rr_requires (snd kb), tr_retry_bucket = rr_retry (snd kb),
        tr_preserve_interest = rr_preserve_interest (snd kb)\<rparr> acc))))"

definition load_state ::
  "conversation_state set \<Rightarrow> (conversation_state, state_definition) dict \<Rightarrow> str \<times> raw_state
    \<Rightarrow> (conversation_state, state_definition) dict res" where
  "load_state terminal_states acc kb =
     rbind (coerce_state (fst kb)) (\<lambda>state.
     rbind (rmap coerce_action (rs_actions (snd kb))) (\<lambda>allowed.
     let is_terminal = state \<in> terminal_states in
     rbind (rfold load_rule [] (rs_transitions (snd kb))) (\<lambda>transitions.
     rbind (guard (\<not> (is_terminal \<and> transitions \<noteq> [])) ConfigurationError) (\<lambda>_.
     rbind (guard (\<forall>a \<in> set (dkeys transitions). a \<in> set allowed) ConfigurationError) (\<lambda>_.
     Inr (dset state
       \<lparr>sd_name = state, sd_allowed_actions = set allowed, sd_transitions = transitions,
        sd_requires = rs_requires (snd kb), sd_is_detour = rs_is_detour (snd kb),
        sd_is_terminal = is_terminal\<rparr> acc))))))"

definition check_rule_target ::
  "conversation_state set \<Rightarrow> (conversation_state, state_definition) dict \<Rightarrow> transition_rule \<Rightarrow> unit res" where
  "check_rule_target terminal_states states rule =
     (if tr_target rule = PREVIOUS_STATE_SENTINEL then Inr ()
      else rbind (option_res ValueError (conversation_state_of (tr_target rule))) (\<lambda>t.
           rbind (guard (t \<in> set (dkeys states)) ConfigurationError) (\<lambda>_.
           guard (\<not> (tr_outcome rule \<noteq> None \<and> t \<notin> terminal_states)) ConfigurationError)))"

definition check_rule_retry :: "(str, int) dict \<Rightarrow> transition_rule \<Rightarrow> unit res" where
  "check_rule_retry limits rule = (case tr_retry_bucket rule of
       None \<Rightarrow> Inr ()
     | Some bucket \<Rightarrow>
         guard (bucket @ ''_max_attempts'' \<in> set (dkeys limits)) ConfigurationError)"

definition check_state_refs ::
  "conversation_state set \<Rightarrow> (conversation_state, state_definition) dict \<Rightarrow> (str, int) dict
    \<Rightarrow> state_definition \<Rightarrow> unit res" where
  "check_state_refs terminal_states states limits sd =
     rbind (rmap (check_rule_target terminal_states states) (map snd (sd_transitions sd))) (\<lambda>_.
     rbind (rmap (check_rule_retry limits) (map snd (sd_transitions sd))) (\<lambda>_.
     Inr ()))"

text \<open>\<open>None\<close> is a path where no file exists.\<close>

definition load_config :: "raw_config option \<Rightarrow> machine_config res" where
  "load_config file =
     rbind (option_res ConfigurationError file) (\<lambda>raw.
     rbind (rmap coerce_state (rc_terminal_states raw)) (\<lambda>terminal.
     rbind (guard (rc_states raw \<noteq> []) ConfigurationError) (\<lambda>_.
     rbind (rmap coerce_state (dkeys (rc_states raw))) (\<lambda>keys.
     rbind (guard (length (rc_states raw) = length (remdups keys)) ConfigurationError) (\<lambda>_.
     rbind (rfold (load_state (set terminal)) [] (rc_states raw)) (\<lambda>states.
     rbind (option_res ConfigurationError (rc_initial_state raw)) (\<lambda>initial_raw.
     rbind (coerce_state initial_raw) (\<lambda>initial.
     rbind (guard (initial \<in> set (dkeys states)) ConfigurationError) (\<lambda>_.
     rbind (guard (initial \<notin> set terminal) ConfigurationError) (\<lambda>_.
     rbind (rmap (check_state_refs (set terminal) states (rc_limits raw)) (map snd states)) (\<lambda>_.
     rbind (case rc_fallbacks raw of
              None \<Rightarrow> Inr None
            | Some rf \<Rightarrow> rbind (parse_and_validate_fallbacks rf states) (\<lambda>fb. Inr (Some fb)))
           (\<lambda>fallbacks.
     Inr \<lparr>mc_initial_state = initial, mc_states = states, mc_terminal_states = set terminal,
          mc_limits = rc_limits raw, mc_fallbacks = fallbacks\<rparr>))))))))))))"

subsection \<open>What a loaded configuration guarantees\<close>

text \<open>A transition rule that refers only to what the configuration defines.\<close>

definition rule_ok ::
  "conversation_state set \<Rightarrow> (conversation_state, state_definition) dict \<Rightarrow> (str, int) dict
    \<Rightarrow> transition_rule \<Rightarrow> bool" where
  "rule_ok terminal_states states limits rule \<longleftrightarrow>
     (tr_target rule \<noteq> PREVIOUS_STATE_SENTINEL \<longrightarrow>
        (\<exists>t. conversation_state_of (tr_target rule) = Some t \<and> t \<in> set (dkeys states)
           \<and> (tr_outcome rule \<noteq> None \<longrightarrow> t \<in> terminal_states)))
     \<and> (\<forall>b. tr_retry_bucket rule = Some b \<longrightarrow> b @ ''_max_attempts'' \<in> set (dkeys limits))"

definition state_def_ok ::
  "conversation_state set \<Rightarrow> conversation_state \<Rightarrow> state_definition \<Rightarrow> bool" where
  "state_def_ok terminal_states s sd \<longleftrightarrow>
     sd_name sd = s \<and> (sd_is_terminal sd \<longleftrightarrow> s \<in> terminal_states)
     \<and> (s \<in> terminal_states \<longrightarrow> sd_transitions sd = [])
     \<and> (\<forall>(a, r) \<in> set (sd_transitions sd). a \<in> sd_allowed_actions sd \<and> tr_action r = a)"

definition fallbacks_ok :: "(conversation_state, state_definition) dict \<Rightarrow> fallback_config \<Rightarrow> bool" where
  "fallbacks_ok states fb \<longleftrightarrow>
     (\<forall>(s, m) \<in> set (fc_by_state fb).
        \<exists>sd. dget states s = Some sd \<and> fm_action m \<in> sd_allowed_actions sd)"

definition wf_config :: "machine_config \<Rightarrow> bool" where
  "wf_config cfg \<longleftrightarrow>
     mc_initial_state cfg \<in> set (dkeys (mc_states cfg))
     \<and> mc_initial_state cfg \<notin> mc_terminal_states cfg
     \<and> (\<forall>(s, sd) \<in> set (mc_states cfg). state_def_ok (mc_terminal_states cfg) s sd)
     \<and> (\<forall>(s, sd) \<in> set (mc_states cfg). \<forall>(a, r) \<in> set (sd_transitions sd).
          rule_ok (mc_terminal_states cfg) (mc_states cfg) (mc_limits cfg) r)
     \<and> (\<forall>fb. mc_fallbacks cfg = Some fb \<longrightarrow> fallbacks_ok (mc_states cfg) fb)"

lemma load_rule_action:
  assumes "rfold load_rule [] kbs = Inr transitions" and "(a, r) \<in> set transitions"
  shows "tr_action r = a"
proof -
  have "\<forall>(a, r) \<in> set transitions. tr_action r = a"
    by (rule rfold_invariant [OF assms(1)])
       (auto simp: load_rule_def res_simps dest!: set_dset_subset [THEN subsetD])
  with assms(2) show ?thesis by auto
qed

lemma load_state_ok:
  assumes "rfold (load_state term) [] kbs = Inr states" and "(s, sd) \<in> set states"
  shows "state_def_ok term s sd"
proof -
  have "\<forall>(s, sd) \<in> set states. state_def_ok term s sd"
  proof (rule rfold_invariant [OF assms(1)], simp, clarify)
    fix acc k b acc' s sd
    assume acc: "\<forall>(s, sd) \<in> set acc. state_def_ok term s sd"
      and st: "load_state term acc (k, b) = Inr acc'" and m: "(s, sd) \<in> set acc'"
    from st obtain state allowed transitions where
      tr: "rfold load_rule [] (rs_transitions b) = Inr transitions"
      and ok: "\<not> (state \<in> term \<and> transitions \<noteq> [])"
        "\<forall>a \<in> set (dkeys transitions). a \<in> set allowed"
      and acc': "acc' = dset state
       \<lparr>sd_name = state, sd_allowed_actions = set allowed, sd_transitions = transitions,
        sd_requires = rs_requires b, sd_is_detour = rs_is_detour b,
        sd_is_terminal = state \<in> term\<rparr> acc"
      by (auto simp: load_state_def Let_def res_simps)
    from m [unfolded acc'] consider "(s, sd) \<in> set acc"
      | "s = state" "sd = \<lparr>sd_name = state, sd_allowed_actions = set allowed,
        sd_transitions = transitions, sd_requires = rs_requires b,
        sd_is_detour = rs_is_detour b, sd_is_terminal = state \<in> term\<rparr>"
      by (auto dest!: set_dset_subset [THEN subsetD])
    then show "state_def_ok term s sd"
    proof cases
      case 1
      with acc show ?thesis by blast
    next
      case 2
      have "a \<in> set allowed \<and> tr_action r = a" if "(a, r) \<in> set transitions" for a r
        using that ok(2) load_rule_action [OF tr that] by force
      with ok(1) show ?thesis by (auto simp: state_def_ok_def 2)
    qed
  qed
  with assms(2) show ?thesis by auto
qed

lemma check_rule_target_ok:
  "check_rule_target term states r = Inr u \<Longrightarrow> check_rule_retry limits r = Inr u'
    \<Longrightarrow> rule_ok term states limits r"
  by (auto simp: check_rule_target_def check_rule_retry_def rule_ok_def res_simps
      split: if_splits option.splits)

lemma rmap_all: "rmap f xs = Inr us \<Longrightarrow> x \<in> set xs \<Longrightarrow> \<exists>u. f x = Inr u"
  by (induction xs arbitrary: us) (auto simp: res_simps)

lemma check_state_refs_ok:
  assumes "check_state_refs term states limits sd = Inr u" and "(a, r) \<in> set (sd_transitions sd)"
  shows "rule_ok term states limits r"
proof -
  from assms(2) have r: "r \<in> set (map snd (sd_transitions sd))" by force
  from assms(1) obtain us vs where
    "rmap (check_rule_target term states) (map snd (sd_transitions sd)) = Inr us"
    "rmap (check_rule_retry limits) (map snd (sd_transitions sd)) = Inr vs"
    by (auto simp: check_state_refs_def res_simps)
  from rmap_all [OF this(1) r] rmap_all [OF this(2) r] show ?thesis
    by (auto intro: check_rule_target_ok)
qed

lemma parse_fallbacks_ok:
  assumes "parse_and_validate_fallbacks raw states = Inr fb"
  shows "fallbacks_ok states fb"
proof -
  from assms obtain by_state where
    rf: "rfold (parse_state_fallback states) [] (rf_by_state raw) = Inr by_state"
    and fb: "fc_by_state fb = by_state"
    by (auto simp: parse_and_validate_fallbacks_def res_simps)
  have "\<forall>(s, m) \<in> set by_state.
      \<exists>sd. dget states s = Some sd \<and> fm_action m \<in> sd_allowed_actions sd"
    by (rule rfold_invariant [OF rf])
       (auto simp: parse_state_fallback_def res_simps dest!: set_dset_subset [THEN subsetD])
  with fb show ?thesis by (auto simp: fallbacks_ok_def)
qed

lemma load_config_wf:
  assumes "load_config file = Inr cfg"
  shows "wf_config cfg"
proof -
  from assms obtain raw :: raw_config and terminal states initial us fallbacks where
    st: "rfold (load_state (set terminal)) [] (rc_states raw) = Inr states"
    and ini: "initial \<in> set (dkeys states)" "initial \<notin> set terminal"
    and refs: "rmap (check_state_refs (set terminal) states (rc_limits raw)) (map snd states) = Inr us"
    and fb: "(case rc_fallbacks raw of None \<Rightarrow> Inr None
        | Some rf \<Rightarrow> rbind (parse_and_validate_fallbacks rf states) (\<lambda>fb. Inr (Some fb))) = Inr fallbacks"
    and cfg: "\<lparr>mc_initial_state = initial, mc_states = states,
        mc_terminal_states = set terminal, mc_limits = rc_limits raw, mc_fallbacks = fallbacks\<rparr> = cfg"
    unfolding load_config_def res_simps sum.inject by (elim exE conjE) (rule that; assumption)
  have defs: "\<forall>(s, sd) \<in> set states. state_def_ok (set terminal) s sd"
    using load_state_ok [OF st] by blast
  have rules: "\<forall>(s, sd) \<in> set states. \<forall>(a, r) \<in> set (sd_transitions sd).
      rule_ok (set terminal) states (rc_limits raw) r"
  proof (clarify)
    fix s sd a r
    assume "(s, sd) \<in> set states" and r: "(a, r) \<in> set (sd_transitions sd)"
    then have "sd \<in> set (map snd states)" by force
    from rmap_all [OF refs this] r show "rule_ok (set terminal) states (rc_limits raw) r"
      by (auto intro: check_state_refs_ok)
  qed
  have "fallbacks_ok states f" if "fallbacks = Some f" for f
    using fb that by (auto simp: res_simps split: option.splits intro: parse_fallbacks_ok)
  with ini defs rules show ?thesis
    by (auto simp: wf_config_def simp flip: cfg)
qed

end
