(* ===== verification/Machine.thy ===== *)
theory Machine
  imports StateMachine
begin

text \<open>
  \<^verbatim>\<open>app/conversation/state_machine/machine.py\<close> and \<^verbatim>\<open>transitions.py\<close>: the per-session
  machine, its single mutation entry point \<^verbatim>\<open>apply_transition\<close> with the detour stack, and
  the facts about its reachable states.
\<close>

section \<open>The machine\<close>

record machine =
  ms_config :: machine_config
  ms_current_state :: conversation_state
  ms_state_stack :: "conversation_state list"

record approved_transition =
  at_action :: agent_action
  at_from_state :: conversation_state
  at_to_state :: conversation_state
  at_outcome :: "str option"
  at_preserved_interest :: bool
  at_was_detour_return :: bool

definition is_terminal_outcome :: "approved_transition \<Rightarrow> bool" where
  "is_terminal_outcome t \<longleftrightarrow> at_outcome t \<noteq> None"

definition new_machine :: "machine_config \<Rightarrow> conversation_state option \<Rightarrow> machine res" where
  "new_machine cfg initial_state =
     (let start = (case initial_state of None \<Rightarrow> mc_initial_state cfg | Some s \<Rightarrow> s) in
      rbind (guard (start \<in> set (dkeys (mc_states cfg))) StateTransitionError) (\<lambda>_.
      rbind (guard (start \<notin> mc_terminal_states cfg) StateTransitionError) (\<lambda>_.
      Inr \<lparr>ms_config = cfg, ms_current_state = start, ms_state_stack = []\<rparr>)))"

definition is_terminal :: "machine \<Rightarrow> bool" where
  "is_terminal m \<longleftrightarrow> ms_current_state m \<in> mc_terminal_states (ms_config m)"

definition current_def :: "machine \<Rightarrow> state_definition res" where
  "current_def m = option_res KeyError (dget (mc_states (ms_config m)) (ms_current_state m))"

definition available_actions :: "machine \<Rightarrow> agent_action set res" where
  "available_actions m = rbind (current_def m) (\<lambda>sd. Inr (sd_allowed_actions sd))"

definition get_state_requirements :: "machine \<Rightarrow> conversation_state option \<Rightarrow> str list res" where
  "get_state_requirements m state =
     (let target = (case state of None \<Rightarrow> ms_current_state m | Some s \<Rightarrow> s) in
      rbind (option_res KeyError (dget (mc_states (ms_config m)) target)) (\<lambda>sd. Inr (sd_requires sd)))"

definition is_transition_eligible :: "machine \<Rightarrow> agent_action \<Rightarrow> bool res" where
  "is_transition_eligible m action =
     rbind (current_def m) (\<lambda>sd. Inr (action \<in> set (dkeys (sd_transitions sd))))"

definition resolve_target :: "machine \<Rightarrow> transition_rule \<Rightarrow> conversation_state res" where
  "resolve_target m rule =
     (if tr_target rule = PREVIOUS_STATE_SENTINEL
      then if ms_state_stack m = [] then Inl StateTransitionError else Inr (last (ms_state_stack m))
      else option_res ValueError (conversation_state_of (tr_target rule)))"

text \<open>The detour stack after the step: pop on a return, push on entering a detour state.\<close>

definition next_stack :: "machine \<Rightarrow> transition_rule \<Rightarrow> conversation_state \<Rightarrow> conversation_state list" where
  "next_stack m rule target =
     (if tr_target rule = PREVIOUS_STATE_SENTINEL then butlast (ms_state_stack m)
      else case dget (mc_states (ms_config m)) target of
             Some sd \<Rightarrow> if sd_is_detour sd then ms_state_stack m @ [ms_current_state m]
                        else ms_state_stack m
           | None \<Rightarrow> ms_state_stack m)"

definition apply_transition ::
  "machine \<Rightarrow> agent_action \<Rightarrow> 'c \<Rightarrow> (transition_rule \<Rightarrow> 'c \<Rightarrow> bool) option
    \<Rightarrow> approved_transition res \<times> machine" where
  "apply_transition m action ctx validator =
     (if is_terminal m then (Inl StateTransitionError, m)
      else case current_def m of
        Inl e \<Rightarrow> (Inl e, m)
      | Inr sd \<Rightarrow>
        (case dget (sd_transitions sd) action of
           None \<Rightarrow> (Inl StateTransitionError, m)
         | Some rule \<Rightarrow>
           if (case validator of None \<Rightarrow> False | Some v \<Rightarrow> \<not> v rule ctx)
           then (Inl StateTransitionError, m)
           else case resolve_target m rule of
             Inl e \<Rightarrow> (Inl e, m)
           | Inr target \<Rightarrow>
             (Inr \<lparr>at_action = action, at_from_state = ms_current_state m, at_to_state = target,
                   at_outcome = tr_outcome rule,
                   at_preserved_interest = tr_preserve_interest rule,
                   at_was_detour_return = (tr_target rule = PREVIOUS_STATE_SENTINEL)\<rparr>,
              m\<lparr>ms_state_stack := next_stack m rule target, ms_current_state := target\<rparr>)))"

lemmas apply_transition_splits = if_splits sum.splits option.splits prod.splits

lemma apply_transition_Inl_same:
  "apply_transition m a ctx v = (Inl e, m') \<Longrightarrow> m' = m"
  by (auto simp: apply_transition_def split: apply_transition_splits)

lemma apply_transition_config [frame]:
  "apply_transition m a ctx v = (r, m') \<Longrightarrow> ms_config m' = ms_config m"
  by (auto simp: apply_transition_def split: apply_transition_splits)

lemma apply_transition_terminal:
  "is_terminal m \<Longrightarrow> apply_transition m a ctx v = (Inl StateTransitionError, m)"
  by (simp add: apply_transition_def)

lemma apply_transition_InrE:
  assumes "apply_transition m a ctx v = (Inr t, m')"
  obtains sd rule where "\<not> is_terminal m"
    and "dget (mc_states (ms_config m)) (ms_current_state m) = Some sd"
    and "dget (sd_transitions sd) a = Some rule"
    and "resolve_target m rule = Inr (at_to_state t)"
    and "m' = m\<lparr>ms_state_stack := next_stack m rule (at_to_state t),
                ms_current_state := at_to_state t\<rparr>"
    and "at_action t = a" and "at_from_state t = ms_current_state m"
    and "at_outcome t = tr_outcome rule"
    and "at_preserved_interest t = tr_preserve_interest rule"
    and "at_was_detour_return t = (tr_target rule = PREVIOUS_STATE_SENTINEL)"
    and "\<And>f. v = Some f \<Longrightarrow> f rule ctx"
  using assms
  by (auto simp: apply_transition_def current_def_def res_simps split: apply_transition_splits)

text \<open>
  The engine may pass a prerequisite hook as validator. A validator only restricts: what it
  lets through is what the machine does without it.
\<close>

abbreviation transition :: "machine \<Rightarrow> agent_action \<Rightarrow> approved_transition res \<times> machine" where
  "transition m a \<equiv> apply_transition m a () None"

lemma apply_transition_without_validator:
  "apply_transition m a ctx v = (Inr t, m') \<Longrightarrow> transition m a = (Inr t, m')"
  by (auto simp: apply_transition_def split: apply_transition_splits)

section \<open>Reachable machines and their invariant\<close>

inductive reachable :: "machine_config \<Rightarrow> machine \<Rightarrow> bool" for cfg where
  start: "new_machine cfg ini = Inr m \<Longrightarrow> reachable cfg m"
| step: "reachable cfg m \<Longrightarrow> transition m a = (Inr t, m') \<Longrightarrow> reachable cfg m'"

definition is_detour_in :: "machine_config \<Rightarrow> conversation_state \<Rightarrow> bool" where
  "is_detour_in cfg s \<longleftrightarrow> (\<exists>sd. dget (mc_states cfg) s = Some sd \<and> sd_is_detour sd)"

text \<open>Every state on the stack, and the current one, is a state of the configuration.\<close>

definition machine_ok :: "machine \<Rightarrow> bool" where
  "machine_ok m \<longleftrightarrow> wf_config (ms_config m)
     \<and> (\<forall>s \<in> set (ms_state_stack m @ [ms_current_state m]). s \<in> set (dkeys (mc_states (ms_config m))))"

text \<open>The state the session started in, below everything the stack remembers, is no detour.\<close>

definition base_ok :: "machine \<Rightarrow> bool" where
  "base_ok m \<longleftrightarrow> \<not> is_detour_in (ms_config m) (hd (ms_state_stack m @ [ms_current_state m]))"

lemma wf_rule_ok:
  assumes "wf_config cfg" and "dget (mc_states cfg) s = Some sd"
    and "dget (sd_transitions sd) a = Some r"
  shows "rule_ok (mc_terminal_states cfg) (mc_states cfg) (mc_limits cfg) r"
  using assms map_of_SomeD [OF assms(2)] map_of_SomeD [OF assms(3)]
  unfolding wf_config_def by blast

lemma wf_state_def_ok:
  assumes "wf_config cfg" and "dget (mc_states cfg) s = Some sd"
  shows "state_def_ok (mc_terminal_states cfg) s sd"
  using assms map_of_SomeD [OF assms(2)] unfolding wf_config_def by blast

lemma new_machine_ok:
  assumes "wf_config cfg" and "new_machine cfg ini = Inr m"
  shows "machine_ok m"
proof -
  from assms(2) obtain start where "start \<in> set (dkeys (mc_states cfg))"
    and "m = \<lparr>ms_config = cfg, ms_current_state = start, ms_state_stack = []\<rparr>"
    unfolding new_machine_def Let_def res_simps by fast
  with assms(1) show ?thesis by (simp add: machine_ok_def)
qed

lemma machine_ok_target:
  assumes "machine_ok m"
    and "dget (mc_states (ms_config m)) (ms_current_state m) = Some sd"
    and "dget (sd_transitions sd) a = Some rule"
    and "resolve_target m rule = Inr target"
  shows "target \<in> set (dkeys (mc_states (ms_config m)))"
proof (cases "tr_target rule = PREVIOUS_STATE_SENTINEL")
  case True
  with assms(4) have "target = last (ms_state_stack m)" "ms_state_stack m \<noteq> []"
    by (auto simp: resolve_target_def split: if_splits)
  then have "target \<in> set (ms_state_stack m)" by simp
  with assms(1) show ?thesis by (simp add: machine_ok_def)
next
  case False
  from assms(1) have "wf_config (ms_config m)" by (simp add: machine_ok_def)
  from wf_rule_ok [OF this assms(2,3)] False assms(4) show ?thesis
    by (auto simp: rule_ok_def resolve_target_def)
qed

lemma next_stack_subset:
  "set (next_stack m rule target) \<subseteq> set (ms_state_stack m @ [ms_current_state m])"
  by (auto simp: next_stack_def dest: in_set_butlastD split: option.splits)

lemma apply_transition_machine_ok [inv_intros]:
  assumes "machine_ok m" and "apply_transition m a ctx v = (r, m')"
  shows "machine_ok m'"
proof (cases r)
  case (Inl e)
  with assms show ?thesis using apply_transition_Inl_same by metis
next
  case (Inr t)
  with assms(2) have "apply_transition m a ctx v = (Inr t, m')" by simp
  then show ?thesis
  proof (rule apply_transition_InrE)
    fix sd rule
    assume sd: "dget (mc_states (ms_config m)) (ms_current_state m) = Some sd"
      and rule: "dget (sd_transitions sd) a = Some rule"
      and tgt: "resolve_target m rule = Inr (at_to_state t)"
      and m': "m' = m\<lparr>ms_state_stack := next_stack m rule (at_to_state t),
                      ms_current_state := at_to_state t\<rparr>"
    from machine_ok_target [OF assms(1) sd rule tgt] next_stack_subset [of m rule "at_to_state t"]
      assms(1)
    show "machine_ok m'" unfolding m' machine_ok_def by auto
  qed
qed

lemma apply_transition_errors:
  assumes "machine_ok m" and "apply_transition m a ctx v = (Inl e, m')"
  shows "e = StateTransitionError"
proof -
  have cur: "ms_current_state m \<in> set (dkeys (mc_states (ms_config m)))"
    and wf: "wf_config (ms_config m)"
    using assms(1) by (auto simp: machine_ok_def)
  then obtain sd where sd: "dget (mc_states (ms_config m)) (ms_current_state m) = Some sd"
    by (auto simp only: dget_dom)
  have res: "e' = StateTransitionError"
    if "dget (sd_transitions sd) a = Some rule" "resolve_target m rule = Inl e'" for rule e'
    using wf_rule_ok [OF wf sd that(1)] that(2)
    by (auto simp: resolve_target_def rule_ok_def split: if_splits)
  from assms(2) show ?thesis
    by (auto simp: apply_transition_def current_def_def sd split: apply_transition_splits dest: res)
qed

lemma hd_append_singleton: "hd (xs @ [x] @ ys) = hd (xs @ [x])"
  by (cases xs) auto

lemma hd_butlast_last: "xs \<noteq> [] \<Longrightarrow> hd (butlast xs @ [last xs]) = hd (xs @ [y])"
  by (cases xs) auto

lemma apply_transition_base_ok [inv_intros]:
  assumes "base_ok m" and "apply_transition m a ctx v = (r, m')"
  shows "base_ok m'"
proof (cases r)
  case (Inl e)
  with assms show ?thesis using apply_transition_Inl_same by metis
next
  case (Inr t)
  with assms(2) have "apply_transition m a ctx v = (Inr t, m')" by simp
  then show ?thesis
  proof (rule apply_transition_InrE)
    fix sd rule
    assume tgt: "resolve_target m rule = Inr (at_to_state t)"
      and m': "m' = m\<lparr>ms_state_stack := next_stack m rule (at_to_state t),
                      ms_current_state := at_to_state t\<rparr>"
    show "base_ok m'"
    proof (cases "tr_target rule = PREVIOUS_STATE_SENTINEL")
      case True
      with tgt have ne: "ms_state_stack m \<noteq> []" and to: "at_to_state t = last (ms_state_stack m)"
        by (auto simp: resolve_target_def split: if_splits)
      from True assms(1) show ?thesis
        unfolding m' base_ok_def
        by (simp add: next_stack_def to hd_butlast_last [OF ne, of "ms_current_state m"])
    next
      case False
      with assms(1) show ?thesis
        unfolding m' base_ok_def
        by (cases "ms_state_stack m")
           (auto simp: next_stack_def is_detour_in_def split: option.splits)
    qed
  qed
qed

lemma reachable_config: "reachable cfg m \<Longrightarrow> ms_config m = cfg"
  by (induction rule: reachable.induct)
     (auto simp: new_machine_def Let_def res_simps dest: apply_transition_config)

lemma reachable_ok: "reachable cfg m \<Longrightarrow> wf_config cfg \<Longrightarrow> machine_ok m"
  by (induction rule: reachable.induct)
     (auto intro: new_machine_ok apply_transition_machine_ok)

text \<open>Runs of a machine over proposed actions; a rejected action leaves it where it is.\<close>

definition machine_step :: "machine \<Rightarrow> agent_action \<Rightarrow> machine" where
  "machine_step m a = snd (transition m a)"

interpretation machine_run: kept machine_step machine_ok
  by unfold_locales (simp add: machine_step_def apply_transition_machine_ok [OF _ surjective_pairing])

interpretation detour_run: kept machine_step base_ok
  by unfold_locales (simp add: machine_step_def apply_transition_base_ok [OF _ surjective_pairing])

lemma machine_step_reachable: "reachable cfg m \<Longrightarrow> reachable cfg (machine_step m a)"
proof -
  assume r: "reachable cfg m"
  obtain res m' where t: "transition m a = (res, m')" by force
  show "reachable cfg (machine_step m a)"
  proof (cases res)
    case (Inl e)
    with t r apply_transition_Inl_same [of m a "()" None] show ?thesis
      by (auto simp: machine_step_def)
  next
    case (Inr u)
    with t r show ?thesis by (auto simp: machine_step_def intro: reachable.step)
  qed
qed

lemma machine_step_config [simp]: "ms_config (machine_step m a) = ms_config m"
  using apply_transition_config [of m a "()" None] by (cases "transition m a") (simp add: machine_step_def)

lemma base_ok_stack:
  "base_ok m \<Longrightarrow> is_detour_in (ms_config m) (ms_current_state m) \<Longrightarrow> ms_state_stack m \<noteq> []"
  by (auto simp: base_ok_def)

end
