(* ===== verification/ShippedConfig.thy ===== *)
theory ShippedConfig
  imports Machine
begin

text \<open>
  The document \<^verbatim>\<open>app/config/conversation_config.yaml\<close> that the repository ships, as the
  loader reads it, and what the loader and the machine make of it.
\<close>

definition raw_rule_to ::
  "str \<Rightarrow> str option \<Rightarrow> str list \<Rightarrow> str option \<Rightarrow> bool \<Rightarrow> raw_rule" where
  "raw_rule_to target outcome requires retry preserve =
     \<lparr>rr_to = Some target, rr_outcome = outcome, rr_requires = requires, rr_retry = retry,
      rr_preserve_interest = preserve\<rparr>"

definition raw_mapping_to :: "str \<Rightarrow> str \<Rightarrow> raw_mapping" where
  "raw_mapping_to action key = \<lparr>rm_action = Some action, rm_response_key = Some key\<rparr>"

definition conversation_config :: raw_config where
  "conversation_config = \<lparr>rc_initial_state = Some ''new_call'', rc_terminal_states = [''end_call''],
   rc_states = [
    (''new_call'', \<lparr>rs_actions = [''greet'', ''mark_dnc''],
      rs_requires = [], rs_is_detour = False,
      rs_transitions = [(''greet'', raw_rule_to ''greeting'' None [] None False),
        (''mark_dnc'', raw_rule_to ''end_call'' (Some ''do_not_call'') [] None False)]\<rparr>),
    (''greeting'', \<lparr>rs_actions = [''ask_identity'', ''mark_dnc'', ''end_call''],
      rs_requires = [], rs_is_detour = False,
      rs_transitions = [(''ask_identity'', raw_rule_to ''identify_person'' None [] None False),
        (''mark_dnc'', raw_rule_to ''end_call'' (Some ''do_not_call'') [] None False),
        (''end_call'', raw_rule_to ''end_call'' (Some ''failed'') [] None False)]\<rparr>),
    (''identify_person'', \<lparr>rs_actions = [''introduce_reason'', ''ask_identity'', ''mark_dnc'', ''end_call''],
      rs_requires = [], rs_is_detour = False,
      rs_transitions = [(''introduce_reason'', raw_rule_to ''introduce'' None [] None False),
        (''ask_identity'', raw_rule_to ''identify_decision_maker'' None [] None False),
        (''mark_dnc'', raw_rule_to ''end_call'' (Some ''do_not_call'') [] None False),
        (''end_call'', raw_rule_to ''end_call'' (Some ''wrong_number'') [] None False)]\<rparr>),
    (''follow_up'', \<lparr>rs_actions = [''introduce_reason'', ''mark_dnc''],
      rs_requires = [''previous_conversation_exists''], rs_is_detour = False,
      rs_transitions = [(''introduce_reason'', raw_rule_to ''reason_for_call'' None [] None False),
        (''mark_dnc'', raw_rule_to ''end_call'' (Some ''do_not_call'') [] None False)]\<rparr>),
    (''introduce'', \<lparr>rs_actions = [''introduce_reason'', ''mark_dnc''],
      rs_requires = [], rs_is_detour = False,
      rs_transitions = [(''introduce_reason'', raw_rule_to ''reason_for_call'' None [] None False),
        (''mark_dnc'', raw_rule_to ''end_call'' (Some ''do_not_call'') [] None False)]\<rparr>),
    (''reason_for_call'', \<lparr>rs_actions = [''introduce_reason'', ''mark_dnc''],
      rs_requires = [], rs_is_detour = False,
      rs_transitions = [(''introduce_reason'', raw_rule_to ''listen'' None [] None False),
        (''mark_dnc'', raw_rule_to ''end_call'' (Some ''do_not_call'') [] None False)]\<rparr>),
    (''listen'', \<lparr>rs_actions = [''ask_email'', ''offer_service'', ''schedule_callback'', ''answer_question'', ''ask_identity'', ''mark_dnc'', ''end_call''],
      rs_requires = [], rs_is_detour = False,
      rs_transitions = [(''ask_email'', raw_rule_to ''collect_email'' None [] None False),
        (''offer_service'', raw_rule_to ''explore_alternative'' None [''has_applicable_alternative''] None False),
        (''schedule_callback'', raw_rule_to ''schedule_callback'' None [] None True),
        (''answer_question'', raw_rule_to ''handle_question'' None [] None False),
        (''ask_identity'', raw_rule_to ''identify_decision_maker'' None [] None False),
        (''mark_dnc'', raw_rule_to ''end_call'' (Some ''do_not_call'') [] None False),
        (''end_call'', raw_rule_to ''end_call'' (Some ''not_interested'') [] None False)]\<rparr>),
    (''explore_alternative'', \<lparr>rs_actions = [''ask_email'', ''offer_service'', ''schedule_callback'', ''answer_question'', ''mark_dnc'', ''end_call''],
      rs_requires = [], rs_is_detour = False,
      rs_transitions = [(''ask_email'', raw_rule_to ''collect_email'' None [] None False),
        (''offer_service'', raw_rule_to ''explore_alternative'' None [''has_applicable_alternative''] (Some ''service_offer'') False),
        (''schedule_callback'', raw_rule_to ''schedule_callback'' None [] None True),
        (''answer_question'', raw_rule_to ''handle_question'' None [] None False),
        (''mark_dnc'', raw_rule_to ''end_call'' (Some ''do_not_call'') [] None False),
        (''end_call'', raw_rule_to ''end_call'' (Some ''not_interested'') [] None False)]\<rparr>),
    (''handle_question'', \<lparr>rs_actions = [''answer_question'', ''end_call'', ''mark_dnc''],
      rs_requires = [], rs_is_detour = True,
      rs_transitions = [(''answer_question'', raw_rule_to ''__previous__'' None [] None False),
        (''mark_dnc'', raw_rule_to ''end_call'' (Some ''do_not_call'') [] None False),
        (''end_call'', raw_rule_to ''end_call'' (Some ''not_interested'') [] None False)]\<rparr>),
    (''collect_email'', \<lparr>rs_actions = [''ask_email'', ''confirm_contact'', ''clarify_contact'', ''schedule_callback'', ''mark_dnc'', ''end_call''],
      rs_requires = [], rs_is_detour = False,
      rs_transitions = [(''confirm_contact'', raw_rule_to ''confirm_contact'' None [''contact_candidate_exists''] None False),
        (''clarify_contact'', raw_rule_to ''collect_email'' None [] (Some ''email_clarification'') False),
        (''ask_email'', raw_rule_to ''collect_email'' None [] (Some ''email_clarification'') False),
        (''schedule_callback'', raw_rule_to ''schedule_callback'' None [] None True),
        (''mark_dnc'', raw_rule_to ''end_call'' (Some ''do_not_call'') [] None False),
        (''end_call'', raw_rule_to ''end_call'' (Some ''not_interested'') [] None False)]\<rparr>),
    (''confirm_contact'', \<lparr>rs_actions = [''confirm_contact'', ''ask_email'', ''mark_dnc'', ''end_call''],
      rs_requires = [''contact_candidate_exists''], rs_is_detour = False,
      rs_transitions = [(''confirm_contact'', raw_rule_to ''end_call'' (Some ''qualified'') [''contact_confirmed''] None False),
        (''ask_email'', raw_rule_to ''collect_email'' None [] None False),
        (''mark_dnc'', raw_rule_to ''end_call'' (Some ''do_not_call'') [] None False),
        (''end_call'', raw_rule_to ''end_call'' (Some ''not_interested'') [] None False)]\<rparr>),
    (''schedule_callback'', \<lparr>rs_actions = [''schedule_callback'', ''mark_dnc'', ''end_call''],
      rs_requires = [], rs_is_detour = False,
      rs_transitions = [(''schedule_callback'', raw_rule_to ''end_call'' (Some ''callback_scheduled'') [''callback_context_exists''] None False),
        (''mark_dnc'', raw_rule_to ''end_call'' (Some ''do_not_call'') [] None False),
        (''end_call'', raw_rule_to ''end_call'' (Some ''not_interested'') [] None False)]\<rparr>),
    (''identify_decision_maker'', \<lparr>rs_actions = [''introduce_reason'', ''mark_dnc'', ''end_call''],
      rs_requires = [], rs_is_detour = False,
      rs_transitions = [(''introduce_reason'', raw_rule_to ''reason_for_call'' None [] None False),
        (''mark_dnc'', raw_rule_to ''end_call'' (Some ''do_not_call'') [] None False),
        (''end_call'', raw_rule_to ''end_call'' (Some ''wrong_number'') [] None False)]\<rparr>),
    (''end_call'', \<lparr>rs_actions = [],
      rs_requires = [], rs_is_detour = False,
      rs_transitions = []\<rparr>)],
   rc_limits = [(''email_clarification_max_attempts'', 3), (''phone_clarification_max_attempts'', 3),
     (''unclear_intent_max_attempts'', 2), (''service_offer_max_attempts'', 3)],
   rc_fallbacks = Some \<lparr>rf_by_state = [
      (''greeting'', raw_mapping_to ''ask_identity'' ''safe_close''),
      (''identify_person'', raw_mapping_to ''introduce_reason'' ''safe_close''),
      (''introduce'', raw_mapping_to ''introduce_reason'' ''safe_close''),
      (''reason_for_call'', raw_mapping_to ''introduce_reason'' ''safe_close''),
      (''listen'', raw_mapping_to ''answer_question'' ''safe_close''),
      (''handle_question'', raw_mapping_to ''answer_question'' ''safe_close''),
      (''identify_decision_maker'', raw_mapping_to ''introduce_reason'' ''safe_close''),
      (''explore_alternative'', raw_mapping_to ''answer_question'' ''safe_close''),
      (''collect_email'', raw_mapping_to ''ask_email'' ''repeat_email''),
      (''confirm_contact'', raw_mapping_to ''confirm_contact'' ''confirm_again''),
      (''schedule_callback'', raw_mapping_to ''schedule_callback'' ''clarify_callback_time'')],
     rf_by_category = [
      (''dnc_conflict'', raw_mapping_to ''mark_dnc'' ''acknowledge_dnc''),
      (''unknown_requirement'', raw_mapping_to ''end_call'' ''safe_close'')],
     rf_default = Some (raw_mapping_to ''end_call'' ''safe_close'')\<rparr>\<rparr>"

definition shipped_config :: machine_config where
  "shipped_config = projr (load_config (Some conversation_config))"

definition rule_to ::
  "agent_action \<Rightarrow> str \<Rightarrow> str option \<Rightarrow> str list \<Rightarrow> str option \<Rightarrow> bool \<Rightarrow> transition_rule" where
  "rule_to action target outcome requires retry preserve =
     \<lparr>tr_action = action, tr_target = target, tr_outcome = outcome, tr_requires = requires,
      tr_retry_bucket = retry, tr_preserve_interest = preserve\<rparr>"

text \<open>The loaded value written out, so that evaluation need not run the loader again.\<close>

lemma shipped_config_value [code]:
  "shipped_config = \<lparr>mc_initial_state = St_NEW_CALL, mc_states = [
    (St_NEW_CALL, \<lparr>sd_name = St_NEW_CALL,
      sd_allowed_actions = set [Act_GREET, Act_MARK_DNC],
      sd_transitions = [(Act_GREET, rule_to Act_GREET ''greeting'' None [] None False),
        (Act_MARK_DNC, rule_to Act_MARK_DNC ''end_call'' (Some ''do_not_call'') [] None False)],
      sd_requires = [], sd_is_detour = False, sd_is_terminal = False\<rparr>),
    (St_GREETING, \<lparr>sd_name = St_GREETING,
      sd_allowed_actions = set [Act_ASK_IDENTITY, Act_MARK_DNC, Act_END_CALL],
      sd_transitions = [(Act_ASK_IDENTITY, rule_to Act_ASK_IDENTITY ''identify_person'' None [] None False),
        (Act_MARK_DNC, rule_to Act_MARK_DNC ''end_call'' (Some ''do_not_call'') [] None False),
        (Act_END_CALL, rule_to Act_END_CALL ''end_call'' (Some ''failed'') [] None False)],
      sd_requires = [], sd_is_detour = False, sd_is_terminal = False\<rparr>),
    (St_IDENTIFY_PERSON, \<lparr>sd_name = St_IDENTIFY_PERSON,
      sd_allowed_actions = set [Act_INTRODUCE_REASON, Act_ASK_IDENTITY, Act_MARK_DNC, Act_END_CALL],
      sd_transitions = [(Act_INTRODUCE_REASON, rule_to Act_INTRODUCE_REASON ''introduce'' None [] None False),
        (Act_ASK_IDENTITY, rule_to Act_ASK_IDENTITY ''identify_decision_maker'' None [] None False),
        (Act_MARK_DNC, rule_to Act_MARK_DNC ''end_call'' (Some ''do_not_call'') [] None False),
        (Act_END_CALL, rule_to Act_END_CALL ''end_call'' (Some ''wrong_number'') [] None False)],
      sd_requires = [], sd_is_detour = False, sd_is_terminal = False\<rparr>),
    (St_FOLLOW_UP, \<lparr>sd_name = St_FOLLOW_UP,
      sd_allowed_actions = set [Act_INTRODUCE_REASON, Act_MARK_DNC],
      sd_transitions = [(Act_INTRODUCE_REASON, rule_to Act_INTRODUCE_REASON ''reason_for_call'' None [] None False),
        (Act_MARK_DNC, rule_to Act_MARK_DNC ''end_call'' (Some ''do_not_call'') [] None False)],
      sd_requires = [''previous_conversation_exists''], sd_is_detour = False, sd_is_terminal = False\<rparr>),
    (St_INTRODUCE, \<lparr>sd_name = St_INTRODUCE,
      sd_allowed_actions = set [Act_INTRODUCE_REASON, Act_MARK_DNC],
      sd_transitions = [(Act_INTRODUCE_REASON, rule_to Act_INTRODUCE_REASON ''reason_for_call'' None [] None False),
        (Act_MARK_DNC, rule_to Act_MARK_DNC ''end_call'' (Some ''do_not_call'') [] None False)],
      sd_requires = [], sd_is_detour = False, sd_is_terminal = False\<rparr>),
    (St_REASON_FOR_CALL, \<lparr>sd_name = St_REASON_FOR_CALL,
      sd_allowed_actions = set [Act_INTRODUCE_REASON, Act_MARK_DNC],
      sd_transitions = [(Act_INTRODUCE_REASON, rule_to Act_INTRODUCE_REASON ''listen'' None [] None False),
        (Act_MARK_DNC, rule_to Act_MARK_DNC ''end_call'' (Some ''do_not_call'') [] None False)],
      sd_requires = [], sd_is_detour = False, sd_is_terminal = False\<rparr>),
    (St_LISTEN, \<lparr>sd_name = St_LISTEN,
      sd_allowed_actions = set [Act_ASK_EMAIL, Act_OFFER_SERVICE, Act_SCHEDULE_CALLBACK, Act_ANSWER_QUESTION, Act_ASK_IDENTITY, Act_MARK_DNC, Act_END_CALL],
      sd_transitions = [(Act_ASK_EMAIL, rule_to Act_ASK_EMAIL ''collect_email'' None [] None False),
        (Act_OFFER_SERVICE, rule_to Act_OFFER_SERVICE ''explore_alternative'' None [''has_applicable_alternative''] None False),
        (Act_SCHEDULE_CALLBACK, rule_to Act_SCHEDULE_CALLBACK ''schedule_callback'' None [] None True),
        (Act_ANSWER_QUESTION, rule_to Act_ANSWER_QUESTION ''handle_question'' None [] None False),
        (Act_ASK_IDENTITY, rule_to Act_ASK_IDENTITY ''identify_decision_maker'' None [] None False),
        (Act_MARK_DNC, rule_to Act_MARK_DNC ''end_call'' (Some ''do_not_call'') [] None False),
        (Act_END_CALL, rule_to Act_END_CALL ''end_call'' (Some ''not_interested'') [] None False)],
      sd_requires = [], sd_is_detour = False, sd_is_terminal = False\<rparr>),
    (St_EXPLORE_ALTERNATIVE, \<lparr>sd_name = St_EXPLORE_ALTERNATIVE,
      sd_allowed_actions = set [Act_ASK_EMAIL, Act_OFFER_SERVICE, Act_SCHEDULE_CALLBACK, Act_ANSWER_QUESTION, Act_MARK_DNC, Act_END_CALL],
      sd_transitions = [(Act_ASK_EMAIL, rule_to Act_ASK_EMAIL ''collect_email'' None [] None False),
        (Act_OFFER_SERVICE, rule_to Act_OFFER_SERVICE ''explore_alternative'' None [''has_applicable_alternative''] (Some ''service_offer'') False),
        (Act_SCHEDULE_CALLBACK, rule_to Act_SCHEDULE_CALLBACK ''schedule_callback'' None [] None True),
        (Act_ANSWER_QUESTION, rule_to Act_ANSWER_QUESTION ''handle_question'' None [] None False),
        (Act_MARK_DNC, rule_to Act_MARK_DNC ''end_call'' (Some ''do_not_call'') [] None False),
        (Act_END_CALL, rule_to Act_END_CALL ''end_call'' (Some ''not_interested'') [] None False)],
      sd_requires = [], sd_is_detour = False, sd_is_terminal = False\<rparr>),
    (St_HANDLE_QUESTION, \<lparr>sd_name = St_HANDLE_QUESTION,
      sd_allowed_actions = set [Act_ANSWER_QUESTION, Act_END_CALL, Act_MARK_DNC],
      sd_transitions = [(Act_ANSWER_QUESTION, rule_to Act_ANSWER_QUESTION ''__previous__'' None [] None False),
        (Act_MARK_DNC, rule_to Act_MARK_DNC ''end_call'' (Some ''do_not_call'') [] None False),
        (Act_END_CALL, rule_to Act_END_CALL ''end_call'' (Some ''not_interested'') [] None False)],
      sd_requires = [], sd_is_detour = True, sd_is_terminal = False\<rparr>),
    (St_COLLECT_EMAIL, \<lparr>sd_name = St_COLLECT_EMAIL,
      sd_allowed_actions = set [Act_ASK_EMAIL, Act_CONFIRM_CONTACT, Act_CLARIFY_CONTACT, Act_SCHEDULE_CALLBACK, Act_MARK_DNC, Act_END_CALL],
      sd_transitions = [(Act_CONFIRM_CONTACT, rule_to Act_CONFIRM_CONTACT ''confirm_contact'' None [''contact_candidate_exists''] None False),
        (Act_CLARIFY_CONTACT, rule_to Act_CLARIFY_CONTACT ''collect_email'' None [] (Some ''email_clarification'') False),
        (Act_ASK_EMAIL, rule_to Act_ASK_EMAIL ''collect_email'' None [] (Some ''email_clarification'') False),
        (Act_SCHEDULE_CALLBACK, rule_to Act_SCHEDULE_CALLBACK ''schedule_callback'' None [] None True),
        (Act_MARK_DNC, rule_to Act_MARK_DNC ''end_call'' (Some ''do_not_call'') [] None False),
        (Act_END_CALL, rule_to Act_END_CALL ''end_call'' (Some ''not_interested'') [] None False)],
      sd_requires = [], sd_is_detour = False, sd_is_terminal = False\<rparr>),
    (St_CONFIRM_CONTACT, \<lparr>sd_name = St_CONFIRM_CONTACT,
      sd_allowed_actions = set [Act_CONFIRM_CONTACT, Act_ASK_EMAIL, Act_MARK_DNC, Act_END_CALL],
      sd_transitions = [(Act_CONFIRM_CONTACT, rule_to Act_CONFIRM_CONTACT ''end_call'' (Some ''qualified'') [''contact_confirmed''] None False),
        (Act_ASK_EMAIL, rule_to Act_ASK_EMAIL ''collect_email'' None [] None False),
        (Act_MARK_DNC, rule_to Act_MARK_DNC ''end_call'' (Some ''do_not_call'') [] None False),
        (Act_END_CALL, rule_to Act_END_CALL ''end_call'' (Some ''not_interested'') [] None False)],
      sd_requires = [''contact_candidate_exists''], sd_is_detour = False, sd_is_terminal = False\<rparr>),
    (St_SCHEDULE_CALLBACK, \<lparr>sd_name = St_SCHEDULE_CALLBACK,
      sd_allowed_actions = set [Act_SCHEDULE_CALLBACK, Act_MARK_DNC, Act_END_CALL],
      sd_transitions = [(Act_SCHEDULE_CALLBACK, rule_to Act_SCHEDULE_CALLBACK ''end_call'' (Some ''callback_scheduled'') [''callback_context_exists''] None False),
        (Act_MARK_DNC, rule_to Act_MARK_DNC ''end_call'' (Some ''do_not_call'') [] None False),
        (Act_END_CALL, rule_to Act_END_CALL ''end_call'' (Some ''not_interested'') [] None False)],
      sd_requires = [], sd_is_detour = False, sd_is_terminal = False\<rparr>),
    (St_IDENTIFY_DECISION_MAKER, \<lparr>sd_name = St_IDENTIFY_DECISION_MAKER,
      sd_allowed_actions = set [Act_INTRODUCE_REASON, Act_MARK_DNC, Act_END_CALL],
      sd_transitions = [(Act_INTRODUCE_REASON, rule_to Act_INTRODUCE_REASON ''reason_for_call'' None [] None False),
        (Act_MARK_DNC, rule_to Act_MARK_DNC ''end_call'' (Some ''do_not_call'') [] None False),
        (Act_END_CALL, rule_to Act_END_CALL ''end_call'' (Some ''wrong_number'') [] None False)],
      sd_requires = [], sd_is_detour = False, sd_is_terminal = False\<rparr>),
    (St_END_CALL, \<lparr>sd_name = St_END_CALL,
      sd_allowed_actions = set [],
      sd_transitions = [],
      sd_requires = [], sd_is_detour = False, sd_is_terminal = True\<rparr>)],
   mc_terminal_states = set [St_END_CALL],
   mc_limits = [(''email_clarification_max_attempts'', 3), (''phone_clarification_max_attempts'', 3),
     (''unclear_intent_max_attempts'', 2), (''service_offer_max_attempts'', 3)],
   mc_fallbacks = Some \<lparr>fc_by_state = [
      (St_GREETING, \<lparr>fm_action = Act_ASK_IDENTITY, fm_response_key = ''safe_close''\<rparr>),
      (St_IDENTIFY_PERSON, \<lparr>fm_action = Act_INTRODUCE_REASON, fm_response_key = ''safe_close''\<rparr>),
      (St_INTRODUCE, \<lparr>fm_action = Act_INTRODUCE_REASON, fm_response_key = ''safe_close''\<rparr>),
      (St_REASON_FOR_CALL, \<lparr>fm_action = Act_INTRODUCE_REASON, fm_response_key = ''safe_close''\<rparr>),
      (St_LISTEN, \<lparr>fm_action = Act_ANSWER_QUESTION, fm_response_key = ''safe_close''\<rparr>),
      (St_HANDLE_QUESTION, \<lparr>fm_action = Act_ANSWER_QUESTION, fm_response_key = ''safe_close''\<rparr>),
      (St_IDENTIFY_DECISION_MAKER, \<lparr>fm_action = Act_INTRODUCE_REASON, fm_response_key = ''safe_close''\<rparr>),
      (St_EXPLORE_ALTERNATIVE, \<lparr>fm_action = Act_ANSWER_QUESTION, fm_response_key = ''safe_close''\<rparr>),
      (St_COLLECT_EMAIL, \<lparr>fm_action = Act_ASK_EMAIL, fm_response_key = ''repeat_email''\<rparr>),
      (St_CONFIRM_CONTACT, \<lparr>fm_action = Act_CONFIRM_CONTACT, fm_response_key = ''confirm_again''\<rparr>),
      (St_SCHEDULE_CALLBACK, \<lparr>fm_action = Act_SCHEDULE_CALLBACK, fm_response_key = ''clarify_callback_time''\<rparr>)],
     fc_by_category = [
      (''dnc_conflict'', \<lparr>fm_action = Act_MARK_DNC, fm_response_key = ''acknowledge_dnc''\<rparr>),
      (''unknown_requirement'', \<lparr>fm_action = Act_END_CALL, fm_response_key = ''safe_close''\<rparr>)],
     fc_default = \<lparr>fm_action = Act_END_CALL, fm_response_key = ''safe_close''\<rparr>\<rparr>\<rparr>"
  by code_simp

lemma shipped_accepted: "isl (load_config (Some conversation_config)) = False"
  by code_simp

lemma shipped_loaded: "load_config (Some conversation_config) = Inr shipped_config"
  using shipped_accepted by (cases "load_config (Some conversation_config)")
    (simp_all add: shipped_config_def)

lemma shipped_wf: "wf_config shipped_config"
  using shipped_loaded by (rule load_config_wf)

text \<open>The machine of a call: \<^verbatim>\<open>ConversationStateMachine(load_config(...))\<close>.\<close>

definition shipped_machine :: machine where
  "shipped_machine = projr (new_machine shipped_config None)"

lemma shipped_machine_started: "new_machine shipped_config None = Inr shipped_machine"
proof -
  have "isl (new_machine shipped_config None) = False" by code_simp
  then show ?thesis
    by (cases "new_machine shipped_config None") (simp_all add: shipped_machine_def)
qed

lemma shipped_start: "ms_current_state shipped_machine = St_NEW_CALL"
  "ms_config shipped_machine = shipped_config" "ms_state_stack shipped_machine = []"
proof -
  have "mc_initial_state shipped_config = St_NEW_CALL" by code_simp
  then have eq: "shipped_machine = \<lparr>ms_config = shipped_config, ms_current_state = St_NEW_CALL,
      ms_state_stack = []\<rparr>"
    using shipped_machine_started unfolding new_machine_def Let_def res_simps by simp
  show "ms_current_state shipped_machine = St_NEW_CALL"
    "ms_config shipped_machine = shipped_config" "ms_state_stack shipped_machine = []"
    by (simp_all add: eq)
qed

lemma shipped_machine_value [code]:
  "shipped_machine = \<lparr>ms_config = shipped_config, ms_current_state = St_NEW_CALL,
      ms_state_stack = []\<rparr>"
  using shipped_start by simp

section \<open>Facts about the shipped transition table, by evaluation\<close>

definition returns_only_from_detours :: "machine_config \<Rightarrow> bool" where
  "returns_only_from_detours cfg \<longleftrightarrow>
     (\<forall>(s, sd) \<in> set (mc_states cfg). \<forall>(a, r) \<in> set (sd_transitions sd).
        tr_target r = PREVIOUS_STATE_SENTINEL \<longrightarrow> sd_is_detour sd)"

definition dnc_rule_ok :: "state_definition \<Rightarrow> bool" where
  "dnc_rule_ok sd = (case dget (sd_transitions sd) Act_MARK_DNC of
      None \<Rightarrow> False
    | Some r \<Rightarrow> tr_target r = ''end_call'' \<and> tr_outcome r = Some ''do_not_call''
        \<and> tr_requires r = [])"

lemma shipped_returns: "returns_only_from_detours shipped_config"
  by code_simp

lemma shipped_dnc_rules:
  "\<forall>(s, sd) \<in> set (mc_states shipped_config). s \<noteq> St_END_CALL \<longrightarrow> dnc_rule_ok sd"
  by code_simp

lemma shipped_terminal: "mc_terminal_states shipped_config = {St_END_CALL}"
proof -
  have "mc_terminal_states shipped_config = set [St_END_CALL]" by code_simp
  then show ?thesis by simp
qed

lemma shipped_start_ok: "machine_ok shipped_machine"
  using new_machine_ok [OF shipped_wf shipped_machine_started] .

lemma shipped_start_base: "base_ok shipped_machine"
proof -
  have "map_option sd_is_detour (dget (mc_states shipped_config) St_NEW_CALL) = Some False"
    by code_simp
  then show ?thesis by (auto simp: base_ok_def is_detour_in_def shipped_start)
qed

section \<open>Calls on the shipped configuration\<close>

text \<open>The machine of a call after the proposals \<open>as\<close>.\<close>

definition shipped_run :: "agent_action list \<Rightarrow> machine" where
  "shipped_run as = foldl machine_step shipped_machine as"

lemma shipped_run_ok: "machine_ok (shipped_run as)" "base_ok (shipped_run as)"
  unfolding shipped_run_def
  by (rule machine_run.run_keeps [OF shipped_start_ok], rule detour_run.run_keeps [OF shipped_start_base])

lemma shipped_run_config: "ms_config (shipped_run as) = shipped_config"
proof -
  have "ms_config (foldl machine_step m as) = ms_config m" for m
    by (induction as arbitrary: m) simp_all
  then show ?thesis by (simp add: shipped_run_def shipped_start)
qed

lemma machine_ok_def_current:
  assumes "machine_ok m"
  obtains sd where "dget (mc_states (ms_config m)) (ms_current_state m) = Some sd"
  using assms unfolding machine_ok_def by (auto simp only: dget_dom set_append list.set)

lemma resolvable:
  assumes "machine_ok m" and "base_ok m" and "returns_only_from_detours (ms_config m)"
    and sd: "dget (mc_states (ms_config m)) (ms_current_state m) = Some sd"
    and rule: "dget (sd_transitions sd) a = Some rule"
  shows "\<exists>target. resolve_target m rule = Inr target"
proof (cases "tr_target rule = PREVIOUS_STATE_SENTINEL")
  case True
  with assms(3) map_of_SomeD [OF sd] map_of_SomeD [OF rule] have "sd_is_detour sd"
    unfolding returns_only_from_detours_def by blast
  with sd have "is_detour_in (ms_config m) (ms_current_state m)"
    by (simp add: is_detour_in_def)
  with base_ok_stack [OF assms(2)] True show ?thesis by (simp add: resolve_target_def)
next
  case False
  from assms(1) have "wf_config (ms_config m)" by (simp add: machine_ok_def)
  from wf_rule_ok [OF this sd rule] False show ?thesis
    by (auto simp: rule_ok_def resolve_target_def)
qed

text \<open>What a terminal state's entry in the table looks like.\<close>

lemma terminal_no_rules:
  assumes "machine_ok m" and "is_terminal m"
    and "dget (mc_states (ms_config m)) (ms_current_state m) = Some sd"
  shows "sd_transitions sd = []"
  using wf_state_def_ok [OF _ assms(3)] assms(1,2)
  by (auto simp: machine_ok_def state_def_ok_def is_terminal_def)

lemma shipped_eligible_step:
  assumes "is_transition_eligible (shipped_run as) a = Inr True"
  obtains t m' where "transition (shipped_run as) a = (Inr t, m')"
proof -
  let ?m = "shipped_run as"
  obtain sd where sd: "dget (mc_states (ms_config ?m)) (ms_current_state ?m) = Some sd"
    using shipped_run_ok(1) by (rule machine_ok_def_current)
  with assms obtain rule where rule: "dget (sd_transitions sd) a = Some rule"
    by (auto simp: is_transition_eligible_def current_def_def dget_dom simp del: set_map)
  from resolvable [OF shipped_run_ok _ sd rule] shipped_returns obtain target where
    target: "resolve_target ?m rule = Inr target"
    by (auto simp: shipped_run_config)
  have "\<not> is_terminal ?m" using terminal_no_rules [OF shipped_run_ok(1) _ sd] rule by auto
  with sd rule target show thesis
    by (intro that) (simp add: apply_transition_def current_def_def)
qed

lemma step_eligible:
  "transition m a = (Inr t, m') \<Longrightarrow> is_transition_eligible m a = Inr True"
  by (erule apply_transition_InrE)
     (auto simp: is_transition_eligible_def current_def_def dget_dom simp del: set_map)

lemma shipped_dnc_rule:
  assumes "machine_ok m" and "ms_config m = shipped_config" and "\<not> is_terminal m"
  obtains sd r where "dget (mc_states shipped_config) (ms_current_state m) = Some sd"
    and "dget (sd_transitions sd) Act_MARK_DNC = Some r" and "tr_target r = ''end_call''"
    and "tr_outcome r = Some ''do_not_call''" and "tr_requires r = []"
proof -
  obtain sd where sd: "dget (mc_states (ms_config m)) (ms_current_state m) = Some sd"
    using assms(1) by (rule machine_ok_def_current)
  have "ms_current_state m \<noteq> St_END_CALL"
    using assms(2,3) by (simp add: is_terminal_def shipped_terminal)
  with map_of_SomeD [OF sd] shipped_dnc_rules have "dnc_rule_ok sd"
    by (auto simp: assms(2))
  with sd assms(2) show thesis
    by (auto simp: dnc_rule_ok_def split: option.splits intro: that)
qed

lemma shipped_dnc_transition:
  assumes "machine_ok m" and "ms_config m = shipped_config" and "\<not> is_terminal m"
  obtains t m' where "transition m Act_MARK_DNC = (Inr t, m')"
    and "at_to_state t = St_END_CALL" and "at_outcome t = Some ''do_not_call''"
    and "ms_current_state m' = St_END_CALL" and "is_terminal m'"
proof -
  from assms obtain sd r where r: "dget (mc_states shipped_config) (ms_current_state m) = Some sd"
    "dget (sd_transitions sd) Act_MARK_DNC = Some r" "tr_target r = ''end_call''"
    "tr_outcome r = Some ''do_not_call''"
    by (rule shipped_dnc_rule)
  have "''end_call'' \<noteq> PREVIOUS_STATE_SENTINEL"
    "conversation_state_of ''end_call'' = Some St_END_CALL" by code_simp+
  with r have "resolve_target m r = Inr St_END_CALL" by (simp add: resolve_target_def)
  with assms(2,3) r show thesis
    by (intro that) (auto simp: apply_transition_def current_def_def is_terminal_def shipped_terminal)
qed

lemmas shipped_dnc_step = shipped_dnc_transition [OF shipped_run_ok(1) shipped_run_config]

lemma shipped_run_snoc: "shipped_run (as @ [a]) = machine_step (shipped_run as) a"
  by (simp add: shipped_run_def)

lemma shipped_dnc_ends: "is_terminal (shipped_run (as @ [Act_MARK_DNC]))"
proof (cases "is_terminal (shipped_run as)")
  case True
  then show ?thesis
    by (simp add: shipped_run_snoc machine_step_def apply_transition_terminal)
next
  case False
  then show ?thesis
    by (rule shipped_dnc_step) (simp add: shipped_run_snoc machine_step_def)
qed

lemma terminal_stays: "is_terminal m \<Longrightarrow> foldl machine_step m as = m"
  by (induction as) (auto simp: machine_step_def apply_transition_terminal)

section \<open>The properties\<close>

text \<open>
  C19. Every configuration document the loader accepts starts machines that never leave it:
  after any sequence of proposed actions the configuration is unchanged, the current state
  and every state on the detour stack are states it defines, and whenever the machine
  rejects an action (with or without a prerequisite validator) it raises
  \<^verbatim>\<open>StateTransitionError\<close> and nothing else, and is left exactly as it was.
\<close>

theorem loaded_machine_runs_safely:
  assumes "load_config file = Inr cfg" and "new_machine cfg initial_state = Inr start"
    and "m = foldl machine_step start proposals"
  shows "ms_config m = cfg
    \<and> (\<forall>s \<in> set (ms_current_state m # ms_state_stack m). s \<in> set (dkeys (mc_states cfg)))
    \<and> (\<forall>a ctx v e m'. apply_transition m a ctx v = (Inl e, m')
          \<longrightarrow> e = StateTransitionError \<and> m' = m)"
proof -
  have cfg: "ms_config m = cfg"
  proof -
    have "ms_config (foldl machine_step start as) = ms_config start" for as
      by (induction as arbitrary: start) simp_all
    moreover have "reachable cfg start" using assms(2) by (rule reachable.start)
    ultimately show ?thesis using assms(3) reachable_config by simp
  qed
  have "machine_ok m"
    using machine_run.run_keeps [OF new_machine_ok [OF load_config_wf [OF assms(1)] assms(2)]]
    by (simp add: assms(3))
  then have "\<forall>s \<in> set (ms_current_state m # ms_state_stack m). s \<in> set (dkeys (mc_states cfg))"
    unfolding machine_ok_def cfg by simp
  with cfg show ?thesis
    by (intro conjI allI impI apply_transition_errors [OF \<open>machine_ok m\<close>]
        apply_transition_Inl_same) auto
qed

lemma loaded_machine_runs_safely_witness:
  "ms_config (foldl machine_step shipped_machine [Act_GREET, Act_MARK_DNC]) = shipped_config"
  using loaded_machine_runs_safely [OF shipped_loaded shipped_machine_started refl] by blast

text \<open>
  A detour is transparent: when an action takes the machine into a detour state and the
  next approved action returns from it, the machine (current state and the whole stack) is
  the one the detour was entered from.
\<close>

theorem detour_round_trip:
  assumes "transition m a = (Inr t, m1)"
    and "is_detour_in (ms_config m) (at_to_state t)" and "\<not> at_was_detour_return t"
    and "transition m1 b = (Inr u, m2)" and "at_was_detour_return u"
  shows "m2 = m"
proof -
  from assms(1) obtain r where r: "at_was_detour_return t = (tr_target r = PREVIOUS_STATE_SENTINEL)"
    and m1: "m1 = m\<lparr>ms_state_stack := next_stack m r (at_to_state t), ms_current_state := at_to_state t\<rparr>"
    by (rule apply_transition_InrE)
  with assms(2,3) have stack: "ms_state_stack m1 = ms_state_stack m @ [ms_current_state m]"
    by (auto simp: next_stack_def is_detour_in_def)
  from assms(4) obtain r' where r': "at_was_detour_return u = (tr_target r' = PREVIOUS_STATE_SENTINEL)"
    and to: "resolve_target m1 r' = Inr (at_to_state u)"
    and m2: "m2 = m1\<lparr>ms_state_stack := next_stack m1 r' (at_to_state u), ms_current_state := at_to_state u\<rparr>"
    by (rule apply_transition_InrE)
  from r' to assms(5) stack have "at_to_state u = ms_current_state m"
    by (auto simp: resolve_target_def split: if_splits)
  with r' assms(5) stack m1 m2 show ?thesis by (simp add: next_stack_def)
qed

definition listening :: machine where
  "listening = shipped_run [Act_GREET, Act_ASK_IDENTITY, Act_INTRODUCE_REASON,
     Act_INTRODUCE_REASON, Act_INTRODUCE_REASON]"

lemma detour_round_trip_witness:
  "ms_current_state listening = St_LISTEN
    \<and> ms_current_state (snd (transition listening Act_ANSWER_QUESTION)) = St_HANDLE_QUESTION
    \<and> snd (transition (snd (transition listening Act_ANSWER_QUESTION)) Act_ANSWER_QUESTION) = listening"
proof -
  let ?m1 = "snd (transition listening Act_ANSWER_QUESTION)"
  let ?t = "projr (fst (transition listening Act_ANSWER_QUESTION))"
  let ?u = "projr (fst (transition ?m1 Act_ANSWER_QUESTION))"
  have "isl (fst (transition listening Act_ANSWER_QUESTION)) = False" by code_simp
  then have 1: "transition listening Act_ANSWER_QUESTION = (Inr ?t, ?m1)"
    by (simp add: prod_eq_iff sum.collapse)
  have "isl (fst (transition ?m1 Act_ANSWER_QUESTION)) = False" by code_simp
  then have 2: "transition ?m1 Act_ANSWER_QUESTION = (Inr ?u, snd (transition ?m1 Act_ANSWER_QUESTION))"
    by (simp add: prod_eq_iff sum.collapse)
  have "map_option sd_is_detour (dget (mc_states (ms_config listening)) (at_to_state ?t)) = Some True"
    by code_simp
  then have 3: "is_detour_in (ms_config listening) (at_to_state ?t)"
    by (auto simp: is_detour_in_def)
  have 4: "at_was_detour_return ?t = False" "at_was_detour_return ?u = True" by code_simp+
  have 5: "ms_current_state listening = St_LISTEN" "ms_current_state ?m1 = St_HANDLE_QUESTION"
    by code_simp+
  from detour_round_trip [OF 1 3 _ 2] 4 5 show ?thesis by simp
qed


text \<open>
  C18. Do-not-call is always available and always final on the shipped configuration:
  at every moment of every call that has not ended, \<^verbatim>\<open>mark_dnc\<close> is approved, leads to
  \<^verbatim>\<open>end_call\<close> and carries the outcome \<^verbatim>\<open>do_not_call\<close>; and whatever is proposed after
  it, the call stays ended.
\<close>

theorem shipped_dnc_always_available:
  "(is_terminal (shipped_run proposals) \<or>
     (\<exists>t m'. transition (shipped_run proposals) Act_MARK_DNC = (Inr t, m')
        \<and> at_to_state t = St_END_CALL \<and> at_outcome t = Some ''do_not_call''))
   \<and> ms_current_state (shipped_run (proposals @ [Act_MARK_DNC] @ later)) = St_END_CALL"
proof
  show "is_terminal (shipped_run proposals) \<or>
     (\<exists>t m'. transition (shipped_run proposals) Act_MARK_DNC = (Inr t, m')
        \<and> at_to_state t = St_END_CALL \<and> at_outcome t = Some ''do_not_call'')"
    using shipped_dnc_step by metis
  have "shipped_run (proposals @ [Act_MARK_DNC] @ later) = shipped_run (proposals @ [Act_MARK_DNC])"
    using terminal_stays [OF shipped_dnc_ends] by (simp add: shipped_run_def)
  then show "ms_current_state (shipped_run (proposals @ [Act_MARK_DNC] @ later)) = St_END_CALL"
    using shipped_dnc_ends [of proposals]
    by (simp add: is_terminal_def shipped_run_config shipped_terminal)
qed

end
