(* ===== verification/Regex.thy ===== *)
theory Regex
  imports Prelude
begin

text \<open>
  Regular expressions of Python's \<^verbatim>\<open>re\<close> module, as far as the program's patterns use them
  (character classes, sequence, alternative, repetition; patterns anchored at both ends):
  a derivative matcher that evaluates, the language a pattern denotes, and the proof that
  the matcher decides it.
\<close>

datatype regex =
    RNone
  | REps
  | RClass "char \<Rightarrow> bool"
  | RSeq regex regex
  | RAlt regex regex
  | RStar regex

definition RPlus :: "regex \<Rightarrow> regex" where "RPlus r = RSeq r (RStar r)"

definition ROpt :: "regex \<Rightarrow> regex" where "ROpt r = RAlt REps r"

definition RChar :: "char \<Rightarrow> regex" where "RChar c = RClass (\<lambda>d. d = c)"

fun nullable :: "regex \<Rightarrow> bool" where
  "nullable RNone = False"
| "nullable REps = True"
| "nullable (RClass P) = False"
| "nullable (RSeq r s) = (nullable r \<and> nullable s)"
| "nullable (RAlt r s) = (nullable r \<or> nullable s)"
| "nullable (RStar r) = True"

text \<open>Sequence and alternative with the empty language left out, so that derivatives stay small.\<close>

fun mk_seq :: "regex \<Rightarrow> regex \<Rightarrow> regex" where
  "mk_seq RNone s = RNone"
| "mk_seq REps s = s"
| "mk_seq r s = RSeq r s"

fun mk_alt :: "regex \<Rightarrow> regex \<Rightarrow> regex" where
  "mk_alt RNone s = s"
| "mk_alt r RNone = r"
| "mk_alt r s = RAlt r s"

fun deriv :: "char \<Rightarrow> regex \<Rightarrow> regex" where
  "deriv c RNone = RNone"
| "deriv c REps = RNone"
| "deriv c (RClass P) = (if P c then REps else RNone)"
| "deriv c (RSeq r s) =
     (if nullable r then mk_alt (mk_seq (deriv c r) s) (deriv c s) else mk_seq (deriv c r) s)"
| "deriv c (RAlt r s) = mk_alt (deriv c r) (deriv c s)"
| "deriv c (RStar r) = mk_seq (deriv c r) (RStar r)"

fun fullmatch :: "regex \<Rightarrow> str \<Rightarrow> bool" where
  "fullmatch r [] = nullable r"
| "fullmatch r (c # s) = fullmatch (deriv c r) s"

section \<open>The language of a pattern\<close>

inductive_set star_lang :: "str set \<Rightarrow> str set" for L where
  empty: "[] \<in> star_lang L"
| more: "u \<in> L \<Longrightarrow> v \<in> star_lang L \<Longrightarrow> u @ v \<in> star_lang L"

fun lang :: "regex \<Rightarrow> str set" where
  "lang RNone = {}"
| "lang REps = {[]}"
| "lang (RClass P) = {[c] | c. P c}"
| "lang (RSeq r s) = {u @ v | u v. u \<in> lang r \<and> v \<in> lang s}"
| "lang (RAlt r s) = lang r \<union> lang s"
| "lang (RStar r) = star_lang (lang r)"

lemma nullable_lang: "nullable r \<longleftrightarrow> [] \<in> lang r"
  by (induction r) (auto intro: star_lang.empty)

lemma lang_mk_seq: "lang (mk_seq r s) = lang (RSeq r s)"
  by (cases r) auto

lemma lang_mk_alt: "lang (mk_alt r s) = lang (RAlt r s)"
  by (cases r; cases s) auto

lemma star_lang_Cons:
  "c # s \<in> star_lang L \<longleftrightarrow> (\<exists>u v. s = u @ v \<and> c # u \<in> L \<and> v \<in> star_lang L)"
proof
  have "\<exists>u v. s = u @ v \<and> c # u \<in> L \<and> v \<in> star_lang L" if "w \<in> star_lang L" "w = c # s" for w
    using that by (induction rule: star_lang.induct) (auto simp: append_eq_Cons_conv)
  then show "c # s \<in> star_lang L \<Longrightarrow> \<exists>u v. s = u @ v \<and> c # u \<in> L \<and> v \<in> star_lang L"
    by blast
next
  assume "\<exists>u v. s = u @ v \<and> c # u \<in> L \<and> v \<in> star_lang L"
  then obtain u v where "s = u @ v" "c # u \<in> L" "v \<in> star_lang L" by blast
  then show "c # s \<in> star_lang L" using star_lang.more [of "c # u" L v] by simp
qed

lemma lang_deriv: "s \<in> lang (deriv c r) \<longleftrightarrow> c # s \<in> lang r"
proof (induction r arbitrary: s)
  case (RSeq r1 r2)
  have "c # s \<in> lang (RSeq r1 r2) \<longleftrightarrow>
      (\<exists>u v. s = u @ v \<and> c # u \<in> lang r1 \<and> v \<in> lang r2) \<or> ([] \<in> lang r1 \<and> c # s \<in> lang r2)"
    by (auto simp: Cons_eq_append_conv)
  then show ?case
    by (auto simp: RSeq nullable_lang lang_mk_seq lang_mk_alt)
next
  case (RStar r)
  then show ?case by (auto simp: lang_mk_seq star_lang_Cons)
qed (auto simp: lang_mk_alt)

theorem fullmatch_lang: "fullmatch r s \<longleftrightarrow> s \<in> lang r"
  by (induction s arbitrary: r) (auto simp: nullable_lang lang_deriv)

section \<open>Which characters a match can hold\<close>

lemma star_lang_all: "s \<in> star_lang L \<Longrightarrow> \<forall>u \<in> L. list_all P u \<Longrightarrow> list_all P s"
  by (induction rule: star_lang.induct) auto

end
