(* ===== verification/Contact.thy ===== *)
theory Contact
  imports Constants Regex
begin

text \<open>
  Contact details: the format checks of \<^verbatim>\<open>app/contracts/contact_info.py\<close>, what the reasoning
  provider understood about a contact (\<^verbatim>\<open>contact_understanding.py\<close>) and the deterministic
  resolver (\<^verbatim>\<open>app/conversation/contact/resolver.py\<close>). The \<^verbatim>\<open>phonenumbers\<close> package is
  a parameter: \<open>phone_lib\<close> holds its three functions.
\<close>

section \<open>Enumerations\<close>

datatype contact_channel = Ch_EMAIL | Ch_PHONE | Ch_WHATSAPP | Ch_SMS | Ch_UNKNOWN

fun contact_channel_value :: "contact_channel \<Rightarrow> str" where
  "contact_channel_value Ch_EMAIL = ''email''"
| "contact_channel_value Ch_PHONE = ''phone''"
| "contact_channel_value Ch_WHATSAPP = ''whatsapp''"
| "contact_channel_value Ch_SMS = ''sms''"
| "contact_channel_value Ch_UNKNOWN = ''unknown''"

datatype contact_intent =
    CI_PROVIDE_CONTACT | CI_CONFIRM_CONTACT | CI_CORRECT_CONTACT | CI_DECLINE_CONTACT | CI_UNCLEAR

datatype contact_reference =
    CR_CURRENT_CALL_NUMBER | CR_BUSINESS_PHONE | CR_BUSINESS_EMAIL | CR_PREVIOUSLY_PROVIDED

fun contact_reference_value :: "contact_reference \<Rightarrow> str" where
  "contact_reference_value CR_CURRENT_CALL_NUMBER = ''current_call_number''"
| "contact_reference_value CR_BUSINESS_PHONE = ''business_phone''"
| "contact_reference_value CR_BUSINESS_EMAIL = ''business_email''"
| "contact_reference_value CR_PREVIOUSLY_PROVIDED = ''previously_provided''"

datatype resolution_outcome =
    RO_RESOLVED | RO_NEEDS_CLARIFICATION | RO_INVALID
  | RO_UNSUPPORTED_REFERENCE | RO_UNAVAILABLE_REFERENCE

datatype contact_provenance =
    Pv_LEAD_IMPORT | Pv_CLIENT_SPOKEN | Pv_CLIENT_PROVIDED
  | Pv_CLIENT_REFERENCED_CURRENT_CALL_NUMBER | Pv_MANUAL | Pv_INFERRED

fun contact_provenance_value :: "contact_provenance \<Rightarrow> str" where
  "contact_provenance_value Pv_LEAD_IMPORT = ''lead_import''"
| "contact_provenance_value Pv_CLIENT_SPOKEN = ''client_spoken''"
| "contact_provenance_value Pv_CLIENT_PROVIDED = ''client_provided''"
| "contact_provenance_value Pv_CLIENT_REFERENCED_CURRENT_CALL_NUMBER =
     ''client_referenced_current_call_number''"
| "contact_provenance_value Pv_MANUAL = ''manual''"
| "contact_provenance_value Pv_INFERRED = ''inferred''"

lemma channel_value_ne [simp]: "contact_channel_value c \<noteq> []"
  by (cases c) auto

lemma provenance_value_ne [simp]: "contact_provenance_value p \<noteq> []"
  by (cases p) auto

section \<open>Format checks\<close>

text \<open>\<^verbatim>\<open>_EMAIL_RE\<close>, class by class.\<close>

definition re_lower_digit :: "char \<Rightarrow> bool" where
  "re_lower_digit c = (let n = (of_char c :: nat) in (97 \<le> n \<and> n \<le> 122) \<or> (48 \<le> n \<and> n \<le> 57))"

definition re_local_char :: "char \<Rightarrow> bool" where
  "re_local_char c = (re_lower_digit c \<or>
     c \<in> set (CHR 0x27 # CHR 0x60 # ''!#$%&*+/=?^_{|}~-''))"

definition re_label_char :: "char \<Rightarrow> bool" where
  "re_label_char c = (re_lower_digit c \<or> c = CHR ''-'')"

definition re_atom :: regex where
  "re_atom = RPlus (RClass re_local_char)"

definition re_label :: regex where
  "re_label = RSeq (RClass re_lower_digit)
     (ROpt (RSeq (RStar (RClass re_label_char)) (RClass re_lower_digit)))"

definition EMAIL_RE :: regex where
  "EMAIL_RE =
     RSeq (RSeq re_atom (RStar (RSeq (RChar (CHR ''.'')) re_atom)))
    (RSeq (RChar (CHR 0x40))
    (RSeq (RPlus (RSeq re_label (RChar (CHR ''.''))))
          re_label))"

record contact_check =
  cc_channel :: contact_channel
  cc_candidate :: str
  cc_is_valid :: bool
  cc_reason :: "str option"

definition check_email :: "str \<Rightarrow> contact_check" where
  "check_email candidate =
     (let norm = py_lower (py_strip candidate); ok = fullmatch EMAIL_RE norm in
      \<lparr>cc_channel = Ch_EMAIL, cc_candidate = norm, cc_is_valid = ok,
       cc_reason = (if ok then None else Some ''email_format_invalid'')\<rparr>)"

text \<open>
  The \<^verbatim>\<open>phonenumbers\<close> functions the check calls: \<^verbatim>\<open>parse\<close> (\<open>None\<close> is
  \<^verbatim>\<open>NumberParseException\<close>), \<^verbatim>\<open>is_valid_number\<close> and \<^verbatim>\<open>format_number\<close> for E164.
\<close>

record 'n phone_lib =
  pl_parse :: "str \<Rightarrow> str option \<Rightarrow> 'n option"
  pl_is_valid_number :: "'n \<Rightarrow> bool"
  pl_format_e164 :: "'n \<Rightarrow> str"

definition check_phone :: "'n phone_lib \<Rightarrow> str \<Rightarrow> str option \<Rightarrow> contact_check" where
  "check_phone lib candidate region =
     (case pl_parse lib candidate (if truthy region then map_option py_upper region else None) of
        None \<Rightarrow> \<lparr>cc_channel = Ch_PHONE, cc_candidate = py_strip candidate, cc_is_valid = False,
                 cc_reason = Some ''phone_unparseable''\<rparr>
      | Some parsed \<Rightarrow>
          if \<not> pl_is_valid_number lib parsed
          then \<lparr>cc_channel = Ch_PHONE, cc_candidate = py_strip candidate, cc_is_valid = False,
                cc_reason = Some ''phone_format_invalid''\<rparr>
          else \<lparr>cc_channel = Ch_PHONE, cc_candidate = pl_format_e164 lib parsed, cc_is_valid = True,
                cc_reason = None\<rparr>)"

section \<open>Resolution of a contact understanding\<close>

record contact_understanding =
  cu_intent :: contact_intent
  cu_channel :: contact_channel
  cu_value :: "str option"
  cu_reference :: "contact_reference option"
  cu_interpretation_confidence :: py_float

record resolved_method =
  rmt_channel :: contact_channel
  rmt_value_normalized :: str

record resolution_context =
  rx_call_number :: "str option"
  rx_business_phone :: "str option"
  rx_business_email :: "str option"
  rx_previously_provided_method :: "resolved_method option"
  rx_region :: "str option"

record resolution_result =
  res_outcome :: resolution_outcome
  res_channel :: "contact_channel option"
  res_value_normalized :: "str option"
  res_value_raw :: "str option"
  res_provenance :: "contact_provenance option"
  res_reason :: "str option"

definition is_resolved :: "resolution_result \<Rightarrow> bool" where
  "is_resolved r \<longleftrightarrow> res_outcome r = RO_RESOLVED"

definition unresolved :: "resolution_outcome \<Rightarrow> str \<Rightarrow> resolution_result" where
  "unresolved oc why = \<lparr>res_outcome = oc, res_channel = None, res_value_normalized = None,
     res_value_raw = None, res_provenance = None, res_reason = Some why\<rparr>"

definition PHONE_CHANNELS :: "contact_channel set" where
  "PHONE_CHANNELS = {Ch_PHONE, Ch_WHATSAPP, Ch_SMS}"

definition validate_and_build ::
  "'n phone_lib \<Rightarrow> contact_channel \<Rightarrow> str \<Rightarrow> contact_provenance \<Rightarrow> str option \<Rightarrow> resolution_result" where
  "validate_and_build lib channel raw provenance region =
     (if channel = Ch_EMAIL \<or> channel \<in> PHONE_CHANNELS then
        (let check = (if channel = Ch_EMAIL then check_email raw else check_phone lib raw region) in
         if \<not> cc_is_valid check
         then \<lparr>res_outcome = RO_INVALID, res_channel = Some channel, res_value_normalized = None,
               res_value_raw = None, res_provenance = None, res_reason = cc_reason check\<rparr>
         else \<lparr>res_outcome = RO_RESOLVED, res_channel = Some channel,
               res_value_normalized = Some (cc_candidate check), res_value_raw = Some raw,
               res_provenance = Some provenance, res_reason = None\<rparr>)
      else unresolved RO_NEEDS_CLARIFICATION
             (''unhandled channel: ContactChannel.'' @ py_upper (contact_channel_value channel)))"

definition resolve_explicit ::
  "'n phone_lib \<Rightarrow> contact_understanding \<Rightarrow> resolution_context \<Rightarrow> resolution_result" where
  "resolve_explicit lib u ctx =
     (let raw = py_strip (case cu_value u of None \<Rightarrow> [] | Some v \<Rightarrow> v) in
      if cu_channel u = Ch_UNKNOWN
      then unresolved RO_NEEDS_CLARIFICATION ''explicit value but channel unknown''
      else validate_and_build lib (cu_channel u) raw Pv_CLIENT_PROVIDED (rx_region ctx))"

text \<open>
  The trusted source a reference stands for, its provenance and the channel to use.
  \<open>None\<close> is the early return for a previously provided method that nobody supplied. The
  branch for a reference outside the enumeration cannot be taken by a typed value.
\<close>

definition keep_channel :: "contact_channel \<Rightarrow> contact_channel \<Rightarrow> contact_channel" where
  "keep_channel channel fallback = (if channel \<noteq> Ch_UNKNOWN then channel else fallback)"

fun reference_source ::
  "contact_reference \<Rightarrow> contact_channel \<Rightarrow> resolution_context
    \<Rightarrow> (str option \<times> contact_provenance \<times> contact_channel) option" where
  "reference_source CR_CURRENT_CALL_NUMBER channel ctx =
     Some (rx_call_number ctx, Pv_CLIENT_REFERENCED_CURRENT_CALL_NUMBER, channel)"
| "reference_source CR_BUSINESS_PHONE channel ctx =
     Some (rx_business_phone ctx, Pv_LEAD_IMPORT, keep_channel channel Ch_PHONE)"
| "reference_source CR_BUSINESS_EMAIL channel ctx =
     Some (rx_business_email ctx, Pv_LEAD_IMPORT, keep_channel channel Ch_EMAIL)"
| "reference_source CR_PREVIOUSLY_PROVIDED channel ctx =
     (case rx_previously_provided_method ctx of
        None \<Rightarrow> None
      | Some method \<Rightarrow> Some (Some (rmt_value_normalized method), Pv_CLIENT_PROVIDED,
                            keep_channel channel (rmt_channel method)))"

definition resolve_reference ::
  "'n phone_lib \<Rightarrow> contact_understanding \<Rightarrow> contact_reference \<Rightarrow> resolution_context \<Rightarrow> resolution_result" where
  "resolve_reference lib u ref ctx =
     (case reference_source ref (cu_channel u) ctx of
        None \<Rightarrow> unresolved RO_UNAVAILABLE_REFERENCE ''no previously-provided method supplied''
      | Some (trusted, provenance, channel) \<Rightarrow>
          (case trusted of
             None \<Rightarrow> unresolved RO_UNAVAILABLE_REFERENCE
                      (''trusted source unavailable for '' @ contact_reference_value ref)
           | Some t \<Rightarrow>
               if blank t
               then unresolved RO_UNAVAILABLE_REFERENCE
                      (''trusted source unavailable for '' @ contact_reference_value ref)
               else if channel = Ch_UNKNOWN
               then unresolved RO_NEEDS_CLARIFICATION ''reference resolvable but channel unknown''
               else validate_and_build lib channel (py_strip t) provenance (rx_region ctx)))"

definition resolve ::
  "'n phone_lib \<Rightarrow> contact_understanding \<Rightarrow> resolution_context \<Rightarrow> resolution_result" where
  "resolve lib u ctx =
     (let has_value = (case cu_value u of None \<Rightarrow> False | Some v \<Rightarrow> \<not> blank v) in
      if has_value \<and> cu_reference u \<noteq> None
      then unresolved RO_INVALID ''contradictory: both explicit value and reference present''
      else if \<not> has_value \<and> cu_reference u = None
      then unresolved RO_NEEDS_CLARIFICATION ''no explicit value and no reference''
      else case cu_reference u of
             Some ref \<Rightarrow> resolve_reference lib u ref ctx
           | None \<Rightarrow> resolve_explicit lib u ctx)"

section \<open>What the checks guarantee\<close>

lemma of_char_bound: "(of_char (c :: char) :: nat) < 256"
  by (rule nat_of_char_less_256)

lemma lower_char_space [simp]: "py_isspace (py_lower_char c) = py_isspace c"
  using of_char_bound [of c]
  by (auto simp: py_isspace_def py_lower_char_def Let_def)

lemma lower_char_idem [simp]: "py_lower_char (py_lower_char c) = py_lower_char c"
  using of_char_bound [of c]
  by (auto simp: py_lower_char_def Let_def)

lemma strip_map:
  assumes "\<And>c. py_isspace (f c) = py_isspace c"
  shows "py_strip (map f s) = map f (py_strip s)"
  using assms by (simp add: py_strip_def dropWhile_map comp_def rev_map)

lemma strip_lower: "py_strip (py_lower s) = py_lower (py_strip s)"
  by (simp add: py_lower_def strip_map)

lemma lower_idem [simp]: "py_lower (py_lower s) = py_lower s"
  by (simp add: py_lower_def)

lemma check_email_again: "check_email (cc_candidate (check_email c)) = check_email c"
  by (simp add: check_email_def Let_def strip_lower)

definition email_char :: "char \<Rightarrow> bool" where
  "email_char c \<longleftrightarrow> re_local_char c \<or> c = CHR ''.''"

lemma label_email_char: "re_label_char c \<Longrightarrow> email_char c" "re_lower_digit c \<Longrightarrow> email_char c"
  by (auto simp: email_char_def re_local_char_def re_label_char_def)

lemma email_char_plain:
  assumes "email_char c"
  shows "c \<noteq> CHR 0x40" and "\<not> py_isspace c" and "py_lower_char c = c"
  using assms
  by (auto simp: email_char_def re_local_char_def re_lower_digit_def py_isspace_def
      py_lower_char_def Let_def)

lemma atom_chars: "s \<in> lang re_atom \<Longrightarrow> list_all email_char s \<and> s \<noteq> []"
  by (auto simp: re_atom_def RPlus_def email_char_def elim!: star_lang_all)

lemma label_chars: "s \<in> lang re_label \<Longrightarrow> list_all email_char s \<and> s \<noteq> []"
  by (auto simp: re_label_def ROpt_def label_email_char elim!: star_lang_all)

lemma email_lang_shape:
  assumes "s \<in> lang EMAIL_RE"
  obtains l d where "s = l @ CHR 0x40 # d" and "l \<noteq> []" and "CHR ''.'' \<in> set d"
    and "list_all email_char l" and "list_all email_char d"
proof -
  from assms obtain a as d1 d2 where s: "s = (a @ as) @ CHR 0x40 # (d1 @ d2)"
    and a: "a \<in> lang re_atom"
    and as: "as \<in> star_lang (lang (RSeq (RChar (CHR ''.'')) re_atom))"
    and d1: "d1 \<in> lang (RPlus (RSeq re_label (RChar (CHR ''.''))))"
    and d2: "d2 \<in> lang re_label"
    by (auto simp: EMAIL_RE_def RChar_def)
  have "list_all email_char as"
    using as by (rule star_lang_all) (auto simp: RChar_def email_char_def dest: atom_chars)
  moreover from d1 obtain l1 rest where d1': "d1 = (l1 @ ''.'') @ rest" and "l1 \<in> lang re_label"
    and "rest \<in> star_lang (lang (RSeq re_label (RChar (CHR ''.''))))"
    by (auto simp: RPlus_def RChar_def)
  moreover from this(3) have "list_all email_char rest"
    by (rule star_lang_all) (auto simp: RChar_def email_char_def dest!: label_chars)
  ultimately show thesis
    using a d2 by (intro that [OF s]) (auto dest!: atom_chars label_chars simp: email_char_def)
qed

lemma check_email_valid_shape:
  assumes "cc_is_valid (check_email c)"
  obtains l d where "cc_candidate (check_email c) = l @ CHR 0x40 # d" and "l \<noteq> []"
    and "CHR ''.'' \<in> set d" and "list_all email_char l" and "list_all email_char d"
  using assms email_lang_shape
  by (auto simp: check_email_def Let_def fullmatch_lang)

section \<open>What the resolver guarantees\<close>

lemma resolution_outcomes [simp]:
  "is_resolved (unresolved oc why) \<longleftrightarrow> oc = RO_RESOLVED"
  "res_outcome (unresolved oc why) = oc"
  by (simp_all add: is_resolved_def unresolved_def)

lemma validate_and_build_resolved:
  assumes "is_resolved (validate_and_build lib ch raw prov region)"
  shows "ch \<noteq> Ch_UNKNOWN
    \<and> validate_and_build lib ch raw prov region =
       \<lparr>res_outcome = RO_RESOLVED, res_channel = Some ch,
        res_value_normalized = Some (cc_candidate (if ch = Ch_EMAIL then check_email raw
                                                   else check_phone lib raw region)),
        res_value_raw = Some raw, res_provenance = Some prov, res_reason = None\<rparr>
    \<and> cc_is_valid (if ch = Ch_EMAIL then check_email raw else check_phone lib raw region)"
  using assms
  by (cases ch)
     (auto simp: validate_and_build_def PHONE_CHANNELS_def is_resolved_def unresolved_def Let_def
       split: if_splits)

lemma resolve_resolved:
  assumes "is_resolved (resolve lib u ctx)"
  obtains (explicit) v where "cu_value u = Some v" and "\<not> blank v" and "cu_reference u = None"
      and "resolve lib u ctx =
             validate_and_build lib (cu_channel u) (py_strip v) Pv_CLIENT_PROVIDED (rx_region ctx)"
  | (reference) ref t prov ch where "cu_reference u = Some ref"
      and "\<forall>v. cu_value u = Some v \<longrightarrow> blank v"
      and "reference_source ref (cu_channel u) ctx = Some (Some t, prov, ch)" and "\<not> blank t"
      and "resolve lib u ctx = validate_and_build lib ch (py_strip t) prov (rx_region ctx)"
  using assms
  by (auto simp: resolve_def resolve_explicit_def resolve_reference_def Let_def
      split: if_splits option.splits)

text \<open>
  The e-mail check is a normaliser: checking its own candidate again changes nothing,
  and a candidate it accepts is lower case and free of white space, with exactly one at
  sign, a non-empty local part before it and a dotted domain after it.
\<close>

theorem check_email_normalises:
  "check_email (cc_candidate (check_email raw)) = check_email raw
   \<and> (cc_is_valid (check_email raw) \<longrightarrow>
       (\<exists>l d. cc_candidate (check_email raw) = l @ CHR 0x40 # d \<and> l \<noteq> []
          \<and> CHR ''.'' \<in> set d \<and> CHR 0x40 \<notin> set l \<union> set d
          \<and> (\<forall>c \<in> set l \<union> set d. \<not> py_isspace c \<and> py_lower_char c = c)))"
proof (intro conjI impI check_email_again)
  assume "cc_is_valid (check_email raw)"
  then obtain l d where "cc_candidate (check_email raw) = l @ CHR 0x40 # d" "l \<noteq> []"
    "CHR ''.'' \<in> set d" and "list_all email_char l" "list_all email_char d"
    by (rule check_email_valid_shape)
  then show "\<exists>l d. cc_candidate (check_email raw) = l @ CHR 0x40 # d \<and> l \<noteq> []
      \<and> CHR ''.'' \<in> set d \<and> CHR 0x40 \<notin> set l \<union> set d
      \<and> (\<forall>c \<in> set l \<union> set d. \<not> py_isspace c \<and> py_lower_char c = c)"
    using email_char_plain by (intro exI [of _ l] exI [of _ d]) (auto simp: list_all_iff)
qed

lemma check_email_normalises_witness:
  "\<exists>l d. cc_candidate (check_email (''  Ann@Ex.Co '')) = l @ CHR 0x40 # d \<and> CHR ''.'' \<in> set d"
proof -
  have "cc_is_valid (check_email (''  Ann@Ex.Co ''))" by code_simp
  with check_email_normalises [of "''  Ann@Ex.Co ''"] show ?thesis by blast
qed

text \<open>
  The resolver invents nothing. A resolved contact carries exactly the value that the
  matching format check accepted, on a known channel, and the checked text is either the
  value the client stated (provenance \<^verbatim>\<open>client_provided\<close>, no reference present) or, when
  no value was stated, the trusted source the client referred to, with that source's
  provenance. Stating a value and a reference together is always rejected.
\<close>

theorem resolver_invents_nothing:
  assumes "resolve lib u ctx = r"
  shows "(is_resolved r \<longrightarrow>
      (\<exists>raw ch prov. res_channel r = Some ch \<and> ch \<noteq> Ch_UNKNOWN
         \<and> res_value_raw r = Some (py_strip raw) \<and> res_provenance r = Some prov
         \<and> cc_is_valid (if ch = Ch_EMAIL then check_email (py_strip raw)
                        else check_phone lib (py_strip raw) (rx_region ctx))
         \<and> res_value_normalized r =
             Some (cc_candidate (if ch = Ch_EMAIL then check_email (py_strip raw)
                                 else check_phone lib (py_strip raw) (rx_region ctx)))
         \<and> (if cu_reference u = None
            then cu_value u = Some raw \<and> prov = Pv_CLIENT_PROVIDED \<and> ch = cu_channel u
            else \<exists>ref. cu_reference u = Some ref
                  \<and> reference_source ref (cu_channel u) ctx = Some (Some raw, prov, ch))))
    \<and> (\<forall>v ref. cu_value u = Some v \<longrightarrow> \<not> blank v \<longrightarrow> cu_reference u = Some ref
         \<longrightarrow> res_outcome r = RO_INVALID)"
proof (intro conjI impI allI)
  assume "is_resolved r"
  then have "is_resolved (resolve lib u ctx)" using assms by simp
  then show "\<exists>raw ch prov. res_channel r = Some ch \<and> ch \<noteq> Ch_UNKNOWN
         \<and> res_value_raw r = Some (py_strip raw) \<and> res_provenance r = Some prov
         \<and> cc_is_valid (if ch = Ch_EMAIL then check_email (py_strip raw)
                        else check_phone lib (py_strip raw) (rx_region ctx))
         \<and> res_value_normalized r =
             Some (cc_candidate (if ch = Ch_EMAIL then check_email (py_strip raw)
                                 else check_phone lib (py_strip raw) (rx_region ctx)))
         \<and> (if cu_reference u = None
            then cu_value u = Some raw \<and> prov = Pv_CLIENT_PROVIDED \<and> ch = cu_channel u
            else \<exists>ref. cu_reference u = Some ref
                  \<and> reference_source ref (cu_channel u) ctx = Some (Some raw, prov, ch))"
  proof (cases rule: resolve_resolved)
    case (explicit v)
    then show ?thesis
      using validate_and_build_resolved [of lib "cu_channel u" "py_strip v" Pv_CLIENT_PROVIDED
          "rx_region ctx"] \<open>is_resolved r\<close> assms
      by (intro exI [of _ v] exI [of _ "cu_channel u"] exI [of _ Pv_CLIENT_PROVIDED]) auto
  next
    case (reference ref t prov ch)
    then show ?thesis
      using validate_and_build_resolved [of lib ch "py_strip t" prov "rx_region ctx"]
        \<open>is_resolved r\<close> assms
      by (intro exI [of _ t] exI [of _ ch] exI [of _ prov]) auto
  qed
next
  fix v ref
  assume "cu_value u = Some v" "\<not> blank v" "cu_reference u = Some ref"
  with assms show "res_outcome r = RO_INVALID" by (auto simp: resolve_def Let_def)
qed

definition sample_phone_lib :: "str phone_lib" where
  "sample_phone_lib = \<lparr>pl_parse = (\<lambda>s r. if take 1 s = ''+'' then Some (tl s) else None),
     pl_is_valid_number = (\<lambda>n. 7 \<le> length n), pl_format_e164 = (\<lambda>n. CHR ''+'' # n)\<rparr>"

lemma resolver_invents_nothing_witness:
  "resolve sample_phone_lib
     \<lparr>cu_intent = CI_PROVIDE_CONTACT, cu_channel = Ch_WHATSAPP, cu_value = None,
      cu_reference = Some CR_CURRENT_CALL_NUMBER, cu_interpretation_confidence = Fin 1\<rparr>
     \<lparr>rx_call_number = Some ''+15550100'', rx_business_phone = None, rx_business_email = None,
      rx_previously_provided_method = None, rx_region = None\<rparr> =
   \<lparr>res_outcome = RO_RESOLVED, res_channel = Some Ch_WHATSAPP,
    res_value_normalized = Some ''+15550100'', res_value_raw = Some ''+15550100'',
    res_provenance = Some Pv_CLIENT_REFERENCED_CURRENT_CALL_NUMBER, res_reason = None\<rparr>"
  (is "resolve _ ?u ?ctx = ?r")
proof -
  have r: "resolve sample_phone_lib ?u ?ctx = ?r" by code_simp
  moreover have "is_resolved ?r" by code_simp
  ultimately have "res_channel ?r = Some Ch_WHATSAPP"
    using resolver_invents_nothing [OF r] by auto
  with r show ?thesis by simp
qed

end
