(* ===== verification/Guardrails.thy ===== *)
theory Guardrails
  imports ShippedConfig Contact
begin

text \<open>
  \<^verbatim>\<open>app/conversation/guardrails\<close>: prerequisites and the action validator, bounded
  clarification of contact details, safe fallbacks, and trusted priorities, with the
  validation result of \<^verbatim>\<open>app/contracts/validation.py\<close>.
\<close>

section \<open>Validation results\<close>

datatype validation_category =
    VC_OK | VC_NOT_ELIGIBLE | VC_MISSING_PREREQUISITE | VC_UNKNOWN_REQUIREMENT | VC_DNC_CONFLICT

fun validation_category_value :: "validation_category \<Rightarrow> str" where
  "validation_category_value VC_OK = ''ok''"
| "validation_category_value VC_NOT_ELIGIBLE = ''not_eligible''"
| "validation_category_value VC_MISSING_PREREQUISITE = ''missing_prerequisite''"
| "validation_category_value VC_UNKNOWN_REQUIREMENT = ''unknown_requirement''"
| "validation_category_value VC_DNC_CONFLICT = ''dnc_conflict''"

record validation_result =
  vr_allowed :: bool
  vr_category :: validation_category
  vr_reason :: "str option"
  vr_from_deterministic_rule :: bool

definition validation_ok :: validation_result where
  "validation_ok = \<lparr>vr_allowed = True, vr_category = VC_OK, vr_reason = None,
     vr_from_deterministic_rule = True\<rparr>"

text \<open>The model's field allows 200 characters; a longer reason is a \<^verbatim>\<open>ValueError\<close> of pydantic.\<close>

definition validation_rejected :: "validation_category \<Rightarrow> str \<Rightarrow> validation_result res" where
  "validation_rejected cat reason =
     rbind (guard (length reason \<le> 200) ValueError) (\<lambda>_.
     Inr \<lparr>vr_allowed = False, vr_category = cat, vr_reason = Some reason,
          vr_from_deterministic_rule = True\<rparr>)"

section \<open>Prerequisites and the action validator\<close>

text \<open>The dictionary of \<^verbatim>\<open>ConversationContext.to_validator_context\<close>.\<close>

record validator_ctx =
  vx_contact_candidate :: "str option"
  vx_contact_confirmed :: bool
  vx_callback :: "str option"
  vx_previous_conversation_exists :: bool
  vx_dnc_pending :: bool
  vx_has_applicable_alternative :: bool

definition empty_validator_ctx :: validator_ctx where
  "empty_validator_ctx = \<lparr>vx_contact_candidate = None, vx_contact_confirmed = False,
     vx_callback = None, vx_previous_conversation_exists = False, vx_dnc_pending = False,
     vx_has_applicable_alternative = False\<rparr>"

definition has_nonempty :: "str option \<Rightarrow> bool" where
  "has_nonempty v = (case v of None \<Rightarrow> False | Some s \<Rightarrow> \<not> blank s)"

definition PREREQUISITES :: "(str, validator_ctx \<Rightarrow> bool) dict" where
  "PREREQUISITES =
     [(''contact_candidate_exists'', \<lambda>ctx. has_nonempty (vx_contact_candidate ctx)),
      (''contact_confirmed'', vx_contact_confirmed),
      (''callback_context_exists'', \<lambda>ctx. has_nonempty (vx_callback ctx)),
      (''previous_conversation_exists'', vx_previous_conversation_exists),
      (''has_applicable_alternative'', vx_has_applicable_alternative)]"

definition find_rule :: "machine_config \<Rightarrow> conversation_state \<Rightarrow> agent_action \<Rightarrow> transition_rule option" where
  "find_rule cfg s a = (case dget (mc_states cfg) s of
       None \<Rightarrow> None | Some sd \<Rightarrow> dget (sd_transitions sd) a)"

text \<open>The loop over requirements; \<open>Inr None\<close> is falling out of it.\<close>

fun check_requirements :: "validator_ctx \<Rightarrow> str list \<Rightarrow> validation_result option res" where
  "check_requirements ctx [] = Inr None"
| "check_requirements ctx (r # rs) = (case dget PREREQUISITES r of
     None \<Rightarrow> rbind (validation_rejected VC_UNKNOWN_REQUIREMENT (''unknown requirement: '' @ r))
         (\<lambda>v. Inr (Some v))
   | Some predicate \<Rightarrow>
       if \<not> predicate ctx
       then rbind (validation_rejected VC_MISSING_PREREQUISITE (''missing prerequisite: '' @ r))
              (\<lambda>v. Inr (Some v))
       else check_requirements ctx rs)"

definition TERMINATING :: "agent_action list" where
  "TERMINATING = [Act_MARK_DNC, Act_END_CALL]"

definition validate ::
  "machine_config \<Rightarrow> conversation_state \<Rightarrow> agent_action \<Rightarrow> validator_ctx option \<Rightarrow> validation_result res" where
  "validate cfg state action context =
     (let ctx = (case context of None \<Rightarrow> empty_validator_ctx | Some c \<Rightarrow> c) in
      if vx_dnc_pending ctx \<and> action \<notin> set TERMINATING
      then validation_rejected VC_DNC_CONFLICT
             (agent_action_value action @ '' rejected: do-not-call is pending'')
      else rbind (case dget (mc_states cfg) state of
                    None \<Rightarrow> Inr None
                  | Some sd \<Rightarrow> if action \<notin> set TERMINATING
                              then check_requirements ctx (sd_requires sd) else Inr None) (\<lambda>early.
           case early of Some r \<Rightarrow> Inr r
           | None \<Rightarrow>
             (case find_rule cfg state action of
                None \<Rightarrow> validation_rejected VC_NOT_ELIGIBLE
                  (agent_action_value action @ '' not allowed in '' @ conversation_state_value state)
              | Some rule \<Rightarrow>
                  rbind (check_requirements ctx (tr_requires rule)) (\<lambda>late.
                  case late of Some r \<Rightarrow> Inr r | None \<Rightarrow> Inr validation_ok))))"

text \<open>\<^verbatim>\<open>as_machine_hook\<close>: an empty context at the call falls back to the one given here.\<close>

definition machine_hook ::
  "validator_ctx option \<Rightarrow> transition_rule \<Rightarrow> validator_ctx option \<Rightarrow> bool" where
  "machine_hook context rule ctx =
     (let effective = (case ctx of Some c \<Rightarrow> c
                       | None \<Rightarrow> (case context of Some c \<Rightarrow> c | None \<Rightarrow> empty_validator_ctx)) in
      list_all (\<lambda>r. case dget PREREQUISITES r of None \<Rightarrow> False | Some p \<Rightarrow> p effective)
        (tr_requires rule))"

section \<open>Clarification of contact details\<close>

datatype clarification_stage = Stage_NONE | Stage_REPEAT | Stage_SPELL | Stage_EXHAUSTED

datatype clarification_outcome = Clar_CLEAR | Clar_RETRY | Clar_EXHAUSTED

definition contact_repeat_key :: "contact_channel \<Rightarrow> str" where
  "contact_repeat_key ch = (if ch = Ch_EMAIL then ''repeat_email''
     else if ch = Ch_UNKNOWN then ''ask_contact_channel'' else ''repeat_phone'')"

definition contact_spell_key :: "contact_channel \<Rightarrow> str" where
  "contact_spell_key ch = (if ch = Ch_EMAIL then ''spell_email''
     else if ch = Ch_UNKNOWN then ''ask_contact_channel'' else ''digits_phone'')"

text \<open>\<^verbatim>\<open>_RESPONSE_KEYS[channel][stage]\<close>\<close>

fun RESPONSE_KEYS :: "contact_channel \<Rightarrow> clarification_stage \<Rightarrow> str option" where
  "RESPONSE_KEYS ch Stage_REPEAT = Some (contact_repeat_key ch)"
| "RESPONSE_KEYS ch Stage_SPELL = Some (contact_spell_key ch)"
| "RESPONSE_KEYS ch _ = None"

record clarification_state =
  cs_channel :: contact_channel
  cs_attempts :: int
  cs_stage :: clarification_stage
  cs_max_attempts :: int

definition mk_clarification_state ::
  "contact_channel \<Rightarrow> int \<Rightarrow> clarification_stage \<Rightarrow> int \<Rightarrow> clarification_state res" where
  "mk_clarification_state ch attempts stage max_attempts =
     rbind (guard (\<not> attempts < 0) ValidationError) (\<lambda>_.
     rbind (guard (\<not> max_attempts < 1) ValidationError) (\<lambda>_.
     Inr \<lparr>cs_channel = ch, cs_attempts = attempts, cs_stage = stage,
          cs_max_attempts = max_attempts\<rparr>))"

record clarification_decision =
  cd_channel :: contact_channel
  cd_outcome :: clarification_outcome
  cd_stage :: clarification_stage
  cd_action :: "agent_action option"
  cd_response_key :: "str option"
  cd_new_state :: clarification_state

definition limit_or :: "machine_config \<Rightarrow> str \<Rightarrow> int \<Rightarrow> int" where
  "limit_or cfg key dflt = (case dget (mc_limits cfg) key of None \<Rightarrow> dflt | Some n \<Rightarrow> n)"

definition max_for :: "machine_config \<Rightarrow> contact_channel \<Rightarrow> int" where
  "max_for cfg ch = (if ch \<in> PHONE_CHANNELS
     then limit_or cfg ''phone_clarification_max_attempts'' 3
     else limit_or cfg ''email_clarification_max_attempts'' 3)"

definition new_session :: "machine_config \<Rightarrow> contact_channel \<Rightarrow> clarification_state res" where
  "new_session cfg ch = mk_clarification_state ch 0 Stage_NONE (max_for cfg ch)"

definition evaluate_clarification :: "clarification_state \<Rightarrow> bool \<Rightarrow> clarification_decision res" where
  "evaluate_clarification st extraction_clear =
     (let ch = cs_channel st; keep = (\<lambda>stage.
            mk_clarification_state ch (cs_attempts st) stage (cs_max_attempts st)) in
      if extraction_clear
      then rbind (keep Stage_NONE) (\<lambda>new.
           Inr \<lparr>cd_channel = ch, cd_outcome = Clar_CLEAR, cd_stage = Stage_NONE,
                cd_action = Some Act_CONFIRM_CONTACT, cd_response_key = None, cd_new_state = new\<rparr>)
      else if cs_stage st = Stage_EXHAUSTED \<or> cs_attempts st \<ge> cs_max_attempts st
      then rbind (keep Stage_EXHAUSTED) (\<lambda>new.
           Inr \<lparr>cd_channel = ch, cd_outcome = Clar_EXHAUSTED, cd_stage = Stage_EXHAUSTED,
                cd_action = None, cd_response_key = None, cd_new_state = new\<rparr>)
      else (let next_attempts = cs_attempts st + 1;
                next_stage = (if next_attempts \<ge> cs_max_attempts st then Stage_EXHAUSTED
                              else if next_attempts = 1 then Stage_REPEAT else Stage_SPELL) in
           rbind (mk_clarification_state ch next_attempts next_stage (cs_max_attempts st)) (\<lambda>new.
           if next_stage = Stage_EXHAUSTED
           then Inr \<lparr>cd_channel = ch, cd_outcome = Clar_EXHAUSTED, cd_stage = Stage_EXHAUSTED,
                     cd_action = None, cd_response_key = None, cd_new_state = new\<rparr>
           else rbind (option_res KeyError (RESPONSE_KEYS ch next_stage)) (\<lambda>key.
                Inr \<lparr>cd_channel = ch, cd_outcome = Clar_RETRY, cd_stage = next_stage,
                     cd_action = Some Act_CLARIFY_CONTACT, cd_response_key = Some key,
                     cd_new_state = new\<rparr>))))"

section \<open>Fallbacks\<close>

record fallback_decision =
  fd_action :: agent_action
  fd_response_key :: str
  fd_is_terminal :: bool
  fd_reason :: str

text \<open>\<^verbatim>\<open>FallbackEngine(config)\<close>: the engine is its configuration and its fallback table.\<close>

definition new_fallback_engine :: "machine_config \<Rightarrow> (machine_config \<times> fallback_config) res" where
  "new_fallback_engine cfg =
     rbind (option_res ValueError (mc_fallbacks cfg)) (\<lambda>fb. Inr (cfg, fb))"

definition terminal_safe :: "str \<Rightarrow> fallback_decision" where
  "terminal_safe reason = \<lparr>fd_action = Act_END_CALL, fd_response_key = ''safe_close'',
     fd_is_terminal = True, fd_reason = reason\<rparr>"

definition mapped_fallback :: "fallback_mapping \<Rightarrow> str \<Rightarrow> fallback_decision" where
  "mapped_fallback mapping reason = \<lparr>fd_action = fm_action mapping,
     fd_response_key = fm_response_key mapping,
     fd_is_terminal = (fm_action mapping = Act_END_CALL), fd_reason = reason\<rparr>"

definition select_for_state ::
  "machine_config \<times> fallback_config \<Rightarrow> conversation_state \<Rightarrow> str \<Rightarrow> fallback_decision" where
  "select_for_state eng state reason =
     (if state \<in> mc_terminal_states (fst eng) then terminal_safe ''already_terminal''
      else case dget (fc_by_state (snd eng)) state of
        Some mapping \<Rightarrow> mapped_fallback mapping reason
      | None \<Rightarrow> mapped_fallback (fc_default (snd eng)) reason)"

definition select_fallback ::
  "machine_config \<times> fallback_config \<Rightarrow> conversation_state \<Rightarrow> validation_result \<Rightarrow> fallback_decision" where
  "select_fallback eng state result =
     (if state \<in> mc_terminal_states (fst eng) then terminal_safe ''already_terminal''
      else (let category_key = validation_category_value (vr_category result) in
        case dget (fc_by_category (snd eng)) category_key of
          Some mapping \<Rightarrow>
            \<lparr>fd_action = fm_action mapping, fd_response_key = fm_response_key mapping,
             fd_is_terminal = (fm_action mapping = Act_END_CALL \<or> fm_action mapping = Act_MARK_DNC
                               \<or> vr_category result = VC_UNKNOWN_REQUIREMENT),
             fd_reason = ''category:'' @ category_key\<rparr>
        | None \<Rightarrow>
          (case dget (fc_by_state (snd eng)) state of
             Some mapping \<Rightarrow> mapped_fallback mapping (''state:'' @ conversation_state_value state)
           | None \<Rightarrow> mapped_fallback (fc_default (snd eng)) ''default'')))"

section \<open>Trusted priorities\<close>

datatype trusted_priority = TP_NONE | TP_DNC | TP_NOT_INTERESTED

definition resolve_priority_action :: "trusted_priority \<Rightarrow> agent_action option" where
  "resolve_priority_action oc =
     (if oc = TP_DNC then Some Act_MARK_DNC
      else if oc = TP_NOT_INTERESTED then Some Act_END_CALL else None)"

section \<open>What the validator decides\<close>

definition prerequisite_holds :: "validator_ctx \<Rightarrow> str \<Rightarrow> bool" where
  "prerequisite_holds ctx r \<longleftrightarrow> (\<exists>p. dget PREREQUISITES r = Some p \<and> p ctx)"

text \<open>Requirement names short enough for the reason to fit its field.\<close>

definition short_requirements :: "machine_config \<Rightarrow> bool" where
  "short_requirements cfg \<longleftrightarrow> (\<forall>(s, sd) \<in> set (mc_states cfg).
     (\<forall>r \<in> set (sd_requires sd). length r \<le> 178)
     \<and> (\<forall>(a, rule) \<in> set (sd_transitions sd). \<forall>r \<in> set (tr_requires rule). length r \<le> 178))"

lemma action_value_short: "length (agent_action_value a) \<le> 20"
  by (cases a) simp_all

lemma state_value_short: "length (conversation_state_value s) \<le> 24"
  by (cases s) simp_all

lemma validation_rejected_simp:
  "length why \<le> 200 \<Longrightarrow> validation_rejected cat why =
     Inr \<lparr>vr_allowed = False, vr_category = cat, vr_reason = Some why, vr_from_deterministic_rule = True\<rparr>"
  by (simp add: validation_rejected_def)

lemma validation_rejected_Inr:
  "validation_rejected cat why = Inr r \<Longrightarrow> \<not> vr_allowed r \<and> vr_category r = cat"
  by (auto simp: validation_rejected_def res_simps)

text \<open>\<open>requirement_failure ctx rs\<close> is the category of the first requirement not met.\<close>

fun requirement_failure :: "validator_ctx \<Rightarrow> str list \<Rightarrow> validation_category option" where
  "requirement_failure ctx [] = None"
| "requirement_failure ctx (r # rs) = (case dget PREREQUISITES r of
     None \<Rightarrow> Some VC_UNKNOWN_REQUIREMENT
   | Some p \<Rightarrow> if p ctx then requirement_failure ctx rs else Some VC_MISSING_PREREQUISITE)"

lemma requirement_failure_None:
  "requirement_failure ctx rs = None \<longleftrightarrow> (\<forall>r \<in> set rs. prerequisite_holds ctx r)"
  by (induction rs) (auto simp: prerequisite_holds_def split: option.splits)

lemma check_requirements_result:
  assumes "\<forall>r \<in> set rs. length r \<le> 178"
  shows "case requirement_failure ctx rs of
      None \<Rightarrow> check_requirements ctx rs = Inr None
    | Some cat \<Rightarrow> \<exists>v. check_requirements ctx rs = Inr (Some v) \<and> \<not> vr_allowed v \<and> vr_category v = cat"
  using assms
proof (induction rs)
  case (Cons r rs)
  then have "length r \<le> 178" by simp
  then have "length (''unknown requirement: '' @ r) \<le> 200"
    "length (''missing prerequisite: '' @ r) \<le> 200" by simp_all
  note short = this [THEN validation_rejected_simp]
  with Cons show ?case
    by (auto simp del: append.simps split: option.splits if_splits)
qed simp

lemma machine_hook_None [simp]:
  "machine_hook context rule (Some ctx) \<longleftrightarrow> (\<forall>r \<in> set (tr_requires rule). prerequisite_holds ctx r)"
  by (auto simp: machine_hook_def list_all_iff prerequisite_holds_def split: option.splits)

text \<open>The decision as a table: the first line that applies.\<close>

definition expected_category ::
  "machine_config \<Rightarrow> conversation_state \<Rightarrow> agent_action \<Rightarrow> validator_ctx \<Rightarrow> validation_category" where
  "expected_category cfg s a ctx =
     (if vx_dnc_pending ctx \<and> a \<notin> set TERMINATING then VC_DNC_CONFLICT
      else case (if a \<in> set TERMINATING then None
                 else case dget (mc_states cfg) s of None \<Rightarrow> None
                      | Some sd \<Rightarrow> requirement_failure ctx (sd_requires sd)) of
        Some cat \<Rightarrow> cat
      | None \<Rightarrow> (case find_rule cfg s a of
          None \<Rightarrow> VC_NOT_ELIGIBLE
        | Some rule \<Rightarrow> (case requirement_failure ctx (tr_requires rule) of
            Some cat \<Rightarrow> cat | None \<Rightarrow> VC_OK)))"

lemma requirement_failure_not_OK: "requirement_failure ctx rs \<noteq> Some VC_OK"
  by (induction rs) (auto split: option.splits)

lemma short_state_requirements:
  "short_requirements cfg \<Longrightarrow> dget (mc_states cfg) s = Some sd \<Longrightarrow> r \<in> set (sd_requires sd)
    \<Longrightarrow> length r \<le> 178"
  by (auto simp: short_requirements_def dest: map_of_SomeD)

lemma short_rule_requirements:
  assumes "short_requirements cfg" and "find_rule cfg s a = Some rule"
  shows "\<forall>r \<in> set (tr_requires rule). length r \<le> 178"
proof -
  from assms(2) obtain sd where "dget (mc_states cfg) s = Some sd" "dget (sd_transitions sd) a = Some rule"
    by (auto simp: find_rule_def split: option.splits)
  from map_of_SomeD [OF this(1)] map_of_SomeD [OF this(2)] assms(1) show ?thesis
    unfolding short_requirements_def by blast
qed

text \<open>The second half of \<^verbatim>\<open>validate\<close>: find the rule and check its own requirements.\<close>

definition validate_rule ::
  "machine_config \<Rightarrow> conversation_state \<Rightarrow> agent_action \<Rightarrow> validator_ctx \<Rightarrow> validation_result res" where
  "validate_rule cfg state action ctx = (case find_rule cfg state action of
      None \<Rightarrow> validation_rejected VC_NOT_ELIGIBLE
        (agent_action_value action @ '' not allowed in '' @ conversation_state_value state)
    | Some rule \<Rightarrow>
        rbind (check_requirements ctx (tr_requires rule)) (\<lambda>late.
        case late of Some r \<Rightarrow> Inr r | None \<Rightarrow> Inr validation_ok))"

lemma validate_rule_result:
  assumes "short_requirements cfg"
  shows "\<exists>v. validate_rule cfg s a ctx = Inr v \<and> (vr_allowed v \<longleftrightarrow> vr_category v = VC_OK)
    \<and> vr_category v = (case find_rule cfg s a of None \<Rightarrow> VC_NOT_ELIGIBLE
        | Some rule \<Rightarrow> (case requirement_failure ctx (tr_requires rule) of
            Some cat \<Rightarrow> cat | None \<Rightarrow> VC_OK))"
proof (cases "find_rule cfg s a")
  case None
  have "length (agent_action_value a @ '' not allowed in '' @ conversation_state_value s) \<le> 200"
    using action_value_short [of a] state_value_short [of s] by simp
  with None show ?thesis by (simp add: validate_rule_def validation_rejected_simp del: append.simps)
next
  case (Some rule)
  from check_requirements_result [OF short_rule_requirements [OF assms Some], of ctx] Some
    requirement_failure_not_OK [of ctx "tr_requires rule"]
  show ?thesis
    by (cases "requirement_failure ctx (tr_requires rule)")
       (auto simp: validate_rule_def validation_ok_def)
qed

lemma validate_unfold:
  "validate cfg s a (Some ctx) =
     (if vx_dnc_pending ctx \<and> a \<notin> set TERMINATING
      then validation_rejected VC_DNC_CONFLICT
             (agent_action_value a @ '' rejected: do-not-call is pending'')
      else rbind (case dget (mc_states cfg) s of
                    None \<Rightarrow> Inr None
                  | Some sd \<Rightarrow> if a \<notin> set TERMINATING
                              then check_requirements ctx (sd_requires sd) else Inr None) (\<lambda>early.
           case early of Some r \<Rightarrow> Inr r | None \<Rightarrow> validate_rule cfg s a ctx))"
  by (simp add: validate_def validate_rule_def)

lemma validate_result:
  assumes "short_requirements cfg"
  obtains v where "validate cfg s a (Some ctx) = Inr v"
    and "vr_category v = expected_category cfg s a ctx"
    and "vr_allowed v \<longleftrightarrow> vr_category v = VC_OK"
proof (cases "vx_dnc_pending ctx \<and> a \<notin> set TERMINATING")
  case True
  have "length (agent_action_value a @ '' rejected: do-not-call is pending'') \<le> 200"
    using action_value_short [of a] by simp
  then obtain v where "validation_rejected VC_DNC_CONFLICT
      (agent_action_value a @ '' rejected: do-not-call is pending'') = Inr v"
    and "\<not> vr_allowed v" "vr_category v = VC_DNC_CONFLICT"
    using validation_rejected_simp by fastforce
  with True show thesis
    by (intro that [of v]) (simp_all add: validate_unfold expected_category_def del: append.simps)
next
  case False
  obtain v where v: "validate_rule cfg s a ctx = Inr v" "vr_allowed v \<longleftrightarrow> vr_category v = VC_OK"
    "vr_category v = (case find_rule cfg s a of None \<Rightarrow> VC_NOT_ELIGIBLE
        | Some rule \<Rightarrow> (case requirement_failure ctx (tr_requires rule) of
            Some cat \<Rightarrow> cat | None \<Rightarrow> VC_OK))"
    using validate_rule_result [OF assms] by blast
  show thesis
  proof (cases "a \<in> set TERMINATING \<or> dget (mc_states cfg) s = None")
    case True
    then have "validate cfg s a (Some ctx) = Inr v"
      using False v(1) by (auto simp: validate_unfold split: option.splits)
    with v True False show thesis
      by (intro that [of v]) (auto simp: expected_category_def)
  next
    case nt: False
    then obtain sd where sd: "dget (mc_states cfg) s = Some sd" by blast
    have "\<forall>r \<in> set (sd_requires sd). length r \<le> 178"
      using short_state_requirements [OF assms sd] by blast
    from check_requirements_result [OF this, of ctx] show thesis
      using False nt sd v requirement_failure_not_OK [of ctx "sd_requires sd"]
      by (cases "requirement_failure ctx (sd_requires sd)")
         (auto simp: validate_unfold expected_category_def intro: that)
  qed
qed

lemma expected_OK_iff:
  "expected_category cfg s a ctx = VC_OK \<longleftrightarrow>
     (vx_dnc_pending ctx \<longrightarrow> a \<in> set TERMINATING)
     \<and> (a \<in> set TERMINATING \<or> (\<forall>sd. dget (mc_states cfg) s = Some sd
          \<longrightarrow> (\<forall>r \<in> set (sd_requires sd). prerequisite_holds ctx r)))
     \<and> (\<exists>rule. find_rule cfg s a = Some rule
          \<and> (\<forall>r \<in> set (tr_requires rule). prerequisite_holds ctx r))"
  using requirement_failure_not_OK [of ctx]
  by (auto simp: expected_category_def requirement_failure_None [symmetric] split: option.splits)

text \<open>
  The action validator decides exactly what it documents. On a configuration whose
  requirement names are short it never raises, and it allows an action if and only if:
  the action ends the call or no do-not-call is pending; the action ends the call or every
  requirement of the state holds in the context; the state has a rule for the action and
  every requirement of that rule holds. The category of a rejection names the first of
  these, in that order, that fails.
\<close>

theorem validator_decides:
  assumes "short_requirements cfg"
  shows "\<exists>v. validate cfg s a (Some ctx) = Inr v
    \<and> vr_category v = expected_category cfg s a ctx
    \<and> (vr_allowed v \<longleftrightarrow>
        (vx_dnc_pending ctx \<longrightarrow> a \<in> {Act_MARK_DNC, Act_END_CALL})
        \<and> (a \<in> {Act_MARK_DNC, Act_END_CALL} \<or> (\<forall>sd. dget (mc_states cfg) s = Some sd
             \<longrightarrow> (\<forall>r \<in> set (sd_requires sd). prerequisite_holds ctx r)))
        \<and> (\<exists>rule. find_rule cfg s a = Some rule
             \<and> (\<forall>r \<in> set (tr_requires rule). prerequisite_holds ctx r)))"
proof -
  obtain v where v: "validate cfg s a (Some ctx) = Inr v"
    "vr_category v = expected_category cfg s a ctx" "vr_allowed v \<longleftrightarrow> vr_category v = VC_OK"
    using assms by (rule validate_result)
  show ?thesis using v(1,2) v(3) [unfolded v(2) expected_OK_iff]
    by (intro exI [of _ v]) (simp add: TERMINATING_def)
qed

lemma shipped_short: "short_requirements shipped_config"
  by code_simp

lemma validator_decides_witness:
  "\<exists>v. validate shipped_config St_COLLECT_EMAIL Act_CONFIRM_CONTACT (Some empty_validator_ctx) = Inr v
     \<and> vr_category v = VC_MISSING_PREREQUISITE"
proof -
  have "expected_category shipped_config St_COLLECT_EMAIL Act_CONFIRM_CONTACT empty_validator_ctx
      = VC_MISSING_PREREQUISITE"
    by code_simp
  with validator_decides [OF shipped_short] show ?thesis by metis
qed

text \<open>
  The validator and the machine agree: what the validator allows in the machine's
  current state passes the machine's own prerequisite hook, and on a loaded configuration
  the machine then approves the action whenever the rule's target resolves (a return needs
  a detour to return from).
\<close>

theorem validator_agrees_with_machine:
  assumes "machine_ok m" and "short_requirements (ms_config m)"
    and "validate (ms_config m) (ms_current_state m) a (Some ctx) = Inr v" and "vr_allowed v"
    and "tr_target (the (find_rule (ms_config m) (ms_current_state m) a)) = PREVIOUS_STATE_SENTINEL
           \<longrightarrow> ms_state_stack m \<noteq> []"
  shows "\<exists>t m'. apply_transition m a (Some ctx) (Some (machine_hook None)) = (Inr t, m')
    \<and> transition m a = (Inr t, m')"
proof -
  obtain v' where "validate (ms_config m) (ms_current_state m) a (Some ctx) = Inr v'"
    "vr_category v' = expected_category (ms_config m) (ms_current_state m) a ctx"
    "vr_allowed v' \<longleftrightarrow> vr_category v' = VC_OK"
    using assms(2) by (rule validate_result)
  with assms(3,4) have "expected_category (ms_config m) (ms_current_state m) a ctx = VC_OK" by simp
  then obtain rule where rule: "find_rule (ms_config m) (ms_current_state m) a = Some rule"
    and hook: "machine_hook None rule (Some ctx)"
    by (auto simp: expected_OK_iff)
  from rule obtain sd where sd: "dget (mc_states (ms_config m)) (ms_current_state m) = Some sd"
    and r: "dget (sd_transitions sd) a = Some rule"
    by (auto simp: find_rule_def split: option.splits)
  have nt: "\<not> is_terminal m" using terminal_no_rules [OF assms(1) _ sd] r by auto
  have "\<exists>target. resolve_target m rule = Inr target"
  proof (cases "tr_target rule = PREVIOUS_STATE_SENTINEL")
    case True
    with assms(5) rule show ?thesis by (simp add: resolve_target_def)
  next
    case False
    from assms(1) have "wf_config (ms_config m)" by (simp add: machine_ok_def)
    from wf_rule_ok [OF this sd r] False show ?thesis
      by (auto simp: rule_ok_def resolve_target_def)
  qed
  with nt sd r hook show ?thesis
    by (auto simp: apply_transition_def current_def_def)
qed

lemma validator_agrees_with_machine_witness:
  "\<exists>t m'. transition shipped_machine Act_GREET = (Inr t, m')"
proof -
  have "validate (ms_config shipped_machine) (ms_current_state shipped_machine) Act_GREET
      (Some empty_validator_ctx) = Inr validation_ok"
    and "(tr_target (the (find_rule (ms_config shipped_machine) (ms_current_state shipped_machine)
        Act_GREET)) = PREVIOUS_STATE_SENTINEL) = False"
    by code_simp+
  with validator_agrees_with_machine [OF shipped_start_ok _ this(1)] shipped_short shipped_start(2)
  show ?thesis by (auto simp: validation_ok_def)
qed

section \<open>Clarification is bounded\<close>

definition clarification_ok :: "clarification_state \<Rightarrow> bool" where
  "clarification_ok st \<longleftrightarrow> 0 \<le> cs_attempts st \<and> 1 \<le> cs_max_attempts st
     \<and> cs_attempts st \<le> cs_max_attempts st
     \<and> (cs_stage st = Stage_EXHAUSTED \<longrightarrow> cs_attempts st = cs_max_attempts st)"

text \<open>The outcomes of a sequence of extractions; the state threads through.\<close>

fun clarify_run :: "clarification_state \<Rightarrow> bool list \<Rightarrow> (clarification_outcome list \<times> clarification_state) res" where
  "clarify_run st [] = Inr ([], st)"
| "clarify_run st (clear # rest) =
     rbind (evaluate_clarification st clear) (\<lambda>d.
     rbind (clarify_run (cd_new_state d) rest) (\<lambda>(ocs, st').
     Inr (cd_outcome d # ocs, st')))"

lemma mk_clarification_state_ok:
  "0 \<le> n \<Longrightarrow> 1 \<le> mx \<Longrightarrow> mk_clarification_state ch n stage mx =
     Inr \<lparr>cs_channel = ch, cs_attempts = n, cs_stage = stage, cs_max_attempts = mx\<rparr>"
  by (simp add: mk_clarification_state_def)

lemma evaluate_total: "clarification_ok st \<Longrightarrow> \<exists>d. evaluate_clarification st clear = Inr d"
  by (auto simp: evaluate_clarification_def mk_clarification_state_ok clarification_ok_def Let_def)

text \<open>One evaluation, by cases on the verdict and on how many attempts were used.\<close>

lemma evaluate_facts_all:
  assumes "clarification_ok st" and "evaluate_clarification st clear = Inr d"
  shows "clarification_ok (cd_new_state d)
    \<and> cs_max_attempts (cd_new_state d) = cs_max_attempts st
    \<and> cs_channel (cd_new_state d) = cs_channel st
    \<and> cs_attempts (cd_new_state d) =
           (if clear then cs_attempts st else min (cs_max_attempts st) (cs_attempts st + 1))
    \<and> cd_outcome d = (if clear then Clar_CLEAR
           else if cs_max_attempts st \<le> cs_attempts st + 1 then Clar_EXHAUSTED else Clar_RETRY)
    \<and> cd_action d = (if clear then Some Act_CONFIRM_CONTACT
           else if cs_max_attempts st \<le> cs_attempts st + 1 then None else Some Act_CLARIFY_CONTACT)"
proof -
  have ok: "0 \<le> cs_attempts st" "1 \<le> cs_max_attempts st" "cs_attempts st \<le> cs_max_attempts st"
    "cs_stage st = Stage_EXHAUSTED \<Longrightarrow> cs_attempts st = cs_max_attempts st"
    using assms(1) by (simp_all add: clarification_ok_def)
  consider (clear) clear | (used_up) "\<not> clear" "cs_attempts st = cs_max_attempts st"
    | (final) "\<not> clear" "cs_stage st \<noteq> Stage_EXHAUSTED" "cs_attempts st + 1 = cs_max_attempts st"
    | (again) "\<not> clear" "cs_stage st \<noteq> Stage_EXHAUSTED" "cs_attempts st + 1 < cs_max_attempts st"
    using ok by fastforce
  then show ?thesis
  proof cases
    case clear
    with assms(2) ok show ?thesis
      by (simp add: evaluate_clarification_def Let_def mk_clarification_state_ok clarification_ok_def)
         (auto simp: clarification_ok_def)
  next
    case used_up
    with assms(2) ok show ?thesis
      by (auto simp: evaluate_clarification_def Let_def mk_clarification_state_ok clarification_ok_def)
  next
    case final
    with assms(2) ok show ?thesis
      by (auto simp: evaluate_clarification_def Let_def mk_clarification_state_ok clarification_ok_def)
  next
    case again
    show ?thesis
    proof (cases "cs_attempts st = 0")
      case True
      with again assms(2) ok show ?thesis
        by (auto simp: evaluate_clarification_def Let_def mk_clarification_state_ok clarification_ok_def)
    next
      case False
      with again assms(2) ok show ?thesis
        by (auto simp: evaluate_clarification_def Let_def mk_clarification_state_ok clarification_ok_def)
    qed
  qed
qed

lemmas evaluate_facts = evaluate_facts_all [THEN conjunct1]
  evaluate_facts_all [THEN conjunct2, THEN conjunct1]
  evaluate_facts_all [THEN conjunct2, THEN conjunct2, THEN conjunct1]
  evaluate_facts_all [THEN conjunct2, THEN conjunct2, THEN conjunct2, THEN conjunct1]
  evaluate_facts_all [THEN conjunct2, THEN conjunct2, THEN conjunct2, THEN conjunct2, THEN conjunct1]
  evaluate_facts_all [THEN conjunct2, THEN conjunct2, THEN conjunct2, THEN conjunct2, THEN conjunct2]

lemma clarify_run_facts:
  assumes "clarification_ok st"
  shows "\<exists>ocs st'. clarify_run st bs = Inr (ocs, st') \<and> clarification_ok st'
    \<and> cs_max_attempts st' = cs_max_attempts st
    \<and> cs_attempts st' = min (cs_max_attempts st) (cs_attempts st + int (count_list bs False))
    \<and> int (count_list ocs Clar_RETRY) \<le> max 0 (cs_max_attempts st - 1 - cs_attempts st)"
  using assms
proof (induction bs arbitrary: st)
  case Nil
  then show ?case by (simp add: clarification_ok_def)
next
  case (Cons b bs)
  from evaluate_total [OF Cons.prems] obtain d where d: "evaluate_clarification st b = Inr d" by blast
  note f = evaluate_facts [OF Cons.prems d]
  from Cons.IH [OF f(1)] obtain ocs st' where
    r: "clarify_run (cd_new_state d) bs = Inr (ocs, st')" "clarification_ok st'"
      "cs_max_attempts st' = cs_max_attempts (cd_new_state d)"
      "cs_attempts st' = min (cs_max_attempts (cd_new_state d))
         (cs_attempts (cd_new_state d) + int (count_list bs False))"
      "int (count_list ocs Clar_RETRY) \<le>
         max 0 (cs_max_attempts (cd_new_state d) - 1 - cs_attempts (cd_new_state d))"
    by blast
  have "clarify_run st (b # bs) = Inr (cd_outcome d # ocs, st')" by (simp add: d r(1))
  moreover have "cs_attempts st' = min (cs_max_attempts st) (cs_attempts st + int (count_list (b # bs) False))"
    using r(4) f(2,4) by (auto split: if_splits)
  moreover have "int (count_list (cd_outcome d # ocs) Clar_RETRY) \<le>
      max 0 (cs_max_attempts st - 1 - cs_attempts st)"
    using r(5) f(2,4,5) by (auto split: if_splits)
  ultimately show ?case using r(2,3) f(2) by auto
qed

text \<open>
  Clarification always ends. With a positive limit \<open>n\<close> for the channel, a session never
  raises whatever the extractions are; it asks the person to repeat or spell at most
  \<open>n - 1\<close> times in all, clear extractions in between included; its attempt counter is
  the number of unclear extractions capped at \<open>n\<close>, and from the \<open>n\<close>-th unclear one on
  every further unclear extraction is reported exhausted.
\<close>

theorem clarification_bounded:
  assumes "1 \<le> max_for cfg ch"
  shows "\<exists>st ocs st'. new_session cfg ch = Inr st \<and> clarify_run st extractions = Inr (ocs, st')
    \<and> int (count_list ocs Clar_RETRY) \<le> max_for cfg ch - 1
    \<and> cs_attempts st' = min (max_for cfg ch) (int (count_list extractions False))
    \<and> (max_for cfg ch \<le> int (count_list extractions False) + 1
        \<longrightarrow> (\<exists>d. evaluate_clarification st' False = Inr d \<and> cd_outcome d = Clar_EXHAUSTED
              \<and> cd_action d = None))"
proof -
  let ?st = "\<lparr>cs_channel = ch, cs_attempts = 0, cs_stage = Stage_NONE, cs_max_attempts = max_for cfg ch\<rparr>"
  have st: "new_session cfg ch = Inr ?st" using assms
    by (simp add: new_session_def mk_clarification_state_ok)
  have ok: "clarification_ok ?st" using assms by (simp add: clarification_ok_def)
  from clarify_run_facts [OF ok, of extractions] obtain ocs st' where
    r: "clarify_run ?st extractions = Inr (ocs, st')" "clarification_ok st'"
      "cs_max_attempts st' = max_for cfg ch"
      "cs_attempts st' = min (max_for cfg ch) (int (count_list extractions False))"
      "int (count_list ocs Clar_RETRY) \<le> max 0 (max_for cfg ch - 1)" by auto
  obtain d where d: "evaluate_clarification st' False = Inr d" using evaluate_total [OF r(2)] by blast
  show ?thesis
    using evaluate_facts(5,6) [OF r(2) d] r assms
    by (intro exI [of _ ?st] exI [of _ ocs] exI [of _ st'] conjI st impI exI [of _ d] d) auto
qed

lemma clarification_bounded_witness:
  "max_for shipped_config Ch_EMAIL = 3
    \<and> (\<exists>ocs st'. rbind (new_session shipped_config Ch_EMAIL)
          (\<lambda>st. clarify_run st [False, True, False, False, False]) = Inr (ocs, st')
        \<and> int (count_list ocs Clar_RETRY) \<le> 2 \<and> cs_attempts st' = 3)"
proof -
  have m: "max_for shipped_config Ch_EMAIL = 3" by code_simp
  have "1 \<le> max_for shipped_config Ch_EMAIL" by (simp add: m)
  from clarification_bounded [OF this, of "[False, True, False, False, False]"] show ?thesis
    by (auto simp: m)
qed

section \<open>Fallbacks that the shipped table allows\<close>

definition shipped_fallback :: "conversation_state \<Rightarrow> fallback_decision" where
  "shipped_fallback s =
     select_for_state (shipped_config, the (mc_fallbacks shipped_config)) s ''clarification_exhausted''"

lemma shipped_fallback_table:
  "list_all (\<lambda>s. (find_rule shipped_config s (fd_action (shipped_fallback s)) \<noteq> None) =
        (s \<notin> set [St_NEW_CALL, St_FOLLOW_UP, St_CHECK_HISTORY, St_END_CALL]))
    all_conversation_state"
  by code_simp

text \<open>
  In the shipped configuration the fallback selected for a state is an action that the
  state's own transition table lists, in every state but four: \<^verbatim>\<open>new_call\<close> and
  \<^verbatim>\<open>follow_up\<close>, which have no fallback of their own and do not list the default
  \<^verbatim>\<open>end_call\<close>; \<^verbatim>\<open>check_history\<close>, which the configuration does not define; and the
  terminal \<^verbatim>\<open>end_call\<close>, where nothing is listed.
\<close>

theorem shipped_fallback_listed:
  "find_rule shipped_config s (fd_action (shipped_fallback s)) \<noteq> None
    \<longleftrightarrow> s \<notin> {St_NEW_CALL, St_FOLLOW_UP, St_CHECK_HISTORY, St_END_CALL}"
proof -
  have "s \<in> set all_conversation_state" by (cases s) (simp_all add: all_conversation_state_def)
  with shipped_fallback_table show ?thesis by (simp add: list_all_iff)
qed

end
