(* ===== verification/Catalog.thy ===== *)
theory Catalog
  imports Prelude
begin

text \<open>
  \<^verbatim>\<open>app/catalog\<close> and \<^verbatim>\<open>app/services/service_offering_service.py\<close>: the service catalog and
  its loader, the view of one campaign, which claims may be made, which services are
  eligible as an alternative, and how one of them is selected and authorised. The selector
  that ranks several candidates is a language model behind an interface: an argument that
  returns a proposal or raises. Diagnostic texts of refusals are not modelled (one of them
  renders a float).
\<close>

section \<open>The catalog and its loader\<close>

record subservice =
  sub_id :: str
  sub_name :: str
  sub_capabilities :: "str list"
  sub_allowed_claims :: "str set"
  sub_forbidden_claims :: "str set"

record service =
  svc_id :: str
  svc_name :: str
  svc_capabilities :: "str list"
  svc_applicable_when :: "str set"
  svc_allowed_claims :: "str set"
  svc_forbidden_claims :: "str set"
  svc_subservices :: "(str, subservice) dict"

record campaign =
  cam_id :: str
  cam_name :: str
  cam_service_ids :: "str list"

record service_catalog =
  cat_services :: "(str, service) dict"
  cat_campaigns :: "(str, campaign) dict"

text \<open>The YAML document: a missing key is \<open>None\<close> or the empty list.\<close>

record raw_subservice =
  rsub_id :: "str option"
  rsub_name :: "str option"
  rsub_capabilities :: "str list"
  rsub_allowed_claims :: "str list"
  rsub_forbidden_claims :: "str list"

record raw_service =
  rsvc_id :: "str option"
  rsvc_name :: "str option"
  rsvc_capabilities :: "str list"
  rsvc_applicable_when :: "str list"
  rsvc_allowed_claims :: "str list"
  rsvc_forbidden_claims :: "str list"
  rsvc_subservices :: "raw_subservice list"

record raw_campaign =
  rcam_name :: "str option"
  rcam_services :: "str list"

record raw_catalog =
  rcat_services :: "raw_service list"
  rcat_campaigns :: "(str, raw_campaign) dict"

definition parse_subservice :: "raw_subservice \<Rightarrow> subservice res" where
  "parse_subservice raw =
     rbind (guard (truthy (rsub_id raw) \<and> truthy (rsub_name raw)) ConfigurationError) (\<lambda>_.
     let allowed = set (rsub_allowed_claims raw); forbidden = set (rsub_forbidden_claims raw) in
     rbind (guard (allowed \<inter> forbidden = {}) ConfigurationError) (\<lambda>_.
     Inr \<lparr>sub_id = the (rsub_id raw), sub_name = the (rsub_name raw),
          sub_capabilities = rsub_capabilities raw, sub_allowed_claims = allowed,
          sub_forbidden_claims = forbidden\<rparr>))"

definition add_subservice :: "(str, subservice) dict \<Rightarrow> raw_subservice \<Rightarrow> (str, subservice) dict res" where
  "add_subservice subs raw =
     rbind (parse_subservice raw) (\<lambda>sub.
     rbind (guard (sub_id sub \<notin> set (dkeys subs)) ConfigurationError) (\<lambda>_.
     Inr (dset (sub_id sub) sub subs)))"

definition parse_service :: "raw_service \<Rightarrow> service res" where
  "parse_service raw =
     rbind (guard (truthy (rsvc_id raw) \<and> truthy (rsvc_name raw)) ConfigurationError) (\<lambda>_.
     let allowed = set (rsvc_allowed_claims raw); forbidden = set (rsvc_forbidden_claims raw) in
     rbind (guard (allowed \<inter> forbidden = {}) ConfigurationError) (\<lambda>_.
     rbind (rfold add_subservice [] (rsvc_subservices raw)) (\<lambda>subs.
     Inr \<lparr>svc_id = the (rsvc_id raw), svc_name = the (rsvc_name raw),
          svc_capabilities = rsvc_capabilities raw,
          svc_applicable_when = set (rsvc_applicable_when raw),
          svc_allowed_claims = allowed, svc_forbidden_claims = forbidden,
          svc_subservices = subs\<rparr>)))"

definition add_service :: "(str, service) dict \<Rightarrow> raw_service \<Rightarrow> (str, service) dict res" where
  "add_service services raw =
     rbind (parse_service raw) (\<lambda>svc.
     rbind (guard (svc_id svc \<notin> set (dkeys services)) ConfigurationError) (\<lambda>_.
     Inr (dset (svc_id svc) svc services)))"

definition add_campaign ::
  "(str, service) dict \<Rightarrow> (str, campaign) dict \<Rightarrow> str \<times> raw_campaign \<Rightarrow> (str, campaign) dict res" where
  "add_campaign services campaigns kb =
     rbind (guard (list_all (\<lambda>ref. ref \<in> set (dkeys services)) (rcam_services (snd kb)))
              ConfigurationError) (\<lambda>_.
     rbind (guard (fst kb \<notin> set (dkeys campaigns)) ConfigurationError) (\<lambda>_.
     Inr (dset (fst kb)
       \<lparr>cam_id = fst kb,
        cam_name = (case rcam_name (snd kb) of None \<Rightarrow> fst kb | Some n \<Rightarrow> n),
        cam_service_ids = rcam_services (snd kb)\<rparr> campaigns)))"

definition load_catalog :: "raw_catalog option \<Rightarrow> service_catalog res" where
  "load_catalog file =
     rbind (option_res ConfigurationError file) (\<lambda>raw.
     rbind (rfold add_service [] (rcat_services raw)) (\<lambda>services.
     rbind (guard (services \<noteq> []) ConfigurationError) (\<lambda>_.
     rbind (rfold (add_campaign services) [] (rcat_campaigns raw)) (\<lambda>campaigns.
     Inr \<lparr>cat_services = services, cat_campaigns = campaigns\<rparr>))))"

section \<open>The view of one campaign\<close>

record scoped_catalog =
  sc_campaign_id :: str
  sc_services :: "(str, service) dict"

definition add_scoped :: "(str, service) dict \<Rightarrow> (str, service) dict \<Rightarrow> str \<Rightarrow> (str, service) dict res" where
  "add_scoped services acc sid =
     rbind (option_res KeyError (dget services sid)) (\<lambda>svc. Inr (dset sid svc acc))"

definition new_scoped_catalog :: "service_catalog \<Rightarrow> str \<Rightarrow> scoped_catalog res" where
  "new_scoped_catalog cat campaign_id =
     rbind (option_res ConfigurationError (dget (cat_campaigns cat) campaign_id)) (\<lambda>campaign.
     rbind (rfold (add_scoped (cat_services cat)) [] (cam_service_ids campaign)) (\<lambda>services.
     Inr \<lparr>sc_campaign_id = campaign_id, sc_services = services\<rparr>))"

definition is_service_authorized :: "scoped_catalog \<Rightarrow> str \<Rightarrow> bool" where
  "is_service_authorized sc sid \<longleftrightarrow> sid \<in> set (dkeys (sc_services sc))"

definition get_service :: "scoped_catalog \<Rightarrow> str \<Rightarrow> service option" where
  "get_service sc sid = dget (sc_services sc) sid"

definition authorized_service_ids :: "scoped_catalog \<Rightarrow> str set" where
  "authorized_service_ids sc = set (dkeys (sc_services sc))"

definition applicable_services :: "scoped_catalog \<Rightarrow> str set \<Rightarrow> service list" where
  "applicable_services sc signals =
     filter (\<lambda>svc. svc_applicable_when svc \<inter> signals \<noteq> {}) (map snd (sc_services sc))"

section \<open>Claims\<close>

datatype claim_category =
    Claim_AUTHORIZED | Claim_FORBIDDEN | Claim_UNKNOWN_SERVICE | Claim_UNKNOWN_CLAIM

record claim_validation_result =
  cvr_authorized :: bool
  cvr_category :: claim_category

definition claim_verdict :: "claim_category \<Rightarrow> claim_validation_result" where
  "claim_verdict c = \<lparr>cvr_authorized = (c = Claim_AUTHORIZED), cvr_category = c\<rparr>"

definition validate_service :: "scoped_catalog \<Rightarrow> str \<Rightarrow> claim_validation_result" where
  "validate_service sc sid =
     (if is_service_authorized sc sid then claim_verdict Claim_AUTHORIZED
      else claim_verdict Claim_UNKNOWN_SERVICE)"

definition judge_claim :: "str set \<Rightarrow> str set \<Rightarrow> str \<Rightarrow> claim_validation_result" where
  "judge_claim allowed forbidden claim =
     (if claim \<in> forbidden then claim_verdict Claim_FORBIDDEN
      else if claim \<in> allowed then claim_verdict Claim_AUTHORIZED
      else claim_verdict Claim_UNKNOWN_CLAIM)"

definition validate_claim :: "scoped_catalog \<Rightarrow> str \<Rightarrow> str \<Rightarrow> str option \<Rightarrow> claim_validation_result" where
  "validate_claim sc sid claim subservice_id = (case get_service sc sid of
       None \<Rightarrow> claim_verdict Claim_UNKNOWN_SERVICE
     | Some svc \<Rightarrow> (case subservice_id of
           None \<Rightarrow> judge_claim (svc_allowed_claims svc) (svc_forbidden_claims svc) claim
         | Some sub_key \<Rightarrow> (case dget (svc_subservices svc) sub_key of
               None \<Rightarrow> claim_verdict Claim_UNKNOWN_SERVICE
             | Some sub \<Rightarrow> judge_claim (svc_allowed_claims svc \<union> sub_allowed_claims sub)
                            (svc_forbidden_claims svc \<union> sub_forbidden_claims sub) claim)))"

section \<open>Eligible alternatives and selection\<close>

definition compute_eligible_alternatives ::
  "scoped_catalog \<Rightarrow> str set \<Rightarrow> str list \<Rightarrow> int \<Rightarrow> int \<Rightarrow> str list" where
  "compute_eligible_alternatives sc known_signals offered offers_made max_offers =
     (if offers_made \<ge> max_offers then []
      else (let eligible = set (map svc_id (applicable_services sc known_signals)) in
            sorted_list_of_set (eligible - set offered)))"

record selection_input =
  sin_eligible_service_ids :: "str list"
  sin_campaign_id :: str
  sin_known_signals :: "str set"
  sin_offered_service_ids :: "str list"

record selection_proposal =
  prop_service_id :: str
  prop_confidence :: py_float

datatype selection_outcome =
    Sel_APPROVED | Sel_NOT_ELIGIBLE | Sel_ALREADY_OFFERED | Sel_LOW_CONFIDENCE
  | Sel_UNAUTHORIZED | Sel_NO_ELIGIBLE | Sel_SELECTOR_FAILED

record selection_result =
  slr_outcome :: selection_outcome
  slr_approved_service_id :: "str option"

definition refused :: "selection_outcome \<Rightarrow> selection_result" where
  "refused oc = \<lparr>slr_outcome = oc, slr_approved_service_id = None\<rparr>"

text \<open>\<^verbatim>\<open>SelectorValidator\<close> keeps the campaign's claims and the least confidence.\<close>

definition validate_selection ::
  "scoped_catalog \<Rightarrow> py_float \<Rightarrow> selection_proposal \<Rightarrow> selection_input \<Rightarrow> selection_result" where
  "validate_selection sc min_confidence proposal inp =
     (let eligible = set (sin_eligible_service_ids inp); sid = prop_service_id proposal in
      if eligible = {} then refused Sel_NO_ELIGIBLE
      else if sid \<notin> eligible then refused Sel_NOT_ELIGIBLE
      else if sid \<in> set (sin_offered_service_ids inp) then refused Sel_ALREADY_OFFERED
      else if py_lt (prop_confidence proposal) min_confidence then refused Sel_LOW_CONFIDENCE
      else if \<not> cvr_authorized (validate_service sc sid) then refused Sel_UNAUTHORIZED
      else \<lparr>slr_outcome = Sel_APPROVED, slr_approved_service_id = Some sid\<rparr>)"

definition deterministic_single_pick :: "selection_input \<Rightarrow> selection_proposal option" where
  "deterministic_single_pick inp =
     (if length (sin_eligible_service_ids inp) = 1
      then Some \<lparr>prop_service_id = hd (sin_eligible_service_ids inp), prop_confidence = Fin 1\<rparr>
      else None)"

type_synonym selector = "selection_input \<Rightarrow> selection_proposal res"

definition select_and_authorize ::
  "selector \<Rightarrow> scoped_catalog \<Rightarrow> py_float \<Rightarrow> selection_input \<Rightarrow> selection_result res" where
  "select_and_authorize selector sc min_confidence inp =
     (if sin_eligible_service_ids inp = [] then Inr (refused Sel_NO_ELIGIBLE)
      else case deterministic_single_pick inp of
        Some single \<Rightarrow> Inr (validate_selection sc min_confidence single inp)
      | None \<Rightarrow> (case selector inp of
            Inl e \<Rightarrow> if e = SelectorError then Inr (refused Sel_SELECTOR_FAILED) else Inl e
          | Inr proposal \<Rightarrow> Inr (validate_selection sc min_confidence proposal inp)))"

text \<open>The selector the package ships for tests and development.\<close>

record mock_selector =
  mock_forced_id :: "str option"
  mock_forced_confidence :: py_float
  mock_should_fail :: bool

definition mock_select :: "mock_selector \<Rightarrow> selector" where
  "mock_select m inp =
     (if mock_should_fail m then Inl SelectorError
      else Inr \<lparr>prop_service_id = (case mock_forced_id m of Some i \<Rightarrow> i
                  | None \<Rightarrow> if sin_eligible_service_ids inp \<noteq> [] then hd (sin_eligible_service_ids inp)
                           else []),
                prop_confidence = mock_forced_confidence m\<rparr>)"

section \<open>The offering service\<close>

record offering_service =
  os_catalog :: scoped_catalog
  os_selector :: selector
  os_min_confidence :: py_float
  os_max_offers :: int

record offer_result =
  or_approved_service_id :: "str option"
  or_selection :: selection_result
  or_eligible_service_ids :: "str list"

definition can_offer :: "offer_result \<Rightarrow> bool" where
  "can_offer r \<longleftrightarrow> or_approved_service_id r \<noteq> None"

definition offer ::
  "offering_service \<Rightarrow> str \<Rightarrow> str set \<Rightarrow> str list \<Rightarrow> int \<Rightarrow> offer_result res" where
  "offer os campaign_id known_signals offered offers_made =
     (let eligible = compute_eligible_alternatives (os_catalog os) known_signals offered offers_made
                       (os_max_offers os);
          inp = \<lparr>sin_eligible_service_ids = eligible, sin_campaign_id = campaign_id,
                 sin_known_signals = known_signals, sin_offered_service_ids = offered\<rparr> in
      rbind (select_and_authorize (os_selector os) (os_catalog os) (os_min_confidence os) inp) (\<lambda>result.
      let approved = (if slr_outcome result = Sel_APPROVED then slr_approved_service_id result else None) in
      Inr \<lparr>or_approved_service_id = approved, or_selection = result,
           or_eligible_service_ids = eligible\<rparr>))"

section \<open>What a loaded catalog guarantees\<close>

definition wf_catalog :: "service_catalog \<Rightarrow> bool" where
  "wf_catalog cat \<longleftrightarrow>
     (\<forall>(k, svc) \<in> set (cat_services cat). svc_id svc = k
        \<and> svc_allowed_claims svc \<inter> svc_forbidden_claims svc = {}
        \<and> (\<forall>(k', sub) \<in> set (svc_subservices svc). sub_id sub = k'
             \<and> sub_allowed_claims sub \<inter> sub_forbidden_claims sub = {}))
     \<and> (\<forall>(c, cam) \<in> set (cat_campaigns cat). cam_id cam = c
        \<and> set (cam_service_ids cam) \<subseteq> set (dkeys (cat_services cat)))"

lemma add_subservice_ok:
  assumes "rfold add_subservice [] raws = Inr subs"
  shows "\<forall>(k, sub) \<in> set subs. sub_id sub = k \<and> sub_allowed_claims sub \<inter> sub_forbidden_claims sub = {}"
  by (rule rfold_invariant [OF assms])
     (auto simp: add_subservice_def parse_subservice_def Let_def res_simps dest!: dset_member)

lemma parse_service_ok:
  assumes "parse_service raw = Inr svc"
  shows "svc_allowed_claims svc \<inter> svc_forbidden_claims svc = {}
    \<and> (\<forall>(k, sub) \<in> set (svc_subservices svc). sub_id sub = k
         \<and> sub_allowed_claims sub \<inter> sub_forbidden_claims sub = {})"
proof -
  from assms obtain subs where subs: "rfold add_subservice [] (rsvc_subservices raw) = Inr subs"
    and svc: "svc_subservices svc = subs"
      "svc_allowed_claims svc \<inter> svc_forbidden_claims svc = {}"
    by (auto simp: parse_service_def Let_def res_simps)
  from add_subservice_ok [OF subs] svc show ?thesis by simp
qed

lemma load_catalog_wf:
  assumes "load_catalog file = Inr cat"
  shows "wf_catalog cat"
proof -
  from assms obtain raw :: raw_catalog and services campaigns where
    sv: "rfold add_service [] (rcat_services raw) = Inr services"
    and cm: "rfold (add_campaign services) [] (rcat_campaigns raw) = Inr campaigns"
    and cat: "\<lparr>cat_services = services, cat_campaigns = campaigns\<rparr> = cat"
    unfolding load_catalog_def res_simps sum.inject by (elim exE conjE) (rule that; assumption)
  have "\<forall>(k, svc) \<in> set services. svc_id svc = k
        \<and> svc_allowed_claims svc \<inter> svc_forbidden_claims svc = {}
        \<and> (\<forall>(k', sub) \<in> set (svc_subservices svc). sub_id sub = k'
             \<and> sub_allowed_claims sub \<inter> sub_forbidden_claims sub = {})"
    by (rule rfold_invariant [OF sv])
       (fastforce simp: add_service_def res_simps dest!: dset_member parse_service_ok)+
  moreover have "\<forall>(c, cam) \<in> set campaigns. cam_id cam = c
        \<and> set (cam_service_ids cam) \<subseteq> set (dkeys services)"
    by (rule rfold_invariant [OF cm])
       (auto simp: add_campaign_def res_simps list_all_iff dest!: dset_member)
  ultimately show ?thesis by (auto simp: wf_catalog_def simp flip: cat)
qed

lemma add_scoped_rfold:
  assumes "rfold (add_scoped services) acc sids = Inr out"
  shows "dget out sid = (if sid \<in> set sids then dget services sid else dget acc sid)
    \<and> (sid \<in> set sids \<longrightarrow> dget services sid \<noteq> None)"
  using assms
  by (induction sids arbitrary: acc) (auto simp: add_scoped_def res_simps split: if_splits)

lemma add_scoped_total:
  "set sids \<subseteq> set (dkeys services) \<Longrightarrow> \<exists>out. rfold (add_scoped services) acc sids = Inr out"
proof (induction sids arbitrary: acc)
  case (Cons sid sids)
  then have "sid \<in> set (dkeys services)" by simp
  then obtain svc where "dget services sid = Some svc" by (auto simp only: dget_dom)
  with Cons show ?case by (simp add: add_scoped_def)
qed simp

text \<open>
  A catalog the loader accepts can be scoped to each of its campaigns without error,
  an unknown campaign is a \<^verbatim>\<open>ConfigurationError\<close>, and the scoped view authorises exactly
  the services the campaign lists.
\<close>

theorem loaded_catalog_scopes:
  assumes "load_catalog file = Inr cat"
  shows "case dget (cat_campaigns cat) campaign_id of
      None \<Rightarrow> new_scoped_catalog cat campaign_id = Inl ConfigurationError
    | Some cam \<Rightarrow> \<exists>sc. new_scoped_catalog cat campaign_id = Inr sc
        \<and> (\<forall>sid. is_service_authorized sc sid \<longleftrightarrow> sid \<in> set (cam_service_ids cam))
        \<and> (\<forall>sid. cvr_authorized (validate_service sc sid) \<longleftrightarrow> sid \<in> set (cam_service_ids cam))"
proof (cases "dget (cat_campaigns cat) campaign_id")
  case None
  then show ?thesis by (simp add: new_scoped_catalog_def)
next
  case (Some cam)
  with load_catalog_wf [OF assms] map_of_SomeD [OF Some]
  have sub: "set (cam_service_ids cam) \<subseteq> set (dkeys (cat_services cat))"
    unfolding wf_catalog_def by blast
  obtain out where out: "rfold (add_scoped (cat_services cat)) [] (cam_service_ids cam) = Inr out"
    using add_scoped_total [OF sub] by blast
  have "sid \<in> set (dkeys out) \<longleftrightarrow> sid \<in> set (cam_service_ids cam)" for sid
    using add_scoped_rfold [OF out, of sid] unfolding dget_dom by (auto split: if_splits)
  with Some out show ?thesis
    by (auto simp: new_scoped_catalog_def is_service_authorized_def validate_service_def
        claim_verdict_def)
qed

definition sample_catalog :: raw_catalog where
  "sample_catalog = \<lparr>rcat_services =
     [\<lparr>rsvc_id = Some ''seo'', rsvc_name = Some ''SEO'', rsvc_capabilities = [],
       rsvc_applicable_when = [''no_website''], rsvc_allowed_claims = [''more_traffic'', ''fast''],
       rsvc_forbidden_claims = [''first_rank''],
       rsvc_subservices = [\<lparr>rsub_id = Some ''local'', rsub_name = Some ''Local'',
          rsub_capabilities = [], rsub_allowed_claims = [''maps''], rsub_forbidden_claims = [''fast'']\<rparr>]\<rparr>,
      \<lparr>rsvc_id = Some ''web'', rsvc_name = Some ''Web'', rsvc_capabilities = [],
       rsvc_applicable_when = [''no_website''], rsvc_allowed_claims = [], rsvc_forbidden_claims = [],
       rsvc_subservices = []\<rparr>],
     rcat_campaigns = [(''spring'', \<lparr>rcam_name = None, rcam_services = [''seo'', ''web'']\<rparr>)]\<rparr>"

definition sample_loaded :: service_catalog where
  "sample_loaded = projr (load_catalog (Some sample_catalog))"

lemma sample_loaded_ok: "load_catalog (Some sample_catalog) = Inr sample_loaded"
proof -
  have "isl (load_catalog (Some sample_catalog)) = False" by code_simp
  then show ?thesis
    by (cases "load_catalog (Some sample_catalog)") (simp_all add: sample_loaded_def)
qed

lemma loaded_catalog_scopes_witness:
  "\<exists>sc. new_scoped_catalog sample_loaded ''spring'' = Inr sc \<and> is_service_authorized sc ''web''"
proof -
  have "map_option cam_service_ids (dget (cat_campaigns sample_loaded) ''spring'') = Some [''seo'', ''web'']"
    by code_simp
  with loaded_catalog_scopes [OF sample_loaded_ok, of "''spring''"] show ?thesis
    by (auto split: option.splits)
qed

text \<open>
  A claim is authorised only when it is safe to make: exactly when the service is in
  the campaign's scope, a named subservice belongs to it, the claim is allowed by the
  service or by that subservice, and neither of them forbids it. Forbidding wins over
  allowing, across the two levels too.
\<close>

theorem validate_claim_spec:
  "cvr_authorized (validate_claim sc sid claim sub) \<longleftrightarrow>
     (\<exists>svc. get_service sc sid = Some svc \<and> is_service_authorized sc sid \<and>
       (let levels = (case sub of None \<Rightarrow> Some ({}, {})
            | Some k \<Rightarrow> map_option (\<lambda>s. (sub_allowed_claims s, sub_forbidden_claims s))
                        (dget (svc_subservices svc) k)) in
        \<exists>allowed forbidden. levels = Some (allowed, forbidden)
          \<and> claim \<in> svc_allowed_claims svc \<union> allowed
          \<and> claim \<notin> svc_forbidden_claims svc \<and> claim \<notin> forbidden))"
  by (cases "get_service sc sid"; cases sub)
     (auto simp: validate_claim_def judge_claim_def claim_verdict_def is_service_authorized_def
       get_service_def dget_dom simp del: set_map split: option.splits)

section \<open>Offers are safe and bounded\<close>

lemma validate_selection_approved:
  assumes "slr_outcome (validate_selection sc mc p inp) = Sel_APPROVED"
  shows "slr_approved_service_id (validate_selection sc mc p inp) = Some (prop_service_id p)
    \<and> prop_service_id p \<in> set (sin_eligible_service_ids inp)
    \<and> prop_service_id p \<notin> set (sin_offered_service_ids inp)
    \<and> \<not> py_lt (prop_confidence p) mc \<and> is_service_authorized sc (prop_service_id p)"
  using assms
  by (auto simp: validate_selection_def refused_def Let_def validate_service_def claim_verdict_def
      split: if_splits)

lemma select_and_authorize_approved:
  assumes "select_and_authorize selector sc mc inp = Inr r" and "slr_outcome r = Sel_APPROVED"
  obtains sid where "slr_approved_service_id r = Some sid" and "sid \<in> set (sin_eligible_service_ids inp)"
    and "sid \<notin> set (sin_offered_service_ids inp)" and "is_service_authorized sc sid"
  using assms validate_selection_approved [of sc mc _ inp]
  by (fastforce simp: select_and_authorize_def refused_def split: if_splits option.splits sum.splits)

lemma eligible_member:
  assumes "sid \<in> set (compute_eligible_alternatives sc signals offered made mx)"
  shows "made < mx" and "sid \<notin> set offered"
    and "\<exists>svc \<in> set (map snd (sc_services sc)). svc_id svc = sid \<and> svc_applicable_when svc \<inter> signals \<noteq> {}"
  using assms
  by (auto simp: compute_eligible_alternatives_def applicable_services_def Let_def split: if_splits)

lemma offer_safe:
  "case offer os campaign_id signals offered made of
     Inl e \<Rightarrow> e \<noteq> SelectorError \<and> (\<exists>inp. os_selector os inp = Inl e)
   | Inr r \<Rightarrow> (\<forall>sid. or_approved_service_id r = Some sid \<longrightarrow>
        is_service_authorized (os_catalog os) sid \<and> sid \<notin> set offered \<and> made < os_max_offers os
        \<and> sid \<in> set (or_eligible_service_ids r)
        \<and> (\<exists>svc \<in> set (map snd (sc_services (os_catalog os))).
             svc_id svc = sid \<and> svc_applicable_when svc \<inter> signals \<noteq> {}))"
proof (cases "offer os campaign_id signals offered made")
  case (Inl e)
  then show ?thesis
    by (auto simp: offer_def Let_def res_simps select_and_authorize_def
        split: if_splits option.splits sum.splits)
next
  case (Inr r)
  let ?el = "compute_eligible_alternatives (os_catalog os) signals offered made (os_max_offers os)"
  let ?inp = "\<lparr>sin_eligible_service_ids = ?el, sin_campaign_id = campaign_id,
      sin_known_signals = signals, sin_offered_service_ids = offered\<rparr>"
  from Inr obtain result where
    sel: "select_and_authorize (os_selector os) (os_catalog os) (os_min_confidence os) ?inp = Inr result"
    and r: "or_eligible_service_ids r = ?el" "or_approved_service_id r =
        (if slr_outcome result = Sel_APPROVED then slr_approved_service_id result else None)"
    by (auto simp: offer_def Let_def res_simps)
  have "is_service_authorized (os_catalog os) sid \<and> sid \<in> set ?el"
    if sid: "or_approved_service_id r = Some sid" for sid
  proof -
    from sid r(2) have "slr_outcome result = Sel_APPROVED" by (simp split: if_splits)
    with sel obtain s where "slr_approved_service_id result = Some s"
      "s \<in> set (sin_eligible_service_ids ?inp)" "is_service_authorized (os_catalog os) s"
      by (rule select_and_authorize_approved)
    with sid r(2) show ?thesis by (simp split: if_splits)
  qed
  with Inr r(1) eligible_member show ?thesis by auto
qed

text \<open>
  C21. Whatever the selector proposes, an offer that is approved names a service of the
  campaign that some known signal makes applicable, that was not offered before, and only
  while fewer than the permitted number of offers have been made. The offering service
  raises only what the selector raises, and never \<^verbatim>\<open>SelectorError\<close>.
\<close>

theorem offer_is_safe:
  "case offer os campaign_id signals offered made of
     Inl e \<Rightarrow> e \<noteq> SelectorError \<and> (\<exists>inp. os_selector os inp = Inl e)
   | Inr r \<Rightarrow> (\<forall>sid. or_approved_service_id r = Some sid \<longrightarrow>
        is_service_authorized (os_catalog os) sid \<and> sid \<notin> set offered \<and> made < os_max_offers os
        \<and> sid \<in> set (or_eligible_service_ids r)
        \<and> (\<exists>svc \<in> set (map snd (sc_services (os_catalog os))).
             svc_id svc = sid \<and> svc_applicable_when svc \<inter> signals \<noteq> {}))"
  by (rule offer_safe)

definition sample_offering :: offering_service where
  "sample_offering = \<lparr>os_catalog = projr (new_scoped_catalog sample_loaded ''spring''),
     os_selector = mock_select \<lparr>mock_forced_id = Some ''web'', mock_forced_confidence = Fin (9 / 10),
       mock_should_fail = False\<rparr>,
     os_min_confidence = Fin (1 / 2), os_max_offers = 3\<rparr>"

definition offered_id_of :: "offer_result res \<Rightarrow> str option option" where
  "offered_id_of x = (case x of Inl _ \<Rightarrow> None | Inr r \<Rightarrow> Some (or_approved_service_id r))"

lemma offer_is_safe_witness:
  "\<exists>r. offer sample_offering ''spring'' {''no_website''} [''seo''] 1 = Inr r
     \<and> or_approved_service_id r = Some ''web'' \<and> ''web'' \<notin> set [''seo'']"
proof -
  have "offered_id_of (offer sample_offering ''spring'' (set [''no_website'']) [''seo''] 1) =
      Some (Some ''web'')"
    by code_simp
  then obtain r where r: "offer sample_offering ''spring'' {''no_website''} [''seo''] 1 = Inr r"
    "or_approved_service_id r = Some ''web''"
    by (auto simp: offered_id_of_def split: sum.splits)
  with offer_is_safe [where os = sample_offering and campaign_id = "''spring''"
      and signals = "{''no_website''}" and offered = "[''seo'']" and made = 1] show ?thesis
    by auto
qed

end
