(* ===== verification/ContactMethods.thy ===== *)
theory ContactMethods
  imports Contact
begin

text \<open>
  The contact methods a contact has been observed with: \<^verbatim>\<open>app/models/contact_method.py\<close>
  (precedence of provenances, no status downgrade), the repository
  \<^verbatim>\<open>app/repositories/contact_method_repository.py\<close> over the rows of its table, and
  \<^verbatim>\<open>app/services/contact_persistence_service.py\<close>. The database session is a list of
  rows; the key a row is created with and the current time are arguments, and inserting an
  existing primary key fails as the database does.
\<close>

section \<open>Rows, ranks\<close>

datatype contact_info_status = CS_NONE | CS_DETECTED | CS_VALIDATED | CS_CONFIRMED

fun contact_info_status_value :: "contact_info_status \<Rightarrow> str" where
  "contact_info_status_value CS_NONE = ''none''"
| "contact_info_status_value CS_DETECTED = ''detected''"
| "contact_info_status_value CS_VALIDATED = ''validated''"
| "contact_info_status_value CS_CONFIRMED = ''confirmed''"

record contact_method =
  cm_id :: str
  cm_contact_id :: str
  cm_channel :: str
  cm_value_normalized :: str
  cm_value_raw :: "str option"
  cm_provenance :: str
  cm_status :: str
  cm_is_preferred :: bool
  cm_note :: "str option"
  cm_first_observed_at :: int
  cm_last_observed_at :: int

type_synonym method_rows = "contact_method list"

definition PROVENANCE_PRECEDENCE :: "contact_provenance list" where
  "PROVENANCE_PRECEDENCE = [Pv_INFERRED, Pv_LEAD_IMPORT, Pv_CLIENT_REFERENCED_CURRENT_CALL_NUMBER,
     Pv_CLIENT_SPOKEN, Pv_CLIENT_PROVIDED, Pv_MANUAL]"

text \<open>\<^verbatim>\<open>tuple.index\<close>, and \<open>- 1\<close> for a string that is no provenance.\<close>

fun index_from :: "int \<Rightarrow> str \<Rightarrow> contact_provenance list \<Rightarrow> int" where
  "index_from i p [] = - 1"
| "index_from i p (x # xs) = (if contact_provenance_value x = p then i else index_from (i + 1) p xs)"

definition provenance_rank :: "str \<Rightarrow> int" where
  "provenance_rank p = index_from 0 p PROVENANCE_PRECEDENCE"

definition STATUS_RANK :: "(str, int) dict" where
  "STATUS_RANK = [(contact_info_status_value CS_NONE, 0), (contact_info_status_value CS_DETECTED, 1),
     (contact_info_status_value CS_VALIDATED, 2), (contact_info_status_value CS_CONFIRMED, 3)]"

definition status_rank :: "str \<Rightarrow> int" where
  "status_rank s = (case dget STATUS_RANK s of None \<Rightarrow> 0 | Some n \<Rightarrow> n)"

definition can_transition_status :: "str \<Rightarrow> str \<Rightarrow> bool" where
  "can_transition_status current new \<longleftrightarrow> status_rank new \<ge> status_rank current"

section \<open>The repository\<close>

definition method_identity :: "contact_method \<Rightarrow> str \<times> str \<times> str" where
  "method_identity m = (cm_contact_id m, cm_channel m, cm_value_normalized m)"

definition require_value :: "str option \<Rightarrow> str res" where
  "require_value v = (case v of
       None \<Rightarrow> Inl ValidationError
     | Some s \<Rightarrow> (let stripped = py_strip s in
         if stripped = [] then Inl ValidationError else Inr stripped))"

text \<open>\<^verbatim>\<open>scalar_one_or_none\<close> raises on more than one row.\<close>

definition find_identity :: "method_rows \<Rightarrow> str \<Rightarrow> str \<Rightarrow> str \<Rightarrow> contact_method option res" where
  "find_identity rows contact channel v =
     (case filter (\<lambda>m. method_identity m = (contact, channel, v)) rows of
        [] \<Rightarrow> Inr None
      | [m] \<Rightarrow> Inr (Some m)
      | _ \<Rightarrow> Inl RuntimeError)"

definition list_methods :: "method_rows \<Rightarrow> str \<Rightarrow> contact_method list" where
  "list_methods rows contact = filter (\<lambda>m. cm_contact_id m = contact) rows"

definition list_for_channel :: "method_rows \<Rightarrow> str \<Rightarrow> str \<Rightarrow> contact_method list" where
  "list_for_channel rows contact channel =
     filter (\<lambda>m. cm_contact_id m = contact \<and> cm_channel m = channel) rows"

definition change_row :: "str \<Rightarrow> (contact_method \<Rightarrow> contact_method) \<Rightarrow> method_rows \<Rightarrow> method_rows" where
  "change_row i f rows = map (\<lambda>m. if cm_id m = i then f m else m) rows"

definition observe_again :: "int \<Rightarrow> str \<Rightarrow> str option \<Rightarrow> contact_method \<Rightarrow> contact_method" where
  "observe_again now provenance note m =
     (let m1 = m\<lparr>cm_last_observed_at := now\<rparr>;
          m2 = (if provenance_rank provenance > provenance_rank (cm_provenance m1)
                then m1\<lparr>cm_provenance := provenance\<rparr> else m1) in
      case note of None \<Rightarrow> m2 | Some n \<Rightarrow> m2\<lparr>cm_note := Some n\<rparr>)"

text \<open>The outcome is the key of the method and whether it was created.\<close>

definition upsert_method ::
  "method_rows \<Rightarrow> str \<Rightarrow> int \<Rightarrow> str \<Rightarrow> str \<Rightarrow> str option \<Rightarrow> str \<Rightarrow> str option \<Rightarrow> str option
    \<Rightarrow> (str \<times> bool) res \<times> method_rows" where
  "upsert_method rows new_id now contact channel value_normalized provenance value_raw note =
     (case require_value value_normalized of
        Inl e \<Rightarrow> (Inl e, rows)
      | Inr v \<Rightarrow>
        (case find_identity rows contact channel v of
           Inl e \<Rightarrow> (Inl e, rows)
         | Inr (Some existing) \<Rightarrow>
             (Inr (cm_id existing, False),
              change_row (cm_id existing) (observe_again now provenance note) rows)
         | Inr None \<Rightarrow>
             if new_id \<in> set (map cm_id rows) then (Inl RuntimeError, rows)
             else (Inr (new_id, True),
                   rows @ [\<lparr>cm_id = new_id, cm_contact_id = contact, cm_channel = channel,
                      cm_value_normalized = v, cm_value_raw = value_raw,
                      cm_provenance = provenance, cm_status = contact_info_status_value CS_DETECTED,
                      cm_is_preferred = False, cm_note = note,
                      cm_first_observed_at = now, cm_last_observed_at = now\<rparr>])))"

definition update_status :: "method_rows \<Rightarrow> str \<Rightarrow> contact_info_status \<Rightarrow> method_rows" where
  "update_status rows i new_status =
     change_row i (\<lambda>m. if can_transition_status (cm_status m) (contact_info_status_value new_status)
                      then m\<lparr>cm_status := contact_info_status_value new_status\<rparr> else m) rows"

definition set_preferred :: "method_rows \<Rightarrow> str \<Rightarrow> str \<Rightarrow> str \<Rightarrow> method_rows" where
  "set_preferred rows contact channel i =
     map (\<lambda>m. if cm_contact_id m = contact \<and> cm_channel m = channel
              then m\<lparr>cm_is_preferred := (cm_id m = i)\<rparr> else m) rows"

definition get_preferred :: "method_rows \<Rightarrow> str \<Rightarrow> str \<Rightarrow> contact_method option" where
  "get_preferred rows contact channel =
     List.find (\<lambda>m. cm_contact_id m = contact \<and> cm_channel m = channel \<and> cm_is_preferred m) rows"

section \<open>The persistence service\<close>

record pending_contact_method =
  pcm_contact_id :: str
  pcm_channel :: str
  pcm_value_normalized :: str
  pcm_provenance :: str
  pcm_value_raw :: "str option"

datatype persistence_outcome = PO_PERSISTED | PO_NOOP | PO_INVALID_INTENT | PO_FAILED

record persistence_result =
  pr_outcome :: persistence_outcome
  pr_method_id :: "str option"

definition valid_intent :: "pending_contact_method \<Rightarrow> bool" where
  "valid_intent i \<longleftrightarrow> pcm_contact_id i \<noteq> [] \<and> pcm_channel i \<noteq> [] \<and> pcm_channel i \<noteq> ''unknown''
     \<and> \<not> blank (pcm_value_normalized i) \<and> pcm_provenance i \<noteq> []"

text \<open>\<open>flush_ok\<close> says whether the database accepts the flush.\<close>

definition persist ::
  "method_rows \<Rightarrow> bool \<Rightarrow> str \<Rightarrow> int \<Rightarrow> pending_contact_method option
    \<Rightarrow> persistence_result \<times> method_rows" where
  "persist rows flush_ok new_id now intent = (case intent of
       None \<Rightarrow> (\<lparr>pr_outcome = PO_NOOP, pr_method_id = None\<rparr>, rows)
     | Some i \<Rightarrow>
       if \<not> valid_intent i then (\<lparr>pr_outcome = PO_INVALID_INTENT, pr_method_id = None\<rparr>, rows)
       else (case upsert_method rows new_id now (pcm_contact_id i) (pcm_channel i)
                    (Some (pcm_value_normalized i)) (pcm_provenance i) (pcm_value_raw i) None of
          (Inl e, rows1) \<Rightarrow> (\<lparr>pr_outcome = PO_FAILED, pr_method_id = None\<rparr>, rows1)
        | (Inr (mid, created), rows1) \<Rightarrow>
            (let rows2 = update_status rows1 mid CS_CONFIRMED in
             if flush_ok then (\<lparr>pr_outcome = PO_PERSISTED, pr_method_id = Some mid\<rparr>, rows2)
             else (\<lparr>pr_outcome = PO_FAILED, pr_method_id = None\<rparr>, rows2))))"

section \<open>The table's invariant\<close>

definition one_preferred :: "method_rows \<Rightarrow> bool" where
  "one_preferred rows \<longleftrightarrow> (\<forall>m \<in> set rows. \<forall>m' \<in> set rows.
     cm_is_preferred m \<and> cm_is_preferred m' \<and> cm_contact_id m = cm_contact_id m'
     \<and> cm_channel m = cm_channel m' \<longrightarrow> cm_id m = cm_id m')"

definition methods_ok :: "method_rows \<Rightarrow> bool" where
  "methods_ok rows \<longleftrightarrow> distinct (map cm_id rows) \<and> distinct (map method_identity rows)
     \<and> one_preferred rows"

text \<open>No row is lost, and a row's provenance and status only ever get better.\<close>

definition improves :: "contact_method \<Rightarrow> contact_method \<Rightarrow> bool" where
  "improves m m' \<longleftrightarrow> cm_id m' = cm_id m \<and> method_identity m' = method_identity m
     \<and> provenance_rank (cm_provenance m) \<le> provenance_rank (cm_provenance m')
     \<and> status_rank (cm_status m) \<le> status_rank (cm_status m')
     \<and> cm_first_observed_at m' = cm_first_observed_at m"

definition rows_improve :: "method_rows \<Rightarrow> method_rows \<Rightarrow> bool" where
  "rows_improve rows rows' \<longleftrightarrow> (\<forall>m \<in> set rows. \<exists>m' \<in> set rows'. improves m m')"

datatype method_op =
    UpsertOp str int str str "str option" str "str option" "str option"
  | StatusOp str contact_info_status
  | PreferOp str str str

fun method_step :: "method_rows \<Rightarrow> method_op \<Rightarrow> method_rows" where
  "method_step rows (UpsertOp i now contact channel v prov raw note) =
     snd (upsert_method rows i now contact channel v prov raw note)"
| "method_step rows (StatusOp i s) = update_status rows i s"
| "method_step rows (PreferOp contact channel i) = set_preferred rows contact channel i"

lemma improves_refl [simp]: "improves m m"
  by (simp add: improves_def)

lemma improves_trans: "improves m m' \<Longrightarrow> improves m' m'' \<Longrightarrow> improves m m''"
  by (auto simp: improves_def)

lemma observe_again_facts [simp]:
  "cm_id (observe_again now p n m) = cm_id m"
  "method_identity (observe_again now p n m) = method_identity m"
  "cm_is_preferred (observe_again now p n m) = cm_is_preferred m"
  "cm_contact_id (observe_again now p n m) = cm_contact_id m"
  "cm_channel (observe_again now p n m) = cm_channel m"
  "improves m (observe_again now p n m)"
  by (auto simp: observe_again_def Let_def method_identity_def improves_def split: option.splits)

lemma rows_improve_map: "(\<And>m. improves m (f m)) \<Longrightarrow> rows_improve rows (map f rows)"
  by (auto simp: rows_improve_def)

lemma status_change_improves:
  "improves m (if can_transition_status (cm_status m) s then m\<lparr>cm_status := s\<rparr> else m)"
  by (simp add: improves_def can_transition_status_def method_identity_def)

lemma upsert_cases:
  assumes "upsert_method rows i now contact channel v prov raw nt = (r, rows')"
  obtains (failed) e where "r = Inl e" "rows' = rows"
  | (again) mid where "r = Inr (mid, False)" "rows' = change_row mid (observe_again now prov nt) rows"
      "\<exists>m \<in> set rows. cm_id m = mid \<and> v \<noteq> None
         \<and> method_identity m = (contact, channel, py_strip (the v))"
  | (fresh) m where "r = Inr (i, True)" "rows' = rows @ [m]" "cm_id m = i" "i \<notin> set (map cm_id rows)"
      "v \<noteq> None" "method_identity m = (contact, channel, py_strip (the v))"
      "method_identity m \<notin> set (map method_identity rows)" "\<not> cm_is_preferred m"
      "cm_provenance m = prov" "cm_status m = contact_info_status_value CS_DETECTED"
proof (cases "require_value v")
  case (Inl e)
  with assms show thesis by (intro failed [of e]) (auto simp: upsert_method_def)
next
  case (Inr s)
  then have v: "v \<noteq> None" "s = py_strip (the v)"
    by (auto simp: require_value_def Let_def split: option.splits if_splits)
  let ?hits = "filter (\<lambda>m. method_identity m = (contact, channel, s)) rows"
  consider "?hits = []" | m where "?hits = [m]" | m m' ms where "?hits = m # m' # ms"
    by (metis list.exhaust)
  then show thesis
  proof cases
    case 1
    then have new: "(contact, channel, s) \<notin> set (map method_identity rows)"
      by (auto simp: filter_empty_conv)
    show thesis
    proof (cases "i \<in> set (map cm_id rows)")
      case True
      with assms Inr 1 show thesis
        by (intro failed [of RuntimeError]) (auto simp: upsert_method_def find_identity_def)
    next
      case False
      with assms Inr 1 new v show thesis
        by (intro fresh [of "last rows'"])
           (auto simp: upsert_method_def find_identity_def method_identity_def)
    qed
  next
    case (2 m)
    then have "m \<in> set rows" "method_identity m = (contact, channel, s)"
      by (auto simp: filter_eq_Cons_iff)
    with assms Inr 2 v show thesis
      by (intro again [of "cm_id m"]) (auto simp: upsert_method_def find_identity_def)
  next
    case (3 m m' ms)
    with assms Inr show thesis
      by (intro failed [of RuntimeError]) (auto simp: upsert_method_def find_identity_def)
  qed
qed

lemma change_row_ids: "(\<And>m. cm_id (f m) = cm_id m) \<Longrightarrow> map cm_id (change_row i f rows) = map cm_id rows"
  by (simp add: change_row_def)

lemma methods_ok_map:
  assumes "methods_ok rows"
    and "\<And>m. cm_id (f m) = cm_id m" and "\<And>m. method_identity (f m) = method_identity m"
    and "one_preferred (map f rows)"
  shows "methods_ok (map f rows)"
proof -
  have "cm_id \<circ> f = cm_id" "method_identity \<circ> f = method_identity"
    using assms(2,3) by auto
  with assms(1,4) show ?thesis by (simp add: methods_ok_def)
qed

lemma one_preferred_map:
  assumes "one_preferred rows"
    and "\<And>m. cm_id (f m) = cm_id m" and "\<And>m. method_identity (f m) = method_identity m"
    and "\<And>m. cm_is_preferred (f m) = cm_is_preferred m"
  shows "one_preferred (map f rows)"
proof -
  have "cm_contact_id (f m) = cm_contact_id m" "cm_channel (f m) = cm_channel m" for m
    using assms(3) [of m] by (simp_all add: method_identity_def)
  note same = this assms(2,4)
  show ?thesis unfolding one_preferred_def set_map
  proof (intro ballI impI, elim imageE conjE, simp only: same)
    fix m m'
    assume "m \<in> set rows" "m' \<in> set rows" "cm_is_preferred m" "cm_is_preferred m'"
      "cm_contact_id m = cm_contact_id m'" "cm_channel m = cm_channel m'"
    then show "cm_id m = cm_id m'"
      using assms(1) unfolding one_preferred_def by blast
  qed
qed

lemma change_row_ok:
  assumes "methods_ok rows"
    and "\<And>m. cm_id (f m) = cm_id m" and "\<And>m. method_identity (f m) = method_identity m"
    and "\<And>m. cm_is_preferred (f m) = cm_is_preferred m"
  shows "methods_ok (change_row i f rows)"
  unfolding change_row_def
  by (rule methods_ok_map [OF assms(1)], simp_all add: assms,
      rule one_preferred_map) (use assms in \<open>simp_all add: methods_ok_def\<close>)

lemma change_row_improves:
  "(\<And>m. improves m (f m)) \<Longrightarrow> rows_improve rows (change_row i f rows)"
  unfolding change_row_def by (rule rows_improve_map) simp

lemma method_step_ok: "methods_ok rows \<Longrightarrow> methods_ok (method_step rows ev)"
proof (cases ev)
  case (UpsertOp i now contact channel v prov raw nt)
  assume ok: "methods_ok rows"
  obtain r rows' where u: "upsert_method rows i now contact channel v prov raw nt = (r, rows')"
    by force
  then have "methods_ok rows'"
  proof (cases rule: upsert_cases)
    case failed
    with ok show ?thesis by simp
  next
    case (again mid)
    show ?thesis unfolding again(2) by (rule change_row_ok [OF ok]) simp_all
  next
    case (fresh m)
    from ok have "one_preferred rows" by (simp add: methods_ok_def)
    with fresh(8) have "one_preferred (rows @ [m])"
      unfolding one_preferred_def set_append list.set by blast
    with ok fresh show ?thesis by (simp add: methods_ok_def)
  qed
  with u UpsertOp show ?thesis by simp
next
  case (StatusOp i s)
  assume ok: "methods_ok rows"
  then show ?thesis unfolding StatusOp method_step.simps update_status_def
    by (rule change_row_ok) (simp_all add: method_identity_def)
next
  case (PreferOp contact channel i)
  assume ok: "methods_ok rows"
  have "one_preferred (set_preferred rows contact channel i)"
    unfolding one_preferred_def set_preferred_def set_map
  proof (intro ballI impI, elim imageE conjE)
    fix x y m m'
    let ?g = "\<lambda>m. if cm_contact_id m = contact \<and> cm_channel m = channel
                  then m\<lparr>cm_is_preferred := (cm_id m = i)\<rparr> else m"
    assume m: "m \<in> set rows" "m' \<in> set rows" and x: "x = ?g m" and y: "y = ?g m'"
      and *: "cm_is_preferred x" "cm_is_preferred y" "cm_contact_id x = cm_contact_id y"
        "cm_channel x = cm_channel y"
    from * have **: "cm_contact_id m = cm_contact_id m'" "cm_channel m = cm_channel m'"
      by (simp_all add: x y split: if_splits)
    show "cm_id x = cm_id y"
    proof (cases "cm_contact_id m = contact \<and> cm_channel m = channel")
      case True
      with * ** show ?thesis by (simp add: x y)
    next
      case False
      with ** have "\<not> (cm_contact_id m' = contact \<and> cm_channel m' = channel)" by simp
      then have xy: "x = m" "y = m'" unfolding x y using False by auto
      have "cm_is_preferred m" "cm_is_preferred m'"
        using *(1,2) unfolding xy by blast+
      with m ** ok show ?thesis unfolding methods_ok_def one_preferred_def xy by blast
    qed
  qed
  then show ?thesis unfolding PreferOp method_step.simps set_preferred_def
    by (auto intro!: methods_ok_map [OF ok] simp: method_identity_def)
qed

lemma method_step_improves: "rows_improve rows (method_step rows ev)"
proof (cases ev)
  case (UpsertOp i now contact channel v prov raw nt)
  obtain r rows' where u: "upsert_method rows i now contact channel v prov raw nt = (r, rows')"
    by force
  then have "rows_improve rows rows'"
  proof (cases rule: upsert_cases)
    case (again mid)
    show ?thesis unfolding again(2) by (rule change_row_improves) simp
  qed (auto simp: rows_improve_def intro: improves_refl)
  with u UpsertOp show ?thesis by simp
next
  case (StatusOp i s)
  show ?thesis unfolding StatusOp method_step.simps update_status_def
    by (rule change_row_improves) (rule status_change_improves)
next
  case (PreferOp contact channel i)
  show ?thesis unfolding PreferOp method_step.simps set_preferred_def
    by (rule rows_improve_map) (simp add: improves_def method_identity_def)
qed

interpretation contact_methods: kept method_step methods_ok
  by unfold_locales (rule method_step_ok)

interpretation contact_history: monotone method_step rows_improve
proof unfold_locales
  show "rows_improve s s" for s
    by (auto simp: rows_improve_def intro: improves_refl)
  show "rows_improve s u" if "rows_improve s t" "rows_improve t u" for s t u
    using that improves_trans unfolding rows_improve_def by blast
  show "rows_improve s (method_step s e)" for s e
    by (rule method_step_improves)
qed

lemma distinct_map_filter_le1:
  assumes "distinct (map f xs)"
  shows "filter (\<lambda>x. f x = k) xs = [] \<or> (\<exists>x. filter (\<lambda>x. f x = k) xs = [x])"
  using assms
proof (induction xs)
  case (Cons x xs)
  show ?case
  proof (cases "f x = k")
    case True
    with Cons.prems have "filter (\<lambda>x. f x = k) xs = []"
      by (auto simp: filter_empty_conv) (metis imageI)
    with True show ?thesis by simp
  next
    case False
    with Cons show ?thesis by simp
  qed
qed simp

lemma distinct_all_same: "distinct xs \<Longrightarrow> \<forall>x \<in> set xs. \<forall>y \<in> set xs. x = y \<Longrightarrow> length xs \<le> 1"
proof (rule ccontr)
  assume "distinct xs" "\<forall>x \<in> set xs. \<forall>y \<in> set xs. x = y" "\<not> length xs \<le> 1"
  moreover from this(3) obtain x y ys where "xs = x # y # ys"
    by (cases xs rule: remdups_adj.cases) simp_all
  ultimately show False by (metis distinct_length_2_or_more list.set_intros)
qed

lemma find_identity_total:
  assumes "methods_ok rows"
  shows "\<exists>x. find_identity rows contact channel v = Inr x"
  using distinct_map_filter_le1 [of method_identity rows "(contact, channel, v)"] assms
  by (auto simp: methods_ok_def find_identity_def)

lemma update_status_row:
  assumes "m \<in> set rows" and "cm_id m = i"
  shows "\<exists>m' \<in> set (update_status rows i s). cm_id m' = i \<and> method_identity m' = method_identity m
      \<and> status_rank (contact_info_status_value s) \<le> status_rank (cm_status m')
      \<and> cm_provenance m' = cm_provenance m"
proof -
  let ?f = "\<lambda>m. if can_transition_status (cm_status m) (contact_info_status_value s)
                then m\<lparr>cm_status := contact_info_status_value s\<rparr> else m"
  have "?f m \<in> set (update_status rows i s)"
    using assms by (force simp: update_status_def change_row_def)
  moreover have "cm_id (?f m) = i \<and> method_identity (?f m) = method_identity m
      \<and> status_rank (contact_info_status_value s) \<le> status_rank (cm_status (?f m))
      \<and> cm_provenance (?f m) = cm_provenance m"
    using assms(2) by (simp add: can_transition_status_def method_identity_def)
  ultimately show ?thesis by blast
qed

lemma upsert_stores:
  assumes "upsert_method rows i now contact channel v prov raw nt = (Inr (mid, created), rows')"
  shows "\<exists>m \<in> set rows'. cm_id m = mid \<and> v \<noteq> None
    \<and> method_identity m = (contact, channel, py_strip (the v))
    \<and> provenance_rank prov \<le> provenance_rank (cm_provenance m)"
  using assms
proof (cases rule: upsert_cases)
  case (again mid')
  then obtain m where "m \<in> set rows" "cm_id m = mid" "v \<noteq> None"
    "method_identity m = (contact, channel, py_strip (the v))" by auto
  moreover have "provenance_rank prov \<le> provenance_rank (cm_provenance (observe_again now prov nt m))"
    by (auto simp: observe_again_def Let_def split: option.splits)
  ultimately show ?thesis using again
    by (intro bexI [of _ "observe_again now prov nt m"]) (auto simp: change_row_def)
qed auto

lemma unique_identity_row:
  assumes "methods_ok rows" and "m \<in> set rows"
  shows "filter (\<lambda>x. method_identity x = method_identity m) rows = [m]"
proof -
  have "m \<in> set (filter (\<lambda>x. method_identity x = method_identity m) rows)" using assms(2) by simp
  moreover have "distinct (map method_identity rows)" using assms(1) by (simp add: methods_ok_def)
  note distinct_map_filter_le1 [OF this, of "method_identity m"]
  ultimately show ?thesis by (metis list.set(1) empty_iff list.set_intros(1) set_ConsD)
qed

lemma upsert_no_failure:
  assumes "methods_ok rows" and "i \<notin> set (map cm_id rows)" and "\<not> blank s"
  shows "\<exists>x rows'. upsert_method rows i now contact channel (Some s) prov raw nt = (Inr x, rows')"
proof -
  obtain x where "find_identity rows contact channel (py_strip s) = Inr x"
    using find_identity_total [OF assms(1)] by blast
  with assms(2,3) show ?thesis
    by (cases x) (auto simp: upsert_method_def require_value_def blank_def Let_def)
qed

section \<open>The properties\<close>

text \<open>
  After any sequence of repository operations on an empty table, no two rows describe
  the same contact method, so \<^verbatim>\<open>find_identity\<close> never finds several and never raises,
  and at most one method of a contact is preferred on a channel.
\<close>

theorem contact_methods_unique:
  "distinct (map method_identity (foldl method_step [] ops))
    \<and> (\<exists>x. find_identity (foldl method_step [] ops) contact channel v = Inr x)
    \<and> length (filter cm_is_preferred (list_for_channel (foldl method_step [] ops) contact channel)) \<le> 1"
proof (intro conjI)
  define rows where "rows = foldl method_step [] ops"
  have "methods_ok []" by (simp add: methods_ok_def one_preferred_def)
  then have ok: "methods_ok rows" unfolding rows_def by (rule contact_methods.run_keeps)
  then show "distinct (map method_identity (foldl method_step [] ops))"
    by (simp add: methods_ok_def rows_def)
  show "\<exists>x. find_identity (foldl method_step [] ops) contact channel v = Inr x"
    using find_identity_total [OF ok] by (simp add: rows_def)
  let ?ps = "filter cm_is_preferred (list_for_channel rows contact channel)"
  have d: "distinct (map cm_id ?ps)" using ok
    by (simp add: methods_ok_def list_for_channel_def distinct_map_filter)
  have "cm_id m = cm_id m'" if "m \<in> set ?ps" "m' \<in> set ?ps" for m m'
  proof -
    from ok have "one_preferred rows" by (simp add: methods_ok_def)
    moreover from that have "m \<in> set rows" "m' \<in> set rows" "cm_is_preferred m" "cm_is_preferred m'"
      "cm_contact_id m = cm_contact_id m'" "cm_channel m = cm_channel m'"
      by (simp_all add: list_for_channel_def)
    ultimately show ?thesis unfolding one_preferred_def by blast
  qed
  then have "\<forall>x \<in> set (map cm_id ?ps). \<forall>y \<in> set (map cm_id ?ps). x = y"
    unfolding set_map by blast
  from distinct_all_same [OF d this] show "length (filter cm_is_preferred (list_for_channel (foldl method_step [] ops) contact channel)) \<le> 1"
    by (simp only: length_map flip: rows_def)
qed

text \<open>
  Contact knowledge never degrades: whatever operations follow, every row that was ever
  stored is still there under the same key and identity, with a provenance that ranks at
  least as high (a lead import never overwrites what the client said) and a status that is
  at least as far (a confirmed contact is never demoted).
\<close>

theorem contact_knowledge_never_degrades:
  assumes "m \<in> set rows"
  shows "\<exists>m' \<in> set (foldl method_step rows ops). cm_id m' = cm_id m
    \<and> method_identity m' = method_identity m
    \<and> provenance_rank (cm_provenance m) \<le> provenance_rank (cm_provenance m')
    \<and> status_rank (cm_status m) \<le> status_rank (cm_status m')"
  using contact_history.run_below [of rows ops] assms
  unfolding rows_improve_def improves_def by blast

definition sample_rows :: method_rows where
  "sample_rows = foldl method_step []
     [UpsertOp ''m1'' 10 ''c1'' ''email'' (Some '' a@b.co'') ''client_provided'' None None,
      StatusOp ''m1'' CS_CONFIRMED]"

lemma contact_knowledge_never_degrades_witness:
  "\<exists>m' \<in> set (foldl method_step sample_rows
       [UpsertOp ''m2'' 20 ''c1'' ''email'' (Some ''a@b.co'') ''lead_import'' None None,
        StatusOp ''m1'' CS_DETECTED]).
     cm_id m' = ''m1'' \<and> status_rank (cm_status m') \<ge> 3 \<and> provenance_rank (cm_provenance m') \<ge> 4"
proof -
  let ?m = "hd sample_rows"
  have "?m \<in> set sample_rows" by code_simp
  note ex = contact_knowledge_never_degrades [OF this, of
      "[UpsertOp ''m2'' 20 ''c1'' ''email'' (Some ''a@b.co'') ''lead_import'' None None,
        StatusOp ''m1'' CS_DETECTED]"]
  have "cm_id ?m = ''m1''" "status_rank (cm_status ?m) = 3" "provenance_rank (cm_provenance ?m) = 4"
    by code_simp+
  with ex show ?thesis by auto
qed

lemma persist_confirms:
  assumes "methods_ok rows" and "new_id \<notin> set (map cm_id rows)"
    and "persist rows flush_ok new_id now intent = (result, rows')"
  shows "case intent of
      None \<Rightarrow> rows' = rows \<and> pr_outcome result = PO_NOOP
    | Some i \<Rightarrow>
        if \<not> valid_intent i then rows' = rows \<and> pr_outcome result = PO_INVALID_INTENT
        else pr_outcome result = (if flush_ok then PO_PERSISTED else PO_FAILED)
          \<and> (\<exists>m. filter (\<lambda>x. method_identity x =
                  (pcm_contact_id i, pcm_channel i, py_strip (pcm_value_normalized i))) rows' = [m]
               \<and> pr_method_id result = (if flush_ok then Some (cm_id m) else None)
               \<and> status_rank (contact_info_status_value CS_CONFIRMED) \<le> status_rank (cm_status m)
               \<and> provenance_rank (pcm_provenance i) \<le> provenance_rank (cm_provenance m))"
proof (cases "\<exists>i. intent = Some i \<and> valid_intent i")
  case False
  with assms(3) show ?thesis by (auto simp: persist_def split: option.splits)
next
  case True
  then obtain i where i: "intent = Some i" "valid_intent i" by blast
  then have nb: "\<not> blank (pcm_value_normalized i)" by (simp add: valid_intent_def)
  let ?op = "UpsertOp new_id now (pcm_contact_id i) (pcm_channel i) (Some (pcm_value_normalized i))
       (pcm_provenance i) (pcm_value_raw i) None"
  obtain mid created rows1 where u: "upsert_method rows new_id now (pcm_contact_id i) (pcm_channel i)
       (Some (pcm_value_normalized i)) (pcm_provenance i) (pcm_value_raw i) None
     = (Inr (mid, created), rows1)"
    using upsert_no_failure [OF assms(1,2) nb] by (metis surj_pair)
  then have rows1: "rows1 = method_step rows ?op" by simp
  from upsert_stores [OF u] obtain m1 where m1: "m1 \<in> set rows1" "cm_id m1 = mid"
    "method_identity m1 = (pcm_contact_id i, pcm_channel i, py_strip (pcm_value_normalized i))"
    "provenance_rank (pcm_provenance i) \<le> provenance_rank (cm_provenance m1)"
    by auto
  from update_status_row [OF m1(1,2), of CS_CONFIRMED] obtain m where
    m: "m \<in> set (update_status rows1 mid CS_CONFIRMED)" "cm_id m = mid"
      "method_identity m = method_identity m1" "cm_provenance m = cm_provenance m1"
      "status_rank (contact_info_status_value CS_CONFIRMED) \<le> status_rank (cm_status m)"
    by blast
  have "methods_ok (update_status rows1 mid CS_CONFIRMED)"
    using method_step_ok [OF method_step_ok [OF assms(1), of ?op], of "StatusOp mid CS_CONFIRMED"]
    by (simp add: rows1)
  from unique_identity_row [OF this m(1)] m m1 i u assms(3) show ?thesis
    by (auto simp: persist_def Let_def split: if_splits)
qed

text \<open>
  The persistence service stores what the conversation confirmed: a persisted intent
  leaves exactly one row for its (contact, channel, stripped value), that row is confirmed
  and its provenance ranks at least as high as the intent's; an absent or invalid intent
  (no contact, unknown channel, blank value, no provenance) leaves the table alone, and a
  valid one on a well-formed table with an unused key fails only if the database refuses.
\<close>

theorem persist_stores_confirmed:
  assumes "methods_ok rows" and "new_id \<notin> set (map cm_id rows)"
    and "persist rows flush_ok new_id now intent = (result, rows')"
  shows "case intent of
      None \<Rightarrow> rows' = rows \<and> pr_outcome result = PO_NOOP
    | Some i \<Rightarrow>
        if \<not> valid_intent i then rows' = rows \<and> pr_outcome result = PO_INVALID_INTENT
        else pr_outcome result = (if flush_ok then PO_PERSISTED else PO_FAILED)
          \<and> (\<exists>m. filter (\<lambda>x. method_identity x =
                  (pcm_contact_id i, pcm_channel i, py_strip (pcm_value_normalized i))) rows' = [m]
               \<and> pr_method_id result = (if flush_ok then Some (cm_id m) else None)
               \<and> status_rank (contact_info_status_value CS_CONFIRMED) \<le> status_rank (cm_status m)
               \<and> provenance_rank (pcm_provenance i) \<le> provenance_rank (cm_provenance m))"
  using assms by (rule persist_confirms)

lemma persist_stores_confirmed_witness:
  "pr_outcome (fst (persist sample_rows True ''m9'' 30 (Some
      \<lparr>pcm_contact_id = ''c1'', pcm_channel = ''phone'', pcm_value_normalized = ''+15550100 '',
       pcm_provenance = ''client_provided'', pcm_value_raw = None\<rparr>))) = PO_PERSISTED"
  (is "pr_outcome (fst (persist _ _ _ _ (Some ?i))) = _")
proof -
  have "methods_ok []" by (simp add: methods_ok_def one_preferred_def)
  then have ok: "methods_ok sample_rows" unfolding sample_rows_def by (rule contact_methods.run_keeps)
  have "''m9'' \<notin> set (map cm_id sample_rows)" and "valid_intent ?i" by code_simp+
  with persist_stores_confirmed [OF ok this(1) surjective_pairing, of True 30 "Some ?i"]
  show ?thesis by simp
qed

end
