(* ===== verification/Engine.thy ===== *)
theory Engine
  imports Guardrails Catalog ContactMethods
begin

text \<open>
  \<^verbatim>\<open>app/contracts/conversation_context.py\<close> and \<^verbatim>\<open>app/conversation/engine.py\<close>: the
  context of a call and the engine that takes a proposal through priority, contact, offer
  or plain validation to at most one transition of the machine. The engine's collaborators
  are an \<open>engine\<close> record, the machine it owns is threaded through: every operation returns
  its outcome together with the machine it leaves.
\<close>

section \<open>Context and result\<close>

record conversation_context =
  ctx_call_id :: str
  ctx_business_id :: "str option"
  ctx_current_contact_id :: "str option"
  ctx_previous_contact_id :: "str option"
  ctx_previous_conversation_exists :: bool
  ctx_contact_candidate :: "str option"
  ctx_contact_candidate_channel :: "str option"
  ctx_contact_candidate_provenance :: "str option"
  ctx_contact_confirmed :: bool
  ctx_callback :: "str option"
  ctx_dnc_pending :: bool
  ctx_interest_preserved :: bool
  ctx_call_number :: "str option"
  ctx_business_phone :: "str option"
  ctx_business_email :: "str option"
  ctx_campaign_id :: "str option"
  ctx_known_signals :: "str set"
  ctx_eligible_alternative_service_ids :: "str list"
  ctx_offered_service_ids :: "str list"
  ctx_service_offers_made :: int
  ctx_clarification :: "clarification_state option"

definition has_applicable_alternative :: "conversation_context \<Rightarrow> bool" where
  "has_applicable_alternative ctx \<longleftrightarrow> ctx_eligible_alternative_service_ids ctx \<noteq> []"

definition to_validator_context :: "conversation_context \<Rightarrow> validator_ctx" where
  "to_validator_context ctx =
     \<lparr>vx_contact_candidate = ctx_contact_candidate ctx,
      vx_contact_confirmed = ctx_contact_confirmed ctx,
      vx_callback = ctx_callback ctx,
      vx_previous_conversation_exists = ctx_previous_conversation_exists ctx,
      vx_dnc_pending = ctx_dnc_pending ctx,
      vx_has_applicable_alternative = has_applicable_alternative ctx\<rparr>"

record conversation_result =
  cr_current_state :: conversation_state
  cr_next_state :: conversation_state
  cr_is_terminal :: bool
  cr_continues :: bool
  cr_execution_required :: bool
  cr_updated_context :: conversation_context
  cr_path :: str
  cr_approved_action :: "agent_action option"
  cr_outcome :: "str option"
  cr_response_key :: "str option"
  cr_validation :: "validation_result option"
  cr_original_validation :: "validation_result option"
  cr_fallback_used :: bool
  cr_fallback_failed :: bool
  cr_clarification :: "clarification_decision option"
  cr_contact_to_persist :: "pending_contact_method option"
  cr_service_selection :: "selection_result option"
  cr_terminal_states :: "conversation_state set"

definition check_result :: "conversation_result \<Rightarrow> conversation_result res" where
  "check_result r =
     rbind (guard (\<not> (cr_is_terminal r \<and> cr_continues r)) ValidationError) (\<lambda>_.
     rbind (guard (\<not> (\<not> cr_is_terminal r \<and> \<not> cr_continues r)) ValidationError) (\<lambda>_.
     rbind (guard (\<not> (cr_terminal_states r \<noteq> {}
                    \<and> (cr_next_state r \<in> cr_terminal_states r) \<noteq> cr_is_terminal r))
              ValidationError) (\<lambda>_.
     Inr r)))"

text \<open>A result with the fields every constructor call sets; the others at their defaults.\<close>

definition plain_result ::
  "machine \<Rightarrow> conversation_state \<Rightarrow> conversation_state \<Rightarrow> bool \<Rightarrow> bool \<Rightarrow> conversation_context \<Rightarrow> str
    \<Rightarrow> conversation_result" where
  "plain_result m from_state next_state terminal execution ctx path =
     \<lparr>cr_current_state = from_state, cr_next_state = next_state, cr_is_terminal = terminal,
      cr_continues = (\<not> terminal), cr_execution_required = execution, cr_updated_context = ctx,
      cr_path = path, cr_approved_action = None, cr_outcome = None, cr_response_key = None,
      cr_validation = None, cr_original_validation = None, cr_fallback_used = False,
      cr_fallback_failed = False, cr_clarification = None, cr_contact_to_persist = None,
      cr_service_selection = None, cr_terminal_states = mc_terminal_states (ms_config m)\<rparr>"

section \<open>The engine\<close>

record 'n engine =
  en_validator :: machine_config
  en_fallback :: "(machine_config \<times> fallback_config) option"
  en_clarification :: "machine_config option"
  en_resolver :: "'n phone_lib option"
  en_offering :: "offering_service option"

definition terminal_result :: "machine \<Rightarrow> conversation_context \<Rightarrow> conversation_result res" where
  "terminal_result m ctx =
     check_result (plain_result m (ms_current_state m) (ms_current_state m) True False ctx ''terminal'')"

definition rejected_result ::
  "machine \<Rightarrow> conversation_context \<Rightarrow> validation_result \<Rightarrow> str \<Rightarrow> conversation_result res" where
  "rejected_result m ctx validation path =
     check_result (plain_result m (ms_current_state m) (ms_current_state m) False False ctx path
       \<lparr>cr_validation := Some validation\<rparr>)"

text \<open>The context after an approved action.\<close>

definition note_transition ::
  "conversation_context \<Rightarrow> agent_action \<Rightarrow> approved_transition \<Rightarrow> conversation_context" where
  "note_transition ctx action t =
     (let c1 = (if at_preserved_interest t then ctx\<lparr>ctx_interest_preserved := True\<rparr> else ctx) in
      if action = Act_MARK_DNC then c1\<lparr>ctx_dnc_pending := True\<rparr> else c1)"

definition apply_and_build ::
  "machine \<Rightarrow> conversation_context \<Rightarrow> agent_action \<Rightarrow> validation_result \<Rightarrow> str
    \<Rightarrow> conversation_result res \<times> machine" where
  "apply_and_build m ctx action validation path = (case transition m action of
       (Inl e, m') \<Rightarrow> (Inl e, m')
     | (Inr t, m') \<Rightarrow>
         (check_result (plain_result m' (ms_current_state m) (at_to_state t) (is_terminal m') True
              (note_transition ctx action t) path
            \<lparr>cr_approved_action := Some action, cr_outcome := at_outcome t,
             cr_validation := Some validation\<rparr>), m'))"

definition fallback_failed_result ::
  "machine \<Rightarrow> conversation_context \<Rightarrow> validation_result option \<Rightarrow> validation_result \<Rightarrow> str
    \<Rightarrow> clarification_decision option \<Rightarrow> conversation_result res" where
  "fallback_failed_result m ctx original fb_validation key clarification =
     check_result (plain_result m (ms_current_state m) (ms_current_state m) (is_terminal m) False
         ctx ''fallback''
       \<lparr>cr_response_key := Some key, cr_validation := Some fb_validation,
        cr_original_validation := original, cr_fallback_used := True, cr_fallback_failed := True,
        cr_clarification := clarification\<rparr>)"

definition fallback_path ::
  "'n engine \<Rightarrow> machine \<Rightarrow> conversation_context \<Rightarrow> validation_result option \<Rightarrow> validator_ctx
    \<Rightarrow> fallback_decision option \<Rightarrow> clarification_decision option
    \<Rightarrow> conversation_result res \<times> machine" where
  "fallback_path eng m ctx original vctx decision clarification =
     (case en_fallback eng of None \<Rightarrow> (Inl AssertionError, m) | Some fb \<Rightarrow>
      (case (case decision of Some d \<Rightarrow> Inr d
             | None \<Rightarrow> (case original of None \<Rightarrow> Inl AssertionError
                       | Some v \<Rightarrow> Inr (select_fallback fb (ms_current_state m) v))) of
         Inl e \<Rightarrow> (Inl e, m)
       | Inr d \<Rightarrow>
         (case validate (en_validator eng) (ms_current_state m) (fd_action d) (Some vctx) of
            Inl e \<Rightarrow> (Inl e, m)
          | Inr fb_validation \<Rightarrow>
              if vr_allowed fb_validation then
                (case transition m (fd_action d) of
                   (Inl e, m') \<Rightarrow>
                     if e = StateTransitionError
                     then (fallback_failed_result m' ctx original fb_validation (fd_response_key d)
                             clarification, m')
                     else (Inl e, m')
                 | (Inr t, m') \<Rightarrow>
                     (check_result (plain_result m' (ms_current_state m) (at_to_state t)
                          (is_terminal m') True (note_transition ctx (fd_action d) t) ''fallback''
                        \<lparr>cr_approved_action := Some (fd_action d), cr_outcome := at_outcome t,
                         cr_response_key := Some (fd_response_key d),
                         cr_validation := Some fb_validation, cr_original_validation := original,
                         cr_fallback_used := True, cr_clarification := clarification\<rparr>), m'))
              else (fallback_failed_result m ctx original fb_validation (fd_response_key d)
                      clarification, m))))"

definition validate_and_apply ::
  "'n engine \<Rightarrow> machine \<Rightarrow> conversation_context \<Rightarrow> agent_action \<Rightarrow> validator_ctx \<Rightarrow> str
    \<Rightarrow> conversation_result res \<times> machine" where
  "validate_and_apply eng m ctx action vctx path =
     (case validate (en_validator eng) (ms_current_state m) action (Some vctx) of
        Inl e \<Rightarrow> (Inl e, m)
      | Inr validation \<Rightarrow>
          if \<not> vr_allowed validation then
            (if en_fallback eng = None then (rejected_result m ctx validation path, m)
             else fallback_path eng m ctx (Some validation) vctx None None)
          else (case apply_and_build m ctx action validation path of
              (Inl e, m') \<Rightarrow> if e = StateTransitionError
                             then (rejected_result m' ctx validation path, m') else (Inl e, m')
            | (Inr r, m') \<Rightarrow> (Inr r, m')))"

text \<open>Reject \<open>action\<close> with a fresh verdict of the validator.\<close>

definition reject_validated ::
  "'n engine \<Rightarrow> machine \<Rightarrow> conversation_context \<Rightarrow> agent_action \<Rightarrow> validator_ctx \<Rightarrow> str
    \<Rightarrow> conversation_result res \<times> machine" where
  "reject_validated eng m ctx action vctx path =
     (rbind (validate (en_validator eng) (ms_current_state m) action (Some vctx))
        (\<lambda>v. rejected_result m ctx v path), m)"

definition offer_path ::
  "'n engine \<Rightarrow> machine \<Rightarrow> conversation_context \<Rightarrow> validator_ctx \<Rightarrow> conversation_result res \<times> machine" where
  "offer_path eng m ctx vctx = (case en_offering eng of None \<Rightarrow> (Inl AssertionError, m) | Some os \<Rightarrow>
     (case offer os (case ctx_campaign_id ctx of None \<Rightarrow> [] | Some c \<Rightarrow> c) (ctx_known_signals ctx)
             (ctx_offered_service_ids ctx) (ctx_service_offers_made ctx) of
        Inl e \<Rightarrow> (Inl e, m)
      | Inr ofr \<Rightarrow>
        (case or_approved_service_id ofr of
           None \<Rightarrow>
             (case en_fallback eng of
                None \<Rightarrow> reject_validated eng m ctx Act_OFFER_SERVICE vctx ''offer''
              | Some fb \<Rightarrow> fallback_path eng m ctx None vctx
                  (Some (select_for_state fb (ms_current_state m) ''clarification_exhausted'')) None)
         | Some approved_id \<Rightarrow>
           (let pre_ctx = ctx\<lparr>ctx_eligible_alternative_service_ids := or_eligible_service_ids ofr\<rparr>;
                offer_vctx = vctx\<lparr>vx_has_applicable_alternative := True\<rparr> in
            case validate (en_validator eng) (ms_current_state m) Act_OFFER_SERVICE (Some offer_vctx) of
              Inl e \<Rightarrow> (Inl e, m)
            | Inr validation \<Rightarrow>
                if \<not> vr_allowed validation then (rejected_result m ctx validation ''offer'', m)
                else (case transition m Act_OFFER_SERVICE of
                    (Inl e, m') \<Rightarrow> if e = StateTransitionError
                       then (rejected_result m' ctx validation ''offer'', m') else (Inl e, m')
                  | (Inr t, m') \<Rightarrow>
                      (check_result (plain_result m' (ms_current_state m) (at_to_state t)
                           (is_terminal m') True
                           (pre_ctx\<lparr>ctx_offered_service_ids := ctx_offered_service_ids ctx @ [approved_id],
                              ctx_service_offers_made := ctx_service_offers_made ctx + 1\<rparr>) ''offer''
                         \<lparr>cr_approved_action := Some Act_OFFER_SERVICE, cr_outcome := at_outcome t,
                          cr_validation := Some validation,
                          cr_service_selection := Some (or_selection ofr)\<rparr>), m'))))))"

definition CONTACT_STATES :: "conversation_state set" where
  "CONTACT_STATES = {St_COLLECT_EMAIL, St_CONFIRM_CONTACT}"

definition should_handle_contact ::
  "'n engine \<Rightarrow> conversation_state \<Rightarrow> contact_understanding option \<Rightarrow> bool" where
  "should_handle_contact eng state understanding \<longleftrightarrow>
     en_resolver eng \<noteq> None \<and> en_clarification eng \<noteq> None \<and> understanding \<noteq> None
     \<and> state \<in> CONTACT_STATES"

text \<open>The last step shared by the contact paths: apply, or reject when the machine refuses.\<close>

definition apply_contact ::
  "machine \<Rightarrow> conversation_context \<Rightarrow> conversation_context \<Rightarrow> agent_action \<Rightarrow> validation_result
    \<Rightarrow> (conversation_result \<Rightarrow> conversation_result) \<Rightarrow> conversation_result res \<times> machine" where
  "apply_contact m reject_ctx ctx action validation extra = (case transition m action of
       (Inl e, m') \<Rightarrow> if e = StateTransitionError
          then (rejected_result m' reject_ctx validation ''contact'', m') else (Inl e, m')
     | (Inr t, m') \<Rightarrow>
         (check_result (extra (plain_result m' (ms_current_state m) (at_to_state t) (is_terminal m')
              True ctx ''contact''
            \<lparr>cr_approved_action := Some action, cr_outcome := at_outcome t,
             cr_validation := Some validation\<rparr>)), m'))"

definition handle_confirmation ::
  "'n engine \<Rightarrow> machine \<Rightarrow> conversation_context \<Rightarrow> validator_ctx \<Rightarrow> conversation_result res \<times> machine" where
  "handle_confirmation eng m ctx vctx =
     (let has_all = (has_nonempty (ctx_contact_candidate ctx)
            \<and> truthy (ctx_contact_candidate_channel ctx)
            \<and> truthy (ctx_contact_candidate_provenance ctx) \<and> truthy (ctx_current_contact_id ctx)) in
      if \<not> has_all then reject_validated eng m ctx Act_CONFIRM_CONTACT vctx ''contact''
      else (case validate (en_validator eng) (ms_current_state m) Act_CONFIRM_CONTACT
                   (Some (vctx\<lparr>vx_contact_confirmed := True\<rparr>)) of
          Inl e \<Rightarrow> (Inl e, m)
        | Inr validation \<Rightarrow>
            if \<not> vr_allowed validation then (rejected_result m ctx validation ''contact'', m)
            else apply_contact m ctx (ctx\<lparr>ctx_contact_confirmed := True\<rparr>) Act_CONFIRM_CONTACT validation
              (\<lambda>r. r\<lparr>cr_contact_to_persist := Some
                 \<lparr>pcm_contact_id = the (ctx_current_contact_id ctx),
                  pcm_channel = the (ctx_contact_candidate_channel ctx),
                  pcm_value_normalized = the (ctx_contact_candidate ctx),
                  pcm_provenance = the (ctx_contact_candidate_provenance ctx),
                  pcm_value_raw = None\<rparr>\<rparr>)))"

definition run_clarification ::
  "'n engine \<Rightarrow> machine \<Rightarrow> conversation_context \<Rightarrow> contact_channel \<Rightarrow> bool \<Rightarrow> validator_ctx
    \<Rightarrow> conversation_result res \<times> machine" where
  "run_clarification eng m ctx channel is_clear vctx = (case en_clarification eng of
       None \<Rightarrow> (Inl AssertionError, m)
     | Some clar_cfg \<Rightarrow>
       (case rbind (case ctx_clarification ctx of
                      None \<Rightarrow> new_session clar_cfg channel
                    | Some cs \<Rightarrow> if cs_channel cs \<noteq> channel then new_session clar_cfg channel else Inr cs)
                   (\<lambda>cs. evaluate_clarification cs is_clear) of
          Inl e \<Rightarrow> (Inl e, m)
        | Inr decision \<Rightarrow>
          (let new_ctx = ctx\<lparr>ctx_clarification := Some (cd_new_state decision)\<rparr> in
           if cd_outcome decision = Clar_EXHAUSTED then
             (case en_fallback eng of
                None \<Rightarrow> reject_validated eng m new_ctx Act_CLARIFY_CONTACT vctx ''contact''
              | Some fb \<Rightarrow> fallback_path eng m new_ctx None vctx
                  (Some (select_for_state fb (ms_current_state m) ''clarification_exhausted''))
                  (Some decision))
           else (case cd_action decision of
               None \<Rightarrow> (Inl AssertionError, m)
             | Some action \<Rightarrow>
               (case validate (en_validator eng) (ms_current_state m) action (Some vctx) of
                  Inl e \<Rightarrow> (Inl e, m)
                | Inr validation \<Rightarrow>
                    if \<not> vr_allowed validation then
                      (if en_fallback eng = None
                       then (rejected_result m new_ctx validation ''contact'', m)
                       else fallback_path eng m new_ctx (Some validation) vctx None (Some decision))
                    else apply_contact m new_ctx new_ctx action validation
                      (\<lambda>r. r\<lparr>cr_response_key := cd_response_key decision,
                             cr_clarification := Some decision\<rparr>))))))"

definition contact_path ::
  "'n engine \<Rightarrow> machine \<Rightarrow> conversation_context \<Rightarrow> contact_understanding \<Rightarrow> validator_ctx
    \<Rightarrow> conversation_result res \<times> machine" where
  "contact_path eng m ctx u vctx = (case en_resolver eng of None \<Rightarrow> (Inl AssertionError, m) | Some lib \<Rightarrow>
     if en_clarification eng = None then (Inl AssertionError, m)
     else if ms_current_state m = St_CONFIRM_CONTACT \<and> cu_intent u = CI_CONFIRM_CONTACT
     then handle_confirmation eng m ctx vctx
     else (let result = resolve lib u
                 \<lparr>rx_call_number = ctx_call_number ctx, rx_business_phone = ctx_business_phone ctx,
                  rx_business_email = ctx_business_email ctx, rx_previously_provided_method = None,
                  rx_region = None\<rparr> in
       if res_outcome result = RO_UNSUPPORTED_REFERENCE then
         (case en_fallback eng of
            None \<Rightarrow> reject_validated eng m ctx Act_CLARIFY_CONTACT vctx ''contact''
          | Some fb \<Rightarrow> fallback_path eng m ctx None vctx
              (Some (select_for_state fb (ms_current_state m) ''clarification_exhausted'')) None)
       else if is_resolved result \<and> truthy (res_value_normalized result)
       then run_clarification eng m
              (ctx\<lparr>ctx_contact_candidate := res_value_normalized result,
                  ctx_contact_candidate_channel := map_option contact_channel_value (res_channel result),
                  ctx_contact_candidate_provenance :=
                    map_option contact_provenance_value (res_provenance result)\<rparr>)
              (cu_channel u) True
              (vctx\<lparr>vx_contact_candidate := res_value_normalized result\<rparr>)
       else run_clarification eng m ctx (cu_channel u) (is_resolved result) vctx))"

section \<open>The entry points\<close>

definition process_turn ::
  "'n engine \<Rightarrow> machine \<Rightarrow> conversation_context \<Rightarrow> agent_action \<Rightarrow> contact_understanding option
    \<Rightarrow> trusted_priority \<Rightarrow> conversation_result res \<times> machine" where
  "process_turn eng m ctx proposed_action understanding trusted =
     (if is_terminal m then (terminal_result m ctx, m)
      else (let vctx = to_validator_context ctx in
        case resolve_priority_action trusted of
          Some priority_action \<Rightarrow> validate_and_apply eng m ctx priority_action vctx ''priority''
        | None \<Rightarrow>
            if should_handle_contact eng (ms_current_state m) understanding
            then contact_path eng m ctx (the understanding) vctx
            else if proposed_action = Act_OFFER_SERVICE \<and> en_offering eng \<noteq> None
            then offer_path eng m ctx vctx
            else validate_and_apply eng m ctx proposed_action vctx ''normal''))"

definition execute_approved_action ::
  "'n engine \<Rightarrow> machine \<Rightarrow> conversation_context \<Rightarrow> agent_action \<Rightarrow> conversation_result res \<times> machine" where
  "execute_approved_action eng m ctx action =
     (if is_terminal m then (terminal_result m ctx, m)
      else validate_and_apply eng m ctx action (to_validator_context ctx) ''orchestrated'')"

definition specialized_rejection ::
  "machine \<Rightarrow> conversation_context \<Rightarrow> str \<Rightarrow> conversation_result res \<times> machine" where
  "specialized_rejection m ctx reason =
     (rbind (validation_rejected VC_MISSING_PREREQUISITE reason)
        (\<lambda>v. rejected_result m ctx v ''specialized''), m)"

definition execute_authority_approved_action ::
  "'n engine \<Rightarrow> machine \<Rightarrow> conversation_context \<Rightarrow> agent_action \<Rightarrow> contact_understanding option
    \<Rightarrow> conversation_result res \<times> machine" where
  "execute_authority_approved_action eng m ctx action understanding =
     (if is_terminal m then (terminal_result m ctx, m)
      else (let vctx = to_validator_context ctx; state = ms_current_state m in
        if action = Act_OFFER_SERVICE then
          (if en_offering eng = None
           then specialized_rejection m ctx ''service offering capability unavailable''
           else offer_path eng m ctx vctx)
        else if action \<in> {Act_ASK_EMAIL, Act_CONFIRM_CONTACT, Act_CLARIFY_CONTACT}
                \<and> state \<in> CONTACT_STATES then
          (if \<not> should_handle_contact eng state understanding
           then specialized_rejection m ctx ''contact resolution capability/input unavailable''
           else contact_path eng m ctx (the understanding) vctx)
        else validate_and_apply eng m ctx action vctx ''slice3''))"

lemma resolved_channel_value:
  assumes "is_resolved (resolve lib u rx)"
  shows "map_option contact_channel_value (res_channel (resolve lib u rx)) \<noteq> Some ''unknown''"
proof -
  from assms have "is_resolved (resolve lib u rx)" .
  then have "\<exists>ch. res_channel (resolve lib u rx) = Some ch \<and> ch \<noteq> Ch_UNKNOWN"
  proof (cases rule: resolve_resolved)
    case (explicit v)
    with assms show ?thesis using validate_and_build_resolved by (metis resolution_result.select_convs(2))
  next
    case (reference ref t prov ch)
    with assms show ?thesis using validate_and_build_resolved by (metis resolution_result.select_convs(2))
  qed
  then obtain ch where "res_channel (resolve lib u rx) = Some ch" "ch \<noteq> Ch_UNKNOWN" by blast
  then show ?thesis by (cases ch) auto
qed

section \<open>What every path keeps\<close>

text \<open>The collaborators fit together: the hypotheses of the engine's properties.\<close>

definition engine_ok :: "'n engine \<Rightarrow> bool" where
  "engine_ok eng \<longleftrightarrow> short_requirements (en_validator eng)
     \<and> (\<forall>cfg. en_clarification eng = Some cfg \<longrightarrow>
          1 \<le> max_for cfg Ch_EMAIL \<and> 1 \<le> max_for cfg Ch_PHONE)
     \<and> (\<forall>os inp e. en_offering eng = Some os \<longrightarrow> os_selector os inp = Inl e \<longrightarrow> e = SelectorError)"

definition context_ok :: "conversation_context \<Rightarrow> bool" where
  "context_ok ctx \<longleftrightarrow> (\<forall>cs. ctx_clarification ctx = Some cs \<longrightarrow> clarification_ok cs)
     \<and> ctx_contact_candidate_channel ctx \<noteq> Some ''unknown''"

text \<open>The result tells the truth about the machine: one approved transition or none.\<close>

definition result_sound :: "bool \<Rightarrow> machine \<Rightarrow> conversation_result \<Rightarrow> machine \<Rightarrow> bool" where
  "result_sound dnc m r m' \<longleftrightarrow>
     cr_current_state r = ms_current_state m \<and> cr_next_state r = ms_current_state m'
     \<and> cr_is_terminal r = is_terminal m' \<and> cr_continues r = (\<not> is_terminal m')
     \<and> (case cr_approved_action r of
          None \<Rightarrow> m' = m \<and> cr_outcome r = None
        | Some a \<Rightarrow> (dnc \<longrightarrow> a \<in> set TERMINATING)
            \<and> (\<exists>t. transition m a = (Inr t, m') \<and> cr_outcome r = at_outcome t))"

text \<open>What happens to the offers, and to the contact to persist.\<close>

definition offers_step :: "'n engine \<Rightarrow> conversation_context \<Rightarrow> conversation_result \<Rightarrow> bool" where
  "offers_step eng ctx r \<longleftrightarrow> (let c = cr_updated_context r in
     (ctx_offered_service_ids c = ctx_offered_service_ids ctx
       \<and> ctx_service_offers_made c = ctx_service_offers_made ctx)
     \<or> (cr_approved_action r = Some Act_OFFER_SERVICE \<and>
        (\<exists>os sid. en_offering eng = Some os \<and> is_service_authorized (os_catalog os) sid
           \<and> sid \<notin> set (ctx_offered_service_ids ctx)
           \<and> ctx_service_offers_made ctx < os_max_offers os
           \<and> ctx_offered_service_ids c = ctx_offered_service_ids ctx @ [sid]
           \<and> ctx_service_offers_made c = ctx_service_offers_made ctx + 1)))"

definition persist_step :: "machine \<Rightarrow> conversation_context \<Rightarrow> conversation_result \<Rightarrow> bool" where
  "persist_step m ctx r \<longleftrightarrow> (\<forall>p. cr_contact_to_persist r = Some p \<longrightarrow>
     cr_approved_action r = Some Act_CONFIRM_CONTACT \<and> ms_current_state m = St_CONFIRM_CONTACT
     \<and> valid_intent p \<and> ctx_contact_candidate ctx = Some (pcm_value_normalized p)
     \<and> ctx_contact_candidate_channel ctx = Some (pcm_channel p)
     \<and> ctx_contact_candidate_provenance ctx = Some (pcm_provenance p)
     \<and> ctx_current_contact_id ctx = Some (pcm_contact_id p)
     \<and> ctx_contact_confirmed (cr_updated_context r))"

definition context_step :: "conversation_context \<Rightarrow> conversation_result \<Rightarrow> bool" where
  "context_step ctx r \<longleftrightarrow> (let c = cr_updated_context r in
     context_ok c \<and> ctx_call_id c = ctx_call_id ctx
     \<and> ctx_current_contact_id c = ctx_current_contact_id ctx
     \<and> (ctx_dnc_pending c \<longleftrightarrow> ctx_dnc_pending ctx \<or> cr_approved_action r = Some Act_MARK_DNC))"

definition turn_ok ::
  "'n engine \<Rightarrow> machine \<Rightarrow> conversation_context \<Rightarrow> conversation_result res \<times> machine \<Rightarrow> bool" where
  "turn_ok eng m ctx out \<longleftrightarrow> (\<exists>r. fst out = Inr r
     \<and> result_sound (ctx_dnc_pending ctx) m r (snd out) \<and> offers_step eng ctx r
     \<and> persist_step m ctx r \<and> context_step ctx r)"

lemma check_result_ok:
  "cr_continues r = (\<not> cr_is_terminal r) \<Longrightarrow> (cr_next_state r \<in> cr_terminal_states r) = cr_is_terminal r
    \<Longrightarrow> check_result r = Inr r"
  by (auto simp: check_result_def)

lemma plain_result_simps [simp]:
  "cr_current_state (plain_result m s n t x ctx p) = s"
  "cr_next_state (plain_result m s n t x ctx p) = n"
  "cr_is_terminal (plain_result m s n t x ctx p) = t"
  "cr_continues (plain_result m s n t x ctx p) = (\<not> t)"
  "cr_updated_context (plain_result m s n t x ctx p) = ctx"
  "cr_approved_action (plain_result m s n t x ctx p) = None"
  "cr_outcome (plain_result m s n t x ctx p) = None"
  "cr_contact_to_persist (plain_result m s n t x ctx p) = None"
  "cr_terminal_states (plain_result m s n t x ctx p) = mc_terminal_states (ms_config m)"
  by (simp_all add: plain_result_def)

text \<open>Results that change nothing but the clarification and the contact candidate.\<close>

definition same_call :: "conversation_context \<Rightarrow> conversation_context \<Rightarrow> bool" where
  "same_call ctx c \<longleftrightarrow> context_ok c \<and> ctx_call_id c = ctx_call_id ctx
     \<and> ctx_current_contact_id c = ctx_current_contact_id ctx
     \<and> ctx_dnc_pending c = ctx_dnc_pending ctx
     \<and> ctx_offered_service_ids c = ctx_offered_service_ids ctx
     \<and> ctx_service_offers_made c = ctx_service_offers_made ctx"

lemma same_call_refl [simp]: "context_ok ctx \<Longrightarrow> same_call ctx ctx"
  by (simp add: same_call_def)

lemma turn_ok_stay:
  assumes "check_result r = Inr r" and "cr_current_state r = ms_current_state m"
    and "cr_next_state r = ms_current_state m" and "cr_is_terminal r = is_terminal m"
    and "cr_continues r = (\<not> is_terminal m)"
    and "cr_approved_action r = None" and "cr_outcome r = None" and "cr_contact_to_persist r = None"
    and "same_call ctx (cr_updated_context r)"
  shows "turn_ok eng m ctx (check_result r, m)"
  using assms
  by (auto simp: turn_ok_def result_sound_def offers_step_def persist_step_def context_step_def
      same_call_def Let_def)

lemma rejected_ok:
  assumes "\<not> is_terminal m" and "same_call ctx c"
  shows "turn_ok eng m ctx (rejected_result m c v path, m)"
  unfolding rejected_result_def using assms
  by (intro turn_ok_stay check_result_ok) (simp_all add: is_terminal_def)

lemma fallback_failed_ok:
  assumes "same_call ctx c"
  shows "turn_ok eng m ctx (fallback_failed_result m c orig v key clar, m)"
  unfolding fallback_failed_result_def using assms
  by (intro turn_ok_stay check_result_ok) (simp_all add: is_terminal_def)

lemma terminal_ok:
  assumes "is_terminal m" and "context_ok ctx"
  shows "turn_ok eng m ctx (terminal_result m ctx, m)"
  unfolding terminal_result_def using assms
  by (intro turn_ok_stay check_result_ok) (simp_all add: is_terminal_def)

lemma transition_facts:
  assumes "transition m a = (Inr t, m')"
  shows "ms_current_state m' = at_to_state t" and "ms_config m' = ms_config m"
    and "at_from_state t = ms_current_state m"
  using assms by (auto elim!: apply_transition_InrE)

lemma transition_failed:
  assumes "machine_ok m" and "transition m a = (Inl e, m')"
  shows "m' = m" and "e = StateTransitionError"
  using apply_transition_Inl_same [OF assms(2)] apply_transition_errors [OF assms] by simp_all

lemma note_transition_simps [simp]:
  "ctx_dnc_pending (note_transition c a t) \<longleftrightarrow> ctx_dnc_pending c \<or> a = Act_MARK_DNC"
  "ctx_call_id (note_transition c a t) = ctx_call_id c"
  "ctx_current_contact_id (note_transition c a t) = ctx_current_contact_id c"
  "ctx_clarification (note_transition c a t) = ctx_clarification c"
  "ctx_contact_candidate_channel (note_transition c a t) = ctx_contact_candidate_channel c"
  "ctx_offered_service_ids (note_transition c a t) = ctx_offered_service_ids c"
  "ctx_service_offers_made (note_transition c a t) = ctx_service_offers_made c"
  by (auto simp: note_transition_def Let_def)

text \<open>A result for an approved transition, whose context is \<open>c\<close> up to what the action notes.\<close>

lemma turn_ok_move:
  assumes "transition m a = (Inr t, m')"
    and "cr_current_state r = ms_current_state m" and "cr_next_state r = at_to_state t"
    and "cr_is_terminal r = is_terminal m'" and "cr_continues r = (\<not> is_terminal m')"
    and "cr_terminal_states r = mc_terminal_states (ms_config m')"
    and "cr_approved_action r = Some a" and "cr_outcome r = at_outcome t"
    and "ctx_dnc_pending ctx \<Longrightarrow> a \<in> set TERMINATING"
    and "offers_step eng ctx r" and "persist_step m ctx r" and "context_step ctx r"
  shows "turn_ok eng m ctx (check_result r, m')"
proof -
  have "check_result r = Inr r"
    using assms(1-6) transition_facts(1) [OF assms(1)]
    by (intro check_result_ok) (simp_all add: is_terminal_def)
  with assms transition_facts(1) [OF assms(1)] show ?thesis
    by (auto simp: turn_ok_def result_sound_def)
qed

lemma turn_ok_move_plain:
  assumes "transition m a = (Inr t, m')"
    and "cr_current_state r = ms_current_state m" and "cr_next_state r = at_to_state t"
    and "cr_is_terminal r = is_terminal m'" and "cr_continues r = (\<not> is_terminal m')"
    and "cr_terminal_states r = mc_terminal_states (ms_config m')"
    and "cr_approved_action r = Some a" and "cr_outcome r = at_outcome t"
    and "ctx_dnc_pending ctx \<Longrightarrow> a \<in> set TERMINATING"
    and "cr_contact_to_persist r = None" and "same_call ctx c"
    and "cr_updated_context r = note_transition c a t"
  shows "turn_ok eng m ctx (check_result r, m')"
  using assms
  by (intro turn_ok_move [of m a t m'])
     (auto simp: offers_step_def persist_step_def context_step_def same_call_def context_ok_def Let_def)

lemma gate:
  assumes "short_requirements cfg"
  obtains v where "validate cfg s a (Some vctx) = Inr v"
    and "vr_allowed v \<longrightarrow> vx_dnc_pending vctx \<longrightarrow> a \<in> set TERMINATING"
  using validate_result [OF assms, of s a vctx] expected_OK_iff [of cfg s a vctx] by metis

lemma reject_validated_ok:
  assumes "engine_ok eng" and "\<not> is_terminal m" and "same_call ctx c"
  shows "turn_ok eng m ctx (reject_validated eng m c a vctx path)"
proof -
  have "short_requirements (en_validator eng)" using assms(1) by (simp add: engine_ok_def)
  then obtain v where "validate (en_validator eng) (ms_current_state m) a (Some vctx) = Inr v"
    by (rule gate)
  with rejected_ok [OF assms(2,3)] show ?thesis by (simp add: reject_validated_def)
qed

lemma fallback_path_ok:
  assumes "engine_ok eng" and "machine_ok m" and "same_call ctx c"
    and "vx_dnc_pending vctx = ctx_dnc_pending ctx"
    and "en_fallback eng = Some fb" and "orig \<noteq> None \<or> dec \<noteq> None"
  shows "turn_ok eng m ctx (fallback_path eng m c orig vctx dec clar)"
proof -
  obtain d where d: "(case dec of Some d \<Rightarrow> Inr d
      | None \<Rightarrow> (case orig of None \<Rightarrow> Inl AssertionError
                 | Some v \<Rightarrow> Inr (select_fallback fb (ms_current_state m) v))) = Inr d"
    using assms(6) by (cases dec; cases orig) auto
  have "short_requirements (en_validator eng)" using assms(1) by (simp add: engine_ok_def)
  then obtain v where v: "validate (en_validator eng) (ms_current_state m) (fd_action d) (Some vctx) = Inr v"
    and dnc: "vr_allowed v \<longrightarrow> vx_dnc_pending vctx \<longrightarrow> fd_action d \<in> set TERMINATING"
    by (rule gate)
  show ?thesis
  proof (cases "vr_allowed v")
    case False
    with d v assms(5) fallback_failed_ok [OF assms(3)] show ?thesis
      by (simp add: fallback_path_def)
  next
    case True
    obtain o1 m' where t: "transition m (fd_action d) = (o1, m')" by (cases "transition m (fd_action d)")
    show ?thesis
    proof (cases o1)
      case (Inl e)
      with t have "m' = m" "e = StateTransitionError"
        using transition_failed [OF assms(2)] by simp_all
      with d v True t Inl assms(5) fallback_failed_ok [OF assms(3)] show ?thesis
        by (simp add: fallback_path_def)
    next
      case (Inr tr)
      with t have tr: "transition m (fd_action d) = (Inr tr, m')" by simp
      have *: "ctx_dnc_pending ctx \<Longrightarrow> fd_action d \<in> set TERMINATING"
        using dnc True assms(4) by simp
      show ?thesis
        using d v True tr assms(5)
        by (simp add: fallback_path_def)
           (rule turn_ok_move_plain [OF tr _ _ _ _ _ _ _ * _ assms(3)], simp_all)
    qed
  qed
qed

lemma validate_and_apply_ok:
  assumes "engine_ok eng" and "machine_ok m" and "\<not> is_terminal m" and "context_ok ctx"
    and "vx_dnc_pending vctx = ctx_dnc_pending ctx"
  shows "turn_ok eng m ctx (validate_and_apply eng m ctx a vctx path)"
proof -
  have "short_requirements (en_validator eng)" using assms(1) by (simp add: engine_ok_def)
  then obtain v where v: "validate (en_validator eng) (ms_current_state m) a (Some vctx) = Inr v"
    and dnc: "vr_allowed v \<longrightarrow> vx_dnc_pending vctx \<longrightarrow> a \<in> set TERMINATING"
    by (rule gate)
  note same = same_call_refl [OF assms(4)]
  show ?thesis
  proof (cases "vr_allowed v")
    case False
    show ?thesis
    proof (cases "en_fallback eng")
      case None
      with v False rejected_ok [OF assms(3) same] show ?thesis by (simp add: validate_and_apply_def)
    next
      case (Some fb)
      with v False fallback_path_ok [OF assms(1,2) same assms(5) Some] show ?thesis
        by (simp add: validate_and_apply_def)
    qed
  next
    case True
    obtain o1 m' where t: "transition m a = (o1, m')" by (cases "transition m a")
    show ?thesis
    proof (cases o1)
      case (Inl e)
      with t have "m' = m" "e = StateTransitionError"
        using transition_failed [OF assms(2)] by simp_all
      with v True t Inl rejected_ok [OF assms(3) same] show ?thesis
        by (simp add: validate_and_apply_def apply_and_build_def)
    next
      case (Inr tr)
      with t have tr: "transition m a = (Inr tr, m')" by simp
      let ?r = "plain_result m' (ms_current_state m) (at_to_state tr) (is_terminal m') True
            (note_transition ctx a tr) path
          \<lparr>cr_approved_action := Some a, cr_outcome := at_outcome tr, cr_validation := Some v\<rparr>"
      have *: "ctx_dnc_pending ctx \<Longrightarrow> a \<in> set TERMINATING" using dnc True assms(5) by simp
      have ok: "turn_ok eng m ctx (check_result ?r, m')"
        by (rule turn_ok_move_plain [OF tr _ _ _ _ _ _ _ * _ same]) simp_all
      then obtain r where "check_result ?r = Inr r" by (auto simp: turn_ok_def)
      with ok v True tr show ?thesis
        by (simp add: validate_and_apply_def apply_and_build_def)
    qed
  qed
qed

lemma offer_path_ok:
  assumes "engine_ok eng" and "machine_ok m" and "\<not> is_terminal m" and "context_ok ctx"
    and "vx_dnc_pending vctx = ctx_dnc_pending ctx" and "en_offering eng = Some os"
  shows "turn_ok eng m ctx (offer_path eng m ctx vctx)"
proof -
  note same = same_call_refl [OF assms(4)]
  let ?campaign = "case ctx_campaign_id ctx of None \<Rightarrow> [] | Some c \<Rightarrow> c"
  let ?offer = "offer os ?campaign (ctx_known_signals ctx) (ctx_offered_service_ids ctx)
      (ctx_service_offers_made ctx)"
  have "\<exists>ofr. ?offer = Inr ofr"
    using offer_safe [where os = os and campaign_id = ?campaign and signals = "ctx_known_signals ctx"
        and offered = "ctx_offered_service_ids ctx" and made = "ctx_service_offers_made ctx"] assms(1,6)
    by (cases ?offer) (auto simp: engine_ok_def)
  then obtain ofr where ofr: "?offer = Inr ofr" by blast
  show ?thesis
  proof (cases "or_approved_service_id ofr")
    case None
    show ?thesis
    proof (cases "en_fallback eng")
      case None': None
      with None ofr assms(6) reject_validated_ok [OF assms(1,3) same] show ?thesis
        by (simp add: offer_path_def)
    next
      case (Some fb)
      with None ofr assms(6) fallback_path_ok [OF assms(1,2) same assms(5) Some] show ?thesis
        by (simp add: offer_path_def)
    qed
  next
    case (Some sid)
    let ?vctx = "vctx\<lparr>vx_has_applicable_alternative := True\<rparr>"
    have safe: "is_service_authorized (os_catalog os) sid" "sid \<notin> set (ctx_offered_service_ids ctx)"
      "ctx_service_offers_made ctx < os_max_offers os"
      using offer_safe [where os = os and campaign_id = ?campaign and signals = "ctx_known_signals ctx"
        and offered = "ctx_offered_service_ids ctx" and made = "ctx_service_offers_made ctx"] ofr Some by auto
    have "short_requirements (en_validator eng)" using assms(1) by (simp add: engine_ok_def)
    then obtain v where v: "validate (en_validator eng) (ms_current_state m) Act_OFFER_SERVICE (Some ?vctx) = Inr v"
      and dnc: "vr_allowed v \<longrightarrow> vx_dnc_pending ?vctx \<longrightarrow> Act_OFFER_SERVICE \<in> set TERMINATING"
      by (rule gate)
    show ?thesis
    proof (cases "vr_allowed v")
      case False
      with Some ofr v assms(6) rejected_ok [OF assms(3) same] show ?thesis
        by (simp add: offer_path_def Let_def)
    next
      case True
      obtain o1 m' where t: "transition m Act_OFFER_SERVICE = (o1, m')"
        by (cases "transition m Act_OFFER_SERVICE")
      show ?thesis
      proof (cases o1)
        case (Inl e)
        with t have "m' = m" "e = StateTransitionError"
          using transition_failed [OF assms(2)] by simp_all
        with Some ofr v True t Inl assms(6) rejected_ok [OF assms(3) same] show ?thesis
          by (simp add: offer_path_def Let_def)
      next
        case (Inr tr)
        with t have tr: "transition m Act_OFFER_SERVICE = (Inr tr, m')" by simp
        have *: "ctx_dnc_pending ctx \<Longrightarrow> Act_OFFER_SERVICE \<in> set TERMINATING"
          using dnc True assms(5) by simp
        show ?thesis using Some ofr v True tr assms(4,6)
          by (simp add: offer_path_def Let_def)
             (rule turn_ok_move [OF tr _ _ _ _ _ _ _ *],
              auto simp: offers_step_def persist_step_def context_step_def context_ok_def Let_def safe)
      qed
    qed
  qed
qed

lemma apply_contact_ok:
  assumes "machine_ok m" and "\<not> is_terminal m" and "same_call ctx reject_ctx"
    and "ctx_dnc_pending ctx \<Longrightarrow> a \<in> set TERMINATING"
    and moved: "\<And>t m'. transition m a = (Inr t, m') \<Longrightarrow>
      turn_ok eng m ctx (check_result (extra (plain_result m' (ms_current_state m) (at_to_state t)
        (is_terminal m') True c ''contact''
        \<lparr>cr_approved_action := Some a, cr_outcome := at_outcome t, cr_validation := Some v\<rparr>)), m')"
  shows "turn_ok eng m ctx (apply_contact m reject_ctx c a v extra)"
proof -
  obtain o1 m' where t: "transition m a = (o1, m')" by (cases "transition m a")
  show ?thesis
  proof (cases o1)
    case (Inl e)
    with t have "m' = m" "e = StateTransitionError"
      using transition_failed [OF assms(1)] by simp_all
    with t Inl rejected_ok [OF assms(2,3)] show ?thesis by (simp add: apply_contact_def)
  next
    case (Inr tr)
    with t moved show ?thesis by (simp add: apply_contact_def)
  qed
qed

lemma handle_confirmation_ok:
  assumes "engine_ok eng" and "machine_ok m" and "\<not> is_terminal m" and "context_ok ctx"
    and "vx_dnc_pending vctx = ctx_dnc_pending ctx" and "ms_current_state m = St_CONFIRM_CONTACT"
  shows "turn_ok eng m ctx (handle_confirmation eng m ctx vctx)"
proof -
  note same = same_call_refl [OF assms(4)]
  let ?all = "has_nonempty (ctx_contact_candidate ctx) \<and> truthy (ctx_contact_candidate_channel ctx)
      \<and> truthy (ctx_contact_candidate_provenance ctx) \<and> truthy (ctx_current_contact_id ctx)"
  let ?vctx = "vctx\<lparr>vx_contact_confirmed := True\<rparr>"
  have "short_requirements (en_validator eng)" using assms(1) by (simp add: engine_ok_def)
  then obtain v where v: "validate (en_validator eng) (ms_current_state m) Act_CONFIRM_CONTACT (Some ?vctx) = Inr v"
    and dnc: "vr_allowed v \<longrightarrow> vx_dnc_pending ?vctx \<longrightarrow> Act_CONFIRM_CONTACT \<in> set TERMINATING"
    by (rule gate)
  consider "\<not> ?all" | "?all" "\<not> vr_allowed v" | "?all" "vr_allowed v" by blast
  then show ?thesis
  proof cases
    case 1
    with reject_validated_ok [OF assms(1,3) same] show ?thesis
      by (simp add: handle_confirmation_def Let_def)
  next
    case 2
    with v rejected_ok [OF assms(3) same] show ?thesis
      by (simp add: handle_confirmation_def Let_def)
  next
    case 3
    have *: "ctx_dnc_pending ctx \<Longrightarrow> Act_CONFIRM_CONTACT \<in> set TERMINATING"
      using dnc 3 assms(5) by simp
    from 3(1) obtain cand chan prov cid where some: "ctx_contact_candidate ctx = Some cand"
      "\<not> blank cand" "ctx_contact_candidate_channel ctx = Some chan"
      "ctx_contact_candidate_provenance ctx = Some prov" "ctx_current_contact_id ctx = Some cid"
      and nonempty: "chan \<noteq> []" "chan \<noteq> ''unknown''" "prov \<noteq> []" "cid \<noteq> []"
      using assms(4) by (auto simp: has_nonempty_def truthy_def context_ok_def split: option.splits)
    show ?thesis
      unfolding handle_confirmation_def Let_def using 3 v
      by simp
         (rule apply_contact_ok [OF assms(2,3) same *],
          auto intro!: turn_ok_move [OF _ _ _ _ _ _ _ _ *] dest: transition_facts(2)
            simp: offers_step_def persist_step_def context_step_def context_ok_def Let_def some assms(6)
              nonempty valid_intent_def
            simp: assms(4) [unfolded context_ok_def])
  qed
qed

lemma max_for_positive:
  "engine_ok eng \<Longrightarrow> en_clarification eng = Some cfg \<Longrightarrow> 1 \<le> max_for cfg ch"
  by (cases ch) (auto simp: engine_ok_def max_for_def PHONE_CHANNELS_def)

lemma new_session_ok:
  assumes "1 \<le> max_for cfg ch"
  obtains cs where "new_session cfg ch = Inr cs" and "clarification_ok cs"
  using assms by (simp add: new_session_def mk_clarification_state_ok clarification_ok_def)

lemma evaluate_not_exhausted_action:
  assumes "clarification_ok st" and "evaluate_clarification st clear = Inr d"
    and "cd_outcome d \<noteq> Clar_EXHAUSTED"
  obtains a where "cd_action d = Some a"
  using evaluate_facts(5,6) [OF assms(1,2)] assms(3) by (auto split: if_splits)

lemma run_clarification_ok:
  assumes "engine_ok eng" and "machine_ok m" and "\<not> is_terminal m" and "same_call ctx c"
    and "vx_dnc_pending vctx = ctx_dnc_pending ctx" and "en_clarification eng = Some cfg"
  shows "turn_ok eng m ctx (run_clarification eng m c channel is_clear vctx)"
proof -
  have c_ok: "context_ok c" using assms(4) by (simp add: same_call_def)
  obtain fresh where "new_session cfg channel = Inr fresh" "clarification_ok fresh"
    using max_for_positive [OF assms(1,6)] by (rule new_session_ok)
  then have "\<exists>cs. (case ctx_clarification c of None \<Rightarrow> new_session cfg channel
      | Some cs \<Rightarrow> if cs_channel cs \<noteq> channel then new_session cfg channel else Inr cs) = Inr cs
    \<and> clarification_ok cs"
    using c_ok by (cases "ctx_clarification c") (auto simp: context_ok_def)
  then obtain cs where cs: "(case ctx_clarification c of None \<Rightarrow> new_session cfg channel
      | Some cs \<Rightarrow> if cs_channel cs \<noteq> channel then new_session cfg channel else Inr cs) = Inr cs"
    and cs_ok: "clarification_ok cs" by blast
  obtain d where d: "evaluate_clarification cs is_clear = Inr d" using evaluate_total [OF cs_ok] by blast
  let ?c = "c\<lparr>ctx_clarification := Some (cd_new_state d)\<rparr>"
  have same: "same_call ctx ?c"
    using assms(4) evaluate_facts(1) [OF cs_ok d] by (simp add: same_call_def context_ok_def)
  show ?thesis
  proof (cases "cd_outcome d = Clar_EXHAUSTED")
    case True
    show ?thesis
    proof (cases "en_fallback eng")
      case None
      with True cs d assms(6) reject_validated_ok [OF assms(1,3) same] show ?thesis
        by (simp add: run_clarification_def Let_def)
    next
      case (Some fb)
      with True cs d assms(6) fallback_path_ok [OF assms(1,2) same assms(5) Some] show ?thesis
        by (simp add: run_clarification_def Let_def)
    qed
  next
    case False
    then obtain a where a: "cd_action d = Some a" using evaluate_not_exhausted_action [OF cs_ok d] by blast
    have "short_requirements (en_validator eng)" using assms(1) by (simp add: engine_ok_def)
    then obtain v where v: "validate (en_validator eng) (ms_current_state m) a (Some vctx) = Inr v"
      and dnc: "vr_allowed v \<longrightarrow> vx_dnc_pending vctx \<longrightarrow> a \<in> set TERMINATING"
      by (rule gate)
    have act: "a \<noteq> Act_MARK_DNC" using a evaluate_facts(6) [OF cs_ok d] by (auto split: if_splits)
    show ?thesis
    proof (cases "vr_allowed v")
      case not_allowed: False
      show ?thesis
      proof (cases "en_fallback eng")
        case None
        with False not_allowed a v cs d assms(6) rejected_ok [OF assms(3) same] show ?thesis
          by (simp add: run_clarification_def Let_def)
      next
        case (Some fb)
        with False not_allowed a v cs d assms(6) fallback_path_ok [OF assms(1,2) same assms(5) Some]
        show ?thesis by (simp add: run_clarification_def Let_def)
      qed
    next
      case True
      have *: "ctx_dnc_pending ctx \<Longrightarrow> a \<in> set TERMINATING" using dnc True assms(5) by simp
      have "turn_ok eng m ctx (apply_contact m ?c ?c a v
         (\<lambda>r. r\<lparr>cr_response_key := cd_response_key d, cr_clarification := Some d\<rparr>))"
      proof (rule apply_contact_ok [OF assms(2,3) same *])
        fix t m'
        assume tr: "transition m a = (Inr t, m')"
        show "turn_ok eng m ctx (check_result (plain_result m' (ms_current_state m) (at_to_state t)
            (is_terminal m') True ?c ''contact''
          \<lparr>cr_approved_action := Some a, cr_outcome := at_outcome t, cr_validation := Some v,
           cr_response_key := cd_response_key d, cr_clarification := Some d\<rparr>), m')"
          using same act
          by (intro turn_ok_move [OF tr _ _ _ _ _ _ _ *])
             (auto simp: offers_step_def persist_step_def context_step_def same_call_def Let_def)
      qed
      with True False a v cs d assms(6) show ?thesis by (simp add: run_clarification_def Let_def)
    qed
  qed
qed

lemma contact_path_ok:
  assumes "engine_ok eng" and "machine_ok m" and "\<not> is_terminal m" and "context_ok ctx"
    and "vx_dnc_pending vctx = ctx_dnc_pending ctx"
    and "should_handle_contact eng (ms_current_state m) (Some u)"
  shows "turn_ok eng m ctx (contact_path eng m ctx u vctx)"
proof -
  from assms(6) obtain lib cfg where lib: "en_resolver eng = Some lib" and cfg: "en_clarification eng = Some cfg"
    by (auto simp: should_handle_contact_def)
  let ?rx = "\<lparr>rx_call_number = ctx_call_number ctx, rx_business_phone = ctx_business_phone ctx,
      rx_business_email = ctx_business_email ctx, rx_previously_provided_method = None,
      rx_region = None\<rparr>"
  note same = same_call_refl [OF assms(4)]
  have run: "turn_ok eng m ctx (run_clarification eng m c (cu_channel u) b vctx')"
    if "same_call ctx c" "vx_dnc_pending vctx' = ctx_dnc_pending ctx" for c b vctx'
    using run_clarification_ok [OF assms(1-3) that cfg] .
  consider "ms_current_state m = St_CONFIRM_CONTACT \<and> cu_intent u = CI_CONFIRM_CONTACT"
    | "\<not> (ms_current_state m = St_CONFIRM_CONTACT \<and> cu_intent u = CI_CONFIRM_CONTACT)"
      "res_outcome (resolve lib u ?rx) = RO_UNSUPPORTED_REFERENCE"
    | "\<not> (ms_current_state m = St_CONFIRM_CONTACT \<and> cu_intent u = CI_CONFIRM_CONTACT)"
      "res_outcome (resolve lib u ?rx) \<noteq> RO_UNSUPPORTED_REFERENCE"
    by blast
  then show ?thesis
  proof cases
    case 1
    with handle_confirmation_ok [OF assms(1-5)] lib cfg show ?thesis by (simp add: contact_path_def)
  next
    case 2
    then have "contact_path eng m ctx u vctx =
        (case en_fallback eng of
            None \<Rightarrow> reject_validated eng m ctx Act_CLARIFY_CONTACT vctx ''contact''
          | Some fb \<Rightarrow> fallback_path eng m ctx None vctx
              (Some (select_for_state fb (ms_current_state m) ''clarification_exhausted'')) None)"
      using lib cfg by (auto simp: contact_path_def Let_def)
    then show ?thesis
      using reject_validated_ok [OF assms(1,3) same] fallback_path_ok [OF assms(1,2) same assms(5)]
      by (simp split: option.splits)
  next
    case 3
    let ?r = "resolve lib u ?rx"
    have "same_call ctx (ctx\<lparr>ctx_contact_candidate := x,
        ctx_contact_candidate_channel := map_option contact_channel_value (res_channel ?r),
        ctx_contact_candidate_provenance := z\<rparr>)" if "is_resolved ?r" for x z
      using assms(4) resolved_channel_value [OF that] by (simp add: same_call_def context_ok_def)
    note moved = this
    have "contact_path eng m ctx u vctx =
        (let result = resolve lib u ?rx in
         if is_resolved result \<and> truthy (res_value_normalized result)
         then run_clarification eng m
              (ctx\<lparr>ctx_contact_candidate := res_value_normalized result,
                  ctx_contact_candidate_channel := map_option contact_channel_value (res_channel result),
                  ctx_contact_candidate_provenance :=
                    map_option contact_provenance_value (res_provenance result)\<rparr>)
              (cu_channel u) True
              (vctx\<lparr>vx_contact_candidate := res_value_normalized result\<rparr>)
         else run_clarification eng m ctx (cu_channel u) (is_resolved result) vctx)"
      using 3 lib cfg by (auto simp: contact_path_def Let_def)
    with run [OF moved] run [OF same] assms(5) show ?thesis by (auto simp: Let_def)
  qed
qed

lemma to_validator_dnc [simp]: "vx_dnc_pending (to_validator_context ctx) = ctx_dnc_pending ctx"
  by (simp add: to_validator_context_def)

lemma process_turn_ok:
  assumes "engine_ok eng" and "machine_ok m" and "context_ok ctx"
  shows "turn_ok eng m ctx (process_turn eng m ctx a u tp)"
proof (cases "is_terminal m")
  case True
  with terminal_ok [OF True assms(3)] show ?thesis by (simp add: process_turn_def)
next
  case False
  note plain = validate_and_apply_ok [OF assms(1,2) False assms(3)]
  show ?thesis
    using False plain contact_path_ok [OF assms(1,2) False assms(3)]
      offer_path_ok [OF assms(1,2) False assms(3)]
    by (auto simp: process_turn_def Let_def should_handle_contact_def split: option.splits)
qed

lemma specialized_rejection_ok:
  assumes "\<not> is_terminal m" and "context_ok ctx" and "length why \<le> 200"
  shows "turn_ok eng m ctx (specialized_rejection m ctx why)"
  using rejected_ok [OF assms(1) same_call_refl [OF assms(2)]] assms(3)
  by (simp add: specialized_rejection_def validation_rejected_simp)

lemma execute_approved_action_ok:
  assumes "engine_ok eng" and "machine_ok m" and "context_ok ctx"
  shows "turn_ok eng m ctx (execute_approved_action eng m ctx a)"
proof (cases "is_terminal m")
  case True
  with terminal_ok [OF True assms(3)] show ?thesis by (simp add: execute_approved_action_def)
next
  case False
  with validate_and_apply_ok [OF assms(1,2) False assms(3)] show ?thesis
    by (simp add: execute_approved_action_def)
qed

lemma execute_authority_approved_action_ok:
  assumes "engine_ok eng" and "machine_ok m" and "context_ok ctx"
  shows "turn_ok eng m ctx (execute_authority_approved_action eng m ctx a u)"
proof (cases "is_terminal m")
  case True
  with terminal_ok [OF True assms(3)] show ?thesis by (simp add: execute_authority_approved_action_def)
next
  case False
  note plain = validate_and_apply_ok [OF assms(1,2) False assms(3)]
  note special = specialized_rejection_ok [OF False assms(3), where eng = eng]
  show ?thesis
    using False plain special contact_path_ok [OF assms(1,2) False assms(3)]
      offer_path_ok [OF assms(1,2) False assms(3)]
    by (auto simp: execute_authority_approved_action_def Let_def should_handle_contact_def)
qed

section \<open>Calls, as sequences of requests to the engine\<close>

datatype engine_call =
    ProcessTurn agent_action "contact_understanding option" trusted_priority
  | ExecuteApproved agent_action
  | ExecuteAuthority agent_action "contact_understanding option"

fun run_call ::
  "'n engine \<Rightarrow> machine \<Rightarrow> conversation_context \<Rightarrow> engine_call \<Rightarrow> conversation_result res \<times> machine" where
  "run_call eng m ctx (ProcessTurn a u tp) = process_turn eng m ctx a u tp"
| "run_call eng m ctx (ExecuteApproved a) = execute_approved_action eng m ctx a"
| "run_call eng m ctx (ExecuteAuthority a u) = execute_authority_approved_action eng m ctx a u"

text \<open>The caller keeps the updated context of every result.\<close>

definition call_step ::
  "'n engine \<Rightarrow> machine \<times> conversation_context \<Rightarrow> engine_call \<Rightarrow> machine \<times> conversation_context" where
  "call_step eng s c = (case run_call eng (fst s) (snd s) c of
       (Inl e, m') \<Rightarrow> (m', snd s) | (Inr r, m') \<Rightarrow> (m', cr_updated_context r))"

lemma run_call_ok:
  assumes "engine_ok eng" and "machine_ok m" and "context_ok ctx"
  shows "turn_ok eng m ctx (run_call eng m ctx c)"
  using process_turn_ok [OF assms] execute_approved_action_ok [OF assms]
    execute_authority_approved_action_ok [OF assms]
  by (cases c) auto

lemma run_call_result:
  assumes "engine_ok eng" and "machine_ok m" and "context_ok ctx"
  obtains r m' where "run_call eng m ctx c = (Inr r, m')"
    and "result_sound (ctx_dnc_pending ctx) m r m'" and "offers_step eng ctx r"
    and "persist_step m ctx r" and "context_step ctx r"
    and "call_step eng (m, ctx) c = (m', cr_updated_context r)"
proof -
  obtain o1 m' where out: "run_call eng m ctx c = (o1, m')" by (cases "run_call eng m ctx c")
  with run_call_ok [OF assms, of c] obtain r where "o1 = Inr r"
    "result_sound (ctx_dnc_pending ctx) m r m'" "offers_step eng ctx r"
    "persist_step m ctx r" "context_step ctx r"
    by (auto simp: turn_ok_def)
  with out show thesis by (intro that) (auto simp: call_step_def)
qed

lemma result_sound_machine:
  assumes "result_sound dnc m r m'" and "machine_ok m"
  shows "machine_ok m'" and "ms_config m' = ms_config m"
proof -
  from assms(1) have "m' = m \<or> (\<exists>a t. transition m a = (Inr t, m'))"
    by (auto simp: result_sound_def split: option.splits)
  with assms(2) show "machine_ok m'" and "ms_config m' = ms_config m"
    by (auto intro: apply_transition_machine_ok dest: transition_facts(2))
qed

definition offers_ok :: "'n engine \<Rightarrow> conversation_context \<Rightarrow> bool" where
  "offers_ok eng ctx \<longleftrightarrow> distinct (ctx_offered_service_ids ctx)
     \<and> ctx_service_offers_made ctx = int (length (ctx_offered_service_ids ctx))
     \<and> (ctx_offered_service_ids ctx \<noteq> [] \<longrightarrow> (\<exists>os. en_offering eng = Some os
          \<and> (\<forall>sid \<in> set (ctx_offered_service_ids ctx). is_service_authorized (os_catalog os) sid)
          \<and> ctx_service_offers_made ctx \<le> os_max_offers os))"

definition session_ok :: "'n engine \<Rightarrow> machine_config \<Rightarrow> machine \<times> conversation_context \<Rightarrow> bool" where
  "session_ok eng cfg s \<longleftrightarrow> engine_ok eng \<and> machine_ok (fst s) \<and> ms_config (fst s) = cfg
     \<and> context_ok (snd s)"

definition session_offers_ok :: "'n engine \<Rightarrow> machine_config \<Rightarrow> machine \<times> conversation_context \<Rightarrow> bool" where
  "session_offers_ok eng cfg s \<longleftrightarrow> session_ok eng cfg s \<and> offers_ok eng (snd s)"

definition session_dnc :: "'n engine \<Rightarrow> machine_config \<Rightarrow> machine \<times> conversation_context \<Rightarrow> bool" where
  "session_dnc eng cfg s \<longleftrightarrow> session_ok eng cfg s \<and> ctx_dnc_pending (snd s)"

lemma call_step_session:
  assumes "session_ok eng cfg s"
  shows "session_ok eng cfg (call_step eng s c)"
    and "ctx_dnc_pending (snd s) \<Longrightarrow> ctx_dnc_pending (snd (call_step eng s c))"
    and "offers_ok eng (snd s) \<Longrightarrow> offers_ok eng (snd (call_step eng s c))"
proof -
  obtain m ctx where s: "s = (m, ctx)" by (cases s)
  from assms s have ok: "engine_ok eng" "machine_ok m" "context_ok ctx" "ms_config m = cfg"
    by (simp_all add: session_ok_def)
  obtain r m' where r: "result_sound (ctx_dnc_pending ctx) m r m'" "offers_step eng ctx r"
      "context_step ctx r" and step: "call_step eng s c = (m', cr_updated_context r)"
    unfolding s by (rule run_call_result [OF ok(1-3), of c])
  show "session_ok eng cfg (call_step eng s c)"
    using result_sound_machine [OF r(1) ok(2)] r(3) ok(1,4)
    by (simp add: step session_ok_def context_step_def Let_def)
  show "ctx_dnc_pending (snd (call_step eng s c))" if "ctx_dnc_pending (snd s)"
    using that r(3) step by (simp add: s context_step_def Let_def)
  show "offers_ok eng (snd (call_step eng s c))" if "offers_ok eng (snd s)"
  proof -
    have "snd (call_step eng s c) = cr_updated_context r" using step by simp
    moreover have "offers_ok eng ctx" using that s by simp
    with r(2) have "offers_ok eng (cr_updated_context r)"
      unfolding offers_step_def Let_def offers_ok_def by (elim disjE) auto
    ultimately show ?thesis by simp
  qed
qed

interpretation session_run: kept "call_step eng" "session_ok eng cfg" for eng cfg
  by unfold_locales (rule call_step_session(1))

interpretation session_offers: kept "call_step eng" "session_offers_ok eng cfg" for eng cfg
  by unfold_locales (auto simp: session_offers_ok_def intro: call_step_session(1,3))

interpretation session_do_not_call: kept "call_step eng" "session_dnc eng cfg" for eng cfg
  by unfold_locales (auto simp: session_dnc_def intro: call_step_session(1,2))

section \<open>The properties\<close>

text \<open>
  C1. The engine always answers, and its answer is the truth. With fitting collaborators
  (short requirement names, positive clarification limits, a selector that fails only by
  \<^verbatim>\<open>SelectorError\<close>), every request of any sequence of requests, through any of the three
  entry points, returns a result and never raises; the result's states are the machine's
  before and after, its terminal flags are the machine's, and either it approves nothing
  and the machine did not move, or it approves one action and the machine made exactly that
  action's transition, with its outcome.
\<close>

theorem engine_always_answers:
  assumes "engine_ok eng" and "machine_ok m0" and "context_ok ctx0"
    and "(m, ctx) = foldl (call_step eng) (m0, ctx0) earlier"
  shows "\<exists>r m'. run_call eng m ctx request = (Inr r, m')
    \<and> cr_current_state r = ms_current_state m \<and> cr_next_state r = ms_current_state m'
    \<and> cr_is_terminal r = is_terminal m' \<and> cr_continues r = (\<not> is_terminal m')
    \<and> (case cr_approved_action r of
         None \<Rightarrow> m' = m \<and> cr_outcome r = None
       | Some a \<Rightarrow> \<exists>t. transition m a = (Inr t, m') \<and> cr_outcome r = at_outcome t)"
proof -
  have "session_ok eng (ms_config m0) (m0, ctx0)" using assms(1-3) by (simp add: session_ok_def)
  then have "session_ok eng (ms_config m0) (m, ctx)" unfolding assms(4) by (rule session_run.run_keeps)
  then have ok: "engine_ok eng" "machine_ok m" "context_ok ctx" by (simp_all add: session_ok_def)
  obtain r m' where "run_call eng m ctx request = (Inr r, m')"
    "result_sound (ctx_dnc_pending ctx) m r m'"
    by (rule run_call_result [OF ok, of request])
  then show ?thesis by (auto simp: result_sound_def split: option.splits)
qed

definition shipped_engine :: "str engine" where
  "shipped_engine = \<lparr>en_validator = shipped_config,
     en_fallback = Some (shipped_config, the (mc_fallbacks shipped_config)),
     en_clarification = Some shipped_config, en_resolver = Some sample_phone_lib,
     en_offering = Some sample_offering\<rparr>"

lemma shipped_engine_ok: "engine_ok shipped_engine"
proof -
  have "max_for shipped_config Ch_EMAIL = 3" "max_for shipped_config Ch_PHONE = 3" by code_simp+
  then show ?thesis
    using shipped_short
    by (auto simp: engine_ok_def shipped_engine_def sample_offering_def mock_select_def split: if_splits)
qed

definition blank_context :: conversation_context where
  "blank_context = \<lparr>ctx_call_id = ''call-1'', ctx_business_id = None, ctx_current_contact_id = Some ''p1'',
     ctx_previous_contact_id = None, ctx_previous_conversation_exists = False,
     ctx_contact_candidate = None, ctx_contact_candidate_channel = None,
     ctx_contact_candidate_provenance = None, ctx_contact_confirmed = False, ctx_callback = None,
     ctx_dnc_pending = False, ctx_interest_preserved = False, ctx_call_number = None,
     ctx_business_phone = None, ctx_business_email = None, ctx_campaign_id = Some ''spring'',
     ctx_known_signals = set [''no_website''], ctx_eligible_alternative_service_ids = [],
     ctx_offered_service_ids = [], ctx_service_offers_made = 0, ctx_clarification = None\<rparr>"

lemma blank_context_ok: "context_ok blank_context"
  by (simp add: blank_context_def context_ok_def)

lemma engine_always_answers_witness:
  "\<exists>r m'. run_call shipped_engine shipped_machine blank_context (ExecuteApproved Act_GREET) = (Inr r, m')
    \<and> cr_next_state r = ms_current_state m'"
proof -
  have "(shipped_machine, blank_context) =
      foldl (call_step shipped_engine) (shipped_machine, blank_context) []" by simp
  from engine_always_answers [OF shipped_engine_ok shipped_start_ok blank_context_ok this,
      of "ExecuteApproved Act_GREET"]
  show ?thesis by blast
qed

text \<open>
  C7. A pending do-not-call is never talked over: from the moment a context has it, through
  every later request of the call and every entry point (fallbacks, offers and contact
  handling included), the only actions the engine approves are \<^verbatim>\<open>mark_dnc\<close> and
  \<^verbatim>\<open>end_call\<close>, and the flag is never cleared.
\<close>

theorem dnc_never_talked_over:
  assumes "engine_ok eng" and "machine_ok m0" and "context_ok ctx0" and "ctx_dnc_pending ctx0"
    and "(m, ctx) = foldl (call_step eng) (m0, ctx0) earlier"
    and "run_call eng m ctx request = (Inr r, m')"
  shows "cr_approved_action r \<in> {None, Some Act_MARK_DNC, Some Act_END_CALL}
    \<and> ctx_dnc_pending (cr_updated_context r)"
proof -
  have "session_dnc eng (ms_config m0) (m0, ctx0)"
    using assms(1-4) by (simp add: session_dnc_def session_ok_def)
  then have "session_dnc eng (ms_config m0) (m, ctx)"
    unfolding assms(5) by (rule session_do_not_call.run_keeps)
  then have ok: "engine_ok eng" "machine_ok m" "context_ok ctx" and dnc: "ctx_dnc_pending ctx"
    by (simp_all add: session_dnc_def session_ok_def)
  obtain r' m'' where r': "run_call eng m ctx request = (Inr r', m'')"
    "result_sound (ctx_dnc_pending ctx) m r' m''" "context_step ctx r'"
    by (rule run_call_result [OF ok, of request])
  from r'(1) assms(6) have "r' = r" by simp
  with r'(2,3) dnc show ?thesis
    by (auto simp: result_sound_def context_step_def TERMINATING_def Let_def split: option.splits)
qed

lemma dnc_never_talked_over_witness:
  "\<exists>r m'. run_call shipped_engine shipped_machine (blank_context\<lparr>ctx_dnc_pending := True\<rparr>)
      (ProcessTurn Act_GREET None TP_NONE) = (Inr r, m')
    \<and> cr_approved_action r = Some Act_MARK_DNC \<and> ctx_dnc_pending (cr_updated_context r)"
proof -
  let ?ctx = "blank_context\<lparr>ctx_dnc_pending := True\<rparr>"
  let ?out = "run_call shipped_engine shipped_machine ?ctx (ProcessTurn Act_GREET None TP_NONE)"
  have o1: "isl (fst ?out) = False" "cr_approved_action (projr (fst ?out)) = Some Act_MARK_DNC"
    by code_simp+
  obtain r m' where out: "?out = (Inr r, m')" "cr_approved_action r = Some Act_MARK_DNC"
    using outcome_Inr [OF o1(1)] o1(2) that by blast
  have "context_ok ?ctx" "ctx_dnc_pending ?ctx"
    using blank_context_ok by (simp_all add: context_ok_def)
  moreover have "(shipped_machine, ?ctx) = foldl (call_step shipped_engine) (shipped_machine, ?ctx) []"
    by simp
  ultimately have "ctx_dnc_pending (cr_updated_context r)"
    using dnc_never_talked_over [OF shipped_engine_ok shipped_start_ok _ _ _ out(1)] by blast
  with out show ?thesis by blast
qed

lemma shipped_dnc_allowed:
  assumes "machine_ok m" and "ms_config m = shipped_config" and "\<not> is_terminal m"
  obtains v where "validate shipped_config (ms_current_state m) Act_MARK_DNC (Some vctx) = Inr v"
    and "vr_allowed v"
proof -
  from assms obtain sd r where "dget (mc_states shipped_config) (ms_current_state m) = Some sd"
    "dget (sd_transitions sd) Act_MARK_DNC = Some r" "tr_requires r = []"
    by (rule shipped_dnc_rule)
  then have "expected_category shipped_config (ms_current_state m) Act_MARK_DNC vctx = VC_OK"
    unfolding expected_OK_iff by (auto simp: find_rule_def TERMINATING_def)
  moreover obtain v where "validate shipped_config (ms_current_state m) Act_MARK_DNC (Some vctx) = Inr v"
    "vr_category v = expected_category shipped_config (ms_current_state m) Act_MARK_DNC vctx"
    "vr_allowed v \<longleftrightarrow> vr_category v = VC_OK"
    using shipped_short by (rule validate_result)
  ultimately show thesis by (intro that) auto
qed

text \<open>
  C2. A trusted do-not-call always ends the call. On the shipped configuration, at any
  point of any sequence of requests where the call has not ended, a turn whose trusted
  priority is do-not-call approves \<^verbatim>\<open>mark_dnc\<close> whatever was proposed or understood: the
  machine reaches \<^verbatim>\<open>end_call\<close> with the outcome \<^verbatim>\<open>do_not_call\<close>, the result is
  terminal, no fallback is involved and the context has the flag.
\<close>

theorem trusted_dnc_ends_call:
  assumes "engine_ok eng" and "en_validator eng = shipped_config" and "context_ok ctx0"
    and "(m, ctx) = foldl (call_step eng) (shipped_machine, ctx0) earlier"
    and "\<not> is_terminal m"
  shows "\<exists>r m'. process_turn eng m ctx proposed understanding TP_DNC = (Inr r, m')
    \<and> cr_approved_action r = Some Act_MARK_DNC \<and> cr_outcome r = Some ''do_not_call''
    \<and> ms_current_state m' = St_END_CALL \<and> cr_is_terminal r \<and> \<not> cr_fallback_used r
    \<and> ctx_dnc_pending (cr_updated_context r)"
proof -
  have "session_ok eng shipped_config (shipped_machine, ctx0)"
    using assms(1,3) shipped_start_ok by (simp add: session_ok_def shipped_start)
  then have "session_ok eng shipped_config (m, ctx)" unfolding assms(4) by (rule session_run.run_keeps)
  then have ok: "machine_ok m" "ms_config m = shipped_config" by (simp_all add: session_ok_def)
  obtain v where v: "validate shipped_config (ms_current_state m) Act_MARK_DNC
      (Some (to_validator_context ctx)) = Inr v" "vr_allowed v"
    using ok assms(5) by (rule shipped_dnc_allowed)
  obtain t m' where t: "transition m Act_MARK_DNC = (Inr t, m')" "at_to_state t = St_END_CALL"
    "at_outcome t = Some ''do_not_call''" "ms_current_state m' = St_END_CALL" "is_terminal m'"
    using ok assms(5) by (rule shipped_dnc_transition)
  let ?r = "plain_result m' (ms_current_state m) St_END_CALL True True
      (note_transition ctx Act_MARK_DNC t) ''priority''
      \<lparr>cr_approved_action := Some Act_MARK_DNC, cr_outcome := Some ''do_not_call'',
       cr_validation := Some v\<rparr>"
  have "check_result ?r = Inr ?r" using t(4,5) by (intro check_result_ok) (simp_all add: is_terminal_def)
  with v t assms(2,5) have "process_turn eng m ctx proposed understanding TP_DNC = (Inr ?r, m')"
    by (simp add: process_turn_def Let_def resolve_priority_action_def validate_and_apply_def
        apply_and_build_def)
  with t(4) show ?thesis by (intro exI [of _ ?r] exI [of _ m']) (simp add: plain_result_def)
qed

lemma trusted_dnc_ends_call_witness:
  "\<exists>r m'. process_turn shipped_engine shipped_machine blank_context Act_GREET None TP_DNC = (Inr r, m')
    \<and> cr_outcome r = Some ''do_not_call''"
proof -
  have nt: "\<not> is_terminal shipped_machine"
    by (simp add: is_terminal_def shipped_start shipped_terminal)
  have "en_validator shipped_engine = shipped_config" by (simp add: shipped_engine_def)
  moreover have "(shipped_machine, blank_context) =
      foldl (call_step shipped_engine) (shipped_machine, blank_context) []" by simp
  ultimately show ?thesis
    using trusted_dnc_ends_call [OF shipped_engine_ok _ blank_context_ok _ nt] by blast
qed

text \<open>
  Offers are bounded and never repeated: after any sequence of requests in a call that
  starts without offers, the services recorded as offered are pairwise different, all in the
  campaign's scope, exactly as many as the offer counter says, and at most the offering
  service's limit.
\<close>

theorem offers_bounded_and_distinct:
  assumes "engine_ok eng" and "en_offering eng = Some os" and "0 \<le> os_max_offers os"
    and "machine_ok m0" and "context_ok ctx0"
    and "ctx_offered_service_ids ctx0 = []" and "ctx_service_offers_made ctx0 = 0"
    and "(m, ctx) = foldl (call_step eng) (m0, ctx0) requests"
  shows "distinct (ctx_offered_service_ids ctx)
    \<and> list_all (is_service_authorized (os_catalog os)) (ctx_offered_service_ids ctx)
    \<and> ctx_service_offers_made ctx = int (length (ctx_offered_service_ids ctx))
    \<and> ctx_service_offers_made ctx \<le> os_max_offers os"
proof -
  have "session_offers_ok eng (ms_config m0) (m0, ctx0)"
    using assms by (simp add: session_offers_ok_def session_ok_def offers_ok_def)
  then have "session_offers_ok eng (ms_config m0) (m, ctx)"
    unfolding assms(8) by (rule session_offers.run_keeps)
  then have ok: "offers_ok eng ctx" by (simp add: session_offers_ok_def)
  show ?thesis
  proof (cases "ctx_offered_service_ids ctx = []")
    case True
    with ok assms(3) show ?thesis by (simp add: offers_ok_def)
  next
    case False
    with ok assms(2) show ?thesis by (auto simp: offers_ok_def list_all_iff)
  qed
qed

lemma offers_bounded_and_distinct_witness:
  "ctx_service_offers_made (snd (foldl (call_step shipped_engine) (listening, blank_context)
      [ProcessTurn Act_OFFER_SERVICE None TP_NONE, ProcessTurn Act_OFFER_SERVICE None TP_NONE,
       ProcessTurn Act_OFFER_SERVICE None TP_NONE])) \<le> 3"
  (is "ctx_service_offers_made (snd (foldl _ _ ?reqs)) \<le> 3")
proof -
  have m: "machine_ok listening" unfolding listening_def by (rule shipped_run_ok)
  have "en_offering shipped_engine = Some sample_offering" "os_max_offers sample_offering = 3"
    by (simp_all add: shipped_engine_def sample_offering_def)
  moreover have "ctx_offered_service_ids blank_context = []" "ctx_service_offers_made blank_context = 0"
    by (simp_all add: blank_context_def)
  ultimately show ?thesis
    using offers_bounded_and_distinct [OF shipped_engine_ok _ _ m blank_context_ok _ _ surjective_pairing
        [symmetric], of sample_offering ?reqs] by simp
qed


definition confirming :: machine where
  "confirming = listening\<lparr>ms_current_state := St_CONFIRM_CONTACT\<rparr>"

definition candidate_context :: conversation_context where
  "candidate_context = blank_context\<lparr>ctx_contact_candidate := Some ''a@b.co'',
     ctx_contact_candidate_channel := Some ''email'',
     ctx_contact_candidate_provenance := Some ''client_provided''\<rparr>"

definition confirm_understanding :: contact_understanding where
  "confirm_understanding = \<lparr>cu_intent = CI_CONFIRM_CONTACT, cu_channel = Ch_EMAIL, cu_value = None,
     cu_reference = None, cu_interpretation_confidence = Fin 1\<rparr>"


end
