(* ===== verification/Policies.thy ===== *)
theory Policies
  imports Constants
begin

text \<open>
  The three policies of \<^verbatim>\<open>app/brain\<close> with their loaders and evaluators: call budget
  (\<^verbatim>\<open>budget/models.py\<close>, \<^verbatim>\<open>budget/evaluator.py\<close>), conversation scope
  (\<^verbatim>\<open>scope/\<close>) and execution authority (\<^verbatim>\<open>authority/\<close>). YAML documents are records
  with \<open>None\<close> or the empty list for a missing key; reason texts of decisions are not
  modelled (some render floats).
\<close>

section \<open>Budget\<close>

record budget_limits =
  bl_max_reasoning_calls :: int
  bl_max_turns :: int
  bl_max_call_seconds :: int
  bl_max_response_sentences :: int

record budget_policy =
  bpol_policy_id :: str
  bpol_limits :: budget_limits

text \<open>A scalar of the document; in Python a \<^verbatim>\<open>bool\<close> is an \<^verbatim>\<open>int\<close>.\<close>

datatype yaml_scalar = YInt int | YBool bool | YOther

fun positive_int :: "yaml_scalar \<Rightarrow> int option" where
  "positive_int (YInt n) = (if n < 1 then None else Some n)"
| "positive_int (YBool b) = (if b then Some 1 else None)"
| "positive_int YOther = None"

record raw_budget =
  rbp_policy_id :: "str option"
  rbp_limits :: "(str, yaml_scalar) dict"

definition read_limit :: "(str, yaml_scalar) dict \<Rightarrow> str \<Rightarrow> int res" where
  "read_limit limits key =
     rbind (option_res ConfigurationError (dget limits key)) (\<lambda>v.
     option_res ConfigurationError (positive_int v))"

definition parse_budget_policy :: "str \<Rightarrow> raw_budget \<Rightarrow> budget_policy res" where
  "parse_budget_policy pid body =
     rbind (guard (rbp_limits body \<noteq> []) ConfigurationError) (\<lambda>_.
     rbind (read_limit (rbp_limits body) ''max_reasoning_calls'') (\<lambda>calls.
     rbind (read_limit (rbp_limits body) ''max_turns'') (\<lambda>turns.
     rbind (read_limit (rbp_limits body) ''max_call_seconds'') (\<lambda>seconds.
     rbind (read_limit (rbp_limits body) ''max_response_sentences'') (\<lambda>sentences.
     Inr \<lparr>bpol_policy_id = (case rbp_policy_id body of None \<Rightarrow> pid | Some p \<Rightarrow> p),
          bpol_limits = \<lparr>bl_max_reasoning_calls = calls, bl_max_turns = turns,
            bl_max_call_seconds = seconds, bl_max_response_sentences = sentences\<rparr>\<rparr>)))))"

text \<open>The three loaders share this shape; \<open>None\<close> is a path without a file.\<close>

definition load_policies ::
  "(str \<Rightarrow> 'raw \<Rightarrow> 'p res) \<Rightarrow> (str, 'raw) dict option \<Rightarrow> (str, 'p) dict res" where
  "load_policies parse file =
     rbind (option_res ConfigurationError file) (\<lambda>raw.
     rbind (guard (raw \<noteq> []) ConfigurationError) (\<lambda>_.
     rmap (\<lambda>(pid, body). rbind (parse pid body) (\<lambda>p. Inr (pid, p))) raw))"

definition load_budget_policies :: "(str, raw_budget) dict option \<Rightarrow> (str, budget_policy) dict res" where
  "load_budget_policies = load_policies parse_budget_policy"

record budget_state =
  bs_turns_remaining :: "int option"
  bs_seconds_remaining :: "int option"
  bs_reasoning_calls_remaining :: "int option"
  bs_max_response_sentences :: "int option"

datatype budget_outcome = BO_PROCEED | BO_CONSTRAIN_RESPONSE | BO_WIND_DOWN | BO_EARLY_EXIT

datatype exit_kind =
    Exit_DNC | Exit_NOT_INTERESTED | Exit_CALLBACK | Exit_CONTACT_OBTAINED | Exit_BUDGET_EXHAUSTED

record exit_signals =
  xs_dnc :: bool
  xs_not_interested :: bool
  xs_callback_scheduled :: bool
  xs_contact_confirmed :: bool

record budget_decision =
  bd_outcome :: budget_outcome
  bd_exit_kind :: "exit_kind option"
  bd_response_ceiling :: "int option"
  bd_policy_id :: "str option"

definition exhausted :: "int option \<Rightarrow> bool" where
  "exhausted remaining = (case remaining of None \<Rightarrow> True | Some n \<Rightarrow> n \<le> 0)"

definition evaluate_budget ::
  "budget_state option \<Rightarrow> exit_signals \<Rightarrow> budget_policy option \<Rightarrow> budget_decision" where
  "evaluate_budget state sig policy =
     (let pid = map_option bpol_policy_id policy;
          early = (\<lambda>k. \<lparr>bd_outcome = BO_EARLY_EXIT, bd_exit_kind = Some k,
                         bd_response_ceiling = None, bd_policy_id = pid\<rparr>);
          wind = \<lparr>bd_outcome = BO_WIND_DOWN, bd_exit_kind = Some Exit_BUDGET_EXHAUSTED,
                  bd_response_ceiling = None, bd_policy_id = pid\<rparr> in
      if xs_dnc sig then early Exit_DNC
      else if xs_not_interested sig then early Exit_NOT_INTERESTED
      else if xs_callback_scheduled sig then early Exit_CALLBACK
      else if xs_contact_confirmed sig then early Exit_CONTACT_OBTAINED
      else case (policy, state) of
        (Some p, Some st) \<Rightarrow>
          if exhausted (bs_reasoning_calls_remaining st) then wind
          else if exhausted (bs_turns_remaining st) then wind
          else if exhausted (bs_seconds_remaining st) then wind
          else (let ceiling = bl_max_response_sentences (bpol_limits p) in
            case bs_max_response_sentences st of
              Some n \<Rightarrow> if n < ceiling
                then \<lparr>bd_outcome = BO_CONSTRAIN_RESPONSE, bd_exit_kind = None,
                      bd_response_ceiling = Some n, bd_policy_id = Some (bpol_policy_id p)\<rparr>
                else \<lparr>bd_outcome = BO_PROCEED, bd_exit_kind = None,
                      bd_response_ceiling = Some ceiling, bd_policy_id = Some (bpol_policy_id p)\<rparr>
            | None \<Rightarrow> \<lparr>bd_outcome = BO_PROCEED, bd_exit_kind = None,
                      bd_response_ceiling = Some ceiling, bd_policy_id = Some (bpol_policy_id p)\<rparr>)
      | _ \<Rightarrow> wind)"

section \<open>Scope\<close>

record scope_policy =
  sp_policy_id :: str
  sp_allowed_topics :: "topic_category set"
  sp_allowed_actions :: "agent_action set"
  sp_restricted_topics :: "topic_category set"
  sp_escalation_topics :: "topic_category set"

record raw_scope =
  rsp_policy_id :: "str option"
  rsp_allowed_topics :: "str list"
  rsp_allowed_actions :: "str list"
  rsp_restricted_topics :: "str list"
  rsp_escalation_topics :: "str list"

definition coerce_topic :: "str \<Rightarrow> topic_category res" where
  "coerce_topic v = option_res ConfigurationError (topic_category_of v)"

definition parse_scope_policy :: "str \<Rightarrow> raw_scope \<Rightarrow> scope_policy res" where
  "parse_scope_policy pid body =
     rbind (guard (\<not> (rsp_allowed_topics body = [] \<and> rsp_allowed_actions body = []))
              ConfigurationError) (\<lambda>_.
     rbind (rmap coerce_topic (rsp_allowed_topics body)) (\<lambda>allowed_topics.
     rbind (rmap coerce_action (rsp_allowed_actions body)) (\<lambda>allowed_actions.
     rbind (rmap coerce_topic (rsp_restricted_topics body)) (\<lambda>restricted.
     rbind (rmap coerce_topic (rsp_escalation_topics body)) (\<lambda>escalation.
     rbind (guard (set allowed_topics \<inter> set restricted = {}) ConfigurationError) (\<lambda>_.
     rbind (guard (set escalation - set allowed_topics = {}) ConfigurationError) (\<lambda>_.
     Inr \<lparr>sp_policy_id = (case rsp_policy_id body of None \<Rightarrow> pid | Some p \<Rightarrow> p),
          sp_allowed_topics = set allowed_topics, sp_allowed_actions = set allowed_actions,
          sp_restricted_topics = set restricted, sp_escalation_topics = set escalation\<rparr>)))))))"

definition load_scope_policies :: "(str, raw_scope) dict option \<Rightarrow> (str, scope_policy) dict res" where
  "load_scope_policies = load_policies parse_scope_policy"

datatype scope_category = Scope_IN_SCOPE | Scope_OUT_OF_SCOPE | Scope_UNKNOWN_SCOPE

record scope_result =
  srs_category :: scope_category
  srs_policy_id :: str
  srs_fallback_hint :: "str option"
  srs_requires_escalation :: bool

definition validate_scope :: "agent_action option \<Rightarrow> topic_category \<Rightarrow> scope_policy \<Rightarrow> scope_result" where
  "validate_scope action topic policy =
     (let out = (\<lambda>cat hint. \<lparr>srs_category = cat, srs_policy_id = sp_policy_id policy,
                             srs_fallback_hint = Some hint, srs_requires_escalation = False\<rparr>) in
      if topic = Topic_UNKNOWN then out Scope_UNKNOWN_SCOPE ''clarify''
      else if topic \<in> sp_restricted_topics policy then out Scope_OUT_OF_SCOPE ''redirect_to_goal''
      else if (case action of None \<Rightarrow> False | Some a \<Rightarrow> a \<notin> sp_allowed_actions policy)
      then out Scope_OUT_OF_SCOPE ''redirect_to_goal''
      else if topic \<notin> sp_allowed_topics policy then out Scope_OUT_OF_SCOPE ''redirect_to_goal''
      else \<lparr>srs_category = Scope_IN_SCOPE, srs_policy_id = sp_policy_id policy,
            srs_fallback_hint = None,
            srs_requires_escalation = (topic \<in> sp_escalation_topics policy)\<rparr>)"

section \<open>Authority\<close>

datatype authority_tier = Tier_AUTO_EXECUTE | Tier_POLICY_BOUNDED | Tier_HUMAN_APPROVAL_REQUIRED | Tier_DENIED

fun RESTRICTIVENESS :: "authority_tier \<Rightarrow> nat" where
  "RESTRICTIVENESS Tier_AUTO_EXECUTE = 0"
| "RESTRICTIVENESS Tier_POLICY_BOUNDED = 1"
| "RESTRICTIVENESS Tier_HUMAN_APPROVAL_REQUIRED = 2"
| "RESTRICTIVENESS Tier_DENIED = 3"

text \<open>Tiers are ordered by how restrictive they are.\<close>

lemma RESTRICTIVENESS_inj: "RESTRICTIVENESS a = RESTRICTIVENESS b \<longleftrightarrow> a = b"
  by (cases a; cases b) simp_all

instantiation authority_tier :: linorder
begin

definition less_eq_authority_tier :: "authority_tier \<Rightarrow> authority_tier \<Rightarrow> bool" where
  "less_eq_authority_tier a b \<longleftrightarrow> RESTRICTIVENESS a \<le> RESTRICTIVENESS b"

definition less_authority_tier :: "authority_tier \<Rightarrow> authority_tier \<Rightarrow> bool" where
  "less_authority_tier a b \<longleftrightarrow> RESTRICTIVENESS a < RESTRICTIVENESS b"

instance
  by standard (auto simp: less_eq_authority_tier_def less_authority_tier_def RESTRICTIVENESS_inj)

end

definition more_restrictive :: "authority_tier \<Rightarrow> authority_tier \<Rightarrow> authority_tier" where
  "more_restrictive a b = (if RESTRICTIVENESS a \<ge> RESTRICTIVENESS b then a else b)"

lemma more_restrictive_max: "more_restrictive a b = max a b"
  by (auto simp: more_restrictive_def max_def less_eq_authority_tier_def RESTRICTIVENESS_inj)

definition authority_tier_of :: "str \<Rightarrow> authority_tier option" where
  "authority_tier_of v =
     (if v = ''auto_execute'' then Some Tier_AUTO_EXECUTE
      else if v = ''policy_bounded'' then Some Tier_POLICY_BOUNDED
      else if v = ''human_approval_required'' then Some Tier_HUMAN_APPROVAL_REQUIRED
      else if v = ''denied'' then Some Tier_DENIED else None)"

definition coerce_tier :: "str \<Rightarrow> authority_tier res" where
  "coerce_tier v = option_res ConfigurationError (authority_tier_of v)"

record discount_rule =
  dr_max_autonomous_percent :: py_float
  dr_within_tier :: authority_tier
  dr_over_tier :: authority_tier

record pricing_disclosure_rule =
  pd_allowed :: bool
  pd_tier :: authority_tier

record authority_policy =
  ap_policy_id :: str
  ap_default_tier :: authority_tier
  ap_action_tiers :: "(agent_action, authority_tier) dict"
  ap_discount :: "discount_rule option"
  ap_pricing_disclosure :: "pricing_disclosure_rule option"
  ap_commercial_tiers :: "(commercial_kind, authority_tier) dict"

record raw_commercial =
  rcm_max_autonomous_percent :: "py_float option"
  rcm_within_tier :: "str option"
  rcm_over_tier :: "str option"
  rcm_allowed :: "bool option"
  rcm_tier :: "str option"

record raw_authority =
  rau_policy_id :: "str option"
  rau_default_tier :: "str option"
  rau_action_tiers :: "(str, str) dict"
  rau_commercial :: "(str, raw_commercial) dict"

definition read_tier :: "str option \<Rightarrow> authority_tier res" where
  "read_tier v = rbind (option_res KeyError v) coerce_tier"

definition add_action_tier ::
  "(agent_action, authority_tier) dict \<Rightarrow> str \<times> str \<Rightarrow> (agent_action, authority_tier) dict res" where
  "add_action_tier acc kb =
     rbind (coerce_action (fst kb)) (\<lambda>a. rbind (coerce_tier (snd kb)) (\<lambda>t. Inr (dset a t acc)))"

definition add_commercial :: "authority_policy \<Rightarrow> str \<times> raw_commercial \<Rightarrow> authority_policy res" where
  "add_commercial acc kb = (let rule = snd kb in
     if fst kb = ''discount'' then
       rbind (option_res KeyError (rcm_max_autonomous_percent rule)) (\<lambda>p.
       rbind (read_tier (rcm_within_tier rule)) (\<lambda>inside.
       rbind (read_tier (rcm_over_tier rule)) (\<lambda>over.
       Inr (acc\<lparr>ap_discount := Some \<lparr>dr_max_autonomous_percent = p, dr_within_tier = inside,
                                     dr_over_tier = over\<rparr>\<rparr>))))
     else if fst kb = ''pricing_disclosure'' then
       rbind (option_res KeyError (rcm_allowed rule)) (\<lambda>allowed.
       rbind (read_tier (rcm_tier rule)) (\<lambda>tier.
       Inr (acc\<lparr>ap_pricing_disclosure := Some \<lparr>pd_allowed = allowed, pd_tier = tier\<rparr>\<rparr>)))
     else
       rbind (option_res ConfigurationError (commercial_kind_of (fst kb))) (\<lambda>kind.
       rbind (read_tier (rcm_tier rule)) (\<lambda>tier.
       Inr (acc\<lparr>ap_commercial_tiers := dset kind tier (ap_commercial_tiers acc)\<rparr>))))"

definition parse_authority_policy :: "str \<Rightarrow> raw_authority \<Rightarrow> authority_policy res" where
  "parse_authority_policy pid body =
     rbind (option_res ConfigurationError (rau_default_tier body)) (\<lambda>default_raw.
     rbind (coerce_tier default_raw) (\<lambda>default_tier.
     rbind (guard (default_tier \<noteq> Tier_AUTO_EXECUTE) ConfigurationError) (\<lambda>_.
     rbind (rfold add_action_tier [] (rau_action_tiers body)) (\<lambda>action_tiers.
     rfold add_commercial
       \<lparr>ap_policy_id = (case rau_policy_id body of None \<Rightarrow> pid | Some p \<Rightarrow> p),
        ap_default_tier = default_tier, ap_action_tiers = action_tiers, ap_discount = None,
        ap_pricing_disclosure = None, ap_commercial_tiers = []\<rparr> (rau_commercial body)))))"

definition load_authority_policies ::
  "(str, raw_authority) dict option \<Rightarrow> (str, authority_policy) dict res" where
  "load_authority_policies = load_policies parse_authority_policy"

record commercial_request =
  cq_kind :: commercial_kind
  cq_requested_discount_percent :: "py_float option"

record authority_result =
  ar_tier :: authority_tier
  ar_policy_id :: str
  ar_within_bounds :: "bool option"
  ar_escalation_hint :: "str option"

fun hint_for :: "authority_tier \<Rightarrow> str option" where
  "hint_for Tier_HUMAN_APPROVAL_REQUIRED = Some ''escalate_human_approval''"
| "hint_for Tier_DENIED = Some ''deny_and_redirect''"
| "hint_for Tier_POLICY_BOUNDED = Some ''proceed_within_bounds''"
| "hint_for Tier_AUTO_EXECUTE = None"

definition classify_commercial ::
  "authority_policy \<Rightarrow> commercial_request \<Rightarrow> authority_tier \<times> bool option" where
  "classify_commercial policy req =
     (if cq_kind req = Com_DISCOUNT then
        (case (ap_discount policy, cq_requested_discount_percent req) of
           (Some rule, Some percent) \<Rightarrow>
             (let inside = py_le percent (dr_max_autonomous_percent rule) in
              (if inside then dr_within_tier rule else dr_over_tier rule, Some inside))
         | _ \<Rightarrow> (ap_default_tier policy, None))
      else if cq_kind req = Com_PRICING_DISCLOSURE then
        (case ap_pricing_disclosure policy of
           None \<Rightarrow> (ap_default_tier policy, None)
         | Some rule \<Rightarrow> if \<not> pd_allowed rule then (ap_default_tier policy, None)
                        else (pd_tier rule, None))
      else (case dget (ap_commercial_tiers policy) (cq_kind req) of
              Some tier \<Rightarrow> (tier, None) | None \<Rightarrow> (ap_default_tier policy, None)))"

definition action_tier :: "authority_policy \<Rightarrow> agent_action option \<Rightarrow> authority_tier" where
  "action_tier policy action =
     (case action of None \<Rightarrow> ap_default_tier policy
      | Some a \<Rightarrow> (case dget (ap_action_tiers policy) a of
            Some t \<Rightarrow> t | None \<Rightarrow> ap_default_tier policy))"

definition classify_authority ::
  "agent_action option \<Rightarrow> commercial_request option \<Rightarrow> authority_policy \<Rightarrow> authority_result" where
  "classify_authority action request policy = (case request of
       None \<Rightarrow> \<lparr>ar_tier = action_tier policy action, ar_policy_id = ap_policy_id policy,
                ar_within_bounds = None, ar_escalation_hint = hint_for (action_tier policy action)\<rparr>
     | Some req \<Rightarrow>
         (let (comm_tier, inside) = classify_commercial policy req;
              final = more_restrictive (action_tier policy action) comm_tier in
          \<lparr>ar_tier = final, ar_policy_id = ap_policy_id policy, ar_within_bounds = inside,
           ar_escalation_hint = hint_for final\<rparr>))"

section \<open>What a loaded policy guarantees\<close>

lemma load_policies_member:
  assumes "load_policies parse file = Inr ps" and "dget ps pid = Some p"
  shows "\<exists>body. parse pid body = Inr p"
proof -
  from assms(1) obtain raw where
    "rmap (\<lambda>(pid, body). rbind (parse pid body) (\<lambda>p. Inr (pid, p))) raw = Inr ps"
    by (auto simp: load_policies_def res_simps)
  from rmap_in_set [OF this map_of_SomeD [OF assms(2)]] show ?thesis
    by (auto simp: res_simps)
qed

lemma parse_authority_default:
  assumes "parse_authority_policy pid body = Inr p"
  shows "ap_default_tier p \<noteq> Tier_AUTO_EXECUTE"
proof -
  from assms obtain tier tiers where "tier \<noteq> Tier_AUTO_EXECUTE"
    and f: "rfold add_commercial
       \<lparr>ap_policy_id = (case rau_policy_id body of None \<Rightarrow> pid | Some p \<Rightarrow> p),
        ap_default_tier = tier, ap_action_tiers = tiers, ap_discount = None,
        ap_pricing_disclosure = None, ap_commercial_tiers = []\<rparr> (rau_commercial body) = Inr p"
    by (auto simp: parse_authority_policy_def res_simps)
  have "ap_default_tier p = tier"
    by (rule rfold_invariant [OF f])
       (auto simp: add_commercial_def Let_def res_simps split: if_splits)
  with \<open>tier \<noteq> Tier_AUTO_EXECUTE\<close> show ?thesis by simp
qed

lemma classify_authority_tier:
  "ar_tier (classify_authority action request policy) =
     (case request of None \<Rightarrow> action_tier policy action
      | Some req \<Rightarrow> max (action_tier policy action) (fst (classify_commercial policy req)))"
  by (auto simp: classify_authority_def more_restrictive_max Let_def split: option.splits prod.splits)

lemma auto_least: "Tier_AUTO_EXECUTE \<le> t"
  by (simp add: less_eq_authority_tier_def)

text \<open>
  C24. Authority fails closed and never relaxes. For a policy the loader accepted: a proposal
  whose action is absent or not listed is never executed automatically; a commercial request
  can only raise the tier that the action alone would get, and the result is exactly the more
  restrictive of the two; a discount that is not within the autonomous limit (NaN included)
  gets at least the over-limit tier, and one without a stated percentage, or a price
  disclosure that is not permitted, at least the default tier.
\<close>

theorem authority_fails_closed:
  assumes "load_authority_policies file = Inr policies" and "dget policies pid = Some policy"
  shows "((case action of None \<Rightarrow> True | Some a \<Rightarrow> dget (ap_action_tiers policy) a = None)
        \<longrightarrow> Tier_AUTO_EXECUTE < ar_tier (classify_authority action request policy))
    \<and> ar_tier (classify_authority action None policy) \<le> ar_tier (classify_authority action request policy)
    \<and> (\<forall>req. request = Some req \<longrightarrow>
         ar_tier (classify_authority action request policy) =
           max (ar_tier (classify_authority action None policy)) (fst (classify_commercial policy req))
         \<and> (\<forall>rule percent. cq_kind req = Com_DISCOUNT \<and> ap_discount policy = Some rule
              \<and> cq_requested_discount_percent req = Some percent
              \<and> \<not> py_le percent (dr_max_autonomous_percent rule)
              \<longrightarrow> dr_over_tier rule \<le> ar_tier (classify_authority action request policy))
         \<and> ((cq_kind req = Com_DISCOUNT \<and> cq_requested_discount_percent req = None
              \<or> cq_kind req = Com_PRICING_DISCLOSURE
                \<and> (\<forall>rule. ap_pricing_disclosure policy = Some rule \<longrightarrow> \<not> pd_allowed rule))
              \<longrightarrow> ap_default_tier policy \<le> ar_tier (classify_authority action request policy)))"
proof -
  obtain body where "parse_authority_policy pid body = Inr policy"
    using load_policies_member assms unfolding load_authority_policies_def by metis
  then have "ap_default_tier policy \<noteq> Tier_AUTO_EXECUTE" by (rule parse_authority_default)
  then have df: "Tier_AUTO_EXECUTE < ap_default_tier policy" using auto_least by (simp add: order.strict_iff_order)
  have "Tier_AUTO_EXECUTE < ar_tier (classify_authority action request policy)"
    if "case action of None \<Rightarrow> True | Some a \<Rightarrow> dget (ap_action_tiers policy) a = None"
  proof -
    from that df have "Tier_AUTO_EXECUTE < action_tier policy action"
      by (auto simp: action_tier_def split: option.splits)
    then show ?thesis by (auto simp: classify_authority_tier less_max_iff_disj split: option.splits)
  qed
  moreover have "fst (classify_commercial policy req) = dr_over_tier rule"
    if "cq_kind req = Com_DISCOUNT" "ap_discount policy = Some rule"
      "cq_requested_discount_percent req = Some percent"
      "\<not> py_le percent (dr_max_autonomous_percent rule)" for req rule percent
    using that by (simp add: classify_commercial_def)
  moreover have "fst (classify_commercial policy req) = ap_default_tier policy"
    if "cq_kind req = Com_DISCOUNT \<and> cq_requested_discount_percent req = None
        \<or> cq_kind req = Com_PRICING_DISCLOSURE
          \<and> (\<forall>rule. ap_pricing_disclosure policy = Some rule \<longrightarrow> \<not> pd_allowed rule)" for req
    using that by (auto simp: classify_commercial_def split: option.splits)
  ultimately show ?thesis
    by (auto simp: classify_authority_tier le_max_iff_disj split: option.splits)
qed

definition sample_authority :: "(str, raw_authority) dict" where
  "sample_authority = [(''std'', \<lparr>rau_policy_id = None, rau_default_tier = Some ''human_approval_required'',
     rau_action_tiers = [(''ask_email'', ''auto_execute'')],
     rau_commercial = [(''discount'', \<lparr>rcm_max_autonomous_percent = Some (Fin 10),
       rcm_within_tier = Some ''policy_bounded'', rcm_over_tier = Some ''denied'',
       rcm_allowed = None, rcm_tier = None\<rparr>)]\<rparr>)]"

lemma authority_fails_closed_witness:
  "\<exists>policy. Tier_DENIED \<le> ar_tier (classify_authority (Some Act_ASK_EMAIL)
     (Some \<lparr>cq_kind = Com_DISCOUNT, cq_requested_discount_percent = Some (Fin 25)\<rparr>) policy)"
proof -
  let ?req = "\<lparr>cq_kind = Com_DISCOUNT, cq_requested_discount_percent = Some (Fin 25)\<rparr>"
  let ?ps = "projr (load_authority_policies (Some sample_authority))"
  have ld: "load_authority_policies (Some sample_authority) = Inr ?ps"
    by (rule not_isl_Inr) code_simp
  have "map_option (\<lambda>p. map_option (\<lambda>r. (dr_over_tier r,
      py_le (Fin 25) (dr_max_autonomous_percent r))) (ap_discount p)) (dget ?ps ''std'') =
    Some (Some (Tier_DENIED, False))"
    by code_simp
  then obtain policy rule where p: "dget ?ps ''std'' = Some policy" "ap_discount policy = Some rule"
    "dr_over_tier rule = Tier_DENIED" "\<not> py_le (Fin 25) (dr_max_autonomous_percent rule)"
    by auto
  from authority_fails_closed [OF ld p(1), of "Some Act_ASK_EMAIL" "Some ?req"] p show ?thesis
    by (intro exI [of _ policy]) auto
qed

text \<open>
  The budget fails closed. The evaluator lets a turn go on (proceed or constrain)
  exactly when no trusted exit signal is set, a policy and a state are present, and
  reasoning calls, turns and seconds are all known and positive; it then imposes a sentence
  ceiling that exceeds neither the policy's nor the state's. A do-not-call signal wins over
  everything else.
\<close>

theorem budget_fails_closed:
  "(bd_outcome (evaluate_budget state sig policy) \<in> {BO_PROCEED, BO_CONSTRAIN_RESPONSE}
     \<longleftrightarrow> \<not> (xs_dnc sig \<or> xs_not_interested sig \<or> xs_callback_scheduled sig \<or> xs_contact_confirmed sig)
       \<and> (\<exists>p st calls turns secs. policy = Some p \<and> state = Some st
           \<and> bs_reasoning_calls_remaining st = Some calls \<and> calls > 0
           \<and> bs_turns_remaining st = Some turns \<and> turns > 0
           \<and> bs_seconds_remaining st = Some secs \<and> secs > 0))
   \<and> (\<forall>p st. policy = Some p \<and> state = Some st
        \<and> bd_outcome (evaluate_budget state sig policy) \<in> {BO_PROCEED, BO_CONSTRAIN_RESPONSE}
        \<longrightarrow> (\<exists>c. bd_response_ceiling (evaluate_budget state sig policy) = Some c
              \<and> c \<le> bl_max_response_sentences (bpol_limits p)
              \<and> (\<forall>n. bs_max_response_sentences st = Some n \<longrightarrow> c \<le> n)))
   \<and> (xs_dnc sig \<longrightarrow> bd_outcome (evaluate_budget state sig policy) = BO_EARLY_EXIT
        \<and> bd_exit_kind (evaluate_budget state sig policy) = Some Exit_DNC)"
  by (auto simp: evaluate_budget_def exhausted_def Let_def not_le split: option.splits)

definition no_signals :: exit_signals where
  "no_signals = \<lparr>xs_dnc = False, xs_not_interested = False, xs_callback_scheduled = False,
     xs_contact_confirmed = False\<rparr>"

definition short_call :: budget_policy where
  "short_call = \<lparr>bpol_policy_id = ''short_call'', bpol_limits = \<lparr>bl_max_reasoning_calls = 6,
     bl_max_turns = 8, bl_max_call_seconds = 120, bl_max_response_sentences = 2\<rparr>\<rparr>"

lemma budget_fails_closed_witness:
  "bd_outcome (evaluate_budget (Some \<lparr>bs_turns_remaining = Some 3, bs_seconds_remaining = None,
      bs_reasoning_calls_remaining = Some 5, bs_max_response_sentences = Some 1\<rparr>) no_signals
      (Some short_call)) \<notin> {BO_PROCEED, BO_CONSTRAIN_RESPONSE}"
  using budget_fails_closed [where state = "Some \<lparr>bs_turns_remaining = Some 3,
      bs_seconds_remaining = None, bs_reasoning_calls_remaining = Some 5,
      bs_max_response_sentences = Some 1\<rparr>" and sig = no_signals and policy = "Some short_call"]
  by auto

text \<open>
  Scope is a whitelist. A proposal is in scope exactly when its topic is known, allowed
  and not restricted and its action, if any, is allowed; for a loaded policy being allowed
  already excludes being restricted, and only a proposal in scope can ask for escalation.
\<close>

theorem scope_is_a_whitelist:
  assumes "load_scope_policies file = Inr policies" and "dget policies pid = Some policy"
  shows "(srs_category (validate_scope action topic policy) = Scope_IN_SCOPE
      \<longleftrightarrow> topic \<noteq> Topic_UNKNOWN \<and> topic \<in> sp_allowed_topics policy
        \<and> (\<forall>a. action = Some a \<longrightarrow> a \<in> sp_allowed_actions policy))
    \<and> sp_allowed_topics policy \<inter> sp_restricted_topics policy = {}
    \<and> (srs_requires_escalation (validate_scope action topic policy)
        \<longleftrightarrow> srs_category (validate_scope action topic policy) = Scope_IN_SCOPE
          \<and> topic \<in> sp_escalation_topics policy)"
proof -
  obtain body where "parse_scope_policy pid body = Inr policy"
    using load_policies_member assms unfolding load_scope_policies_def by metis
  then have "sp_allowed_topics policy \<inter> sp_restricted_topics policy = {}"
    by (auto simp: parse_scope_policy_def res_simps)
  then show ?thesis
    by (auto simp: validate_scope_def Let_def split: option.splits)
qed

definition sample_scope :: "(str, raw_scope) dict" where
  "sample_scope = [(''std'', \<lparr>rsp_policy_id = None,
     rsp_allowed_topics = [''service_discussion'', ''commercial_request''],
     rsp_allowed_actions = [''ask_email'', ''mark_dnc''], rsp_restricted_topics = [''off_topic''],
     rsp_escalation_topics = [''commercial_request'']\<rparr>)]"

lemma scope_is_a_whitelist_witness:
  "\<exists>policy. srs_category (validate_scope (Some Act_ASK_EMAIL) Topic_COMMERCIAL_REQUEST policy) =
      Scope_IN_SCOPE
    \<and> srs_requires_escalation (validate_scope (Some Act_ASK_EMAIL) Topic_COMMERCIAL_REQUEST policy)"
proof -
  let ?ps = "projr (load_scope_policies (Some sample_scope))"
  have ld: "load_scope_policies (Some sample_scope) = Inr ?ps"
    by (rule not_isl_Inr) code_simp
  have "map_option (\<lambda>p. (Topic_COMMERCIAL_REQUEST \<in> sp_allowed_topics p,
      Act_ASK_EMAIL \<in> sp_allowed_actions p, Topic_COMMERCIAL_REQUEST \<in> sp_escalation_topics p))
      (dget ?ps ''std'') = Some (True, True, True)"
    by code_simp
  then obtain policy where "dget ?ps ''std'' = Some policy"
    "Topic_COMMERCIAL_REQUEST \<in> sp_allowed_topics policy"
    "Act_ASK_EMAIL \<in> sp_allowed_actions policy"
    "Topic_COMMERCIAL_REQUEST \<in> sp_escalation_topics policy"
    by auto
  with scope_is_a_whitelist [OF ld this(1), of "Some Act_ASK_EMAIL" Topic_COMMERCIAL_REQUEST]
  show ?thesis by (intro exI [of _ policy]) auto
qed

end
