(* ===== verification/Brain.thy ===== *)
theory Brain
  imports Engine Policies
begin

text \<open>
  \<^verbatim>\<open>app/brain/orchestrator/orchestrator.py\<close>: the sequence of gates a turn passes (trusted
  priority, budget, reasoning provider, scope, authority) and the execution of an approved
  action (slice three). The reasoning provider and the builder of its prompt context are
  functions in the orchestrator's record; what they return is untrusted. Reason and note
  texts and the provider's failure details are not modelled.
\<close>

section \<open>Proposals and results\<close>

record brain_proposal =
  bpr_detected_intent :: intent
  bpr_tone :: tone
  bpr_topic_category :: topic_category
  bpr_proposed_action :: "agent_action option"
  bpr_commercial_request :: "commercial_request option"
  bpr_action_confidence :: py_float

text \<open>
  What a provider returned: a proposal whose fields have their declared types, or anything
  else.
\<close>

datatype provider_answer = Ill_Typed | Well_Typed brain_proposal

datatype turn_stage_outcome =
    TSO_PIPELINE_STOPPED | TSO_CONTINUE_TO_BRAIN | TSO_AUTHORITY_APPROVED
  | TSO_ESCALATE | TSO_REDIRECT | TSO_FALLBACK

datatype termination_status = TERMINAL | NOT_TERMINAL

datatype proposal_status = PS_VALID | PS_NO_ACTION | PS_MALFORMED | PS_PROVIDER_FAILED

datatype slice_three_outcome = S3_EXECUTED | S3_FALLBACK | S3_REDIRECT

datatype termination_route = Route_CLOSE | Route_CALLBACK

record authority_bounds =
  ab_max_discount_percent :: "py_float option"
  ab_pricing_disclosure_allowed :: "bool option"

definition requires_downstream_enforcement :: "authority_bounds \<Rightarrow> bool" where
  "requires_downstream_enforcement b \<longleftrightarrow>
     ab_max_discount_percent b \<noteq> None \<or> ab_pricing_disclosure_allowed b \<noteq> None"

record turn_trace =
  tt_stage_outcome :: turn_stage_outcome
  tt_priority_action :: "agent_action option"
  tt_budget_outcome :: "budget_outcome option"
  tt_budget_exit_kind :: "exit_kind option"
  tt_termination_route :: "termination_route option"
  tt_response_ceiling :: "int option"
  tt_provider_name :: "str option"
  tt_proposal_status :: "proposal_status option"
  tt_scope_category :: "scope_category option"
  tt_authority_tier :: "authority_tier option"
  tt_action_confidence :: "py_float option"
  tt_proposed_action :: "agent_action option"
  tt_detected_intent :: "intent option"
  tt_topic_category :: "topic_category option"

definition new_trace :: "turn_stage_outcome \<Rightarrow> turn_trace" where
  "new_trace outcome =
     \<lparr>tt_stage_outcome = outcome, tt_priority_action = None, tt_budget_outcome = None,
      tt_budget_exit_kind = None, tt_termination_route = None, tt_response_ceiling = None,
      tt_provider_name = None, tt_proposal_status = None, tt_scope_category = None,
      tt_authority_tier = None, tt_action_confidence = None, tt_proposed_action = None,
      tt_detected_intent = None, tt_topic_category = None\<rparr>"

record turn_result =
  tr_outcome :: turn_stage_outcome
  tr_conversation_status :: termination_status
  tr_trace :: turn_trace
  tr_execution :: "conversation_result option"
  tr_updated_context :: conversation_context
  tr_action :: "agent_action option"
  tr_effective_bounds :: "authority_bounds option"
  tr_scope_policy_id :: "str option"
  tr_authority_policy_id :: "str option"

record slice_three_result =
  s3_outcome :: slice_three_outcome
  s3_conversation_status :: termination_status
  s3_execution :: "conversation_result option"
  s3_effective_bounds :: "authority_bounds option"

text \<open>
  \<^verbatim>\<open>_well_formed_proposal\<close> beyond the type tests: a discount percentage is finite and not
  negative, the confidence is finite and between 0 and 1.
\<close>

definition well_formed_proposal :: "provider_answer \<Rightarrow> bool" where
  "well_formed_proposal answer = (case answer of Ill_Typed \<Rightarrow> False | Well_Typed p \<Rightarrow>
     (case bpr_commercial_request p of None \<Rightarrow> True | Some req \<Rightarrow>
        (case cq_requested_discount_percent req of None \<Rightarrow> True
         | Some percent \<Rightarrow> is_finite percent \<and> \<not> py_lt percent (Fin 0)))
     \<and> is_finite (bpr_action_confidence p)
     \<and> py_le (Fin 0) (bpr_action_confidence p) \<and> py_le (bpr_action_confidence p) (Fin 1))"

definition effective_bounds :: "authority_policy \<Rightarrow> commercial_request option \<Rightarrow> authority_bounds" where
  "effective_bounds policy request = (case request of
       None \<Rightarrow> \<lparr>ab_max_discount_percent = None, ab_pricing_disclosure_allowed = None\<rparr>
     | Some req \<Rightarrow>
         if cq_kind req = Com_DISCOUNT then
           \<lparr>ab_max_discount_percent = map_option dr_max_autonomous_percent (ap_discount policy),
            ab_pricing_disclosure_allowed = None\<rparr>
         else if cq_kind req = Com_PRICING_DISCLOSURE then
           \<lparr>ab_max_discount_percent = None, ab_pricing_disclosure_allowed =
              Some (case ap_pricing_disclosure policy of None \<Rightarrow> False | Some d \<Rightarrow> pd_allowed d)\<rparr>
         else \<lparr>ab_max_discount_percent = None, ab_pricing_disclosure_allowed = None\<rparr>)"

definition default_termination_router :: "conversation_context \<Rightarrow> termination_route" where
  "default_termination_router ctx = (if truthy (ctx_callback ctx) then Route_CALLBACK else Route_CLOSE)"

section \<open>The orchestrator\<close>

text \<open>
  \<open>or_view\<close> is the context the provider is shown for a snapshot of the call; it may raise.
  \<open>or_reasoning\<close> is the provider's name and its answer to a view and a budget state.
\<close>

record ('n, 'snap, 'view) orchestrator =
  or_engine :: "'n engine"
  or_route :: "conversation_context \<Rightarrow> termination_route"
  or_view :: "conversation_context \<Rightarrow> conversation_state \<Rightarrow> authority_policy \<Rightarrow> 'snap \<Rightarrow> 'view res"
  or_reasoning :: "(str \<times> ('view \<Rightarrow> budget_state option \<Rightarrow> provider_answer res)) option"

definition brain_result ::
  "turn_stage_outcome \<Rightarrow> conversation_context \<Rightarrow> turn_trace \<Rightarrow> turn_result" where
  "brain_result outcome ctx pre =
     \<lparr>tr_outcome = outcome, tr_conversation_status = NOT_TERMINAL,
      tr_trace = (new_trace outcome)\<lparr>tt_budget_outcome := tt_budget_outcome pre,
                                     tt_response_ceiling := tt_response_ceiling pre\<rparr>,
      tr_execution = None, tr_updated_context = ctx, tr_action = None,
      tr_effective_bounds = None, tr_scope_policy_id = None, tr_authority_policy_id = None\<rparr>"

definition judge_proposal ::
  "conversation_context \<Rightarrow> turn_trace \<Rightarrow> str \<Rightarrow> scope_policy \<Rightarrow> authority_policy \<Rightarrow> provider_answer
    \<Rightarrow> turn_result" where
  "judge_proposal ctx pre pname scope_policy authority_policy answer =
     (let res = (\<lambda>outcome f. (brain_result outcome ctx pre)
                   \<lparr>tr_trace := f (tr_trace (brain_result outcome ctx pre)
                      \<lparr>tt_provider_name := Some pname\<rparr>)\<rparr>) in
      case answer of
        Ill_Typed \<Rightarrow> res TSO_FALLBACK (\<lambda>t. t\<lparr>tt_proposal_status := Some PS_MALFORMED\<rparr>)
      | Well_Typed p \<Rightarrow>
        if \<not> well_formed_proposal answer
        then res TSO_FALLBACK (\<lambda>t. t\<lparr>tt_proposal_status := Some PS_MALFORMED\<rparr>)
        else case bpr_proposed_action p of
          None \<Rightarrow> res TSO_FALLBACK (\<lambda>t. t\<lparr>tt_proposal_status := Some PS_NO_ACTION,
                    tt_action_confidence := Some (bpr_action_confidence p)\<rparr>)
        | Some action \<Rightarrow>
          (let scope = validate_scope (Some action) (bpr_topic_category p) scope_policy in
           if srs_category scope \<noteq> Scope_IN_SCOPE then
             (res (if srs_category scope = Scope_OUT_OF_SCOPE then TSO_REDIRECT else TSO_FALLBACK)
                (\<lambda>t. t\<lparr>tt_proposal_status := Some PS_VALID,
                       tt_scope_category := Some (srs_category scope),
                       tt_action_confidence := Some (bpr_action_confidence p)\<rparr>))
             \<lparr>tr_scope_policy_id := Some (srs_policy_id scope)\<rparr>
           else
             (let authority = classify_authority (Some action) (bpr_commercial_request p) authority_policy;
                  common = (\<lambda>outcome. (res outcome (\<lambda>t. t\<lparr>tt_proposal_status := Some PS_VALID,
                       tt_scope_category := Some (srs_category scope),
                       tt_authority_tier := Some (ar_tier authority),
                       tt_action_confidence := Some (bpr_action_confidence p),
                       tt_proposed_action := Some action,
                       tt_detected_intent := Some (bpr_detected_intent p),
                       tt_topic_category := Some (bpr_topic_category p)\<rparr>))
                     \<lparr>tr_scope_policy_id := Some (srs_policy_id scope),
                      tr_authority_policy_id := Some (ar_policy_id authority)\<rparr>) in
              if ar_tier authority = Tier_HUMAN_APPROVAL_REQUIRED then common TSO_ESCALATE
              else if ar_tier authority = Tier_DENIED then common TSO_REDIRECT
              else (common TSO_AUTHORITY_APPROVED)
                \<lparr>tr_action := Some action,
                 tr_effective_bounds := (if ar_tier authority = Tier_POLICY_BOUNDED
                   then Some (effective_bounds authority_policy (bpr_commercial_request p))
                   else None)\<rparr>)))"

definition run_slice_two ::
  "('n, 'snap, 'view) orchestrator \<Rightarrow> conversation_state \<Rightarrow> conversation_context \<Rightarrow> budget_state option
    \<Rightarrow> turn_trace \<Rightarrow> 'snap option \<Rightarrow> scope_policy option \<Rightarrow> authority_policy option
    \<Rightarrow> turn_result res" where
  "run_slice_two orc state ctx budget_state pre snapshot scope_policy authority_policy =
     (case (or_reasoning orc, snapshot, scope_policy, authority_policy) of
        (Some (pname, reason), Some snap, Some sp, Some ap) \<Rightarrow>
          rbind (or_view orc ctx state ap snap) (\<lambda>view.
          case reason view budget_state of
            Inl e \<Rightarrow>
              if e = ReasoningError then
                Inr (brain_result TSO_FALLBACK ctx pre
                  \<lparr>tr_trace := tr_trace (brain_result TSO_FALLBACK ctx pre)
                     \<lparr>tt_provider_name := Some pname, tt_proposal_status := Some PS_PROVIDER_FAILED\<rparr>\<rparr>)
              else Inl e
          | Inr answer \<Rightarrow> Inr (judge_proposal ctx pre pname sp ap answer))
      | _ \<Rightarrow> Inr (brain_result TSO_FALLBACK ctx pre))"

definition stopped_result :: "conversation_context \<Rightarrow> turn_trace \<Rightarrow> turn_result" where
  "stopped_result ctx trace =
     \<lparr>tr_outcome = TSO_PIPELINE_STOPPED, tr_conversation_status = NOT_TERMINAL, tr_trace = trace,
      tr_execution = None, tr_updated_context = ctx, tr_action = None,
      tr_effective_bounds = None, tr_scope_policy_id = None, tr_authority_policy_id = None\<rparr>"

definition status_of :: "conversation_result \<Rightarrow> termination_status" where
  "status_of execution = (if cr_is_terminal execution then TERMINAL else NOT_TERMINAL)"

definition brain_process_turn ::
  "('n, 'snap, 'view) orchestrator \<Rightarrow> machine \<Rightarrow> conversation_context \<Rightarrow> trusted_priority
    \<Rightarrow> budget_state option \<Rightarrow> budget_policy option \<Rightarrow> exit_signals \<Rightarrow> 'snap option
    \<Rightarrow> scope_policy option \<Rightarrow> authority_policy option \<Rightarrow> turn_result res \<times> machine" where
  "brain_process_turn orc m ctx trusted budget_state budget_policy exits snapshot scope_policy
      authority_policy =
     (case resolve_priority_action trusted of
        Some priority_action \<Rightarrow>
          (case execute_approved_action (or_engine orc) m ctx priority_action of
             (Inl e, m') \<Rightarrow> (Inl e, m')
           | (Inr execution, m') \<Rightarrow>
               (Inr (stopped_result (cr_updated_context execution)
                   ((new_trace TSO_PIPELINE_STOPPED)\<lparr>tt_priority_action := Some priority_action\<rparr>)
                 \<lparr>tr_conversation_status := status_of execution,
                  tr_execution := Some execution\<rparr>), m'))
      | None \<Rightarrow>
          (let decision = evaluate_budget budget_state exits budget_policy;
               stop = (new_trace TSO_PIPELINE_STOPPED)
                        \<lparr>tt_budget_outcome := Some (bd_outcome decision),
                         tt_budget_exit_kind := bd_exit_kind decision\<rparr> in
           if bd_outcome decision = BO_EARLY_EXIT then (Inr (stopped_result ctx stop), m)
           else if bd_outcome decision = BO_WIND_DOWN then
             (Inr (stopped_result ctx (stop\<lparr>tt_termination_route := Some (or_route orc ctx)\<rparr>)), m)
           else (run_slice_two orc (ms_current_state m) ctx budget_state
                   ((new_trace TSO_CONTINUE_TO_BRAIN)
                      \<lparr>tt_budget_outcome := Some (bd_outcome decision),
                       tt_response_ceiling := bd_response_ceiling decision\<rparr>)
                   snapshot scope_policy authority_policy, m)))"

definition refused_execution :: "slice_three_outcome \<Rightarrow> turn_result \<Rightarrow> slice_three_result" where
  "refused_execution outcome r =
     \<lparr>s3_outcome = outcome, s3_conversation_status = tr_conversation_status r,
      s3_execution = None, s3_effective_bounds = tr_effective_bounds r\<rparr>"

definition execution_succeeded :: "conversation_result \<Rightarrow> bool" where
  "execution_succeeded execution \<longleftrightarrow>
     cr_execution_required execution \<and> cr_approved_action execution \<noteq> None
     \<and> \<not> cr_fallback_used execution
     \<and> (\<exists>v \<in> set_option (cr_validation execution). vr_allowed v)"

definition execute_slice_three ::
  "('n, 'snap, 'view) orchestrator \<Rightarrow> machine \<Rightarrow> turn_result \<Rightarrow> contact_understanding option
    \<Rightarrow> slice_three_result res \<times> machine" where
  "execute_slice_three orc m r understanding =
     (if tr_outcome r = TSO_REDIRECT then (Inr (refused_execution S3_REDIRECT r), m)
      else if tr_outcome r \<noteq> TSO_AUTHORITY_APPROVED then (Inr (refused_execution S3_FALLBACK r), m)
      else case tr_action r of
        None \<Rightarrow> (Inr (refused_execution S3_FALLBACK r), m)
      | Some action \<Rightarrow>
        if tr_scope_policy_id r = None \<or> tr_authority_policy_id r = None
        then (Inr (refused_execution S3_FALLBACK r), m)
        else if (case tr_effective_bounds r of None \<Rightarrow> False
                 | Some b \<Rightarrow> requires_downstream_enforcement b)
        then (Inr (refused_execution S3_FALLBACK r), m)
        else (case execute_authority_approved_action (or_engine orc) m (tr_updated_context r) action
                     understanding of
             (Inl e, m') \<Rightarrow> (Inl e, m')
           | (Inr execution, m') \<Rightarrow>
               (Inr \<lparr>s3_outcome = (if execution_succeeded execution then S3_EXECUTED else S3_FALLBACK),
                     s3_conversation_status = status_of execution,
                     s3_execution = Some execution,
                     s3_effective_bounds = tr_effective_bounds r\<rparr>, m')))"

section \<open>What an approval means\<close>

text \<open>The proposal passes scope and authority with the given verdict.\<close>

definition admitted ::
  "scope_policy \<Rightarrow> authority_policy \<Rightarrow> provider_answer \<Rightarrow> brain_proposal \<Rightarrow> agent_action \<Rightarrow> bool" where
  "admitted sp ap answer p action \<longleftrightarrow>
     answer = Well_Typed p \<and> well_formed_proposal answer \<and> bpr_proposed_action p = Some action
     \<and> srs_category (validate_scope (Some action) (bpr_topic_category p) sp) = Scope_IN_SCOPE
     \<and> ar_tier (classify_authority (Some action) (bpr_commercial_request p) ap)
         \<in> {Tier_AUTO_EXECUTE, Tier_POLICY_BOUNDED}"

lemma brain_result_simps [simp]:
  "tr_outcome (brain_result o1 ctx pre) = o1"
  "tr_updated_context (brain_result o1 ctx pre) = ctx"
  "tr_execution (brain_result o1 ctx pre) = None"
  "tr_action (brain_result o1 ctx pre) = None"
  "tr_conversation_status (brain_result o1 ctx pre) = NOT_TERMINAL"
  "tr_effective_bounds (brain_result o1 ctx pre) = None"
  "tr_outcome (stopped_result ctx t) = TSO_PIPELINE_STOPPED"
  "tr_updated_context (stopped_result ctx t) = ctx"
  "tr_execution (stopped_result ctx t) = None"
  by (simp_all add: brain_result_def stopped_result_def)

lemma tier_cases: "t = Tier_AUTO_EXECUTE \<or> t = Tier_POLICY_BOUNDED
    \<or> t = Tier_HUMAN_APPROVAL_REQUIRED \<or> t = Tier_DENIED"
  by (cases t) simp_all

lemma judge_proposal_outcome:
  fixes ctx pre pname sp ap answer
  defines "r \<equiv> judge_proposal ctx pre pname sp ap answer"
  shows "tr_outcome r = TSO_AUTHORITY_APPROVED \<longleftrightarrow> (\<exists>p action. admitted sp ap answer p action)"
    and "tr_updated_context r = ctx" and "tr_execution r = None"
    and "tr_outcome r \<noteq> TSO_CONTINUE_TO_BRAIN" and "tr_outcome r \<noteq> TSO_PIPELINE_STOPPED"
    and "tr_conversation_status r = NOT_TERMINAL"
  using tier_cases
  by (auto simp: r_def judge_proposal_def admitted_def Let_def split: provider_answer.splits option.splits)

lemma judge_proposal_approved:
  assumes "admitted sp ap answer p action"
  shows "tr_action (judge_proposal ctx pre pname sp ap answer) = Some action"
    and "tr_effective_bounds (judge_proposal ctx pre pname sp ap answer) =
      (if ar_tier (classify_authority (Some action) (bpr_commercial_request p) ap) = Tier_POLICY_BOUNDED
       then Some (effective_bounds ap (bpr_commercial_request p)) else None)"
  using assms by (auto simp: judge_proposal_def admitted_def Let_def)

text \<open>A turn stops in one of three ways or reaches the provider.\<close>

lemma brain_process_turn_cases:
  assumes "brain_process_turn orc m ctx trusted bs bp exits snap sp ap = (out, m')"
  obtains (priority) a where "resolve_priority_action trusted = Some a"
      and "snd (execute_approved_action (or_engine orc) m ctx a) = m'"
      and "\<And>r. out = Inr r \<Longrightarrow> \<exists>x. fst (execute_approved_action (or_engine orc) m ctx a) = Inr x
         \<and> tr_outcome r = TSO_PIPELINE_STOPPED \<and> tr_execution r = Some x
         \<and> tr_conversation_status r = status_of x \<and> tr_updated_context r = cr_updated_context x"
      and "\<And>e. out = Inl e \<Longrightarrow> fst (execute_approved_action (or_engine orc) m ctx a) = Inl e"
  | (budget) t where "m' = m" and "out = Inr (stopped_result ctx t)"
      and "resolve_priority_action trusted = None"
      and "bd_outcome (evaluate_budget bs exits bp) \<in> {BO_EARLY_EXIT, BO_WIND_DOWN}"
  | (provider) pre where "m' = m" and "resolve_priority_action trusted = None"
      and "bd_outcome (evaluate_budget bs exits bp) \<in> {BO_PROCEED, BO_CONSTRAIN_RESPONSE}"
      and "out = run_slice_two orc (ms_current_state m) ctx bs pre snap sp ap"
proof (cases "resolve_priority_action trusted")
  case (Some a)
  obtain o1 m1 where e: "execute_approved_action (or_engine orc) m ctx a = (o1, m1)"
    by (cases "execute_approved_action (or_engine orc) m ctx a")
  show thesis
    by (rule priority [OF Some]) (use assms e Some in \<open>auto simp: brain_process_turn_def split: sum.splits\<close>)
next
  case None
  show thesis
  proof (cases "bd_outcome (evaluate_budget bs exits bp)")
    case BO_EARLY_EXIT
    with assms None show thesis by (intro budget) (auto simp: brain_process_turn_def Let_def)
  next
    case BO_WIND_DOWN
    with assms None show thesis by (intro budget) (auto simp: brain_process_turn_def Let_def)
  qed (use assms None in \<open>auto simp: brain_process_turn_def Let_def intro: provider\<close>)
qed

lemma run_slice_two_cases:
  assumes "run_slice_two orc state ctx bs pre snap sp ap = Inr r"
  obtains (refused) "tr_outcome r = TSO_FALLBACK" and "tr_updated_context r = ctx"
      and "tr_execution r = None" and "tr_conversation_status r = NOT_TERMINAL"
      and "tr_action r = None"
      and "\<nexists>pname reason s s2 a view answer. or_reasoning orc = Some (pname, reason) \<and> snap = Some s
         \<and> sp = Some s2 \<and> ap = Some a \<and> or_view orc ctx state a s = Inr view
         \<and> reason view bs = Inr answer"
  | (judged) pname reason s s2 a view answer where "or_reasoning orc = Some (pname, reason)"
      and "snap = Some s" and "sp = Some s2" and "ap = Some a"
      and "or_view orc ctx state a s = Inr view" and "reason view bs = Inr answer"
      and "r = judge_proposal ctx pre pname s2 a answer"
proof (cases "\<exists>pname reason s s2 a. or_reasoning orc = Some (pname, reason) \<and> snap = Some s
    \<and> sp = Some s2 \<and> ap = Some a")
  case True
  then obtain pname reason s s2 a where d: "or_reasoning orc = Some (pname, reason)" "snap = Some s"
    "sp = Some s2" "ap = Some a" by blast
  with assms obtain view where v: "or_view orc ctx state a s = Inr view"
    by (auto simp: run_slice_two_def res_simps)
  show thesis
  proof (cases "reason view bs")
    case (Inl e)
    with assms d v show thesis
      by (intro refused) (auto simp: run_slice_two_def split: if_splits)
  next
    case (Inr answer)
    with assms d v show thesis by (intro judged [of pname reason s s2 a view answer])
        (auto simp: run_slice_two_def)
  qed
next
  case False
  with assms show thesis
    by (intro refused) (auto simp: run_slice_two_def split: option.splits)
qed

definition provider_admits ::
  "('n, 'snap, 'view) orchestrator \<Rightarrow> conversation_state \<Rightarrow> conversation_context \<Rightarrow> budget_state option
    \<Rightarrow> 'snap option \<Rightarrow> scope_policy option \<Rightarrow> authority_policy option \<Rightarrow> brain_proposal \<Rightarrow> agent_action
    \<Rightarrow> bool" where
  "provider_admits orc state ctx bs snap sp ap p action \<longleftrightarrow>
     (\<exists>pname reason s scope authority view answer. or_reasoning orc = Some (pname, reason)
        \<and> snap = Some s \<and> sp = Some scope \<and> ap = Some authority
        \<and> or_view orc ctx state authority s = Inr view \<and> reason view bs = Inr answer
        \<and> admitted scope authority answer p action)"

lemma run_slice_two_approved:
  assumes "run_slice_two orc state ctx bs pre snap sp ap = Inr r"
  shows "(tr_outcome r = TSO_AUTHORITY_APPROVED \<longleftrightarrow>
      (\<exists>p action. provider_admits orc state ctx bs snap sp ap p action))
    \<and> tr_updated_context r = ctx \<and> tr_execution r = None \<and> tr_conversation_status r = NOT_TERMINAL"
  using assms
proof (cases rule: run_slice_two_cases)
  case refused
  from refused(6) have "\<not> provider_admits orc state ctx bs snap sp ap p action" for p action
    unfolding provider_admits_def by blast
  with refused(1-5) show ?thesis by simp
next
  case (judged pname reason s s2 a view answer)
  then have "provider_admits orc state ctx bs snap sp ap p action \<longleftrightarrow> admitted s2 a answer p action"
    for p action by (simp add: provider_admits_def)
  with judged(7) judge_proposal_outcome [of ctx pre pname s2 a answer] show ?thesis by simp
qed

lemma brain_turn_no_priority:
  assumes "brain_process_turn orc m ctx trusted bs bp exits snap sp ap = (Inr r, m')"
    and "resolve_priority_action trusted = None"
  shows "m' = m" and "tr_updated_context r = ctx" and "tr_execution r = None"
    and "tr_outcome r = TSO_AUTHORITY_APPROVED \<longleftrightarrow>
      bd_outcome (evaluate_budget bs exits bp) \<in> {BO_PROCEED, BO_CONSTRAIN_RESPONSE}
      \<and> (\<exists>p action. provider_admits orc (ms_current_state m) ctx bs snap sp ap p action)"
proof -
  have "m' = m \<and> tr_updated_context r = ctx \<and> tr_execution r = None
     \<and> (tr_outcome r = TSO_AUTHORITY_APPROVED \<longleftrightarrow>
      bd_outcome (evaluate_budget bs exits bp) \<in> {BO_PROCEED, BO_CONSTRAIN_RESPONSE}
      \<and> (\<exists>p action. provider_admits orc (ms_current_state m) ctx bs snap sp ap p action))"
    using assms(1)
  proof (cases rule: brain_process_turn_cases)
    case (priority a)
    with assms(2) show ?thesis by simp
  next
    case (budget t)
    then show ?thesis by auto
  next
    case (provider pre)
    from provider(4) [symmetric] run_slice_two_approved provider(1,3) show ?thesis by blast
  qed
  then show "m' = m" and "tr_updated_context r = ctx" and "tr_execution r = None"
    and "tr_outcome r = TSO_AUTHORITY_APPROVED \<longleftrightarrow>
      bd_outcome (evaluate_budget bs exits bp) \<in> {BO_PROCEED, BO_CONSTRAIN_RESPONSE}
      \<and> (\<exists>p action. provider_admits orc (ms_current_state m) ctx bs snap sp ap p action)"
    by simp_all
qed

lemma brain_turn_priority:
  assumes "brain_process_turn orc m ctx trusted bs bp exits snap sp ap = (Inr r, m')"
    and "resolve_priority_action trusted = Some a"
  shows "tr_outcome r = TSO_PIPELINE_STOPPED"
    and "\<exists>x. execute_approved_action (or_engine orc) m ctx a = (Inr x, m')
          \<and> tr_execution r = Some x \<and> tr_conversation_status r = status_of x
          \<and> tr_updated_context r = cr_updated_context x"
  using assms
  by (auto simp: brain_process_turn_def split: sum.splits prod.splits)

lemma provider_admits_unique:
  assumes "provider_admits orc state ctx bs snap sp ap p action"
    and "provider_admits orc state ctx bs snap sp ap p' action'"
  shows "p' = p" and "action' = action"
  using assms by (auto simp: provider_admits_def admitted_def)

text \<open>What an approved turn carries to slice three.\<close>

lemma brain_turn_approved_fields:
  assumes "brain_process_turn orc m ctx trusted bs bp exits snap sp ap = (Inr r, m')"
    and "tr_outcome r = TSO_AUTHORITY_APPROVED"
  shows "\<exists>p action authority. provider_admits orc (ms_current_state m) ctx bs snap sp ap p action
     \<and> ap = Some authority \<and> tr_action r = Some action
     \<and> tr_effective_bounds r =
        (if ar_tier (classify_authority (Some action) (bpr_commercial_request p) authority) = Tier_POLICY_BOUNDED
         then Some (effective_bounds authority (bpr_commercial_request p)) else None)
     \<and> resolve_priority_action trusted = None"
  using assms(1)
proof (cases rule: brain_process_turn_cases)
  case (priority a)
  with brain_turn_priority(1) [OF assms(1) priority(1)] assms(2) show ?thesis by simp
next
  case (budget t)
  with assms(2) show ?thesis by simp
next
  case (provider pre)
  from provider(4) [symmetric] show ?thesis
  proof (cases rule: run_slice_two_cases)
    case refused
    with assms(2) show ?thesis by simp
  next
    case (judged pname reason s s2 a view answer)
    with assms(2) obtain p action where ad: "admitted s2 a answer p action"
      using judge_proposal_outcome(1) [of ctx pre pname s2 a answer] by auto
    with judged have "provider_admits orc (ms_current_state m) ctx bs snap sp ap p action"
      by (auto simp: provider_admits_def)
    with judge_proposal_approved [OF ad, of ctx pre pname] judged provider(2) show ?thesis by blast
  qed
qed

lemma brain_turn_approves:
  assumes "brain_process_turn orc m ctx trusted bs bp exits snap sp ap = (Inr r, m')"
  shows "tr_outcome r = TSO_AUTHORITY_APPROVED \<and> tr_action r = Some action \<longleftrightarrow>
       resolve_priority_action trusted = None
       \<and> bd_outcome (evaluate_budget bs exits bp) \<in> {BO_PROCEED, BO_CONSTRAIN_RESPONSE}
       \<and> (\<exists>p. provider_admits orc (ms_current_state m) ctx bs snap sp ap p action)"
proof (cases "resolve_priority_action trusted")
  case (Some a)
  with brain_turn_priority(1) [OF assms Some] show ?thesis by simp
next
  case None
  note iff = brain_turn_no_priority(4) [OF assms None]
  show ?thesis
  proof
    assume l: "tr_outcome r = TSO_AUTHORITY_APPROVED \<and> tr_action r = Some action"
    with brain_turn_approved_fields [OF assms] iff None
    show "resolve_priority_action trusted = None
     \<and> bd_outcome (evaluate_budget bs exits bp) \<in> {BO_PROCEED, BO_CONSTRAIN_RESPONSE}
     \<and> (\<exists>p. provider_admits orc (ms_current_state m) ctx bs snap sp ap p action)" by auto
  next
    assume rhs: "resolve_priority_action trusted = None
     \<and> bd_outcome (evaluate_budget bs exits bp) \<in> {BO_PROCEED, BO_CONSTRAIN_RESPONSE}
     \<and> (\<exists>p. provider_admits orc (ms_current_state m) ctx bs snap sp ap p action)"
    with iff have o1: "tr_outcome r = TSO_AUTHORITY_APPROVED" by blast
    with brain_turn_approved_fields [OF assms] rhs provider_admits_unique(2)
    show "tr_outcome r = TSO_AUTHORITY_APPROVED \<and> tr_action r = Some action" by blast
  qed
qed

lemma brain_turn_not_terminal:
  assumes "brain_process_turn orc m ctx trusted bs bp exits snap sp ap = (Inr r, m')"
    and "resolve_priority_action trusted = None"
  shows "tr_conversation_status r = NOT_TERMINAL"
  using assms(1)
proof (cases rule: brain_process_turn_cases)
  case (priority a)
  with assms(2) show ?thesis by simp
next
  case (budget t)
  then show ?thesis by (simp add: stopped_result_def)
next
  case (provider pre)
  from provider(4) [symmetric] run_slice_two_approved show ?thesis by blast
qed

text \<open>Slice three either refuses or hands the approved action to the engine.\<close>

lemma execute_slice_three_cases:
  obtains (refused) oc where "execute_slice_three orc m r u = (Inr (refused_execution oc r), m)"
      and "oc \<noteq> S3_EXECUTED"
  | (executed) action where "tr_outcome r = TSO_AUTHORITY_APPROVED" and "tr_action r = Some action"
      and "\<forall>b. tr_effective_bounds r = Some b \<longrightarrow> \<not> requires_downstream_enforcement b"
      and "execute_slice_three orc m r u =
        (case execute_authority_approved_action (or_engine orc) m (tr_updated_context r) action u of
             (Inl e, m') \<Rightarrow> (Inl e, m')
           | (Inr execution, m') \<Rightarrow>
               (Inr \<lparr>s3_outcome = (if execution_succeeded execution then S3_EXECUTED else S3_FALLBACK),
                     s3_conversation_status = status_of execution,
                     s3_execution = Some execution,
                     s3_effective_bounds = tr_effective_bounds r\<rparr>, m'))"
proof (cases "tr_outcome r = TSO_AUTHORITY_APPROVED \<and> tr_action r \<noteq> None
    \<and> tr_scope_policy_id r \<noteq> None \<and> tr_authority_policy_id r \<noteq> None
    \<and> \<not> (case tr_effective_bounds r of None \<Rightarrow> False | Some b \<Rightarrow> requires_downstream_enforcement b)")
  case True
  then show thesis by (intro executed [of "the (tr_action r)"]) (auto simp: execute_slice_three_def)
next
  case False
  then show thesis
    by (intro refused [of "if tr_outcome r = TSO_REDIRECT then S3_REDIRECT else S3_FALLBACK"])
      (auto simp: execute_slice_three_def split: option.splits)
qed

text \<open>
  C5. Nothing is approved that did not pass every gate. The orchestrator approves an action
  exactly when no trusted priority is present, the budget lets the turn go on, and the
  reasoning provider's answer to the view of this call is a well-formed proposal of that
  action that the scope policy puts in scope and the authority policy leaves to the agent.
  Without a trusted priority a turn, approved or not, leaves machine and context as they were.
\<close>

theorem approved_iff_all_gates:
  assumes "brain_process_turn orc m ctx trusted bs bp exits snap sp ap = (Inr r, m')"
  shows "(tr_outcome r = TSO_AUTHORITY_APPROVED \<and> tr_action r = Some action \<longleftrightarrow>
       resolve_priority_action trusted = None
       \<and> bd_outcome (evaluate_budget bs exits bp) \<in> {BO_PROCEED, BO_CONSTRAIN_RESPONSE}
       \<and> (\<exists>pname reason s scope authority view p. or_reasoning orc = Some (pname, reason)
            \<and> snap = Some s \<and> sp = Some scope \<and> ap = Some authority
            \<and> or_view orc ctx (ms_current_state m) authority s = Inr view
            \<and> reason view bs = Inr (Well_Typed p) \<and> well_formed_proposal (Well_Typed p)
            \<and> bpr_proposed_action p = Some action
            \<and> srs_category (validate_scope (Some action) (bpr_topic_category p) scope) = Scope_IN_SCOPE
            \<and> ar_tier (classify_authority (Some action) (bpr_commercial_request p) authority)
                \<in> {Tier_AUTO_EXECUTE, Tier_POLICY_BOUNDED}))
    \<and> (resolve_priority_action trusted = None \<longrightarrow>
         m' = m \<and> tr_updated_context r = ctx \<and> tr_execution r = None)"
proof -
  have "(\<exists>p. provider_admits orc (ms_current_state m) ctx bs snap sp ap p action) \<longleftrightarrow>
     (\<exists>pname reason s scope authority view p. or_reasoning orc = Some (pname, reason)
            \<and> snap = Some s \<and> sp = Some scope \<and> ap = Some authority
            \<and> or_view orc ctx (ms_current_state m) authority s = Inr view
            \<and> reason view bs = Inr (Well_Typed p) \<and> well_formed_proposal (Well_Typed p)
            \<and> bpr_proposed_action p = Some action
            \<and> srs_category (validate_scope (Some action) (bpr_topic_category p) scope) = Scope_IN_SCOPE
            \<and> ar_tier (classify_authority (Some action) (bpr_commercial_request p) authority)
                \<in> {Tier_AUTO_EXECUTE, Tier_POLICY_BOUNDED})"
    unfolding provider_admits_def admitted_def by blast
  with brain_turn_approves [OF assms, of action] brain_turn_no_priority(1-3) [OF assms]
  show ?thesis by auto
qed

text \<open>
  C6. A turn executes at most what was approved. When a turn without a trusted priority is
  followed by slice three, slice three answers (it never raises); it calls the engine only
  with the action that passed every gate and only when no bound would have to be enforced
  later, and otherwise the machine does not move. The execution it reports is the engine's
  result for that action, its status is the machine's, and it reports success only if the
  machine made the transition of the action the engine approved.
\<close>

theorem executes_only_approved:
  assumes "engine_ok (or_engine orc)" and "machine_ok m" and "context_ok ctx"
    and "brain_process_turn orc m ctx trusted bs bp exits snap sp ap = (Inr r, m1)"
    and "resolve_priority_action trusted = None"
  shows "\<exists>s m2. execute_slice_three orc m1 r understanding = (Inr s, m2)
    \<and> (s3_execution s \<noteq> None \<longrightarrow>
         tr_outcome r = TSO_AUTHORITY_APPROVED
         \<and> (\<exists>action. tr_action r = Some action
              \<and> (Inr (the (s3_execution s)), m2) =
                  execute_authority_approved_action (or_engine orc) m ctx action understanding)
         \<and> (\<forall>b. tr_effective_bounds r = Some b \<longrightarrow> \<not> requires_downstream_enforcement b))
    \<and> (s3_execution s = None \<longrightarrow> m2 = m \<and> s3_conversation_status s = NOT_TERMINAL)
    \<and> (s3_outcome s = S3_EXECUTED \<longrightarrow>
         (\<exists>x a t. s3_execution s = Some x \<and> cr_approved_action x = Some a
            \<and> transition m a = (Inr t, m2)))
    \<and> (s3_execution s \<noteq> None \<longrightarrow> (s3_conversation_status s = TERMINAL \<longleftrightarrow> is_terminal m2))"
proof -
  note np = brain_turn_no_priority [OF assms(4,5)]
  show ?thesis
  proof (cases rule: execute_slice_three_cases [of orc m1 r understanding])
    case (refused oc)
    with np(1) brain_turn_not_terminal [OF assms(4,5)] show ?thesis by (simp add: refused_execution_def)
  next
    case (executed action)
    obtain x m2 where x: "execute_authority_approved_action (or_engine orc) m ctx action understanding =
        (Inr x, m2)" and sound: "result_sound (ctx_dnc_pending ctx) m x m2"
      using execute_authority_approved_action_ok [OF assms(1-3), of action understanding]
      by (cases "execute_authority_approved_action (or_engine orc) m ctx action understanding")
        (auto simp: turn_ok_def)
    with executed np(1,2) show ?thesis
      by (auto simp: execution_succeeded_def status_of_def result_sound_def split: option.splits)
  qed
qed

lemma run_slice_two_raises:
  assumes "run_slice_two orc state ctx bs pre snap sp ap = Inl e"
  shows "\<exists>pname reason s authority.
         or_reasoning orc = Some (pname, reason) \<and> snap = Some s \<and> ap = Some authority
         \<and> (or_view orc ctx state authority s = Inl e
            \<or> (\<exists>view. or_view orc ctx state authority s = Inr view
                 \<and> reason view bs = Inl e \<and> e \<noteq> ReasoningError))"
proof -
  from assms obtain pname reason s s2 a where d: "or_reasoning orc = Some (pname, reason)"
    "snap = Some s" "sp = Some s2" "ap = Some a"
    by (auto simp: run_slice_two_def split: option.splits)
  show ?thesis
  proof (cases "or_view orc ctx state a s")
    case (Inl e')
    with assms d show ?thesis by (simp add: run_slice_two_def)
  next
    case (Inr view)
    with assms d show ?thesis
      by (cases "reason view bs") (auto simp: run_slice_two_def split: if_splits)
  qed
qed

lemma judge_proposal_status:
  "tt_proposal_status (tr_trace (judge_proposal ctx pre pname sp ap answer)) \<noteq> Some PS_PROVIDER_FAILED"
  by (auto simp: judge_proposal_def Let_def split: provider_answer.splits option.splits)

text \<open>
  C25. The orchestrator adds no failures of its own. With fitting collaborators a turn raises
  only when it got as far as the provider and building the view raised, or the provider
  raised something other than \<^verbatim>\<open>ReasoningError\<close>; the machine has then not moved. A
  \<^verbatim>\<open>ReasoningError\<close> becomes a fallback result that approves nothing.
\<close>

theorem turn_raises_only_from_provider:
  assumes "engine_ok (or_engine orc)" and "machine_ok m" and "context_ok ctx"
  shows "case brain_process_turn orc m ctx trusted bs bp exits snap sp ap of
      (Inl e, m') \<Rightarrow> m' = m \<and> (\<exists>pname reason s authority.
         or_reasoning orc = Some (pname, reason) \<and> snap = Some s \<and> ap = Some authority
         \<and> (or_view orc ctx (ms_current_state m) authority s = Inl e
            \<or> (\<exists>view. or_view orc ctx (ms_current_state m) authority s = Inr view
                 \<and> reason view bs = Inl e \<and> e \<noteq> ReasoningError)))
    | (Inr r, m') \<Rightarrow> (tt_proposal_status (tr_trace r) = Some PS_PROVIDER_FAILED \<longrightarrow>
         m' = m \<and> tr_outcome r = TSO_FALLBACK \<and> tr_action r = None)"
proof (cases "brain_process_turn orc m ctx trusted bs bp exits snap sp ap")
  case (Pair out m')
  then show ?thesis
  proof (cases rule: brain_process_turn_cases)
    case (priority a)
    have "turn_ok (or_engine orc) m ctx (execute_approved_action (or_engine orc) m ctx a)"
      by (rule execute_approved_action_ok [OF assms])
    with priority Pair show ?thesis
      by (cases out) (auto simp: turn_ok_def brain_process_turn_def stopped_result_def new_trace_def
          split: prod.splits)
  next
    case (budget t)
    with Pair show ?thesis by (auto simp: brain_process_turn_def Let_def stopped_result_def new_trace_def split: prod.splits if_splits)
  next
    case (provider pre)
    note result = provider(4) [symmetric]
    show ?thesis
    proof (cases out)
      case (Inl e)
      from run_slice_two_raises [OF result [unfolded Inl]] Pair Inl provider(1) show ?thesis by simp
    next
      case (Inr r)
      from result [unfolded Inr] show ?thesis
      proof (cases rule: run_slice_two_cases)
        case refused
        with Pair Inr provider(1) show ?thesis by simp
      next
        case judged
        with Pair Inr show ?thesis by (simp add: judge_proposal_status)
      qed
    qed
  qed
qed

text \<open>A turn that greets, as a concrete input.\<close>

definition greeting_proposal :: brain_proposal where
  "greeting_proposal = \<lparr>bpr_detected_intent = Intent_INTERESTED, bpr_tone = Tone_CALM,
     bpr_topic_category = Topic_SERVICE_DISCUSSION, bpr_proposed_action = Some Act_GREET,
     bpr_commercial_request = None, bpr_action_confidence = Fin (9 / 10)\<rparr>"

definition sample_orchestrator :: "(str, str, str) orchestrator" where
  "sample_orchestrator = \<lparr>or_engine = shipped_engine, or_route = default_termination_router,
     or_view = (\<lambda>ctx state policy snap. if blank snap then Inl ValueError else Inr snap),
     or_reasoning = Some (''mock'', \<lambda>view budget. if view = ''fail'' then Inl ReasoningError
        else Inr (Well_Typed greeting_proposal))\<rparr>"

definition greeting_scope :: scope_policy where
  "greeting_scope = \<lparr>sp_policy_id = ''scope'', sp_allowed_topics = {Topic_SERVICE_DISCUSSION},
     sp_allowed_actions = {Act_GREET}, sp_restricted_topics = {}, sp_escalation_topics = {}\<rparr>"

definition greeting_authority :: authority_policy where
  "greeting_authority = \<lparr>ap_policy_id = ''authority'', ap_default_tier = Tier_DENIED,
     ap_action_tiers = [(Act_GREET, Tier_AUTO_EXECUTE)], ap_discount = None,
     ap_pricing_disclosure = None, ap_commercial_tiers = []\<rparr>"

definition full_budget :: budget_state where
  "full_budget = \<lparr>bs_turns_remaining = Some 5, bs_seconds_remaining = Some 60,
     bs_reasoning_calls_remaining = Some 4, bs_max_response_sentences = None\<rparr>"

abbreviation sample_turn :: "turn_result res \<times> machine" where
  "sample_turn \<equiv> brain_process_turn sample_orchestrator shipped_machine blank_context TP_NONE
     (Some full_budget) (Some short_call) no_signals (Some ''hello'') (Some greeting_scope)
     (Some greeting_authority)"

lemma sample_turn_answers: "sample_turn = (Inr (projr (fst sample_turn)), snd sample_turn)"
  by (rule outcome_Inr) code_simp

lemma approved_iff_all_gates_witness:
  "tr_outcome (projr (fst sample_turn)) = TSO_AUTHORITY_APPROVED
    \<and> tr_action (projr (fst sample_turn)) = Some Act_GREET"
proof -
  have "or_reasoning sample_orchestrator = Some (''mock'', \<lambda>view budget. if view = ''fail''
      then Inl ReasoningError else Inr (Well_Typed greeting_proposal))"
    "or_view sample_orchestrator blank_context (ms_current_state shipped_machine)
      greeting_authority ''hello'' = Inr ''hello''"
    "bpr_proposed_action greeting_proposal = Some Act_GREET"
    by (simp_all add: sample_orchestrator_def greeting_proposal_def) code_simp
  moreover have "well_formed_proposal (Well_Typed greeting_proposal)"
    "srs_category (validate_scope (Some Act_GREET) (bpr_topic_category greeting_proposal)
      greeting_scope) = Scope_IN_SCOPE"
    "ar_tier (classify_authority (Some Act_GREET) (bpr_commercial_request greeting_proposal)
      greeting_authority) = Tier_AUTO_EXECUTE"
    "bd_outcome (evaluate_budget (Some full_budget) no_signals (Some short_call)) = BO_PROCEED"
    "resolve_priority_action TP_NONE = None"
    by code_simp+
  ultimately show ?thesis
    using approved_iff_all_gates [OF sample_turn_answers, of Act_GREET] by auto
qed

lemma executes_only_approved_witness:
  "\<exists>s m2 a t. execute_slice_three sample_orchestrator (snd sample_turn) (projr (fst sample_turn)) None
      = (Inr s, m2) \<and> transition shipped_machine a = (Inr t, m2)"
proof -
  let ?out = "execute_slice_three sample_orchestrator (snd sample_turn) (projr (fst sample_turn)) None"
  have "or_engine sample_orchestrator = shipped_engine" by (simp add: sample_orchestrator_def)
  moreover have "resolve_priority_action TP_NONE = None" by code_simp
  moreover have "s3_outcome (projr (fst ?out)) = S3_EXECUTED" by code_simp
  ultimately show ?thesis
    using executes_only_approved [OF _ shipped_start_ok blank_context_ok sample_turn_answers,
        of None] shipped_engine_ok by (metis fst_conv sum.sel(2))
qed

abbreviation failing_turn :: "turn_result res \<times> machine" where
  "failing_turn \<equiv> brain_process_turn sample_orchestrator shipped_machine blank_context TP_NONE
     (Some full_budget) (Some short_call) no_signals (Some ''fail'') (Some greeting_scope)
     (Some greeting_authority)"

lemma turn_raises_only_from_provider_witness:
  "tr_outcome (projr (fst failing_turn)) = TSO_FALLBACK \<and> snd failing_turn = shipped_machine"
proof -
  have "or_engine sample_orchestrator = shipped_engine" by (simp add: sample_orchestrator_def)
  moreover have "failing_turn = (Inr (projr (fst failing_turn)), snd failing_turn)"
    by (rule outcome_Inr) code_simp
  moreover have "tt_proposal_status (tr_trace (projr (fst failing_turn))) = Some PS_PROVIDER_FAILED"
    by code_simp
  ultimately show ?thesis
    using turn_raises_only_from_provider [OF _ shipped_start_ok blank_context_ok,
        where orc = sample_orchestrator and trusted = TP_NONE and bs = "Some full_budget"
          and bp = "Some short_call" and exits = no_signals and snap = "Some ''fail''"
          and sp = "Some greeting_scope" and ap = "Some greeting_authority"] shipped_engine_ok
    by (auto split: prod.splits sum.splits)
qed

end
