(* ===== verification/Campaign.thy ===== *)
theory Campaign
  imports Prelude
begin

text \<open>
  \<^verbatim>\<open>app/leads/campaign\<close>: the calling window, the campaign configuration, queue entries
  with their permanent do-not-call flag, and the engine that decides whether and whom to
  call next.
\<close>

section \<open>Contracts\<close>

datatype campaign_status = Camp_DRAFT | Camp_ACTIVE | Camp_PAUSED | Camp_COMPLETED | Camp_ARCHIVED

datatype lead_queue_status =
    LQ_PENDING | LQ_READY | LQ_IN_PROGRESS | LQ_COMPLETED | LQ_FAILED | LQ_DNC
  | LQ_NEEDS_REVIEW | LQ_SKIPPED | LQ_RETRY_SCHEDULED | LQ_EXHAUSTED

datatype call_eligibility =
    CE_ELIGIBLE | CE_DAILY_LIMIT_REACHED | CE_OUTSIDE_CALLING_WINDOW | CE_GAP_NOT_ELAPSED
  | CE_CAMPAIGN_PAUSED | CE_CAMPAIGN_NOT_ACTIVE | CE_LEAD_DNC | CE_LEAD_NOT_READY
  | CE_MAX_RETRIES_EXHAUSTED | CE_CONCURRENCY_LIMIT | CE_NO_LEADS_AVAILABLE

datatype retry_eligibility = RE_ELIGIBLE | RE_MAX_RETRIES_REACHED | RE_DNC | RE_COMPLETED

datatype no_answer_policy = NA_RETRY_LATER | NA_SKIP | NA_MARK_EXHAUSTED

record calling_window =
  cw_start_hour :: int
  cw_start_minute :: int
  cw_end_hour :: int
  cw_end_minute :: int
  cw_timezone :: str

definition check_calling_window :: "calling_window \<Rightarrow> calling_window res" where
  "check_calling_window w =
     rbind (guard (0 \<le> cw_start_hour w \<and> cw_start_hour w \<le> 23) ValueError) (\<lambda>_.
     rbind (guard (0 \<le> cw_start_minute w \<and> cw_start_minute w \<le> 59) ValueError) (\<lambda>_.
     rbind (guard (0 \<le> cw_end_hour w \<and> cw_end_hour w \<le> 23) ValueError) (\<lambda>_.
     rbind (guard (0 \<le> cw_end_minute w \<and> cw_end_minute w \<le> 59) ValueError) (\<lambda>_.
     rbind (guard (\<not> blank (cw_timezone w)) ValueError) (\<lambda>_. Inr w)))))"

definition start_minutes :: "calling_window \<Rightarrow> int" where
  "start_minutes w = cw_start_hour w * 60 + cw_start_minute w"

definition end_minutes :: "calling_window \<Rightarrow> int" where
  "end_minutes w = cw_end_hour w * 60 + cw_end_minute w"

definition contains_time :: "calling_window \<Rightarrow> int \<Rightarrow> int \<Rightarrow> bool" where
  "contains_time w hour minute =
     (let current = hour * 60 + minute; start = start_minutes w; stop = end_minutes w in
      if start \<le> stop then start \<le> current \<and> current < stop
      else current \<ge> start \<or> current < stop)"

record campaign_config =
  cf_campaign_id :: str
  cf_tenant_id :: str
  cf_name :: str
  cf_status :: campaign_status
  cf_authorized_service_ids :: "str list"
  cf_target_market :: "str option"
  cf_language_preference :: "str option"
  cf_tone :: "str option"
  cf_daily_call_limit :: int
  cf_gap_between_calls_seconds :: int
  cf_max_concurrent_calls :: int
  cf_max_retries_per_lead :: int
  cf_no_answer_policy :: no_answer_policy
  cf_calling_window :: "calling_window option"

definition check_campaign_config :: "campaign_config \<Rightarrow> campaign_config res" where
  "check_campaign_config c =
     rbind (guard (\<not> blank (cf_campaign_id c)) ValueError) (\<lambda>_.
     rbind (guard (\<not> blank (cf_tenant_id c)) ValueError) (\<lambda>_.
     rbind (guard (\<not> blank (cf_name c)) ValueError) (\<lambda>_.
     rbind (guard (\<not> cf_daily_call_limit c < 1) ValueError) (\<lambda>_.
     rbind (guard (\<not> cf_gap_between_calls_seconds c < 0) ValueError) (\<lambda>_.
     rbind (guard (\<not> cf_max_concurrent_calls c < 1) ValueError) (\<lambda>_.
     rbind (guard (\<not> cf_max_retries_per_lead c < 0) ValueError) (\<lambda>_. Inr c)))))))"

record lead_queue_entry =
  qe_lead_id :: str
  qe_campaign_id :: str
  qe_tenant_id :: str
  qe_queue_position :: int
  qe_status :: lead_queue_status
  qe_attempt_count :: int
  qe_last_attempt_at :: "str option"
  qe_is_dnc :: bool

text \<open>\<^verbatim>\<open>LeadQueueEntry(...)\<close> and every \<^verbatim>\<open>replace\<close>: check, then force the status of a flagged lead.\<close>

definition mk_entry :: "lead_queue_entry \<Rightarrow> lead_queue_entry res" where
  "mk_entry e =
     rbind (guard (\<not> blank (qe_lead_id e)) ValueError) (\<lambda>_.
     rbind (guard (\<not> blank (qe_campaign_id e)) ValueError) (\<lambda>_.
     rbind (guard (\<not> blank (qe_tenant_id e)) ValueError) (\<lambda>_.
     rbind (guard (\<not> qe_queue_position e < 0) ValueError) (\<lambda>_.
     rbind (guard (\<not> qe_attempt_count e < 0) ValueError) (\<lambda>_.
     Inr (if qe_is_dnc e \<and> qe_status e \<noteq> LQ_DNC then e\<lparr>qe_status := LQ_DNC\<rparr> else e))))))"

record queue_state_snapshot =
  sn_campaign_id :: str
  sn_tenant_id :: str
  sn_total_leads :: int
  sn_pending :: int
  sn_ready :: int
  sn_in_progress :: int
  sn_completed :: int
  sn_failed :: int
  sn_dnc :: int
  sn_exhausted :: int
  sn_calls_today :: int
  sn_active_calls :: int
  sn_last_call_completed_at :: "str option"

definition check_snapshot :: "queue_state_snapshot \<Rightarrow> queue_state_snapshot res" where
  "check_snapshot s =
     rbind (guard (list_all (\<lambda>n. \<not> n < 0)
       [sn_total_leads s, sn_pending s, sn_ready s, sn_in_progress s, sn_completed s, sn_failed s,
        sn_dnc s, sn_exhausted s, sn_calls_today s, sn_active_calls s]) ValueError) (\<lambda>_. Inr s)"

record call_eligibility_decision =
  ced_eligible :: bool
  ced_reason :: call_eligibility
  ced_lead_id :: "str option"
  ced_campaign_id :: "str option"

definition mk_eligibility ::
  "bool \<Rightarrow> call_eligibility \<Rightarrow> str option \<Rightarrow> call_eligibility_decision res" where
  "mk_eligibility eligible reason campaign =
     rbind (guard (\<not> (eligible \<and> reason \<noteq> CE_ELIGIBLE)) ValueError) (\<lambda>_.
     rbind (guard (\<not> (\<not> eligible \<and> reason = CE_ELIGIBLE)) ValueError) (\<lambda>_.
     Inr \<lparr>ced_eligible = eligible, ced_reason = reason, ced_lead_id = None,
          ced_campaign_id = campaign\<rparr>))"

record next_lead_decision =
  nld_available :: bool
  nld_lead_entry :: "lead_queue_entry option"
  nld_ineligibility_reason :: "call_eligibility option"

definition mk_next_lead ::
  "bool \<Rightarrow> lead_queue_entry option \<Rightarrow> call_eligibility option \<Rightarrow> next_lead_decision res" where
  "mk_next_lead available entry reason =
     rbind (guard (\<not> (available \<and> entry = None)) ValueError) (\<lambda>_.
     rbind (guard (\<not> (\<not> available \<and> entry \<noteq> None)) ValueError) (\<lambda>_.
     Inr \<lparr>nld_available = available, nld_lead_entry = entry, nld_ineligibility_reason = reason\<rparr>))"

section \<open>The engine\<close>

definition check_campaign_eligibility ::
  "campaign_config \<Rightarrow> queue_state_snapshot \<Rightarrow> int \<Rightarrow> int \<Rightarrow> call_eligibility_decision res" where
  "check_campaign_eligibility cfg snap hour minute =
     (let refuse = (\<lambda>r. mk_eligibility False r (Some (cf_campaign_id cfg))) in
      if cf_status cfg \<noteq> Camp_ACTIVE
      then refuse (if cf_status cfg = Camp_PAUSED then CE_CAMPAIGN_PAUSED else CE_CAMPAIGN_NOT_ACTIVE)
      else if sn_calls_today snap \<ge> cf_daily_call_limit cfg then refuse CE_DAILY_LIMIT_REACHED
      else if sn_active_calls snap \<ge> cf_max_concurrent_calls cfg then refuse CE_CONCURRENCY_LIMIT
      else if (case cf_calling_window cfg of None \<Rightarrow> False | Some w \<Rightarrow> \<not> contains_time w hour minute)
      then refuse CE_OUTSIDE_CALLING_WINDOW
      else mk_eligibility True CE_ELIGIBLE (Some (cf_campaign_id cfg)))"

definition check_gap_elapsed :: "campaign_config \<Rightarrow> int option \<Rightarrow> bool" where
  "check_gap_elapsed cfg elapsed = (case elapsed of None \<Rightarrow> True
     | Some s \<Rightarrow> s \<ge> cf_gap_between_calls_seconds cfg)"

definition is_lead_callable :: "lead_queue_entry \<Rightarrow> campaign_config \<Rightarrow> bool" where
  "is_lead_callable e cfg =
     (if qe_is_dnc e then False
      else if qe_status e \<in> set [LQ_COMPLETED, LQ_DNC, LQ_EXHAUSTED, LQ_SKIPPED, LQ_IN_PROGRESS] then False
      else if qe_attempt_count e \<ge> cf_max_retries_per_lead cfg then False
      else True)"

definition select_next_lead ::
  "campaign_config \<Rightarrow> lead_queue_entry list \<Rightarrow> queue_state_snapshot \<Rightarrow> int \<Rightarrow> int \<Rightarrow> int option
    \<Rightarrow> next_lead_decision res" where
  "select_next_lead cfg queue snap hour minute elapsed =
     rbind (check_campaign_eligibility cfg snap hour minute) (\<lambda>campaign_check.
     if \<not> ced_eligible campaign_check
     then mk_next_lead False None (Some (ced_reason campaign_check))
     else if \<not> check_gap_elapsed cfg elapsed then mk_next_lead False None (Some CE_GAP_NOT_ELAPSED)
     else (let eligible_entries =
             sort_key qe_queue_position (filter (\<lambda>e. is_lead_callable e cfg) queue) in
       if eligible_entries = [] then mk_next_lead False None (Some CE_NO_LEADS_AVAILABLE)
       else mk_next_lead True (Some (hd eligible_entries)) None))"

definition check_retry_eligibility :: "lead_queue_entry \<Rightarrow> campaign_config \<Rightarrow> retry_eligibility" where
  "check_retry_eligibility e cfg =
     (if qe_is_dnc e then RE_DNC
      else if qe_status e = LQ_COMPLETED then RE_COMPLETED
      else if qe_attempt_count e \<ge> cf_max_retries_per_lead cfg then RE_MAX_RETRIES_REACHED
      else RE_ELIGIBLE)"

definition apply_no_answer :: "lead_queue_entry \<Rightarrow> campaign_config \<Rightarrow> lead_queue_entry res" where
  "apply_no_answer e cfg =
     (let new_count = qe_attempt_count e + 1;
          status = (if qe_is_dnc e then LQ_DNC
                    else if new_count \<ge> cf_max_retries_per_lead cfg then LQ_EXHAUSTED
                    else if cf_no_answer_policy cfg = NA_SKIP then LQ_SKIPPED
                    else if cf_no_answer_policy cfg = NA_MARK_EXHAUSTED then LQ_EXHAUSTED
                    else LQ_RETRY_SCHEDULED) in
      mk_entry (e\<lparr>qe_status := status, qe_attempt_count := new_count\<rparr>))"

definition mark_dnc :: "lead_queue_entry \<Rightarrow> lead_queue_entry res" where
  "mark_dnc e = mk_entry (e\<lparr>qe_is_dnc := True, qe_status := LQ_DNC\<rparr>)"

definition mark_completed :: "lead_queue_entry \<Rightarrow> lead_queue_entry res" where
  "mark_completed e = mk_entry (e\<lparr>qe_status := LQ_COMPLETED\<rparr>)"

definition pause_campaign :: "campaign_config \<Rightarrow> campaign_config res" where
  "pause_campaign cfg = (if cf_status cfg \<noteq> Camp_ACTIVE then Inr cfg
     else check_campaign_config (cfg\<lparr>cf_status := Camp_PAUSED\<rparr>))"

definition resume_campaign :: "campaign_config \<Rightarrow> campaign_config res" where
  "resume_campaign cfg = (if cf_status cfg \<noteq> Camp_PAUSED then Inr cfg
     else check_campaign_config (cfg\<lparr>cf_status := Camp_ACTIVE\<rparr>))"

section \<open>The calling window\<close>

text \<open>
  The calling window is a clock interval, over midnight included: for a window that
  passes its own checks and a time of day, \<^verbatim>\<open>contains_time\<close> holds exactly when the
  minutes that have passed since the window opened, counted around the clock, are fewer
  than the window is long. (A window that opens and closes at the same minute is empty.)
\<close>

theorem contains_time_circular:
  assumes "check_calling_window w = Inr w"
    and "0 \<le> hour" and "hour \<le> 23" and "0 \<le> minute" and "minute \<le> 59"
  shows "contains_time w hour minute \<longleftrightarrow>
    (hour * 60 + minute - start_minutes w) mod 1440 < (end_minutes w - start_minutes w) mod 1440"
proof -
  define c s e where "c = hour * 60 + minute" and "s = start_minutes w" and "e = end_minutes w"
  have b: "0 \<le> c" "c < 1440" "0 \<le> s" "s < 1440" "0 \<le> e" "e < 1440"
    using assms by (auto simp: c_def s_def e_def check_calling_window_def res_simps
        start_minutes_def end_minutes_def)
  have m: "(x - s) mod 1440 = (if s \<le> x then x - s else x - s + 1440)" if "0 \<le> x" "x < 1440" for x
  proof (cases "s \<le> x")
    case True
    with that b show ?thesis by (simp add: mod_pos_pos_trivial)
  next
    case False
    have "(x - s) mod 1440 = (x - s + 1440) mod 1440" by simp
    also have "\<dots> = x - s + 1440" using that b False by (intro mod_pos_pos_trivial) auto
    finally show ?thesis using False by simp
  qed
  show ?thesis
    using m [OF b(1,2)] m [OF b(5,6)] b
    by (simp add: contains_time_def Let_def flip: c_def s_def e_def)
qed

definition night_window :: calling_window where
  "night_window = \<lparr>cw_start_hour = 22, cw_start_minute = 0, cw_end_hour = 6, cw_end_minute = 30,
     cw_timezone = ''UTC''\<rparr>"

lemma contains_time_circular_witness:
  "contains_time night_window 1 15 \<and> \<not> contains_time night_window 12 0"
proof -
  have ok: "check_calling_window night_window = Inr night_window" by code_simp
  have "(1 * 60 + 15 - start_minutes night_window) mod 1440
      < (end_minutes night_window - start_minutes night_window) mod 1440"
    "\<not> (12 * 60 + 0 - start_minutes night_window) mod 1440
      < (end_minutes night_window - start_minutes night_window) mod 1440"
    by code_simp+
  with contains_time_circular [OF ok, of 1 15] contains_time_circular [OF ok, of 12 0]
  show ?thesis by simp
qed

section \<open>Selection\<close>

lemma mk_simps [simp]:
  "mk_eligibility True CE_ELIGIBLE c = Inr \<lparr>ced_eligible = True, ced_reason = CE_ELIGIBLE,
     ced_lead_id = None, ced_campaign_id = c\<rparr>"
  "r \<noteq> CE_ELIGIBLE \<Longrightarrow> mk_eligibility False r c = Inr \<lparr>ced_eligible = False, ced_reason = r,
     ced_lead_id = None, ced_campaign_id = c\<rparr>"
  "mk_next_lead True (Some e) why = Inr \<lparr>nld_available = True, nld_lead_entry = Some e,
     nld_ineligibility_reason = why\<rparr>"
  "mk_next_lead False None why = Inr \<lparr>nld_available = False, nld_lead_entry = None,
     nld_ineligibility_reason = why\<rparr>"
  by (auto simp: mk_eligibility_def mk_next_lead_def)

text \<open>When the campaign may call at all.\<close>

definition campaign_may_call :: "campaign_config \<Rightarrow> queue_state_snapshot \<Rightarrow> int \<Rightarrow> int \<Rightarrow> bool" where
  "campaign_may_call cfg snap hour minute \<longleftrightarrow> cf_status cfg = Camp_ACTIVE
     \<and> sn_calls_today snap < cf_daily_call_limit cfg
     \<and> sn_active_calls snap < cf_max_concurrent_calls cfg
     \<and> (\<forall>w. cf_calling_window cfg = Some w \<longrightarrow> contains_time w hour minute)"

lemma campaign_eligibility:
  "\<exists>d. check_campaign_eligibility cfg snap hour minute = Inr d
     \<and> (ced_eligible d \<longleftrightarrow> campaign_may_call cfg snap hour minute)"
  by (auto simp: check_campaign_eligibility_def campaign_may_call_def Let_def split: option.splits)

lemma is_lead_callable_iff:
  "is_lead_callable e cfg \<longleftrightarrow> \<not> qe_is_dnc e
     \<and> qe_status e \<notin> {LQ_COMPLETED, LQ_DNC, LQ_EXHAUSTED, LQ_SKIPPED, LQ_IN_PROGRESS}
     \<and> qe_attempt_count e < cf_max_retries_per_lead cfg"
  by (auto simp: is_lead_callable_def)

lemma select_next_lead_cases:
  obtains (none) why where "select_next_lead cfg queue snap hour minute elapsed =
        Inr \<lparr>nld_available = False, nld_lead_entry = None, nld_ineligibility_reason = Some why\<rparr>"
      and "\<not> (campaign_may_call cfg snap hour minute \<and> check_gap_elapsed cfg elapsed
           \<and> (\<exists>e \<in> set queue. is_lead_callable e cfg))"
  | (lead) e where "select_next_lead cfg queue snap hour minute elapsed =
        Inr \<lparr>nld_available = True, nld_lead_entry = Some e, nld_ineligibility_reason = None\<rparr>"
      and "campaign_may_call cfg snap hour minute" and "check_gap_elapsed cfg elapsed"
      and "e \<in> set queue" and "is_lead_callable e cfg"
      and "\<And>e'. e' \<in> set queue \<Longrightarrow> is_lead_callable e' cfg
             \<Longrightarrow> qe_queue_position e \<le> qe_queue_position e'"
proof -
  obtain d where d: "check_campaign_eligibility cfg snap hour minute = Inr d"
    "ced_eligible d \<longleftrightarrow> campaign_may_call cfg snap hour minute"
    using campaign_eligibility by blast
  let ?xs = "filter (\<lambda>e. is_lead_callable e cfg) queue"
  consider (refused) "\<not> ced_eligible d" | (gap) "ced_eligible d" "\<not> check_gap_elapsed cfg elapsed"
    | (empty) "ced_eligible d" "check_gap_elapsed cfg elapsed" "?xs = []"
    | (found) "ced_eligible d" "check_gap_elapsed cfg elapsed" "?xs \<noteq> []" by blast
  then show thesis
  proof cases
    case refused
    with d show thesis by (intro none [of "ced_reason d"]) (simp_all add: select_next_lead_def)
  next
    case gap
    with d show thesis by (intro none [of CE_GAP_NOT_ELAPSED]) (simp_all add: select_next_lead_def)
  next
    case empty
    with d show thesis
      by (intro none [of CE_NO_LEADS_AVAILABLE])
         (simp_all add: select_next_lead_def Let_def filter_empty_conv)
  next
    case found
    then have "hd (sort_key qe_queue_position ?xs) \<in> set ?xs" by (intro hd_sort_key_in)
    moreover have "qe_queue_position (hd (sort_key qe_queue_position ?xs)) \<le> qe_queue_position e'"
      if "e' \<in> set queue" "is_lead_callable e' cfg" for e'
      using found that by (intro hd_sort_key_least) simp_all
    ultimately show thesis using d found
      by (intro lead [of "hd (sort_key qe_queue_position ?xs)"])
         (simp_all add: select_next_lead_def Let_def)
  qed
qed

text \<open>
  C22. Selecting the next lead never raises and is complete and safe: it returns a lead
  exactly when the campaign is active, under its daily and concurrency limits, inside its
  calling window, past the gap between calls, and the queue holds a callable lead; the lead
  it returns is then in the queue, not flagged do-not-call, not in a closed status, below
  its retry limit, and has the least queue position of all callable leads.
\<close>

theorem select_next_lead_spec:
  "\<exists>d. select_next_lead cfg queue snap hour minute elapsed = Inr d
    \<and> (nld_available d \<longleftrightarrow> campaign_may_call cfg snap hour minute
         \<and> check_gap_elapsed cfg elapsed \<and> (\<exists>e \<in> set queue. is_lead_callable e cfg))
    \<and> (case nld_lead_entry d of
         None \<Rightarrow> \<not> nld_available d \<and> nld_ineligibility_reason d \<noteq> None
       | Some e \<Rightarrow> nld_available d \<and> e \<in> set queue \<and> \<not> qe_is_dnc e
           \<and> qe_status e \<notin> {LQ_COMPLETED, LQ_DNC, LQ_EXHAUSTED, LQ_SKIPPED, LQ_IN_PROGRESS}
           \<and> qe_attempt_count e < cf_max_retries_per_lead cfg
           \<and> (\<forall>e' \<in> set queue. is_lead_callable e' cfg
                \<longrightarrow> qe_queue_position e \<le> qe_queue_position e'))"
proof (cases rule: select_next_lead_cases [of cfg queue snap hour minute elapsed])
  case (none why)
  then show ?thesis by auto
next
  case (lead e)
  then have "\<exists>e \<in> set queue. is_lead_callable e cfg" by blast
  with lead show ?thesis unfolding is_lead_callable_iff [of e] by (intro exI conjI) auto
qed

definition sample_campaign :: campaign_config where
  "sample_campaign = \<lparr>cf_campaign_id = ''c'', cf_tenant_id = ''t'', cf_name = ''n'',
     cf_status = Camp_ACTIVE, cf_authorized_service_ids = [], cf_target_market = None,
     cf_language_preference = None, cf_tone = None, cf_daily_call_limit = 50,
     cf_gap_between_calls_seconds = 30, cf_max_concurrent_calls = 1, cf_max_retries_per_lead = 3,
     cf_no_answer_policy = NA_RETRY_LATER, cf_calling_window = Some night_window\<rparr>"

definition sample_entry :: "str \<Rightarrow> int \<Rightarrow> lead_queue_entry" where
  "sample_entry i n = \<lparr>qe_lead_id = i, qe_campaign_id = ''c'', qe_tenant_id = ''t'',
     qe_queue_position = n, qe_status = LQ_READY, qe_attempt_count = 0, qe_last_attempt_at = None,
     qe_is_dnc = False\<rparr>"

definition sample_snapshot :: queue_state_snapshot where
  "sample_snapshot = \<lparr>sn_campaign_id = ''c'', sn_tenant_id = ''t'', sn_total_leads = 2,
     sn_pending = 0, sn_ready = 2, sn_in_progress = 0, sn_completed = 0, sn_failed = 0, sn_dnc = 0,
     sn_exhausted = 0, sn_calls_today = 0, sn_active_calls = 0, sn_last_call_completed_at = None\<rparr>"

lemma select_next_lead_spec_witness:
  "\<exists>d. select_next_lead sample_campaign [sample_entry ''a'' 2, sample_entry ''b'' 1]
      sample_snapshot 23 0 None = Inr d \<and> nld_available d"
proof -
  have "cf_status sample_campaign = Camp_ACTIVE" "contains_time night_window 23 0"
    "cf_calling_window sample_campaign = Some night_window"
    "sn_calls_today sample_snapshot < cf_daily_call_limit sample_campaign"
    "sn_active_calls sample_snapshot < cf_max_concurrent_calls sample_campaign"
    "check_gap_elapsed sample_campaign None" "is_lead_callable (sample_entry ''b'' 1) sample_campaign"
    by code_simp+
  then have "campaign_may_call sample_campaign sample_snapshot 23 0"
    "check_gap_elapsed sample_campaign None"
    "\<exists>e \<in> set [sample_entry ''a'' 2, sample_entry ''b'' 1]. is_lead_callable e sample_campaign"
    by (auto simp: campaign_may_call_def)
  with select_next_lead_spec [of sample_campaign "[sample_entry ''a'' 2, sample_entry ''b'' 1]"
      sample_snapshot 23 0 None] show ?thesis by blast
qed

section \<open>Do-not-call is permanent, retries are bounded\<close>

datatype entry_op = NoAnswer campaign_config | MarkDnc | MarkCompleted

definition entry_step :: "lead_queue_entry \<Rightarrow> entry_op \<Rightarrow> lead_queue_entry" where
  "entry_step e ev = (case (case ev of NoAnswer cfg \<Rightarrow> apply_no_answer e cfg | MarkDnc \<Rightarrow> mark_dnc e
       | MarkCompleted \<Rightarrow> mark_completed e) of Inl _ \<Rightarrow> e | Inr e' \<Rightarrow> e')"

definition entry_ok :: "lead_queue_entry \<Rightarrow> bool" where
  "entry_ok e \<longleftrightarrow> mk_entry e = Inr e"

lemma mk_entry_ok: "mk_entry e = Inr e' \<Longrightarrow> entry_ok e'"
  by (cases "qe_is_dnc e \<and> qe_status e \<noteq> LQ_DNC")
     (simp_all only: mk_entry_def entry_ok_def res_simps sum.inject if_True if_False, auto)

lemma entry_step_ok: "entry_ok e \<Longrightarrow> entry_ok (entry_step e ev)"
  by (cases ev)
     (auto simp: entry_step_def apply_no_answer_def mark_dnc_def mark_completed_def Let_def
       split: sum.splits dest: mk_entry_ok)

definition entry_dnc :: "lead_queue_entry \<Rightarrow> bool" where
  "entry_dnc e \<longleftrightarrow> qe_is_dnc e \<and> qe_status e = LQ_DNC"

lemma mk_entry_dnc: "qe_is_dnc e \<Longrightarrow> mk_entry e = Inr e' \<Longrightarrow> entry_dnc e'"
  by (auto simp: mk_entry_def entry_dnc_def res_simps)

lemma entry_step_dnc: "entry_dnc e \<Longrightarrow> entry_dnc (entry_step e ev)"
proof -
  assume e: "entry_dnc e"
  have "entry_dnc (case mk_entry e1 of Inl _ \<Rightarrow> e | Inr e2 \<Rightarrow> e2)" if "qe_is_dnc e1" for e1
    using e mk_entry_dnc [OF that] by (cases "mk_entry e1") auto
  with e show ?thesis
    by (cases ev) (simp_all add: entry_step_def apply_no_answer_def mark_dnc_def mark_completed_def
      Let_def entry_dnc_def)
qed

interpretation entry_valid: kept entry_step entry_ok
  by unfold_locales (rule entry_step_ok)

interpretation entry_dnc_forever: kept entry_step entry_dnc
  by unfold_locales (rule entry_step_dnc)

text \<open>The dialling loop: call while the lead is callable, nobody answers.\<close>

fun dial_unanswered :: "nat \<Rightarrow> campaign_config \<Rightarrow> lead_queue_entry \<Rightarrow> (nat \<times> lead_queue_entry) option" where
  "dial_unanswered 0 cfg e = None"
| "dial_unanswered (Suc fuel) cfg e =
     (if \<not> is_lead_callable e cfg then Some (0, e)
      else map_option (\<lambda>(n, e'). (n + 1, e')) (dial_unanswered fuel cfg (entry_step e (NoAnswer cfg))))"

lemma callable_no_answer:
  assumes "entry_ok e" and "is_lead_callable e cfg"
  shows "qe_attempt_count (entry_step e (NoAnswer cfg)) = qe_attempt_count e + 1"
    and "qe_attempt_count e < cf_max_retries_per_lead cfg"
  using assms
  by (auto simp: entry_step_def apply_no_answer_def entry_ok_def mk_entry_def is_lead_callable_def
      Let_def res_simps split: if_splits)

lemma dial_unanswered_ends:
  assumes "entry_ok e" and "nat (cf_max_retries_per_lead cfg - qe_attempt_count e) < fuel"
  shows "\<exists>n e'. dial_unanswered fuel cfg e = Some (n, e') \<and> \<not> is_lead_callable e' cfg
    \<and> int n \<le> max 0 (cf_max_retries_per_lead cfg - qe_attempt_count e)"
  using assms
proof (induction fuel arbitrary: e)
  case 0
  then show ?case by simp
next
  case (Suc fuel)
  show ?case
  proof (cases "is_lead_callable e cfg")
    case True
    note step = callable_no_answer [OF Suc.prems(1) True]
    from Suc.IH [OF entry_step_ok [OF Suc.prems(1)], of "NoAnswer cfg"] step Suc.prems(2)
    obtain n e' where "dial_unanswered fuel cfg (entry_step e (NoAnswer cfg)) = Some (n, e')"
      "\<not> is_lead_callable e' cfg"
      "int n \<le> max 0 (cf_max_retries_per_lead cfg - (qe_attempt_count e + 1))"
      by fastforce
    with True step(2) show ?thesis by simp
  qed simp
qed

text \<open>
  Do-not-call is permanent: once a lead has been marked, no sequence of no-answers,
  completions and marks (under any campaign configurations) changes its status from
  \<^verbatim>\<open>dnc\<close>, makes it callable for any campaign, eligible for a retry, or the lead that
  \<^verbatim>\<open>select_next_lead\<close> returns.
\<close>

theorem lead_dnc_permanent:
  assumes "mark_dnc e0 = Inr e" and "e' = foldl entry_step e events"
  shows "qe_status e' = LQ_DNC \<and> qe_is_dnc e' \<and> \<not> is_lead_callable e' cfg
    \<and> check_retry_eligibility e' cfg = RE_DNC
    \<and> (\<forall>d. select_next_lead cfg queue snap hour minute elapsed = Inr d
         \<longrightarrow> nld_lead_entry d \<noteq> Some e')"
proof -
  have "entry_dnc e" using assms(1) by (auto simp: mark_dnc_def intro: mk_entry_dnc [rotated])
  then have dnc: "entry_dnc e'" unfolding assms(2) by (rule entry_dnc_forever.run_keeps)
  have "nld_lead_entry d \<noteq> Some e'"
    if "select_next_lead cfg queue snap hour minute elapsed = Inr d" for d
  proof
    assume some: "nld_lead_entry d = Some e'"
    from that some dnc show False
      by (cases rule: select_next_lead_cases [of cfg queue snap hour minute elapsed])
         (auto simp: entry_dnc_def is_lead_callable_iff)
  qed
  with dnc show ?thesis
    by (simp add: entry_dnc_def is_lead_callable_def check_retry_eligibility_def)
qed

lemma lead_dnc_permanent_witness:
  "qe_status (foldl entry_step (projr (mark_dnc (sample_entry ''a'' 1)))
      [MarkCompleted, NoAnswer sample_campaign]) = LQ_DNC"
proof -
  have "mark_dnc (sample_entry ''a'' 1) = Inr (projr (mark_dnc (sample_entry ''a'' 1)))"
    by code_simp
  from lead_dnc_permanent [OF this refl] show ?thesis by blast
qed

text \<open>
  C23. A lead is dialled a bounded number of times: starting from any well-formed entry, the
  loop that calls it while it is callable and nobody answers ends after at most
  \<^verbatim>\<open>max_retries_per_lead - attempt_count\<close> calls (none when that is negative), whatever the
  no-answer policy; that many plus one rounds of fuel are enough.
\<close>

theorem dialling_is_bounded:
  assumes "mk_entry e = Inr e"
  shows "\<exists>n e'. dial_unanswered (Suc (nat (cf_max_retries_per_lead cfg - qe_attempt_count e))) cfg e
      = Some (n, e') \<and> \<not> is_lead_callable e' cfg
    \<and> int n \<le> max 0 (cf_max_retries_per_lead cfg - qe_attempt_count e)"
  using assms by (intro dial_unanswered_ends) (auto simp: entry_ok_def)

lemma dialling_is_bounded_witness:
  "\<exists>n e'. dial_unanswered 4 sample_campaign (sample_entry ''a'' 1) = Some (n, e') \<and> n \<le> 3"
proof -
  have ok: "mk_entry (sample_entry ''a'' 1) = Inr (sample_entry ''a'' 1)" by code_simp
  have "cf_max_retries_per_lead sample_campaign = 3" "qe_attempt_count (sample_entry ''a'' 1) = 0"
    by code_simp+
  with dialling_is_bounded [OF ok, of sample_campaign] show ?thesis
    by (auto simp: numeral_eq_Suc)
qed

end
