(* ===== verification/Coordinator.thy ===== *)
theory Coordinator
  imports Constants
begin

text \<open>
  \<^verbatim>\<open>app/runtime/turn_coordinator.py\<close> with the contracts of \<^verbatim>\<open>app/runtime/contracts.py\<close>: the
  coordinator turns the events of one call (speech, deliveries, disconnect) into turns for
  the turn processor and instructions for the voice output. The processor is a function; a
  response plan has the two fields the coordinator reads.
\<close>

section \<open>Delivery contracts\<close>

datatype interruption_category =
    IC_ANSWER | IC_QUESTION | IC_OBJECTION | IC_CORRECTION | IC_TOPIC_SHIFT | IC_CLARIFICATION
  | IC_ADDRESSEE_UNCERTAIN | IC_OTHER

datatype addressee_status =
    AD_ADDRESSED_TO_AGENT | AD_NOT_ADDRESSED_TO_AGENT | AD_ADDRESSEE_UNCERTAIN

datatype conversation_move =
    Move_COMMUNICATE_RESULT | Move_ANSWER_CURRENT_QUESTION | Move_EXPLORE_OBJECTION
  | Move_INCORPORATE_CORRECTION | Move_FOLLOW_NEW_DIRECTION | Move_CLARIFY_MEANING
  | Move_CLARIFY_ADDRESSEE | Move_CONTINUE_PRIOR_CONTEXT | Move_SAFE_RECOVERY
  | Move_REDIRECT_SAFELY | Move_ACKNOWLEDGE_ESCALATION | Move_ANSWER_APPROVED_EVIDENCE
  | Move_ACKNOWLEDGE_UNCERTAINTY | Move_OFFER_SUPPORTED_NEXT_STEP | Move_POLITE_WRAP_UP
  | Move_CONSULTATIVE_DISCOVERY | Move_EXPLAIN_RELEVANT_FIT | Move_LOW_PRESSURE_CONTINUATION
  | Move_LANGUAGE_RECOVERY | Move_TRUTHFUL_COMMERCIAL_ANSWER

fun conversation_move_value :: "conversation_move \<Rightarrow> str" where
  "conversation_move_value Move_COMMUNICATE_RESULT = ''communicate_result''"
| "conversation_move_value Move_ANSWER_CURRENT_QUESTION = ''answer_current_question''"
| "conversation_move_value Move_EXPLORE_OBJECTION = ''explore_objection''"
| "conversation_move_value Move_INCORPORATE_CORRECTION = ''incorporate_correction''"
| "conversation_move_value Move_FOLLOW_NEW_DIRECTION = ''follow_new_direction''"
| "conversation_move_value Move_CLARIFY_MEANING = ''clarify_meaning''"
| "conversation_move_value Move_CLARIFY_ADDRESSEE = ''clarify_addressee''"
| "conversation_move_value Move_CONTINUE_PRIOR_CONTEXT = ''continue_prior_context''"
| "conversation_move_value Move_SAFE_RECOVERY = ''safe_recovery''"
| "conversation_move_value Move_REDIRECT_SAFELY = ''redirect_safely''"
| "conversation_move_value Move_ACKNOWLEDGE_ESCALATION = ''acknowledge_escalation''"
| "conversation_move_value Move_ANSWER_APPROVED_EVIDENCE = ''answer_approved_evidence''"
| "conversation_move_value Move_ACKNOWLEDGE_UNCERTAINTY = ''acknowledge_uncertainty''"
| "conversation_move_value Move_OFFER_SUPPORTED_NEXT_STEP = ''offer_supported_next_step''"
| "conversation_move_value Move_POLITE_WRAP_UP = ''polite_wrap_up''"
| "conversation_move_value Move_CONSULTATIVE_DISCOVERY = ''consultative_discovery''"
| "conversation_move_value Move_EXPLAIN_RELEVANT_FIT = ''explain_relevant_fit''"
| "conversation_move_value Move_LOW_PRESSURE_CONTINUATION = ''low_pressure_continuation''"
| "conversation_move_value Move_LANGUAGE_RECOVERY = ''language_recovery''"
| "conversation_move_value Move_TRUTHFUL_COMMERCIAL_ANSWER = ''truthful_commercial_answer''"

record voice_activity =
  va_barge_in_detected :: bool
  va_overlapping_speech :: bool
  va_speech_started_during_agent_output :: bool

record pending_intent =
  pi_goal :: str
  pi_summary :: str
  pi_completed :: bool
  pi_still_relevant :: bool

text \<open>An intent built from a goal and a summary is neither completed nor irrelevant.\<close>

definition mk_pending_intent :: "str \<Rightarrow> str \<Rightarrow> pending_intent res" where
  "mk_pending_intent goal summary =
     rbind (guard (\<not> (blank goal \<or> length goal > 120)) ValueError) (\<lambda>_.
     rbind (guard (\<not> (blank summary \<or> length summary > 240)) ValueError) (\<lambda>_.
     Inr \<lparr>pi_goal = goal, pi_summary = summary, pi_completed = False, pi_still_relevant = True\<rparr>))"

definition intent_active :: "pending_intent \<Rightarrow> bool" where
  "intent_active p \<longleftrightarrow> \<not> pi_completed p \<and> pi_still_relevant p"

record interruption_context =
  ict_was_interrupted :: bool
  ict_category :: interruption_category
  ict_previous_intent :: "pending_intent option"
  ict_voice_activity :: voice_activity

record response_plan =
  rpl_communicative_goal :: conversation_move
  rpl_pending_intent :: "pending_intent option"

section \<open>Events, turns and deliveries\<close>

datatype event_type =
    EV_CALL_STARTED | EV_USER_SPEECH_STARTED | EV_USER_UTTERANCE_FINAL
  | EV_AGENT_DELIVERY_STARTED | EV_AGENT_DELIVERY_COMPLETED | EV_AGENT_DELIVERY_INTERRUPTED
  | EV_CALL_DISCONNECTED | EV_RUNTIME_ERROR

datatype delivery_action = DA_SPEAK | DA_CANCEL_CURRENT | DA_NO_OUTPUT

datatype delivery_status =
    DS_PENDING | DS_DELIVERING | DS_COMPLETED | DS_INTERRUPTED | DS_CANCELLED

datatype delivery_progress = DP_NOT_STARTED | DP_PARTIAL | DP_COMPLETED

datatype coordination_outcome =
    CO_HANDLED | CO_TURN_PROCESSED | CO_DUPLICATE_IGNORED | CO_STALE_IGNORED
  | CO_DISCONNECTED_IGNORED | CO_FAILED

datatype runtime_failure =
    RF_WRONG_SESSION | RF_TURN_PROCESSING_FAILED | RF_INVALID_EVENT | RF_RUNTIME_ERROR

record runtime_event =
  ev_event_id :: str
  ev_call_id :: str
  ev_sequence_number :: int
  ev_event_type :: event_type
  ev_turn_id :: "str option"
  ev_utterance :: "str option"
  ev_barge_in :: bool
  ev_overlapping_speech :: bool
  ev_possible_background_speech :: bool
  ev_addressee_status :: addressee_status
  ev_conversation_category :: interruption_category

definition DELIVERY_EVENTS :: "event_type set" where
  "DELIVERY_EVENTS =
     {EV_AGENT_DELIVERY_STARTED, EV_AGENT_DELIVERY_COMPLETED, EV_AGENT_DELIVERY_INTERRUPTED}"

definition check_event :: "runtime_event \<Rightarrow> runtime_event res" where
  "check_event ev =
     rbind (guard (\<not> (ev_event_id ev = [] \<or> ev_call_id ev = [] \<or> ev_sequence_number ev < 0))
              ValueError) (\<lambda>_.
     rbind (guard (\<not> (ev_event_type ev = EV_USER_UTTERANCE_FINAL
                    \<and> (\<not> truthy (ev_turn_id ev) \<or> \<not> truthy (ev_utterance ev)
                       \<or> length (the (ev_utterance ev)) > 2000))) ValueError) (\<lambda>_.
     rbind (guard (\<not> (ev_event_type ev \<in> DELIVERY_EVENTS \<and> \<not> truthy (ev_turn_id ev))) ValueError) (\<lambda>_.
     Inr ev)))"

record coordinated_turn =
  cut_turn_id :: str
  cut_sequence_number :: int
  cut_utterance :: str
  cut_interruption :: interruption_context
  cut_addressee_status :: addressee_status
  cut_conversation_category :: interruption_category

definition check_turn :: "coordinated_turn \<Rightarrow> coordinated_turn res" where
  "check_turn t =
     rbind (guard (\<not> (cut_turn_id t = [] \<or> cut_sequence_number t < 0)) ValueError) (\<lambda>_. Inr t)"

datatype authoritative_result =
    AR_EXECUTED | AR_FALLBACK | AR_REDIRECT | AR_ESCALATE | AR_PIPELINE_STOPPED
  | AR_AUTHORITY_APPROVED

record turn_output =
  to_turn_id :: str
  to_response_plan :: response_plan
  to_rendered_text :: str
  to_unfinished_point_summary :: "str option"
  to_pipeline_outcome :: "authoritative_result option"
  to_conversation_terminal :: bool

record active_delivery =
  ad_turn_id :: str
  ad_response_plan :: response_plan
  ad_rendered_text :: str
  ad_unfinished_point_summary :: "str option"
  ad_status :: delivery_status
  ad_progress :: delivery_progress

record delivery_instruction =
  di_action :: delivery_action
  di_turn_id :: "str option"
  di_text :: "str option"

definition mk_instruction ::
  "delivery_action \<Rightarrow> str option \<Rightarrow> str option \<Rightarrow> delivery_instruction res" where
  "mk_instruction action turn_id txt =
     rbind (guard (\<not> (action = DA_SPEAK \<and> (\<not> truthy turn_id \<or> \<not> truthy txt))) ValueError) (\<lambda>_.
     rbind (guard (\<not> (action = DA_CANCEL_CURRENT \<and> \<not> truthy turn_id)) ValueError) (\<lambda>_.
     rbind (guard (\<not> (action \<noteq> DA_SPEAK \<and> txt \<noteq> None)) ValueError) (\<lambda>_.
     Inr \<lparr>di_action = action, di_turn_id = turn_id, di_text = txt\<rparr>)))"

record runtime_state =
  rs_call_id :: str
  rs_current_turn_id :: "str option"
  rs_last_sequence :: int
  rs_active_delivery :: "active_delivery option"
  rs_disconnected :: bool
  rs_pending_interruption :: "interruption_context option"
  rs_processed_event_ids :: "str set"
  rs_processed_turn_ids :: "str set"

definition new_runtime_state :: "str \<Rightarrow> runtime_state" where
  "new_runtime_state call_id =
     \<lparr>rs_call_id = call_id, rs_current_turn_id = None, rs_last_sequence = -1,
      rs_active_delivery = None, rs_disconnected = False, rs_pending_interruption = None,
      rs_processed_event_ids = {}, rs_processed_turn_ids = {}\<rparr>"

record coordination_result =
  cor_outcome :: coordination_outcome
  cor_state :: runtime_state
  cor_instructions :: "delivery_instruction list"
  cor_processed_turn :: "coordinated_turn option"
  cor_failure :: "runtime_failure option"
  cor_turn_output :: "turn_output option"

section \<open>The coordinator\<close>

type_synonym turn_processor = "coordinated_turn \<Rightarrow> turn_output res"

type_synonym coordination = "coordination_result res \<times> runtime_state"

definition coordination_of ::
  "coordination_outcome \<Rightarrow> runtime_failure option \<Rightarrow> runtime_state \<Rightarrow> delivery_instruction list
    \<Rightarrow> coordinated_turn option \<Rightarrow> turn_output option \<Rightarrow> coordination" where
  "coordination_of outcome failure s instructions turn out =
     (Inr \<lparr>cor_outcome = outcome, cor_state = s, cor_instructions = instructions,
           cor_processed_turn = turn, cor_failure = failure, cor_turn_output = out\<rparr>, s)"

abbreviation plain_coordination :: "coordination_outcome \<Rightarrow> runtime_state \<Rightarrow> coordination" where
  "plain_coordination outcome s \<equiv> coordination_of outcome None s [] None None"

definition interruption_of :: "runtime_event \<Rightarrow> active_delivery \<Rightarrow> interruption_context res" where
  "interruption_of ev active =
     (let summary = (case ad_unfinished_point_summary active of
            Some s \<Rightarrow> Some s
          | None \<Rightarrow> map_option pi_summary (rpl_pending_intent (ad_response_plan active)))
      in rbind (if truthy summary
                then rbind (mk_pending_intent
                       (conversation_move_value (rpl_communicative_goal (ad_response_plan active)))
                       (the summary)) (\<lambda>p. Inr (Some p))
                else Inr None) (\<lambda>pending.
         Inr \<lparr>ict_was_interrupted = True,
              ict_category = (if ev_possible_background_speech ev then IC_ADDRESSEE_UNCERTAIN
                              else ev_conversation_category ev),
              ict_previous_intent = pending,
              ict_voice_activity = \<lparr>va_barge_in_detected = ev_barge_in ev,
                 va_overlapping_speech = ev_overlapping_speech ev,
                 va_speech_started_during_agent_output = True\<rparr>\<rparr>))"

definition record_event :: "runtime_event \<Rightarrow> bool \<Rightarrow> runtime_state \<Rightarrow> runtime_state" where
  "record_event ev advance_sequence s =
     s\<lparr>rs_last_sequence := (if advance_sequence then ev_sequence_number ev else rs_last_sequence s),
       rs_processed_event_ids := insert (ev_event_id ev) (rs_processed_event_ids s)\<rparr>"

definition speech_started :: "runtime_event \<Rightarrow> runtime_state \<Rightarrow> coordination" where
  "speech_started ev s = (case rs_active_delivery s of
       None \<Rightarrow> plain_coordination CO_HANDLED s
     | Some active \<Rightarrow>
         if ad_status active \<in> {DS_COMPLETED, DS_CANCELLED, DS_INTERRUPTED}
         then plain_coordination CO_HANDLED s
         else (case interruption_of ev active of Inl e \<Rightarrow> (Inl e, s) | Inr pending \<Rightarrow>
           (let s' = s\<lparr>rs_active_delivery := Some (active\<lparr>ad_status := DS_INTERRUPTED,
                         ad_progress := (if ad_status active = DS_DELIVERING then DP_PARTIAL
                                         else DP_NOT_STARTED)\<rparr>),
                       rs_pending_interruption := Some pending\<rparr> in
            case mk_instruction DA_CANCEL_CURRENT (Some (ad_turn_id active)) None of
              Inl e \<Rightarrow> (Inl e, s')
            | Inr i \<Rightarrow> coordination_of CO_HANDLED None s' [i] None None)))"

text \<open>Cancel what is pending or being spoken before a new utterance is processed.\<close>

definition cancel_for_utterance ::
  "runtime_event \<Rightarrow> runtime_state \<Rightarrow> delivery_instruction list res \<times> runtime_state" where
  "cancel_for_utterance ev s = (case rs_active_delivery s of
       None \<Rightarrow> (Inr [], s)
     | Some active \<Rightarrow>
         if ad_status active \<in> {DS_PENDING, DS_DELIVERING} then
           (case mk_instruction DA_CANCEL_CURRENT (Some (ad_turn_id active)) None of
              Inl e \<Rightarrow> (Inl e, s)
            | Inr i \<Rightarrow> (let active' = active\<lparr>ad_status := DS_CANCELLED\<rparr> in
                case interruption_of ev active' of Inl e \<Rightarrow> (Inl e, s)
                | Inr pending \<Rightarrow> (Inr [i], s\<lparr>rs_active_delivery := Some active',
                                            rs_pending_interruption := Some pending\<rparr>)))
         else (Inr [], s))"

definition build_turn :: "runtime_event \<Rightarrow> runtime_state \<Rightarrow> coordinated_turn" where
  "build_turn ev s =
     \<lparr>cut_turn_id = the (ev_turn_id ev), cut_sequence_number = ev_sequence_number ev,
      cut_utterance = the (ev_utterance ev),
      cut_interruption = (case rs_pending_interruption s of Some p \<Rightarrow> p
        | None \<Rightarrow> \<lparr>ict_was_interrupted = False,
            ict_category = (if ev_possible_background_speech ev then IC_ADDRESSEE_UNCERTAIN
                            else ev_conversation_category ev),
            ict_previous_intent = None,
            ict_voice_activity = \<lparr>va_barge_in_detected = False,
               va_overlapping_speech = ev_overlapping_speech ev,
               va_speech_started_during_agent_output = False\<rparr>\<rparr>),
      cut_addressee_status = (if ev_possible_background_speech ev then AD_ADDRESSEE_UNCERTAIN
                              else ev_addressee_status ev),
      cut_conversation_category = ev_conversation_category ev\<rparr>"

definition deliver_output ::
  "coordinated_turn \<Rightarrow> delivery_instruction list \<Rightarrow> turn_output \<Rightarrow> runtime_state \<Rightarrow> coordination" where
  "deliver_output turn instructions out s =
     (let s' = s\<lparr>rs_current_turn_id := Some (cut_turn_id turn),
                 rs_active_delivery := Some \<lparr>ad_turn_id = cut_turn_id turn,
                    ad_response_plan = to_response_plan out, ad_rendered_text = to_rendered_text out,
                    ad_unfinished_point_summary = to_unfinished_point_summary out,
                    ad_status = DS_PENDING, ad_progress = DP_NOT_STARTED\<rparr>,
                 rs_pending_interruption := None\<rparr> in
      case mk_instruction DA_SPEAK (Some (cut_turn_id turn)) (Some (to_rendered_text out)) of
        Inl e \<Rightarrow> (Inl e, s')
      | Inr i \<Rightarrow> coordination_of CO_TURN_PROCESSED None s' (instructions @ [i]) (Some turn) (Some out))"

definition final_utterance :: "turn_processor \<Rightarrow> runtime_event \<Rightarrow> runtime_state \<Rightarrow> coordination" where
  "final_utterance proc ev s =
     (if ev_turn_id ev = None \<or> ev_utterance ev = None then (Inl AssertionError, s)
      else if the (ev_turn_id ev) \<in> rs_processed_turn_ids s
      then plain_coordination CO_DUPLICATE_IGNORED s
      else case cancel_for_utterance ev s of
        (Inl e, s1) \<Rightarrow> (Inl e, s1)
      | (Inr instructions, s1) \<Rightarrow>
          (case check_turn (build_turn ev s1) of
             Inl e \<Rightarrow> (Inl e, s1)
           | Inr turn \<Rightarrow>
               (let s2 = s1\<lparr>rs_processed_turn_ids := insert (cut_turn_id turn) (rs_processed_turn_ids s1)\<rparr> in
                case proc turn of
                  Inl e \<Rightarrow> coordination_of CO_FAILED (Some RF_TURN_PROCESSING_FAILED) s2 instructions
                             (Some turn) None
                | Inr out \<Rightarrow>
                    if to_turn_id out \<noteq> cut_turn_id turn
                    then coordination_of CO_FAILED (Some RF_INVALID_EVENT) s2 instructions (Some turn) None
                    else deliver_output turn instructions out s2)))"

fun progress_for :: "delivery_status \<Rightarrow> delivery_progress option" where
  "progress_for DS_DELIVERING = Some DP_PARTIAL"
| "progress_for DS_COMPLETED = Some DP_COMPLETED"
| "progress_for DS_INTERRUPTED = Some DP_PARTIAL"
| "progress_for _ = None"

definition delivery_update :: "runtime_event \<Rightarrow> delivery_status \<Rightarrow> runtime_state \<Rightarrow> coordination" where
  "delivery_update ev status s = (case rs_active_delivery s of
       None \<Rightarrow> plain_coordination CO_STALE_IGNORED s
     | Some active \<Rightarrow>
         if ev_turn_id ev \<noteq> rs_current_turn_id s then plain_coordination CO_STALE_IGNORED s
         else if ad_status active \<in> {DS_CANCELLED, DS_INTERRUPTED, DS_COMPLETED}
         then plain_coordination CO_STALE_IGNORED s
         else (case progress_for status of None \<Rightarrow> (Inl KeyError, s) | Some progress \<Rightarrow>
           (case (if status = DS_INTERRUPTED
                  then rbind (interruption_of ev active) (\<lambda>p. Inr (Some p))
                  else Inr (rs_pending_interruption s)) of
              Inl e \<Rightarrow> (Inl e, s)
            | Inr pending \<Rightarrow> plain_coordination CO_HANDLED
                (s\<lparr>rs_active_delivery := Some (active\<lparr>ad_status := status, ad_progress := progress\<rparr>),
                   rs_pending_interruption := pending\<rparr>))))"

definition disconnect :: "runtime_state \<Rightarrow> coordination" where
  "disconnect s =
     (case (case rs_active_delivery s of
              None \<Rightarrow> Inr ([], None)
            | Some active \<Rightarrow>
                if ad_status active \<notin> {DS_COMPLETED, DS_CANCELLED}
                then rbind (mk_instruction DA_CANCEL_CURRENT (Some (ad_turn_id active)) None)
                       (\<lambda>i. Inr ([i], Some (active\<lparr>ad_status := DS_CANCELLED\<rparr>)))
                else Inr ([], Some active)) of
        Inl e \<Rightarrow> (Inl e, s)
      | Inr (instructions, active) \<Rightarrow>
          coordination_of CO_HANDLED None
            (s\<lparr>rs_disconnected := True, rs_active_delivery := active, rs_pending_interruption := None\<rparr>)
            instructions None None)"

definition handle_event :: "turn_processor \<Rightarrow> runtime_state \<Rightarrow> runtime_event \<Rightarrow> coordination" where
  "handle_event proc s ev =
     (if ev_call_id ev \<noteq> rs_call_id s
      then coordination_of CO_FAILED (Some RF_WRONG_SESSION) s [] None None
      else if ev_event_id ev \<in> rs_processed_event_ids s then plain_coordination CO_DUPLICATE_IGNORED s
      else if rs_disconnected s then plain_coordination CO_DISCONNECTED_IGNORED s
      else if ev_sequence_number ev \<le> rs_last_sequence s
      then plain_coordination CO_STALE_IGNORED (record_event ev False s)
      else (let s1 = record_event ev True s in
        case ev_event_type ev of
          EV_CALL_DISCONNECTED \<Rightarrow> disconnect s1
        | EV_RUNTIME_ERROR \<Rightarrow> coordination_of CO_FAILED (Some RF_RUNTIME_ERROR) s1 [] None None
        | EV_USER_SPEECH_STARTED \<Rightarrow> speech_started ev s1
        | EV_USER_UTTERANCE_FINAL \<Rightarrow> final_utterance proc ev s1
        | EV_AGENT_DELIVERY_STARTED \<Rightarrow> delivery_update ev DS_DELIVERING s1
        | EV_AGENT_DELIVERY_COMPLETED \<Rightarrow> delivery_update ev DS_COMPLETED s1
        | EV_AGENT_DELIVERY_INTERRUPTED \<Rightarrow> delivery_update ev DS_INTERRUPTED s1
        | EV_CALL_STARTED \<Rightarrow> plain_coordination CO_HANDLED s1))"

section \<open>What every event respects\<close>

definition coord_step :: "turn_processor \<Rightarrow> runtime_state \<Rightarrow> runtime_event \<Rightarrow> runtime_state" where
  "coord_step proc s ev = snd (handle_event proc s ev)"

text \<open>The turns handed to the processor along a sequence of events, in order.\<close>

fun coord_turns :: "turn_processor \<Rightarrow> runtime_state \<Rightarrow> runtime_event list \<Rightarrow> coordinated_turn list" where
  "coord_turns proc s [] = []"
| "coord_turns proc s (ev # evs) =
     (case fst (handle_event proc s ev) of
        Inl e \<Rightarrow> []
      | Inr r \<Rightarrow> (case cor_processed_turn r of None \<Rightarrow> [] | Some t \<Rightarrow> [t]))
     @ coord_turns proc (coord_step proc s ev) evs"

definition state_below :: "runtime_state \<Rightarrow> runtime_state \<Rightarrow> bool" where
  "state_below s s' \<longleftrightarrow> rs_call_id s' = rs_call_id s \<and> rs_last_sequence s \<le> rs_last_sequence s'
     \<and> rs_processed_event_ids s \<subseteq> rs_processed_event_ids s'
     \<and> rs_processed_turn_ids s \<subseteq> rs_processed_turn_ids s'
     \<and> (rs_disconnected s \<longrightarrow> s' = s)"

definition same_log :: "runtime_state \<Rightarrow> runtime_state \<Rightarrow> bool" where
  "same_log s s' \<longleftrightarrow> rs_call_id s' = rs_call_id s \<and> rs_last_sequence s' = rs_last_sequence s
     \<and> rs_processed_event_ids s' = rs_processed_event_ids s
     \<and> rs_processed_turn_ids s' = rs_processed_turn_ids s"

lemma coordination_of_simps [simp]:
  "snd (coordination_of oc f s ins t out) = s"
  "fst (coordination_of oc f s ins t out) = Inr \<lparr>cor_outcome = oc, cor_state = s, cor_instructions = ins,
           cor_processed_turn = t, cor_failure = f, cor_turn_output = out\<rparr>"
  by (simp_all add: coordination_of_def)

lemma speech_started_log: "same_log s (snd (speech_started ev s))"
  by (auto simp: speech_started_def same_log_def Let_def split: option.splits sum.splits)

lemma speech_started_turn:
  "fst (speech_started ev s) = Inr r \<Longrightarrow> cor_processed_turn r = None"
  by (auto simp: speech_started_def Let_def split: option.splits sum.splits if_splits)

lemma delivery_update_log: "same_log s (snd (delivery_update ev st s))"
  by (auto simp: delivery_update_def same_log_def split: option.splits sum.splits)

lemma delivery_update_turn:
  "fst (delivery_update ev st s) = Inr r \<Longrightarrow> cor_processed_turn r = None"
  by (auto simp: delivery_update_def split: option.splits sum.splits if_splits)

lemma disconnect_log: "same_log s (snd (disconnect s))"
  by (auto simp: disconnect_def same_log_def split: sum.splits prod.splits)

lemma disconnect_turn: "fst (disconnect s) = Inr r \<Longrightarrow> cor_processed_turn r = None"
  by (auto simp: disconnect_def split: sum.splits prod.splits)

lemma cancel_log: "same_log s (snd (cancel_for_utterance ev s))"
  by (auto simp: cancel_for_utterance_def same_log_def Let_def split: option.splits sum.splits)

lemma deliver_output_log:
  "same_log s (snd (deliver_output t ins out s))"
  "fst (deliver_output t ins out s) = Inr r \<Longrightarrow> cor_processed_turn r = Some t"
  by (auto simp: deliver_output_def same_log_def Let_def split: sum.splits)

lemma build_turn_simps [simp]:
  "cut_turn_id (build_turn ev s) = the (ev_turn_id ev)"
  "cut_sequence_number (build_turn ev s) = ev_sequence_number ev"
  by (simp_all add: build_turn_def)

lemma final_utterance_log:
  assumes "final_utterance proc ev s = (out, s')"
  shows "rs_call_id s' = rs_call_id s \<and> rs_last_sequence s' = rs_last_sequence s
     \<and> rs_processed_event_ids s' = rs_processed_event_ids s
     \<and> rs_processed_turn_ids s \<subseteq> rs_processed_turn_ids s'"
    and "out = Inr r \<Longrightarrow> cor_processed_turn r = Some t \<Longrightarrow>
      cut_turn_id t \<notin> rs_processed_turn_ids s \<and> cut_turn_id t \<in> rs_processed_turn_ids s'
      \<and> cut_sequence_number t = ev_sequence_number ev"
proof -
  obtain o1 s1 where c: "cancel_for_utterance ev s = (o1, s1)" by (cases "cancel_for_utterance ev s")
  with cancel_log [of s ev] have l: "same_log s s1" by simp
  have d: "same_log s2 s3 \<and> (\<forall>r. out3 = Inr r \<longrightarrow> cor_processed_turn r = Some t)"
    if "deliver_output t ins out' s2 = (out3, s3)" for t ins out' s2 out3 s3
    using deliver_output_log(1) [where s = s2 and t = t and ins = ins and out = out']
      deliver_output_log(2) [where s = s2 and t = t and ins = ins and out = out'] that
    by simp
  show "rs_call_id s' = rs_call_id s \<and> rs_last_sequence s' = rs_last_sequence s
     \<and> rs_processed_event_ids s' = rs_processed_event_ids s
     \<and> rs_processed_turn_ids s \<subseteq> rs_processed_turn_ids s'"
    using assms c l
    by (auto simp: final_utterance_def Let_def same_log_def coordination_of_def check_turn_def res_simps
        split: sum.splits if_splits dest!: d)
  show "cut_turn_id t \<notin> rs_processed_turn_ids s \<and> cut_turn_id t \<in> rs_processed_turn_ids s'
      \<and> cut_sequence_number t = ev_sequence_number ev"
    if "out = Inr r" "cor_processed_turn r = Some t"
    using assms c l that
    by (auto simp: final_utterance_def Let_def same_log_def coordination_of_def check_turn_def res_simps
        split: sum.splits if_splits dest!: d)
qed

lemma handle_event_cases:
  obtains (ignored) oc f s1 where "handle_event proc s ev = coordination_of oc f s1 [] None None"
      and "s1 = s \<or> \<not> rs_disconnected s \<and> s1 = record_event ev False s"
      and "ev_call_id ev = rs_call_id s \<Longrightarrow> ev_event_id ev \<in> rs_processed_event_ids s
        \<Longrightarrow> oc = CO_DUPLICATE_IGNORED \<and> f = None \<and> s1 = s"
      and "oc \<in> {CO_FAILED, CO_DUPLICATE_IGNORED, CO_DISCONNECTED_IGNORED, CO_STALE_IGNORED}"
  | (active) "ev_call_id ev = rs_call_id s" and "ev_event_id ev \<notin> rs_processed_event_ids s"
      and "\<not> rs_disconnected s" and "rs_last_sequence s < ev_sequence_number ev"
      and "handle_event proc s ev = (let s1 = record_event ev True s in
        case ev_event_type ev of
          EV_CALL_DISCONNECTED \<Rightarrow> disconnect s1
        | EV_RUNTIME_ERROR \<Rightarrow> coordination_of CO_FAILED (Some RF_RUNTIME_ERROR) s1 [] None None
        | EV_USER_SPEECH_STARTED \<Rightarrow> speech_started ev s1
        | EV_USER_UTTERANCE_FINAL \<Rightarrow> final_utterance proc ev s1
        | EV_AGENT_DELIVERY_STARTED \<Rightarrow> delivery_update ev DS_DELIVERING s1
        | EV_AGENT_DELIVERY_COMPLETED \<Rightarrow> delivery_update ev DS_COMPLETED s1
        | EV_AGENT_DELIVERY_INTERRUPTED \<Rightarrow> delivery_update ev DS_INTERRUPTED s1
        | EV_CALL_STARTED \<Rightarrow> plain_coordination CO_HANDLED s1)"
proof (cases "ev_call_id ev = rs_call_id s \<and> ev_event_id ev \<notin> rs_processed_event_ids s
    \<and> \<not> rs_disconnected s \<and> rs_last_sequence s < ev_sequence_number ev")
  case True
  then show thesis by (intro active) (auto simp: handle_event_def)
next
  case False
  then consider "ev_call_id ev \<noteq> rs_call_id s"
    | "ev_call_id ev = rs_call_id s" "ev_event_id ev \<in> rs_processed_event_ids s"
    | "ev_call_id ev = rs_call_id s" "ev_event_id ev \<notin> rs_processed_event_ids s" "rs_disconnected s"
    | "ev_call_id ev = rs_call_id s" "ev_event_id ev \<notin> rs_processed_event_ids s"
      "\<not> rs_disconnected s" "ev_sequence_number ev \<le> rs_last_sequence s"
    by linarith
  then show thesis
  proof cases
    case 1
    then show thesis by (intro ignored [of CO_FAILED "Some RF_WRONG_SESSION" s]) (simp_all add: handle_event_def)
  next
    case 2
    then show thesis by (intro ignored [of CO_DUPLICATE_IGNORED None s]) (simp_all add: handle_event_def)
  next
    case 3
    then show thesis by (intro ignored [of CO_DISCONNECTED_IGNORED None s]) (simp_all add: handle_event_def)
  next
    case 4
    then show thesis by (intro ignored [of CO_STALE_IGNORED None "record_event ev False s"])
        (simp_all add: handle_event_def)
  qed
qed

lemma record_event_simps [simp]:
  "rs_call_id (record_event ev adv s) = rs_call_id s"
  "rs_last_sequence (record_event ev adv s) = (if adv then ev_sequence_number ev else rs_last_sequence s)"
  "rs_processed_event_ids (record_event ev adv s) = insert (ev_event_id ev) (rs_processed_event_ids s)"
  "rs_processed_turn_ids (record_event ev adv s) = rs_processed_turn_ids s"
  "rs_active_delivery (record_event ev adv s) = rs_active_delivery s"
  "rs_disconnected (record_event ev adv s) = rs_disconnected s"
  by (simp_all add: record_event_def)

text \<open>The log after an event that was not ignored, and the turn it handed on.\<close>

lemma handle_event_active:
  assumes "ev_call_id ev = rs_call_id s" and "ev_event_id ev \<notin> rs_processed_event_ids s"
    and "\<not> rs_disconnected s" and "rs_last_sequence s < ev_sequence_number ev"
    and "handle_event proc s ev = (out, s')"
  shows "rs_call_id s' = rs_call_id s" and "rs_last_sequence s' = ev_sequence_number ev"
    and "rs_processed_event_ids s' = insert (ev_event_id ev) (rs_processed_event_ids s)"
    and "rs_processed_turn_ids s \<subseteq> rs_processed_turn_ids s'"
    and "out = Inr r \<Longrightarrow> cor_processed_turn r = Some t \<Longrightarrow>
      cut_turn_id t \<notin> rs_processed_turn_ids s \<and> cut_turn_id t \<in> rs_processed_turn_ids s'
      \<and> cut_sequence_number t = ev_sequence_number ev"
proof -
  let ?s1 = "record_event ev True s"
  have l: "rs_call_id s' = rs_call_id s \<and> rs_last_sequence s' = ev_sequence_number ev
     \<and> rs_processed_event_ids s' = insert (ev_event_id ev) (rs_processed_event_ids s)
     \<and> rs_processed_turn_ids s \<subseteq> rs_processed_turn_ids s'
     \<and> (\<forall>r t. out = Inr r \<longrightarrow> cor_processed_turn r = Some t \<longrightarrow>
      cut_turn_id t \<notin> rs_processed_turn_ids s \<and> cut_turn_id t \<in> rs_processed_turn_ids s'
      \<and> cut_sequence_number t = ev_sequence_number ev)"
  proof (cases "ev_event_type ev = EV_USER_UTTERANCE_FINAL")
    case True
    with assms have "final_utterance proc ev ?s1 = (out, s')" by (simp add: handle_event_def)
    from final_utterance_log [OF this] show ?thesis by auto
  next
    case False
    have "same_log ?s1 (snd (handle_event proc s ev))"
      using assms(1-4) False speech_started_log delivery_update_log disconnect_log
      by (cases "ev_event_type ev") (auto simp: handle_event_def Let_def same_log_def)
    moreover have "cor_processed_turn r = None" if "fst (handle_event proc s ev) = Inr r" for r
      using assms(1-4) False that
      by (cases "ev_event_type ev")
        (auto simp: handle_event_def Let_def dest: speech_started_turn delivery_update_turn disconnect_turn)
    ultimately show ?thesis using assms(5) by (auto simp: same_log_def)
  qed
  then show "rs_call_id s' = rs_call_id s" and "rs_last_sequence s' = ev_sequence_number ev"
    and "rs_processed_event_ids s' = insert (ev_event_id ev) (rs_processed_event_ids s)"
    and "rs_processed_turn_ids s \<subseteq> rs_processed_turn_ids s'"
    and "out = Inr r \<Longrightarrow> cor_processed_turn r = Some t \<Longrightarrow>
      cut_turn_id t \<notin> rs_processed_turn_ids s \<and> cut_turn_id t \<in> rs_processed_turn_ids s'
      \<and> cut_sequence_number t = ev_sequence_number ev"
    by blast+
qed

lemma coord_step_below: "state_below s (coord_step proc s ev)"
proof (cases rule: handle_event_cases [of proc s ev])
  case (ignored oc f s1)
  then show ?thesis by (auto simp: coord_step_def state_below_def)
next
  case active
  obtain out s' where h: "handle_event proc s ev = (out, s')" by (cases "handle_event proc s ev")
  from handle_event_active(1-4) [OF active(1-4) h] active(3,4) h show ?thesis
    by (auto simp: coord_step_def state_below_def)
qed

interpretation coordinator_run: monotone "coord_step proc" state_below for proc
proof
  show "state_below s s" for s by (simp add: state_below_def)
  show "state_below s t \<Longrightarrow> state_below t u \<Longrightarrow> state_below s u" for s t u
    by (auto simp: state_below_def)
qed (rule coord_step_below)

lemma coord_turns_fresh:
  assumes "t \<in> set (coord_turns proc s evs)"
  shows "cut_turn_id t \<notin> rs_processed_turn_ids s \<and> rs_last_sequence s < cut_sequence_number t"
  using assms
proof (induction evs arbitrary: s)
  case Nil
  then show ?case by simp
next
  case (Cons ev evs)
  obtain out s' where h: "handle_event proc s ev = (out, s')" by (cases "handle_event proc s ev")
  show ?case
  proof (cases "t \<in> set (coord_turns proc s' evs)")
    case True
    from Cons.IH [OF this] coord_step_below [of s proc ev] h show ?thesis
      by (auto simp: coord_step_def state_below_def)
  next
    case False
    with Cons.prems h obtain r where r: "out = Inr r" "cor_processed_turn r = Some t"
      by (auto simp: coord_step_def split: sum.splits option.splits)
    show ?thesis
    proof (cases rule: handle_event_cases [of proc s ev])
      case (ignored oc f s1)
      with h r show ?thesis by (simp add: coordination_of_def) auto
    next
      case active
      from handle_event_active(5) [OF active(1-4) h r] active(4) show ?thesis by auto
    qed
  qed
qed

lemma coord_turn_recorded:
  assumes "fst (handle_event proc s ev) = Inr r" and "cor_processed_turn r = Some t"
  shows "cut_turn_id t \<in> rs_processed_turn_ids (coord_step proc s ev)
    \<and> cut_sequence_number t \<le> rs_last_sequence (coord_step proc s ev)"
proof (cases rule: handle_event_cases [of proc s ev])
  case (ignored oc f s1)
  with assms show ?thesis by auto
next
  case active
  obtain s' where h: "handle_event proc s ev = (Inr r, s')"
    using assms(1) by (cases "handle_event proc s ev") auto
  from handle_event_active(2) [OF active(1-4) h] handle_event_active(5) [OF active(1-4) h _ assms(2)] h
  show ?thesis by (simp add: coord_step_def)
qed


lemma redelivered_event:
  assumes "ev_call_id ev = rs_call_id s"
    and "s' = foldl (coord_step proc) (coord_step proc s ev) later"
  shows "handle_event proc s' ev = plain_coordination CO_DUPLICATE_IGNORED s'
      \<or> rs_disconnected s \<and> handle_event proc s' ev = plain_coordination CO_DISCONNECTED_IGNORED s'"
proof -
  have b: "state_below (coord_step proc s ev) s'" unfolding assms(2) by (rule coordinator_run.run_below)
  have sb: "state_below s (coord_step proc s ev)" by (rule coord_step_below)
  show ?thesis
  proof (cases "rs_disconnected s")
    case True
    with sb b have "s' = s" by (simp add: state_below_def)
    with True assms(1) show ?thesis by (simp add: handle_event_def)
  next
    case False
    have "ev_event_id ev \<in> rs_processed_event_ids (coord_step proc s ev)"
    proof (cases "ev_event_id ev \<in> rs_processed_event_ids s")
      case True
      with sb show ?thesis by (auto simp: state_below_def)
    next
      case new: False
      obtain out s1 where h: "handle_event proc s ev = (out, s1)" by (cases "handle_event proc s ev")
      show ?thesis
      proof (cases "ev_sequence_number ev \<le> rs_last_sequence s")
        case True
        with new False assms(1) show ?thesis by (simp add: coord_step_def handle_event_def)
      next
        case fresh: False
        with handle_event_active(3) [OF assms(1) new False _ h] h show ?thesis
          by (simp add: coord_step_def)
      qed
    qed
    with b sb assms(1) show ?thesis by (auto simp: handle_event_def state_below_def)
  qed
qed

text \<open>
  Redelivery is harmless and a disconnect is final. An event of the call that arrives
  again, after any further events, changes nothing and causes no instruction; it is answered
  as a duplicate (or, when it first came after the disconnect, as ignored again). Once the
  call is disconnected no sequence of events changes the coordinator's state, and no event
  causes an instruction or a turn.
\<close>

theorem redelivery_and_disconnect:
  assumes "ev_call_id ev = rs_call_id s"
    and "s' = foldl (coord_step proc) (coord_step proc s ev) later"
  shows "(\<exists>oc. handle_event proc s' ev = plain_coordination oc s'
        \<and> oc \<in> {CO_DUPLICATE_IGNORED, CO_DISCONNECTED_IGNORED})
    \<and> (rs_disconnected s \<longrightarrow> s' = s
        \<and> (\<exists>r. handle_event proc s ev = (Inr r, s) \<and> cor_instructions r = [] \<and> cor_processed_turn r = None))"
proof -
  have "state_below s s'"
    using coord_step_below [of s proc ev] coordinator_run.run_below [where proc = proc and s = "coord_step proc s ev" and es = later]
      assms(2) by (auto simp: state_below_def)
  moreover have "\<exists>r. handle_event proc s ev = (Inr r, s) \<and> cor_instructions r = [] \<and> cor_processed_turn r = None"
    if "rs_disconnected s"
    using that by (auto simp: handle_event_def coordination_of_def)
  ultimately show ?thesis
    using redelivered_event [OF assms] by (auto simp: state_below_def)
qed

section \<open>Answering without an exception\<close>

text \<open>A summary that can become a pending intent, or that is not there.\<close>

definition summary_ok :: "str option \<Rightarrow> bool" where
  "summary_ok summary \<longleftrightarrow> (\<forall>x. summary = Some x \<longrightarrow> x = [] \<or> \<not> blank x \<and> length x \<le> 240)"

definition output_ok :: "turn_output \<Rightarrow> bool" where
  "output_ok out \<longleftrightarrow> to_rendered_text out \<noteq> [] \<and> summary_ok (to_unfinished_point_summary out)
     \<and> summary_ok (map_option pi_summary (rpl_pending_intent (to_response_plan out)))"

definition delivery_ok :: "active_delivery \<Rightarrow> bool" where
  "delivery_ok a \<longleftrightarrow> ad_turn_id a \<noteq> [] \<and> summary_ok (ad_unfinished_point_summary a)
     \<and> summary_ok (map_option pi_summary (rpl_pending_intent (ad_response_plan a)))"

definition coordinator_ok :: "turn_processor \<Rightarrow> runtime_state \<Rightarrow> bool" where
  "coordinator_ok proc s \<longleftrightarrow> (\<forall>t out. proc t = Inr out \<longrightarrow> output_ok out)
     \<and> (\<forall>a. rs_active_delivery s = Some a \<longrightarrow> delivery_ok a)"

lemma move_value_ok: "\<not> blank (conversation_move_value mv) \<and> length (conversation_move_value mv) \<le> 120"
  by (cases mv) (simp_all add: blank_iff py_isspace_def Let_def)

lemma mk_instruction_simps [simp]:
  "mk_instruction DA_CANCEL_CURRENT (Some t) None =
     (if t = [] then Inl ValueError else Inr \<lparr>di_action = DA_CANCEL_CURRENT, di_turn_id = Some t, di_text = None\<rparr>)"
  "mk_instruction DA_SPEAK (Some t) (Some x) =
     (if t = [] \<or> x = [] then Inl ValueError
      else Inr \<lparr>di_action = DA_SPEAK, di_turn_id = Some t, di_text = Some x\<rparr>)"
  by (simp_all add: mk_instruction_def)

lemma interruption_ok:
  assumes "delivery_ok a"
  shows "\<exists>c. interruption_of ev a = Inr c"
  using assms move_value_ok [of "rpl_communicative_goal (ad_response_plan a)"]
  by (auto simp: interruption_of_def Let_def delivery_ok_def summary_ok_def mk_pending_intent_def
      truthy_def split: option.splits)

lemma delivery_ok_status [simp]: "delivery_ok (a\<lparr>ad_status := st\<rparr>) = delivery_ok a"
  "delivery_ok (a\<lparr>ad_status := st, ad_progress := p\<rparr>) = delivery_ok a"
  by (simp_all add: delivery_ok_def)

definition coordination_ok :: "turn_processor \<Rightarrow> coordination \<Rightarrow> bool" where
  "coordination_ok proc out \<longleftrightarrow> \<not> isl (fst out) \<and> coordinator_ok proc (snd out)"

lemma speech_started_ok:
  assumes "coordinator_ok proc s"
  shows "coordination_ok proc (speech_started ev s)"
proof (cases "rs_active_delivery s")
  case None
  with assms show ?thesis by (simp add: speech_started_def coordination_ok_def)
next
  case (Some a)
  with assms have a: "delivery_ok a" by (simp add: coordinator_ok_def)
  with interruption_ok [OF a, of ev] Some assms show ?thesis
    by (auto simp: speech_started_def coordination_ok_def coordinator_ok_def delivery_ok_def Let_def)
qed

lemma delivery_update_ok:
  assumes "coordinator_ok proc s" and "progress_for st \<noteq> None"
  shows "coordination_ok proc (delivery_update ev st s)"
proof (cases "rs_active_delivery s")
  case None
  with assms show ?thesis by (simp add: delivery_update_def coordination_ok_def)
next
  case (Some a)
  with assms have a: "delivery_ok a" by (simp add: coordinator_ok_def)
  with interruption_ok [OF a, of ev] Some assms show ?thesis
    by (auto simp: delivery_update_def coordination_ok_def coordinator_ok_def)
qed

lemma disconnect_ok:
  assumes "coordinator_ok proc s"
  shows "coordination_ok proc (disconnect s)"
  using assms
  by (auto simp: disconnect_def coordination_ok_def coordinator_ok_def delivery_ok_def
      split: option.splits sum.splits)

lemma cancel_ok:
  assumes "coordinator_ok proc s"
  shows "\<exists>ins s1. cancel_for_utterance ev s = (Inr ins, s1) \<and> coordinator_ok proc s1
    \<and> ins = (case rs_active_delivery s of None \<Rightarrow> [] | Some a \<Rightarrow>
        if ad_status a \<in> {DS_PENDING, DS_DELIVERING}
        then [\<lparr>di_action = DA_CANCEL_CURRENT, di_turn_id = Some (ad_turn_id a), di_text = None\<rparr>] else [])"
proof (cases "rs_active_delivery s")
  case None
  with assms show ?thesis by (simp add: cancel_for_utterance_def)
next
  case (Some a)
  with assms have a: "delivery_ok a" by (simp add: coordinator_ok_def)
  from interruption_ok [of "a\<lparr>ad_status := DS_CANCELLED\<rparr>" ev] a
  obtain c where "interruption_of ev (a\<lparr>ad_status := DS_CANCELLED\<rparr>) = Inr c" by auto
  with a Some assms show ?thesis
    by (auto simp: cancel_for_utterance_def coordinator_ok_def Let_def) (simp_all add: delivery_ok_def)
qed

definition cancelled_first :: "runtime_state \<Rightarrow> delivery_instruction list" where
  "cancelled_first s = (case rs_active_delivery s of None \<Rightarrow> [] | Some a \<Rightarrow>
        if ad_status a \<in> {DS_PENDING, DS_DELIVERING}
        then [\<lparr>di_action = DA_CANCEL_CURRENT, di_turn_id = Some (ad_turn_id a), di_text = None\<rparr>] else [])"

lemma final_utterance_ok:
  assumes "coordinator_ok proc s" and "ev_turn_id ev = Some t" and "ev_utterance ev = Some u"
  shows "coordinator_ok proc (snd (final_utterance proc ev s))"
    and "t \<noteq> [] \<Longrightarrow> 0 \<le> ev_sequence_number ev \<Longrightarrow> \<exists>r. fst (final_utterance proc ev s) = Inr r
      \<and> (cor_outcome r = CO_TURN_PROCESSED \<longrightarrow> (\<exists>txt. txt \<noteq> [] \<and> cor_instructions r =
           cancelled_first s @ [\<lparr>di_action = DA_SPEAK, di_turn_id = Some t, di_text = Some txt\<rparr>]))"
proof -
  obtain ins s1 where c: "cancel_for_utterance ev s = (Inr ins, s1)" "coordinator_ok proc s1"
    "ins = cancelled_first s"
    using cancel_ok [OF assms(1), of ev] unfolding cancelled_first_def by blast
  have p: "output_ok out" if "proc turn = Inr out" for turn out
    using assms(1) that by (auto simp: coordinator_ok_def)
  let ?turn = "build_turn ev s1"
  show "coordinator_ok proc (snd (final_utterance proc ev s))"
    using assms c p
    by (cases "proc ?turn") (auto simp: final_utterance_def check_turn_def guard_def deliver_output_def
        coordinator_ok_def output_ok_def delivery_ok_def Let_def)
  show "\<exists>r. fst (final_utterance proc ev s) = Inr r
      \<and> (cor_outcome r = CO_TURN_PROCESSED \<longrightarrow> (\<exists>txt. txt \<noteq> [] \<and> cor_instructions r =
           cancelled_first s @ [\<lparr>di_action = DA_SPEAK, di_turn_id = Some t, di_text = Some txt\<rparr>]))"
    if "t \<noteq> []" "0 \<le> ev_sequence_number ev"
  proof (cases "proc ?turn")
    case (Inl e)
    with that assms c show ?thesis by (simp add: final_utterance_def check_turn_def)
  next
    case (Inr out)
    with p have "to_rendered_text out \<noteq> []" by (auto simp: output_ok_def)
    with Inr that assms c show ?thesis
      by (auto simp: final_utterance_def check_turn_def deliver_output_def Let_def)
  qed
qed

lemma coordinator_ok_record [simp]: "coordinator_ok proc (record_event ev adv s) = coordinator_ok proc s"
  by (simp add: coordinator_ok_def)

lemma coord_step_ok:
  assumes "coordinator_ok proc s"
  shows "coordinator_ok proc (coord_step proc s ev)"
proof (cases rule: handle_event_cases [of proc s ev])
  case (ignored oc f s1)
  with assms show ?thesis by (auto simp: coord_step_def)
next
  case active
  have f: "coordinator_ok proc (snd (final_utterance proc ev (record_event ev True s)))"
  proof (cases "ev_turn_id ev = None \<or> ev_utterance ev = None")
    case True
    with assms show ?thesis by (simp add: final_utterance_def)
  next
    case False
    with assms show ?thesis by (auto intro: final_utterance_ok(1))
  qed
  from assms active(5) f show ?thesis
    using speech_started_ok [of proc "record_event ev True s" ev] disconnect_ok [of proc "record_event ev True s"]
      delivery_update_ok [of proc "record_event ev True s" _ ev]
    by (cases "ev_event_type ev") (auto simp: coord_step_def coordination_ok_def Let_def)
qed

interpretation coordinator_kept: kept "coord_step proc" "coordinator_ok proc" for proc
  by unfold_locales (rule coord_step_ok)

text \<open>
  The coordinator always answers. If what the processor returns can be spoken (a text
  that is not empty, a summary of the unfinished point that is absent, empty or neither
  blank nor too long), then along any sequence of events every well-formed event gets a
  result, no exception escapes, and when a turn was processed the instructions are to cancel
  the delivery that was pending or being spoken, if there was one, and then to speak the
  answer of exactly this turn.
\<close>

theorem coordinator_always_answers:
  assumes "\<forall>t out. proc t = Inr out \<longrightarrow> output_ok out" and "check_event ev = Inr ev"
    and "s = foldl (coord_step proc) (new_runtime_state call_id) earlier"
  shows "\<exists>r. handle_event proc s ev = (Inr r, coord_step proc s ev)
    \<and> (cor_outcome r = CO_TURN_PROCESSED \<longrightarrow> (\<exists>txt. txt \<noteq> [] \<and> cor_instructions r =
          (case rs_active_delivery s of None \<Rightarrow> [] | Some a \<Rightarrow>
             if ad_status a \<in> {DS_PENDING, DS_DELIVERING}
             then [\<lparr>di_action = DA_CANCEL_CURRENT, di_turn_id = Some (ad_turn_id a), di_text = None\<rparr>] else [])
          @ [\<lparr>di_action = DA_SPEAK, di_turn_id = ev_turn_id ev, di_text = Some txt\<rparr>]))"
proof -
  let ?s1 = "record_event ev True s"
  have "coordinator_ok proc (new_runtime_state call_id)"
    using assms(1) by (simp add: coordinator_ok_def new_runtime_state_def)
  then have ok: "coordinator_ok proc s" unfolding assms(3) by (rule coordinator_kept.run_keeps)
  then have ok1: "coordinator_ok proc ?s1" by simp
  have "\<exists>r. fst (handle_event proc s ev) = Inr r
      \<and> (cor_outcome r = CO_TURN_PROCESSED \<longrightarrow> (\<exists>txt. txt \<noteq> [] \<and> cor_instructions r =
          cancelled_first s @ [\<lparr>di_action = DA_SPEAK, di_turn_id = ev_turn_id ev, di_text = Some txt\<rparr>]))"
  proof (cases rule: handle_event_cases [of proc s ev])
    case (ignored oc f s1)
    then show ?thesis by auto
  next
    case active
    show ?thesis
    proof (cases "ev_event_type ev = EV_USER_UTTERANCE_FINAL")
      case True
      with assms(2) obtain t u where t: "ev_turn_id ev = Some t" "ev_utterance ev = Some u" "t \<noteq> []"
        "0 \<le> ev_sequence_number ev"
        by (auto simp: check_event_def res_simps truthy_def split: option.splits)
      from final_utterance_ok(2) [OF ok1 t(1,2,3,4)] active(5) True t show ?thesis
        by (simp add: cancelled_first_def)
    next
      case False
      have "\<not> isl (fst (handle_event proc s ev))"
        using active(5) False speech_started_ok [OF ok1, of ev] disconnect_ok [OF ok1]
          delivery_update_ok [OF ok1, of _ ev]
        by (cases "ev_event_type ev") (auto simp: coordination_ok_def Let_def)
      moreover have "cor_outcome r \<noteq> CO_TURN_PROCESSED" if "fst (handle_event proc s ev) = Inr r" for r
        using active(5) False that
        by (cases "ev_event_type ev")
          (auto simp: Let_def speech_started_def delivery_update_def disconnect_def
            split: option.splits sum.splits prod.splits if_splits)
      ultimately show ?thesis by (cases "fst (handle_event proc s ev)") auto
    qed
  qed
  then show ?thesis
    unfolding cancelled_first_def coord_step_def by (cases "handle_event proc s ev") auto
qed

section \<open>Concrete calls\<close>

definition echo_processor :: turn_processor where
  "echo_processor t = Inr \<lparr>to_turn_id = cut_turn_id t,
     to_response_plan = \<lparr>rpl_communicative_goal = Move_COMMUNICATE_RESULT, rpl_pending_intent = None\<rparr>,
     to_rendered_text = ''ok: '' @ cut_utterance t, to_unfinished_point_summary = None,
     to_pipeline_outcome = None, to_conversation_terminal = False\<rparr>"

definition utterance_event :: "str \<Rightarrow> int \<Rightarrow> str \<Rightarrow> str \<Rightarrow> runtime_event" where
  "utterance_event eid seq tid txt = \<lparr>ev_event_id = eid, ev_call_id = ''call-1'',
     ev_sequence_number = seq, ev_event_type = EV_USER_UTTERANCE_FINAL, ev_turn_id = Some tid,
     ev_utterance = Some txt, ev_barge_in = False, ev_overlapping_speech = False,
     ev_possible_background_speech = False, ev_addressee_status = AD_ADDRESSED_TO_AGENT,
     ev_conversation_category = IC_OTHER\<rparr>"

lemma redelivery_and_disconnect_witness:
  "\<exists>oc. handle_event echo_processor
      (coord_step echo_processor (new_runtime_state ''call-1'') (utterance_event ''e1'' 0 ''t1'' ''hi''))
      (utterance_event ''e1'' 0 ''t1'' ''hi'') = plain_coordination oc
      (coord_step echo_processor (new_runtime_state ''call-1'') (utterance_event ''e1'' 0 ''t1'' ''hi''))"
proof -
  have "ev_call_id (utterance_event ''e1'' 0 ''t1'' ''hi'') = rs_call_id (new_runtime_state ''call-1'')"
    by (simp add: utterance_event_def new_runtime_state_def)
  from redelivery_and_disconnect [OF this, of _ echo_processor "[]"] show ?thesis by auto
qed

lemma coordinator_always_answers_witness:
  "\<exists>r. handle_event echo_processor
      (coord_step echo_processor (new_runtime_state ''call-1'') (utterance_event ''e1'' 0 ''t1'' ''hi''))
      (utterance_event ''e2'' 1 ''t2'' ''well'') =
     (Inr r, coord_step echo_processor
        (coord_step echo_processor (new_runtime_state ''call-1'') (utterance_event ''e1'' 0 ''t1'' ''hi''))
        (utterance_event ''e2'' 1 ''t2'' ''well''))"
proof -
  have p: "\<forall>t out. echo_processor t = Inr out \<longrightarrow> output_ok out"
    by (auto simp: echo_processor_def output_ok_def summary_ok_def)
  have e: "check_event (utterance_event ''e2'' 1 ''t2'' ''well'') = Inr (utterance_event ''e2'' 1 ''t2'' ''well'')"
    by (simp add: check_event_def utterance_event_def DELIVERY_EVENTS_def)
  from coordinator_always_answers [where proc = echo_processor and call_id = "''call-1''"
      and earlier = "[utterance_event ''e1'' 0 ''t1'' ''hi'']", OF p e refl]
  show ?thesis by auto
qed

text \<open>
  Without the condition on summaries an exception escapes: a summary of spaces passes the
  length check of the output contract and makes the next utterance raise.
\<close>

definition spaces_processor :: turn_processor where
  "spaces_processor t = rbind (echo_processor t)
     (\<lambda>out. Inr (out\<lparr>to_unfinished_point_summary := Some ''  ''\<rparr>))"

lemma blank_summary_raises:
  "fst (handle_event spaces_processor
      (coord_step spaces_processor (new_runtime_state ''call-1'') (utterance_event ''e1'' 0 ''t1'' ''hi''))
      (utterance_event ''e2'' 1 ''t2'' ''well'')) = Inl ValueError"
  by code_simp

end
