(* ===== verification/ChatRuntime.thy ===== *)
theory ChatRuntime
  imports Coordinator "HOL-Library.Sublist"
begin

text \<open>
  \<^verbatim>\<open>app/runtime/chat\<close>: chat sessions (\<^verbatim>\<open>contracts.py\<close>), the session repository
  (\<^verbatim>\<open>repository.py\<close>) and the chat runtime (\<^verbatim>\<open>engine.py\<close>). The runtime uses its
  repository through \<^verbatim>\<open>get\<close> and \<^verbatim>\<open>update\<close> only, so its operations take these two functions;
  the locale \<open>session_repository\<close> states what they promise and the in-memory repository is
  an interpretation of it. A registered processor is a function of the turn; a processor
  with a state of its own is a processor that is registered anew before a turn. The plan a
  session carries is not read here and is a type variable; diagnostics are not modelled.
\<close>

section \<open>Sessions and turns\<close>

datatype runtime_mode = Mode_INTERACTIVE | Mode_SIMULATION

datatype session_status = SS_ACTIVE | SS_COMPLETED | SS_TERMINATED | SS_ERROR

datatype transcript_role = Role_PROSPECT | Role_AGENT | Role_SYSTEM

record chat_turn_input =
  cti_session_id :: str
  cti_message :: str
  cti_turn_sequence :: int

definition mk_turn_input :: "str \<Rightarrow> str \<Rightarrow> int \<Rightarrow> chat_turn_input res" where
  "mk_turn_input sid message seq =
     rbind (guard (\<not> blank sid) ValueError) (\<lambda>_.
     rbind (guard (\<not> blank message) ValueError) (\<lambda>_.
     rbind (guard (\<not> length message > 2000) ValueError) (\<lambda>_.
     rbind (guard (\<not> seq < 0) ValueError) (\<lambda>_.
     Inr \<lparr>cti_session_id = sid, cti_message = message, cti_turn_sequence = seq\<rparr>))))"

record chat_turn_result =
  ctr_session_id :: str
  ctr_turn_sequence :: int
  ctr_agent_response :: str
  ctr_conversation_terminal :: bool
  ctr_pipeline_outcome :: "authoritative_result option"

definition check_turn_result :: "chat_turn_result \<Rightarrow> chat_turn_result res" where
  "check_turn_result r =
     rbind (guard (ctr_session_id r \<noteq> []) ValueError) (\<lambda>_.
     rbind (guard (ctr_agent_response r \<noteq> []) ValueError) (\<lambda>_. Inr r))"

record transcript_entry =
  te_turn_sequence :: int
  te_role :: transcript_role
  te_text :: str

definition mk_transcript_entry :: "int \<Rightarrow> transcript_role \<Rightarrow> str \<Rightarrow> transcript_entry res" where
  "mk_transcript_entry seq role txt =
     rbind (guard (\<not> seq < 0) ValueError) (\<lambda>_.
     rbind (guard (txt \<noteq> []) ValueError) (\<lambda>_.
     Inr \<lparr>te_turn_sequence = seq, te_role = role, te_text = txt\<rparr>))"

record 'plan chat_session =
  cse_session_id :: str
  cse_tenant_id :: str
  cse_campaign_id :: str
  cse_lead_id :: str
  cse_status :: session_status
  cse_mode :: runtime_mode
  cse_revision :: int
  cse_transcript :: "transcript_entry list"
  cse_turn_count :: int
  cse_pre_call_plan :: "'plan option"

definition check_session :: "'plan chat_session \<Rightarrow> 'plan chat_session res" where
  "check_session s =
     rbind (guard (\<not> blank (cse_session_id s)) ValueError) (\<lambda>_.
     rbind (guard (\<not> blank (cse_tenant_id s)) ValueError) (\<lambda>_.
     rbind (guard (\<not> blank (cse_campaign_id s)) ValueError) (\<lambda>_.
     rbind (guard (\<not> blank (cse_lead_id s)) ValueError) (\<lambda>_.
     rbind (guard (\<not> cse_revision s < 0) ValueError) (\<lambda>_.
     rbind (guard (\<not> cse_turn_count s < 0) ValueError) (\<lambda>_. Inr s))))))"

section \<open>The in-memory repository\<close>

type_synonym 'plan session_table = "(str, 'plan chat_session) dict"

definition session_create :: "'plan session_table \<Rightarrow> 'plan chat_session \<Rightarrow> 'plan chat_session res \<times> 'plan session_table" where
  "session_create t s =
     (if dget t (cse_session_id s) \<noteq> None then (Inl ValueError, t)
      else (let stored = s\<lparr>cse_revision := 0\<rparr> in (Inr stored, dset (cse_session_id s) stored t)))"

definition session_get :: "'plan session_table \<Rightarrow> str \<Rightarrow> 'plan chat_session res" where
  "session_get t sid = option_res SessionNotFoundError (dget t sid)"

definition session_update :: "'plan session_table \<Rightarrow> 'plan chat_session \<Rightarrow> 'plan chat_session res \<times> 'plan session_table" where
  "session_update t s = (case session_get t (cse_session_id s) of
       Inl e \<Rightarrow> (Inl e, t)
     | Inr current \<Rightarrow>
         if cse_revision s \<noteq> cse_revision current then (Inl StaleRevisionError, t)
         else (let updated = s\<lparr>cse_revision := cse_revision current + 1\<rparr> in
               (Inr updated, dset (cse_session_id s) updated t)))"

definition of_tenant :: "str option \<Rightarrow> 'plan chat_session \<Rightarrow> bool" where
  "of_tenant tenant s \<longleftrightarrow> tenant = None \<or> tenant = Some (cse_tenant_id s)"

definition list_sessions :: "'plan session_table \<Rightarrow> str option \<Rightarrow> 'plan chat_session list" where
  "list_sessions t tenant = filter (of_tenant tenant) (map snd t)"

definition session_exists :: "'plan session_table \<Rightarrow> str \<Rightarrow> bool" where
  "session_exists t sid \<longleftrightarrow> dget t sid \<noteq> None"

definition active_count :: "'plan session_table \<Rightarrow> str option \<Rightarrow> nat" where
  "active_count t tenant =
     length (filter (\<lambda>s. cse_status s = SS_ACTIVE \<and> of_tenant tenant s) (map snd t))"

definition session_delete :: "'plan session_table \<Rightarrow> str \<Rightarrow> 'plan session_table" where
  "session_delete t sid = ddel sid t"

section \<open>The runtime\<close>

record 'repo chat_runtime =
  crt_repository :: 'repo
  crt_processors :: "(str, turn_processor) dict"

definition register_processor :: "str \<Rightarrow> turn_processor \<Rightarrow> 'repo chat_runtime \<Rightarrow> 'repo chat_runtime" where
  "register_processor sid proc rt = rt\<lparr>crt_processors := dset sid proc (crt_processors rt)\<rparr>"

definition to_coordinated_turn :: "chat_turn_input \<Rightarrow> coordinated_turn res" where
  "to_coordinated_turn inp = check_turn
     \<lparr>cut_turn_id = ''chat_'' @ cti_session_id inp @ ''_t'' @ int_str (cti_turn_sequence inp),
      cut_sequence_number = cti_turn_sequence inp, cut_utterance = cti_message inp,
      cut_interruption = \<lparr>ict_was_interrupted = False, ict_category = IC_OTHER,
         ict_previous_intent = None, ict_voice_activity = \<lparr>va_barge_in_detected = False,
           va_overlapping_speech = False, va_speech_started_during_agent_output = False\<rparr>\<rparr>,
      cut_addressee_status = AD_ADDRESSED_TO_AGENT, cut_conversation_category = IC_OTHER\<rparr>"

definition after_turn ::
  "chat_turn_input \<Rightarrow> turn_output \<Rightarrow> 'plan chat_session \<Rightarrow> 'plan chat_session res" where
  "after_turn inp out s =
     rbind (mk_transcript_entry (cti_turn_sequence inp) Role_PROSPECT (cti_message inp)) (\<lambda>prospect.
     rbind (mk_transcript_entry (cti_turn_sequence inp) Role_AGENT (to_rendered_text out)) (\<lambda>agent.
     check_session (s\<lparr>cse_turn_count := cti_turn_sequence inp,
        cse_status := (if to_conversation_terminal out then SS_COMPLETED else SS_ACTIVE),
        cse_transcript := cse_transcript s @ [prospect, agent]\<rparr>)))"

definition chat_process_turn ::
  "('repo \<Rightarrow> str \<Rightarrow> 'plan chat_session res) \<Rightarrow> ('repo \<Rightarrow> 'plan chat_session \<Rightarrow> 'plan chat_session res \<times> 'repo)
    \<Rightarrow> 'repo chat_runtime \<Rightarrow> chat_turn_input \<Rightarrow> chat_turn_result res \<times> 'repo chat_runtime" where
  "chat_process_turn get upd rt inp =
     (case rbind (get (crt_repository rt) (cti_session_id inp)) (\<lambda>session.
           rbind (guard (cse_status session = SS_ACTIVE) SessionTerminatedError) (\<lambda>_.
           rbind (guard (\<not> cti_turn_sequence inp \<le> cse_turn_count session) DuplicateTurnError) (\<lambda>_.
           rbind (option_res ValueError (dget (crt_processors rt) (cse_session_id session))) (\<lambda>proc.
           rbind (to_coordinated_turn inp) (\<lambda>turn.
           rbind (proc turn) (\<lambda>out.
           rbind (after_turn inp out session) (\<lambda>updated. Inr (out, updated)))))))) of
        Inl e \<Rightarrow> (Inl e, rt)
      | Inr (out, updated) \<Rightarrow>
          (case upd (crt_repository rt) updated of
             (Inl e, repo) \<Rightarrow> (Inl e, rt\<lparr>crt_repository := repo\<rparr>)
           | (Inr stored, repo) \<Rightarrow>
               (check_turn_result \<lparr>ctr_session_id = cse_session_id updated,
                   ctr_turn_sequence = cti_turn_sequence inp, ctr_agent_response = to_rendered_text out,
                   ctr_conversation_terminal = to_conversation_terminal out,
                   ctr_pipeline_outcome = to_pipeline_outcome out\<rparr>,
                rt\<lparr>crt_repository := repo\<rparr>)))"

definition terminate_session ::
  "('repo \<Rightarrow> str \<Rightarrow> 'plan chat_session res) \<Rightarrow> ('repo \<Rightarrow> 'plan chat_session \<Rightarrow> 'plan chat_session res \<times> 'repo)
    \<Rightarrow> 'repo chat_runtime \<Rightarrow> str \<Rightarrow> 'plan chat_session res \<times> 'repo chat_runtime" where
  "terminate_session get upd rt sid = (case get (crt_repository rt) sid of
       Inl e \<Rightarrow> (Inl e, rt)
     | Inr session \<Rightarrow>
         if cse_status session \<noteq> SS_ACTIVE then (Inr session, rt)
         else (case upd (crt_repository rt) (session\<lparr>cse_status := SS_TERMINATED\<rparr>) of
             (out, repo) \<Rightarrow> (out, rt\<lparr>crt_repository := repo\<rparr>)))"

text \<open>The results are returned only if no turn raises.\<close>

fun run_turns ::
  "('repo \<Rightarrow> str \<Rightarrow> 'plan chat_session res) \<Rightarrow> ('repo \<Rightarrow> 'plan chat_session \<Rightarrow> 'plan chat_session res \<times> 'repo)
    \<Rightarrow> str \<Rightarrow> nat \<Rightarrow> 'repo chat_runtime \<Rightarrow> str list \<Rightarrow> chat_turn_result list res \<times> 'repo chat_runtime" where
  "run_turns get upd sid processed rt [] = (Inr [], rt)"
| "run_turns get upd sid processed rt (message # rest) =
     (case mk_turn_input sid message (int processed + 1) of
        Inl e \<Rightarrow> (Inl e, rt)
      | Inr inp \<Rightarrow> (case chat_process_turn get upd rt inp of
            (Inl e, rt') \<Rightarrow> (Inl e, rt')
          | (Inr result, rt') \<Rightarrow>
              if ctr_conversation_terminal result then (Inr [result], rt')
              else (case run_turns get upd sid (Suc processed) rt' rest of
                  (Inl e, rt'') \<Rightarrow> (Inl e, rt'')
                | (Inr results, rt'') \<Rightarrow> (Inr (result # results), rt''))))"

definition run_scenario ::
  "('repo \<Rightarrow> str \<Rightarrow> 'plan chat_session res) \<Rightarrow> ('repo \<Rightarrow> 'plan chat_session \<Rightarrow> 'plan chat_session res \<times> 'repo)
    \<Rightarrow> 'repo chat_runtime \<Rightarrow> str \<Rightarrow> str list \<Rightarrow> chat_turn_result list res \<times> 'repo chat_runtime" where
  "run_scenario get upd rt sid turns = run_turns get upd sid 0 rt turns"

datatype chat_event =
    ChatTurn chat_turn_input
  | ChatTerminate str
  | ChatRegister str turn_processor

fun chat_step ::
  "('repo \<Rightarrow> str \<Rightarrow> 'plan chat_session res) \<Rightarrow> ('repo \<Rightarrow> 'plan chat_session \<Rightarrow> 'plan chat_session res \<times> 'repo)
    \<Rightarrow> 'repo chat_runtime \<Rightarrow> chat_event \<Rightarrow> 'repo chat_runtime" where
  "chat_step get upd rt (ChatTurn inp) = snd (chat_process_turn get upd rt inp)"
| "chat_step get upd rt (ChatTerminate sid) = snd (terminate_session get upd rt sid)"
| "chat_step get upd rt (ChatRegister sid proc) = register_processor sid proc rt"

section \<open>What the runtime relies on\<close>

definition same_owner :: "'plan chat_session \<Rightarrow> 'plan chat_session \<Rightarrow> bool" where
  "same_owner s s' \<longleftrightarrow> cse_session_id s' = cse_session_id s \<and> cse_tenant_id s' = cse_tenant_id s
     \<and> cse_campaign_id s' = cse_campaign_id s \<and> cse_lead_id s' = cse_lead_id s"

text \<open>A session that its constructor accepts, with entries that theirs accepts.\<close>

definition session_ok :: "'plan chat_session \<Rightarrow> bool" where
  "session_ok s \<longleftrightarrow> check_session s = Inr s
     \<and> (\<forall>e \<in> set (cse_transcript s). \<not> te_turn_sequence e < 0 \<and> te_text e \<noteq> [])"

lemma session_ok_changes [simp]:
  "session_ok s \<Longrightarrow> session_ok (s\<lparr>cse_status := st\<rparr>)"
  "session_ok s \<Longrightarrow> session_ok (s\<lparr>cse_revision := cse_revision s + 1\<rparr>)"
  by (auto simp: session_ok_def check_session_def res_simps)

text \<open>A later version of a session: its history only grows, and a closed one is frozen.\<close>

definition session_below :: "'plan chat_session \<Rightarrow> 'plan chat_session \<Rightarrow> bool" where
  "session_below s s' \<longleftrightarrow> same_owner s s' \<and> cse_mode s' = cse_mode s
     \<and> cse_pre_call_plan s' = cse_pre_call_plan s
     \<and> cse_revision s \<le> cse_revision s' \<and> cse_turn_count s \<le> cse_turn_count s'
     \<and> prefix (cse_transcript s) (cse_transcript s')
     \<and> (cse_status s \<noteq> SS_ACTIVE \<longrightarrow> s' = s)"

lemma session_below_refl [simp]: "session_below s s"
  by (simp add: session_below_def same_owner_def)

lemma session_below_trans: "session_below s t \<Longrightarrow> session_below t u \<Longrightarrow> session_below s u"
  by (auto simp: session_below_def same_owner_def)

text \<open>A transcript is a sequence of exchanges with increasing turn numbers.\<close>

definition exchange :: "int \<times> str \<times> str \<Rightarrow> transcript_entry list" where
  "exchange x = [\<lparr>te_turn_sequence = fst x, te_role = Role_PROSPECT, te_text = fst (snd x)\<rparr>,
     \<lparr>te_turn_sequence = fst x, te_role = Role_AGENT, te_text = snd (snd x)\<rparr>]"

definition transcript_ok :: "'plan chat_session \<Rightarrow> bool" where
  "transcript_ok s \<longleftrightarrow> (\<exists>xs. cse_transcript s = concat (map exchange xs)
     \<and> sorted_wrt (<) (map fst xs) \<and> (\<forall>x \<in> set xs. fst x \<le> cse_turn_count s))"

lemma mk_transcript_entry_simps [simp]:
  "mk_transcript_entry n r t = Inr e \<longleftrightarrow>
     \<not> n < 0 \<and> t \<noteq> [] \<and> e = \<lparr>te_turn_sequence = n, te_role = r, te_text = t\<rparr>"
  by (auto simp: mk_transcript_entry_def res_simps)

lemma after_turn_result:
  assumes "after_turn inp out s = Inr s'"
  shows "s' = s\<lparr>cse_turn_count := cti_turn_sequence inp,
        cse_status := (if to_conversation_terminal out then SS_COMPLETED else SS_ACTIVE),
        cse_transcript := cse_transcript s
          @ exchange (cti_turn_sequence inp, cti_message inp, to_rendered_text out)\<rparr>"
    and "to_rendered_text out \<noteq> []" and "cse_session_id s' \<noteq> []" and "session_ok s \<Longrightarrow> session_ok s'"
  using assms by (auto simp: after_turn_def check_session_def exchange_def session_ok_def res_simps)

lemma transcript_ok_extend:
  assumes "transcript_ok s" and "cse_turn_count s < n"
    and "cse_transcript s' = cse_transcript s @ exchange (n, p, a)" and "cse_turn_count s' = n"
  shows "transcript_ok s'"
proof -
  obtain xs where x: "cse_transcript s = concat (map exchange xs)" "sorted_wrt (<) (map fst xs)"
    "\<forall>x \<in> set xs. fst x \<le> cse_turn_count s"
    using assms(1) by (auto simp: transcript_ok_def)
  then show ?thesis
    using assms(2-4) unfolding transcript_ok_def
    by (intro exI [of _ "xs @ [(n, p, a)]"]) (fastforce simp: sorted_wrt_append)
qed

locale session_repository =
  fixes get :: "'repo \<Rightarrow> str \<Rightarrow> 'plan chat_session res"
    and upd :: "'repo \<Rightarrow> 'plan chat_session \<Rightarrow> 'plan chat_session res \<times> 'repo"
    and inv :: "'repo \<Rightarrow> bool"
  assumes get_identity: "inv r \<Longrightarrow> get r sid = Inr s \<Longrightarrow> cse_session_id s = sid"
    and get_ok: "inv r \<Longrightarrow> get r sid = Inr s \<Longrightarrow> session_ok s"
    and update_stored: "inv r \<Longrightarrow> get r (cse_session_id s) = Inr current
      \<Longrightarrow> cse_revision s = cse_revision current \<Longrightarrow> same_owner current s
      \<Longrightarrow> cse_pre_call_plan s = cse_pre_call_plan current \<Longrightarrow> session_ok s
      \<Longrightarrow> \<exists>r'. upd r s = (Inr (s\<lparr>cse_revision := cse_revision current + 1\<rparr>), r') \<and> inv r'
         \<and> (\<forall>sid. get r' sid = (if sid = cse_session_id s
              then Inr (s\<lparr>cse_revision := cse_revision current + 1\<rparr>) else get r sid))"
    and update_stale: "inv r \<Longrightarrow> get r (cse_session_id s) = Inr current
      \<Longrightarrow> cse_revision s \<noteq> cse_revision current \<Longrightarrow> upd r s = (Inl StaleRevisionError, r)"
begin

text \<open>The change a request makes: none, or one session to a later version.\<close>

definition moves :: "'repo chat_runtime \<Rightarrow> 'repo chat_runtime \<Rightarrow> str \<Rightarrow> 'plan chat_session \<Rightarrow> 'plan chat_session \<Rightarrow> bool" where
  "moves rt rt' sid s s' \<longleftrightarrow> get (crt_repository rt) sid = Inr s \<and> inv (crt_repository rt')
     \<and> crt_processors rt' = crt_processors rt
     \<and> (\<forall>x. get (crt_repository rt') x = (if x = sid then Inr s' else get (crt_repository rt) x))"

lemma process_turn_cases:
  assumes "inv (crt_repository rt)"
  obtains (raised) e where "chat_process_turn get upd rt inp = (Inl e, rt)"
  | (processed) s proc turn out rt' where
      "get (crt_repository rt) (cti_session_id inp) = Inr s" and "cse_status s = SS_ACTIVE"
      and "cse_turn_count s < cti_turn_sequence inp"
      and "dget (crt_processors rt) (cti_session_id inp) = Some proc"
      and "to_coordinated_turn inp = Inr turn" and "proc turn = Inr out"
      and "chat_process_turn get upd rt inp =
        (Inr \<lparr>ctr_session_id = cti_session_id inp, ctr_turn_sequence = cti_turn_sequence inp,
           ctr_agent_response = to_rendered_text out,
           ctr_conversation_terminal = to_conversation_terminal out,
           ctr_pipeline_outcome = to_pipeline_outcome out\<rparr>, rt')"
      and "moves rt rt' (cti_session_id inp) s (s\<lparr>cse_turn_count := cti_turn_sequence inp,
        cse_status := (if to_conversation_terminal out then SS_COMPLETED else SS_ACTIVE),
        cse_transcript := cse_transcript s
          @ exchange (cti_turn_sequence inp, cti_message inp, to_rendered_text out),
        cse_revision := cse_revision s + 1\<rparr>)"
proof (cases "rbind (get (crt_repository rt) (cti_session_id inp)) (\<lambda>session.
           rbind (guard (cse_status session = SS_ACTIVE) SessionTerminatedError) (\<lambda>_.
           rbind (guard (\<not> cti_turn_sequence inp \<le> cse_turn_count session) DuplicateTurnError) (\<lambda>_.
           rbind (option_res ValueError (dget (crt_processors rt) (cse_session_id session))) (\<lambda>proc.
           rbind (to_coordinated_turn inp) (\<lambda>turn.
           rbind (proc turn) (\<lambda>out.
           rbind (after_turn inp out session) (\<lambda>updated. Inr (out, updated))))))))")
  case (Inl e)
  then show thesis by (intro raised [of e]) (simp add: chat_process_turn_def)
next
  case (Inr pair)
  then obtain s proc turn out updated where g: "get (crt_repository rt) (cti_session_id inp) = Inr s"
      "cse_status s = SS_ACTIVE" "cse_turn_count s < cti_turn_sequence inp"
      "dget (crt_processors rt) (cse_session_id s) = Some proc" "to_coordinated_turn inp = Inr turn"
      "proc turn = Inr out" "after_turn inp out s = Inr updated" "pair = (out, updated)"
    by (auto simp: res_simps not_le)
  note id = get_identity [OF assms g(1)]
  note at = after_turn_result [OF g(7)]
  have "get (crt_repository rt) (cse_session_id updated) = Inr s" "cse_revision updated = cse_revision s"
    "same_owner s updated" "cse_pre_call_plan updated = cse_pre_call_plan s" "session_ok updated"
    using id g(1) at(4) [OF get_ok [OF assms g(1)]] by (simp_all add: at(1) same_owner_def)
  from update_stored [OF assms this] obtain repo where u:
    "upd (crt_repository rt) updated = (Inr (updated\<lparr>cse_revision := cse_revision s + 1\<rparr>), repo)"
    "inv repo" "\<forall>sid. get repo sid = (if sid = cse_session_id updated
        then Inr (updated\<lparr>cse_revision := cse_revision s + 1\<rparr>) else get (crt_repository rt) sid)"
    by blast
  have "cse_session_id updated = cti_session_id inp" using id by (simp add: at(1))
  with Inr g u id at show thesis
    by (intro processed [of s proc turn out "rt\<lparr>crt_repository := repo\<rparr>"])
      (simp_all add: chat_process_turn_def check_turn_result_def moves_def)
qed

lemma terminate_cases:
  assumes "inv (crt_repository rt)"
  obtains (same) "snd (terminate_session get upd rt sid) = rt"
  | (terminated) s where "get (crt_repository rt) sid = Inr s" and "cse_status s = SS_ACTIVE"
      and "moves rt (snd (terminate_session get upd rt sid)) sid s
        (s\<lparr>cse_status := SS_TERMINATED, cse_revision := cse_revision s + 1\<rparr>)"
proof (cases "get (crt_repository rt) sid")
  case (Inl e)
  then show thesis by (intro same) (simp add: terminate_session_def)
next
  case (Inr s)
  show thesis
  proof (cases "cse_status s = SS_ACTIVE")
    case False
    with Inr show thesis by (intro same) (simp add: terminate_session_def)
  next
    case True
    let ?s = "s\<lparr>cse_status := SS_TERMINATED\<rparr>"
    have id: "cse_session_id s = sid" by (rule get_identity [OF assms Inr])
    with Inr have "get (crt_repository rt) (cse_session_id ?s) = Inr s" "cse_revision ?s = cse_revision s"
      "same_owner s ?s" "cse_pre_call_plan ?s = cse_pre_call_plan s" "session_ok ?s"
      using get_ok [OF assms Inr] by (simp_all add: same_owner_def)
    from update_stored [OF assms this] obtain repo where
      "upd (crt_repository rt) ?s = (Inr (?s\<lparr>cse_revision := cse_revision s + 1\<rparr>), repo)"
      "inv repo" "\<forall>x. get repo x = (if x = cse_session_id ?s
        then Inr (?s\<lparr>cse_revision := cse_revision s + 1\<rparr>) else get (crt_repository rt) x)"
      by blast
    with Inr True id show thesis
      by (intro terminated [of s]) (simp_all add: terminate_session_def moves_def)
  qed
qed

definition repo_below :: "'repo chat_runtime \<Rightarrow> 'repo chat_runtime \<Rightarrow> bool" where
  "repo_below rt rt' \<longleftrightarrow> (inv (crt_repository rt) \<longrightarrow> inv (crt_repository rt')
     \<and> (\<forall>sid. case get (crt_repository rt) sid of
          Inl e \<Rightarrow> get (crt_repository rt') sid = Inl e
        | Inr s \<Rightarrow> (\<exists>s'. get (crt_repository rt') sid = Inr s' \<and> session_below s s'
            \<and> (transcript_ok s \<longrightarrow> transcript_ok s'))))"

lemma repo_below_refl: "repo_below rt rt"
  by (auto simp: repo_below_def split: sum.splits)

lemma moves_below:
  assumes "moves rt rt' sid s s'" and "session_below s s'" and "transcript_ok s \<longrightarrow> transcript_ok s'"
  shows "repo_below rt rt'"
  using assms by (auto simp: repo_below_def moves_def split: sum.splits)

lemma step_repo_below: "repo_below rt (chat_step get upd rt ev)"
proof (cases "inv (crt_repository rt)")
  case False
  then show ?thesis by (simp add: repo_below_def)
next
  case ok: True
  show ?thesis
  proof (cases ev)
    case (ChatTurn inp)
    from ok show ?thesis
    proof (cases rule: process_turn_cases [where inp = inp])
      case (raised e)
      with ChatTurn show ?thesis by (simp add: repo_below_refl)
    next
      case (processed s proc turn out rt')
      let ?s' = "s\<lparr>cse_turn_count := cti_turn_sequence inp,
        cse_status := (if to_conversation_terminal out then SS_COMPLETED else SS_ACTIVE),
        cse_transcript := cse_transcript s
          @ exchange (cti_turn_sequence inp, cti_message inp, to_rendered_text out),
        cse_revision := cse_revision s + 1\<rparr>"
      from processed(2,3) have "session_below s ?s'" by (simp add: session_below_def same_owner_def)
      moreover have "transcript_ok s \<longrightarrow> transcript_ok ?s'"
        using transcript_ok_extend [OF _ processed(3), where s' = ?s'] by simp
      ultimately show ?thesis using moves_below [OF processed(8)] processed(7) ChatTurn by simp
    qed
  next
    case (ChatTerminate sid)
    from ok show ?thesis
    proof (cases rule: terminate_cases [where sid = sid])
      case same
      with ChatTerminate show ?thesis by (simp add: repo_below_refl)
    next
      case (terminated s)
      from terminated(2) have "session_below s (s\<lparr>cse_status := SS_TERMINATED, cse_revision := cse_revision s + 1\<rparr>)"
        by (simp add: session_below_def same_owner_def)
      from moves_below [OF terminated(3) this] ChatTerminate show ?thesis
        by (simp add: transcript_ok_def)
    qed
  next
    case (ChatRegister sid proc)
    then show ?thesis by (auto simp: repo_below_def register_processor_def split: sum.splits)
  qed
qed

lemma repo_below_trans: "repo_below rt rt' \<Longrightarrow> repo_below rt' rt'' \<Longrightarrow> repo_below rt rt''"
  unfolding repo_below_def using session_below_trans by (fastforce split: sum.splits)

lemma repo_below_session:
  assumes "repo_below rt rt'" and "inv (crt_repository rt)" and "get (crt_repository rt) sid = Inr s"
  obtains s' where "get (crt_repository rt') sid = Inr s'" and "session_below s s'"
    and "transcript_ok s \<longrightarrow> transcript_ok s'"
proof -
  from assms(1,2) have "case get (crt_repository rt) sid of
          Inl e \<Rightarrow> get (crt_repository rt') sid = Inl e
        | Inr s \<Rightarrow> (\<exists>s'. get (crt_repository rt') sid = Inr s' \<and> session_below s s'
            \<and> (transcript_ok s \<longrightarrow> transcript_ok s'))"
    unfolding repo_below_def by blast
  with assms(3) that show thesis by auto
qed

end

sublocale session_repository \<subseteq> history: monotone "chat_step get upd" repo_below
  by unfold_locales (rule repo_below_refl, erule (1) repo_below_trans, rule step_repo_below)

context session_repository
begin

text \<open>A processed turn is rejected from then on, without a change.\<close>

lemma processed_turn_rejected:
  assumes "inv (crt_repository rt)"
    and "chat_process_turn get upd rt inp = (Inr result, rt')"
    and "rt'' = foldl (chat_step get upd) rt' later"
  shows "\<exists>e. chat_process_turn get upd rt'' inp = (Inl e, rt'')
    \<and> e \<in> {DuplicateTurnError, SessionTerminatedError}"
  using assms(1)
proof (cases rule: process_turn_cases [where inp = inp])
  case (raised e)
  with assms(2) show ?thesis by simp
next
  case (processed s proc turn out r1)
  with assms(2) have r1: "r1 = rt'" by simp
  have below: "repo_below rt' rt''"
    unfolding assms(3) by (rule history.run_below)
  from processed(8) r1 have "inv (crt_repository rt')" and
    g: "get (crt_repository rt') (cti_session_id inp) = Inr (s\<lparr>cse_turn_count := cti_turn_sequence inp,
        cse_status := (if to_conversation_terminal out then SS_COMPLETED else SS_ACTIVE),
        cse_transcript := cse_transcript s
          @ exchange (cti_turn_sequence inp, cti_message inp, to_rendered_text out),
        cse_revision := cse_revision s + 1\<rparr>)" (is "_ = Inr ?s1")
    by (simp_all add: moves_def)
  from repo_below_session [OF below this] obtain s2 where
    s2: "get (crt_repository rt'') (cti_session_id inp) = Inr s2" "session_below ?s1 s2" .
  then have "cti_turn_sequence inp \<le> cse_turn_count s2" by (simp add: session_below_def)
  with s2(1) show ?thesis
    by (cases "cse_status s2 = SS_ACTIVE") (simp_all add: chat_process_turn_def)
qed

end

section \<open>The in-memory repository is one\<close>

definition table_ok :: "'plan session_table \<Rightarrow> bool" where
  "table_ok t \<longleftrightarrow> (\<forall>sid s. dget t sid = Some s \<longrightarrow> cse_session_id s = sid \<and> session_ok s)"

interpretation memory: session_repository session_get session_update table_ok
proof
  fix r :: "'plan session_table" and sid s current
  show "table_ok r \<Longrightarrow> session_get r sid = Inr s \<Longrightarrow> cse_session_id s = sid"
    and "table_ok r \<Longrightarrow> session_get r sid = Inr s \<Longrightarrow> session_ok s"
    by (simp_all add: table_ok_def session_get_def)
  show "\<exists>r'. session_update r s = (Inr (s\<lparr>cse_revision := cse_revision current + 1\<rparr>), r') \<and> table_ok r'
         \<and> (\<forall>sid. session_get r' sid = (if sid = cse_session_id s
              then Inr (s\<lparr>cse_revision := cse_revision current + 1\<rparr>) else session_get r sid))"
    if "table_ok r" "session_get r (cse_session_id s) = Inr current"
      "cse_revision s = cse_revision current" "same_owner current s"
      "cse_pre_call_plan s = cse_pre_call_plan current" "session_ok s"
    using that session_ok_changes(2) [OF that(6)]
    by (simp add: session_update_def table_ok_def session_get_def Let_def)
  show "session_update r s = (Inl StaleRevisionError, r)"
    if "table_ok r" "session_get r (cse_session_id s) = Inr current"
      "cse_revision s \<noteq> cse_revision current"
    using that by (simp add: session_update_def)
qed

lemma table_ok_create: "table_ok t \<Longrightarrow> session_ok s \<Longrightarrow> table_ok (snd (session_create t s))"
  by (auto simp: session_create_def table_ok_def session_ok_def check_session_def res_simps Let_def)

lemma table_ok_delete: "table_ok t \<Longrightarrow> table_ok (session_delete t sid)"
  by (auto simp: session_delete_def table_ok_def)

section \<open>The properties\<close>


text \<open>
  History is append-only and a closed session is frozen. Along any sequence of turns,
  terminations and registrations a session keeps its owner, mode and plan, its revision and
  turn count never fall, its transcript only grows and stays a sequence of prospect and
  agent entries with strictly increasing turn numbers; once it is completed, terminated or
  in error, nothing of it ever changes.
\<close>

theorem session_history_append_only:
  assumes "table_ok (crt_repository rt)" and "dget (crt_repository rt) sid = Some s"
    and "rt' = foldl (chat_step session_get session_update) rt events"
  shows "\<exists>s'. dget (crt_repository rt') sid = Some s' \<and> same_owner s s'
    \<and> cse_mode s' = cse_mode s \<and> cse_pre_call_plan s' = cse_pre_call_plan s
    \<and> cse_revision s \<le> cse_revision s' \<and> cse_turn_count s \<le> cse_turn_count s'
    \<and> prefix (cse_transcript s) (cse_transcript s')
    \<and> (transcript_ok s \<longrightarrow> transcript_ok s')
    \<and> (cse_status s \<noteq> SS_ACTIVE \<longrightarrow> s' = s)"
proof -
  have "memory.repo_below rt rt'" unfolding assms(3) by (rule memory.history.run_below)
  moreover have "session_get (crt_repository rt) sid = Inr s" using assms(2) by (simp add: session_get_def)
  ultimately obtain s' where "session_get (crt_repository rt') sid = Inr s'" "session_below s s'"
    "transcript_ok s \<longrightarrow> transcript_ok s'"
    using memory.repo_below_session assms(1) by blast
  then show ?thesis by (auto simp: session_get_def session_below_def)
qed

definition sample_session :: "unit chat_session" where
  "sample_session = \<lparr>cse_session_id = ''s1'', cse_tenant_id = ''acme'', cse_campaign_id = ''spring'',
     cse_lead_id = ''lead-1'', cse_status = SS_ACTIVE, cse_mode = Mode_SIMULATION, cse_revision = 0,
     cse_transcript = [], cse_turn_count = 0, cse_pre_call_plan = None\<rparr>"

definition sample_runtime :: "unit session_table chat_runtime" where
  "sample_runtime = \<lparr>crt_repository = [(''s1'', sample_session)],
     crt_processors = [(''s1'', \<lambda>t. Inr \<lparr>to_turn_id = cut_turn_id t, to_response_plan =
        \<lparr>rpl_communicative_goal = Move_COMMUNICATE_RESULT, rpl_pending_intent = None\<rparr>,
        to_rendered_text = ''hello'', to_unfinished_point_summary = None,
        to_pipeline_outcome = None, to_conversation_terminal = False\<rparr>)]\<rparr>"

definition first_turn :: chat_turn_input where
  "first_turn = \<lparr>cti_session_id = ''s1'', cti_message = ''hi'', cti_turn_sequence = 1\<rparr>"

lemma sample_table_ok: "table_ok (crt_repository sample_runtime)"
  by (simp add: sample_runtime_def table_ok_def sample_session_def session_ok_def check_session_def
      blank_iff py_isspace_def)

abbreviation after_first :: "chat_turn_result res \<times> unit session_table chat_runtime" where
  "after_first \<equiv> chat_process_turn session_get session_update sample_runtime first_turn"

lemma sample_first_ok: "isl (fst after_first) = False"
  by code_simp


lemma session_history_append_only_witness:
  "\<exists>s'. dget (crt_repository (foldl (chat_step session_get session_update) sample_runtime
        [ChatTurn first_turn, ChatTerminate ''s1''])) ''s1'' = Some s'
     \<and> same_owner sample_session s' \<and> cse_revision sample_session \<le> cse_revision s'"
proof -
  have "dget (crt_repository sample_runtime) ''s1'' = Some sample_session"
    by (simp add: sample_runtime_def)
  from session_history_append_only [OF sample_table_ok this refl] show ?thesis by blast
qed

end
