(* ===== verification/Leads.thy ===== *)
theory Leads
  imports Contact "HOL-Library.Multiset"
begin

text \<open>
  \<^verbatim>\<open>app/leads\<close>: the lead contracts (\<^verbatim>\<open>contracts.py\<close>), phone normalisation
  (\<^verbatim>\<open>normalizer.py\<close>), the import of a file's rows (\<^verbatim>\<open>importer.py\<close>) and the
  reconciliation with enrichment data (\<^verbatim>\<open>enrichment/\<close>). The import starts from the
  header and the rows that the CSV or spreadsheet reader returned.
\<close>

section \<open>Contracts\<close>

datatype website_status =
    WS_UNKNOWN | WS_VERIFIED_PRESENT | WS_VERIFIED_ABSENT | WS_UNVERIFIED_CANDIDATE | WS_INVALID

datatype phone_status = PhS_VALID_E164 | PhS_NEEDS_REVIEW | PhS_INVALID

datatype import_readiness = LR_READY_FOR_CONTACT | LR_NEEDS_REVIEW | LR_INVALID

datatype duplicate_class = Dup_UNIQUE | Dup_EXISTING | Dup_IN_BATCH

datatype knowledge_state = KS_KNOWN | KS_UNKNOWN | KS_CONFLICTING | KS_UNVERIFIED

datatype field_source =
    FS_USER_PROVIDED | FS_TRUSTED_EXISTING_RECORD | FS_ENRICHMENT_CANDIDATE | FS_UNKNOWN

fun field_source_value :: "field_source \<Rightarrow> str" where
  "field_source_value FS_USER_PROVIDED = ''user_provided''"
| "field_source_value FS_TRUSTED_EXISTING_RECORD = ''trusted_existing_record''"
| "field_source_value FS_ENRICHMENT_CANDIDATE = ''enrichment_candidate''"
| "field_source_value FS_UNKNOWN = ''unknown''"

record normalized_phone =
  np_raw :: str
  np_normalized :: "str option"
  np_status :: phone_status
  np_country_context :: "str option"

definition mk_phone :: "str \<Rightarrow> str option \<Rightarrow> phone_status \<Rightarrow> str option \<Rightarrow> normalized_phone res" where
  "mk_phone raw normalized status country =
     rbind (guard (\<not> blank raw) ValueError) (\<lambda>_.
     rbind (guard (\<not> (status = PhS_VALID_E164 \<and> \<not> truthy normalized)) ValueError) (\<lambda>_.
     Inr \<lparr>np_raw = raw, np_normalized = normalized, np_status = status, np_country_context = country\<rparr>))"

record lead_record =
  lrec_lead_id :: str
  lrec_tenant_id :: str
  lrec_campaign_id :: str
  lrec_business_name :: str
  lrec_phone :: normalized_phone
  lrec_website :: "str option"
  lrec_website_status :: website_status
  lrec_category :: "str option"
  lrec_city :: "str option"
  lrec_state :: "str option"
  lrec_country :: "str option"
  lrec_address :: "str option"
  lrec_email :: "str option"
  lrec_contact_name :: "str option"
  lrec_source :: "str option"
  lrec_notes :: "str option"
  lrec_import_batch_id :: "str option"
  lrec_row_number :: "nat option"
  lrec_readiness :: import_readiness
  lrec_duplicate_status :: duplicate_class

text \<open>The construction checks; the constructor also lowers the readiness to the phone's.\<close>

definition mk_lead :: "lead_record \<Rightarrow> lead_record res" where
  "mk_lead l =
     rbind (guard (\<not> blank (lrec_lead_id l)) ValueError) (\<lambda>_.
     rbind (guard (\<not> blank (lrec_tenant_id l)) ValueError) (\<lambda>_.
     rbind (guard (\<not> blank (lrec_campaign_id l)) ValueError) (\<lambda>_.
     rbind (guard (\<not> blank (lrec_business_name l)) ValueError) (\<lambda>_.
     Inr (l\<lparr>lrec_readiness :=
       (if np_status (lrec_phone l) = PhS_INVALID then LR_INVALID
        else if np_status (lrec_phone l) = PhS_NEEDS_REVIEW \<and> lrec_readiness l = LR_READY_FOR_CONTACT
        then LR_NEEDS_REVIEW else lrec_readiness l)\<rparr>)))))"

record rejected_row =
  rej_row_number :: nat
  rej_reason :: str
  rej_raw_data :: "(str, str) dict"

definition mk_rejected :: "nat \<Rightarrow> str \<Rightarrow> (str, str) dict \<Rightarrow> rejected_row res" where
  "mk_rejected n reason raw =
     rbind (guard (1 \<le> n) ValueError) (\<lambda>_. rbind (guard (\<not> blank reason) ValueError) (\<lambda>_.
     Inr \<lparr>rej_row_number = n, rej_reason = reason, rej_raw_data = raw\<rparr>))"

record import_statistics =
  ist_total_rows :: nat
  ist_accepted :: nat
  ist_rejected :: nat
  ist_duplicates :: nat

definition mk_statistics :: "nat \<Rightarrow> nat \<Rightarrow> nat \<Rightarrow> nat \<Rightarrow> import_statistics res" where
  "mk_statistics n acc rej dup =
     rbind (guard (acc + rej + dup = n) ValueError) (\<lambda>_.
     Inr \<lparr>ist_total_rows = n, ist_accepted = acc, ist_rejected = rej, ist_duplicates = dup\<rparr>)"

record lead_import_result =
  lir_batch_id :: str
  lir_accepted :: "lead_record list"
  lir_rejected :: "rejected_row list"
  lir_duplicates :: "lead_record list"
  lir_statistics :: import_statistics

section \<open>Phone normalisation\<close>

definition normalize_phone :: "'n phone_lib \<Rightarrow> str \<Rightarrow> str option \<Rightarrow> normalized_phone res" where
  "normalize_phone lib raw0 country =
     (let raw = py_strip raw0 in
      if raw = [] then mk_phone ''(empty)'' None PhS_INVALID country
      else (let region = (if truthy country then map_option py_upper country else None) in
        case pl_parse lib raw region of
          None \<Rightarrow> if region = None \<and> take 1 raw \<noteq> ''+'' then mk_phone raw None PhS_NEEDS_REVIEW country
                  else mk_phone raw None PhS_INVALID country
        | Some parsed \<Rightarrow>
            if \<not> pl_is_valid_number lib parsed then mk_phone raw None PhS_INVALID country
            else mk_phone raw (Some (pl_format_e164 lib parsed)) PhS_VALID_E164 country))"

section \<open>The import\<close>

type_synonym column_aliases = "(str, str list) dict"

definition DEFAULT_COLUMN_ALIASES :: column_aliases where
  "DEFAULT_COLUMN_ALIASES =
    [(''business_name'', [''business name'', ''company'', ''company name'', ''business'', ''name'']),
     (''phone'', [''phone'', ''phone number'', ''mobile'', ''telephone'', ''tel'']),
     (''website'', [''website'', ''web'', ''url'', ''site'']),
     (''category'', [''category'', ''business category'', ''industry'', ''type'']),
     (''city'', [''city'', ''town'']),
     (''state'', [''state'', ''province'', ''region'']),
     (''country'', [''country'', ''nation'']),
     (''address'', [''address'', ''street'', ''location'']),
     (''email'', [''email'', ''e-mail'', ''email address'']),
     (''contact_name'', [''contact name'', ''contact'', ''person'', ''contact person'']),
     (''notes'', [''notes'', ''note'', ''comments'', ''comment'']),
     (''source'', [''source'', ''lead source'', ''origin''])]"

definition REQUIRED_FIELDS :: "str list" where
  "REQUIRED_FIELDS = [''business_name'', ''phone'']"

text \<open>\<^verbatim>\<open>xs.index(x)\<close>\<close>

fun index_of :: "'a \<Rightarrow> 'a list \<Rightarrow> nat option" where
  "index_of x [] = None"
| "index_of x (y # ys) = (if x = y then Some 0 else map_option Suc (index_of x ys))"

definition first_alias :: "str list \<Rightarrow> str list \<Rightarrow> nat option" where
  "first_alias headers field_aliases =
     (case List.find (\<lambda>a. a \<in> set headers) field_aliases of None \<Rightarrow> None | Some a \<Rightarrow> index_of a headers)"

definition resolve_columns :: "str list \<Rightarrow> column_aliases \<Rightarrow> (str, nat) dict" where
  "resolve_columns headers aliases =
     (let normalized = map (\<lambda>h. py_lower (py_strip h)) headers in
      foldl (\<lambda>m (field, names). case first_alias normalized names of
               None \<Rightarrow> m | Some i \<Rightarrow> dset field i m)
        [] (if aliases = [] then DEFAULT_COLUMN_ALIASES else aliases))"

definition extract_row :: "str list \<Rightarrow> (str, nat) dict \<Rightarrow> (str, str) dict" where
  "extract_row row columns =
     foldl (\<lambda>r (field, i). if i < length row
         then (let val = py_strip (row ! i) in if val \<noteq> [] then dset field val r else r) else r)
       [] columns"

definition raw_row :: "str list \<Rightarrow> (str, nat) dict \<Rightarrow> (str, str) dict" where
  "raw_row row columns = map (\<lambda>(h, i). (h, if i < length row then row ! i else [])) columns"

definition determine_website_status :: "str option \<Rightarrow> website_status" where
  "determine_website_status website = (case website of
       None \<Rightarrow> WS_UNKNOWN
     | Some w \<Rightarrow>
         if blank w then WS_UNKNOWN
         else if CHR ''.'' \<notin> set (py_strip w)
           \<and> (\<forall>i \<in> {0..<length (py_strip w)}. take 3 (drop i (py_strip w)) \<noteq> ''://'')
         then WS_INVALID
         else WS_UNVERIFIED_CANDIDATE)"

record import_acc =
  ia_accepted :: "lead_record list"
  ia_rejected :: "rejected_row list"
  ia_duplicates :: "lead_record list"
  ia_seen_phones :: "str list"

record import_settings =
  is_tenant_id :: str
  is_campaign_id :: str
  is_batch_id :: str
  is_country_context :: "str option"
  is_existing_phones :: "str set"

definition build_lead ::
  "import_settings \<Rightarrow> nat \<Rightarrow> (str, str) dict \<Rightarrow> str \<Rightarrow> normalized_phone \<Rightarrow> duplicate_class \<Rightarrow> lead_record res" where
  "build_lead st row_number cells business_name phone dup = mk_lead
     \<lparr>lrec_lead_id = is_batch_id st @ ''_row_'' @ nat_str row_number,
      lrec_tenant_id = is_tenant_id st, lrec_campaign_id = is_campaign_id st,
      lrec_business_name = business_name, lrec_phone = phone,
      lrec_website = dget cells ''website'',
      lrec_website_status = determine_website_status (dget cells ''website''),
      lrec_category = dget cells ''category'', lrec_city = dget cells ''city'',
      lrec_state = dget cells ''state'', lrec_country = dget cells ''country'',
      lrec_address = dget cells ''address'', lrec_email = dget cells ''email'',
      lrec_contact_name = dget cells ''contact_name'', lrec_source = dget cells ''source'',
      lrec_notes = dget cells ''notes'', lrec_import_batch_id = Some (is_batch_id st),
      lrec_row_number = Some row_number, lrec_readiness = LR_READY_FOR_CONTACT,
      lrec_duplicate_status = dup\<rparr>"

definition stripped_field :: "(str, str) dict \<Rightarrow> str \<Rightarrow> str" where
  "stripped_field cells k = (case dget cells k of None \<Rightarrow> [] | Some v \<Rightarrow> py_strip v)"

definition dedup_key :: "normalized_phone \<Rightarrow> str \<Rightarrow> str" where
  "dedup_key phone raw_phone = (if truthy (np_normalized phone) then the (np_normalized phone) else raw_phone)"

definition import_row ::
  "'n phone_lib \<Rightarrow> import_settings \<Rightarrow> (str, nat) dict \<Rightarrow> import_acc \<Rightarrow> nat \<times> str list \<Rightarrow> import_acc res" where
  "import_row lib st columns acc numbered =
     (let row_number = fst numbered; row = snd numbered;
          cells = extract_row row columns;
          business_name = stripped_field cells ''business_name'';
          raw_phone = stripped_field cells ''phone'' in
      if business_name = [] then
        rbind (mk_rejected row_number ''missing required field: business_name'' (raw_row row columns)) (\<lambda>rej.
        Inr (acc\<lparr>ia_rejected := ia_rejected acc @ [rej]\<rparr>))
      else if raw_phone = [] then
        rbind (mk_rejected row_number ''missing required field: phone'' (raw_row row columns)) (\<lambda>rej.
        Inr (acc\<lparr>ia_rejected := ia_rejected acc @ [rej]\<rparr>))
      else
        rbind (normalize_phone lib raw_phone
                 (if truthy (dget cells ''country'') then dget cells ''country''
                  else is_country_context st)) (\<lambda>phone.
        rbind (build_lead st row_number cells business_name phone Dup_UNIQUE) (\<lambda>lead.
        let key = dedup_key phone raw_phone in
        if truthy (np_normalized phone) \<and> the (np_normalized phone) \<in> is_existing_phones st then
          rbind (build_lead st row_number cells business_name phone Dup_EXISTING) (\<lambda>dup.
          Inr (acc\<lparr>ia_duplicates := ia_duplicates acc @ [dup]\<rparr>))
        else if key \<in> set (ia_seen_phones acc) then
          rbind (build_lead st row_number cells business_name phone Dup_IN_BATCH) (\<lambda>dup.
          Inr (acc\<lparr>ia_duplicates := ia_duplicates acc @ [dup]\<rparr>))
        else Inr (acc\<lparr>ia_seen_phones := ia_seen_phones acc @ [key],
                      ia_accepted := ia_accepted acc @ [lead]\<rparr>))))"

definition import_rows ::
  "'n phone_lib \<Rightarrow> import_settings \<Rightarrow> column_aliases \<Rightarrow> str list \<Rightarrow> str list list \<Rightarrow> lead_import_result res" where
  "import_rows lib st aliases headers rows =
     (let columns = resolve_columns headers aliases in
      rbind (guard (\<forall>req \<in> set REQUIRED_FIELDS. req \<in> set (dkeys columns)) ValueError) (\<lambda>_.
      rbind (rfold (import_row lib st columns)
               \<lparr>ia_accepted = [], ia_rejected = [], ia_duplicates = [], ia_seen_phones = []\<rparr>
               (zip [2..<length rows + 2] rows)) (\<lambda>acc.
      rbind (mk_statistics (length rows) (length (ia_accepted acc)) (length (ia_rejected acc))
               (length (ia_duplicates acc))) (\<lambda>stats.
      rbind (guard (\<not> blank (is_batch_id st)) ValueError) (\<lambda>_.
      Inr \<lparr>lir_batch_id = is_batch_id st, lir_accepted = ia_accepted acc,
           lir_rejected = ia_rejected acc, lir_duplicates = ia_duplicates acc,
           lir_statistics = stats\<rparr>)))))"

section \<open>Enrichment and the pre-call context\<close>

record enrichment_provenance =
  ep_source_provider :: str
  ep_source_reference :: "str option"
  ep_retrieved_at :: "str option"
  ep_confidence_category :: "str option"

record candidate_field =
  ecf_value :: str
  ecf_provenance :: enrichment_provenance

record enrichment_result =
  enr_provider_name :: str
  enr_success :: bool
  enr_website :: "candidate_field option"
  enr_category :: "candidate_field option"
  enr_address :: "candidate_field option"
  enr_city :: "candidate_field option"
  enr_state :: "candidate_field option"
  enr_country :: "candidate_field option"
  enr_email :: "candidate_field option"

record enriched_field =
  ef_value :: "str option"
  ef_state :: knowledge_state
  ef_source :: field_source
  ef_provenance :: "enrichment_provenance option"

definition check_enriched :: "enriched_field \<Rightarrow> enriched_field res" where
  "check_enriched f =
     rbind (guard (\<not> (ef_value f \<noteq> None \<and> ef_state f = KS_UNKNOWN)) ValueError) (\<lambda>_.
     rbind (guard (\<not> (ef_state f = KS_KNOWN \<and> ef_value f = None)) ValueError) (\<lambda>_. Inr f))"

record business_context =
  bctx_lead_id :: str
  bctx_tenant_id :: str
  bctx_campaign_id :: str
  bctx_business_name :: str
  bctx_phone :: normalized_phone
  bctx_website_status :: website_status
  bctx_website :: enriched_field
  bctx_category :: enriched_field
  bctx_city :: enriched_field
  bctx_state :: enriched_field
  bctx_country :: enriched_field
  bctx_address :: enriched_field
  bctx_contact_name :: enriched_field
  bctx_email :: enriched_field
  bctx_lead_source :: "str option"
  bctx_campaign_context :: "str option"
  bctx_import_batch_id :: "str option"

definition check_business_context :: "business_context \<Rightarrow> business_context res" where
  "check_business_context c =
     rbind (guard (\<not> blank (bctx_lead_id c)) ValueError) (\<lambda>_.
     rbind (guard (\<not> blank (bctx_tenant_id c)) ValueError) (\<lambda>_.
     rbind (guard (\<not> blank (bctx_campaign_id c)) ValueError) (\<lambda>_.
     rbind (guard (\<not> blank (bctx_business_name c)) ValueError) (\<lambda>_. Inr c))))"

definition reconcile_field :: "str option \<Rightarrow> candidate_field option \<Rightarrow> enriched_field res" where
  "reconcile_field user_value enrichment = check_enriched (
     case (if truthy user_value then user_value else None, enrichment) of
       (Some u, Some e) \<Rightarrow>
         \<lparr>ef_value = Some u,
          ef_state = (if py_lower (py_strip u) = py_lower (py_strip (ecf_value e))
                      then KS_KNOWN else KS_CONFLICTING),
          ef_source = FS_USER_PROVIDED, ef_provenance = Some (ecf_provenance e)\<rparr>
     | (Some u, None) \<Rightarrow>
         \<lparr>ef_value = Some u, ef_state = KS_KNOWN, ef_source = FS_USER_PROVIDED, ef_provenance = None\<rparr>
     | (None, Some e) \<Rightarrow>
         \<lparr>ef_value = Some (ecf_value e), ef_state = KS_UNVERIFIED,
          ef_source = FS_ENRICHMENT_CANDIDATE, ef_provenance = Some (ecf_provenance e)\<rparr>
     | (None, None) \<Rightarrow>
         \<lparr>ef_value = None, ef_state = KS_UNKNOWN, ef_source = FS_UNKNOWN, ef_provenance = None\<rparr>)"

definition reconcile_website_status :: "lead_record \<Rightarrow> enrichment_result option \<Rightarrow> website_status" where
  "reconcile_website_status lead enrichment =
     (if lrec_website_status lead \<noteq> WS_UNKNOWN then lrec_website_status lead
      else case enrichment of
        Some e \<Rightarrow> if enr_website e \<noteq> None then WS_UNVERIFIED_CANDIDATE else WS_UNKNOWN
      | None \<Rightarrow> WS_UNKNOWN)"

text \<open>A candidate counts only when the enrichment succeeded.\<close>

definition candidate :: "(enrichment_result \<Rightarrow> candidate_field option) \<Rightarrow> enrichment_result option \<Rightarrow> candidate_field option" where
  "candidate f enrichment =
     (case enrichment of None \<Rightarrow> None | Some e \<Rightarrow> if enr_success e then f e else None)"

definition reconcile :: "lead_record \<Rightarrow> enrichment_result option \<Rightarrow> business_context res" where
  "reconcile lead enrichment =
     rbind (reconcile_field (lrec_website lead) (candidate enr_website enrichment)) (\<lambda>website.
     rbind (reconcile_field (lrec_category lead) (candidate enr_category enrichment)) (\<lambda>category.
     rbind (reconcile_field (lrec_city lead) (candidate enr_city enrichment)) (\<lambda>city.
     rbind (reconcile_field (lrec_state lead) (candidate enr_state enrichment)) (\<lambda>state.
     rbind (reconcile_field (lrec_country lead) (candidate enr_country enrichment)) (\<lambda>country.
     rbind (reconcile_field (lrec_address lead) (candidate enr_address enrichment)) (\<lambda>address.
     rbind (reconcile_field (lrec_contact_name lead) None) (\<lambda>contact_name.
     rbind (reconcile_field (lrec_email lead) (candidate enr_email enrichment)) (\<lambda>email.
     check_business_context
       \<lparr>bctx_lead_id = lrec_lead_id lead, bctx_tenant_id = lrec_tenant_id lead,
        bctx_campaign_id = lrec_campaign_id lead, bctx_business_name = lrec_business_name lead,
        bctx_phone = lrec_phone lead,
        bctx_website_status = reconcile_website_status lead enrichment,
        bctx_website = website, bctx_category = category, bctx_city = city, bctx_state = state,
        bctx_country = country, bctx_address = address, bctx_contact_name = contact_name,
        bctx_email = email, bctx_lead_source = lrec_source lead, bctx_campaign_context = None,
        bctx_import_batch_id = lrec_import_batch_id lead\<rparr>))))))))"

section \<open>What an import guarantees\<close>

lemma normalize_phone_facts:
  assumes "normalize_phone lib raw country = Inr p" and "py_strip raw \<noteq> []"
  shows "np_raw p = py_strip raw"
    and "np_status p = PhS_VALID_E164 \<longleftrightarrow> truthy (np_normalized p)"
    and "np_status p \<noteq> PhS_VALID_E164 \<Longrightarrow> np_normalized p = None"
  using assms
  by (auto simp: normalize_phone_def mk_phone_def Let_def res_simps split: option.splits if_splits)

definition lead_key :: "lead_record \<Rightarrow> str" where
  "lead_key l = dedup_key (lrec_phone l) (np_raw (lrec_phone l))"

fun readiness_for :: "phone_status \<Rightarrow> import_readiness" where
  "readiness_for PhS_VALID_E164 = LR_READY_FOR_CONTACT"
| "readiness_for PhS_NEEDS_REVIEW = LR_NEEDS_REVIEW"
| "readiness_for PhS_INVALID = LR_INVALID"

definition imported_ok :: "import_settings \<Rightarrow> lead_record \<Rightarrow> bool" where
  "imported_ok st l \<longleftrightarrow> lrec_tenant_id l = is_tenant_id st \<and> lrec_campaign_id l = is_campaign_id st
     \<and> \<not> blank (lrec_business_name l)
     \<and> lrec_readiness l = readiness_for (np_status (lrec_phone l))
     \<and> (np_status (lrec_phone l) = PhS_VALID_E164 \<longleftrightarrow> truthy (np_normalized (lrec_phone l)))
     \<and> lrec_website_status l = determine_website_status (lrec_website l)"

definition known_phone :: "import_settings \<Rightarrow> lead_record \<Rightarrow> bool" where
  "known_phone st l \<longleftrightarrow> truthy (np_normalized (lrec_phone l))
     \<and> the (np_normalized (lrec_phone l)) \<in> is_existing_phones st"

definition row_numbers :: "import_acc \<Rightarrow> nat list" where
  "row_numbers acc = map rej_row_number (ia_rejected acc)
     @ map (the \<circ> lrec_row_number) (ia_accepted acc @ ia_duplicates acc)"

definition acc_ok :: "import_settings \<Rightarrow> import_acc \<Rightarrow> bool" where
  "acc_ok st acc \<longleftrightarrow> ia_seen_phones acc = map lead_key (ia_accepted acc)
     \<and> distinct (map lead_key (ia_accepted acc))
     \<and> (\<forall>l \<in> set (ia_accepted acc). imported_ok st l \<and> lrec_duplicate_status l = Dup_UNIQUE
          \<and> \<not> known_phone st l)
     \<and> (\<forall>l \<in> set (ia_duplicates acc). imported_ok st l
          \<and> (lrec_duplicate_status l = Dup_EXISTING \<and> known_phone st l
             \<or> lrec_duplicate_status l = Dup_IN_BATCH \<and> lead_key l \<in> lead_key ` set (ia_accepted acc)))"

lemma mk_lead_Inr:
  "mk_lead l = Inr l' \<longleftrightarrow> \<not> blank (lrec_lead_id l) \<and> \<not> blank (lrec_tenant_id l)
     \<and> \<not> blank (lrec_campaign_id l) \<and> \<not> blank (lrec_business_name l)
     \<and> l' = l\<lparr>lrec_readiness :=
       (if np_status (lrec_phone l) = PhS_INVALID then LR_INVALID
        else if np_status (lrec_phone l) = PhS_NEEDS_REVIEW \<and> lrec_readiness l = LR_READY_FOR_CONTACT
        then LR_NEEDS_REVIEW else lrec_readiness l)\<rparr>"
  unfolding mk_lead_def res_simps by auto

lemma build_lead_facts:
  assumes "build_lead st n cells b phone dup = Inr l" and "np_status phone = PhS_VALID_E164 \<longleftrightarrow> truthy (np_normalized phone)"
  shows "imported_ok st l" and "lrec_phone l = phone" and "lrec_row_number l = Some n"
    and "lrec_duplicate_status l = dup"
proof -
  from assms(1) show "lrec_phone l = phone" and "lrec_row_number l = Some n"
    and "lrec_duplicate_status l = dup"
    unfolding build_lead_def mk_lead_Inr by simp_all
  from assms show "imported_ok st l"
    unfolding build_lead_def mk_lead_Inr imported_ok_def by (cases "np_status phone") simp_all
qed

lemma py_strip_stripped_field [simp]: "py_strip (stripped_field cells k) = stripped_field cells k"
  by (auto simp: stripped_field_def split: option.splits)

lemma import_row_ok:
  assumes "import_row lib st columns acc (n, row) = Inr acc'"
  shows "mset (row_numbers acc') = add_mset n (mset (row_numbers acc))"
    and "acc_ok st acc \<Longrightarrow> acc_ok st acc'"
proof -
  let ?cells = "extract_row row columns"
  let ?b = "stripped_field ?cells ''business_name''"
  let ?raw = "stripped_field ?cells ''phone''"
  consider (rejected) rej where "rej_row_number rej = n" "acc' = acc\<lparr>ia_rejected := ia_rejected acc @ [rej]\<rparr>"
    | (existing) phone l where "np_status phone = PhS_VALID_E164 \<longleftrightarrow> truthy (np_normalized phone)"
        "build_lead st n ?cells ?b phone Dup_EXISTING = Inr l"
        "truthy (np_normalized phone)" "the (np_normalized phone) \<in> is_existing_phones st"
        "acc' = acc\<lparr>ia_duplicates := ia_duplicates acc @ [l]\<rparr>"
    | (batch) phone l where "np_status phone = PhS_VALID_E164 \<longleftrightarrow> truthy (np_normalized phone)"
        "np_raw phone = ?raw"
        "build_lead st n ?cells ?b phone Dup_IN_BATCH = Inr l" "dedup_key phone ?raw \<in> set (ia_seen_phones acc)"
        "acc' = acc\<lparr>ia_duplicates := ia_duplicates acc @ [l]\<rparr>"
    | (accepted) phone l where "np_status phone = PhS_VALID_E164 \<longleftrightarrow> truthy (np_normalized phone)"
        "np_raw phone = ?raw"
        "build_lead st n ?cells ?b phone Dup_UNIQUE = Inr l"
        "\<not> (truthy (np_normalized phone) \<and> the (np_normalized phone) \<in> is_existing_phones st)"
        "dedup_key phone ?raw \<notin> set (ia_seen_phones acc)"
        "acc' = acc\<lparr>ia_seen_phones := ia_seen_phones acc @ [dedup_key phone ?raw],
                   ia_accepted := ia_accepted acc @ [l]\<rparr>"
  proof (cases "?b = [] \<or> ?raw = []")
    case True
    with assms have "\<exists>reason. acc' = acc\<lparr>ia_rejected := ia_rejected acc
        @ [\<lparr>rej_row_number = n, rej_reason = reason, rej_raw_data = raw_row row columns\<rparr>]\<rparr>"
      by (auto simp: import_row_def Let_def mk_rejected_def res_simps split: if_splits)
    then show thesis using that(1) by force
  next
    case False
    with assms obtain phone l0 where p: "normalize_phone lib ?raw (if truthy (dget ?cells ''country'')
          then dget ?cells ''country'' else is_country_context st) = Inr phone"
        "build_lead st n ?cells ?b phone Dup_UNIQUE = Inr l0"
      by (auto simp: import_row_def Let_def res_simps split: if_splits)
    from False normalize_phone_facts [OF p(1)]
    have f: "np_raw phone = ?raw" "np_status phone = PhS_VALID_E164 \<longleftrightarrow> truthy (np_normalized phone)" by simp_all
    show thesis
      using assms False p f that(2-4) unfolding import_row_def Let_def fst_conv snd_conv
      by (auto simp: res_simps split: if_splits)
  qed
  then have "mset (row_numbers acc') = add_mset n (mset (row_numbers acc)) \<and> (acc_ok st acc \<longrightarrow> acc_ok st acc')"
  proof cases
    case rejected
    then show ?thesis by (simp add: row_numbers_def acc_ok_def)
  next
    case existing
    from build_lead_facts [OF existing(2,1)] existing(3-5) show ?thesis
      by (auto simp: row_numbers_def acc_ok_def known_phone_def)
  next
    case batch
    from build_lead_facts [OF batch(3,1)] batch(2,4,5) show ?thesis
      by (auto simp: row_numbers_def acc_ok_def lead_key_def)
  next
    case accepted
    from build_lead_facts [OF accepted(3,1)] accepted(2,4-6) show ?thesis
      by (auto simp: row_numbers_def acc_ok_def lead_key_def known_phone_def)
  qed
  then show "mset (row_numbers acc') = add_mset n (mset (row_numbers acc))"
    and "acc_ok st acc \<Longrightarrow> acc_ok st acc'" by auto
qed

lemma import_rows_ok:
  assumes "rfold (import_row lib st columns) acc xs = Inr acc'"
  shows "mset (row_numbers acc') = mset (row_numbers acc) + mset (map fst xs)"
    and "acc_ok st acc \<Longrightarrow> acc_ok st acc'"
proof -
  have "mset (row_numbers acc') = mset (row_numbers acc) + mset (map fst xs)
     \<and> (acc_ok st acc \<longrightarrow> acc_ok st acc')"
    using assms
  proof (induction xs arbitrary: acc)
    case Nil
    then show ?case by simp
  next
    case (Cons x xs)
    obtain n row where x: "x = (n, row)" by (cases x)
    with Cons.prems obtain a1 where a1: "import_row lib st columns acc (n, row) = Inr a1"
      "rfold (import_row lib st columns) a1 xs = Inr acc'" by (auto simp: res_simps)
    from Cons.IH [OF a1(2)] import_row_ok [OF a1(1)] x show ?case by auto
  qed
  then show "mset (row_numbers acc') = mset (row_numbers acc) + mset (map fst xs)"
    and "acc_ok st acc \<Longrightarrow> acc_ok st acc'" by auto
qed

text \<open>The documented behaviour of the phone library that the import relies on.\<close>

definition formats_numbers :: "'n phone_lib \<Rightarrow> bool" where
  "formats_numbers lib \<longleftrightarrow> (\<forall>n. pl_is_valid_number lib n \<longrightarrow> pl_format_e164 lib n \<noteq> [])"

lemma py_strip_not_blank: "py_strip s \<noteq> [] \<Longrightarrow> \<not> blank s"
  by (simp add: blank_def)

lemma normalize_phone_total:
  assumes "formats_numbers lib" and "py_strip raw \<noteq> []"
  shows "\<exists>p. normalize_phone lib raw country = Inr p"
  using assms py_strip_not_blank [OF assms(2)]
  by (auto simp: normalize_phone_def mk_phone_def formats_numbers_def Let_def split: option.splits)

lemma blank_append [simp]: "blank (xs @ ys) \<longleftrightarrow> blank xs \<and> blank ys"
  by (auto simp: blank_iff)

lemma build_lead_total:
  assumes "\<not> blank (is_tenant_id st)" and "\<not> blank (is_campaign_id st)" and "\<not> blank b"
  shows "\<exists>l. build_lead st n cells b phone dup = Inr l"
proof -
  have "\<not> blank (is_batch_id st @ ''_row_'' @ nat_str n)" by (simp add: blank_iff py_isspace_def)
  with assms show ?thesis unfolding build_lead_def mk_lead_Inr by simp
qed

lemma import_row_total:
  assumes "formats_numbers lib" and "\<not> blank (is_tenant_id st)" and "\<not> blank (is_campaign_id st)"
    and "1 \<le> n"
  shows "\<exists>acc'. import_row lib st columns acc (n, row) = Inr acc'"
proof -
  let ?cells = "extract_row row columns"
  let ?b = "stripped_field ?cells ''business_name''"
  let ?raw = "stripped_field ?cells ''phone''"
  have texts: "\<not> blank ''missing required field: business_name''" "\<not> blank ''missing required field: phone''"
    by (simp_all add: blank_iff py_isspace_def)
  show ?thesis
  proof (cases "?b = [] \<or> ?raw = []")
    case True
    with assms(4) texts show ?thesis by (auto simp: import_row_def Let_def mk_rejected_def)
  next
    case False
    then have b: "\<not> blank ?b" using py_strip_stripped_field [of ?cells "''business_name''"]
      by (metis blank_def)
    from False obtain phone where p: "normalize_phone lib ?raw (if truthy (dget ?cells ''country'')
          then dget ?cells ''country'' else is_country_context st) = Inr phone"
      using normalize_phone_total [OF assms(1), of ?raw] by auto
    have l: "\<exists>l. build_lead st n ?cells ?b phone dup = Inr l" for dup
      by (rule build_lead_total [OF assms(2,3) b])
    obtain l1 l2 l3 where "build_lead st n ?cells ?b phone Dup_UNIQUE = Inr l1"
      "build_lead st n ?cells ?b phone Dup_EXISTING = Inr l2"
      "build_lead st n ?cells ?b phone Dup_IN_BATCH = Inr l3"
      using l by metis
    with False p show ?thesis by (simp add: import_row_def Let_def)
  qed
qed

lemma import_rows_total:
  assumes "formats_numbers lib" and "\<not> blank (is_tenant_id st)" and "\<not> blank (is_campaign_id st)"
    and "\<forall>x \<in> set xs. 1 \<le> fst x"
  shows "\<exists>acc'. rfold (import_row lib st columns) acc xs = Inr acc'"
  using assms(4)
proof (induction xs arbitrary: acc)
  case Nil
  show ?case by simp
next
  case (Cons x xs)
  obtain n row where "x = (n, row)" by (cases x)
  with Cons.prems import_row_total [OF assms(1-3), of n columns acc row] obtain a1 where
    "import_row lib st columns acc x = Inr a1" by auto
  with Cons.IH [of a1] Cons.prems show ?case by auto
qed

lemma row_zip: "map fst (zip [2..<length rows + 2] rows) = [2..<length rows + 2]"
  by simp

text \<open>
  C15. An import accounts for every row exactly once and invents nothing. For tenant, campaign
  and batch ids that are not blank, and a file with the required columns, the import
  succeeds; every data row, by its number, is in exactly one of the accepted, rejected and
  duplicate lists, and the statistics are their sizes; accepted leads have pairwise
  different phone keys, none with a phone on record already, and each duplicate is one for
  the reason it states; a lead is ready for contact exactly when its phone was normalised, a
  missing website is unknown (never "no website"), and no website counts as verified.
\<close>

theorem import_accounts_for_every_row:
  assumes "formats_numbers lib" and "\<not> blank (is_tenant_id st)" and "\<not> blank (is_campaign_id st)"
    and "\<not> blank (is_batch_id st)"
    and "set REQUIRED_FIELDS \<subseteq> set (dkeys (resolve_columns headers aliases))"
  shows "\<exists>r. import_rows lib st aliases headers rows = Inr r
    \<and> mset (map rej_row_number (lir_rejected r)
        @ map (the \<circ> lrec_row_number) (lir_accepted r @ lir_duplicates r)) = mset [2..<length rows + 2]
    \<and> lir_statistics r = \<lparr>ist_total_rows = length rows, ist_accepted = length (lir_accepted r),
        ist_rejected = length (lir_rejected r), ist_duplicates = length (lir_duplicates r)\<rparr>
    \<and> distinct (map lead_key (lir_accepted r))
    \<and> (\<forall>l \<in> set (lir_accepted r). \<not> known_phone st l)
    \<and> (\<forall>l \<in> set (lir_duplicates r). lrec_duplicate_status l = Dup_EXISTING \<and> known_phone st l
          \<or> lrec_duplicate_status l = Dup_IN_BATCH \<and> lead_key l \<in> lead_key ` set (lir_accepted r))
    \<and> (\<forall>l \<in> set (lir_accepted r @ lir_duplicates r).
          (lrec_readiness l = LR_READY_FOR_CONTACT \<longleftrightarrow> truthy (np_normalized (lrec_phone l)))
          \<and> (lrec_website l = None \<longrightarrow> lrec_website_status l = WS_UNKNOWN)
          \<and> lrec_website_status l \<notin> {WS_VERIFIED_PRESENT, WS_VERIFIED_ABSENT})"
proof -
  let ?columns = "resolve_columns headers aliases"
  let ?start = "\<lparr>ia_accepted = [], ia_rejected = [], ia_duplicates = [], ia_seen_phones = []\<rparr>"
  let ?xs = "zip [2..<length rows + 2] rows"
  have "\<forall>x \<in> set ?xs. 1 \<le> fst x" using set_zip_leftD by (fastforce simp del: upt_Suc)
  then obtain acc where acc: "rfold (import_row lib st ?columns) ?start ?xs = Inr acc"
    using import_rows_total [OF assms(1-3)] by blast
  from import_rows_ok(1) [OF acc] have m: "mset (row_numbers acc) = mset [2..<length rows + 2]"
    unfolding row_zip by (simp add: row_numbers_def del: upt_Suc)
  have "acc_ok st ?start" by (simp add: acc_ok_def)
  then have ok: "acc_ok st acc" by (rule import_rows_ok(2) [OF acc])
  from m have "length (row_numbers acc) = length rows"
    by (metis add_diff_cancel_right' length_upt mset_eq_length)
  then have n: "length (ia_accepted acc) + length (ia_rejected acc) + length (ia_duplicates acc) = length rows"
    by (simp add: row_numbers_def)
  have ready: "lrec_readiness l = LR_READY_FOR_CONTACT \<longleftrightarrow> truthy (np_normalized (lrec_phone l))"
    if "imported_ok st l" for l
    using that by (cases "np_status (lrec_phone l)") (auto simp: imported_ok_def)
  have web: "(lrec_website l = None \<longrightarrow> lrec_website_status l = WS_UNKNOWN)
      \<and> lrec_website_status l \<notin> {WS_VERIFIED_PRESENT, WS_VERIFIED_ABSENT}" if "imported_ok st l" for l
    using that by (auto simp: imported_ok_def determine_website_status_def split: option.splits)
  have "import_rows lib st aliases headers rows = Inr \<lparr>lir_batch_id = is_batch_id st,
      lir_accepted = ia_accepted acc, lir_rejected = ia_rejected acc, lir_duplicates = ia_duplicates acc,
      lir_statistics = \<lparr>ist_total_rows = length rows, ist_accepted = length (ia_accepted acc),
        ist_rejected = length (ia_rejected acc), ist_duplicates = length (ia_duplicates acc)\<rparr>\<rparr>"
    using assms(4,5) acc n by (simp add: import_rows_def Let_def mk_statistics_def subset_iff)
  with m ok ready web show ?thesis
    by (auto simp: row_numbers_def acc_ok_def)
qed

definition import_fixture :: import_settings where
  "import_fixture = \<lparr>is_tenant_id = ''acme'', is_campaign_id = ''spring'', is_batch_id = ''b1'',
     is_country_context = None, is_existing_phones = {''+15550199''}\<rparr>"

definition import_fixture_rows :: "str list list" where
  "import_fixture_rows = [[''Cafe'', ''+15550100''], [''Cafe 2'', ''+15550100''], [[], ''x'']]"

lemma import_accounts_for_every_row_witness:
  "\<exists>r. import_rows sample_phone_lib import_fixture [] [''Company'', '' Phone ''] import_fixture_rows = Inr r
    \<and> mset (map rej_row_number (lir_rejected r)
        @ map (the \<circ> lrec_row_number) (lir_accepted r @ lir_duplicates r)) = mset [2, 3, 4]"
proof -
  have lib: "formats_numbers sample_phone_lib" by (simp add: formats_numbers_def sample_phone_lib_def)
  have ids: "\<not> blank (is_tenant_id import_fixture)" "\<not> blank (is_campaign_id import_fixture)"
    "\<not> blank (is_batch_id import_fixture)"
    by (simp_all add: import_fixture_def blank_iff py_isspace_def)
  have cols: "set REQUIRED_FIELDS \<subseteq> set (dkeys (resolve_columns [''Company'', '' Phone ''] []))"
    by code_simp
  have rows: "[2..<length import_fixture_rows + 2] = [2, 3, 4]" by code_simp
  from import_accounts_for_every_row [OF lib ids cols, of import_fixture_rows] show ?thesis
    unfolding rows by blast
qed

section \<open>What a reconciliation guarantees\<close>

text \<open>A field after reconciliation, from the user's value and the candidate.\<close>

definition field_faithful :: "str option \<Rightarrow> candidate_field option \<Rightarrow> enriched_field \<Rightarrow> bool" where
  "field_faithful u c f \<longleftrightarrow>
     (truthy u \<longrightarrow> ef_value f = u \<and> ef_source f = FS_USER_PROVIDED
        \<and> ef_state f = (case c of None \<Rightarrow> KS_KNOWN | Some e \<Rightarrow>
            if py_lower (py_strip (the u)) = py_lower (py_strip (ecf_value e)) then KS_KNOWN
            else KS_CONFLICTING))
     \<and> (\<not> truthy u \<longrightarrow> ef_value f = map_option ecf_value c
        \<and> ef_state f = (if c = None then KS_UNKNOWN else KS_UNVERIFIED)
        \<and> ef_source f = (if c = None then FS_UNKNOWN else FS_ENRICHMENT_CANDIDATE))"

lemma reconcile_field_faithful: "\<exists>f. reconcile_field u c = Inr f \<and> field_faithful u c f"
  by (auto simp: reconcile_field_def check_enriched_def field_faithful_def truthy_def split: option.splits)

lemma reconcile_field_Inr: "reconcile_field u c = Inr f \<Longrightarrow> field_faithful u c f"
  using reconcile_field_faithful [of u c] by auto

text \<open>
  Enrichment never overwrites what the user supplied and is never taken for known.
  Reconciling a lead (whose ids and name are not blank) always succeeds and keeps its
  identity; a value the user gave is kept, marked known when a candidate agrees or is absent
  and conflicting when one disagrees; without one, a candidate of a successful enrichment is
  only unverified, a failed enrichment contributes no field, and nothing is unknown and
  valued at the same time.
\<close>

theorem enrichment_never_overwrites:
  assumes "\<not> blank (lrec_lead_id lead)" and "\<not> blank (lrec_tenant_id lead)"
    and "\<not> blank (lrec_campaign_id lead)" and "\<not> blank (lrec_business_name lead)"
  shows "\<exists>c. reconcile lead enr = Inr c
    \<and> bctx_lead_id c = lrec_lead_id lead \<and> bctx_tenant_id c = lrec_tenant_id lead
    \<and> bctx_campaign_id c = lrec_campaign_id lead \<and> bctx_phone c = lrec_phone lead
    \<and> field_faithful (lrec_website lead) (candidate enr_website enr) (bctx_website c)
    \<and> field_faithful (lrec_category lead) (candidate enr_category enr) (bctx_category c)
    \<and> field_faithful (lrec_city lead) (candidate enr_city enr) (bctx_city c)
    \<and> field_faithful (lrec_state lead) (candidate enr_state enr) (bctx_state c)
    \<and> field_faithful (lrec_country lead) (candidate enr_country enr) (bctx_country c)
    \<and> field_faithful (lrec_address lead) (candidate enr_address enr) (bctx_address c)
    \<and> field_faithful (lrec_contact_name lead) None (bctx_contact_name c)
    \<and> field_faithful (lrec_email lead) (candidate enr_email enr) (bctx_email c)"
proof -
  have r: "\<exists>f. reconcile_field u c = Inr f" for u c using reconcile_field_faithful by blast
  obtain w ca ci st co ad cn em where f:
    "reconcile_field (lrec_website lead) (candidate enr_website enr) = Inr w"
    "reconcile_field (lrec_category lead) (candidate enr_category enr) = Inr ca"
    "reconcile_field (lrec_city lead) (candidate enr_city enr) = Inr ci"
    "reconcile_field (lrec_state lead) (candidate enr_state enr) = Inr st"
    "reconcile_field (lrec_country lead) (candidate enr_country enr) = Inr co"
    "reconcile_field (lrec_address lead) (candidate enr_address enr) = Inr ad"
    "reconcile_field (lrec_contact_name lead) None = Inr cn"
    "reconcile_field (lrec_email lead) (candidate enr_email enr) = Inr em"
    using r by metis
  note faithful = f [THEN reconcile_field_Inr]
  show ?thesis
    unfolding reconcile_def f rbind_simps check_business_context_def
    using assms faithful by simp
qed

definition lead_fixture :: lead_record where
  "lead_fixture = \<lparr>lrec_lead_id = ''b1_row_2'', lrec_tenant_id = ''acme'', lrec_campaign_id = ''spring'',
     lrec_business_name = ''Cafe'',
     lrec_phone = \<lparr>np_raw = ''+15550100'', np_normalized = Some ''+15550100'',
        np_status = PhS_VALID_E164, np_country_context = None\<rparr>,
     lrec_website = None, lrec_website_status = WS_UNKNOWN, lrec_category = Some ''cafe'',
     lrec_city = None, lrec_state = None, lrec_country = None, lrec_address = None,
     lrec_email = None, lrec_contact_name = None, lrec_source = None, lrec_notes = None,
     lrec_import_batch_id = Some ''b1'', lrec_row_number = Some 2,
     lrec_readiness = LR_READY_FOR_CONTACT, lrec_duplicate_status = Dup_UNIQUE\<rparr>"

lemma lead_fixture_ids:
  "\<not> blank (lrec_lead_id lead_fixture)" "\<not> blank (lrec_tenant_id lead_fixture)"
  "\<not> blank (lrec_campaign_id lead_fixture)" "\<not> blank (lrec_business_name lead_fixture)"
  by (simp_all add: lead_fixture_def blank_iff py_isspace_def)

lemma enrichment_never_overwrites_witness:
  "\<exists>c. reconcile lead_fixture None = Inr c
    \<and> field_faithful (lrec_category lead_fixture) (candidate enr_category None) (bctx_category c)"
  using enrichment_never_overwrites [OF lead_fixture_ids, of None] by blast

end
