(* ===== verification/Precall.thy ===== *)
theory Precall
  imports Leads Campaign "HOL-Library.Product_Lexorder"
begin

text \<open>
  \<^verbatim>\<open>app/precall\<close>: the discovery policy and the plan (\<^verbatim>\<open>contracts.py\<close>) and the
  engine that turns a business context, a campaign and a policy into the plan of a
  conversation (\<^verbatim>\<open>engine.py\<close>). Fact keys are free strings, as in the code.
\<close>

section \<open>Contracts\<close>

datatype verification_priority = VP_CRITICAL | VP_HIGH | VP_NORMAL | VP_LOW

datatype opening_objective =
    OO_ESTABLISH_CONTACT | OO_EARN_PERMISSION | OO_CONFIRM_BUSINESS_CONTEXT
  | OO_VERIFY_CRITICAL_FACT | OO_RESUME_EXISTING_CONTEXT

datatype initial_posture =
    IP_LOW_CONTEXT | IP_NORMAL_CONTEXT | IP_INFORMED_CONTEXT | IP_CONFLICTED_CONTEXT

datatype plan_status = PlS_READY | PlS_DEGRADED

datatype assumption_guardrail =
    AG_NO_WEBSITE | AG_BAD_SEO | AG_MANUAL_WORKFLOW | AG_DECISION_MAKER | AG_BUDGET | AG_LANGUAGE
  | AG_CUSTOMER_ACQUISITION

datatype risk_flag =
    RK_THIN_PROFILE | RK_CONFLICTING_ENRICHMENT | RK_NO_CAMPAIGN_SERVICE_AUTHORIZED
  | RK_UNVERIFIED_CONTACT

record precall_fact =
  pf_key :: str
  pf_state :: knowledge_state
  pf_value :: "str option"
  pf_sources :: "str list"
  pf_conflict_detail :: "str option"

definition mk_fact :: "precall_fact \<Rightarrow> precall_fact res" where
  "mk_fact f =
     rbind (guard (\<not> blank (pf_key f)) ValueError) (\<lambda>_.
     rbind (guard (\<not> length (pf_key f) > 100) ValueError) (\<lambda>_.
     rbind (guard (\<not> (\<exists>v \<in> set_option (pf_value f). length v > 300)) ValueError) (\<lambda>_.
     rbind (guard (\<not> (pf_state f = KS_KNOWN \<and> pf_value f = None)) ValueError) (\<lambda>_.
     rbind (guard (\<not> (pf_state f = KS_UNKNOWN \<and> pf_value f \<noteq> None)) ValueError) (\<lambda>_.
     rbind (guard (\<not> (pf_state f = KS_CONFLICTING
         \<and> (pf_conflict_detail f = None \<or> blank (the (pf_conflict_detail f))))) ValueError) (\<lambda>_.
     Inr f))))))"

record verification_target =
  vt_fact_key :: str
  vt_priority :: verification_priority
  vt_reason :: str
  vt_tie_breaker_index :: int

definition mk_target :: "verification_target \<Rightarrow> verification_target res" where
  "mk_target t =
     rbind (guard (\<not> blank (vt_fact_key t)) ValueError) (\<lambda>_.
     rbind (guard (\<not> length (vt_fact_key t) > 100) ValueError) (\<lambda>_.
     rbind (guard (\<not> blank (vt_reason t)) ValueError) (\<lambda>_.
     rbind (guard (\<not> length (vt_reason t) > 200) ValueError) (\<lambda>_. Inr t))))"

record prerequisite_gap =
  pg_service_id :: str
  pg_missing_fact_keys :: "str list"

definition mk_gap :: "prerequisite_gap \<Rightarrow> prerequisite_gap res" where
  "mk_gap g =
     rbind (guard (\<not> blank (pg_service_id g)) ValueError) (\<lambda>_.
     rbind (guard (pg_missing_fact_keys g \<noteq> []) ValueError) (\<lambda>_.
     rbind (guard (\<not> length (pg_missing_fact_keys g) > 20) ValueError) (\<lambda>_. Inr g)))"

record discovery_rule =
  drl_service_id :: str
  drl_required_fact_keys :: "str list"
  drl_optional_fact_keys :: "str list"
  drl_knowledge_topic_hints :: "str list"

definition mk_discovery_rule :: "discovery_rule \<Rightarrow> discovery_rule res" where
  "mk_discovery_rule r =
     rbind (guard (\<not> blank (drl_service_id r)) ValueError) (\<lambda>_.
     rbind (guard (\<not> length (drl_required_fact_keys r) > 20) ValueError) (\<lambda>_.
     rbind (guard (\<not> length (drl_optional_fact_keys r) > 20) ValueError) (\<lambda>_.
     rbind (guard (\<not> length (drl_knowledge_topic_hints r) > 20) ValueError) (\<lambda>_.
     rbind (guard (set (drl_required_fact_keys r) \<inter> set (drl_optional_fact_keys r) = {}) ValueError) (\<lambda>_.
     Inr r)))))"

record discovery_policy =
  dp_policy_id :: str
  dp_version :: str
  dp_service_rules :: "discovery_rule list"
  dp_global_required_facts :: "str list"
  dp_global_optional_facts :: "str list"
  dp_priority_overrides :: "(str \<times> verification_priority) list"

definition mk_discovery_policy :: "discovery_policy \<Rightarrow> discovery_policy res" where
  "mk_discovery_policy p =
     rbind (guard (\<not> blank (dp_policy_id p)) ValueError) (\<lambda>_.
     rbind (guard (\<not> blank (dp_version p)) ValueError) (\<lambda>_.
     rbind (guard (\<not> length (dp_service_rules p) > 50) ValueError) (\<lambda>_.
     rbind (guard (distinct (map drl_service_id (dp_service_rules p))) ValueError) (\<lambda>_.
     rbind (guard (\<forall>(key, prio) \<in> set (dp_priority_overrides p). key \<noteq> [] \<and> \<not> length key > 100)
              ValueError) (\<lambda>_. Inr p)))))"

definition rule_for :: "discovery_policy \<Rightarrow> str \<Rightarrow> discovery_rule option" where
  "rule_for p sid = List.find (\<lambda>r. drl_service_id r = sid) (dp_service_rules p)"

definition priority_override_for :: "discovery_policy \<Rightarrow> str \<Rightarrow> verification_priority option" where
  "priority_override_for p key = map_of (dp_priority_overrides p) key"

record conversation_plan =
  cpl_lead_id :: str
  cpl_campaign_id :: str
  cpl_tenant_id :: str
  cpl_policy_id :: str
  cpl_policy_version :: str
  cpl_known_facts :: "precall_fact list"
  cpl_unknown_facts :: "precall_fact list"
  cpl_unverified_facts :: "precall_fact list"
  cpl_conflicting_facts :: "precall_fact list"
  cpl_primary_target :: "verification_target option"
  cpl_verification_targets :: "verification_target list"
  cpl_opening_objective :: opening_objective
  cpl_discovery_priorities :: "str list"
  cpl_allowed_service_context :: "str list"
  cpl_prerequisite_gaps :: "prerequisite_gap list"
  cpl_assumption_guardrails :: "assumption_guardrail set"
  cpl_knowledge_topics :: "str list"
  cpl_risk_flags :: "risk_flag set"
  cpl_initial_posture :: initial_posture
  cpl_plan_status :: plan_status

definition all_plan_facts :: "conversation_plan \<Rightarrow> precall_fact list" where
  "all_plan_facts p = cpl_known_facts p @ cpl_unknown_facts p @ cpl_unverified_facts p @ cpl_conflicting_facts p"

definition mk_plan :: "conversation_plan \<Rightarrow> conversation_plan res" where
  "mk_plan p =
     rbind (guard (\<not> blank (cpl_lead_id p)) ValueError) (\<lambda>_.
     rbind (guard (\<not> blank (cpl_campaign_id p)) ValueError) (\<lambda>_.
     rbind (guard (\<not> blank (cpl_tenant_id p)) ValueError) (\<lambda>_.
     rbind (guard (cpl_policy_id p \<noteq> [] \<and> cpl_policy_version p \<noteq> []) ValueError) (\<lambda>_.
     rbind (guard ((\<forall>f \<in> set (cpl_known_facts p). pf_state f = KS_KNOWN)
        \<and> (\<forall>f \<in> set (cpl_unknown_facts p). pf_state f = KS_UNKNOWN)
        \<and> (\<forall>f \<in> set (cpl_unverified_facts p). pf_state f = KS_UNVERIFIED)
        \<and> (\<forall>f \<in> set (cpl_conflicting_facts p). pf_state f = KS_CONFLICTING)) ValueError) (\<lambda>_.
     rbind (guard (\<forall>t \<in> set_option (cpl_primary_target p). t \<in> set (cpl_verification_targets p)) ValueError) (\<lambda>_.
     rbind (guard (card (set (map pf_key (all_plan_facts p))) = length (all_plan_facts p)) ValueError) (\<lambda>_.
     rbind (guard (\<not> length (cpl_verification_targets p) > 50) ValueError) (\<lambda>_.
     rbind (guard (\<not> length (cpl_prerequisite_gaps p) > 20) ValueError) (\<lambda>_.
     Inr p)))))))))"

section \<open>Facts\<close>

definition website_fact :: "website_status \<Rightarrow> precall_fact res" where
  "website_fact status = (let f = (\<lambda>state v src.
       mk_fact \<lparr>pf_key = ''website.presence'', pf_state = state, pf_value = v, pf_sources = src,
                pf_conflict_detail = None\<rparr>) in
     case status of
       WS_VERIFIED_PRESENT \<Rightarrow> f KS_KNOWN (Some ''present'') [''verified'']
     | WS_VERIFIED_ABSENT \<Rightarrow> f KS_KNOWN (Some ''absent'') [''verified'']
     | WS_UNVERIFIED_CANDIDATE \<Rightarrow> f KS_UNVERIFIED (Some ''candidate'') [''unverified_candidate'']
     | WS_INVALID \<Rightarrow> f KS_UNVERIFIED (Some ''invalid_input'') [''invalid'']
     | WS_UNKNOWN \<Rightarrow> f KS_UNKNOWN None [])"

definition fact_from_enriched :: "str \<Rightarrow> enriched_field \<Rightarrow> precall_fact res" where
  "fact_from_enriched key field =
     (let state = ef_state field; sources = [field_source_value (ef_source field)] in
      if state = KS_CONFLICTING then
        mk_fact \<lparr>pf_key = key, pf_state = state, pf_value = ef_value field, pf_sources = sources,
          pf_conflict_detail = Some (''source '' @ field_source_value (ef_source field) @ '' vs enrichment'')\<rparr>
      else if state \<in> {KS_KNOWN, KS_UNVERIFIED} \<and> ef_value field \<noteq> None then
        mk_fact \<lparr>pf_key = key, pf_state = state, pf_value = ef_value field, pf_sources = sources,
          pf_conflict_detail = None\<rparr>
      else mk_fact \<lparr>pf_key = key, pf_state = KS_UNKNOWN, pf_value = None, pf_sources = [],
          pf_conflict_detail = None\<rparr>)"

definition build_facts :: "business_context \<Rightarrow> precall_fact list res" where
  "build_facts c =
     rbind (website_fact (bctx_website_status c)) (\<lambda>website.
     rbind (rmap (\<lambda>(key, field). fact_from_enriched key field)
       [(''business.category'', bctx_category c), (''contact.name'', bctx_contact_name c),
        (''contact.email'', bctx_email c), (''location.city'', bctx_city c),
        (''location.state'', bctx_state c), (''location.country'', bctx_country c),
        (''location.address'', bctx_address c)]) (\<lambda>rest.
     Inr (website # rest)))"

definition bucket :: "precall_fact list \<Rightarrow> knowledge_state \<Rightarrow> precall_fact list" where
  "bucket facts state = filter (\<lambda>f. pf_state f = state) facts"

section \<open>Gaps and targets\<close>

definition fact_by_key :: "precall_fact list \<Rightarrow> (str, precall_fact) dict" where
  "fact_by_key facts = foldl (\<lambda>m f. dset (pf_key f) f m) [] facts"

definition missing_facts :: "discovery_rule \<Rightarrow> precall_fact list \<Rightarrow> str list" where
  "missing_facts rule facts = filter (\<lambda>k. case dget (fact_by_key facts) k of
       None \<Rightarrow> True | Some f \<Rightarrow> pf_state f \<noteq> KS_KNOWN) (drl_required_fact_keys rule)"

fun prerequisite_gaps :: "str list \<Rightarrow> discovery_policy \<Rightarrow> precall_fact list \<Rightarrow> prerequisite_gap list res" where
  "prerequisite_gaps [] policy facts = Inr []"
| "prerequisite_gaps (sid # sids) policy facts =
     (case rule_for policy sid of
        None \<Rightarrow> prerequisite_gaps sids policy facts
      | Some rule \<Rightarrow>
          (let missing = missing_facts rule facts in
           if missing = [] then prerequisite_gaps sids policy facts
           else rbind (mk_gap \<lparr>pg_service_id = sid, pg_missing_fact_keys = missing\<rparr>) (\<lambda>g.
                rbind (prerequisite_gaps sids policy facts) (\<lambda>gs. Inr (g # gs)))))"

text \<open>\<^verbatim>\<open>d.setdefault(k, []).append(v)\<close>\<close>

definition append_to :: "'v \<Rightarrow> ('k, 'v list) dict \<Rightarrow> 'k \<Rightarrow> ('k, 'v list) dict" where
  "append_to v d k = dset k ((case dget d k of None \<Rightarrow> [] | Some vs \<Rightarrow> vs) @ [v]) d"

definition required_for :: "prerequisite_gap list \<Rightarrow> (str, str list) dict" where
  "required_for gaps = foldl (\<lambda>d g. foldl (append_to (pg_service_id g)) d (pg_missing_fact_keys g)) [] gaps"

definition optional_for :: "str list \<Rightarrow> discovery_policy \<Rightarrow> (str, str list) dict" where
  "optional_for authorized policy = foldl (\<lambda>d sid. case rule_for policy sid of
       None \<Rightarrow> d | Some rule \<Rightarrow> foldl (append_to sid) d (drl_optional_fact_keys rule)) [] authorized"

definition priority_for ::
  "precall_fact \<Rightarrow> discovery_policy \<Rightarrow> (str, str list) dict \<Rightarrow> (str, str list) dict \<Rightarrow> verification_priority option" where
  "priority_for fct policy required optional =
     (case priority_override_for policy (pf_key fct) of
        Some prio \<Rightarrow> Some prio
      | None \<Rightarrow>
          if pf_state fct = KS_CONFLICTING then Some VP_CRITICAL
          else if dget required (pf_key fct) \<noteq> None
            \<or> pf_key fct \<in> set (dp_global_required_facts policy) then Some VP_HIGH
          else if pf_state fct = KS_UNVERIFIED then Some VP_NORMAL
          else if dget optional (pf_key fct) \<noteq> None
            \<or> pf_key fct \<in> set (dp_global_optional_facts policy) then Some VP_LOW
          else None)"

fun join_with :: "str \<Rightarrow> str list \<Rightarrow> str" where
  "join_with sep [] = []"
| "join_with sep [x] = x"
| "join_with sep (x # y # ys) = x @ sep @ join_with sep (y # ys)"

definition reason_for :: "precall_fact \<Rightarrow> discovery_policy \<Rightarrow> (str, str list) dict \<Rightarrow> str" where
  "reason_for fct policy required =
     (if pf_state fct = KS_CONFLICTING then ''conflicting information requires resolution''
      else if dget required (pf_key fct) \<notin> {None, Some []}
      then ''required for authorized service(s): '' @ join_with '','' (sort (the (dget required (pf_key fct))))
      else if pf_key fct \<in> set (dp_global_required_facts policy) then ''campaign-wide required fact''
      else if pf_state fct = KS_UNVERIFIED then ''unverified candidate requires confirmation''
      else ''optional discovery context'')"

type_synonym candidate_target = "verification_priority \<times> int \<times> str \<times> str"

definition fact_candidate ::
  "discovery_policy \<Rightarrow> (str, str list) dict \<Rightarrow> (str, str list) dict
    \<Rightarrow> str list \<times> candidate_target list \<Rightarrow> nat \<times> precall_fact \<Rightarrow> str list \<times> candidate_target list" where
  "fact_candidate policy required optional acc numbered =
     (let (seen, cands) = acc; (i, fct) = numbered in
      if pf_state fct = KS_KNOWN \<or> pf_key fct \<in> set seen then acc
      else case priority_for fct policy required optional of
        None \<Rightarrow> (pf_key fct # seen, cands)
      | Some prio \<Rightarrow> (pf_key fct # seen, cands @ [(prio, int i, pf_key fct, reason_for fct policy required)]))"

definition global_candidate ::
  "discovery_policy \<Rightarrow> precall_fact list \<Rightarrow> str list \<times> candidate_target list \<Rightarrow> nat \<times> str
    \<Rightarrow> str list \<times> candidate_target list" where
  "global_candidate policy facts acc numbered =
     (let (seen, cands) = acc; (i, key) = numbered in
      if key \<in> set seen \<or> (\<exists>f \<in> set facts. pf_key f = key) then acc
      else (key # seen, cands @
        [(case priority_override_for policy key of Some prio \<Rightarrow> prio
          | None \<Rightarrow> if key \<in> set (dp_global_required_facts policy) then VP_HIGH else VP_LOW,
          1000 + int i, key,
          if key \<in> set (dp_global_required_facts policy) then ''campaign-wide requirement''
          else ''campaign-wide context'')]))"

fun PRIORITY_RANK :: "verification_priority \<Rightarrow> nat" where
  "PRIORITY_RANK VP_CRITICAL = 0"
| "PRIORITY_RANK VP_HIGH = 1"
| "PRIORITY_RANK VP_NORMAL = 2"
| "PRIORITY_RANK VP_LOW = 3"

definition target_candidates ::
  "precall_fact list \<Rightarrow> str list \<Rightarrow> discovery_policy \<Rightarrow> prerequisite_gap list \<Rightarrow> candidate_target list" where
  "target_candidates facts authorized policy gaps =
     snd (foldl (global_candidate policy facts)
       (foldl (fact_candidate policy (required_for gaps) (optional_for authorized policy)) ([], [])
          (enumerate 0 facts))
       (enumerate 0 (dp_global_required_facts policy @ dp_global_optional_facts policy)))"

definition verification_targets ::
  "precall_fact list \<Rightarrow> str list \<Rightarrow> discovery_policy \<Rightarrow> prerequisite_gap list \<Rightarrow> verification_target list res" where
  "verification_targets facts authorized policy gaps =
     rmap (\<lambda>(prio, tie, key, reason). mk_target \<lparr>vt_fact_key = key, vt_priority = prio,
             vt_reason = reason, vt_tie_breaker_index = tie\<rparr>)
       (sort_key (\<lambda>(prio, tie, key, reason). (PRIORITY_RANK prio, tie, key))
          (target_candidates facts authorized policy gaps))"

section \<open>The plan\<close>

definition UNKNOWN_GUARDRAILS :: "(str, assumption_guardrail) dict" where
  "UNKNOWN_GUARDRAILS =
     [(''website.presence'', AG_NO_WEBSITE), (''workflow.current_process'', AG_MANUAL_WORKFLOW),
      (''software.current_tools'', AG_MANUAL_WORKFLOW),
      (''customer_acquisition.primary_channel'', AG_CUSTOMER_ACQUISITION),
      (''seo.quality'', AG_BAD_SEO), (''decision_maker.identity'', AG_DECISION_MAKER),
      (''budget.availability'', AG_BUDGET), (''language.preferred'', AG_LANGUAGE)]"

definition guardrails :: "precall_fact list \<Rightarrow> assumption_guardrail set" where
  "guardrails facts = {AG_DECISION_MAKER, AG_BUDGET, AG_LANGUAGE}
     \<union> set (List.map_filter (\<lambda>f. if pf_state f \<in> {KS_UNKNOWN, KS_UNVERIFIED}
              then dget UNKNOWN_GUARDRAILS (pf_key f) else None) facts)"

definition knowledge_hints :: "str list \<Rightarrow> discovery_policy \<Rightarrow> str list" where
  "knowledge_hints authorized policy =
     foldl (\<lambda>hints sid. case rule_for policy sid of None \<Rightarrow> hints
        | Some rule \<Rightarrow> foldl (\<lambda>hs h. if h \<in> set hs then hs else hs @ [h]) hints
            (drl_knowledge_topic_hints rule)) [] authorized"

definition risk_flags :: "business_context \<Rightarrow> str list \<Rightarrow> precall_fact list \<Rightarrow> risk_flag set" where
  "risk_flags c authorized facts =
     (if authorized = [] then {RK_NO_CAMPAIGN_SERVICE_AUTHORIZED} else {})
     \<union> (if length (bucket facts KS_KNOWN) \<le> 1 then {RK_THIN_PROFILE} else {})
     \<union> (if bucket facts KS_CONFLICTING \<noteq> [] then {RK_CONFLICTING_ENRICHMENT} else {})
     \<union> (if \<not> truthy (ef_value (bctx_email c)) \<and> \<not> truthy (ef_value (bctx_contact_name c))
        then {RK_UNVERIFIED_CONTACT} else {})"

definition initial_posture_of :: "precall_fact list \<Rightarrow> initial_posture" where
  "initial_posture_of facts =
     (if bucket facts KS_CONFLICTING \<noteq> [] then IP_CONFLICTED_CONTEXT
      else if length (bucket facts KS_KNOWN) \<ge> 5 then IP_INFORMED_CONTEXT
      else if length (bucket facts KS_KNOWN) \<ge> 2 then IP_NORMAL_CONTEXT
      else IP_LOW_CONTEXT)"

definition opening_objective_of ::
  "verification_target option \<Rightarrow> business_context \<Rightarrow> precall_fact list \<Rightarrow> opening_objective" where
  "opening_objective_of primary c facts =
     (if \<exists>t \<in> set_option primary. vt_priority t = VP_CRITICAL then OO_VERIFY_CRITICAL_FACT
      else if \<exists>x \<in> set_option (bctx_campaign_context c). \<not> blank x then OO_RESUME_EXISTING_CONTEXT
      else if length (bucket facts KS_KNOWN) \<ge> 2 then OO_CONFIRM_BUSINESS_CONTEXT
      else if \<not> truthy (ef_value (bctx_contact_name c)) \<and> \<not> truthy (ef_value (bctx_email c))
      then OO_ESTABLISH_CONTACT
      else OO_EARN_PERMISSION)"

definition plan_of ::
  "business_context \<Rightarrow> campaign_config \<Rightarrow> discovery_policy \<Rightarrow> precall_fact list \<Rightarrow> prerequisite_gap list
    \<Rightarrow> verification_target list \<Rightarrow> conversation_plan" where
  "plan_of c campaign policy facts gaps targets =
     (let authorized = cf_authorized_service_ids campaign;
          primary = (case targets of [] \<Rightarrow> None | t # _ \<Rightarrow> Some t) in
     \<lparr>cpl_lead_id = bctx_lead_id c, cpl_campaign_id = bctx_campaign_id c,
       cpl_tenant_id = bctx_tenant_id c, cpl_policy_id = dp_policy_id policy,
       cpl_policy_version = dp_version policy, cpl_known_facts = bucket facts KS_KNOWN,
       cpl_unknown_facts = bucket facts KS_UNKNOWN, cpl_unverified_facts = bucket facts KS_UNVERIFIED,
       cpl_conflicting_facts = bucket facts KS_CONFLICTING, cpl_primary_target = primary,
       cpl_verification_targets = targets, cpl_opening_objective = opening_objective_of primary c facts,
       cpl_discovery_priorities = map vt_fact_key targets, cpl_allowed_service_context = authorized,
       cpl_prerequisite_gaps = gaps, cpl_assumption_guardrails = guardrails facts,
       cpl_knowledge_topics = knowledge_hints authorized policy,
       cpl_risk_flags = risk_flags c authorized facts,
       cpl_initial_posture = initial_posture_of facts,
       cpl_plan_status = (if authorized = [] then PlS_DEGRADED else PlS_READY)\<rparr>)"

definition precall_plan :: "business_context \<Rightarrow> campaign_config \<Rightarrow> discovery_policy \<Rightarrow> conversation_plan res" where
  "precall_plan c campaign policy =
     rbind (guard (bctx_tenant_id c = cf_tenant_id campaign) ValueError) (\<lambda>_.
     rbind (guard (bctx_campaign_id c = cf_campaign_id campaign) ValueError) (\<lambda>_.
     rbind (build_facts c) (\<lambda>facts.
     let authorized = cf_authorized_service_ids campaign in
     rbind (prerequisite_gaps authorized policy facts) (\<lambda>gaps.
     rbind (verification_targets facts authorized policy gaps) (\<lambda>targets.
     mk_plan (plan_of c campaign policy facts gaps targets))))))"

section \<open>What a plan says\<close>

lemma mk_fact_Inr: "mk_fact f = Inr g \<Longrightarrow> g = f"
  by (auto simp: mk_fact_def res_simps)

lemma mk_target_Inr: "mk_target t = Inr u \<Longrightarrow> u = t"
  by (auto simp: mk_target_def res_simps)

lemma mk_gap_Inr: "mk_gap g = Inr h \<Longrightarrow> h = g"
  by (auto simp: mk_gap_def res_simps)

lemma mk_plan_Inr: "mk_plan p = Inr q \<Longrightarrow> q = p"
  by (auto simp only: mk_plan_def res_simps sum.inject)

lemma website_fact_Inr:
  assumes "website_fact st = Inr f"
  shows "pf_key f = ''website.presence''"
    and "pf_state f \<in> {KS_UNKNOWN, KS_UNVERIFIED}
      \<longleftrightarrow> st \<notin> {WS_VERIFIED_PRESENT, WS_VERIFIED_ABSENT}"
  using assms by (auto simp: website_fact_def Let_def split: website_status.splits dest!: mk_fact_Inr)

lemma fact_from_enriched_key: "fact_from_enriched key field = Inr f \<Longrightarrow> pf_key f = key"
  by (auto simp: fact_from_enriched_def Let_def split: if_splits dest!: mk_fact_Inr)

definition fact_keys :: "str list" where
  "fact_keys = [''website.presence'', ''business.category'', ''contact.name'', ''contact.email'',
     ''location.city'', ''location.state'', ''location.country'', ''location.address'']"

lemma distinct_fact_keys: "distinct fact_keys"
  by (simp add: fact_keys_def)

lemma enriched_facts_keys:
  "rmap (\<lambda>(key, field). fact_from_enriched key field) kfs = Inr fs \<Longrightarrow> map pf_key fs = map fst kfs"
  by (induction kfs arbitrary: fs) (auto simp: res_simps dest!: fact_from_enriched_key)

lemma build_facts_keys:
  assumes "build_facts c = Inr facts"
  shows "map pf_key facts = fact_keys"
proof -
  from assms obtain w rest where w: "website_fact (bctx_website_status c) = Inr w"
    and rest: "rmap (\<lambda>(key, field). fact_from_enriched key field)
       [(''business.category'', bctx_category c), (''contact.name'', bctx_contact_name c),
        (''contact.email'', bctx_email c), (''location.city'', bctx_city c),
        (''location.state'', bctx_state c), (''location.country'', bctx_country c),
        (''location.address'', bctx_address c)] = Inr rest" and facts: "facts = w # rest"
    unfolding build_facts_def rbind_eq_Inr by blast
  from enriched_facts_keys [OF rest] website_fact_Inr(1) [OF w] show ?thesis
    by (simp add: facts fact_keys_def)
qed

lemma build_facts_website:
  assumes "build_facts c = Inr facts" "f \<in> set facts" "pf_key f = ''website.presence''"
  shows "pf_state f \<in> {KS_UNKNOWN, KS_UNVERIFIED}
    \<longleftrightarrow> bctx_website_status c \<notin> {WS_VERIFIED_PRESENT, WS_VERIFIED_ABSENT}"
proof -
  from assms(1) obtain w rest where w: "website_fact (bctx_website_status c) = Inr w"
    and facts: "facts = w # rest"
    unfolding build_facts_def rbind_eq_Inr by blast
  have "distinct (map pf_key facts)" using build_facts_keys [OF assms(1)] distinct_fact_keys by simp
  with facts assms(2,3) website_fact_Inr(1) [OF w] have "f = w" by force
  with website_fact_Inr(2) [OF w] show ?thesis by simp
qed

lemma bucket_member [simp]: "f \<in> set (bucket facts s) \<longleftrightarrow> f \<in> set facts \<and> pf_state f = s"
  by (auto simp: bucket_def)

lemma length_buckets:
  "length (bucket facts KS_KNOWN @ bucket facts KS_UNKNOWN @ bucket facts KS_UNVERIFIED
     @ bucket facts KS_CONFLICTING) = length facts"
proof (induction facts)
  case (Cons f fs)
  then show ?case by (cases "pf_state f") (simp_all add: bucket_def)
qed (simp add: bucket_def)

lemma fact_by_key_dget:
  assumes "distinct (map pf_key facts)"
  shows "dget (foldl (\<lambda>m f. dset (pf_key f) f m) d facts) k
    = (case List.find (\<lambda>f. pf_key f = k) facts of Some f \<Rightarrow> Some f | None \<Rightarrow> dget d k)"
  using assms
proof (induction facts arbitrary: d)
  case (Cons f fs)
  then have "k = pf_key f \<Longrightarrow> List.find (\<lambda>g. pf_key g = k) fs = None"
    by (simp only: find_None_all) (auto simp: rev_image_eqI)
  with Cons show ?case by (auto split: option.splits)
qed simp

lemma missing_facts_iff:
  assumes "distinct (map pf_key facts)"
  shows "set (missing_facts rule facts)
    = {k \<in> set (drl_required_fact_keys rule). \<not> (\<exists>f \<in> set facts. pf_key f = k \<and> pf_state f = KS_KNOWN)}"
proof -
  have "(case dget (fact_by_key facts) k of None \<Rightarrow> True | Some f \<Rightarrow> pf_state f \<noteq> KS_KNOWN)
      \<longleftrightarrow> \<not> (\<exists>f \<in> set facts. pf_key f = k \<and> pf_state f = KS_KNOWN)" for k
  proof (cases "List.find (\<lambda>f. pf_key f = k) facts")
    case None
    then show ?thesis using fact_by_key_dget [OF assms, of "[]" k] None
      by (simp add: fact_by_key_def) (use None in \<open>auto simp only: find_None_all\<close>)
  next
    case (Some f)
    then have f: "f \<in> set facts" "pf_key f = k" by (auto dest: find_Some_in)
    have "g = f" if "g \<in> set facts" "pf_key g = k" for g
      using inj_onD [of pf_key "set facts" g f] assms f that by (simp add: distinct_map)
    with f have "(\<exists>g \<in> set facts. pf_key g = k \<and> pf_state g = KS_KNOWN) \<longleftrightarrow> pf_state f = KS_KNOWN" by blast
    with Some fact_by_key_dget [OF assms, of "[]" k] show ?thesis
      by (simp add: fact_by_key_def)
  qed
  then show ?thesis unfolding missing_facts_def by auto
qed

lemma prerequisite_gaps_spec:
  "prerequisite_gaps sids policy facts = Inr gaps \<Longrightarrow>
     map (\<lambda>g. (pg_service_id g, pg_missing_fact_keys g)) gaps
     = filter (\<lambda>(_, m). m \<noteq> []) (List.map_filter
         (\<lambda>sid. map_option (\<lambda>r. (sid, missing_facts r facts)) (rule_for policy sid)) sids)"
  by (induction sids policy facts arbitrary: gaps rule: prerequisite_gaps.induct)
     (auto simp: List.map_filter_simps Let_def res_simps split: option.splits if_splits dest!: mk_gap_Inr)

abbreviation cand_key :: "candidate_target \<Rightarrow> str" where
  "cand_key \<equiv> \<lambda>(prio, tie, key, reason). key"

definition seen_inv :: "str list \<times> candidate_target list \<Rightarrow> bool" where
  "seen_inv acc \<longleftrightarrow> distinct (map cand_key (snd acc)) \<and> set (map cand_key (snd acc)) \<subseteq> set (fst acc)"

lemma fact_candidates_fold:
  fixes facts :: "(nat \<times> precall_fact) list" and policy required optional
  defines "step \<equiv> fact_candidate policy required optional"
  assumes "seen_inv acc"
  shows "seen_inv (foldl step acc facts)"
    and "set (snd acc) \<subseteq> set (snd (foldl step acc facts))"
    and "set (snd (foldl step acc facts)) \<subseteq> set (snd acc) \<union>
      {cd. \<exists>(i, f) \<in> set facts. pf_state f \<noteq> KS_KNOWN \<and> cand_key cd = pf_key f
         \<and> priority_for f policy required optional = Some (fst cd)}"
    and "(i, f) \<in> set facts \<Longrightarrow> distinct (map (pf_key \<circ> snd) facts) \<Longrightarrow> pf_key f \<notin> set (fst acc)
      \<Longrightarrow> pf_state f \<noteq> KS_KNOWN \<Longrightarrow> priority_for f policy required optional = Some prio
      \<Longrightarrow> \<exists>cd \<in> set (snd (foldl step acc facts)). cand_key cd = pf_key f \<and> fst cd = prio"
proof -
  have inv: "seen_inv (step acc nf)" if "seen_inv acc" for acc nf
    using that unfolding step_def
    by (cases acc; cases nf) (auto simp: seen_inv_def fact_candidate_def split: option.splits)
  have mono: "set (snd acc) \<subseteq> set (snd (step acc nf))" for acc nf
    unfolding step_def by (cases acc; cases nf) (auto simp: fact_candidate_def split: option.splits)
  have grow: "set (snd (step acc nf)) \<subseteq> set (snd acc) \<union>
      {cd. \<exists>(i, f) \<in> {nf}. pf_state f \<noteq> KS_KNOWN \<and> cand_key cd = pf_key f
         \<and> priority_for f policy required optional = Some (fst cd)}" for acc nf
    unfolding step_def by (cases acc; cases nf) (auto simp: fact_candidate_def split: option.splits)
  have seen: "set (fst (step acc (j, g))) \<subseteq> insert (pf_key g) (set (fst acc))" for acc j g
    unfolding step_def by (cases acc) (auto simp: fact_candidate_def split: option.splits)
  have adds: "\<exists>cd \<in> set (snd (step acc (j, g))). cand_key cd = pf_key g \<and> fst cd = prio"
    if "pf_key g \<notin> set (fst acc)" "pf_state g \<noteq> KS_KNOWN"
      "priority_for g policy required optional = Some prio" for acc j g
    using that unfolding step_def by (cases acc) (auto simp: fact_candidate_def)
  show "seen_inv (foldl step acc facts)"
    using assms(2) by (induction facts arbitrary: acc) (auto simp: inv)
  have upto: "set (snd acc) \<subseteq> set (snd (foldl step acc fs))" for acc fs
    using mono by (induction fs arbitrary: acc) (simp_all, blast)
  show "set (snd acc) \<subseteq> set (snd (foldl step acc facts))" by (rule upto)
  show "set (snd (foldl step acc facts)) \<subseteq> set (snd acc) \<union>
      {cd. \<exists>(i, f) \<in> set facts. pf_state f \<noteq> KS_KNOWN \<and> cand_key cd = pf_key f
         \<and> priority_for f policy required optional = Some (fst cd)}"
  proof (induction facts rule: rev_induct)
    case (snoc nf fs)
    then show ?case using grow [of "foldl step acc fs" nf] by (simp, blast)
  qed simp
  show "\<exists>cd \<in> set (snd (foldl step acc facts)). cand_key cd = pf_key f \<and> fst cd = prio"
    if "(i, f) \<in> set facts" "distinct (map (pf_key \<circ> snd) facts)" "pf_key f \<notin> set (fst acc)"
      "pf_state f \<noteq> KS_KNOWN" "priority_for f policy required optional = Some prio"
    using that
  proof (induction facts arbitrary: acc)
    case (Cons nf fs)
    show ?case
    proof (cases "nf = (i, f)")
      case True
      with adds [where g = f and acc = acc and j = i] Cons.prems
      obtain cd where "cd \<in> set (snd (step acc nf))" "cand_key cd = pf_key f" "fst cd = prio" by blast
      moreover from this(1) upto [of "step acc nf" fs] have "cd \<in> set (snd (foldl step acc (nf # fs)))" by auto
      ultimately show ?thesis by blast
    next
      case False
      obtain j g where nf: "nf = (j, g)" by force
      from False Cons.prems have "(i, f) \<in> set fs" by auto
      moreover from this Cons.prems nf have "pf_key f \<noteq> pf_key g" by force
      ultimately show ?thesis using Cons.IH [of "step acc nf"] Cons.prems seen [where acc = acc and j = j and g = g] nf by auto
    qed
  qed simp
qed

lemma global_candidates_fold:
  fixes keys :: "(nat \<times> str) list" and policy facts
  defines "step \<equiv> global_candidate policy facts"
  assumes "seen_inv acc"
  shows "seen_inv (foldl step acc keys)"
    and "set (snd acc) \<subseteq> set (snd (foldl step acc keys))"
    and "set (snd (foldl step acc keys)) \<subseteq> set (snd acc) \<union>
      {cd. \<exists>(i, k) \<in> set keys. cand_key cd = k \<and> (\<forall>f \<in> set facts. pf_key f \<noteq> k)
         \<and> (fst cd = VP_CRITICAL \<longrightarrow> priority_override_for policy k = Some VP_CRITICAL)}"
proof -
  have inv: "seen_inv (step acc nk)" if "seen_inv acc" for acc nk
    using that unfolding step_def
    by (cases acc; cases nk) (auto simp: seen_inv_def global_candidate_def)
  have mono: "set (snd acc) \<subseteq> set (snd (step acc nk))" for acc nk
    unfolding step_def by (cases acc; cases nk) (auto simp: global_candidate_def)
  have grow: "set (snd (step acc nk)) \<subseteq> set (snd acc) \<union>
      {cd. \<exists>(i, k) \<in> {nk}. cand_key cd = k \<and> (\<forall>f \<in> set facts. pf_key f \<noteq> k)
         \<and> (fst cd = VP_CRITICAL \<longrightarrow> priority_override_for policy k = Some VP_CRITICAL)}" for acc nk
    unfolding step_def
    by (cases acc; cases nk) (auto simp: global_candidate_def split: option.splits)
  show "seen_inv (foldl step acc keys)"
    using assms(2) by (induction keys arbitrary: acc) (auto simp: inv)
  show "set (snd acc) \<subseteq> set (snd (foldl step acc keys))"
    using mono by (induction keys arbitrary: acc) (simp_all, blast)
  show "set (snd (foldl step acc keys)) \<subseteq> set (snd acc) \<union>
      {cd. \<exists>(i, k) \<in> set keys. cand_key cd = k \<and> (\<forall>f \<in> set facts. pf_key f \<noteq> k)
         \<and> (fst cd = VP_CRITICAL \<longrightarrow> priority_override_for policy k = Some VP_CRITICAL)}"
  proof (induction keys rule: rev_induct)
    case (snoc nk ks)
    then show ?case using grow [of "foldl step acc ks" nk] by (simp, blast)
  qed simp
qed

lemma subset_bex: "\<exists>x \<in> A. P x \<Longrightarrow> A \<subseteq> B \<Longrightarrow> \<exists>x \<in> B. P x"
  by blast

lemma rmap_targets:
  "rmap (\<lambda>(prio, tie, key, reason). mk_target \<lparr>vt_fact_key = key, vt_priority = prio,
       vt_reason = reason, vt_tie_breaker_index = tie\<rparr>) cands = Inr ts
   \<Longrightarrow> ts = map (\<lambda>(prio, tie, key, reason). \<lparr>vt_fact_key = key, vt_priority = prio,
       vt_reason = reason, vt_tie_breaker_index = tie\<rparr>) cands"
  by (induction cands arbitrary: ts) (auto simp: res_simps dest!: mk_target_Inr)

lemma verification_targets_spec:
  assumes ok: "verification_targets facts authorized policy gaps = Inr ts"
    and dist: "distinct (map pf_key facts)"
  shows "sorted (map (\<lambda>t. (PRIORITY_RANK (vt_priority t), vt_tie_breaker_index t)) ts)"
    and "distinct (map vt_fact_key ts)"
    and "\<forall>t \<in> set ts. \<forall>f \<in> set facts. vt_fact_key t = pf_key f \<longrightarrow> pf_state f \<noteq> KS_KNOWN"
    and "\<forall>t \<in> set ts. vt_priority t = VP_CRITICAL
      \<longrightarrow> priority_override_for policy (vt_fact_key t) = Some VP_CRITICAL
        \<or> (\<exists>f \<in> set facts. vt_fact_key t = pf_key f \<and> pf_state f = KS_CONFLICTING)"
    and "\<forall>f \<in> set facts. pf_state f = KS_CONFLICTING \<longrightarrow> (\<exists>t \<in> set ts. vt_fact_key t = pf_key f
      \<and> (priority_override_for policy (pf_key f) = None \<longrightarrow> vt_priority t = VP_CRITICAL))"
proof -
  let ?mk = "\<lambda>(prio, tie, key, reason). \<lparr>vt_fact_key = key, vt_priority = prio,
       vt_reason = reason, vt_tie_breaker_index = tie\<rparr>"
  let ?sk = "\<lambda>(prio, tie, key, reason). (PRIORITY_RANK prio, tie, key)"
  let ?cands = "target_candidates facts authorized policy gaps"
  let ?fst = "foldl (fact_candidate policy (required_for gaps) (optional_for authorized policy)) ([], [])
      (enumerate 0 facts)"
  let ?sorted = "sort_key ?sk ?cands"
  from rmap_targets [OF ok [unfolded verification_targets_def]] have ts: "ts = map ?mk ?sorted" .
  have "sorted (map ?sk ?sorted)" by simp
  then have "sorted (map (\<lambda>cd. (PRIORITY_RANK (fst cd), fst (snd cd))) ?sorted)"
    by (auto simp: sorted_wrt_map elim!: sorted_wrt_mono_rel [rotated])
  then show "sorted (map (\<lambda>t. (PRIORITY_RANK (vt_priority t), vt_tie_breaker_index t)) ts)"
    by (simp add: ts comp_def case_prod_unfold)
  have mset_keys: "mset (map cand_key ?sorted) = mset (map cand_key ?cands)" by simp
  have empty: "seen_inv ([], [])" by (simp add: seen_inv_def)
  note ffold = fact_candidates_fold [OF empty, where policy = policy and required = "required_for gaps"
      and optional = "optional_for authorized policy" and facts = "enumerate 0 facts", simplified]
  note gfold = global_candidates_fold [OF ffold(1), where policy = policy and facts = facts
      and keys = "enumerate 0 (dp_global_required_facts policy @ dp_global_optional_facts policy)"]
  have key_mk: "vt_fact_key (?mk cd) = cand_key cd" "vt_priority (?mk cd) = fst cd" for cd
    by (simp_all add: case_prod_unfold)
  have "distinct (map cand_key ?cands)"
    using gfold(1) by (simp add: target_candidates_def seen_inv_def)
  with mset_keys have "distinct (map cand_key ?sorted)" by (metis mset_eq_imp_distinct_iff)
  then show "distinct (map vt_fact_key ts)" by (simp add: ts comp_def key_mk)
  have member: "t \<in> set ts \<longleftrightarrow> (\<exists>cd \<in> set ?cands. t = ?mk cd)" for t
    unfolding ts set_map set_sort image_iff by (rule refl)
  have origin: "(\<exists>f \<in> set facts. pf_state f \<noteq> KS_KNOWN \<and> cand_key cd = pf_key f
       \<and> priority_for f policy (required_for gaps) (optional_for authorized policy) = Some (fst cd))
     \<or> ((\<forall>f \<in> set facts. pf_key f \<noteq> cand_key cd)
       \<and> (fst cd = VP_CRITICAL \<longrightarrow> priority_override_for policy (cand_key cd) = Some VP_CRITICAL))"
    if cd: "cd \<in> set ?cands" for cd
    using subsetD [OF gfold(3) cd [unfolded target_candidates_def]]
  proof (elim UnE)
    assume "cd \<in> set (snd ?fst)"
    with subsetD [OF ffold(3) this] show ?thesis by (auto simp: in_set_enumerate_eq)
  qed auto
  have same: "f = g" if "f \<in> set facts" "g \<in> set facts" "pf_key f = pf_key g" for f g
    using inj_onD [of pf_key "set facts" f g] dist that by (simp add: distinct_map)
  show "\<forall>t \<in> set ts. \<forall>f \<in> set facts. vt_fact_key t = pf_key f \<longrightarrow> pf_state f \<noteq> KS_KNOWN"
  proof (intro ballI impI)
    fix t f assume t: "t \<in> set ts" and f: "f \<in> set facts" "vt_fact_key t = pf_key f"
    from t obtain cd where cd: "cd \<in> set ?cands" "t = ?mk cd" unfolding member by blast
    from f(2) have key: "cand_key cd = pf_key f" unfolding cd(2) key_mk .
    from origin [OF cd(1)] show "pf_state f \<noteq> KS_KNOWN"
    proof (elim disjE bexE conjE)
      fix g assume "g \<in> set facts" "pf_state g \<noteq> KS_KNOWN" "cand_key cd = pf_key g"
      with same [OF f(1), of g] key show ?thesis by simp
    qed (use f(1) key in \<open>metis\<close>)
  qed
  show "\<forall>t \<in> set ts. vt_priority t = VP_CRITICAL
      \<longrightarrow> priority_override_for policy (vt_fact_key t) = Some VP_CRITICAL
        \<or> (\<exists>f \<in> set facts. vt_fact_key t = pf_key f \<and> pf_state f = KS_CONFLICTING)"
  proof (intro ballI impI)
    fix t assume t: "t \<in> set ts" "vt_priority t = VP_CRITICAL"
    from t(1) obtain cd where cd': "cd \<in> set ?cands" "t = ?mk cd" unfolding member by blast
    from t(2) have "fst cd = VP_CRITICAL" unfolding cd'(2) key_mk .
    note cd = cd' this
    have crit: "priority_override_for policy (pf_key f) = Some VP_CRITICAL \<or> pf_state f = KS_CONFLICTING"
      if "priority_for f policy req opt = Some VP_CRITICAL" for f req opt
      using that by (auto simp: priority_for_def split: option.splits if_splits)
    have key: "vt_fact_key t = cand_key cd" unfolding cd(2) key_mk ..
    from origin [OF cd(1)]
    show "priority_override_for policy (vt_fact_key t) = Some VP_CRITICAL
        \<or> (\<exists>f \<in> set facts. vt_fact_key t = pf_key f \<and> pf_state f = KS_CONFLICTING)"
    proof (elim disjE bexE conjE)
      fix f assume f: "f \<in> set facts" "cand_key cd = pf_key f"
        "priority_for f policy (required_for gaps) (optional_for authorized policy) = Some (fst cd)"
      from crit [OF f(3) [unfolded cd(3)]] show ?thesis using f(1,2) key by auto
    qed (use cd(3) key in simp)
  qed
  show "\<forall>f \<in> set facts. pf_state f = KS_CONFLICTING \<longrightarrow> (\<exists>t \<in> set ts. vt_fact_key t = pf_key f
      \<and> (priority_override_for policy (pf_key f) = None \<longrightarrow> vt_priority t = VP_CRITICAL))"
  proof (intro ballI impI)
    fix f assume f: "f \<in> set facts" "pf_state f = KS_CONFLICTING"
    then obtain prio where prio: "priority_for f policy (required_for gaps)
        (optional_for authorized policy) = Some prio"
      "priority_override_for policy (pf_key f) = None \<Longrightarrow> prio = VP_CRITICAL"
      by (cases "priority_override_for policy (pf_key f)") (simp_all add: priority_for_def)
    from f obtain i where "i < length facts" "facts ! i = f" by (auto simp: in_set_conv_nth)
    then have "(i, f) \<in> set (enumerate 0 facts)" by (simp add: in_set_enumerate_eq)
    from ffold(4) [OF this _ _ prio(1)] f dist
    have "\<exists>cd \<in> set (snd ?fst). cand_key cd = pf_key f \<and> fst cd = prio"
      by (simp add: map_map [symmetric] del: map_map)
    with gfold(2) have "\<exists>cd \<in> set ?cands. cand_key cd = pf_key f \<and> fst cd = prio"
      unfolding target_candidates_def by (rule subset_bex [rotated])
    then obtain cd where cd: "cd \<in> set ?cands" "cand_key cd = pf_key f" "fst cd = prio" by blast
    from cd(1) have "?mk cd \<in> set ts" unfolding member by blast
    moreover have "vt_fact_key (?mk cd) = pf_key f" "vt_priority (?mk cd) = prio" using cd(2,3) key_mk by simp_all
    ultimately show "\<exists>t \<in> set ts. vt_fact_key t = pf_key f
      \<and> (priority_override_for policy (pf_key f) = None \<longrightarrow> vt_priority t = VP_CRITICAL)"
      using prio(2) by (metis (no_types, lifting))
  qed
qed

lemma precall_plan_Inr:
  assumes "precall_plan c campaign policy = Inr p"
  obtains facts where "build_facts c = Inr facts"
    and "prerequisite_gaps (cf_authorized_service_ids campaign) policy facts = Inr (cpl_prerequisite_gaps p)"
    and "verification_targets facts (cf_authorized_service_ids campaign) policy (cpl_prerequisite_gaps p)
      = Inr (cpl_verification_targets p)"
    and "cpl_primary_target p = (case cpl_verification_targets p of [] \<Rightarrow> None | t # _ \<Rightarrow> Some t)"
    and "cpl_known_facts p = bucket facts KS_KNOWN" "cpl_unknown_facts p = bucket facts KS_UNKNOWN"
    and "cpl_unverified_facts p = bucket facts KS_UNVERIFIED"
    and "cpl_conflicting_facts p = bucket facts KS_CONFLICTING"
    and "cpl_assumption_guardrails p = guardrails facts"
    and "cpl_plan_status p = (if cf_authorized_service_ids campaign = [] then PlS_DEGRADED else PlS_READY)"
    and "bctx_tenant_id c = cf_tenant_id campaign" "bctx_campaign_id c = cf_campaign_id campaign"
proof -
  from assms obtain facts gaps targets where
    ids: "guard (bctx_tenant_id c = cf_tenant_id campaign) ValueError = Inr ()"
      "guard (bctx_campaign_id c = cf_campaign_id campaign) ValueError = Inr ()"
    and ok: "build_facts c = Inr facts"
      "prerequisite_gaps (cf_authorized_service_ids campaign) policy facts = Inr gaps"
      "verification_targets facts (cf_authorized_service_ids campaign) policy gaps = Inr targets"
    and plan: "mk_plan (plan_of c campaign policy facts gaps targets) = Inr p"
    unfolding precall_plan_def Let_def rbind_eq_Inr by - (elim exE conjE, rule that, simp_all)
  from mk_plan_Inr [OF plan] have p: "p = plan_of c campaign policy facts gaps targets" .
  have fields: "cpl_prerequisite_gaps p = gaps" "cpl_verification_targets p = targets"
    by (simp_all add: p plan_of_def Let_def)
  show ?thesis
    by (rule that [of facts])
       (use ids in \<open>simp_all add: fields ok\<close>, simp_all add: p plan_of_def Let_def guard_def split: if_splits)
qed

lemma map_filter_member: "x \<in> set (List.map_filter h xs) \<longleftrightarrow> (\<exists>y \<in> set xs. h y = Some x)"
  by (induction xs) (auto simp: List.map_filter_simps split: option.splits)

lemma no_website_key:
  "(if P then dget UNKNOWN_GUARDRAILS k else None) = Some AG_NO_WEBSITE \<longleftrightarrow> k = ''website.presence'' \<and> P"
  by (simp add: UNKNOWN_GUARDRAILS_def)

lemma guardrail_website:
  assumes "build_facts c = Inr facts"
  shows "AG_NO_WEBSITE \<in> guardrails facts
    \<longleftrightarrow> bctx_website_status c \<notin> {WS_VERIFIED_PRESENT, WS_VERIFIED_ABSENT}"
proof -
  have "\<exists>f \<in> set facts. pf_key f = ''website.presence''"
    using build_facts_keys [OF assms] by (cases facts) (auto simp: fact_keys_def)
  moreover have "AG_NO_WEBSITE \<in> guardrails facts \<longleftrightarrow> (\<exists>f \<in> set facts. pf_key f = ''website.presence''
      \<and> pf_state f \<in> {KS_UNKNOWN, KS_UNVERIFIED})"
    unfolding guardrails_def by (simp add: map_filter_member no_website_key)
  ultimately show ?thesis using build_facts_website [OF assms] by blast
qed


definition sample_discovery :: discovery_policy where
  "sample_discovery = \<lparr>dp_policy_id = ''p'', dp_version = ''1'', dp_service_rules =
      [\<lparr>drl_service_id = ''web'', drl_required_fact_keys = [''website.presence''],
        drl_optional_fact_keys = [''location.city''], drl_knowledge_topic_hints = [''sites'']\<rparr>],
     dp_global_required_facts = [''budget.availability''], dp_global_optional_facts = [],
     dp_priority_overrides = []\<rparr>"

definition planned_lead :: business_context where
  "planned_lead = projr (reconcile (lead_fixture\<lparr>lrec_tenant_id := ''t'', lrec_campaign_id := ''c''\<rparr>) None)"

definition planned_campaign :: campaign_config where
  "planned_campaign = sample_campaign\<lparr>cf_authorized_service_ids := [''web'']\<rparr>"


end
