(* ===== verification/Documents.thy ===== *)
theory Documents
  imports ChatRuntime Precall
begin

text \<open>
  The JSON documents the program stores (\<^verbatim>\<open>persistence/sqlite/serializers.py\<close> and the
  serialiser of \<^verbatim>\<open>snapshot_store.py\<close>): transcripts, discovery policies, pre-call plans
  and runtime snapshots, with the errors of a malformed document.

  A text column holds either text that is not JSON or a document; \<^verbatim>\<open>json.dumps\<close> and
  \<^verbatim>\<open>json.loads\<close> are inverse on documents. A string field that holds something else is a
  \<^verbatim>\<open>TypeError\<close> here, where Python builds an object with a field of the wrong type.
\<close>

section \<open>JSON\<close>

datatype json =
    JNull | JBool bool | JInt int | JFloat py_float | JStr str | JArr "json list" | JObj "(str \<times> json) list"

datatype payload = Empty_text | Malformed_text | Document json

text \<open>\<^verbatim>\<open>json.loads\<close>, \<^verbatim>\<open>d[k]\<close>, \<^verbatim>\<open>d.get(k, default)\<close>, iteration, \<^verbatim>\<open>int()\<close> and truth.\<close>

fun json_loads :: "payload \<Rightarrow> json res" where
  "json_loads (Document j) = Inr j"
| "json_loads _ = Inl ValueError"

fun j_item :: "json \<Rightarrow> str \<Rightarrow> json res" where
  "j_item (JObj d) k = option_res KeyError (dget d k)"
| "j_item _ k = Inl TypeError"

fun j_get :: "json \<Rightarrow> str \<Rightarrow> json \<Rightarrow> json res" where
  "j_get (JObj d) k otherwise = Inr (case dget d k of None \<Rightarrow> otherwise | Some v \<Rightarrow> v)"
| "j_get _ k otherwise = Inl AttributeError"

fun j_iter :: "json \<Rightarrow> json list res" where
  "j_iter (JArr xs) = Inr xs"
| "j_iter (JObj d) = Inr (map JStr (dkeys d))"
| "j_iter (JStr s) = Inr (map (\<lambda>c. JStr [c]) s)"
| "j_iter _ = Inl TypeError"

definition is_digit :: "char \<Rightarrow> bool" where
  "is_digit c \<longleftrightarrow> 48 \<le> (of_char c :: nat) \<and> (of_char c :: nat) \<le> 57"

fun digits_value :: "int \<Rightarrow> str \<Rightarrow> int option" where
  "digits_value acc [] = Some acc"
| "digits_value acc (c # cs) =
     (if is_digit c then digits_value (acc * 10 + (of_char c - 48)) cs
      else if c = CHR ''_'' \<and> cs \<noteq> [] \<and> is_digit (hd cs) then digits_value acc cs
      else None)"

definition int_of_text :: "str \<Rightarrow> int option" where
  "int_of_text s =
     (let t = py_strip s;
          digits = (\<lambda>u. if u \<noteq> [] \<and> is_digit (hd u) then digits_value 0 u else None) in
      case t of [] \<Rightarrow> None
      | c # u \<Rightarrow> if c = CHR ''-'' then map_option uminus (digits u)
          else if c = CHR ''+'' then digits u else digits t)"

fun j_int :: "json \<Rightarrow> int res" where
  "j_int (JInt n) = Inr n"
| "j_int (JBool b) = Inr (if b then 1 else 0)"
| "j_int (JFloat (Fin q)) = Inr (if 0 \<le> q then \<lfloor>q\<rfloor> else \<lceil>q\<rceil>)"
| "j_int (JFloat NaN) = Inl ValueError"
| "j_int (JFloat _) = Inl OverflowError"
| "j_int (JStr s) = option_res ValueError (int_of_text s)"
| "j_int _ = Inl TypeError"

fun j_truthy :: "json \<Rightarrow> bool" where
  "j_truthy JNull = False"
| "j_truthy (JBool b) = b"
| "j_truthy (JInt n) = (n \<noteq> 0)"
| "j_truthy (JFloat x) = (x \<noteq> Fin 0)"
| "j_truthy (JStr s) = (s \<noteq> [])"
| "j_truthy (JArr xs) = (xs \<noteq> [])"
| "j_truthy (JObj d) = (d \<noteq> [])"

fun j_str :: "json \<Rightarrow> str res" where
  "j_str (JStr s) = Inr s"
| "j_str _ = Inl TypeError"

fun j_opt_str :: "json \<Rightarrow> str option res" where
  "j_opt_str JNull = Inr None"
| "j_opt_str (JStr s) = Inr (Some s)"
| "j_opt_str _ = Inl TypeError"

definition j_strs :: "json \<Rightarrow> str list res" where
  "j_strs j = rbind (j_iter j) (rmap j_str)"

definition opt_json :: "str option \<Rightarrow> json" where
  "opt_json v = (case v of None \<Rightarrow> JNull | Some s \<Rightarrow> JStr s)"

definition strs_json :: "str list \<Rightarrow> json" where
  "strs_json ss = JArr (map JStr ss)"

text \<open>\<^verbatim>\<open>E(value)\<close> of an enumeration.\<close>

definition enum_of :: "('a \<Rightarrow> str) \<Rightarrow> 'a list \<Rightarrow> str \<Rightarrow> 'a res" where
  "enum_of value members s = option_res ValueError (List.find (\<lambda>x. value x = s) members)"

fun j_enum :: "('a \<Rightarrow> str) \<Rightarrow> 'a list \<Rightarrow> json \<Rightarrow> 'a res" where
  "j_enum value members (JStr s) = enum_of value members s"
| "j_enum value members _ = Inl ValueError"

definition j_enums :: "('a \<Rightarrow> str) \<Rightarrow> 'a list \<Rightarrow> json \<Rightarrow> 'a set res" where
  "j_enums value members j =
     rbind (j_iter j) (\<lambda>xs. rbind (rmap (j_enum value members) xs) (\<lambda>ys. Inr (set ys)))"

definition enums_json :: "('a \<Rightarrow> str) \<Rightarrow> 'a set \<Rightarrow> json" where
  "enums_json value s = JArr (map JStr (sorted_list_of_set (value ` s)))"

text \<open>\<^verbatim>\<open>except (KeyError, ValueError, TypeError)\<close>.\<close>

fun payload_errors :: "'a res \<Rightarrow> 'a res" where
  "payload_errors (Inr x) = Inr x"
| "payload_errors (Inl e) =
     Inl (if e \<in> {KeyError, ValueError, TypeError} then InvalidPersistedPayloadError else e)"

section \<open>Values of the enumerations\<close>

fun role_value :: "transcript_role \<Rightarrow> str" where
  "role_value Role_PROSPECT = ''prospect''"
| "role_value Role_AGENT = ''agent''"
| "role_value Role_SYSTEM = ''system''"

definition all_role :: "transcript_role list" where
  "all_role = [Role_PROSPECT, Role_AGENT, Role_SYSTEM]"

fun status_value :: "session_status \<Rightarrow> str" where
  "status_value SS_ACTIVE = ''active''"
| "status_value SS_COMPLETED = ''completed''"
| "status_value SS_TERMINATED = ''terminated''"
| "status_value SS_ERROR = ''error''"

definition all_status :: "session_status list" where
  "all_status = [SS_ACTIVE, SS_COMPLETED, SS_TERMINATED, SS_ERROR]"

fun mode_value :: "runtime_mode \<Rightarrow> str" where
  "mode_value Mode_INTERACTIVE = ''interactive''"
| "mode_value Mode_SIMULATION = ''simulation''"

definition all_mode :: "runtime_mode list" where
  "all_mode = [Mode_INTERACTIVE, Mode_SIMULATION]"

fun knowledge_value :: "knowledge_state \<Rightarrow> str" where
  "knowledge_value KS_KNOWN = ''known''"
| "knowledge_value KS_UNKNOWN = ''unknown''"
| "knowledge_value KS_CONFLICTING = ''conflicting''"
| "knowledge_value KS_UNVERIFIED = ''unverified''"

definition all_knowledge :: "knowledge_state list" where
  "all_knowledge = [KS_KNOWN, KS_UNKNOWN, KS_CONFLICTING, KS_UNVERIFIED]"

fun priority_value :: "verification_priority \<Rightarrow> str" where
  "priority_value VP_CRITICAL = ''critical''"
| "priority_value VP_HIGH = ''high''"
| "priority_value VP_NORMAL = ''normal''"
| "priority_value VP_LOW = ''low''"

definition all_priority :: "verification_priority list" where
  "all_priority = [VP_CRITICAL, VP_HIGH, VP_NORMAL, VP_LOW]"

fun objective_value :: "opening_objective \<Rightarrow> str" where
  "objective_value OO_ESTABLISH_CONTACT = ''establish_contact''"
| "objective_value OO_EARN_PERMISSION = ''earn_permission''"
| "objective_value OO_CONFIRM_BUSINESS_CONTEXT = ''confirm_business_context''"
| "objective_value OO_VERIFY_CRITICAL_FACT = ''verify_critical_fact''"
| "objective_value OO_RESUME_EXISTING_CONTEXT = ''resume_existing_context''"

definition all_objective :: "opening_objective list" where
  "all_objective = [OO_ESTABLISH_CONTACT, OO_EARN_PERMISSION, OO_CONFIRM_BUSINESS_CONTEXT, OO_VERIFY_CRITICAL_FACT, OO_RESUME_EXISTING_CONTEXT]"

fun posture_value :: "initial_posture \<Rightarrow> str" where
  "posture_value IP_LOW_CONTEXT = ''low_context''"
| "posture_value IP_NORMAL_CONTEXT = ''normal_context''"
| "posture_value IP_INFORMED_CONTEXT = ''informed_context''"
| "posture_value IP_CONFLICTED_CONTEXT = ''conflicted_context''"

definition all_posture :: "initial_posture list" where
  "all_posture = [IP_LOW_CONTEXT, IP_NORMAL_CONTEXT, IP_INFORMED_CONTEXT, IP_CONFLICTED_CONTEXT]"

fun plan_status_value :: "plan_status \<Rightarrow> str" where
  "plan_status_value PlS_READY = ''ready''"
| "plan_status_value PlS_DEGRADED = ''degraded''"

definition all_plan_status :: "plan_status list" where
  "all_plan_status = [PlS_READY, PlS_DEGRADED]"

fun guardrail_value :: "assumption_guardrail \<Rightarrow> str" where
  "guardrail_value AG_NO_WEBSITE = ''do_not_assume_no_website''"
| "guardrail_value AG_BAD_SEO = ''do_not_assume_bad_seo''"
| "guardrail_value AG_MANUAL_WORKFLOW = ''do_not_assume_manual_workflow''"
| "guardrail_value AG_DECISION_MAKER = ''do_not_assume_decision_maker''"
| "guardrail_value AG_BUDGET = ''do_not_assume_budget''"
| "guardrail_value AG_LANGUAGE = ''do_not_assume_language''"
| "guardrail_value AG_CUSTOMER_ACQUISITION = ''do_not_assume_customer_acquisition''"

definition all_guardrail :: "assumption_guardrail list" where
  "all_guardrail = [AG_NO_WEBSITE, AG_BAD_SEO, AG_MANUAL_WORKFLOW, AG_DECISION_MAKER, AG_BUDGET, AG_LANGUAGE, AG_CUSTOMER_ACQUISITION]"

fun risk_value :: "risk_flag \<Rightarrow> str" where
  "risk_value RK_THIN_PROFILE = ''thin_profile''"
| "risk_value RK_CONFLICTING_ENRICHMENT = ''conflicting_enrichment''"
| "risk_value RK_NO_CAMPAIGN_SERVICE_AUTHORIZED = ''no_campaign_service_authorized''"
| "risk_value RK_UNVERIFIED_CONTACT = ''unverified_contact''"

definition all_risk :: "risk_flag list" where
  "all_risk = [RK_THIN_PROFILE, RK_CONFLICTING_ENRICHMENT, RK_NO_CAMPAIGN_SERVICE_AUTHORIZED, RK_UNVERIFIED_CONTACT]"

lemma role_of_value [simp]: "enum_of role_value all_role (role_value x) = Inr x"
  by (cases x) (simp_all add: enum_of_def all_role_def)

lemma status_of_value [simp]: "enum_of status_value all_status (status_value x) = Inr x"
  by (cases x) (simp_all add: enum_of_def all_status_def)

lemma mode_of_value [simp]: "enum_of mode_value all_mode (mode_value x) = Inr x"
  by (cases x) (simp_all add: enum_of_def all_mode_def)

lemma knowledge_of_value [simp]: "enum_of knowledge_value all_knowledge (knowledge_value x) = Inr x"
  by (cases x) (simp_all add: enum_of_def all_knowledge_def)

lemma priority_of_value [simp]: "enum_of priority_value all_priority (priority_value x) = Inr x"
  by (cases x) (simp_all add: enum_of_def all_priority_def)

lemma objective_of_value [simp]: "enum_of objective_value all_objective (objective_value x) = Inr x"
  by (cases x) (simp_all add: enum_of_def all_objective_def)

lemma posture_of_value [simp]: "enum_of posture_value all_posture (posture_value x) = Inr x"
  by (cases x) (simp_all add: enum_of_def all_posture_def)

lemma plan_status_of_value [simp]: "enum_of plan_status_value all_plan_status (plan_status_value x) = Inr x"
  by (cases x) (simp_all add: enum_of_def all_plan_status_def)

lemma guardrail_of_value [simp]: "enum_of guardrail_value all_guardrail (guardrail_value x) = Inr x"
  by (cases x) (simp_all add: enum_of_def all_guardrail_def)

lemma risk_of_value [simp]: "enum_of risk_value all_risk (risk_value x) = Inr x"
  by (cases x) (simp_all add: enum_of_def all_risk_def)

lemma state_of_value [simp]:
  "enum_of conversation_state_value all_conversation_state (conversation_state_value x) = Inr x"
  using conversation_state_of_value [of x] by (simp add: enum_of_def conversation_state_of_def)

section \<open>Transcripts\<close>

definition transcript_to_json :: "transcript_entry list \<Rightarrow> payload" where
  "transcript_to_json entries = Document (JArr (map (\<lambda>e.
     JObj [(''turn_sequence'', JInt (te_turn_sequence e)), (''role'', JStr (role_value (te_role e))),
           (''text'', JStr (te_text e))]) entries))"

definition entry_from_json :: "json \<Rightarrow> transcript_entry res" where
  "entry_from_json e =
     rbind (rbind (j_item e ''turn_sequence'') j_int) (\<lambda>seq.
     rbind (rbind (j_item e ''role'') (j_enum role_value all_role)) (\<lambda>role.
     rbind (rbind (j_item e ''text'') j_str) (\<lambda>txt.
     mk_transcript_entry seq role txt)))"

definition transcript_from_json :: "payload \<Rightarrow> transcript_entry list res" where
  "transcript_from_json p =
     rbind (if p = Empty_text then Inr (JArr []) else payload_errors (json_loads p)) (\<lambda>raw.
     payload_errors (rbind (j_iter raw) (rmap entry_from_json)))"

section \<open>Discovery policies\<close>

definition rule_to_json :: "discovery_rule \<Rightarrow> json" where
  "rule_to_json r = JObj [(''service_id'', JStr (drl_service_id r)),
     (''required_fact_keys'', strs_json (drl_required_fact_keys r)),
     (''optional_fact_keys'', strs_json (drl_optional_fact_keys r)),
     (''knowledge_topic_hints'', strs_json (drl_knowledge_topic_hints r))]"

definition policy_to_json :: "discovery_policy \<Rightarrow> payload" where
  "policy_to_json p = Document (JObj [(''policy_id'', JStr (dp_policy_id p)),
     (''version'', JStr (dp_version p)),
     (''service_rules'', JArr (map rule_to_json (dp_service_rules p))),
     (''global_required_facts'', strs_json (dp_global_required_facts p)),
     (''global_optional_facts'', strs_json (dp_global_optional_facts p)),
     (''priority_overrides'', JArr (map (\<lambda>(key, prio). JArr [JStr key, JStr (priority_value prio)])
        (dp_priority_overrides p)))])"

text \<open>\<^verbatim>\<open>tuple(d.get(key, ()))\<close> of strings.\<close>

definition get_strs :: "json \<Rightarrow> str \<Rightarrow> str list res" where
  "get_strs d key = rbind (j_get d key (JArr [])) j_strs"

definition rule_from_json :: "json \<Rightarrow> discovery_rule res" where
  "rule_from_json r =
     rbind (rbind (j_item r ''service_id'') j_str) (\<lambda>sid.
     rbind (get_strs r ''required_fact_keys'') (\<lambda>required.
     rbind (get_strs r ''optional_fact_keys'') (\<lambda>optional.
     rbind (get_strs r ''knowledge_topic_hints'') (\<lambda>hints.
     mk_discovery_rule \<lparr>drl_service_id = sid, drl_required_fact_keys = required,
       drl_optional_fact_keys = optional, drl_knowledge_topic_hints = hints\<rparr>))))"

text \<open>\<^verbatim>\<open>for key, value in ...\<close>: every element unpacks into two.\<close>

definition j_pair :: "json \<Rightarrow> (json \<times> json) res" where
  "j_pair j = rbind (j_iter j) (\<lambda>xs. case xs of [a, b] \<Rightarrow> Inr (a, b) | _ \<Rightarrow> Inl ValueError)"

definition override_from_json :: "json \<Rightarrow> (str \<times> verification_priority) res" where
  "override_from_json j =
     rbind (j_pair j) (\<lambda>(key, value).
     rbind (j_enum priority_value all_priority value) (\<lambda>prio.
     rbind (j_str key) (\<lambda>k. Inr (k, prio))))"

definition policy_from_json :: "payload \<Rightarrow> discovery_policy res" where
  "policy_from_json p =
     rbind (payload_errors (json_loads p)) (\<lambda>raw. payload_errors (
     rbind (rbind (rbind (j_get raw ''service_rules'' (JArr [])) j_iter) (rmap rule_from_json)) (\<lambda>rules.
     rbind (rbind (rbind (j_get raw ''priority_overrides'' (JArr [])) j_iter) (rmap override_from_json)) (\<lambda>overrides.
     rbind (rbind (j_item raw ''policy_id'') j_str) (\<lambda>policy_id.
     rbind (rbind (j_item raw ''version'') j_str) (\<lambda>version.
     rbind (get_strs raw ''global_required_facts'') (\<lambda>required.
     rbind (get_strs raw ''global_optional_facts'') (\<lambda>optional.
     mk_discovery_policy \<lparr>dp_policy_id = policy_id, dp_version = version, dp_service_rules = rules,
       dp_global_required_facts = required, dp_global_optional_facts = optional,
       dp_priority_overrides = overrides\<rparr>))))))))"

section \<open>Pre-call plans\<close>

definition fact_to_dict :: "precall_fact \<Rightarrow> json" where
  "fact_to_dict f = JObj [(''key'', JStr (pf_key f)), (''state'', JStr (knowledge_value (pf_state f))),
     (''value'', opt_json (pf_value f)), (''sources'', strs_json (pf_sources f)),
     (''conflict_detail'', opt_json (pf_conflict_detail f))]"

definition fact_from_dict :: "json \<Rightarrow> precall_fact res" where
  "fact_from_dict d =
     rbind (rbind (j_item d ''key'') j_str) (\<lambda>key.
     rbind (rbind (j_item d ''state'') (j_enum knowledge_value all_knowledge)) (\<lambda>state.
     rbind (rbind (j_get d ''value'' JNull) j_opt_str) (\<lambda>v.
     rbind (get_strs d ''sources'') (\<lambda>sources.
     rbind (rbind (j_get d ''conflict_detail'' JNull) j_opt_str) (\<lambda>detail.
     mk_fact \<lparr>pf_key = key, pf_state = state, pf_value = v, pf_sources = sources,
       pf_conflict_detail = detail\<rparr>)))))"

definition target_to_dict :: "verification_target \<Rightarrow> json" where
  "target_to_dict t = JObj [(''fact_key'', JStr (vt_fact_key t)),
     (''priority'', JStr (priority_value (vt_priority t))), (''reason'', JStr (vt_reason t)),
     (''tie_breaker_index'', JInt (vt_tie_breaker_index t))]"

definition target_from_dict :: "json \<Rightarrow> verification_target res" where
  "target_from_dict d =
     rbind (rbind (j_item d ''fact_key'') j_str) (\<lambda>key.
     rbind (rbind (j_item d ''priority'') (j_enum priority_value all_priority)) (\<lambda>prio.
     rbind (rbind (j_item d ''reason'') j_str) (\<lambda>reason.
     rbind (rbind (j_item d ''tie_breaker_index'') j_int) (\<lambda>tie.
     mk_target \<lparr>vt_fact_key = key, vt_priority = prio, vt_reason = reason, vt_tie_breaker_index = tie\<rparr>))))"

definition gap_to_dict :: "prerequisite_gap \<Rightarrow> json" where
  "gap_to_dict g = JObj [(''service_id'', JStr (pg_service_id g)),
     (''missing_fact_keys'', strs_json (pg_missing_fact_keys g))]"

definition gap_from_dict :: "json \<Rightarrow> prerequisite_gap res" where
  "gap_from_dict d =
     rbind (rbind (j_item d ''service_id'') j_str) (\<lambda>sid.
     rbind (rbind (j_item d ''missing_fact_keys'') j_strs) (\<lambda>missing.
     mk_gap \<lparr>pg_service_id = sid, pg_missing_fact_keys = missing\<rparr>))"

definition plan_to_dict :: "conversation_plan \<Rightarrow> (str \<times> json) list" where
  "plan_to_dict p =
     [(''lead_id'', JStr (cpl_lead_id p)), (''campaign_id'', JStr (cpl_campaign_id p)),
      (''tenant_id'', JStr (cpl_tenant_id p)), (''policy_id'', JStr (cpl_policy_id p)),
      (''policy_version'', JStr (cpl_policy_version p)),
      (''known_facts'', JArr (map fact_to_dict (cpl_known_facts p))),
      (''unknown_facts'', JArr (map fact_to_dict (cpl_unknown_facts p))),
      (''unverified_facts'', JArr (map fact_to_dict (cpl_unverified_facts p))),
      (''conflicting_facts'', JArr (map fact_to_dict (cpl_conflicting_facts p))),
      (''verification_targets'', JArr (map target_to_dict (cpl_verification_targets p))),
      (''primary_initial_discovery_target'',
         case cpl_primary_target p of None \<Rightarrow> JNull | Some t \<Rightarrow> target_to_dict t),
      (''opening_objective'', JStr (objective_value (cpl_opening_objective p))),
      (''discovery_priorities'', strs_json (cpl_discovery_priorities p)),
      (''allowed_service_context'', strs_json (cpl_allowed_service_context p)),
      (''service_prerequisite_gaps'', JArr (map gap_to_dict (cpl_prerequisite_gaps p))),
      (''assumption_guardrails'', enums_json guardrail_value (cpl_assumption_guardrails p)),
      (''knowledge_topics_likely_needed'', strs_json (cpl_knowledge_topics p)),
      (''risk_flags'', enums_json risk_value (cpl_risk_flags p)),
      (''initial_posture'', JStr (posture_value (cpl_initial_posture p))),
      (''plan_status'', JStr (plan_status_value (cpl_plan_status p)))]"

definition plan_to_json :: "conversation_plan \<Rightarrow> payload" where
  "plan_to_json p = Document (JObj (plan_to_dict p))"

definition get_list :: "json \<Rightarrow> str \<Rightarrow> (json \<Rightarrow> 'a res) \<Rightarrow> 'a list res" where
  "get_list d key f = rbind (rbind (j_get d key (JArr [])) j_iter) (rmap f)"

definition plan_from_dict :: "json \<Rightarrow> conversation_plan res" where
  "plan_from_dict raw =
     rbind (j_get raw ''primary_initial_discovery_target'' JNull) (\<lambda>prim.
     rbind (rbind (j_item raw ''lead_id'') j_str) (\<lambda>lead.
     rbind (rbind (j_item raw ''campaign_id'') j_str) (\<lambda>campaign.
     rbind (rbind (j_item raw ''tenant_id'') j_str) (\<lambda>tenant.
     rbind (rbind (j_item raw ''policy_id'') j_str) (\<lambda>policy_id.
     rbind (rbind (j_item raw ''policy_version'') j_str) (\<lambda>policy_version.
     rbind (get_list raw ''known_facts'' fact_from_dict) (\<lambda>known.
     rbind (get_list raw ''unknown_facts'' fact_from_dict) (\<lambda>unknown.
     rbind (get_list raw ''unverified_facts'' fact_from_dict) (\<lambda>unverified.
     rbind (get_list raw ''conflicting_facts'' fact_from_dict) (\<lambda>conflicting.
     rbind (get_list raw ''verification_targets'' target_from_dict) (\<lambda>targets.
     rbind (if j_truthy prim then rmap target_from_dict [prim] else Inr []) (\<lambda>primary.
     rbind (rbind (j_item raw ''opening_objective'') (j_enum objective_value all_objective)) (\<lambda>objective.
     rbind (get_strs raw ''discovery_priorities'') (\<lambda>priorities.
     rbind (get_strs raw ''allowed_service_context'') (\<lambda>services.
     rbind (get_list raw ''service_prerequisite_gaps'' gap_from_dict) (\<lambda>gaps.
     rbind (rbind (j_get raw ''assumption_guardrails'' (JArr [])) (j_enums guardrail_value all_guardrail)) (\<lambda>rails.
     rbind (get_strs raw ''knowledge_topics_likely_needed'') (\<lambda>topics.
     rbind (rbind (j_get raw ''risk_flags'' (JArr [])) (j_enums risk_value all_risk)) (\<lambda>risks.
     rbind (rbind (j_item raw ''initial_posture'') (j_enum posture_value all_posture)) (\<lambda>posture.
     rbind (rbind (j_item raw ''plan_status'') (j_enum plan_status_value all_plan_status)) (\<lambda>status.
     mk_plan \<lparr>cpl_lead_id = lead, cpl_campaign_id = campaign, cpl_tenant_id = tenant,
       cpl_policy_id = policy_id, cpl_policy_version = policy_version, cpl_known_facts = known,
       cpl_unknown_facts = unknown, cpl_unverified_facts = unverified,
       cpl_conflicting_facts = conflicting,
       cpl_primary_target = (case primary of [] \<Rightarrow> None | t # _ \<Rightarrow> Some t),
       cpl_verification_targets = targets, cpl_opening_objective = objective,
       cpl_discovery_priorities = priorities, cpl_allowed_service_context = services,
       cpl_prerequisite_gaps = gaps, cpl_assumption_guardrails = rails,
       cpl_knowledge_topics = topics, cpl_risk_flags = risks, cpl_initial_posture = posture,
       cpl_plan_status = status\<rparr>)))))))))))))))))))))"

definition plan_from_json :: "payload option \<Rightarrow> conversation_plan option res" where
  "plan_from_json col = (case col of
       None \<Rightarrow> Inr None
     | Some p \<Rightarrow> rbind (payload_errors (json_loads p)) (\<lambda>raw.
         rbind (payload_errors (plan_from_dict raw)) (\<lambda>plan. Inr (Some plan))))"

section \<open>Reading back what was written\<close>

named_theorems json_simps "evaluation of JSON accessors"

lemma j_strs_json [simp]: "j_strs (strs_json ss) = Inr ss"
proof -
  have "rmap j_str (map JStr ss) = Inr ss" by (induction ss) simp_all
  then show ?thesis by (simp add: j_strs_def strs_json_def)
qed

lemma j_opt_str_json [simp]: "j_opt_str (opt_json v) = Inr v"
  by (cases v) (simp_all add: opt_json_def)

lemma rmap_map_id: "(\<And>x. x \<in> set xs \<Longrightarrow> f (g x) = Inr x) \<Longrightarrow> rmap f (map g xs) = Inr xs"
  by (induction xs) simp_all

lemma j_enums_json:
  assumes ok: "\<And>x. enum_of value members (value x) = Inr x"
  shows "j_enums value members (enums_json value s) = Inr s"
proof -
  have mem: "x \<in> set members" for x
    using ok [of x] by (auto simp: enum_of_def dest!: find_Some_in)
  then have "s \<subseteq> set members" by blast
  then have fin: "finite s" by (rule finite_subset) simp
  have inj: "inj_on value s" by (rule inj_onI) (metis ok sum.inject(2))
  let ?xs = "map (the_inv_into s value) (sorted_list_of_set (value ` s))"
  have "map value ?xs = sorted_list_of_set (value ` s)"
    using fin by (auto intro!: map_idI simp: f_the_inv_into_f [OF inj])
  then have "map JStr (sorted_list_of_set (value ` s)) = map (JStr \<circ> value) ?xs" by (metis map_map)
  moreover have "rmap (j_enum value members) (map (JStr \<circ> value) ?xs) = Inr ?xs"
    by (rule rmap_map_id) (simp add: ok)
  moreover have "set ?xs = s"
    using fin inj by (auto simp: the_inv_into_f_f image_iff)
  ultimately show ?thesis
    unfolding j_enums_def enums_json_def j_iter.simps rbind_simps by (simp only: rbind_simps)
qed

lemmas from_json_simps = option_res_simps j_enums_json get_strs_def get_list_def

text \<open>A plan whose parts were all accepted by their constructors.\<close>

definition plan_valid :: "conversation_plan \<Rightarrow> bool" where
  "plan_valid p \<longleftrightarrow> mk_plan p = Inr p \<and> (\<forall>f \<in> set (all_plan_facts p). mk_fact f = Inr f)
     \<and> (\<forall>t \<in> set (cpl_verification_targets p). mk_target t = Inr t)
     \<and> (\<forall>g \<in> set (cpl_prerequisite_gaps p). mk_gap g = Inr g)"

lemma fact_round_trip: "mk_fact f = Inr f \<Longrightarrow> fact_from_dict (fact_to_dict f) = Inr f"
  by (cases f) (simp add: fact_from_dict_def fact_to_dict_def from_json_simps)

lemma target_round_trip: "mk_target t = Inr t \<Longrightarrow> target_from_dict (target_to_dict t) = Inr t"
  by (cases t) (simp add: target_from_dict_def target_to_dict_def from_json_simps)

lemma gap_round_trip: "mk_gap g = Inr g \<Longrightarrow> gap_from_dict (gap_to_dict g) = Inr g"
  by (cases g) (simp add: gap_from_dict_def gap_to_dict_def from_json_simps)

lemma transcript_round_trip:
  assumes "\<forall>e \<in> set es. \<not> te_turn_sequence e < 0 \<and> te_text e \<noteq> []"
  shows "transcript_from_json (transcript_to_json es) = Inr es"
proof -
  have "rmap entry_from_json (map (\<lambda>e. JObj [(''turn_sequence'', JInt (te_turn_sequence e)),
      (''role'', JStr (role_value (te_role e))), (''text'', JStr (te_text e))]) es) = Inr es"
    using assms by (intro rmap_map_id) (auto simp: entry_from_json_def)
  then show ?thesis by (simp add: transcript_from_json_def transcript_to_json_def)
qed

lemma rule_round_trip: "mk_discovery_rule r = Inr r \<Longrightarrow> rule_from_json (rule_to_json r) = Inr r"
  by (cases r) (simp add: rule_from_json_def rule_to_json_def from_json_simps)

lemma override_round_trip: "override_from_json (JArr [JStr key, JStr (priority_value prio)]) = Inr (key, prio)"
  by (simp add: override_from_json_def j_pair_def)

lemma policy_round_trip:
  assumes "mk_discovery_policy p = Inr p" and "\<forall>r \<in> set (dp_service_rules p). mk_discovery_rule r = Inr r"
  shows "policy_from_json (policy_to_json p) = Inr p"
proof -
  have rules: "rmap rule_from_json (map rule_to_json (dp_service_rules p)) = Inr (dp_service_rules p)"
    using assms(2) by (intro rmap_map_id) (simp add: rule_round_trip)
  have overrides: "rmap override_from_json (map (\<lambda>(key, prio). JArr [JStr key, JStr (priority_value prio)])
      (dp_priority_overrides p)) = Inr (dp_priority_overrides p)"
    by (intro rmap_map_id) (auto simp: override_round_trip)
  have "\<lparr>dp_policy_id = dp_policy_id p, dp_version = dp_version p, dp_service_rules = dp_service_rules p,
      dp_global_required_facts = dp_global_required_facts p,
      dp_global_optional_facts = dp_global_optional_facts p,
      dp_priority_overrides = dp_priority_overrides p\<rparr> = p" (is "?q = p") by simp
  then have "payload_errors (mk_discovery_policy ?q) = Inr p" using assms(1) by (simp only: payload_errors.simps)
  then show ?thesis
    by (simp add: policy_from_json_def policy_to_json_def from_json_simps rules overrides)
qed

lemma plan_round_trip:
  assumes "plan_valid p"
  shows "plan_from_json (Some (plan_to_json p)) = Inr (Some p)"
proof -
  have f: "rmap fact_from_dict (map fact_to_dict fs) = Inr fs" if "set fs \<subseteq> set (all_plan_facts p)" for fs
    using assms that by (intro rmap_map_id fact_round_trip) (auto simp: plan_valid_def)
  have facts: "rmap fact_from_dict (map fact_to_dict (cpl_known_facts p)) = Inr (cpl_known_facts p)"
    "rmap fact_from_dict (map fact_to_dict (cpl_unknown_facts p)) = Inr (cpl_unknown_facts p)"
    "rmap fact_from_dict (map fact_to_dict (cpl_unverified_facts p)) = Inr (cpl_unverified_facts p)"
    "rmap fact_from_dict (map fact_to_dict (cpl_conflicting_facts p)) = Inr (cpl_conflicting_facts p)"
    by (rule f; auto simp: all_plan_facts_def)+
  have targets: "rmap target_from_dict (map target_to_dict (cpl_verification_targets p))
      = Inr (cpl_verification_targets p)"
    using assms by (intro rmap_map_id target_round_trip) (auto simp: plan_valid_def)
  have gaps: "rmap gap_from_dict (map gap_to_dict (cpl_prerequisite_gaps p)) = Inr (cpl_prerequisite_gaps p)"
    using assms by (intro rmap_map_id gap_round_trip) (auto simp: plan_valid_def)
  have ok: "mk_plan p = Inr p" using assms by (simp add: plan_valid_def)
  then have "\<forall>t \<in> set_option (cpl_primary_target p). t \<in> set (cpl_verification_targets p)"
    by (auto simp: mk_plan_def res_simps simp del: option.set_sel)
  then have primary: "(if j_truthy prim then rmap target_from_dict [prim] else Inr [])
      = Inr (case cpl_primary_target p of None \<Rightarrow> [] | Some t \<Rightarrow> [t])"
    if "prim = (case cpl_primary_target p of None \<Rightarrow> JNull | Some t \<Rightarrow> target_to_dict t)" for prim
    using assms that target_round_trip
    by (cases "cpl_primary_target p") (auto simp: plan_valid_def target_to_dict_def)
  have "plan_from_dict (JObj (plan_to_dict p)) = mk_plan p"
    unfolding plan_from_dict_def
    by (simp add: plan_to_dict_def from_json_simps primary [OF refl] facts targets gaps del: rmap.simps)
       (intro arg_cong [where f = mk_plan] conversation_plan.equality, simp_all split: option.split)
  with ok show ?thesis by (simp add: plan_from_json_def plan_to_json_def)
qed

text \<open>Every plan of the engine is built from accepted parts.\<close>

lemma mk_fact_again: "mk_fact f = Inr g \<Longrightarrow> mk_fact g = Inr g"
  using mk_fact_Inr by auto

lemma fact_from_enriched_made: "fact_from_enriched key field = Inr f \<Longrightarrow> mk_fact f = Inr f"
  by (auto simp: fact_from_enriched_def Let_def dest: mk_fact_again split: if_splits)

lemma website_fact_made: "website_fact st = Inr f \<Longrightarrow> mk_fact f = Inr f"
  by (auto simp: website_fact_def Let_def dest: mk_fact_again split: website_status.splits)

lemma build_facts_made:
  assumes "build_facts c = Inr facts" and "f \<in> set facts"
  shows "mk_fact f = Inr f"
proof -
  from assms(1) obtain w rest kfs where w: "website_fact (bctx_website_status c) = Inr w"
    and rest: "rmap (\<lambda>(key, field). fact_from_enriched key field) kfs = Inr rest" and facts: "facts = w # rest"
    unfolding build_facts_def rbind_eq_Inr by blast
  show ?thesis
  proof (cases "f \<in> set rest")
    case True
    from rmap_in_set [OF rest this] show ?thesis by (auto dest: fact_from_enriched_made)
  next
    case False
    with assms(2) facts website_fact_made [OF w] show ?thesis by simp
  qed
qed

lemma mk_gap_again: "mk_gap g = Inr h \<Longrightarrow> mk_gap h = Inr h"
  using mk_gap_Inr by auto

lemma gaps_made: "prerequisite_gaps sids policy facts = Inr gaps \<Longrightarrow> g \<in> set gaps \<Longrightarrow> mk_gap g = Inr g"
  by (induction sids policy facts arbitrary: gaps rule: prerequisite_gaps.induct)
     (auto simp: Let_def res_simps split: option.splits if_splits dest: mk_gap_again)

lemma targets_made:
  assumes "verification_targets facts authorized policy gaps = Inr ts" and "t \<in> set ts"
  shows "mk_target t = Inr t"
proof -
  from rmap_in_set [OF assms(1) [unfolded verification_targets_def] assms(2)] obtain u where "mk_target u = Inr t"
    by auto
  with mk_target_Inr [OF this] show ?thesis by simp
qed

lemma planned_valid:
  assumes "precall_plan c campaign policy = Inr p"
  shows "plan_valid p"
  using assms
proof (rule precall_plan_Inr)
  fix facts
  assume f: "build_facts c = Inr facts"
    "prerequisite_gaps (cf_authorized_service_ids campaign) policy facts = Inr (cpl_prerequisite_gaps p)"
    "verification_targets facts (cf_authorized_service_ids campaign) policy (cpl_prerequisite_gaps p)
      = Inr (cpl_verification_targets p)"
    "cpl_known_facts p = bucket facts KS_KNOWN" "cpl_unknown_facts p = bucket facts KS_UNKNOWN"
    "cpl_unverified_facts p = bucket facts KS_UNVERIFIED"
    "cpl_conflicting_facts p = bucket facts KS_CONFLICTING"
  have "mk_plan p = Inr p"
    using assms unfolding precall_plan_def Let_def rbind_eq_Inr by (auto dest: mk_plan_Inr)
  then show ?thesis
    using build_facts_made [OF f(1)] gaps_made [OF f(2)] targets_made [OF f(3)]
    by (auto simp: plan_valid_def all_plan_facts_def f(4-7))
qed

section \<open>Runtime snapshots\<close>

text \<open>\<^verbatim>\<open>application/sales_runtime/snapshot.py\<close>; the payloads are texts, read by the recovery service.\<close>

definition SNAPSHOT_VERSION_CURRENT :: int where
  "SNAPSHOT_VERSION_CURRENT = 1"

record runtime_snapshot =
  rs_snapshot_version :: int
  rs_session_id :: str
  rs_source_session_revision :: int
  rs_conversation_state :: conversation_state
  rs_sales_stage :: "str option"
  rs_active_knowledge_base_id :: "str option"
  rs_last_pipeline_outcome :: "str option"
  rs_persisted_contract_payloads :: "(str \<times> str) list"
  rs_is_dnc_observed :: bool
  rs_is_not_interested_observed :: bool

definition mk_snapshot :: "runtime_snapshot \<Rightarrow> runtime_snapshot res" where
  "mk_snapshot r =
     rbind (guard (\<not> rs_snapshot_version r < 1) ValueError) (\<lambda>_.
     rbind (guard (\<not> blank (rs_session_id r)) ValueError) (\<lambda>_.
     rbind (guard (\<not> rs_source_session_revision r < 0) ValueError) (\<lambda>_.
     rbind (guard (distinct (map fst (rs_persisted_contract_payloads r))) ValueError) (\<lambda>_. Inr r))))"

definition snapshot_payload :: "runtime_snapshot \<Rightarrow> str \<Rightarrow> str option" where
  "snapshot_payload r key = map_of (rs_persisted_contract_payloads r) key"

definition snapshot_to_json :: "runtime_snapshot \<Rightarrow> payload" where
  "snapshot_to_json r = Document (JObj
     [(''snapshot_version'', JInt (rs_snapshot_version r)), (''session_id'', JStr (rs_session_id r)),
      (''source_session_revision'', JInt (rs_source_session_revision r)),
      (''conversation_state'', JStr (conversation_state_value (rs_conversation_state r))),
      (''sales_stage'', opt_json (rs_sales_stage r)),
      (''active_knowledge_base_id'', opt_json (rs_active_knowledge_base_id r)),
      (''last_pipeline_outcome'', opt_json (rs_last_pipeline_outcome r)),
      (''persisted_contract_payloads'',
         JArr (map (\<lambda>(k, v). JArr [JStr k, JStr v]) (rs_persisted_contract_payloads r))),
      (''is_dnc_observed'', JBool (rs_is_dnc_observed r)),
      (''is_not_interested_observed'', JBool (rs_is_not_interested_observed r))])"

definition payload_pair :: "json \<Rightarrow> (str \<times> str) res" where
  "payload_pair j = rbind (j_pair j) (\<lambda>(k, v). rbind (j_str k) (\<lambda>key. rbind (j_str v) (\<lambda>txt. Inr (key, txt))))"

definition snapshot_from_json :: "payload \<Rightarrow> runtime_snapshot res" where
  "snapshot_from_json p =
     rbind (payload_errors (json_loads p)) (\<lambda>raw. payload_errors (
     rbind (rbind (j_item raw ''snapshot_version'') j_int) (\<lambda>version.
     rbind (guard (\<not> version > SNAPSHOT_VERSION_CURRENT) InvalidPersistedPayloadError) (\<lambda>_.
     rbind (rbind (j_item raw ''session_id'') j_str) (\<lambda>sid.
     rbind (rbind (j_item raw ''source_session_revision'') j_int) (\<lambda>revision.
     rbind (rbind (j_item raw ''conversation_state'') (j_enum conversation_state_value all_conversation_state)) (\<lambda>state.
     rbind (rbind (j_get raw ''sales_stage'' JNull) j_opt_str) (\<lambda>stage.
     rbind (rbind (j_get raw ''active_knowledge_base_id'' JNull) j_opt_str) (\<lambda>kb.
     rbind (rbind (j_get raw ''last_pipeline_outcome'' JNull) j_opt_str) (\<lambda>outcome.
     rbind (get_list raw ''persisted_contract_payloads'' payload_pair) (\<lambda>payloads.
     rbind (j_get raw ''is_dnc_observed'' (JBool False)) (\<lambda>dnc.
     rbind (j_get raw ''is_not_interested_observed'' (JBool False)) (\<lambda>not_interested.
     mk_snapshot \<lparr>rs_snapshot_version = version, rs_session_id = sid,
       rs_source_session_revision = revision, rs_conversation_state = state, rs_sales_stage = stage,
       rs_active_knowledge_base_id = kb, rs_last_pipeline_outcome = outcome,
       rs_persisted_contract_payloads = payloads, rs_is_dnc_observed = j_truthy dnc,
       rs_is_not_interested_observed = j_truthy not_interested\<rparr>)))))))))))))"

lemma snapshot_round_trip:
  assumes "mk_snapshot r = Inr r" and "rs_snapshot_version r \<le> SNAPSHOT_VERSION_CURRENT"
  shows "snapshot_from_json (snapshot_to_json r) = Inr r"
proof -
  have payloads: "rmap payload_pair (map (\<lambda>(k, v). JArr [JStr k, JStr v]) (rs_persisted_contract_payloads r))
      = Inr (rs_persisted_contract_payloads r)"
    by (intro rmap_map_id) (auto simp: payload_pair_def j_pair_def)
  have version: "\<not> SNAPSHOT_VERSION_CURRENT < rs_snapshot_version r" using assms(2) by simp
  have "\<lparr>rs_snapshot_version = rs_snapshot_version r, rs_session_id = rs_session_id r,
       rs_source_session_revision = rs_source_session_revision r,
       rs_conversation_state = rs_conversation_state r, rs_sales_stage = rs_sales_stage r,
       rs_active_knowledge_base_id = rs_active_knowledge_base_id r,
       rs_last_pipeline_outcome = rs_last_pipeline_outcome r,
       rs_persisted_contract_payloads = rs_persisted_contract_payloads r,
       rs_is_dnc_observed = rs_is_dnc_observed r,
       rs_is_not_interested_observed = rs_is_not_interested_observed r\<rparr> = r" (is "?q = r") by simp
  then have "payload_errors (mk_snapshot ?q) = Inr r" using assms(1) by (simp only: payload_errors.simps)
  then show ?thesis
    by (simp add: snapshot_from_json_def snapshot_to_json_def from_json_simps payloads version)
qed

text \<open>
  C16. Documents read back as they were written. A plan the pre-call engine made, a discovery
  policy whose rules and itself passed their construction checks, the transcript of a
  well-formed session and a well-formed snapshot of a supported version: writing each to JSON
  text and reading the text yields the value again.
\<close>

theorem stored_documents_round_trip:
  assumes "precall_plan c campaign policy = Inr p"
    and "mk_discovery_policy policy = Inr policy"
    and "\<forall>r \<in> set (dp_service_rules policy). mk_discovery_rule r = Inr r"
    and "session_ok s"
    and "mk_snapshot snap = Inr snap" and "rs_snapshot_version snap \<le> SNAPSHOT_VERSION_CURRENT"
  shows "plan_from_json (Some (plan_to_json p)) = Inr (Some p)
    \<and> policy_from_json (policy_to_json policy) = Inr policy
    \<and> transcript_from_json (transcript_to_json (cse_transcript s)) = Inr (cse_transcript s)
    \<and> snapshot_from_json (snapshot_to_json snap) = Inr snap"
proof -
  have "\<forall>e \<in> set (cse_transcript s). \<not> te_turn_sequence e < 0 \<and> te_text e \<noteq> []"
    using assms(4) by (simp add: session_ok_def)
  then show ?thesis
    by (simp add: plan_round_trip [OF planned_valid [OF assms(1)]] policy_round_trip [OF assms(2,3)]
        transcript_round_trip snapshot_round_trip [OF assms(5,6)])
qed

definition document_session :: "conversation_plan chat_session" where
  "document_session = \<lparr>cse_session_id = ''s1'', cse_tenant_id = ''t'', cse_campaign_id = ''c'',
     cse_lead_id = ''b1_row_2'', cse_status = SS_ACTIVE, cse_mode = Mode_SIMULATION, cse_revision = 1,
     cse_transcript = [\<lparr>te_turn_sequence = 1, te_role = Role_PROSPECT, te_text = ''hi''\<rparr>,
       \<lparr>te_turn_sequence = 1, te_role = Role_AGENT, te_text = ''hello''\<rparr>],
     cse_turn_count = 1, cse_pre_call_plan = None\<rparr>"

definition document_snapshot :: runtime_snapshot where
  "document_snapshot = \<lparr>rs_snapshot_version = 1, rs_session_id = ''s1'', rs_source_session_revision = 0,
     rs_conversation_state = St_GREETING, rs_sales_stage = None, rs_active_knowledge_base_id = Some ''kb'',
     rs_last_pipeline_outcome = None, rs_persisted_contract_payloads = [(''bci'', ''envelope'')],
     rs_is_dnc_observed = True, rs_is_not_interested_observed = False\<rparr>"

lemma stored_documents_round_trip_witness:
  "(\<exists>p. precall_plan planned_lead planned_campaign sample_discovery = Inr p
      \<and> plan_from_json (Some (plan_to_json p)) = Inr (Some p))
   \<and> policy_from_json (policy_to_json sample_discovery) = Inr sample_discovery
   \<and> transcript_from_json (transcript_to_json (cse_transcript document_session)) = Inr (cse_transcript document_session)
   \<and> snapshot_from_json (snapshot_to_json document_snapshot) = Inr document_snapshot"
proof -
  have "isl (precall_plan planned_lead planned_campaign sample_discovery) = False" by code_simp
  note plan = not_isl_Inr [OF this]
  have policy: "mk_discovery_policy sample_discovery = Inr sample_discovery"
    "\<forall>r \<in> set (dp_service_rules sample_discovery). mk_discovery_rule r = Inr r"
    by (simp_all add: sample_discovery_def mk_discovery_policy_def mk_discovery_rule_def blank_iff py_isspace_def)
  have session: "session_ok document_session"
    by (simp add: session_ok_def document_session_def check_session_def blank_iff py_isspace_def)
  have snap: "mk_snapshot document_snapshot = Inr document_snapshot"
    "rs_snapshot_version document_snapshot \<le> SNAPSHOT_VERSION_CURRENT"
    by (simp_all add: mk_snapshot_def document_snapshot_def SNAPSHOT_VERSION_CURRENT_def blank_iff py_isspace_def)
  from stored_documents_round_trip [OF plan policy session snap] plan show ?thesis by blast
qed

end
