(* ===== verification/SqliteStore.thy ===== *)
theory SqliteStore
  imports Documents Campaign
begin

text \<open>
  \<^verbatim>\<open>persistence/sqlite\<close>: the tables of the database as lists of rows in insertion
  order, the repositories over them (\<^verbatim>\<open>repositories.py\<close>, \<^verbatim>\<open>turn_idempotency.py\<close>,
  \<^verbatim>\<open>snapshot_store.py\<close>), transactions (\<^verbatim>\<open>connection.py\<close>) and the coordinator that
  creates a session and takes its lead in one transaction (\<^verbatim>\<open>coordinator.py\<close>).
  A row holds what its SQL columns hold: enumerations as their text, documents as payloads.
  A statement sees the rows that satisfy its WHERE clause; failures of the database engine
  itself (a disk error, a failed commit) are not modelled.
\<close>

section \<open>Values of the enumerations\<close>

fun queue_status_value :: "lead_queue_status \<Rightarrow> str" where
  "queue_status_value LQ_PENDING = ''pending''"
| "queue_status_value LQ_READY = ''ready''"
| "queue_status_value LQ_IN_PROGRESS = ''in_progress''"
| "queue_status_value LQ_COMPLETED = ''completed''"
| "queue_status_value LQ_FAILED = ''failed''"
| "queue_status_value LQ_DNC = ''dnc''"
| "queue_status_value LQ_NEEDS_REVIEW = ''needs_review''"
| "queue_status_value LQ_SKIPPED = ''skipped''"
| "queue_status_value LQ_RETRY_SCHEDULED = ''retry_scheduled''"
| "queue_status_value LQ_EXHAUSTED = ''exhausted''"

definition all_queue_status :: "lead_queue_status list" where
  "all_queue_status = [LQ_PENDING, LQ_READY, LQ_IN_PROGRESS, LQ_COMPLETED, LQ_FAILED, LQ_DNC, LQ_NEEDS_REVIEW, LQ_SKIPPED, LQ_RETRY_SCHEDULED, LQ_EXHAUSTED]"

lemma queue_status_of_value [simp]: "enum_of queue_status_value all_queue_status (queue_status_value x) = Inr x"
  by (cases x) (simp_all add: enum_of_def all_queue_status_def)

fun website_value :: "website_status \<Rightarrow> str" where
  "website_value WS_UNKNOWN = ''unknown''"
| "website_value WS_VERIFIED_PRESENT = ''verified_present''"
| "website_value WS_VERIFIED_ABSENT = ''verified_absent''"
| "website_value WS_UNVERIFIED_CANDIDATE = ''unverified_candidate''"
| "website_value WS_INVALID = ''invalid''"

definition all_website :: "website_status list" where
  "all_website = [WS_UNKNOWN, WS_VERIFIED_PRESENT, WS_VERIFIED_ABSENT, WS_UNVERIFIED_CANDIDATE, WS_INVALID]"

lemma website_of_value [simp]: "enum_of website_value all_website (website_value x) = Inr x"
  by (cases x) (simp_all add: enum_of_def all_website_def)

fun phone_value :: "phone_status \<Rightarrow> str" where
  "phone_value PhS_VALID_E164 = ''valid_e164''"
| "phone_value PhS_NEEDS_REVIEW = ''needs_review''"
| "phone_value PhS_INVALID = ''invalid''"

definition all_phone :: "phone_status list" where
  "all_phone = [PhS_VALID_E164, PhS_NEEDS_REVIEW, PhS_INVALID]"

lemma phone_of_value [simp]: "enum_of phone_value all_phone (phone_value x) = Inr x"
  by (cases x) (simp_all add: enum_of_def all_phone_def)

fun readiness_value :: "import_readiness \<Rightarrow> str" where
  "readiness_value LR_READY_FOR_CONTACT = ''ready_for_contact''"
| "readiness_value LR_NEEDS_REVIEW = ''needs_review''"
| "readiness_value LR_INVALID = ''invalid''"

definition all_readiness :: "import_readiness list" where
  "all_readiness = [LR_READY_FOR_CONTACT, LR_NEEDS_REVIEW, LR_INVALID]"

lemma readiness_of_value [simp]: "enum_of readiness_value all_readiness (readiness_value x) = Inr x"
  by (cases x) (simp_all add: enum_of_def all_readiness_def)

fun duplicate_value :: "duplicate_class \<Rightarrow> str" where
  "duplicate_value Dup_UNIQUE = ''unique''"
| "duplicate_value Dup_EXISTING = ''duplicate_existing''"
| "duplicate_value Dup_IN_BATCH = ''duplicate_in_batch''"

definition all_duplicate :: "duplicate_class list" where
  "all_duplicate = [Dup_UNIQUE, Dup_EXISTING, Dup_IN_BATCH]"

lemma duplicate_of_value [simp]: "enum_of duplicate_value all_duplicate (duplicate_value x) = Inr x"
  by (cases x) (simp_all add: enum_of_def all_duplicate_def)

section \<open>Tables\<close>

record chat_row =
  cr_session_id :: str
  cr_tenant_id :: str
  cr_campaign_id :: str
  cr_lead_id :: str
  cr_status :: str
  cr_mode :: str
  cr_revision :: int
  cr_turn_count :: int
  cr_transcript_json :: payload
  cr_pre_call_plan_json :: "payload option"
  cr_policy_id :: "str option"
  cr_policy_version :: "str option"
  cr_termination_reason :: "str option"
  cr_runtime_snapshot_json :: "payload option"
  cr_runtime_snapshot_version :: "int option"

record queue_row =
  qr_lead_id :: str
  qr_campaign_id :: str
  qr_tenant_id :: str
  qr_queue_position :: int
  qr_status :: str
  qr_attempt_count :: int
  qr_last_attempt_at :: "str option"
  qr_is_dnc :: int
  qr_revision :: int

record policy_row =
  pr_campaign_id :: str
  pr_policy_version :: str
  pr_policy_id :: str
  pr_is_default :: int
  pr_policy_json :: payload

record bootstrap_row =
  br_bootstrap_request_id :: str
  br_tenant_id :: str
  br_campaign_id :: str
  br_lead_id :: str
  br_session_id :: "str option"
  br_status :: str
  br_result_json :: "(str \<times> json) list"

record turn_row =
  tr_session_id :: str
  tr_turn_request_id :: str
  tr_turn_sequence :: int
  tr_committed_revision :: int
  tr_agent_response :: str
  tr_conversation_terminal :: int
  tr_pipeline_outcome :: "str option"

record lead_row =
  lw_lead_id :: str
  lw_tenant_id :: str
  lw_campaign_id :: str
  lw_business_name :: str
  lw_phone_raw :: str
  lw_phone_normalized :: "str option"
  lw_phone_status :: str
  lw_phone_country_context :: "str option"
  lw_website :: "str option"
  lw_website_status :: str
  lw_category :: "str option"
  lw_city :: "str option"
  lw_state :: "str option"
  lw_country :: "str option"
  lw_address :: "str option"
  lw_email :: "str option"
  lw_contact_name :: "str option"
  lw_source :: "str option"
  lw_notes :: "str option"
  lw_import_batch_id :: "str option"
  lw_row_number :: "nat option"
  lw_readiness :: str
  lw_duplicate_status :: str

record database =
  db_leads :: "lead_row list"
  db_queue :: "queue_row list"
  db_sessions :: "chat_row list"
  db_policies :: "policy_row list"
  db_bootstrap :: "bootstrap_row list"
  db_turns :: "turn_row list"

text \<open>\<^verbatim>\<open>BEGIN IMMEDIATE\<close> \<dots> \<^verbatim>\<open>COMMIT\<close>, with \<^verbatim>\<open>ROLLBACK\<close> when the block raises.\<close>

definition transaction :: "(database \<Rightarrow> 'a res \<times> database) \<Rightarrow> database \<Rightarrow> 'a res \<times> database" where
  "transaction block db = (case block db of (Inl e, _) \<Rightarrow> (Inl e, db) | (Inr x, db') \<Rightarrow> (Inr x, db'))"

text \<open>\<^verbatim>\<open>UPDATE ... SET f WHERE p\<close>, \<^verbatim>\<open>INSERT OR REPLACE\<close> with the primary key \<open>p\<close>.\<close>

definition sql_update :: "('r \<Rightarrow> bool) \<Rightarrow> ('r \<Rightarrow> 'r) \<Rightarrow> 'r list \<Rightarrow> 'r list" where
  "sql_update p f rows = map (\<lambda>r. if p r then f r else r) rows"

definition sql_replace :: "('r \<Rightarrow> bool) \<Rightarrow> 'r \<Rightarrow> 'r list \<Rightarrow> 'r list" where
  "sql_replace p row rows = filter (\<lambda>r. \<not> p r) rows @ [row]"

section \<open>Chat sessions\<close>

type_synonym planned_session = "conversation_plan chat_session"

definition row_of_session :: "planned_session \<Rightarrow> chat_row" where
  "row_of_session s = \<lparr>cr_session_id = cse_session_id s, cr_tenant_id = cse_tenant_id s,
     cr_campaign_id = cse_campaign_id s, cr_lead_id = cse_lead_id s,
     cr_status = status_value (cse_status s), cr_mode = mode_value (cse_mode s),
     cr_revision = cse_revision s, cr_turn_count = cse_turn_count s,
     cr_transcript_json = transcript_to_json (cse_transcript s),
     cr_pre_call_plan_json = map_option plan_to_json (cse_pre_call_plan s),
     cr_policy_id = map_option cpl_policy_id (cse_pre_call_plan s),
     cr_policy_version = map_option cpl_policy_version (cse_pre_call_plan s),
     cr_termination_reason = None, cr_runtime_snapshot_json = None,
     cr_runtime_snapshot_version = None\<rparr>"

definition row_to_session :: "chat_row \<Rightarrow> planned_session res" where
  "row_to_session row =
     rbind (enum_of status_value all_status (cr_status row)) (\<lambda>status.
     rbind (enum_of mode_value all_mode (cr_mode row)) (\<lambda>mode.
     rbind (transcript_from_json (cr_transcript_json row)) (\<lambda>transcript.
     rbind (plan_from_json (cr_pre_call_plan_json row)) (\<lambda>plan.
     check_session \<lparr>cse_session_id = cr_session_id row, cse_tenant_id = cr_tenant_id row,
       cse_campaign_id = cr_campaign_id row, cse_lead_id = cr_lead_id row, cse_status = status,
       cse_mode = mode, cse_revision = cr_revision row, cse_transcript = transcript,
       cse_turn_count = cr_turn_count row, cse_pre_call_plan = plan\<rparr>))))"

definition find_session :: "database \<Rightarrow> str \<Rightarrow> chat_row option" where
  "find_session db sid = List.find (\<lambda>r. cr_session_id r = sid) (db_sessions db)"

definition sq_create :: "database \<Rightarrow> planned_session \<Rightarrow> planned_session res \<times> database" where
  "sq_create db s =
     (let stored = s\<lparr>cse_revision := 0\<rparr> in
      if find_session db (cse_session_id s) \<noteq> None then (Inl IdempotencyConflictError, db)
      else (Inr stored, db\<lparr>db_sessions := db_sessions db @ [row_of_session stored]\<rparr>))"

definition sq_get :: "database \<Rightarrow> str \<Rightarrow> planned_session res" where
  "sq_get db sid = rbind (option_res NotFoundError (find_session db sid)) row_to_session"

definition sq_update :: "database \<Rightarrow> planned_session \<Rightarrow> planned_session res \<times> database" where
  "sq_update db s = (case sq_get db (cse_session_id s) of
       Inl e \<Rightarrow> (Inl e, db)
     | Inr current \<Rightarrow>
         if cse_revision s \<noteq> cse_revision current then (Inl StaleRevisionError, db)
         else (let updated = s\<lparr>cse_revision := cse_revision current + 1\<rparr> in
           (Inr updated, db\<lparr>db_sessions := sql_update
              (\<lambda>r. cr_session_id r = cse_session_id updated \<and> cr_revision r = cse_revision current)
              (\<lambda>r. r\<lparr>cr_status := status_value (cse_status updated),
                 cr_mode := mode_value (cse_mode updated), cr_revision := cse_revision updated,
                 cr_turn_count := cse_turn_count updated,
                 cr_transcript_json := transcript_to_json (cse_transcript updated),
                 cr_pre_call_plan_json := map_option plan_to_json (cse_pre_call_plan updated)\<rparr>)
              (db_sessions db)\<rparr>)))"

definition sq_list_sessions :: "database \<Rightarrow> str option \<Rightarrow> planned_session list res" where
  "sq_list_sessions db tenant = rmap row_to_session
     (filter (\<lambda>r. tenant = None \<or> tenant = Some (cr_tenant_id r)) (db_sessions db))"

definition sq_exists :: "database \<Rightarrow> str \<Rightarrow> bool" where
  "sq_exists db sid \<longleftrightarrow> find_session db sid \<noteq> None"

definition sq_active_count :: "database \<Rightarrow> str option \<Rightarrow> nat" where
  "sq_active_count db tenant = length (filter (\<lambda>r. cr_status r = status_value SS_ACTIVE
     \<and> (tenant = None \<or> tenant = Some (cr_tenant_id r))) (db_sessions db))"

definition sq_delete :: "database \<Rightarrow> str \<Rightarrow> database" where
  "sq_delete db sid = db\<lparr>db_sessions := filter (\<lambda>r. cr_session_id r \<noteq> sid) (db_sessions db)\<rparr>"

section \<open>Leads\<close>

definition row_of_lead :: "lead_record \<Rightarrow> lead_row" where
  "row_of_lead l = \<lparr>lw_lead_id = lrec_lead_id l, lw_tenant_id = lrec_tenant_id l,
     lw_campaign_id = lrec_campaign_id l, lw_business_name = lrec_business_name l,
     lw_phone_raw = np_raw (lrec_phone l), lw_phone_normalized = np_normalized (lrec_phone l),
     lw_phone_status = phone_value (np_status (lrec_phone l)),
     lw_phone_country_context = np_country_context (lrec_phone l),
     lw_website = lrec_website l, lw_website_status = website_value (lrec_website_status l),
     lw_category = lrec_category l, lw_city = lrec_city l, lw_state = lrec_state l,
     lw_country = lrec_country l, lw_address = lrec_address l, lw_email = lrec_email l,
     lw_contact_name = lrec_contact_name l, lw_source = lrec_source l, lw_notes = lrec_notes l,
     lw_import_batch_id = lrec_import_batch_id l, lw_row_number = lrec_row_number l,
     lw_readiness = readiness_value (lrec_readiness l),
     lw_duplicate_status = duplicate_value (lrec_duplicate_status l)\<rparr>"

definition row_to_lead :: "lead_row \<Rightarrow> lead_record res" where
  "row_to_lead r =
     rbind (enum_of phone_value all_phone (lw_phone_status r)) (\<lambda>phone_st.
     rbind (mk_phone (lw_phone_raw r) (lw_phone_normalized r) phone_st (lw_phone_country_context r)) (\<lambda>phone.
     rbind (enum_of website_value all_website (lw_website_status r)) (\<lambda>website_st.
     rbind (enum_of readiness_value all_readiness (lw_readiness r)) (\<lambda>readiness.
     rbind (enum_of duplicate_value all_duplicate (lw_duplicate_status r)) (\<lambda>duplicate.
     mk_lead \<lparr>lrec_lead_id = lw_lead_id r, lrec_tenant_id = lw_tenant_id r,
       lrec_campaign_id = lw_campaign_id r, lrec_business_name = lw_business_name r,
       lrec_phone = phone, lrec_website = lw_website r, lrec_website_status = website_st,
       lrec_category = lw_category r, lrec_city = lw_city r, lrec_state = lw_state r,
       lrec_country = lw_country r, lrec_address = lw_address r, lrec_email = lw_email r,
       lrec_contact_name = lw_contact_name r, lrec_source = lw_source r, lrec_notes = lw_notes r,
       lrec_import_batch_id = lw_import_batch_id r, lrec_row_number = lw_row_number r,
       lrec_readiness = readiness, lrec_duplicate_status = duplicate\<rparr>)))))"

definition lead_save :: "database \<Rightarrow> lead_record \<Rightarrow> database" where
  "lead_save db l = db\<lparr>db_leads := sql_replace (\<lambda>r. lw_tenant_id r = lrec_tenant_id l
     \<and> lw_campaign_id r = lrec_campaign_id l \<and> lw_lead_id r = lrec_lead_id l)
     (row_of_lead l) (db_leads db)\<rparr>"

definition lead_get :: "database \<Rightarrow> str \<Rightarrow> str \<Rightarrow> str \<Rightarrow> lead_record option res" where
  "lead_get db tenant campaign lead = (case List.find (\<lambda>r. lw_lead_id r = lead
        \<and> lw_tenant_id r = tenant \<and> lw_campaign_id r = campaign) (db_leads db) of
       None \<Rightarrow> Inr None
     | Some row \<Rightarrow> rbind (row_to_lead row) (\<lambda>l. Inr (Some l)))"

definition leads_by_campaign :: "database \<Rightarrow> str \<Rightarrow> str \<Rightarrow> lead_record list res" where
  "leads_by_campaign db tenant campaign = rmap row_to_lead
     (filter (\<lambda>r. lw_tenant_id r = tenant \<and> lw_campaign_id r = campaign) (db_leads db))"

section \<open>Queue entries\<close>

definition row_of_entry :: "lead_queue_entry \<Rightarrow> int \<Rightarrow> queue_row" where
  "row_of_entry e revision = \<lparr>qr_lead_id = qe_lead_id e, qr_campaign_id = qe_campaign_id e,
     qr_tenant_id = qe_tenant_id e, qr_queue_position = qe_queue_position e,
     qr_status = queue_status_value (qe_status e), qr_attempt_count = qe_attempt_count e,
     qr_last_attempt_at = qe_last_attempt_at e, qr_is_dnc = (if qe_is_dnc e then 1 else 0),
     qr_revision = revision\<rparr>"

definition row_to_entry :: "queue_row \<Rightarrow> lead_queue_entry res" where
  "row_to_entry r =
     rbind (enum_of queue_status_value all_queue_status (qr_status r)) (\<lambda>status.
     mk_entry \<lparr>qe_lead_id = qr_lead_id r, qe_campaign_id = qr_campaign_id r,
       qe_tenant_id = qr_tenant_id r, qe_queue_position = qr_queue_position r, qe_status = status,
       qe_attempt_count = qr_attempt_count r, qe_last_attempt_at = qr_last_attempt_at r,
       qe_is_dnc = (qr_is_dnc r \<noteq> 0)\<rparr>)"

definition queue_key :: "str \<Rightarrow> str \<Rightarrow> str \<Rightarrow> queue_row \<Rightarrow> bool" where
  "queue_key tenant campaign lead r \<longleftrightarrow>
     qr_tenant_id r = tenant \<and> qr_campaign_id r = campaign \<and> qr_lead_id r = lead"

definition find_entry :: "database \<Rightarrow> str \<Rightarrow> str \<Rightarrow> str \<Rightarrow> queue_row option" where
  "find_entry db tenant campaign lead = List.find (queue_key tenant campaign lead) (db_queue db)"

definition entry_get :: "database \<Rightarrow> str \<Rightarrow> str \<Rightarrow> str \<Rightarrow> lead_queue_entry option res" where
  "entry_get db tenant campaign lead = (case find_entry db tenant campaign lead of
       None \<Rightarrow> Inr None
     | Some row \<Rightarrow> rbind (row_to_entry row) (\<lambda>e. Inr (Some e)))"

definition stored_revision :: "database \<Rightarrow> lead_queue_entry \<Rightarrow> int" where
  "stored_revision db e = (case find_entry db (qe_tenant_id e) (qe_campaign_id e) (qe_lead_id e) of
       None \<Rightarrow> -1 | Some row \<Rightarrow> qr_revision row)"

definition entry_save :: "database \<Rightarrow> lead_queue_entry \<Rightarrow> lead_queue_entry res \<times> database" where
  "entry_save db e = (case entry_get db (qe_tenant_id e) (qe_campaign_id e) (qe_lead_id e) of
       Inl x \<Rightarrow> (Inl x, db)
     | Inr existing \<Rightarrow>
         if \<exists>c \<in> set_option existing. qe_is_dnc c \<and> \<not> qe_is_dnc e then (Inl StaleRevisionError, db)
         else (Inr e, db\<lparr>db_queue := sql_replace
             (queue_key (qe_tenant_id e) (qe_campaign_id e) (qe_lead_id e))
             (row_of_entry e (if existing = None then 0 else stored_revision db e + 1)) (db_queue db)\<rparr>))"

definition entry_transition :: "database \<Rightarrow> str \<Rightarrow> str \<Rightarrow> str \<Rightarrow> lead_queue_status \<Rightarrow> lead_queue_status
    \<Rightarrow> lead_queue_entry res \<times> database" where
  "entry_transition db tenant campaign lead from_status to_status =
     (case rbind (entry_get db tenant campaign lead) (\<lambda>found.
           rbind (option_res NotFoundError found) (\<lambda>current.
           rbind (guard (\<not> (qe_is_dnc current \<and> to_status \<noteq> LQ_DNC)) StaleRevisionError) (\<lambda>_.
           rbind (guard (qe_status current = from_status) StaleRevisionError) (\<lambda>_.
           rbind (mk_entry (current\<lparr>qe_status := to_status\<rparr>)) (\<lambda>updated. Inr (current, updated)))))) of
        Inl x \<Rightarrow> (Inl x, db)
      | Inr (current, updated) \<Rightarrow>
          (Inr updated, db\<lparr>db_queue := sql_update
             (\<lambda>r. queue_key tenant campaign lead r \<and> qr_status r = queue_status_value from_status)
             (\<lambda>r. r\<lparr>qr_status := queue_status_value to_status,
                qr_revision := stored_revision db current + 1\<rparr>) (db_queue db)\<rparr>))"

definition entry_mark_dnc :: "database \<Rightarrow> str \<Rightarrow> str \<Rightarrow> str \<Rightarrow> lead_queue_entry res \<times> database" where
  "entry_mark_dnc db tenant campaign lead =
     (case rbind (entry_get db tenant campaign lead) (\<lambda>found.
           rbind (option_res NotFoundError found) (\<lambda>current.
           rbind (mk_entry (current\<lparr>qe_is_dnc := True, qe_status := LQ_DNC\<rparr>)) (\<lambda>updated.
           Inr (current, updated)))) of
        Inl x \<Rightarrow> (Inl x, db)
      | Inr (current, updated) \<Rightarrow>
          (Inr updated, db\<lparr>db_queue := sql_update (queue_key tenant campaign lead)
             (\<lambda>r. r\<lparr>qr_status := queue_status_value LQ_DNC, qr_is_dnc := 1,
                qr_revision := stored_revision db current + 1\<rparr>) (db_queue db)\<rparr>))"

definition entries_by_campaign :: "database \<Rightarrow> str \<Rightarrow> str \<Rightarrow> lead_queue_entry list res" where
  "entries_by_campaign db tenant campaign = rmap row_to_entry (sort_key qr_queue_position
     (filter (\<lambda>r. qr_tenant_id r = tenant \<and> qr_campaign_id r = campaign) (db_queue db)))"

section \<open>Policies, idempotency records and snapshots\<close>

definition policy_row_of :: "str \<Rightarrow> discovery_policy \<Rightarrow> int \<Rightarrow> policy_row" where
  "policy_row_of campaign p is_default = \<lparr>pr_campaign_id = campaign, pr_policy_version = dp_version p,
     pr_policy_id = dp_policy_id p, pr_is_default = is_default, pr_policy_json = policy_to_json p\<rparr>"

definition policy_key :: "str \<Rightarrow> str \<Rightarrow> policy_row \<Rightarrow> bool" where
  "policy_key campaign version r \<longleftrightarrow> pr_campaign_id r = campaign \<and> pr_policy_version r = version"

definition policy_register :: "database \<Rightarrow> str \<Rightarrow> discovery_policy \<Rightarrow> database" where
  "policy_register db campaign p = db\<lparr>db_policies :=
     sql_replace (policy_key campaign (dp_version p)) (policy_row_of campaign p 0) (db_policies db)\<rparr>"

definition policy_register_default :: "database \<Rightarrow> str \<Rightarrow> discovery_policy \<Rightarrow> database" where
  "policy_register_default db campaign p = db\<lparr>db_policies :=
     sql_replace (policy_key campaign (dp_version p)) (policy_row_of campaign p 1)
       (sql_update (\<lambda>r. pr_campaign_id r = campaign) (\<lambda>r. r\<lparr>pr_is_default := 0\<rparr>) (db_policies db))\<rparr>"

definition policy_resolve :: "database \<Rightarrow> str \<Rightarrow> str option \<Rightarrow> discovery_policy option res" where
  "policy_resolve db campaign version =
     (case List.find (\<lambda>r. case version of
          Some v \<Rightarrow> policy_key campaign v r
        | None \<Rightarrow> pr_campaign_id r = campaign \<and> pr_is_default r = 1) (db_policies db) of
       None \<Rightarrow> Inr None
     | Some row \<Rightarrow> rbind (policy_from_json (pr_policy_json row)) (\<lambda>p. Inr (Some p)))"

definition bootstrap_find :: "database \<Rightarrow> str \<Rightarrow> bootstrap_row option" where
  "bootstrap_find db request = List.find (\<lambda>r. br_bootstrap_request_id r = request) (db_bootstrap db)"

definition bootstrap_record :: "database \<Rightarrow> bootstrap_row \<Rightarrow> unit res \<times> database" where
  "bootstrap_record db row =
     (if bootstrap_find db (br_bootstrap_request_id row) \<noteq> None then (Inl IdempotencyConflictError, db)
      else (Inr (), db\<lparr>db_bootstrap := db_bootstrap db @ [row]\<rparr>))"

definition bootstrap_lookup :: "database \<Rightarrow> str \<Rightarrow> (str \<times> (str \<times> json) list) option" where
  "bootstrap_lookup db request =
     map_option (\<lambda>r. (br_status r, br_result_json r)) (bootstrap_find db request)"

record committed_turn =
  cmt_session_id :: str
  cmt_turn_request_id :: str
  cmt_turn_sequence :: int
  cmt_committed_revision :: int
  cmt_agent_response :: str
  cmt_conversation_terminal :: bool
  cmt_pipeline_outcome :: "str option"

definition turn_key :: "str \<Rightarrow> str \<Rightarrow> turn_row \<Rightarrow> bool" where
  "turn_key sid request r \<longleftrightarrow> tr_session_id r = sid \<and> tr_turn_request_id r = request"

definition turn_record :: "database \<Rightarrow> committed_turn \<Rightarrow> unit res \<times> database" where
  "turn_record db t =
     (if List.find (turn_key (cmt_session_id t) (cmt_turn_request_id t)) (db_turns db) \<noteq> None
      then (Inl IdempotencyConflictError, db)
      else (Inr (), db\<lparr>db_turns := db_turns db @ [\<lparr>tr_session_id = cmt_session_id t,
         tr_turn_request_id = cmt_turn_request_id t, tr_turn_sequence = cmt_turn_sequence t,
         tr_committed_revision = cmt_committed_revision t, tr_agent_response = cmt_agent_response t,
         tr_conversation_terminal = (if cmt_conversation_terminal t then 1 else 0),
         tr_pipeline_outcome = cmt_pipeline_outcome t\<rparr>]\<rparr>))"

definition turn_lookup :: "database \<Rightarrow> str \<Rightarrow> str \<Rightarrow> committed_turn option" where
  "turn_lookup db sid request = map_option (\<lambda>r. \<lparr>cmt_session_id = tr_session_id r,
       cmt_turn_request_id = tr_turn_request_id r, cmt_turn_sequence = tr_turn_sequence r,
       cmt_committed_revision = tr_committed_revision r, cmt_agent_response = tr_agent_response r,
       cmt_conversation_terminal = (tr_conversation_terminal r \<noteq> 0),
       cmt_pipeline_outcome = tr_pipeline_outcome r\<rparr>)
     (List.find (turn_key sid request) (db_turns db))"

definition snapshot_save :: "database \<Rightarrow> runtime_snapshot \<Rightarrow> database" where
  "snapshot_save db r = db\<lparr>db_sessions := sql_update (\<lambda>row. cr_session_id row = rs_session_id r)
     (\<lambda>row. row\<lparr>cr_runtime_snapshot_json := Some (snapshot_to_json r),
        cr_runtime_snapshot_version := Some (rs_snapshot_version r)\<rparr>) (db_sessions db)\<rparr>"

definition snapshot_load :: "database \<Rightarrow> str \<Rightarrow> runtime_snapshot option res" where
  "snapshot_load db sid =
     rbind (option_res NotFoundError (find_session db sid)) (\<lambda>row.
     case cr_runtime_snapshot_json row of
       None \<Rightarrow> Inr None
     | Some p \<Rightarrow> rbind (snapshot_from_json p) (\<lambda>r. Inr (Some r)))"

section \<open>Creating a session and taking its lead\<close>

text \<open>\<^verbatim>\<open>AtomicSessionQueueCoordinator\<close>: other exceptions become \<^verbatim>\<open>TransactionFailedError\<close>.\<close>

definition create_and_consume ::
  "planned_session \<Rightarrow> str \<Rightarrow> str \<Rightarrow> str \<Rightarrow> lead_queue_status \<Rightarrow> lead_queue_status
    \<Rightarrow> database \<Rightarrow> (planned_session \<times> lead_queue_entry) res \<times> database" where
  "create_and_consume s tenant campaign lead from_status to_status db =
     (case sq_create db s of
        (Inl e, db1) \<Rightarrow> (Inl e, db1)
      | (Inr created, db1) \<Rightarrow> (case entry_transition db1 tenant campaign lead from_status to_status of
            (Inl e, db2) \<Rightarrow> (Inl e, db2)
          | (Inr entry, db2) \<Rightarrow> (Inr (created, entry), db2)))"

definition create_session_and_consume_lead ::
  "database \<Rightarrow> planned_session \<Rightarrow> str \<Rightarrow> str \<Rightarrow> str \<Rightarrow> lead_queue_status \<Rightarrow> lead_queue_status
    \<Rightarrow> (planned_session \<times> lead_queue_entry) res \<times> database" where
  "create_session_and_consume_lead db s tenant campaign lead from_status to_status =
     (case transaction (create_and_consume s tenant campaign lead from_status to_status) db of
        (Inl e, db') \<Rightarrow> (Inl (if e \<in> {IdempotencyConflictError, StaleRevisionError} then e
           else TransactionFailedError), db')
      | (Inr out, db') \<Rightarrow> (Inr out, db'))"

section \<open>Rows that represent sessions\<close>

definition stored_ok :: "planned_session \<Rightarrow> bool" where
  "stored_ok s \<longleftrightarrow> session_ok s \<and> (\<forall>p \<in> set_option (cse_pre_call_plan s). plan_valid p)"

definition represents :: "chat_row \<Rightarrow> planned_session \<Rightarrow> bool" where
  "represents row s \<longleftrightarrow> cr_session_id row = cse_session_id s \<and> cr_tenant_id row = cse_tenant_id s
     \<and> cr_campaign_id row = cse_campaign_id s \<and> cr_lead_id row = cse_lead_id s
     \<and> cr_status row = status_value (cse_status s) \<and> cr_mode row = mode_value (cse_mode s)
     \<and> cr_revision row = cse_revision s \<and> cr_turn_count row = cse_turn_count s
     \<and> cr_transcript_json row = transcript_to_json (cse_transcript s)
     \<and> cr_pre_call_plan_json row = map_option plan_to_json (cse_pre_call_plan s)"

lemma represents_row [simp]: "represents (row_of_session s) s"
  by (simp add: represents_def row_of_session_def)

lemma plan_column_round_trip:
  "(\<forall>p \<in> set_option plan. plan_valid p) \<Longrightarrow> plan_from_json (map_option plan_to_json plan) = Inr plan"
  by (cases plan) (simp add: plan_from_json_def, simp add: plan_round_trip)

lemma read_session:
  assumes "represents row s" and "stored_ok s"
  shows "row_to_session row = Inr s"
proof -
  have "transcript_from_json (transcript_to_json (cse_transcript s)) = Inr (cse_transcript s)"
    using assms(2) by (intro transcript_round_trip) (simp add: stored_ok_def session_ok_def)
  moreover have "plan_from_json (map_option plan_to_json (cse_pre_call_plan s)) = Inr (cse_pre_call_plan s)"
    using assms(2) by (intro plan_column_round_trip) (simp add: stored_ok_def)
  moreover have "check_session s = Inr s" using assms(2) by (simp add: stored_ok_def session_ok_def)
  ultimately show ?thesis using assms(1)
    by (cases s) (simp add: row_to_session_def represents_def)
qed

definition sessions_ok :: "database \<Rightarrow> bool" where
  "sessions_ok db \<longleftrightarrow> distinct (map cr_session_id (db_sessions db))
     \<and> (\<forall>row \<in> set (db_sessions db). \<exists>s. represents row s \<and> stored_ok s)"

lemma find_session_iff:
  assumes "sessions_ok db"
  shows "find_session db sid = Some row \<longleftrightarrow> row \<in> set (db_sessions db) \<and> cr_session_id row = sid"
proof
  assume "row \<in> set (db_sessions db) \<and> cr_session_id row = sid"
  moreover then obtain row' where "find_session db sid = Some row'"
    by (cases "find_session db sid") (auto simp: find_session_def find_None_all)
  moreover from this have "row' \<in> set (db_sessions db)" "cr_session_id row' = sid"
    by (auto simp: find_session_def dest!: find_Some_in)
  moreover have "inj_on cr_session_id (set (db_sessions db))"
    using assms by (simp add: sessions_ok_def distinct_map)
  ultimately show "find_session db sid = Some row" by (auto dest: inj_onD)
qed (auto simp: find_session_def dest!: find_Some_in)

lemma sq_get_iff:
  assumes "sessions_ok db"
  shows "sq_get db sid = Inr s \<longleftrightarrow> cse_session_id s = sid \<and> stored_ok s
    \<and> (\<exists>row \<in> set (db_sessions db). represents row s)"
proof
  assume "sq_get db sid = Inr s"
  then obtain row where row: "find_session db sid = Some row" "row_to_session row = Inr s"
    by (auto simp: sq_get_def res_simps)
  with assms obtain s' where "represents row s'" "stored_ok s'" "row \<in> set (db_sessions db)" "cr_session_id row = sid"
    unfolding find_session_iff [OF assms] sessions_ok_def by blast
  with read_session [of row s'] row(2) show "cse_session_id s = sid \<and> stored_ok s
    \<and> (\<exists>row \<in> set (db_sessions db). represents row s)" by (auto simp: represents_def)
next
  assume "cse_session_id s = sid \<and> stored_ok s \<and> (\<exists>row \<in> set (db_sessions db). represents row s)"
  then obtain row where "cse_session_id s = sid" "stored_ok s" "row \<in> set (db_sessions db)" "represents row s" by blast
  with find_session_iff [OF assms, of sid row] read_session [of row s] show "sq_get db sid = Inr s"
    by (auto simp: sq_get_def represents_def)
qed

lemma sq_get_Inl:
  assumes "sessions_ok db" and "sq_get db sid = Inl e"
  shows "find_session db sid = None" and "e = NotFoundError"
proof -
  have "row_to_session row \<noteq> Inl e" if "find_session db sid = Some row" for row e
    using assms(1) that read_session unfolding find_session_iff [OF assms(1)] sessions_ok_def by fastforce
  with assms(2) show "find_session db sid = None" "e = NotFoundError"
    by (auto simp: sq_get_def res_simps)
qed

lemma find_sql_update:
  assumes "\<forall>r. q (f r) = q r"
  shows "List.find q (sql_update p f rows) = map_option (\<lambda>r. if p r then f r else r) (List.find q rows)"
  using assms by (induction rows) (auto simp: sql_update_def)

text \<open>The row a session update leaves.\<close>

definition updated_row :: "planned_session \<Rightarrow> chat_row \<Rightarrow> chat_row" where
  "updated_row s r = r\<lparr>cr_status := status_value (cse_status s), cr_mode := mode_value (cse_mode s),
     cr_revision := cse_revision s, cr_turn_count := cse_turn_count s,
     cr_transcript_json := transcript_to_json (cse_transcript s),
     cr_pre_call_plan_json := map_option plan_to_json (cse_pre_call_plan s)\<rparr>"

lemma updated_row_represents:
  "represents r current \<Longrightarrow> same_owner current s \<Longrightarrow> represents (updated_row s r) s"
  by (simp add: represents_def updated_row_def same_owner_def)

lemma sq_update_stored:
  assumes ok: "sessions_ok db" and cur: "sq_get db (cse_session_id s) = Inr current"
    and rev: "cse_revision s = cse_revision current" and owner: "same_owner current s" and s: "stored_ok s"
  defines "s' \<equiv> s\<lparr>cse_revision := cse_revision current + 1\<rparr>"
  shows "sq_update db s = (Inr s', db\<lparr>db_sessions := sql_update
      (\<lambda>r. cr_session_id r = cse_session_id s) (updated_row s') (db_sessions db)\<rparr>)"
    and "sessions_ok (snd (sq_update db s))" and "stored_ok s'"
    and "\<forall>sid. sq_get (snd (sq_update db s)) sid = (if sid = cse_session_id s then Inr s' else sq_get db sid)"
proof -
  from cur obtain row where row: "row \<in> set (db_sessions db)" "represents row current"
    and id: "cse_session_id current = cse_session_id s"
    unfolding sq_get_iff [OF ok] by blast
  have uniq: "r = row" if "r \<in> set (db_sessions db)" "cr_session_id r = cse_session_id s" for r
  proof (rule inj_onD [of cr_session_id "set (db_sessions db)"])
    show "inj_on cr_session_id (set (db_sessions db))" using ok by (simp add: sessions_ok_def distinct_map)
    show "cr_session_id r = cr_session_id row" using that(2) row(2) id by (simp add: represents_def)
  qed (use that row in simp_all)
  have "sql_update (\<lambda>r. cr_session_id r = cse_session_id s' \<and> cr_revision r = cse_revision current)
      (updated_row s') (db_sessions db)
    = sql_update (\<lambda>r. cr_session_id r = cse_session_id s) (updated_row s') (db_sessions db)"
    unfolding sql_update_def using uniq row by (auto simp: s'_def represents_def)
  then show upd: "sq_update db s = (Inr s', db\<lparr>db_sessions := sql_update
      (\<lambda>r. cr_session_id r = cse_session_id s) (updated_row s') (db_sessions db)\<rparr>)"
    using cur rev by (simp add: sq_update_def updated_row_def [abs_def] s'_def Let_def)
  show s': "stored_ok s'"
    using s rev session_ok_changes(2) [of s] by (simp add: stored_ok_def s'_def)
  have rep: "represents (updated_row s' row) s'"
    using updated_row_represents [OF row(2), of s'] owner by (simp add: s'_def same_owner_def)
  have ids: "map cr_session_id (sql_update (\<lambda>r. cr_session_id r = cse_session_id s) (updated_row s') (db_sessions db))
      = map cr_session_id (db_sessions db)"
    by (simp add: sql_update_def updated_row_def)
  have rows: "r \<in> set (db_sessions (snd (sq_update db s)))
      \<longleftrightarrow> r = updated_row s' row \<or> r \<in> set (db_sessions db) \<and> cr_session_id r \<noteq> cse_session_id s" for r
  proof -
    have "cr_session_id row = cse_session_id s" using row(2) id by (simp add: represents_def)
    with row(1) show ?thesis unfolding upd by (auto simp: sql_update_def image_iff dest: uniq)
  qed
  show ok': "sessions_ok (snd (sq_update db s))"
    unfolding sessions_ok_def
  proof (intro conjI ballI)
    show "distinct (map cr_session_id (db_sessions (snd (sq_update db s))))"
      using ok ids by (simp add: upd sessions_ok_def)
    fix r assume "r \<in> set (db_sessions (snd (sq_update db s)))"
    then show "\<exists>s. represents r s \<and> stored_ok s"
      unfolding rows using rep s' ok by (auto simp: sessions_ok_def)
  qed
  show "\<forall>sid. sq_get (snd (sq_update db s)) sid = (if sid = cse_session_id s then Inr s' else sq_get db sid)"
  proof
    fix sid
    show "sq_get (snd (sq_update db s)) sid = (if sid = cse_session_id s then Inr s' else sq_get db sid)"
    proof (cases "sid = cse_session_id s")
      case True
      moreover have "updated_row s' row \<in> set (db_sessions (snd (sq_update db s)))" by (simp add: rows)
      ultimately have "sq_get (snd (sq_update db s)) sid = Inr s'"
        unfolding sq_get_iff [OF ok'] using rep s' by (auto simp: s'_def)
      with True show ?thesis by simp
    next
      case False
      then have "find_session (snd (sq_update db s)) sid = find_session db sid"
        unfolding find_session_def upd
        by (simp add: find_sql_update updated_row_def) (auto intro!: option.map_ident_strong dest!: find_Some_in)
      with False show ?thesis by (simp add: sq_get_def)
    qed
  qed
qed

lemma sq_update_stale:
  assumes "sq_get db (cse_session_id s) = Inr current" and "cse_revision s \<noteq> cse_revision current"
  shows "sq_update db s = (Inl StaleRevisionError, db)"
  using assms by (simp add: sq_update_def)

interpretation sqlite: session_repository sq_get sq_update sessions_ok
proof
  fix r sid s current
  show "sessions_ok r \<Longrightarrow> sq_get r sid = Inr s \<Longrightarrow> cse_session_id s = sid"
    and got: "sessions_ok r \<Longrightarrow> sq_get r sid = Inr s \<Longrightarrow> session_ok s"
    by (simp_all add: sq_get_iff stored_ok_def)
  show "\<exists>r'. sq_update r s = (Inr (s\<lparr>cse_revision := cse_revision current + 1\<rparr>), r') \<and> sessions_ok r'
         \<and> (\<forall>sid. sq_get r' sid = (if sid = cse_session_id s
              then Inr (s\<lparr>cse_revision := cse_revision current + 1\<rparr>) else sq_get r sid))"
    if "sessions_ok r" "sq_get r (cse_session_id s) = Inr current"
      "cse_revision s = cse_revision current" "same_owner current s"
      "cse_pre_call_plan s = cse_pre_call_plan current" "session_ok s"
  proof -
    from that have "stored_ok s" by (auto simp: sq_get_iff stored_ok_def)
    from sq_update_stored [OF that(1-4) this] show ?thesis
      by (intro exI [of _ "snd (sq_update r s)"]) simp
  qed
  show "sq_update r s = (Inl StaleRevisionError, r)"
    if "sessions_ok r" "sq_get r (cse_session_id s) = Inr current"
      "cse_revision s \<noteq> cse_revision current"
    using that by (simp add: sq_update_stale)
qed

section \<open>The repositories agree\<close>

text \<open>The in-memory table a database stands for.\<close>

definition table_of :: "database \<Rightarrow> conversation_plan session_table" where
  "table_of db = map (\<lambda>row. (cr_session_id row, projr (row_to_session row))) (db_sessions db)"

lemma dget_map_find: "dget (map (\<lambda>r. (k r, g r)) rows) x = map_option (g) (List.find (\<lambda>r. k r = x) rows)"
  by (induction rows) auto

lemma table_of_get:
  assumes "sessions_ok db"
  shows "dget (table_of db) sid = (case sq_get db sid of Inl _ \<Rightarrow> None | Inr s \<Rightarrow> Some s)"
proof -
  have "dget (table_of db) sid = map_option (\<lambda>row. projr (row_to_session row)) (find_session db sid)"
    unfolding table_of_def find_session_def by (rule dget_map_find)
  moreover have "\<exists>s. row_to_session row = Inr s" if "find_session db sid = Some row" for row
    using assms that read_session unfolding find_session_iff [OF assms] sessions_ok_def by blast
  ultimately show ?thesis
    by (cases "find_session db sid") (fastforce simp: sq_get_def)+
qed

lemma table_of_ok:
  assumes "sessions_ok db"
  shows "table_ok (table_of db)"
  unfolding table_ok_def table_of_get [OF assms]
  by (auto simp: sq_get_iff [OF assms] stored_ok_def split: sum.splits)

lemma dset_in_place:
  assumes "k \<in> set (dkeys d)" and "distinct (dkeys d)"
  shows "dset k v d = map (\<lambda>(k', v'). (k', if k' = k then v else v')) d"
  using assms
proof (induction d)
  case (Cons a d)
  obtain k' v' where a: "a = (k', v')" by force
  show ?case
  proof (cases "k' = k")
    case True
    with Cons.prems(2) a have "k \<notin> set (dkeys d)" by simp
    then have "map (\<lambda>(k', v'). (k', if k' = k then v else v')) d = d"
      by (intro map_idI) (auto simp: rev_image_eqI)
    with True a show ?thesis by simp
  next
    case False
    with Cons a show ?thesis by simp
  qed
qed simp

lemma sq_create_stored:
  assumes ok: "sessions_ok db" and fresh: "find_session db (cse_session_id s) = None" and s: "stored_ok s"
  defines "s' \<equiv> s\<lparr>cse_revision := 0\<rparr>"
  shows "sq_create db s = (Inr s', db\<lparr>db_sessions := db_sessions db @ [row_of_session s']\<rparr>)"
    and "sessions_ok (snd (sq_create db s))" and "stored_ok s'"
proof -
  show create: "sq_create db s = (Inr s', db\<lparr>db_sessions := db_sessions db @ [row_of_session s']\<rparr>)"
    using fresh by (simp add: sq_create_def s'_def Let_def)
  show s': "stored_ok s'"
    using s by (auto simp: stored_ok_def session_ok_def check_session_def s'_def res_simps)
  have "cse_session_id s \<notin> cr_session_id ` set (db_sessions db)"
    using fresh by (auto simp: find_session_def find_None_all)
  moreover have "cr_session_id (row_of_session s') = cse_session_id s" by (simp add: row_of_session_def s'_def)
  ultimately show "sessions_ok (snd (sq_create db s))"
    using ok s' represents_row [of s'] by (auto simp: create sessions_ok_def)
qed

lemma table_of_update:
  assumes ok: "sessions_ok db" and cur: "sq_get db (cse_session_id s) = Inr current"
    and rev: "cse_revision s = cse_revision current" and owner: "same_owner current s" and s: "stored_ok s"
  shows "table_of (snd (sq_update db s)) = snd (session_update (table_of db) s)"
proof -
  let ?s = "s\<lparr>cse_revision := cse_revision current + 1\<rparr>"
  note upd = sq_update_stored [OF assms]
  from cur ok have get: "session_get (table_of db) (cse_session_id s) = Inr current"
    by (simp add: session_get_def table_of_get)
  have keys: "dkeys (table_of db) = map cr_session_id (db_sessions db)" by (simp add: table_of_def)
  have "cse_session_id s \<in> set (dkeys (table_of db))"
    unfolding dget_dom using get by (simp add: session_get_def)
  moreover have "distinct (dkeys (table_of db))" using ok by (simp add: keys sessions_ok_def)
  ultimately have dset: "dset (cse_session_id s) ?s (table_of db)
      = map (\<lambda>(k, v). (k, if k = cse_session_id s then ?s else v)) (table_of db)"
    by (rule dset_in_place)
  have "row_to_session (updated_row ?s r) = Inr ?s"
    if r: "r \<in> set (db_sessions db)" "cr_session_id r = cse_session_id s" for r
  proof -
    have "find_session db (cse_session_id s) = Some r" using find_session_iff [OF ok] r by blast
    with cur have "row_to_session r = Inr current" by (simp add: sq_get_def)
    with ok r read_session have "represents r current" unfolding sessions_ok_def by force
    then have "represents (updated_row ?s r) ?s"
      by (rule updated_row_represents) (use owner in \<open>simp add: same_owner_def\<close>)
    then show ?thesis by (rule read_session) (rule upd(3))
  qed
  then have "table_of (snd (sq_update db s))
      = map (\<lambda>(k, v). (k, if k = cse_session_id s then ?s else v)) (table_of db)"
    by (auto simp: table_of_def upd(1) sql_update_def) (simp_all add: updated_row_def)
  also have "\<dots> = snd (session_update (table_of db) s)"
    using get rev dset by (simp add: session_update_def Let_def)
  finally show ?thesis .
qed

lemma table_of_create:
  assumes "sessions_ok db" and "stored_ok s"
  shows "table_of (snd (sq_create db s)) = snd (session_create (table_of db) s)"
proof (cases "find_session db (cse_session_id s)")
  case None
  let ?s = "s\<lparr>cse_revision := 0\<rparr>"
  note create = sq_create_stored [OF assms(1) None assms(2)]
  have "cse_session_id s \<notin> set (dkeys (table_of db))"
    using None by (auto simp: table_of_def find_session_def find_None_all)
  moreover from this have "dget (table_of db) (cse_session_id s) = None" by (simp add: map_of_eq_None_iff)
  moreover have "row_to_session (row_of_session ?s) = Inr ?s"
    by (rule read_session [OF represents_row create(3)])
  ultimately show ?thesis
    by (simp add: create(1) session_create_def dset_new Let_def) (simp add: table_of_def row_of_session_def)
next
  case (Some row)
  then obtain r where "r \<in> set (db_sessions db)" "cr_session_id r = cse_session_id s"
    using find_session_iff [OF assms(1)] by blast
  then have "dget (table_of db) (cse_session_id s) \<noteq> None"
    by (auto simp: map_of_eq_None_iff table_of_def image_image intro: rev_image_eqI)
  with Some show ?thesis by (simp add: sq_create_def session_create_def Let_def)
qed

lemma rows_read:
  assumes "sessions_ok db" and "row \<in> set (db_sessions db)"
  obtains s where "row_to_session row = Inr s" and "represents row s"
  using assms read_session unfolding sessions_ok_def by blast

lemma status_value_inj: "status_value a = status_value b \<longleftrightarrow> a = b"
  by (metis status_of_value sum.inject(2))

lemma table_of_list:
  assumes ok: "sessions_ok db"
  shows "sq_list_sessions db tenant = Inr (list_sessions (table_of db) tenant)"
proof -
  have "rmap row_to_session (filter (\<lambda>r. tenant = None \<or> tenant = Some (cr_tenant_id r)) rows)
      = Inr (filter (of_tenant tenant) (map (\<lambda>row. projr (row_to_session row)) rows))"
    if "set rows \<subseteq> set (db_sessions db)" for rows
    using that
  proof (induction rows)
    case (Cons row rows)
    then have "row \<in> set (db_sessions db)" by simp
    from rows_read [OF ok this] obtain s where "row_to_session row = Inr s" "represents row s" .
    with Cons show ?case by (auto simp: of_tenant_def represents_def)
  qed simp
  then show ?thesis by (simp add: sq_list_sessions_def list_sessions_def table_of_def comp_def)
qed

lemma table_of_active_count:
  assumes ok: "sessions_ok db"
  shows "sq_active_count db tenant = active_count (table_of db) tenant"
proof -
  have "length (filter (\<lambda>r. cr_status r = status_value SS_ACTIVE
        \<and> (tenant = None \<or> tenant = Some (cr_tenant_id r))) rows)
      = length (filter (\<lambda>s. cse_status s = SS_ACTIVE \<and> of_tenant tenant s)
          (map (\<lambda>row. projr (row_to_session row)) rows))"
    if "set rows \<subseteq> set (db_sessions db)" for rows
    using that
  proof (induction rows)
    case (Cons row rows)
    then have "row \<in> set (db_sessions db)" by simp
    from rows_read [OF ok this] obtain s where s: "row_to_session row = Inr s" "represents row s" .
    have "cr_status row = status_value SS_ACTIVE \<longleftrightarrow> cse_status s = SS_ACTIVE"
      using s(2) status_value_inj [of "cse_status s" SS_ACTIVE] by (simp add: represents_def)
    moreover have "cr_tenant_id row = cse_tenant_id s" using s(2) by (simp add: represents_def)
    ultimately show ?case using Cons s(1) by (simp add: of_tenant_def)
  qed simp
  then show ?thesis by (simp add: sq_active_count_def active_count_def table_of_def comp_def)
qed

lemma table_of_delete:
  "table_of (sq_delete db sid) = session_delete (table_of db) sid"
  by (simp add: sq_delete_def session_delete_def table_of_def AList.delete_eq filter_map comp_def case_prod_beta)
     (rule arg_cong2 [where f = map, OF refl], rule filter_cong, auto)

lemma table_of_exists: "sessions_ok db \<Longrightarrow> sq_exists db sid = session_exists (table_of db) sid"
  by (auto simp: sq_exists_def session_exists_def find_session_def table_of_def dget_map_find)

lemma sessions_ok_delete: "sessions_ok db \<Longrightarrow> sessions_ok (sq_delete db sid)"
  by (auto simp: sessions_ok_def sq_delete_def intro: distinct_map_filter)

lemma sq_update_cases:
  assumes ok: "sessions_ok db" and s: "stored_ok s"
    and owner: "\<forall>current. sq_get db (cse_session_id s) = Inr current \<longrightarrow> same_owner current s"
  shows "sessions_ok (snd (sq_update db s))"
    and "table_of (snd (sq_update db s)) = snd (session_update (table_of db) s)"
    and "fst (sq_update db s) = (case fst (session_update (table_of db) s) of
        Inl e \<Rightarrow> Inl (if e = SessionNotFoundError then NotFoundError else e) | Inr x \<Rightarrow> Inr x)"
proof -
  have mem: "session_get (table_of db) (cse_session_id s) = (case sq_get db (cse_session_id s) of
      Inl _ \<Rightarrow> Inl SessionNotFoundError | Inr x \<Rightarrow> Inr x)"
    by (cases "sq_get db (cse_session_id s)") (simp_all add: session_get_def table_of_get [OF ok])
  have "sessions_ok (snd (sq_update db s)) \<and> table_of (snd (sq_update db s)) = snd (session_update (table_of db) s)
    \<and> fst (sq_update db s) = (case fst (session_update (table_of db) s) of
        Inl e \<Rightarrow> Inl (if e = SessionNotFoundError then NotFoundError else e) | Inr x \<Rightarrow> Inr x)"
  proof (cases "sq_get db (cse_session_id s)")
    case (Inl e)
    with sq_get_Inl(2) [OF ok Inl] mem ok show ?thesis by (simp add: sq_update_def session_update_def)
  next
    case (Inr current)
    show ?thesis
    proof (cases "cse_revision s = cse_revision current")
      case True
      with owner Inr have o: "same_owner current s" by blast
      from sq_update_stored [OF ok Inr True o s] table_of_update [OF ok Inr True o s] Inr True mem
      show ?thesis by (simp add: session_update_def Let_def)
    next
      case False
      with Inr mem ok show ?thesis by (simp add: sq_update_def session_update_def)
    qed
  qed
  then show "sessions_ok (snd (sq_update db s))"
    and "table_of (snd (sq_update db s)) = snd (session_update (table_of db) s)"
    and "fst (sq_update db s) = (case fst (session_update (table_of db) s) of
        Inl e \<Rightarrow> Inl (if e = SessionNotFoundError then NotFoundError else e) | Inr x \<Rightarrow> Inr x)"
    by simp_all
qed


definition empty_database :: database where
  "empty_database = \<lparr>db_leads = [], db_queue = [], db_sessions = [], db_policies = [],
     db_bootstrap = [], db_turns = []\<rparr>"

definition planned_session_fixture :: planned_session where
  "planned_session_fixture = \<lparr>cse_session_id = ''s1'', cse_tenant_id = ''t'', cse_campaign_id = ''c'',
     cse_lead_id = ''b1_row_2'', cse_status = SS_ACTIVE, cse_mode = Mode_SIMULATION, cse_revision = 0,
     cse_transcript = [], cse_turn_count = 0,
     cse_pre_call_plan = Some (projr (precall_plan planned_lead planned_campaign sample_discovery))\<rparr>"

lemma planned_session_stored_ok: "stored_ok planned_session_fixture"
proof -
  have "isl (precall_plan planned_lead planned_campaign sample_discovery) = False" by code_simp
  from planned_valid [OF not_isl_Inr [OF this]] show ?thesis
    by (simp add: stored_ok_def session_ok_def planned_session_fixture_def check_session_def blank_iff py_isspace_def)
qed


end
