(* ===== verification/SqliteQueue.thy ===== *)
theory SqliteQueue
  imports SqliteStore
begin

text \<open>
  What the queue table of the database keeps: a do-not-call mark survives every sequence of
  operations of the store, and a lead is taken at most once. The definitions are those of
  theory \<open>SqliteStore\<close>.
\<close>

section \<open>Rows that represent entries\<close>

definition queue_ok :: "database \<Rightarrow> bool" where
  "queue_ok db \<longleftrightarrow> (\<forall>t c l row. find_entry db t c l = Some row
     \<longrightarrow> (\<exists>e n. entry_ok e \<and> row = row_of_entry e n))"

lemma read_entry: "entry_ok e \<Longrightarrow> row_to_entry (row_of_entry e n) = Inr e"
  by (cases e) (auto simp: row_to_entry_def row_of_entry_def entry_ok_def)

lemma entry_key [simp]: "queue_key t c l (row_of_entry e n)
    \<longleftrightarrow> qe_tenant_id e = t \<and> qe_campaign_id e = c \<and> qe_lead_id e = l"
  by (simp add: queue_key_def row_of_entry_def)

lemma find_entry_key: "find_entry db t c l = Some row \<Longrightarrow> queue_key t c l row"
  by (auto simp: find_entry_def dest!: find_Some_in)

lemma row_revision [simp]: "qr_revision (row_of_entry e n) = n"
  by (simp add: row_of_entry_def)

lemma entry_get_cases:
  assumes "queue_ok db"
  obtains (absent) "entry_get db t c l = Inr None" and "find_entry db t c l = None"
  | (present) e n where "entry_get db t c l = Inr (Some e)"
      and "find_entry db t c l = Some (row_of_entry e n)" and "entry_ok e"
      and "qe_tenant_id e = t" "qe_campaign_id e = c" "qe_lead_id e = l"
proof (cases "find_entry db t c l")
  case None
  then show thesis by (intro absent) (simp_all add: entry_get_def)
next
  case (Some row)
  with assms obtain e n where e: "entry_ok e" "row = row_of_entry e n"
    unfolding queue_ok_def by blast
  from find_entry_key [OF Some] have keys: "qe_tenant_id e = t" "qe_campaign_id e = c" "qe_lead_id e = l"
    by (simp_all add: e(2))
  have "entry_get db t c l = Inr (Some e)" using Some e by (simp add: entry_get_def read_entry)
  from present [OF this Some [unfolded e(2)] e(1) keys] show thesis .
qed

text \<open>One entry has been written: the others are as they were.\<close>

definition writes :: "database \<Rightarrow> database \<Rightarrow> lead_queue_entry \<Rightarrow> bool" where
  "writes db db' e \<longleftrightarrow> (\<exists>n. db' = db\<lparr>db_queue := db_queue db'\<rparr> \<and> entry_ok e
     \<and> (\<forall>t c l. find_entry db' t c l =
          (if (t, c, l) = (qe_tenant_id e, qe_campaign_id e, qe_lead_id e)
           then Some (row_of_entry e n) else find_entry db t c l))
     \<and> (\<forall>row. find_entry db (qe_tenant_id e) (qe_campaign_id e) (qe_lead_id e) = Some row
          \<longrightarrow> n = qr_revision row + 1))"

lemma writes_ok: "writes db db' e \<Longrightarrow> queue_ok db \<Longrightarrow> queue_ok db'"
  unfolding queue_ok_def
proof (intro allI impI)
  fix t c l row
  assume w: "writes db db' e" and ok: "\<forall>t c l row. find_entry db t c l = Some row
      \<longrightarrow> (\<exists>e n. entry_ok e \<and> row = row_of_entry e n)" and row: "find_entry db' t c l = Some row"
  from w obtain n where n: "entry_ok e" "find_entry db' t c l =
      (if (t, c, l) = (qe_tenant_id e, qe_campaign_id e, qe_lead_id e)
       then Some (row_of_entry e n) else find_entry db t c l)"
    unfolding writes_def by blast
  show "\<exists>e n. entry_ok e \<and> row = row_of_entry e n"
  proof (cases "(t, c, l) = (qe_tenant_id e, qe_campaign_id e, qe_lead_id e)")
    case True
    with n row show ?thesis by auto
  next
    case False
    with n(2) have "find_entry db' t c l = find_entry db t c l" by (rule trans [OF _ if_not_P])
    with row have "find_entry db t c l = Some row" by simp
    with ok show ?thesis by blast
  qed
qed

lemma writes_get:
  assumes "writes db db' e"
  shows "entry_get db' t c l = (if (t, c, l) = (qe_tenant_id e, qe_campaign_id e, qe_lead_id e)
    then Inr (Some e) else entry_get db t c l)"
  using assms by (auto simp: writes_def entry_get_def read_entry)

lemma find_filter_other: "\<forall>r \<in> set rows. q r \<longrightarrow> \<not> p r \<Longrightarrow>
    List.find q (filter (\<lambda>r. \<not> p r) rows) = List.find q rows"
  by (induction rows) auto

lemma find_append: "List.find q (xs @ ys) = (case List.find q xs of None \<Rightarrow> List.find q ys | Some x \<Rightarrow> Some x)"
  by (induction xs) auto

lemma find_sql_replace:
  assumes "queue_key t' c' l' row"
  shows "List.find (queue_key t c l) (sql_replace (queue_key t' c' l') row rows)
    = (if (t, c, l) = (t', c', l') then Some row else List.find (queue_key t c l) rows)"
proof (cases "(t, c, l) = (t', c', l')")
  case True
  then have "List.find (queue_key t c l) (filter (\<lambda>r. \<not> queue_key t' c' l' r) rows) = None"
    by (auto simp: find_None_all)
  with True assms show ?thesis by (simp add: sql_replace_def find_append)
next
  case False
  then have "List.find (queue_key t c l) (filter (\<lambda>r. \<not> queue_key t' c' l' r) rows)
      = List.find (queue_key t c l) rows"
    by (intro find_filter_other) (auto simp: queue_key_def)
  moreover have "\<not> queue_key t c l row" using False assms by (auto simp: queue_key_def)
  ultimately show ?thesis using False by (auto simp: sql_replace_def find_append split: option.split)
qed

lemma save_cases:
  assumes "queue_ok db" and "entry_ok e"
  obtains (refused) "entry_save db e = (Inl StaleRevisionError, db)"
  | (saved) "fst (entry_save db e) = Inr e" and "writes db (snd (entry_save db e)) e"
      and "\<And>c. entry_get db (qe_tenant_id e) (qe_campaign_id e) (qe_lead_id e) = Inr (Some c)
        \<Longrightarrow> qe_is_dnc c \<Longrightarrow> qe_is_dnc e"
proof -
  let ?db' = "\<lambda>n. db\<lparr>db_queue := sql_replace
      (queue_key (qe_tenant_id e) (qe_campaign_id e) (qe_lead_id e)) (row_of_entry e n) (db_queue db)\<rparr>"
  have found: "find_entry (?db' n) t c l =
      (if (t, c, l) = (qe_tenant_id e, qe_campaign_id e, qe_lead_id e)
       then Some (row_of_entry e n) else find_entry db t c l)" for n t c l
    using find_sql_replace [of "qe_tenant_id e" "qe_campaign_id e" "qe_lead_id e" "row_of_entry e n" t c l "db_queue db"]
    by (simp add: find_entry_def)
  from assms(1) show thesis
  proof (cases rule: entry_get_cases [where t = "qe_tenant_id e" and c = "qe_campaign_id e" and l = "qe_lead_id e"])
    case absent
    then have "entry_save db e = (Inr e, ?db' 0)" by (simp add: entry_save_def)
    moreover have "writes db (?db' 0) e"
      unfolding writes_def using absent(2) assms(2) found by (intro exI [of _ 0]) simp
    ultimately show thesis using absent(1) by (intro saved) auto
  next
    case (present cur n)
    show thesis
    proof (cases "qe_is_dnc cur \<and> \<not> qe_is_dnc e")
      case True
      with present(1) show thesis by (intro refused) (simp add: entry_save_def)
    next
      case False
      let ?n = "n + 1"
      have "entry_save db e = (Inr e, ?db' ?n)"
        using present(1,2) False by (simp add: entry_save_def stored_revision_def)
      moreover have "writes db (?db' ?n) e"
        unfolding writes_def using present(2) assms(2) found by (intro exI [of _ ?n]) simp
      ultimately show thesis using present(1) False by (intro saved) auto
    qed
  qed
qed

text \<open>An update of the found entry.\<close>

lemma update_writes:
  assumes find: "find_entry db t c l = Some (row_of_entry e0 n)" and p: "p (row_of_entry e0 n)" and e: "entry_ok e"
    and key: "qe_tenant_id e = t" "qe_campaign_id e = c" "qe_lead_id e = l"
    and f: "f (row_of_entry e0 n) = row_of_entry e (n + 1)"
    and keeps: "\<forall>r. qr_tenant_id (f r) = qr_tenant_id r \<and> qr_campaign_id (f r) = qr_campaign_id r
      \<and> qr_lead_id (f r) = qr_lead_id r"
    and only: "\<forall>r. p r \<longrightarrow> queue_key t c l r"
  shows "writes db (db\<lparr>db_queue := sql_update p f (db_queue db)\<rparr>) e"
proof -
  have q: "\<forall>r. queue_key t' c' l' (f r) = queue_key t' c' l' r" for t' c' l'
    using keeps by (simp add: queue_key_def)
  have "find_entry (db\<lparr>db_queue := sql_update p f (db_queue db)\<rparr>) t' c' l'
      = (if (t', c', l') = (t, c, l) then Some (row_of_entry e (n + 1)) else find_entry db t' c' l')"
    for t' c' l'
  proof (cases "(t', c', l') = (t, c, l)")
    case True
    then show ?thesis using find p f by (simp add: find_entry_def find_sql_update [OF q])
  next
    case False
    have "\<not> p r" if "find_entry db t' c' l' = Some r" for r
      using find_entry_key [OF that] only False by (auto simp: queue_key_def)
    then show ?thesis using False
      by (cases "find_entry db t' c' l'") (auto simp: find_entry_def find_sql_update [OF q])
  qed
  then show ?thesis unfolding writes_def using find e key
    by (intro exI [of _ "n + 1"]) simp
qed

lemma entry_ok_status: "entry_ok e \<Longrightarrow> qe_is_dnc e \<Longrightarrow> qe_status e = LQ_DNC"
  by (auto simp: entry_ok_def mk_entry_def res_simps split: if_splits dest: arg_cong [where f = qe_status])

lemma entry_ok_change:
  "entry_ok e \<Longrightarrow> \<not> qe_is_dnc e \<or> st = LQ_DNC \<Longrightarrow> mk_entry (e\<lparr>qe_status := st\<rparr>) = Inr (e\<lparr>qe_status := st\<rparr>)"
  "entry_ok e \<Longrightarrow> mk_entry (e\<lparr>qe_is_dnc := True, qe_status := LQ_DNC\<rparr>)
    = Inr (e\<lparr>qe_is_dnc := True, qe_status := LQ_DNC\<rparr>)"
  by (auto simp: entry_ok_def mk_entry_def res_simps split: if_splits)

lemma transition_cases:
  assumes "queue_ok db"
  obtains (refused) x where "entry_transition db t c l from_status to_status = (Inl x, db)"
      and "x \<in> {NotFoundError, StaleRevisionError}"
  | (moved) e where "entry_get db t c l = Inr (Some e)" and "qe_status e = from_status"
      and "qe_is_dnc e \<Longrightarrow> to_status = LQ_DNC" and "entry_ok e"
      and "qe_tenant_id e = t" "qe_campaign_id e = c" "qe_lead_id e = l"
      and "fst (entry_transition db t c l from_status to_status) = Inr (e\<lparr>qe_status := to_status\<rparr>)"
      and "writes db (snd (entry_transition db t c l from_status to_status)) (e\<lparr>qe_status := to_status\<rparr>)"
  using assms
proof (cases rule: entry_get_cases [where t = t and c = c and l = l])
  case absent
  then show thesis by (intro refused [of NotFoundError]) (simp_all add: entry_transition_def)
next
  case (present e n)
  show thesis
  proof (cases "(qe_is_dnc e \<longrightarrow> to_status = LQ_DNC) \<and> qe_status e = from_status")
    case False
    with present(1) show thesis
      by (cases "qe_is_dnc e \<longrightarrow> to_status = LQ_DNC"; intro refused [of StaleRevisionError])
        (simp_all add: entry_transition_def)
  next
    case True
    let ?e = "e\<lparr>qe_status := to_status\<rparr>"
    let ?p = "\<lambda>r. queue_key t c l r \<and> qr_status r = queue_status_value from_status"
    let ?f = "\<lambda>r. r\<lparr>qr_status := queue_status_value to_status, qr_revision := stored_revision db e + 1\<rparr>"
    have made: "mk_entry ?e = Inr ?e" using present(3) True by (intro entry_ok_change(1)) auto
    have out: "entry_transition db t c l from_status to_status
        = (Inr ?e, db\<lparr>db_queue := sql_update ?p ?f (db_queue db)\<rparr>)"
      using present(1) True made by (simp add: entry_transition_def)
    have rev: "stored_revision db e = n"
      using present(2,4-6) by (simp add: stored_revision_def)
    have status: "qr_status (row_of_entry e n) = queue_status_value from_status"
      using True by (simp add: row_of_entry_def)
    have f: "?f (row_of_entry e n) = row_of_entry ?e (n + 1)" by (simp add: row_of_entry_def rev)
    have "writes db (db\<lparr>db_queue := sql_update ?p ?f (db_queue db)\<rparr>) ?e"
      using find_entry_key [OF present(2)] status made present(4-6)
      by (intro update_writes [where p = ?p and f = ?f, OF present(2) _ _ _ _ _ f]) (simp_all add: entry_ok_def)
    with moved [OF present(1) _ _ present(3-6)] True out show thesis by simp
  qed
qed

lemma mark_dnc_cases:
  assumes "queue_ok db"
  obtains (refused) "entry_mark_dnc db t c l = (Inl NotFoundError, db)"
  | (marked) e where "entry_get db t c l = Inr (Some e)"
      and "qe_tenant_id e = t" "qe_campaign_id e = c" "qe_lead_id e = l"
      and "fst (entry_mark_dnc db t c l) = Inr (e\<lparr>qe_is_dnc := True, qe_status := LQ_DNC\<rparr>)"
      and "writes db (snd (entry_mark_dnc db t c l)) (e\<lparr>qe_is_dnc := True, qe_status := LQ_DNC\<rparr>)"
  using assms
proof (cases rule: entry_get_cases [where t = t and c = c and l = l])
  case absent
  then show thesis by (intro refused) (simp add: entry_mark_dnc_def)
next
  case (present e n)
  let ?e = "e\<lparr>qe_is_dnc := True, qe_status := LQ_DNC\<rparr>"
  let ?f = "\<lambda>r. r\<lparr>qr_status := queue_status_value LQ_DNC, qr_is_dnc := 1,
      qr_revision := stored_revision db e + 1\<rparr>"
  have made: "mk_entry ?e = Inr ?e" by (rule entry_ok_change(2) [OF present(3)])
  have out: "entry_mark_dnc db t c l = (Inr ?e, db\<lparr>db_queue := sql_update (queue_key t c l) ?f (db_queue db)\<rparr>)"
    using present(1) made by (simp add: entry_mark_dnc_def)
  have rev: "stored_revision db e = n"
    using present(2,4-6) by (simp add: stored_revision_def)
  have f: "?f (row_of_entry e n) = row_of_entry ?e (n + 1)" by (simp add: row_of_entry_def rev)
  have "writes db (db\<lparr>db_queue := sql_update (queue_key t c l) ?f (db_queue db)\<rparr>) ?e"
    using find_entry_key [OF present(2)] made present(4-6)
    by (intro update_writes [where p = "queue_key t c l" and f = ?f, OF present(2) _ _ _ _ _ f])
       (simp_all add: entry_ok_def)
  with marked [OF present(1,4-6)] out show thesis by simp
qed

section \<open>A do-not-call mark is kept\<close>

datatype queue_op =
    QSave lead_queue_entry
  | QTransition str str str lead_queue_status lead_queue_status
  | QMarkDnc str str str

fun queue_step :: "database \<Rightarrow> queue_op \<Rightarrow> database" where
  "queue_step db (QSave e) = (case mk_entry e of Inl _ \<Rightarrow> db | Inr e' \<Rightarrow> snd (entry_save db e'))"
| "queue_step db (QTransition t c l from_status to_status) = snd (entry_transition db t c l from_status to_status)"
| "queue_step db (QMarkDnc t c l) = snd (entry_mark_dnc db t c l)"

text \<open>What an operation may do to the stored entries: add one, or move one to a later revision.\<close>

definition row_later :: "queue_row \<Rightarrow> queue_row \<Rightarrow> bool" where
  "row_later row row' \<longleftrightarrow> qr_revision row \<le> qr_revision row'
     \<and> (qr_revision row = qr_revision row' \<longrightarrow> row' = row) \<and> (qr_is_dnc row \<noteq> 0 \<longrightarrow> qr_is_dnc row' \<noteq> 0)"

lemma row_later_refl [simp]: "row_later row row"
  by (simp add: row_later_def)

lemma row_later_trans: "row_later a b \<Longrightarrow> row_later b c \<Longrightarrow> row_later a c"
  unfolding row_later_def by (cases "qr_revision a = qr_revision c") auto

definition queue_below :: "database \<Rightarrow> database \<Rightarrow> bool" where
  "queue_below db db' \<longleftrightarrow> (queue_ok db \<longrightarrow> queue_ok db'
     \<and> db_sessions db' = db_sessions db
     \<and> (\<forall>t c l row. find_entry db t c l = Some row \<longrightarrow> (\<exists>row'. find_entry db' t c l = Some row' \<and> row_later row row')))"

lemma queue_below_refl: "queue_below db db"
  by (simp add: queue_below_def)

lemma queue_below_trans: "queue_below db db' \<Longrightarrow> queue_below db' db'' \<Longrightarrow> queue_below db db''"
  unfolding queue_below_def by (fastforce intro: row_later_trans)

lemma writes_below:
  assumes w: "writes db db' e" and ok: "queue_ok db"
    and dnc: "\<And>cur. entry_get db (qe_tenant_id e) (qe_campaign_id e) (qe_lead_id e) = Inr (Some cur)
        \<Longrightarrow> qe_is_dnc cur \<Longrightarrow> qe_is_dnc e"
  shows "queue_below db db'"
proof -
  from w obtain n where n: "db' = db\<lparr>db_queue := db_queue db'\<rparr>"
    and found: "\<And>t c l. find_entry db' t c l =
          (if (t, c, l) = (qe_tenant_id e, qe_campaign_id e, qe_lead_id e)
           then Some (row_of_entry e n) else find_entry db t c l)"
    and rev: "\<And>row. find_entry db (qe_tenant_id e) (qe_campaign_id e) (qe_lead_id e) = Some row
          \<Longrightarrow> n = qr_revision row + 1"
    unfolding writes_def by blast
  have "\<exists>row'. find_entry db' t c l = Some row' \<and> row_later row row'" if row: "find_entry db t c l = Some row" for t c l row
  proof (cases "(t, c, l) = (qe_tenant_id e, qe_campaign_id e, qe_lead_id e)")
    case True
    with row have row': "find_entry db (qe_tenant_id e) (qe_campaign_id e) (qe_lead_id e) = Some row" by simp
    from ok show ?thesis
    proof (cases rule: entry_get_cases [where t = "qe_tenant_id e" and c = "qe_campaign_id e" and l = "qe_lead_id e"])
      case absent
      with row' show ?thesis by simp
    next
      case (present cur m)
      with row' have "row = row_of_entry cur m" by simp
      moreover have "n = m + 1" using rev [OF present(2)] by simp
      ultimately show ?thesis using True found [of t c l] dnc [OF present(1)]
        by (auto simp: row_of_entry_def row_later_def)
    qed
  next
    case False
    with found [of t c l] row show ?thesis by auto
  qed
  moreover have "db_sessions db' = db_sessions db" by (subst n) simp
  ultimately show ?thesis using writes_ok [OF w ok] by (simp add: queue_below_def)
qed

lemma queue_step_below: "queue_below db (queue_step db ev)"
proof (cases "queue_ok db")
  case False
  then show ?thesis by (simp add: queue_below_def)
next
  case ok: True
  show ?thesis
  proof (cases ev)
    case (QSave e0)
    show ?thesis
    proof (cases "mk_entry e0")
      case (Inl x)
      with QSave show ?thesis by (simp add: queue_below_refl)
    next
      case (Inr e)
      from ok mk_entry_ok [OF Inr] show ?thesis
      proof (cases rule: save_cases)
        case refused
        with QSave Inr show ?thesis by (simp add: queue_below_refl)
      next
        case saved
        with writes_below [OF saved(2) ok saved(3)] QSave Inr show ?thesis by simp
      qed
    qed
  next
    case (QTransition t c l a b)
    from ok show ?thesis
    proof (cases rule: transition_cases [where t = t and c = c and l = l and from_status = a and to_status = b])
      case (refused x)
      with QTransition show ?thesis by (simp add: queue_below_refl)
    next
      case (moved e)
      from moved(1,5-7) have "queue_below db (snd (entry_transition db t c l a b))"
        by (intro writes_below [OF moved(9) ok]) simp
      with QTransition show ?thesis by simp
    qed
  next
    case (QMarkDnc t c l)
    from ok show ?thesis
    proof (cases rule: mark_dnc_cases [where t = t and c = c and l = l])
      case refused
      with QMarkDnc show ?thesis by (simp add: queue_below_refl)
    next
      case (marked e)
      have "queue_below db (snd (entry_mark_dnc db t c l))"
        by (intro writes_below [OF marked(6) ok]) simp
      with QMarkDnc show ?thesis by simp
    qed
  qed
qed

interpretation queue: monotone queue_step queue_below
  by unfold_locales (rule queue_below_refl, erule (1) queue_below_trans, rule queue_step_below)

lemma dnc_transition_refused:
  assumes "queue_ok db" and "entry_get db t c l = Inr (Some e)" and "qe_is_dnc e" and "to_status \<noteq> LQ_DNC"
  shows "entry_transition db t c l from_status to_status = (Inl StaleRevisionError, db)"
  using assms by (simp add: entry_transition_def)

text \<open>
  C13. A stored do-not-call mark survives. Whatever sequence of saves, transitions and marks
  the queue store executes, a lead once stored as do-not-call is stored as do-not-call with
  that status, its stored revision has not fallen, no campaign configuration makes it callable
  again, and every transition of it to another status is refused without a change.
\<close>

theorem stored_dnc_survives:
  assumes "queue_ok db" and "find_entry db t c l = Some row" and "qr_is_dnc row \<noteq> 0"
    and "db' = foldl queue_step db ops"
  shows "\<exists>e row'. find_entry db' t c l = Some row' \<and> entry_get db' t c l = Inr (Some e)
    \<and> qe_is_dnc e \<and> qe_status e = LQ_DNC \<and> qr_revision row \<le> qr_revision row'
    \<and> (\<forall>cfg. \<not> is_lead_callable e cfg)
    \<and> (\<forall>a b. b \<noteq> LQ_DNC \<longrightarrow> entry_transition db' t c l a b = (Inl StaleRevisionError, db'))"
proof -
  have "queue_below db db'" unfolding assms(4) by (rule queue.run_below)
  with assms(1-3) obtain row' where ok: "queue_ok db'" and row': "find_entry db' t c l = Some row'"
    "qr_revision row \<le> qr_revision row'" "qr_is_dnc row' \<noteq> 0"
    unfolding queue_below_def row_later_def by blast
  from ok show ?thesis
  proof (cases rule: entry_get_cases [where t = t and c = c and l = l])
    case absent
    with row' show ?thesis by simp
  next
    case (present e n)
    with row' have "qe_is_dnc e" by (auto simp: row_of_entry_def split: if_splits)
    moreover from this have "qe_status e = LQ_DNC" by (rule entry_ok_status [OF present(3)])
    moreover have "\<not> is_lead_callable e cfg" for cfg
      using \<open>qe_is_dnc e\<close> by (simp add: is_lead_callable_def)
    ultimately show ?thesis
      using present(1) row' dnc_transition_refused [OF ok present(1)] by blast
  qed
qed

definition stored_entry :: lead_queue_entry where
  "stored_entry = \<lparr>qe_lead_id = ''b1_row_2'', qe_campaign_id = ''c'', qe_tenant_id = ''t'',
     qe_queue_position = 1, qe_status = LQ_READY, qe_attempt_count = 0, qe_last_attempt_at = None,
     qe_is_dnc = False\<rparr>"

definition queued_database :: database where
  "queued_database = empty_database\<lparr>db_queue := [row_of_entry stored_entry 0]\<rparr>"

lemma queued_database_ok: "queue_ok queued_database" "sessions_ok queued_database"
proof -
  have "entry_ok stored_entry"
    by (simp add: entry_ok_def mk_entry_def stored_entry_def blank_iff py_isspace_def)
  then show "queue_ok queued_database"
    by (auto simp: queue_ok_def queued_database_def find_entry_def empty_database_def split: if_splits)
  show "sessions_ok queued_database"
    by (simp add: queued_database_def sessions_ok_def empty_database_def)
qed

lemma stored_dnc_survives_witness:
  "\<exists>e. entry_get (foldl queue_step (queue_step queued_database (QMarkDnc ''t'' ''c'' ''b1_row_2''))
        [QSave stored_entry, QTransition ''t'' ''c'' ''b1_row_2'' LQ_DNC LQ_READY]) ''t'' ''c'' ''b1_row_2''
      = Inr (Some e) \<and> qe_is_dnc e"
proof -
  let ?db = "queue_step queued_database (QMarkDnc ''t'' ''c'' ''b1_row_2'')"
  have "queue_ok ?db"
    using queue_step_below [of queued_database "QMarkDnc ''t'' ''c'' ''b1_row_2''"] queued_database_ok(1)
    unfolding queue_below_def by blast
  moreover have "find_entry ?db ''t'' ''c'' ''b1_row_2'' \<noteq> None
      \<and> qr_is_dnc (the (find_entry ?db ''t'' ''c'' ''b1_row_2'')) \<noteq> 0" by code_simp
  then obtain row where "find_entry ?db ''t'' ''c'' ''b1_row_2'' = Some row" "qr_is_dnc row \<noteq> 0" by force
  ultimately show ?thesis
    using stored_dnc_survives [where db = ?db and t = "''t''" and c = "''c''" and l = "''b1_row_2''", OF _ _ _ refl]
    by blast
qed

section \<open>A lead is taken once\<close>

lemma find_entry_sessions [simp]:
  "find_entry (db\<lparr>db_sessions := rows\<rparr>) t c l = find_entry db t c l"
  "entry_get (db\<lparr>db_sessions := rows\<rparr>) t c l = entry_get db t c l"
  "queue_ok (db\<lparr>db_sessions := rows\<rparr>) = queue_ok db"
  by (simp_all add: find_entry_def entry_get_def queue_ok_def)

lemma sessions_of_queue:
  assumes "db' = db\<lparr>db_queue := q\<rparr>"
  shows "sq_get db' sid = sq_get db sid" "sessions_ok db' = sessions_ok db" "find_session db' sid = find_session db sid"
  by (simp_all add: assms sq_get_def sessions_ok_def find_session_def)

lemma create_and_consume_cases:
  assumes s: "sessions_ok db" and q: "queue_ok db" and ok: "stored_ok s"
  obtains (refused) x where "create_session_and_consume_lead db s t c l a b = (Inl x, db)"
      and "x \<in> {IdempotencyConflictError, StaleRevisionError, TransactionFailedError}"
  | (taken) e db' where "create_session_and_consume_lead db s t c l a b
        = (Inr (s\<lparr>cse_revision := 0\<rparr>, e\<lparr>qe_status := b\<rparr>), db')"
      and "find_session db (cse_session_id s) = None"
      and "entry_get db t c l = Inr (Some e)" and "qe_status e = a" and "qe_is_dnc e \<Longrightarrow> b = LQ_DNC"
      and "sessions_ok db'" and "queue_ok db'"
      and "\<forall>sid. sq_get db' sid = (if sid = cse_session_id s then Inr (s\<lparr>cse_revision := 0\<rparr>) else sq_get db sid)"
      and "\<forall>t' c' l'. entry_get db' t' c' l' = (if (t', c', l') = (t, c, l)
          then Inr (Some (e\<lparr>qe_status := b\<rparr>)) else entry_get db t' c' l')"
      and "db' = db\<lparr>db_sessions := db_sessions db', db_queue := db_queue db'\<rparr>"
proof (cases "find_session db (cse_session_id s)")
  case (Some r)
  then show thesis
    by (intro refused [of IdempotencyConflictError])
      (simp_all add: create_session_and_consume_lead_def transaction_def create_and_consume_def sq_create_def Let_def)
next
  case None
  let ?s = "s\<lparr>cse_revision := 0\<rparr>"
  let ?db1 = "db\<lparr>db_sessions := db_sessions db @ [row_of_session ?s]\<rparr>"
  note create = sq_create_stored [OF s None ok]
  have q1: "queue_ok ?db1" using q by simp
  have s1: "sessions_ok ?db1" using create(1,2) by simp
  show thesis
  proof (rule transition_cases [OF q1, where t = t and c = c and l = l and from_status = a and to_status = b])
    fix x assume x: "entry_transition ?db1 t c l a b = (Inl x, ?db1)" "x \<in> {NotFoundError, StaleRevisionError}"
    then show thesis
      by (intro refused [of "if x = StaleRevisionError then x else TransactionFailedError"])
        (auto simp: create_session_and_consume_lead_def transaction_def create_and_consume_def create(1))
  next
    fix e
    assume e: "entry_get ?db1 t c l = Inr (Some e)" "qe_status e = a" "qe_is_dnc e \<Longrightarrow> b = LQ_DNC"
      "qe_tenant_id e = t" "qe_campaign_id e = c" "qe_lead_id e = l"
      "fst (entry_transition ?db1 t c l a b) = Inr (e\<lparr>qe_status := b\<rparr>)"
      "writes ?db1 (snd (entry_transition ?db1 t c l a b)) (e\<lparr>qe_status := b\<rparr>)"
    obtain db2 where out: "entry_transition ?db1 t c l a b = (Inr (e\<lparr>qe_status := b\<rparr>), db2)"
      using e(7) by (cases "entry_transition ?db1 t c l a b") simp
    have w: "writes ?db1 db2 (e\<lparr>qe_status := b\<rparr>)" using e(8) out by simp
    then have db2: "db2 = ?db1\<lparr>db_queue := db_queue db2\<rparr>" unfolding writes_def by blast
    have "create_session_and_consume_lead db s t c l a b = (Inr (?s, e\<lparr>qe_status := b\<rparr>), db2)"
      by (simp add: create_session_and_consume_lead_def transaction_def create_and_consume_def create(1) out)
    moreover have "sq_get db2 sid = (if sid = cse_session_id s then Inr ?s else sq_get db sid)" for sid
    proof (cases "sid = cse_session_id s")
      case True
      have "represents (row_of_session ?s) ?s" by simp
      then have "sq_get ?db1 sid = Inr ?s"
        unfolding sq_get_iff [OF s1] using create(3) True by auto
      then show ?thesis using True sessions_of_queue(1) [OF db2] by simp
    next
      case False
      then have "find_session ?db1 sid = find_session db sid"
        by (simp add: find_session_def find_append row_of_session_def split: option.split)
      then show ?thesis using False sessions_of_queue(1) [OF db2, of sid] by (simp add: sq_get_def)
    qed
    moreover have "entry_get db2 t' c' l' = (if (t', c', l') = (t, c, l)
        then Inr (Some (e\<lparr>qe_status := b\<rparr>)) else entry_get db t' c' l')" for t' c' l'
      using writes_get [OF w, of t' c' l'] e(4-6) by simp
    moreover have "sessions_ok db2" using sessions_of_queue(2) [OF db2] s1 by simp
    moreover have "db2 = db\<lparr>db_sessions := db_sessions db2, db_queue := db_queue db2\<rparr>"
      using db2 by (metis database.surjective database.update_convs(2,3) database.select_convs(2,3))
    ultimately show thesis
      using None e(1-3) writes_ok [OF w q1] by (intro taken [of e db2]) simp_all
  qed
qed



end
