(* ===== verification/Recovery.thy ===== *)
theory Recovery
  imports SqliteQueue
begin

text \<open>
  \<^verbatim>\<open>application/sales_runtime/manifest.py\<close> and \<^verbatim>\<open>recovery.py\<close>: what a snapshot must
  contain to be restored, and the classification of a stored session after a restart. The
  payloads inside a snapshot are texts; \<open>loads\<close> is \<^verbatim>\<open>json.loads\<close> on them, with
  \<^verbatim>\<open>ValueError\<close> for text that is not JSON. The texts of exceptions that end up in a
  diagnostic are the function \<open>exn_text\<close>.
\<close>

section \<open>The compatibility manifest\<close>

definition BUSINESS_CONVERSATION_KEY :: str where "BUSINESS_CONVERSATION_KEY = ''bci''"

definition QUALIFICATION_KEY :: str where "QUALIFICATION_KEY = ''qualification''"

definition LANGUAGE_PROFILE_KEY :: str where "LANGUAGE_PROFILE_KEY = ''language_profile''"

definition PROSPECT_INTELLIGENCE_KEY :: str where "PROSPECT_INTELLIGENCE_KEY = ''prospect_intelligence''"

definition PARTICIPANT_STATE_KEY :: str where "PARTICIPANT_STATE_KEY = ''participant_state''"

definition DISCUSSION_COVERAGE_KEY :: str where "DISCUSSION_COVERAGE_KEY = ''discussion_coverage''"

definition PARTICIPANT_PROSPECT_ARCHIVE_KEY :: str where
  "PARTICIPANT_PROSPECT_ARCHIVE_KEY = ''participant_prospect_archive''"

definition BUDGET_STATE_KEY :: str where "BUDGET_STATE_KEY = ''budget_state''"

definition STEERING_KEY :: str where "STEERING_KEY = ''steering''"

definition UNFINISHED_INTENT_KEY :: str where "UNFINISHED_INTENT_KEY = ''unfinished_intent''"

definition REPETITION_STATE_KEY :: str where "REPETITION_STATE_KEY = ''repetition_state''"

definition EVIDENCE_SATURATION_KEY :: str where "EVIDENCE_SATURATION_KEY = ''evidence_saturation''"

record snapshot_manifest =
  sm_top_level_snapshot_version :: int
  sm_supported_contract_versions :: "(str \<times> int) list"
  sm_required_for_active_recovery :: "str set"
  sm_optional_derived :: "str set"

text \<open>\<^verbatim>\<open>v == version\<close> for a version read from a document.\<close>

fun version_is :: "int \<Rightarrow> json \<Rightarrow> bool" where
  "version_is v (JInt n) = (v = n)"
| "version_is v (JBool b) = (v = (if b then 1 else 0))"
| "version_is v (JFloat (Fin q)) = (q = rat_of_int v)"
| "version_is v _ = False"

definition is_supported :: "snapshot_manifest \<Rightarrow> str \<Rightarrow> json \<Rightarrow> bool" where
  "is_supported m key version \<longleftrightarrow>
     (\<exists>(k, v) \<in> set (sm_supported_contract_versions m). k = key \<and> version_is v version)"

definition is_required :: "snapshot_manifest \<Rightarrow> str \<Rightarrow> bool" where
  "is_required m key \<longleftrightarrow> key \<in> sm_required_for_active_recovery m"

definition missing_required :: "snapshot_manifest \<Rightarrow> str set \<Rightarrow> str set" where
  "missing_required m present = sm_required_for_active_recovery m - present"

definition default_manifest :: snapshot_manifest where
  "default_manifest = \<lparr>sm_top_level_snapshot_version = SNAPSHOT_VERSION_CURRENT,
     sm_supported_contract_versions = [(BUSINESS_CONVERSATION_KEY, 1), (QUALIFICATION_KEY, 1),
       (LANGUAGE_PROFILE_KEY, 1), (PROSPECT_INTELLIGENCE_KEY, 1), (PARTICIPANT_STATE_KEY, 1),
       (DISCUSSION_COVERAGE_KEY, 1), (PARTICIPANT_PROSPECT_ARCHIVE_KEY, 1), (BUDGET_STATE_KEY, 1)],
     sm_required_for_active_recovery = {BUSINESS_CONVERSATION_KEY},
     sm_optional_derived = {LANGUAGE_PROFILE_KEY, QUALIFICATION_KEY, PROSPECT_INTELLIGENCE_KEY,
       PARTICIPANT_STATE_KEY, DISCUSSION_COVERAGE_KEY, PARTICIPANT_PROSPECT_ARCHIVE_KEY,
       BUDGET_STATE_KEY, STEERING_KEY, UNFINISHED_INTENT_KEY, REPETITION_STATE_KEY,
       EVIDENCE_SATURATION_KEY}\<rparr>"

section \<open>Recovery\<close>

datatype recovery_status =
    RS_RECOVERED_FRESH | RS_RECOVERED_ACTIVE | RS_RECOVERED_TERMINAL | RS_ALREADY_TERMINAL
  | RS_SESSION_NOT_FOUND | RS_POLICY_VERSION_MISSING | RS_ORPHANED_QUEUE_STATE | RS_STALE_REVISION
  | RS_INVALID_PERSISTED_STATE | RS_RUNTIME_SNAPSHOT_MISSING | RS_RUNTIME_SNAPSHOT_INVALID
  | RS_RUNTIME_SNAPSHOT_VERSION_UNSUPPORTED | RS_REQUIRED_PAYLOAD_MISSING
  | RS_UNSUPPORTED_PAYLOAD_VERSION | RS_STATE_RESTORE_FAILED | RS_RECOVERY_UNSUPPORTED_FOR_STATE
  | RS_RECOVERY_BLOCKED

datatype orphan_diagnosis =
    Or_NONE | Or_QUEUE_IN_PROGRESS_SESSION_MISSING | Or_ACTIVE_SESSION_QUEUE_NOT_IN_PROGRESS
  | Or_DNC_SESSION_QUEUE_NOT_DNC

record recovery_diagnostics =
  rd_session_id :: str
  rd_campaign_id :: "str option"
  rd_lead_id :: "str option"
  rd_stored_revision :: "int option"
  rd_policy_id :: "str option"
  rd_policy_version :: "str option"
  rd_queue_status :: "str option"
  rd_turn_count :: "int option"
  rd_orphan_diagnosis :: orphan_diagnosis
  rd_failure_detail :: "str option"
  rd_missing_required_payload :: "str option"
  rd_unsupported_payload :: "str option"

record recovery_result =
  rr_status :: recovery_status
  rr_session :: "planned_session option"
  rr_queue_entry :: "lead_queue_entry option"
  rr_policy :: "discovery_policy option"
  rr_runtime_snapshot :: "runtime_snapshot option"
  rr_diagnostics :: "recovery_diagnostics option"

definition with_detail :: "recovery_diagnostics \<Rightarrow> str \<Rightarrow> recovery_diagnostics" where
  "with_detail d detail = d\<lparr>rd_failure_detail := Some detail, rd_missing_required_payload := None,
     rd_unsupported_payload := None\<rparr>"

definition with_missing_payload :: "recovery_diagnostics \<Rightarrow> str \<Rightarrow> recovery_diagnostics" where
  "with_missing_payload d key = d\<lparr>rd_failure_detail := Some (''required payload missing: '' @ key),
     rd_missing_required_payload := Some key, rd_unsupported_payload := None\<rparr>"

definition with_unsupported_payload :: "recovery_diagnostics \<Rightarrow> str \<Rightarrow> recovery_diagnostics" where
  "with_unsupported_payload d key = d\<lparr>rd_failure_detail := Some (''unsupported payload version: '' @ key),
     rd_missing_required_payload := None, rd_unsupported_payload := Some key\<rparr>"

definition diagnose_orphan :: "planned_session \<Rightarrow> lead_queue_entry option \<Rightarrow> orphan_diagnosis" where
  "diagnose_orphan s entry = (case entry of
       None \<Rightarrow> Or_NONE
     | Some e \<Rightarrow>
         if cse_status s = SS_ACTIVE \<and> qe_status e \<noteq> LQ_IN_PROGRESS \<and> \<not> qe_is_dnc e
         then Or_ACTIVE_SESSION_QUEUE_NOT_IN_PROGRESS else Or_NONE)"

definition diagnose_orphan_queue_entry :: "database \<Rightarrow> str \<Rightarrow> str \<Rightarrow> str \<Rightarrow> orphan_diagnosis res" where
  "diagnose_orphan_queue_entry db tenant campaign lead =
     rbind (entry_get db tenant campaign lead) (\<lambda>found. case found of
       None \<Rightarrow> Inr Or_NONE
     | Some e \<Rightarrow>
         if qe_status e \<noteq> LQ_IN_PROGRESS then Inr Or_NONE
         else rbind (sq_list_sessions db (Some tenant)) (\<lambda>sessions.
           Inr (if \<exists>s \<in> set sessions. cse_lead_id s = lead \<and> cse_campaign_id s = campaign
                then Or_NONE else Or_QUEUE_IN_PROGRESS_SESSION_MISSING)))"

definition base_diagnostics :: "planned_session \<Rightarrow> lead_queue_entry option \<Rightarrow> str \<Rightarrow> recovery_diagnostics" where
  "base_diagnostics s entry sid = \<lparr>rd_session_id = sid, rd_campaign_id = Some (cse_campaign_id s),
     rd_lead_id = Some (cse_lead_id s), rd_stored_revision = Some (cse_revision s),
     rd_policy_id = map_option cpl_policy_id (cse_pre_call_plan s),
     rd_policy_version = map_option cpl_policy_version (cse_pre_call_plan s),
     rd_queue_status = map_option (queue_status_value \<circ> qe_status) entry,
     rd_turn_count = Some (cse_turn_count s), rd_orphan_diagnosis = diagnose_orphan s entry,
     rd_failure_detail = None, rd_missing_required_payload = None, rd_unsupported_payload = None\<rparr>"

text \<open>
  The first payload of a known key that cannot be used: \<open>Inl\<close> with the status to report and
  the key, or an exception of \<^verbatim>\<open>env.get\<close> on a document that is not an object.
\<close>

fun check_payloads :: "(str \<Rightarrow> json res) \<Rightarrow> snapshot_manifest \<Rightarrow> (str \<times> str) list
    \<Rightarrow> (recovery_status \<times> str) option res" where
  "check_payloads loads m [] = Inr None"
| "check_payloads loads m ((key, envelope) # rest) =
     (if key \<notin> sm_required_for_active_recovery m \<union> sm_optional_derived m then check_payloads loads m rest
      else case rbind (loads envelope) (\<lambda>env. j_get env ''version'' JNull) of
          Inl e \<Rightarrow> if e \<in> {ValueError, TypeError} then Inr (Some (RS_RUNTIME_SNAPSHOT_INVALID, key)) else Inl e
        | Inr version \<Rightarrow>
            if \<not> is_supported m key version then Inr (Some (RS_UNSUPPORTED_PAYLOAD_VERSION, key))
            else check_payloads loads m rest)"

record recovery_service =
  rcs_has_snapshot_store :: bool
  rcs_manifest :: snapshot_manifest

definition recover_active ::
  "(str \<Rightarrow> json res) \<Rightarrow> (exn \<Rightarrow> str) \<Rightarrow> recovery_service \<Rightarrow> database \<Rightarrow> str \<Rightarrow> recovery_result
    \<Rightarrow> recovery_diagnostics \<Rightarrow> recovery_result res" where
  "recover_active loads exn_text svc db sid base diag =
     (if \<not> rcs_has_snapshot_store svc then
        Inr (base\<lparr>rr_status := RS_RUNTIME_SNAPSHOT_MISSING,
          rr_diagnostics := Some (with_detail diag ''snapshot store not configured'')\<rparr>)
      else case snapshot_load db sid of
          Inl e \<Rightarrow> if e = InvalidPersistedPayloadError
            then Inr (base\<lparr>rr_status := RS_RUNTIME_SNAPSHOT_INVALID,
              rr_diagnostics := Some (with_detail diag (exn_text e))\<rparr>)
            else Inl e
        | Inr None \<Rightarrow> Inr (base\<lparr>rr_status := RS_RUNTIME_SNAPSHOT_MISSING,
            rr_diagnostics := Some (with_detail diag ''no runtime snapshot persisted for ACTIVE session'')\<rparr>)
        | Inr (Some snap) \<Rightarrow>
            (let missing = missing_required (rcs_manifest svc) (fst ` set (rs_persisted_contract_payloads snap));
                 base' = base\<lparr>rr_runtime_snapshot := Some snap\<rparr> in
             if missing \<noteq> {} then Inr (base'\<lparr>rr_status := RS_REQUIRED_PAYLOAD_MISSING,
               rr_diagnostics := Some (with_missing_payload diag (hd (sorted_list_of_set missing)))\<rparr>)
             else rbind (check_payloads loads (rcs_manifest svc) (rs_persisted_contract_payloads snap)) (\<lambda>problem.
               Inr (case problem of
                   None \<Rightarrow> base'\<lparr>rr_status := RS_RECOVERED_ACTIVE\<rparr>
                 | Some (status, key) \<Rightarrow> base'\<lparr>rr_status := status, rr_diagnostics := Some
                     (if status = RS_RUNTIME_SNAPSHOT_INVALID
                      then with_detail diag (''payload '' @ key @ '' envelope malformed'')
                      else with_unsupported_payload diag key)\<rparr>))))"

definition recover ::
  "(str \<Rightarrow> json res) \<Rightarrow> (exn \<Rightarrow> str) \<Rightarrow> recovery_service \<Rightarrow> database \<Rightarrow> str \<Rightarrow> recovery_result res" where
  "recover loads exn_text svc db sid = (case sq_get db sid of
       Inl e \<Rightarrow> if e = NotFoundError
         then Inr \<lparr>rr_status = RS_SESSION_NOT_FOUND, rr_session = None, rr_queue_entry = None,
            rr_policy = None, rr_runtime_snapshot = None, rr_diagnostics = Some \<lparr>rd_session_id = sid,
              rd_campaign_id = None, rd_lead_id = None, rd_stored_revision = None, rd_policy_id = None,
              rd_policy_version = None, rd_queue_status = None, rd_turn_count = None,
              rd_orphan_diagnosis = Or_NONE, rd_failure_detail = None,
              rd_missing_required_payload = None, rd_unsupported_payload = None\<rparr>\<rparr>
         else Inl e
     | Inr s \<Rightarrow>
         rbind (entry_get db (cse_tenant_id s) (cse_campaign_id s) (cse_lead_id s)) (\<lambda>entry.
         let diag = base_diagnostics s entry sid;
             base = \<lparr>rr_status = RS_RECOVERED_TERMINAL, rr_session = Some s, rr_queue_entry = entry,
               rr_policy = None, rr_runtime_snapshot = None, rr_diagnostics = Some diag\<rparr> in
         if cse_status s \<in> {SS_COMPLETED, SS_TERMINATED, SS_ERROR} then Inr base
         else rbind (case cse_pre_call_plan s of
               None \<Rightarrow> Inr (Some None)
             | Some plan \<Rightarrow> rbind (policy_resolve db (cse_campaign_id s) (Some (cpl_policy_version plan)))
                 (\<lambda>policy. Inr (if policy = None then None else Some policy))) (\<lambda>resolved.
           case resolved of
             None \<Rightarrow> Inr (base\<lparr>rr_status := RS_POLICY_VERSION_MISSING\<rparr>)
           | Some policy \<Rightarrow>
               (let base' = base\<lparr>rr_policy := policy\<rparr> in
                if diagnose_orphan s entry \<noteq> Or_NONE then Inr (base'\<lparr>rr_status := RS_ORPHANED_QUEUE_STATE\<rparr>)
                else if cse_turn_count s = 0 then Inr (base'\<lparr>rr_status := RS_RECOVERED_FRESH\<rparr>)
                else recover_active loads exn_text svc db sid base' diag))))"

section \<open>What a recovered session can rely on\<close>

definition payload_usable :: "(str \<Rightarrow> json res) \<Rightarrow> snapshot_manifest \<Rightarrow> str \<Rightarrow> str \<Rightarrow> bool" where
  "payload_usable loads m key envelope =
     (case rbind (loads envelope) (\<lambda>env. j_get env ''version'' JNull) of
        Inl e \<Rightarrow> False | Inr version \<Rightarrow> is_supported m key version)"

lemma check_payloads_None:
  "check_payloads loads m ps = Inr None \<longleftrightarrow>
     (\<forall>(key, envelope) \<in> set ps. key \<in> sm_required_for_active_recovery m \<union> sm_optional_derived m
        \<longrightarrow> payload_usable loads m key envelope)"
  by (induction loads m ps rule: check_payloads.induct) (auto simp: payload_usable_def split: sum.split)

lemma check_payloads_status:
  "check_payloads loads m ps = Inr (Some (status, key))
     \<Longrightarrow> status \<in> {RS_RUNTIME_SNAPSHOT_INVALID, RS_UNSUPPORTED_PAYLOAD_VERSION}"
  by (induction loads m ps rule: check_payloads.induct) (auto split: if_splits sum.splits)

lemma recover_active_cases:
  assumes "recover_active loads exn_text svc db sid base diag = Inr r"
  obtains (active) snap where "rr_status r = RS_RECOVERED_ACTIVE"
      and "r = base\<lparr>rr_runtime_snapshot := Some snap, rr_status := RS_RECOVERED_ACTIVE\<rparr>"
      and "snapshot_load db sid = Inr (Some snap)"
      and "sm_required_for_active_recovery (rcs_manifest svc) \<subseteq> fst ` set (rs_persisted_contract_payloads snap)"
      and "check_payloads loads (rcs_manifest svc) (rs_persisted_contract_payloads snap) = Inr None"
  | (unusable) "rr_status r \<in> {RS_RUNTIME_SNAPSHOT_MISSING, RS_RUNTIME_SNAPSHOT_INVALID,
        RS_REQUIRED_PAYLOAD_MISSING, RS_UNSUPPORTED_PAYLOAD_VERSION}"
proof (cases "rcs_has_snapshot_store svc")
  case False
  with assms show thesis by (intro unusable) (auto simp: recover_active_def)
next
  case True
  show thesis
  proof (cases "snapshot_load db sid")
    case (Inl e)
    with True assms show thesis by (intro unusable) (auto simp: recover_active_def split: if_splits)
  next
    case (Inr found)
    show thesis
    proof (cases found)
      case None
      with True Inr assms show thesis by (intro unusable) (auto simp: recover_active_def)
    next
      case (Some snap)
      let ?m = "rcs_manifest svc" and ?ps = "rs_persisted_contract_payloads snap"
      show thesis
      proof (cases "missing_required ?m (fst ` set ?ps) = {}")
        case False
        with True Inr Some assms show thesis by (intro unusable) (auto simp: recover_active_def Let_def)
      next
        case complete: True
        with True Inr Some assms obtain problem where problem: "check_payloads loads ?m ?ps = Inr problem"
          by (auto simp: recover_active_def Let_def res_simps)
        show thesis
        proof (cases problem)
          case None
          with complete True Inr Some problem assms show thesis
            by (intro active [of snap]) (auto simp: recover_active_def missing_required_def Let_def)
        next
          case (Some bad)
          then obtain status key where bad: "problem = Some (status, key)" by (cases bad) auto
          then have "status \<in> {RS_RUNTIME_SNAPSHOT_INVALID, RS_UNSUPPORTED_PAYLOAD_VERSION}"
            using problem check_payloads_status by blast
          moreover have "rr_status r = status"
            using complete True Inr \<open>found = Some snap\<close> problem bad assms
            by (auto simp: recover_active_def Let_def)
          ultimately show thesis by (intro unusable) auto
        qed
      qed
    qed
  qed
qed


definition interrupted_session :: planned_session where
  "interrupted_session = planned_session_fixture\<lparr>cse_turn_count := 1\<rparr>"

definition interrupted_snapshot :: runtime_snapshot where
  "interrupted_snapshot = document_snapshot\<lparr>rs_persisted_contract_payloads :=
     [(''bci'', ''envelope''), (''other'', ''not json'')]\<rparr>"

definition interrupted_database :: database where
  "interrupted_database = snapshot_save (policy_register_default
     (empty_database\<lparr>db_sessions := [row_of_session interrupted_session]\<rparr>) ''c'' sample_discovery)
     interrupted_snapshot"

definition sample_loads :: "str \<Rightarrow> json res" where
  "sample_loads t = (if t = ''envelope'' then Inr (JObj [(''version'', JInt 1)]) else Inl ValueError)"

lemma interrupted_database_ok: "sessions_ok interrupted_database"
proof -
  have ok: "stored_ok interrupted_session"
    using planned_session_stored_ok
    by (simp add: interrupted_session_def stored_ok_def session_ok_def check_session_def
        planned_session_fixture_def blank_iff py_isspace_def res_simps)
  obtain row where "db_sessions interrupted_database = [row]" "represents row interrupted_session"
    by (simp add: interrupted_database_def snapshot_save_def sql_update_def policy_register_default_def
        row_of_session_def represents_def Let_def)
  with ok show ?thesis by (auto simp: sessions_ok_def)
qed


end
