(* ===== verification/SalesRuntime.thy ===== *)
theory SalesRuntime
  imports Recovery
begin

text \<open>
  \<^verbatim>\<open>application/sales_runtime/persistent_runtime.py\<close>: starting a session, processing its
  turns and restoring its processor after a restart, over the SQLite store.
  The turn processor and its factory are functions of the runtime's configuration: running a
  turn returns its output, or raises, and leaves the processor in a later state. Of a
  processor the runtime itself reads two attributes, the discussion coverage and the number
  of reasoning calls; the rest is a type variable. Exception texts that are stored are the
  function \<open>src_exn_text\<close>. Finishing a session is in theory \<open>Outcome\<close>.
\<close>

section \<open>Starting a session: contracts\<close>

datatype bootstrap_status =
    BS_CREATED | BS_NOT_ELIGIBLE | BS_LEAD_NOT_FOUND | BS_POLICY_NOT_FOUND | BS_CONTEXT_INVALID
  | BS_PCIE_FAILED | BS_CONCURRENCY_CONFLICT | BS_STALE_REVISION | BS_DUPLICATE_REQUEST
  | BS_SESSION_CREATION_FAILED | BS_QUEUE_TRANSITION_FAILED

fun bootstrap_value :: "bootstrap_status \<Rightarrow> str" where
  "bootstrap_value BS_CREATED = ''created''"
| "bootstrap_value BS_NOT_ELIGIBLE = ''not_eligible''"
| "bootstrap_value BS_LEAD_NOT_FOUND = ''lead_not_found''"
| "bootstrap_value BS_POLICY_NOT_FOUND = ''policy_not_found''"
| "bootstrap_value BS_CONTEXT_INVALID = ''context_invalid''"
| "bootstrap_value BS_PCIE_FAILED = ''pcie_failed''"
| "bootstrap_value BS_CONCURRENCY_CONFLICT = ''concurrency_conflict''"
| "bootstrap_value BS_STALE_REVISION = ''stale_revision''"
| "bootstrap_value BS_DUPLICATE_REQUEST = ''duplicate_request''"
| "bootstrap_value BS_SESSION_CREATION_FAILED = ''session_creation_failed''"
| "bootstrap_value BS_QUEUE_TRANSITION_FAILED = ''queue_transition_failed''"

definition all_bootstrap :: "bootstrap_status list" where
  "all_bootstrap = [BS_CREATED, BS_NOT_ELIGIBLE, BS_LEAD_NOT_FOUND, BS_POLICY_NOT_FOUND, BS_CONTEXT_INVALID, BS_PCIE_FAILED, BS_CONCURRENCY_CONFLICT, BS_STALE_REVISION, BS_DUPLICATE_REQUEST, BS_SESSION_CREATION_FAILED, BS_QUEUE_TRANSITION_FAILED]"

lemma bootstrap_of_value [simp]: "enum_of bootstrap_value all_bootstrap (bootstrap_value x) = Inr x"
  by (cases x) (simp_all add: enum_of_def all_bootstrap_def)

record bootstrap_input =
  bi_tenant_id :: str
  bi_campaign_id :: str
  bi_lead_id :: str
  bi_session_id :: str
  bi_bootstrap_request_id :: str
  bi_trusted_time_iso :: str
  bi_runtime_mode :: runtime_mode
  bi_expected_queue_revision :: "int option"

definition check_bootstrap_input :: "bootstrap_input \<Rightarrow> bootstrap_input res" where
  "check_bootstrap_input b =
     rbind (guard (list_all (\<lambda>v. \<not> blank v) [bi_tenant_id b, bi_campaign_id b, bi_lead_id b,
       bi_session_id b, bi_bootstrap_request_id b, bi_trusted_time_iso b]) ValueError) (\<lambda>_. Inr b)"

record bootstrap_result =
  bsr_status :: bootstrap_status
  bsr_session :: "planned_session option"
  bsr_queue_entry :: "lead_queue_entry option"
  bsr_pre_call_plan :: "conversation_plan option"
  bsr_rejection_reason :: "str option"

definition mk_bootstrap_result :: "bootstrap_result \<Rightarrow> bootstrap_result res" where
  "mk_bootstrap_result r =
     rbind (guard (\<not> (bsr_status r = BS_CREATED \<and> bsr_session r = None)) ValueError) (\<lambda>_.
     rbind (guard (\<not> (bsr_status r = BS_CREATED \<and> bsr_pre_call_plan r = None)) ValueError) (\<lambda>_. Inr r))"

section \<open>The runtime\<close>

record ('cov, 'rest) processor =
  pc_discussion_coverage :: "'cov option"
  pc_reasoning_calls :: "int option"
  pc_rest :: 'rest

record ('cov, 'rest) runtime_config =
  src_run :: "('cov, 'rest) processor \<Rightarrow> coordinated_turn \<Rightarrow> turn_output res \<times> ('cov, 'rest) processor"
  src_export :: "('cov, 'rest) processor \<Rightarrow> int \<Rightarrow> runtime_snapshot option res"
  src_create :: "planned_session \<Rightarrow> campaign_config \<Rightarrow> discovery_policy \<Rightarrow> ('cov, 'rest) processor res"
  src_restore :: "planned_session \<Rightarrow> campaign_config \<Rightarrow> discovery_policy \<Rightarrow> runtime_snapshot
    \<Rightarrow> ('cov, 'rest) processor res"
  src_manifest :: snapshot_manifest
  src_loads :: "str \<Rightarrow> json res"
  src_exn_text :: "exn \<Rightarrow> str"

record ('cov, 'rest) sales_runtime =
  srt_db :: database
  srt_processors :: "(str, ('cov, 'rest) processor) dict"

definition reject_bootstrap ::
  "('cov, 'rest) sales_runtime \<Rightarrow> bootstrap_input \<Rightarrow> bootstrap_status \<Rightarrow> str
    \<Rightarrow> bootstrap_result res \<times> ('cov, 'rest) sales_runtime" where
  "reject_bootstrap rt b status detail =
     (mk_bootstrap_result \<lparr>bsr_status = status, bsr_session = None, bsr_queue_entry = None,
        bsr_pre_call_plan = None, bsr_rejection_reason = Some detail\<rparr>,
      rt\<lparr>srt_db := snd (bootstrap_record (srt_db rt)
        \<lparr>br_bootstrap_request_id = bi_bootstrap_request_id b, br_tenant_id = bi_tenant_id b,
         br_campaign_id = bi_campaign_id b, br_lead_id = bi_lead_id b, br_session_id = None,
         br_status = bootstrap_value status,
         br_result_json = [(''rejection_reason'', JStr detail)]\<rparr>)\<rparr>)"

text \<open>A request that was answered before.\<close>

definition replay_bootstrap ::
  "database \<Rightarrow> str \<Rightarrow> (str \<times> json) list \<Rightarrow> bootstrap_result res" where
  "replay_bootstrap db status result =
     (let other = rbind (enum_of bootstrap_value all_bootstrap status) (\<lambda>st.
            mk_bootstrap_result \<lparr>bsr_status = st, bsr_session = None, bsr_queue_entry = None,
              bsr_pre_call_plan = None, bsr_rejection_reason = (case dget result ''rejection_reason'' of
                  Some (JStr r) \<Rightarrow> Some r | _ \<Rightarrow> None)\<rparr>) in
      case (if status = bootstrap_value BS_CREATED then dget result ''session_id'' else None) of
        Some (JStr sid) \<Rightarrow>
          if sid \<noteq> [] \<and> sq_exists db sid then
            rbind (sq_get db sid) (\<lambda>s.
            rbind (entry_get db (cse_tenant_id s) (cse_campaign_id s) (cse_lead_id s)) (\<lambda>entry.
            mk_bootstrap_result \<lparr>bsr_status = BS_CREATED, bsr_session = Some s, bsr_queue_entry = entry,
              bsr_pre_call_plan = cse_pre_call_plan s, bsr_rejection_reason = None\<rparr>))
          else other
      | _ \<Rightarrow> other)"

text \<open>
  The checks before anything is written end in a rejection with its status and detail, or in
  the plan, the policy and the session to create; exceptions of the stores propagate.
\<close>

type_synonym 'a checked = "(bootstrap_status \<times> str + 'a) res"

definition checked :: "'a checked \<Rightarrow> ('a \<Rightarrow> 'b checked) \<Rightarrow> 'b checked" where
  "checked m f = (case m of Inl e \<Rightarrow> Inl e | Inr (Inl r) \<Rightarrow> Inr (Inl r) | Inr (Inr x) \<Rightarrow> f x)"

definition reject_unless :: "bool \<Rightarrow> bootstrap_status \<times> str \<Rightarrow> unit checked" where
  "reject_unless b r = Inr (if b then Inr () else Inl r)"

definition found_or :: "bootstrap_status \<times> str \<Rightarrow> 'a option res \<Rightarrow> 'a checked" where
  "found_or r m = rbind m (\<lambda>x. Inr (case x of None \<Rightarrow> Inl r | Some y \<Rightarrow> Inr y))"

definition caught :: "(exn \<Rightarrow> bootstrap_status \<times> str) \<Rightarrow> 'a res \<Rightarrow> 'a checked" where
  "caught r m = (case m of Inl e \<Rightarrow> Inr (Inl (r e)) | Inr x \<Rightarrow> Inr (Inr x))"

definition prepare_session ::
  "(exn \<Rightarrow> str) \<Rightarrow> database \<Rightarrow> bootstrap_input \<Rightarrow> campaign_config
    \<Rightarrow> (conversation_plan \<times> discovery_policy \<times> planned_session) checked" where
  "prepare_session exn_text db b campaign =
     checked (reject_unless (bi_tenant_id b = cf_tenant_id campaign)
       (BS_CONTEXT_INVALID, ''tenant_id mismatch'')) (\<lambda>_.
     checked (reject_unless (bi_campaign_id b = cf_campaign_id campaign)
       (BS_CONTEXT_INVALID, ''campaign_id mismatch'')) (\<lambda>_.
     checked (found_or (BS_LEAD_NOT_FOUND, ''lead not found'')
       (lead_get db (bi_tenant_id b) (bi_campaign_id b) (bi_lead_id b))) (\<lambda>lead.
     checked (found_or (BS_LEAD_NOT_FOUND, ''queue entry not found'')
       (entry_get db (bi_tenant_id b) (bi_campaign_id b) (bi_lead_id b))) (\<lambda>entry.
     checked (reject_unless (\<not> qe_is_dnc entry) (BS_NOT_ELIGIBLE, ''lead is DNC'')) (\<lambda>_.
     checked (reject_unless (qe_status entry = LQ_READY) (BS_NOT_ELIGIBLE,
       ''queue status is '' @ queue_status_value (qe_status entry) @ '', expected READY'')) (\<lambda>_.
     checked (caught (\<lambda>e. (BS_CONTEXT_INVALID, ''context build failed: '' @ exn_text e))
       (reconcile lead None)) (\<lambda>ctx.
     checked (found_or (BS_POLICY_NOT_FOUND, ''no policy registered'')
       (policy_resolve db (bi_campaign_id b) None)) (\<lambda>policy.
     checked (caught (\<lambda>e. (BS_PCIE_FAILED, ''pcie failed: '' @ exn_text e))
       (precall_plan ctx campaign policy)) (\<lambda>plan.
     rbind (check_session \<lparr>cse_session_id = bi_session_id b, cse_tenant_id = bi_tenant_id b,
        cse_campaign_id = bi_campaign_id b, cse_lead_id = bi_lead_id b, cse_status = SS_ACTIVE,
        cse_mode = bi_runtime_mode b, cse_revision = 0, cse_transcript = [], cse_turn_count = 0,
        cse_pre_call_plan = Some plan\<rparr>) (\<lambda>s. Inr (Inr (plan, policy, s))))))))))))"

definition start_session ::
  "('cov, 'rest) runtime_config \<Rightarrow> ('cov, 'rest) sales_runtime \<Rightarrow> bootstrap_input \<Rightarrow> campaign_config
    \<Rightarrow> bootstrap_result res \<times> ('cov, 'rest) sales_runtime" where
  "start_session cfg rt b campaign =
     (case bootstrap_lookup (srt_db rt) (bi_bootstrap_request_id b) of
        Some (status, result) \<Rightarrow> (replay_bootstrap (srt_db rt) status result, rt)
      | None \<Rightarrow> (case prepare_session (src_exn_text cfg) (srt_db rt) b campaign of
          Inl e \<Rightarrow> (Inl e, rt)
        | Inr (Inl (status, detail)) \<Rightarrow> reject_bootstrap rt b status detail
        | Inr (Inr (plan, policy, s)) \<Rightarrow>
            (case create_session_and_consume_lead (srt_db rt) s (bi_tenant_id b) (bi_campaign_id b)
                (bi_lead_id b) LQ_READY LQ_IN_PROGRESS of
               (Inl e, db') \<Rightarrow> reject_bootstrap (rt\<lparr>srt_db := db'\<rparr>) b
                 (if e \<in> {IdempotencyConflictError, StaleRevisionError} then BS_CONCURRENCY_CONFLICT
                  else BS_SESSION_CREATION_FAILED) (src_exn_text cfg e)
             | (Inr (created, entry), db') \<Rightarrow>
                 (case src_create cfg created campaign policy of
                    Inl e \<Rightarrow> (Inl e, rt\<lparr>srt_db := db'\<rparr>)
                  | Inr proc \<Rightarrow>
                      (mk_bootstrap_result \<lparr>bsr_status = BS_CREATED, bsr_session = Some created,
                         bsr_queue_entry = Some entry, bsr_pre_call_plan = Some plan,
                         bsr_rejection_reason = None\<rparr>,
                       rt\<lparr>srt_db := snd (bootstrap_record db'
                            \<lparr>br_bootstrap_request_id = bi_bootstrap_request_id b,
                             br_tenant_id = bi_tenant_id b, br_campaign_id = bi_campaign_id b,
                             br_lead_id = bi_lead_id b, br_session_id = Some (cse_session_id created),
                             br_status = bootstrap_value BS_CREATED,
                             br_result_json = [(''session_id'', JStr (cse_session_id created))]\<rparr>),
                          srt_processors := dset (cse_session_id created) proc (srt_processors rt)\<rparr>)))))"

section \<open>Processing a turn\<close>

record persistent_turn_result =
  ptr_session_id :: str
  ptr_turn_sequence :: int
  ptr_committed_revision :: int
  ptr_agent_response :: str
  ptr_conversation_terminal :: bool
  ptr_pipeline_outcome :: "str option"
  ptr_replayed_from_idempotency :: bool

fun authoritative_value :: "authoritative_result \<Rightarrow> str" where
  "authoritative_value AR_EXECUTED = ''executed''"
| "authoritative_value AR_FALLBACK = ''fallback''"
| "authoritative_value AR_REDIRECT = ''redirect''"
| "authoritative_value AR_ESCALATE = ''escalate''"
| "authoritative_value AR_PIPELINE_STOPPED = ''pipeline_stopped''"
| "authoritative_value AR_AUTHORITY_APPROVED = ''authority_approved''"

definition restore_attributes ::
  "('cov, 'rest) processor \<Rightarrow> ('cov, 'rest) processor \<Rightarrow> ('cov, 'rest) processor" where
  "restore_attributes pre post = post\<lparr>
     pc_discussion_coverage := (case pc_discussion_coverage pre of None \<Rightarrow> pc_discussion_coverage post | v \<Rightarrow> v),
     pc_reasoning_calls := (case pc_reasoning_calls pre of None \<Rightarrow> pc_reasoning_calls post | v \<Rightarrow> v)\<rparr>"

text \<open>The transaction that commits a turn: session, snapshot, idempotency record.\<close>

definition commit_turn ::
  "planned_session \<Rightarrow> runtime_snapshot option \<Rightarrow> str \<Rightarrow> str \<Rightarrow> int \<Rightarrow> turn_output
    \<Rightarrow> database \<Rightarrow> planned_session res \<times> database" where
  "commit_turn updated snap sid request seq out db =
     (case sq_update db updated of
        (Inl e, db1) \<Rightarrow> (Inl e, db1)
      | (Inr committed, db1) \<Rightarrow>
          (case (case snap of
               None \<Rightarrow> Inr db1
             | Some r \<Rightarrow> rbind (mk_snapshot (r\<lparr>rs_source_session_revision := cse_revision committed\<rparr>))
                 (\<lambda>r'. Inr (snapshot_save db1 r'))) of
             Inl e \<Rightarrow> (Inl e, db1)
           | Inr db2 \<Rightarrow>
               (case turn_record db2 \<lparr>cmt_session_id = sid, cmt_turn_request_id = request,
                   cmt_turn_sequence = seq, cmt_committed_revision = cse_revision committed,
                   cmt_agent_response = to_rendered_text out,
                   cmt_conversation_terminal = to_conversation_terminal out,
                   cmt_pipeline_outcome = map_option authoritative_value (to_pipeline_outcome out)\<rparr> of
                  (Inl e, db3) \<Rightarrow> (Inl e, db3)
                | (Inr _, db3) \<Rightarrow> (Inr committed, db3))))"

definition turn_checks ::
  "('cov, 'rest) sales_runtime \<Rightarrow> str \<Rightarrow> str \<Rightarrow> int
    \<Rightarrow> (planned_session \<times> ('cov, 'rest) processor \<times> coordinated_turn) res" where
  "turn_checks rt sid message seq =
     rbind (sq_get (srt_db rt) sid) (\<lambda>s.
     rbind (guard (cse_status s = SS_ACTIVE) StaleRevisionError) (\<lambda>_.
     rbind (guard (\<not> seq \<le> cse_turn_count s) StaleRevisionError) (\<lambda>_.
     rbind (option_res StaleRevisionError (dget (srt_processors rt) sid)) (\<lambda>proc.
     rbind (to_coordinated_turn \<lparr>cti_session_id = sid, cti_message = message, cti_turn_sequence = seq\<rparr>)
       (\<lambda>turn. Inr (s, proc, turn))))))"

definition persistent_process_turn ::
  "('cov, 'rest) runtime_config \<Rightarrow> ('cov, 'rest) sales_runtime \<Rightarrow> str \<Rightarrow> str \<Rightarrow> int \<Rightarrow> str
    \<Rightarrow> persistent_turn_result res \<times> ('cov, 'rest) sales_runtime" where
  "persistent_process_turn cfg rt sid message seq request =
     (case turn_lookup (srt_db rt) sid request of
        Some c \<Rightarrow> (Inr \<lparr>ptr_session_id = sid, ptr_turn_sequence = cmt_turn_sequence c,
            ptr_committed_revision = cmt_committed_revision c,
            ptr_agent_response = cmt_agent_response c,
            ptr_conversation_terminal = cmt_conversation_terminal c,
            ptr_pipeline_outcome = cmt_pipeline_outcome c, ptr_replayed_from_idempotency = True\<rparr>, rt)
      | None \<Rightarrow> (case turn_checks rt sid message seq of
          Inl e \<Rightarrow> (Inl e, rt)
        | Inr (s, proc, turn) \<Rightarrow>
            (let (ran, proc') = src_run cfg proc turn;
                 after = (\<lambda>p db. rt\<lparr>srt_db := db, srt_processors := dset sid p (srt_processors rt)\<rparr>) in
             case rbind ran (\<lambda>out.
                  rbind (after_turn \<lparr>cti_session_id = sid, cti_message = message, cti_turn_sequence = seq\<rparr> out s)
                    (\<lambda>updated.
                  rbind (src_export cfg proc' (cse_revision s + 1)) (\<lambda>snap. Inr (out, updated, snap)))) of
               Inl e \<Rightarrow> (Inl e, after proc' (srt_db rt))
             | Inr (out, updated, snap) \<Rightarrow>
                 (case transaction (commit_turn updated snap sid request seq out) (srt_db rt) of
                    (Inl e, db') \<Rightarrow> (Inl e, after (restore_attributes proc proc') db')
                  | (Inr committed, db') \<Rightarrow>
                      (Inr \<lparr>ptr_session_id = sid, ptr_turn_sequence = seq,
                         ptr_committed_revision = cse_revision committed,
                         ptr_agent_response = to_rendered_text out,
                         ptr_conversation_terminal = to_conversation_terminal out,
                         ptr_pipeline_outcome = map_option authoritative_value (to_pipeline_outcome out),
                         ptr_replayed_from_idempotency = False\<rparr>, after proc' db')))))"

section \<open>Marking, recovering, restoring\<close>

definition mark_lead_dnc ::
  "('cov, 'rest) sales_runtime \<Rightarrow> str \<Rightarrow> str \<Rightarrow> str \<Rightarrow> lead_queue_entry res \<times> ('cov, 'rest) sales_runtime" where
  "mark_lead_dnc rt tenant campaign lead =
     (case entry_mark_dnc (srt_db rt) tenant campaign lead of (out, db') \<Rightarrow> (out, rt\<lparr>srt_db := db'\<rparr>))"

definition recover_session ::
  "('cov, 'rest) runtime_config \<Rightarrow> ('cov, 'rest) sales_runtime \<Rightarrow> str \<Rightarrow> recovery_result res" where
  "recover_session cfg rt sid = recover (src_loads cfg) (src_exn_text cfg)
     \<lparr>rcs_has_snapshot_store = True, rcs_manifest = src_manifest cfg\<rparr> (srt_db rt) sid"

definition restore_processor_if_possible ::
  "('cov, 'rest) runtime_config \<Rightarrow> ('cov, 'rest) sales_runtime \<Rightarrow> str \<Rightarrow> campaign_config
    \<Rightarrow> recovery_result res \<times> ('cov, 'rest) sales_runtime" where
  "restore_processor_if_possible cfg rt sid campaign =
     (case recover_session cfg rt sid of
        Inl e \<Rightarrow> (Inl e, rt)
      | Inr r \<Rightarrow> (case (rr_session r, rr_policy r) of
          (Some s, Some policy) \<Rightarrow>
            (let made = (if rr_status r = RS_RECOVERED_FRESH
                   then rbind (src_create cfg s campaign policy) (\<lambda>p. Inr (Some p))
                   else if rr_status r = RS_RECOVERED_ACTIVE
                   then (case rr_runtime_snapshot r of None \<Rightarrow> Inr None
                     | Some snap \<Rightarrow> rbind (src_restore cfg s campaign policy snap) (\<lambda>p. Inr (Some p)))
                   else Inr None) in
             case made of
               Inl e \<Rightarrow> (Inl e, rt)
             | Inr None \<Rightarrow> (Inr r, rt)
             | Inr (Some p) \<Rightarrow> (Inr r, rt\<lparr>srt_processors := dset sid p (srt_processors rt)\<rparr>))
        | _ \<Rightarrow> (Inr r, rt)))"

text \<open>
  What \<^verbatim>\<open>finish_session\<close> writes once the outcome is resolved: an active session is closed
  (if it was changed meanwhile it is read again) and a do-not-call request is stored, where
  any failure to store it is ignored.
\<close>

definition close_session ::
  "database \<Rightarrow> planned_session \<Rightarrow> bool \<Rightarrow> bool \<Rightarrow> planned_session res \<times> database" where
  "close_session db s is_dnc session_error =
     (let new_status = (if session_error then SS_ERROR else SS_COMPLETED);
          (closed, db1) = (if cse_status s = SS_ACTIVE
             then (case sq_update db (s\<lparr>cse_status := new_status\<rparr>) of
                 (Inl e, db') \<Rightarrow> (if e = StaleRevisionError then sq_get db' (cse_session_id s) else Inl e, db')
               | (Inr s', db') \<Rightarrow> (Inr s', db'))
             else (Inr s, db)) in
      case closed of
        Inl e \<Rightarrow> (Inl e, db1)
      | Inr s' \<Rightarrow> (Inr s', if is_dnc
          then snd (entry_mark_dnc db1 (cse_tenant_id s') (cse_campaign_id s') (cse_lead_id s')) else db1))"

definition get_session :: "('cov, 'rest) sales_runtime \<Rightarrow> str \<Rightarrow> planned_session res" where
  "get_session rt sid = sq_get (srt_db rt) sid"

section \<open>What a database keeps\<close>

definition store_ok :: "database \<Rightarrow> bool" where
  "store_ok db \<longleftrightarrow> sessions_ok db \<and> queue_ok db"

definition store_below :: "database \<Rightarrow> database \<Rightarrow> bool" where
  "store_below db db' \<longleftrightarrow> (store_ok db \<longrightarrow> store_ok db'
     \<and> (\<forall>sid s. sq_get db sid = Inr s \<longrightarrow> (\<exists>s'. sq_get db' sid = Inr s' \<and> session_below s s'
          \<and> (transcript_ok s \<longrightarrow> transcript_ok s')))
     \<and> (\<forall>sid req c. turn_lookup db sid req = Some c \<longrightarrow> turn_lookup db' sid req = Some c)
     \<and> (\<forall>req x. bootstrap_lookup db req = Some x \<longrightarrow> bootstrap_lookup db' req = Some x)
     \<and> (\<forall>t c l e. entry_get db t c l = Inr (Some e) \<longrightarrow> qe_is_dnc e
          \<longrightarrow> (\<exists>e'. entry_get db' t c l = Inr (Some e') \<and> qe_is_dnc e')))"

lemma store_below_refl [simp]: "store_below db db"
  by (simp add: store_below_def)

lemma store_belowD:
  assumes "store_below db db'" and "store_ok db"
  shows "store_ok db'"
    and "sq_get db sid = Inr s \<Longrightarrow> \<exists>s'. sq_get db' sid = Inr s' \<and> session_below s s'
          \<and> (transcript_ok s \<longrightarrow> transcript_ok s')"
    and "turn_lookup db sid req = Some c \<Longrightarrow> turn_lookup db' sid req = Some c"
    and "bootstrap_lookup db req = Some x \<Longrightarrow> bootstrap_lookup db' req = Some x"
    and "entry_get db t c0 l = Inr (Some e) \<Longrightarrow> qe_is_dnc e
          \<Longrightarrow> \<exists>e'. entry_get db' t c0 l = Inr (Some e') \<and> qe_is_dnc e'"
  using assms unfolding store_below_def by blast+

lemma store_belowI:
  assumes "store_ok db \<Longrightarrow> store_ok db'"
    and "\<And>sid s. store_ok db \<Longrightarrow> sq_get db sid = Inr s \<Longrightarrow> \<exists>s'. sq_get db' sid = Inr s' \<and> session_below s s'
          \<and> (transcript_ok s \<longrightarrow> transcript_ok s')"
    and "\<And>sid req c. store_ok db \<Longrightarrow> turn_lookup db sid req = Some c \<Longrightarrow> turn_lookup db' sid req = Some c"
    and "\<And>req x. store_ok db \<Longrightarrow> bootstrap_lookup db req = Some x \<Longrightarrow> bootstrap_lookup db' req = Some x"
    and "\<And>t c l e. store_ok db \<Longrightarrow> entry_get db t c l = Inr (Some e) \<Longrightarrow> qe_is_dnc e
          \<Longrightarrow> \<exists>e'. entry_get db' t c l = Inr (Some e') \<and> qe_is_dnc e'"
  shows "store_below db db'"
  unfolding store_below_def using assms by blast

lemma store_below_trans:
  assumes a: "store_below db db'" and b: "store_below db' db''"
  shows "store_below db db''"
proof (rule store_belowI)
  assume ok: "store_ok db"
  note a = store_belowD [OF a ok]
  note b = store_belowD [OF b a(1)]
  show "store_ok db''" by (rule b(1))
  show "\<exists>s''. sq_get db'' sid = Inr s'' \<and> session_below s s'' \<and> (transcript_ok s \<longrightarrow> transcript_ok s'')"
    if "sq_get db sid = Inr s" for sid s
  proof -
    from a(2) [OF that] obtain s' where s': "sq_get db' sid = Inr s'" "session_below s s'"
      "transcript_ok s \<longrightarrow> transcript_ok s'" by blast
    from b(2) [OF s'(1)] obtain s'' where "sq_get db'' sid = Inr s''" "session_below s' s''"
      "transcript_ok s' \<longrightarrow> transcript_ok s''" by blast
    with s' session_below_trans [OF s'(2)] show ?thesis by blast
  qed
  show "turn_lookup db'' sid req = Some c" if "turn_lookup db sid req = Some c" for sid req c
    by (rule b(3) [OF a(3) [OF that]])
  show "bootstrap_lookup db'' req = Some x" if "bootstrap_lookup db req = Some x" for req x
    by (rule b(4) [OF a(4) [OF that]])
  show "\<exists>e''. entry_get db'' t c l = Inr (Some e'') \<and> qe_is_dnc e''"
    if "entry_get db t c l = Inr (Some e)" "qe_is_dnc e" for t c l e
  proof -
    from a(5) [OF that] obtain e' where "entry_get db' t c l = Inr (Some e')" "qe_is_dnc e'" by blast
    then show ?thesis by (rule b(5))
  qed
qed

lemma turn_lookup_sessions [simp]:
  "turn_lookup (db\<lparr>db_sessions := rows\<rparr>) sid req = turn_lookup db sid req"
  "bootstrap_lookup (db\<lparr>db_sessions := rows\<rparr>) req = bootstrap_lookup db req"
  "turn_lookup (db\<lparr>db_queue := q\<rparr>) sid req = turn_lookup db sid req"
  "bootstrap_lookup (db\<lparr>db_queue := q\<rparr>) req = bootstrap_lookup db req"
  "turn_lookup (db\<lparr>db_bootstrap := bs\<rparr>) sid req = turn_lookup db sid req"
  "bootstrap_lookup (db\<lparr>db_turns := ts\<rparr>) req = bootstrap_lookup db req"
  "sq_get (db\<lparr>db_bootstrap := bs\<rparr>) sid = sq_get db sid"
  "sq_get (db\<lparr>db_turns := ts\<rparr>) sid = sq_get db sid"
  "store_ok (db\<lparr>db_bootstrap := bs\<rparr>) = store_ok db"
  "store_ok (db\<lparr>db_turns := ts\<rparr>) = store_ok db"
  "entry_get (db\<lparr>db_bootstrap := bs\<rparr>) t c l = entry_get db t c l"
  "entry_get (db\<lparr>db_turns := ts\<rparr>) t c l = entry_get db t c l"
  by (simp_all add: turn_lookup_def bootstrap_lookup_def bootstrap_find_def sq_get_def find_session_def
      store_ok_def sessions_ok_def queue_ok_def find_entry_def entry_get_def)

lemma bootstrap_record_below: "store_below db (snd (bootstrap_record db row))"
  by (auto simp: store_below_def bootstrap_record_def bootstrap_lookup_def bootstrap_find_def find_append
      turn_lookup_def sq_get_def find_session_def store_ok_def sessions_ok_def queue_ok_def find_entry_def
      entry_get_def split: option.split)

text \<open>A later version of one session, everything else untouched.\<close>

lemma update_below:
  assumes ok: "store_ok db" and get: "sq_get db (cse_session_id s) = Inr current"
    and rev: "cse_revision s = cse_revision current" and below: "session_below current (s\<lparr>cse_revision := cse_revision s + 1\<rparr>)"
    and t: "transcript_ok current \<longrightarrow> transcript_ok s" and s: "session_ok s"
  shows "fst (sq_update db s) = Inr (s\<lparr>cse_revision := cse_revision s + 1\<rparr>)"
    and "store_below db (snd (sq_update db s))"
    and "snd (sq_update db s) = db\<lparr>db_sessions := db_sessions (snd (sq_update db s))\<rparr>"
    and "\<forall>sid. sq_get (snd (sq_update db s)) sid
      = (if sid = cse_session_id s then Inr (s\<lparr>cse_revision := cse_revision s + 1\<rparr>) else sq_get db sid)"
    and "sessions_ok (snd (sq_update db s))"
proof -
  from ok have sok: "sessions_ok db" and q: "queue_ok db" by (simp_all add: store_ok_def)
  from below have owner: "same_owner current s" and plan: "cse_pre_call_plan s = cse_pre_call_plan current"
    by (simp_all add: session_below_def same_owner_def)
  have "stored_ok current" using get sok by (simp add: sq_get_iff)
  with s plan have st: "stored_ok s" by (simp add: stored_ok_def)
  note u = sq_update_stored [OF sok get rev owner st]
  show 1: "fst (sq_update db s) = Inr (s\<lparr>cse_revision := cse_revision s + 1\<rparr>)"
    and 3: "snd (sq_update db s) = db\<lparr>db_sessions := db_sessions (snd (sq_update db s))\<rparr>"
    using u(1) rev by simp_all
  show 4: "\<forall>sid. sq_get (snd (sq_update db s)) sid
      = (if sid = cse_session_id s then Inr (s\<lparr>cse_revision := cse_revision s + 1\<rparr>) else sq_get db sid)"
    using u(4) rev by simp
  show 5: "sessions_ok (snd (sq_update db s))" by (rule u(2))
  have "queue_ok (snd (sq_update db s))" by (subst 3) (simp add: q)
  moreover have "turn_lookup (snd (sq_update db s)) sid req = turn_lookup db sid req"
    "bootstrap_lookup (snd (sq_update db s)) req = bootstrap_lookup db req"
    "entry_get (snd (sq_update db s)) t c l = entry_get db t c l" for sid req t c l
    by (subst 3, simp)+
  moreover have "transcript_ok current \<longrightarrow> transcript_ok (s\<lparr>cse_revision := cse_revision s + 1\<rparr>)"
    using t by (simp add: transcript_ok_def)
  ultimately show "store_below db (snd (sq_update db s))"
    using 4 5 below get unfolding store_below_def store_ok_def by auto
qed

lemma snapshot_save_facts:
  "sessions_ok (snapshot_save db r) = sessions_ok db"
  "sq_get (snapshot_save db r) sid = sq_get db sid"
  "snapshot_save db r = db\<lparr>db_sessions := db_sessions (snapshot_save db r)\<rparr>"
proof -
  let ?f = "\<lambda>row. row\<lparr>cr_runtime_snapshot_json := Some (snapshot_to_json r),
        cr_runtime_snapshot_version := Some (rs_snapshot_version r)\<rparr>"
  have f: "represents (?f row) s = represents row s" "row_to_session (?f row) = row_to_session row"
    "cr_session_id (?f row) = cr_session_id row" for row s
    by (simp_all add: represents_def row_to_session_def)
  have g: "represents (if cr_session_id row = rs_session_id r then ?f row else row) s = represents row s"
    "cr_session_id (if cr_session_id row = rs_session_id r then ?f row else row) = cr_session_id row" for row s
    by (simp_all add: f)
  have rows: "db_sessions (snapshot_save db r)
      = map (\<lambda>row. if cr_session_id row = rs_session_id r then ?f row else row) (db_sessions db)"
    by (simp add: snapshot_save_def sql_update_def)
  show "sessions_ok (snapshot_save db r) = sessions_ok db"
    unfolding sessions_ok_def rows by (simp only: set_map ball_simps map_map comp_def g)
  show "sq_get (snapshot_save db r) sid = sq_get db sid"
    by (cases "find_session db sid")
      (simp_all add: sq_get_def snapshot_save_def find_session_def find_sql_update f)
  show "snapshot_save db r = db\<lparr>db_sessions := db_sessions (snapshot_save db r)\<rparr>"
    by (simp add: snapshot_save_def)
qed

lemma snapshot_save_below:
  shows "store_below db (snapshot_save db r)"
    and "turn_lookup (snapshot_save db r) sid req = turn_lookup db sid req"
    and "entry_get (snapshot_save db r) t c l = entry_get db t c l"
    and "store_ok (snapshot_save db r) = store_ok db"
proof -
  note eq = snapshot_save_facts(3) [of db r]
  show t: "turn_lookup (snapshot_save db r) sid req = turn_lookup db sid req" for sid req
    by (subst eq) simp
  show e: "entry_get (snapshot_save db r) t c l = entry_get db t c l" for t c l
    by (subst eq) simp
  have b: "bootstrap_lookup (snapshot_save db r) req = bootstrap_lookup db req" for req
    by (subst eq) simp
  have "queue_ok (snapshot_save db r) = queue_ok db" by (subst eq) simp
  then show ok: "store_ok (snapshot_save db r) = store_ok db"
    by (simp add: store_ok_def snapshot_save_facts(1))
  show "store_below db (snapshot_save db r)"
    by (rule store_belowI) (auto simp: t e b ok snapshot_save_facts(1,2))
qed

lemma turn_record_fresh:
  assumes "turn_lookup db (cmt_session_id c) (cmt_turn_request_id c) = None"
  shows "fst (turn_record db c) = Inr ()"
    and "store_below db (snd (turn_record db c))"
    and "turn_lookup (snd (turn_record db c)) (cmt_session_id c) (cmt_turn_request_id c) = Some c"
    and "sq_get (snd (turn_record db c)) sid = sq_get db sid"
    and "entry_get (snd (turn_record db c)) t c0 l = entry_get db t c0 l"
proof -
  from assms have fresh: "List.find (turn_key (cmt_session_id c) (cmt_turn_request_id c)) (db_turns db) = None"
    by (simp add: turn_lookup_def)
  then show "fst (turn_record db c) = Inr ()" by (simp add: turn_record_def)
  show get: "sq_get (snd (turn_record db c)) sid = sq_get db sid" for sid
    using fresh by (simp add: turn_record_def)
  show e: "entry_get (snd (turn_record db c)) t c0 l = entry_get db t c0 l" for t c0 l
    using fresh by (simp add: turn_record_def)
  show "turn_lookup (snd (turn_record db c)) (cmt_session_id c) (cmt_turn_request_id c) = Some c"
    using fresh by (simp add: turn_record_def turn_lookup_def find_append turn_key_def)
  have "turn_lookup (snd (turn_record db c)) sid req = Some x" if "turn_lookup db sid req = Some x" for sid req x
    using fresh that by (auto simp: turn_record_def turn_lookup_def find_append)
  moreover have "bootstrap_lookup (snd (turn_record db c)) req = bootstrap_lookup db req"
    "store_ok (snd (turn_record db c)) = store_ok db" for req
    using fresh by (simp_all add: turn_record_def)
  ultimately show "store_below db (snd (turn_record db c))"
    by (intro store_belowI) (auto simp: get e)
qed

lemma commit_turn_cases:
  assumes ok: "store_ok db" and get: "sq_get db sid = Inr s" and id: "cse_session_id updated = sid"
    and rev: "cse_revision updated = cse_revision s"
    and below: "session_below s (updated\<lparr>cse_revision := cse_revision updated + 1\<rparr>)"
    and t: "transcript_ok s \<longrightarrow> transcript_ok updated" and u: "session_ok updated"
    and fresh: "turn_lookup db sid request = None"
  obtains (failed) e where "transaction (commit_turn updated snap sid request seq out) db = (Inl e, db)"
  | (committed) db' where "transaction (commit_turn updated snap sid request seq out) db
        = (Inr (updated\<lparr>cse_revision := cse_revision updated + 1\<rparr>), db')"
      and "store_below db db'"
      and "\<forall>x. sq_get db' x = (if x = sid then Inr (updated\<lparr>cse_revision := cse_revision updated + 1\<rparr>) else sq_get db x)"
      and "turn_lookup db' sid request = Some \<lparr>cmt_session_id = sid, cmt_turn_request_id = request,
           cmt_turn_sequence = seq, cmt_committed_revision = cse_revision updated + 1,
           cmt_agent_response = to_rendered_text out, cmt_conversation_terminal = to_conversation_terminal out,
           cmt_pipeline_outcome = map_option authoritative_value (to_pipeline_outcome out)\<rparr>"
      and "\<forall>t c l. entry_get db' t c l = entry_get db t c l"
proof -
  let ?new = "updated\<lparr>cse_revision := cse_revision updated + 1\<rparr>"
  let ?c = "\<lparr>cmt_session_id = sid, cmt_turn_request_id = request,
           cmt_turn_sequence = seq, cmt_committed_revision = cse_revision updated + 1,
           cmt_agent_response = to_rendered_text out, cmt_conversation_terminal = to_conversation_terminal out,
           cmt_pipeline_outcome = map_option authoritative_value (to_pipeline_outcome out)\<rparr>"
  note upd = update_below [OF ok get [folded id] rev below t u]
  obtain db1 where db1: "sq_update db updated = (Inr ?new, db1)"
    using upd(1) by (cases "sq_update db updated") simp
  obtain rows where rows: "db1 = db\<lparr>db_sessions := rows\<rparr>" using upd(3) db1 by simp
  have below1: "store_below db db1" and get1: "\<forall>x. sq_get db1 x = (if x = sid then Inr ?new else sq_get db x)"
    using upd(2,4) db1 id by simp_all
  define db2 where "db2 = (case snap of None \<Rightarrow> Inr db1
     | Some r \<Rightarrow> rbind (mk_snapshot (r\<lparr>rs_source_session_revision := cse_revision ?new\<rparr>)) (\<lambda>r'. Inr (snapshot_save db1 r')))"
  show thesis
  proof (cases db2)
    case (Inl e)
    then have "transaction (commit_turn updated snap sid request seq out) db = (Inl e, db)"
      unfolding transaction_def commit_turn_def db1 by (simp add: db2_def [symmetric] del: option.case)
    then show thesis by (rule failed)
  next
    case (Inr d)
    then have d: "store_below db1 d" "\<forall>x. sq_get d x = sq_get db1 x" "turn_lookup d sid request = None"
      "\<forall>t c l. entry_get d t c l = entry_get db t c l"
      using fresh by (auto simp: db2_def rows snapshot_save_below(1-3) snapshot_save_facts(2) res_simps split: option.splits)
    note rec = turn_record_fresh [of d ?c, simplified, OF d(3)]
    obtain db3 where db3: "turn_record d ?c = (Inr (), db3)"
      using rec(1) by (cases "turn_record d ?c") simp
    have "transaction (commit_turn updated snap sid request seq out) db = (Inr ?new, db3)"
      unfolding transaction_def commit_turn_def db1 prod.case sum.case
      by (simp add: db2_def [symmetric, simplified] Inr db3 del: option.case)
    moreover have "store_below db db3"
      using store_below_trans [OF store_below_trans [OF below1 d(1)]] rec(2) db3 by simp
    ultimately show thesis
      using committed [of db3] rec(3-5) db3 d(2,4) get1 by simp
  qed
qed

section \<open>A turn\<close>

definition after_exchange :: "planned_session \<Rightarrow> str \<Rightarrow> int \<Rightarrow> str \<Rightarrow> bool \<Rightarrow> planned_session" where
  "after_exchange s message seq answer terminal = s\<lparr>cse_turn_count := seq,
     cse_status := (if terminal then SS_COMPLETED else SS_ACTIVE),
     cse_transcript := cse_transcript s @ exchange (seq, message, answer),
     cse_revision := cse_revision s + 1\<rparr>"

definition replay_of :: "str \<Rightarrow> committed_turn \<Rightarrow> persistent_turn_result" where
  "replay_of sid c = \<lparr>ptr_session_id = sid, ptr_turn_sequence = cmt_turn_sequence c,
     ptr_committed_revision = cmt_committed_revision c, ptr_agent_response = cmt_agent_response c,
     ptr_conversation_terminal = cmt_conversation_terminal c,
     ptr_pipeline_outcome = cmt_pipeline_outcome c, ptr_replayed_from_idempotency = True\<rparr>"

lemma persistent_turn_cases:
  assumes ok: "store_ok (srt_db rt)"
  obtains (replayed) c where "turn_lookup (srt_db rt) sid request = Some c"
      and "persistent_process_turn cfg rt sid message seq request = (Inr (replay_of sid c), rt)"
  | (raised) e rt' where "persistent_process_turn cfg rt sid message seq request = (Inl e, rt')"
      and "srt_db rt' = srt_db rt" and "turn_lookup (srt_db rt) sid request = None"
  | (processed) s result rt' where "turn_lookup (srt_db rt) sid request = None"
      and "persistent_process_turn cfg rt sid message seq request = (Inr result, rt')"
      and "sq_get (srt_db rt) sid = Inr s" and "cse_status s = SS_ACTIVE" and "cse_turn_count s < seq"
      and "ptr_session_id result = sid" and "ptr_turn_sequence result = seq"
      and "ptr_committed_revision result = cse_revision s + 1" and "\<not> ptr_replayed_from_idempotency result"
      and "store_below (srt_db rt) (srt_db rt')"
      and "\<forall>x. sq_get (srt_db rt') x = (if x = sid then Inr (after_exchange s message seq
          (ptr_agent_response result) (ptr_conversation_terminal result)) else sq_get (srt_db rt) x)"
      and "turn_lookup (srt_db rt') sid request = Some \<lparr>cmt_session_id = sid, cmt_turn_request_id = request,
           cmt_turn_sequence = seq, cmt_committed_revision = cse_revision s + 1,
           cmt_agent_response = ptr_agent_response result,
           cmt_conversation_terminal = ptr_conversation_terminal result,
           cmt_pipeline_outcome = ptr_pipeline_outcome result\<rparr>"
      and "\<forall>t c l. entry_get (srt_db rt') t c l = entry_get (srt_db rt) t c l"
proof (cases "turn_lookup (srt_db rt) sid request")
  case (Some c)
  then show thesis by (intro replayed [of c]) (simp_all add: persistent_process_turn_def replay_of_def)
next
  case None
  let ?inp = "\<lparr>cti_session_id = sid, cti_message = message, cti_turn_sequence = seq\<rparr>"
  show thesis
  proof (cases "turn_checks rt sid message seq")
    case (Inl e)
    with None show thesis by (intro raised [of e rt]) (simp_all add: persistent_process_turn_def)
  next
    case (Inr checked)
    then obtain s proc turn where c: "turn_checks rt sid message seq = Inr (s, proc, turn)"
      by (cases checked) auto
    then have s: "sq_get (srt_db rt) sid = Inr s" "cse_status s = SS_ACTIVE" "cse_turn_count s < seq"
      by (auto simp: turn_checks_def res_simps not_le)
    obtain ran proc' where run: "src_run cfg proc turn = (ran, proc')" by force
    let ?after = "\<lambda>p db. rt\<lparr>srt_db := db, srt_processors := dset sid p (srt_processors rt)\<rparr>"
    let ?body = "rbind ran (\<lambda>out. rbind (after_turn ?inp out s) (\<lambda>updated.
        rbind (src_export cfg proc' (cse_revision s + 1)) (\<lambda>snap. Inr (out, updated, snap))))"
    show thesis
    proof (cases ?body)
      case (Inl e)
      then have "persistent_process_turn cfg rt sid message seq request = (Inl e, ?after proc' (srt_db rt))"
        by (simp add: persistent_process_turn_def None c run Let_def)
      with None show thesis by (intro raised [of e "?after proc' (srt_db rt)"]) simp_all
    next
      case (Inr triple)
      then obtain out updated snap where body: "?body = Inr (out, updated, snap)" and at: "after_turn ?inp out s = Inr updated"
        by (auto simp: res_simps)
      from ok have sok: "sessions_ok (srt_db rt)" by (simp add: store_ok_def)
      have id: "cse_session_id s = sid" "session_ok s" using s(1) sok by (simp_all add: sq_get_iff stored_ok_def)
      note a = after_turn_result [OF at]
      have u: "session_ok updated" by (rule a(4) [OF id(2)])
      have below: "session_below s (updated\<lparr>cse_revision := cse_revision updated + 1\<rparr>)"
        using s(2,3) by (simp add: a(1) session_below_def same_owner_def)
      have t: "transcript_ok s \<longrightarrow> transcript_ok updated"
        using transcript_ok_extend [of s seq updated message "to_rendered_text out"] s(3) by (simp add: a(1))
      have new: "updated\<lparr>cse_revision := cse_revision s + 1\<rparr>
          = after_exchange s message seq (to_rendered_text out) (to_conversation_terminal out)"
        by (simp add: a(1) after_exchange_def)
      have "cse_session_id updated = sid" "cse_revision updated = cse_revision s" by (simp_all add: a(1) id)
      from ok s(1) this below t u None show thesis
      proof (cases rule: commit_turn_cases [where snap = snap and seq = seq and out = out and request = request])
        case (failed e)
        then have "persistent_process_turn cfg rt sid message seq request
            = (Inl e, ?after (restore_attributes proc proc') (srt_db rt))"
          using body by (simp add: persistent_process_turn_def None c run Let_def)
        with None show thesis
          by (intro raised [of e "?after (restore_attributes proc proc') (srt_db rt)"]) simp_all
      next
        case (committed db')
        let ?result = "\<lparr>ptr_session_id = sid, ptr_turn_sequence = seq,
           ptr_committed_revision = cse_revision updated + 1, ptr_agent_response = to_rendered_text out,
           ptr_conversation_terminal = to_conversation_terminal out,
           ptr_pipeline_outcome = map_option authoritative_value (to_pipeline_outcome out),
           ptr_replayed_from_idempotency = False\<rparr>"
        have "persistent_process_turn cfg rt sid message seq request = (Inr ?result, ?after proc' db')"
          using body committed(1) by (simp add: persistent_process_turn_def None c run Let_def)
        then show thesis
          by (rule processed [OF None _ s, where result = ?result])
            (use committed(2-5) in \<open>simp_all add: new \<open>cse_revision updated = cse_revision s\<close>\<close>)
      qed
    qed
  qed
qed

section \<open>Starting a session\<close>

lemma checked_simps:
  "checked m f = Inr (Inr y) \<longleftrightarrow> (\<exists>x. m = Inr (Inr x) \<and> f x = Inr (Inr y))"
  "checked m f = Inr (Inl r) \<longleftrightarrow> m = Inr (Inl r) \<or> (\<exists>x. m = Inr (Inr x) \<and> f x = Inr (Inl r))"
  "reject_unless b r = Inr (Inr u) \<longleftrightarrow> b" "reject_unless b r = Inr (Inl r') \<longleftrightarrow> \<not> b \<and> r' = r"
  "found_or r m' = Inr (Inr z) \<longleftrightarrow> m' = Inr (Some z)" "found_or r m' = Inr (Inl r') \<longleftrightarrow> m' = Inr None \<and> r' = r"
  "caught h n = Inr (Inr w) \<longleftrightarrow> n = Inr w" "caught h n = Inr (Inl r') \<longleftrightarrow> (\<exists>e. n = Inl e \<and> r' = h e)"
  by (auto simp: checked_def reject_unless_def found_or_def caught_def res_simps split: sum.splits option.splits)

lemma prepare_session_Inr:
  assumes "prepare_session exn_text db b campaign = Inr (Inr (plan, policy, s))"
  obtains lead entry ctx where "lead_get db (bi_tenant_id b) (bi_campaign_id b) (bi_lead_id b) = Inr (Some lead)"
    and "entry_get db (bi_tenant_id b) (bi_campaign_id b) (bi_lead_id b) = Inr (Some entry)"
    and "\<not> qe_is_dnc entry" and "qe_status entry = LQ_READY" and "reconcile lead None = Inr ctx"
    and "policy_resolve db (bi_campaign_id b) None = Inr (Some policy)"
    and "precall_plan ctx campaign policy = Inr plan"
    and "s = \<lparr>cse_session_id = bi_session_id b, cse_tenant_id = bi_tenant_id b,
        cse_campaign_id = bi_campaign_id b, cse_lead_id = bi_lead_id b, cse_status = SS_ACTIVE,
        cse_mode = bi_runtime_mode b, cse_revision = 0, cse_transcript = [], cse_turn_count = 0,
        cse_pre_call_plan = Some plan\<rparr>"
    and "stored_ok s"
proof -
  from assms obtain lead entry ctx where p:
    "lead_get db (bi_tenant_id b) (bi_campaign_id b) (bi_lead_id b) = Inr (Some lead)"
    "entry_get db (bi_tenant_id b) (bi_campaign_id b) (bi_lead_id b) = Inr (Some entry)"
    "\<not> qe_is_dnc entry" "qe_status entry = LQ_READY" "reconcile lead None = Inr ctx"
    "policy_resolve db (bi_campaign_id b) None = Inr (Some policy)"
    "precall_plan ctx campaign policy = Inr plan"
    "check_session \<lparr>cse_session_id = bi_session_id b, cse_tenant_id = bi_tenant_id b,
        cse_campaign_id = bi_campaign_id b, cse_lead_id = bi_lead_id b, cse_status = SS_ACTIVE,
        cse_mode = bi_runtime_mode b, cse_revision = 0, cse_transcript = [], cse_turn_count = 0,
        cse_pre_call_plan = Some plan\<rparr> = Inr s"
    unfolding prepare_session_def checked_simps by (auto simp: res_simps)
  from p(8) have s: "s = \<lparr>cse_session_id = bi_session_id b, cse_tenant_id = bi_tenant_id b,
        cse_campaign_id = bi_campaign_id b, cse_lead_id = bi_lead_id b, cse_status = SS_ACTIVE,
        cse_mode = bi_runtime_mode b, cse_revision = 0, cse_transcript = [], cse_turn_count = 0,
        cse_pre_call_plan = Some plan\<rparr>"
    by (auto simp: check_session_def res_simps)
  have "stored_ok s"
    using p(8) planned_valid [OF p(7)] by (simp add: s stored_ok_def session_ok_def)
  with that p s show thesis by blast
qed

lemma prepare_session_status:
  "prepare_session exn_text db b campaign = Inr (Inl (status, detail)) \<Longrightarrow> status \<noteq> BS_CREATED"
  unfolding prepare_session_def checked_simps by (auto simp: res_simps)

text \<open>The database after a rejection, and after a started session.\<close>

lemma bootstrap_record_fresh:
  assumes "bootstrap_lookup db (br_bootstrap_request_id row) = None"
  shows "snd (bootstrap_record db row) = db\<lparr>db_bootstrap := db_bootstrap db @ [row]\<rparr>"
    and "bootstrap_lookup (snd (bootstrap_record db row)) (br_bootstrap_request_id row)
      = Some (br_status row, br_result_json row)"
  using assms by (auto simp: bootstrap_record_def bootstrap_lookup_def bootstrap_find_def find_append)

lemma reject_bootstrap_simps:
  assumes "status \<noteq> BS_CREATED" and "bootstrap_lookup (srt_db rt) (bi_bootstrap_request_id b) = None"
  obtains rt' where "reject_bootstrap rt b status detail = (Inr \<lparr>bsr_status = status, bsr_session = None,
      bsr_queue_entry = None, bsr_pre_call_plan = None, bsr_rejection_reason = Some detail\<rparr>, rt')"
    and "store_below (srt_db rt) (srt_db rt')"
    and "\<forall>x. sq_get (srt_db rt') x = sq_get (srt_db rt) x"
    and "\<forall>t c l. entry_get (srt_db rt') t c l = entry_get (srt_db rt) t c l"
    and "bootstrap_lookup (srt_db rt') (bi_bootstrap_request_id b)
      = Some (bootstrap_value status, [(''rejection_reason'', JStr detail)])"
    and "srt_processors rt' = srt_processors rt"
proof (rule that [OF _ _ _ _ _ _])
  let ?row = "\<lparr>br_bootstrap_request_id = bi_bootstrap_request_id b, br_tenant_id = bi_tenant_id b,
         br_campaign_id = bi_campaign_id b, br_lead_id = bi_lead_id b, br_session_id = None,
         br_status = bootstrap_value status, br_result_json = [(''rejection_reason'', JStr detail)]\<rparr>"
  let ?rt' = "rt\<lparr>srt_db := snd (bootstrap_record (srt_db rt) ?row)\<rparr>"
  show "reject_bootstrap rt b status detail = (Inr \<lparr>bsr_status = status, bsr_session = None,
      bsr_queue_entry = None, bsr_pre_call_plan = None, bsr_rejection_reason = Some detail\<rparr>, ?rt')"
    using assms(1) by (simp add: reject_bootstrap_def mk_bootstrap_result_def)
  note fresh = bootstrap_record_fresh [of "srt_db rt" ?row, simplified, OF assms(2)]
  show "store_below (srt_db rt) (srt_db ?rt')" using bootstrap_record_below by simp
  show "\<forall>x. sq_get (srt_db ?rt') x = sq_get (srt_db rt) x"
    "\<forall>t c l. entry_get (srt_db ?rt') t c l = entry_get (srt_db rt) t c l" by (simp_all add: fresh(1))
  show "bootstrap_lookup (srt_db ?rt') (bi_bootstrap_request_id b)
      = Some (bootstrap_value status, [(''rejection_reason'', JStr detail)])"
    using fresh(2) by simp
qed simp

lemma create_below:
  assumes "store_ok db" and "stored_ok s"
    and out: "create_session_and_consume_lead db s t c l LQ_READY LQ_IN_PROGRESS = (Inr (created, entry), db')"
  shows "store_below db db'" and "created = s\<lparr>cse_revision := 0\<rparr>" and "sq_get db (cse_session_id s) = Inl NotFoundError"
    and "entry_get db t c l = Inr (Some (entry\<lparr>qe_status := LQ_READY\<rparr>))"
    and "qe_status entry = LQ_IN_PROGRESS" and "\<not> qe_is_dnc entry"
    and "\<forall>x. sq_get db' x = (if x = cse_session_id s then Inr created else sq_get db x)"
    and "\<forall>t' c' l'. entry_get db' t' c' l' =
          (if (t', c', l') = (t, c, l) then Inr (Some entry) else entry_get db t' c' l')"
    and "\<forall>req. bootstrap_lookup db' req = bootstrap_lookup db req"
proof -
  from assms(1) have ok: "sessions_ok db" "queue_ok db" by (simp_all add: store_ok_def)
  from ok assms(2) have all: "store_below db db' \<and> created = s\<lparr>cse_revision := 0\<rparr>
    \<and> sq_get db (cse_session_id s) = Inl NotFoundError
    \<and> entry_get db t c l = Inr (Some (entry\<lparr>qe_status := LQ_READY\<rparr>))
    \<and> qe_status entry = LQ_IN_PROGRESS \<and> \<not> qe_is_dnc entry
    \<and> (\<forall>x. sq_get db' x = (if x = cse_session_id s then Inr created else sq_get db x))
    \<and> (\<forall>t' c' l'. entry_get db' t' c' l' =
          (if (t', c', l') = (t, c, l) then Inr (Some entry) else entry_get db t' c' l'))
    \<and> (\<forall>req. bootstrap_lookup db' req = bootstrap_lookup db req)"
  proof (cases rule: create_and_consume_cases [where t = t and c = c and l = l and a = LQ_READY and b = LQ_IN_PROGRESS])
    case (refused x)
    with out show ?thesis by simp
  next
    case (taken e d)
    with out have eq: "d = db'" "created = s\<lparr>cse_revision := 0\<rparr>" "entry = e\<lparr>qe_status := LQ_IN_PROGRESS\<rparr>" by auto
    have none: "sq_get db (cse_session_id s) = Inl NotFoundError" using taken(2) by (simp add: sq_get_def)
    have unread: "e\<lparr>qe_status := LQ_READY\<rparr> = e" using taken(4) by simp
    have t: "turn_lookup db' x req = turn_lookup db x req" for x req
      using taken(10) unfolding eq(1) by (metis turn_lookup_sessions(1,3))
    have b: "bootstrap_lookup db' req = bootstrap_lookup db req" for req
      using taken(10) unfolding eq(1) by (metis turn_lookup_sessions(2,4))
    have "store_below db db'"
    proof (rule store_belowI)
      show "store_ok db'" using taken(6,7) by (simp add: store_ok_def eq)
      show "\<exists>x'. sq_get db' sid = Inr x' \<and> session_below x x' \<and> (transcript_ok x \<longrightarrow> transcript_ok x')"
        if "sq_get db sid = Inr x" for sid x
        using taken(8) none that by (auto simp: eq)
      show "\<exists>e'. entry_get db' t' c' l' = Inr (Some e') \<and> qe_is_dnc e'"
        if "entry_get db t' c' l' = Inr (Some e0)" "qe_is_dnc e0" for t' c' l' e0
        using taken(3,5,9) that by (auto simp: eq)
    qed (simp_all add: t b)
    then show ?thesis using taken(3-5,8,9) none unread b by (auto simp: eq)
  qed
  then show "store_below db db'" and "created = s\<lparr>cse_revision := 0\<rparr>" and "sq_get db (cse_session_id s) = Inl NotFoundError"
    and "entry_get db t c l = Inr (Some (entry\<lparr>qe_status := LQ_READY\<rparr>))"
    and "qe_status entry = LQ_IN_PROGRESS" and "\<not> qe_is_dnc entry"
    and "\<forall>x. sq_get db' x = (if x = cse_session_id s then Inr created else sq_get db x)"
    and "\<forall>t' c' l'. entry_get db' t' c' l' =
          (if (t', c', l') = (t, c, l) then Inr (Some entry) else entry_get db t' c' l')"
    and "\<forall>req. bootstrap_lookup db' req = bootstrap_lookup db req" by blast+
qed

definition started_session :: "bootstrap_input \<Rightarrow> conversation_plan \<Rightarrow> planned_session" where
  "started_session b plan = \<lparr>cse_session_id = bi_session_id b, cse_tenant_id = bi_tenant_id b,
     cse_campaign_id = bi_campaign_id b, cse_lead_id = bi_lead_id b, cse_status = SS_ACTIVE,
     cse_mode = bi_runtime_mode b, cse_revision = 0, cse_transcript = [], cse_turn_count = 0,
     cse_pre_call_plan = Some plan\<rparr>"

lemma start_session_cases:
  assumes ok: "store_ok (srt_db rt)" and new: "bootstrap_lookup (srt_db rt) (bi_bootstrap_request_id b) = None"
  obtains (raised) e where "start_session cfg rt b campaign = (Inl e, rt)"
  | (rejected) status detail rt' where "status \<noteq> BS_CREATED"
      and "start_session cfg rt b campaign = (Inr \<lparr>bsr_status = status, bsr_session = None,
        bsr_queue_entry = None, bsr_pre_call_plan = None, bsr_rejection_reason = Some detail\<rparr>, rt')"
      and "store_below (srt_db rt) (srt_db rt')"
      and "\<forall>x. sq_get (srt_db rt') x = sq_get (srt_db rt) x"
      and "\<forall>t c l. entry_get (srt_db rt') t c l = entry_get (srt_db rt) t c l"
      and "bootstrap_lookup (srt_db rt') (bi_bootstrap_request_id b)
        = Some (bootstrap_value status, [(''rejection_reason'', JStr detail)])"
  | (orphaned) e db' where "start_session cfg rt b campaign = (Inl e, rt\<lparr>srt_db := db'\<rparr>)"
      and "store_below (srt_db rt) db'"
  | (started) lead ctx policy plan entry rt' where
      "start_session cfg rt b campaign = (Inr \<lparr>bsr_status = BS_CREATED, bsr_session = Some (started_session b plan),
        bsr_queue_entry = Some entry, bsr_pre_call_plan = Some plan, bsr_rejection_reason = None\<rparr>, rt')"
      and "lead_get (srt_db rt) (bi_tenant_id b) (bi_campaign_id b) (bi_lead_id b) = Inr (Some lead)"
      and "reconcile lead None = Inr ctx"
      and "policy_resolve (srt_db rt) (bi_campaign_id b) None = Inr (Some policy)"
      and "precall_plan ctx campaign policy = Inr plan"
      and "sq_get (srt_db rt) (bi_session_id b) = Inl NotFoundError"
      and "entry_get (srt_db rt) (bi_tenant_id b) (bi_campaign_id b) (bi_lead_id b)
        = Inr (Some (entry\<lparr>qe_status := LQ_READY\<rparr>))"
      and "qe_status entry = LQ_IN_PROGRESS" and "\<not> qe_is_dnc entry"
      and "store_below (srt_db rt) (srt_db rt')"
      and "\<forall>x. sq_get (srt_db rt') x = (if x = bi_session_id b then Inr (started_session b plan) else sq_get (srt_db rt) x)"
      and "\<forall>t c l. entry_get (srt_db rt') t c l = (if (t, c, l) = (bi_tenant_id b, bi_campaign_id b, bi_lead_id b)
        then Inr (Some entry) else entry_get (srt_db rt) t c l)"
      and "bootstrap_lookup (srt_db rt') (bi_bootstrap_request_id b)
        = Some (bootstrap_value BS_CREATED, [(''session_id'', JStr (bi_session_id b))])"
proof (cases "prepare_session (src_exn_text cfg) (srt_db rt) b campaign")
  case (Inl e)
  then show thesis by (intro raised [of e]) (simp add: start_session_def new)
next
  case (Inr verdict)
  show thesis
  proof (cases verdict)
    case (Inl r)
    obtain status detail where r: "r = (status, detail)" by force
    then have status: "status \<noteq> BS_CREATED" using prepare_session_status Inl Inr by blast
    have start: "start_session cfg rt b campaign = reject_bootstrap rt b status detail"
      using Inl Inr r by (simp add: start_session_def new)
    show thesis
      by (rule reject_bootstrap_simps [OF status new, of detail]) (rule rejected [OF status]; simp add: start)
  next
    case ready: (Inr ready)
    obtain plan policy s where verdict: "ready = (plan, policy, s)" by (cases ready) auto
    note prep = Inr [unfolded ready verdict]
    obtain lead entry0 ctx where p: "lead_get (srt_db rt) (bi_tenant_id b) (bi_campaign_id b) (bi_lead_id b) = Inr (Some lead)"
      "reconcile lead None = Inr ctx" "policy_resolve (srt_db rt) (bi_campaign_id b) None = Inr (Some policy)"
      "precall_plan ctx campaign policy = Inr plan" "s = started_session b plan" "stored_ok s"
      by (rule prepare_session_Inr [OF prep]) (auto simp: started_session_def)
    have id: "cse_session_id s = bi_session_id b" "s\<lparr>cse_revision := 0\<rparr> = s" by (simp_all add: p(5) started_session_def)
    let ?out = "create_session_and_consume_lead (srt_db rt) s (bi_tenant_id b) (bi_campaign_id b)
                (bi_lead_id b) LQ_READY LQ_IN_PROGRESS"
    from ok have oks: "sessions_ok (srt_db rt)" "queue_ok (srt_db rt)" by (simp_all add: store_ok_def)
    obtain res db' where out: "?out = (res, db')" by force
    show thesis
    proof (cases res)
      case (Inl e)
      with out have same: "db' = srt_db rt"
        using create_and_consume_cases [OF oks p(6), where t = "bi_tenant_id b" and c = "bi_campaign_id b"
          and l = "bi_lead_id b" and a = LQ_READY and b = LQ_IN_PROGRESS] by (metis Inl_Inr_False Pair_inject)
      let ?st = "if e \<in> {IdempotencyConflictError, StaleRevisionError} then BS_CONCURRENCY_CONFLICT
                  else BS_SESSION_CREATION_FAILED"
      have start: "start_session cfg rt b campaign = reject_bootstrap rt b ?st (src_exn_text cfg e)"
        using prep out Inl same by (simp add: start_session_def new)
      have st: "?st \<noteq> BS_CREATED" by simp
      show thesis
        by (rule reject_bootstrap_simps [OF st new, of "src_exn_text cfg e"]) (rule rejected [OF st]; simp add: start)
    next
      case (Inr pair)
      obtain created entry where pair: "pair = (created, entry)" by force
      note c = create_below [OF ok p(6) out [unfolded Inr pair]]
      have created: "created = started_session b plan" using c(2) id(2) p(5) by simp
      show thesis
      proof (cases "src_create cfg created campaign policy")
        case (Inl e)
        then have "start_session cfg rt b campaign = (Inl e, rt\<lparr>srt_db := db'\<rparr>)"
          using prep out Inr pair by (simp add: start_session_def new)
        then show thesis using c(1) by (rule orphaned)
      next
        case proc: (Inr proc)
        let ?row = "\<lparr>br_bootstrap_request_id = bi_bootstrap_request_id b,
                             br_tenant_id = bi_tenant_id b, br_campaign_id = bi_campaign_id b,
                             br_lead_id = bi_lead_id b, br_session_id = Some (bi_session_id b),
                             br_status = bootstrap_value BS_CREATED,
                             br_result_json = [(''session_id'', JStr (bi_session_id b))]\<rparr>"
        let ?rt' = "rt\<lparr>srt_db := snd (bootstrap_record db' ?row),
                          srt_processors := dset (bi_session_id b) proc (srt_processors rt)\<rparr>"
        have sid: "cse_session_id (started_session b plan) = bi_session_id b" by (simp add: started_session_def)
        have start: "start_session cfg rt b campaign = (Inr \<lparr>bsr_status = BS_CREATED,
            bsr_session = Some (started_session b plan), bsr_queue_entry = Some entry,
            bsr_pre_call_plan = Some plan, bsr_rejection_reason = None\<rparr>, ?rt')"
          using prep out Inr pair proc created sid by (simp add: start_session_def new mk_bootstrap_result_def)
        have "bootstrap_lookup db' (bi_bootstrap_request_id b) = None" using c(9) new by simp
        note fresh = bootstrap_record_fresh [of db' ?row, simplified, OF this]
        have below: "store_below (srt_db rt) (snd (bootstrap_record db' ?row))"
          by (rule store_below_trans [OF c(1) bootstrap_record_below])
        show thesis
          by (rule started [OF start p(1-4) _ c(4-6)])
            (use c(3,7,8) id(1) fresh below created in simp_all)
      qed
    qed
  qed
qed

section \<open>Runs of the runtime\<close>

lemma mark_dnc_below: "store_below db (snd (entry_mark_dnc db t c l))"
proof (cases "store_ok db")
  case False
  then show ?thesis by (simp add: store_below_def)
next
  case ok: True
  then have q: "queue_ok db" and sok: "sessions_ok db" by (simp_all add: store_ok_def)
  from q show ?thesis
  proof (cases rule: mark_dnc_cases [where t = t and c = c and l = l])
    case refused
    then show ?thesis by simp
  next
    case (marked e)
    let ?db' = "snd (entry_mark_dnc db t c l)"
    from marked(6) obtain qs where eq: "?db' = db\<lparr>db_queue := qs\<rparr>" unfolding writes_def by blast
    have "sq_get ?db' sid = sq_get db sid" "turn_lookup ?db' x req = turn_lookup db x req"
      "bootstrap_lookup ?db' req = bootstrap_lookup db req" for sid x req
      unfolding eq by (simp_all add: sessions_of_queue [OF refl])
    moreover have "store_ok ?db'"
      using writes_ok [OF marked(6) q] sok sessions_of_queue(2) [OF eq] by (simp add: store_ok_def)
    moreover have "\<exists>e'. entry_get ?db' t' c' l' = Inr (Some e') \<and> qe_is_dnc e'"
      if "entry_get db t' c' l' = Inr (Some e0)" "qe_is_dnc e0" for t' c' l' e0
      using writes_get [OF marked(6), of t' c' l'] that by auto
    ultimately show ?thesis by (intro store_belowI) auto
  qed
qed

lemma mark_dnc_not_refused:
  assumes "queue_ok db" and "entry_get db t c l = Inr (Some e)"
  shows "entry_mark_dnc db t c l \<noteq> (Inl NotFoundError, db)"
  using assms(1)
proof (cases rule: entry_get_cases [where t = t and c = c and l = l])
  case absent
  with assms(2) show ?thesis by simp
next
  case (present e0 n)
  then show ?thesis by (simp add: entry_mark_dnc_def entry_ok_change(2))
qed

lemma close_session_facts:
  assumes ok: "store_ok db" and get: "sq_get db sid = Inr s"
  obtains s' where "fst (close_session db s is_dnc session_error) = Inr s'"
    and "store_below db (snd (close_session db s is_dnc session_error))"
    and "cse_status s' \<noteq> SS_ACTIVE" and "session_below s s'"
    and "sq_get (snd (close_session db s is_dnc session_error)) sid = Inr s'"
    and "\<And>e. is_dnc \<Longrightarrow> entry_get db (cse_tenant_id s) (cse_campaign_id s) (cse_lead_id s) = Inr (Some e)
      \<Longrightarrow> \<exists>e'. entry_get (snd (close_session db s is_dnc session_error)) (cse_tenant_id s)
            (cse_campaign_id s) (cse_lead_id s) = Inr (Some e') \<and> qe_is_dnc e'"
proof -
  from ok have sok: "sessions_ok db" by (simp add: store_ok_def)
  have id: "cse_session_id s = sid" "session_ok s" using get sok by (simp_all add: sq_get_iff stored_ok_def)
  let ?st = "if session_error then SS_ERROR else SS_COMPLETED"
  let ?new = "s\<lparr>cse_status := ?st, cse_revision := cse_revision s + 1\<rparr>"
  have "\<exists>s' db1. (if cse_status s = SS_ACTIVE
             then (case sq_update db (s\<lparr>cse_status := ?st\<rparr>) of
                 (Inl e, db') \<Rightarrow> (if e = StaleRevisionError then sq_get db' (cse_session_id s) else Inl e, db')
               | (Inr s', db') \<Rightarrow> (Inr s', db'))
             else (Inr s, db)) = (Inr s', db1)
      \<and> store_below db db1 \<and> cse_status s' \<noteq> SS_ACTIVE \<and> session_below s s' \<and> sq_get db1 sid = Inr s'
      \<and> (\<forall>t c l. entry_get db1 t c l = entry_get db t c l)"
  proof (cases "cse_status s = SS_ACTIVE")
    case False
    with get show ?thesis by simp
  next
    case True
    have "session_below s ?new" using True by (simp add: session_below_def same_owner_def)
    moreover have "transcript_ok s \<longrightarrow> transcript_ok (s\<lparr>cse_status := ?st\<rparr>)" by (simp add: transcript_ok_def)
    ultimately have u: "fst (sq_update db (s\<lparr>cse_status := ?st\<rparr>)) = Inr ?new"
      "store_below db (snd (sq_update db (s\<lparr>cse_status := ?st\<rparr>)))"
      "snd (sq_update db (s\<lparr>cse_status := ?st\<rparr>))
        = db\<lparr>db_sessions := db_sessions (snd (sq_update db (s\<lparr>cse_status := ?st\<rparr>)))\<rparr>"
      "\<forall>x. sq_get (snd (sq_update db (s\<lparr>cse_status := ?st\<rparr>))) x = (if x = sid then Inr ?new else sq_get db x)"
      using update_below [OF ok, of "s\<lparr>cse_status := ?st\<rparr>" s] get id by simp_all
    obtain db1 where db1: "sq_update db (s\<lparr>cse_status := ?st\<rparr>) = (Inr ?new, db1)"
      using u(1) by (cases "sq_update db (s\<lparr>cse_status := ?st\<rparr>)") simp
    obtain rows where rows: "db1 = db\<lparr>db_sessions := rows\<rparr>" using u(3) db1 by simp
    then have "entry_get db1 t c l = entry_get db t c l" for t c l by simp
    then show ?thesis
      using True u(2,4) db1 \<open>session_below s ?new\<close> by (intro exI [of _ ?new] exI [of _ db1]) simp
  qed
  then obtain s' db1 where c: "(if cse_status s = SS_ACTIVE
             then (case sq_update db (s\<lparr>cse_status := ?st\<rparr>) of
                 (Inl e, db') \<Rightarrow> (if e = StaleRevisionError then sq_get db' (cse_session_id s) else Inl e, db')
               | (Inr s', db') \<Rightarrow> (Inr s', db'))
             else (Inr s, db)) = (Inr s', db1)"
    and f: "store_below db db1" "cse_status s' \<noteq> SS_ACTIVE" "session_below s s'" "sq_get db1 sid = Inr s'"
      "\<forall>t c l. entry_get db1 t c l = entry_get db t c l" by blast
  let ?db2 = "if is_dnc then snd (entry_mark_dnc db1 (cse_tenant_id s') (cse_campaign_id s') (cse_lead_id s')) else db1"
  have out: "close_session db s is_dnc session_error = (Inr s', ?db2)"
    unfolding close_session_def Let_def c by simp
  have owner: "cse_tenant_id s' = cse_tenant_id s" "cse_campaign_id s' = cse_campaign_id s" "cse_lead_id s' = cse_lead_id s"
    using f(3) by (simp_all add: session_below_def same_owner_def)
  have ok1: "queue_ok db1" using store_belowD(1) [OF f(1) ok] by (simp add: store_ok_def)
  have same: "sq_get ?db2 sid = Inr s'"
  proof (cases is_dnc)
    case True
    from ok1 have "sq_get (snd (entry_mark_dnc db1 t c l)) sid = sq_get db1 sid" for t c l
      by (rule mark_dnc_cases [where t = t and c = c and l = l])
        (auto simp: writes_def intro: sessions_of_queue(1))
    with True f(4) show ?thesis by simp
  qed (simp add: f(4))
  have dnc: "\<exists>e'. entry_get ?db2 (cse_tenant_id s) (cse_campaign_id s) (cse_lead_id s) = Inr (Some e') \<and> qe_is_dnc e'"
    if "is_dnc" "entry_get db (cse_tenant_id s) (cse_campaign_id s) (cse_lead_id s) = Inr (Some e)" for e
    using ok1
  proof (cases rule: mark_dnc_cases [where t = "cse_tenant_id s" and c = "cse_campaign_id s" and l = "cse_lead_id s"])
    case refused
    from ok1 have "entry_get db1 (cse_tenant_id s) (cse_campaign_id s) (cse_lead_id s) = Inr (Some e)" using f(5) that(2) by simp
    from mark_dnc_not_refused [OF ok1 this] refused show ?thesis by simp
  next
    case (marked e0)
    then show ?thesis using that(1) writes_get [OF marked(6)] by (simp add: owner)
  qed
  have below: "store_below db ?db2"
    using store_below_trans [OF f(1) mark_dnc_below] f(1) by simp
  show thesis
    by (rule that [of s'], unfold out fst_conv snd_conv)
      (rule refl, rule below, rule f(2), rule f(3), rule same, erule (1) dnc)
qed

datatype runtime_event =
    EStart bootstrap_input campaign_config
  | ETurn str str int str
  | EMarkDnc str str str
  | ERestore str campaign_config
  | EFinish str bool bool

fun runtime_step ::
  "('cov, 'rest) runtime_config \<Rightarrow> ('cov, 'rest) sales_runtime \<Rightarrow> runtime_event \<Rightarrow> ('cov, 'rest) sales_runtime" where
  "runtime_step cfg rt (EStart b campaign) = snd (start_session cfg rt b campaign)"
| "runtime_step cfg rt (ETurn sid message seq request) =
     snd (persistent_process_turn cfg rt sid message seq request)"
| "runtime_step cfg rt (EMarkDnc tenant campaign lead) = snd (mark_lead_dnc rt tenant campaign lead)"
| "runtime_step cfg rt (ERestore sid campaign) = snd (restore_processor_if_possible cfg rt sid campaign)"
| "runtime_step cfg rt (EFinish sid is_dnc session_error) = (case get_session rt sid of
       Inl e \<Rightarrow> rt
     | Inr s \<Rightarrow> rt\<lparr>srt_db := snd (close_session (srt_db rt) s is_dnc session_error)\<rparr>)"

lemma restore_same_db: "srt_db (snd (restore_processor_if_possible cfg rt sid campaign)) = srt_db rt"
  by (simp add: restore_processor_if_possible_def Let_def split: sum.split option.split)

lemma runtime_step_below: "store_below (srt_db rt) (srt_db (runtime_step cfg rt ev))"
proof (cases "store_ok (srt_db rt)")
  case False
  then show ?thesis by (simp add: store_below_def)
next
  case ok: True
  show ?thesis
  proof (cases ev)
    case (EStart b campaign)
    show ?thesis
    proof (cases "bootstrap_lookup (srt_db rt) (bi_bootstrap_request_id b)")
      case (Some x)
      then show ?thesis by (cases x) (simp add: EStart start_session_def)
    next
      case None
      from ok None show ?thesis
        by (rule start_session_cases [where cfg = cfg and campaign = campaign]) (simp_all add: EStart)
    qed
  next
    case (ETurn sid message seq request)
    from ok show ?thesis
      by (rule persistent_turn_cases [where cfg = cfg and sid = sid and message = message and seq = seq
            and request = request]) (simp_all add: ETurn)
  next
    case (EMarkDnc t c l)
    then show ?thesis by (simp add: mark_lead_dnc_def case_prod_beta mark_dnc_below)
  next
    case (ERestore sid campaign)
    then show ?thesis by (simp add: restore_same_db)
  next
    case (EFinish sid is_dnc err)
    show ?thesis
    proof (cases "sq_get (srt_db rt) sid")
      case (Inl e)
      then show ?thesis by (simp add: EFinish get_session_def)
    next
      case (Inr s)
      from ok Inr show ?thesis
        by (rule close_session_facts [where is_dnc = is_dnc and session_error = err])
          (simp add: EFinish get_session_def Inr)
    qed
  qed
qed

interpretation runtime: monotone "runtime_step cfg" "\<lambda>rt rt'. store_below (srt_db rt) (srt_db rt')" for cfg
  by unfold_locales (rule store_below_refl, erule (1) store_below_trans, rule runtime_step_below)

section \<open>The properties\<close>

text \<open>
  C3. A turn is committed exactly once. If processing a turn raises, the database is as it
  was. If it answers, the answer is either the recorded one of an earlier call with the same
  session and request identifier, with nothing changed, or new: then the session was active
  and the turn number beyond its count, exactly the exchange was appended with the next
  revision, no other session and no queue entry changed. From then on, whatever the runtime
  does in between, a call with that session and request identifier (and whatever message and
  number) returns the same answer, flagged as a replay, and changes nothing at all.
\<close>

theorem persistent_turn_exactly_once:
  assumes "store_ok (srt_db rt)"
  shows "case persistent_process_turn cfg rt sid message seq request of
      (Inl e, rt') \<Rightarrow> srt_db rt' = srt_db rt
    | (Inr r, rt') \<Rightarrow>
        (if ptr_replayed_from_idempotency r then rt' = rt
         else \<exists>s. sq_get (srt_db rt) sid = Inr s \<and> cse_status s = SS_ACTIVE \<and> cse_turn_count s < seq
           \<and> ptr_turn_sequence r = seq \<and> ptr_committed_revision r = cse_revision s + 1
           \<and> (\<forall>x. sq_get (srt_db rt') x = (if x = sid then Inr (s\<lparr>cse_turn_count := seq,
                cse_status := (if ptr_conversation_terminal r then SS_COMPLETED else SS_ACTIVE),
                cse_transcript := cse_transcript s @ exchange (seq, message, ptr_agent_response r),
                cse_revision := cse_revision s + 1\<rparr>) else sq_get (srt_db rt) x))
           \<and> (\<forall>t c l. entry_get (srt_db rt') t c l = entry_get (srt_db rt) t c l))
        \<and> (\<forall>later message' seq'. let rt'' = foldl (runtime_step cfg) rt' later in
             persistent_process_turn cfg rt'' sid message' seq' request
               = (Inr (r\<lparr>ptr_replayed_from_idempotency := True\<rparr>), rt''))"
proof -
  have again: "persistent_process_turn cfg rt'' sid message' seq' request = (Inr (replay_of sid c), rt'')"
    if "turn_lookup (srt_db rt') sid request = Some c" "store_ok (srt_db rt')"
      "rt'' = foldl (runtime_step cfg) rt' later" for rt' rt'' later c message' seq'
  proof -
    have "store_below (srt_db rt') (srt_db rt'')" unfolding that(3) by (rule runtime.run_below)
    from store_belowD(3) [OF this that(2,1)] show ?thesis
      by (simp add: persistent_process_turn_def replay_of_def)
  qed
  from assms show ?thesis
  proof (cases rule: persistent_turn_cases [where cfg = cfg and sid = sid and message = message
        and seq = seq and request = request])
    case (replayed c)
    with again [OF replayed(1) assms refl] show ?thesis by (simp add: replay_of_def Let_def)
  next
    case (raised e rt')
    then show ?thesis by simp
  next
    case (processed s r rt')
    have "store_ok (srt_db rt')" by (rule store_belowD(1) [OF processed(10) assms])
    from again [OF processed(12) this refl] processed(6-9)
    have "persistent_process_turn cfg (foldl (runtime_step cfg) rt' later) sid message' seq' request
        = (Inr (r\<lparr>ptr_replayed_from_idempotency := True\<rparr>), foldl (runtime_step cfg) rt' later)"
      for later message' seq'
      by (cases r) (simp add: replay_of_def)
    with processed show ?thesis by (simp add: after_exchange_def Let_def)
  qed
qed

lemma bootstrap_value_inj: "bootstrap_value a = bootstrap_value b \<longleftrightarrow> a = b"
  by (metis bootstrap_of_value sum.inject(2))

lemma replay_rejected:
  assumes "status \<noteq> BS_CREATED"
  shows "replay_bootstrap db (bootstrap_value status) [(''rejection_reason'', JStr detail)]
    = Inr \<lparr>bsr_status = status, bsr_session = None, bsr_queue_entry = None, bsr_pre_call_plan = None,
        bsr_rejection_reason = Some detail\<rparr>"
  using assms bootstrap_value_inj [of status BS_CREATED]
  by (simp add: replay_bootstrap_def mk_bootstrap_result_def Let_def del: bootstrap_value.simps)

lemma replay_created:
  assumes ok: "store_ok db" and get: "sq_get db sid = Inr s" and plan: "cse_pre_call_plan s \<noteq> None"
  shows "\<exists>entry. replay_bootstrap db (bootstrap_value BS_CREATED) [(''session_id'', JStr sid)]
    = Inr \<lparr>bsr_status = BS_CREATED, bsr_session = Some s, bsr_queue_entry = entry,
        bsr_pre_call_plan = cse_pre_call_plan s, bsr_rejection_reason = None\<rparr>"
proof -
  from ok have sok: "sessions_ok db" and q: "queue_ok db" by (simp_all add: store_ok_def)
  have "session_ok s" "cse_session_id s = sid" using get sok by (simp_all add: sq_get_iff stored_ok_def)
  then have "sid \<noteq> []" by (auto simp: session_ok_def check_session_def res_simps)
  moreover have "sq_exists db sid" using get by (auto simp: sq_exists_def sq_get_def res_simps)
  moreover obtain entry where "entry_get db (cse_tenant_id s) (cse_campaign_id s) (cse_lead_id s) = Inr entry"
    using q by (rule entry_get_cases [where t = "cse_tenant_id s" and c = "cse_campaign_id s" and l = "cse_lead_id s"]) auto
  ultimately show ?thesis
    using get plan by (auto simp: replay_bootstrap_def mk_bootstrap_result_def Let_def)
qed


section \<open>A runtime with one queued lead\<close>

definition stored_database :: database where
  "stored_database = policy_register_default (lead_save queued_database
     (lead_fixture\<lparr>lrec_tenant_id := ''t'', lrec_campaign_id := ''c''\<rparr>)) ''c'' sample_discovery"

definition echo_config :: "(unit, unit) runtime_config" where
  "echo_config = \<lparr>src_run = (\<lambda>p t. (Inr \<lparr>to_turn_id = cut_turn_id t, to_response_plan =
        \<lparr>rpl_communicative_goal = Move_COMMUNICATE_RESULT, rpl_pending_intent = None\<rparr>,
        to_rendered_text = ''hello'', to_unfinished_point_summary = None,
        to_pipeline_outcome = Some AR_EXECUTED, to_conversation_terminal = False\<rparr>, p)),
     src_export = (\<lambda>p n. Inr None),
     src_create = (\<lambda>s c d. Inr \<lparr>pc_discussion_coverage = None, pc_reasoning_calls = Some 0, pc_rest = ()\<rparr>),
     src_restore = (\<lambda>s c d snap. Inr \<lparr>pc_discussion_coverage = None, pc_reasoning_calls = Some 0, pc_rest = ()\<rparr>),
     src_manifest = default_manifest, src_loads = (\<lambda>t. Inl ValueError), src_exn_text = (\<lambda>e. ''error'')\<rparr>"

definition stored_runtime :: "(unit, unit) sales_runtime" where
  "stored_runtime = \<lparr>srt_db = stored_database, srt_processors = []\<rparr>"

definition first_request :: bootstrap_input where
  "first_request = \<lparr>bi_tenant_id = ''t'', bi_campaign_id = ''c'', bi_lead_id = ''b1_row_2'',
     bi_session_id = ''s1'', bi_bootstrap_request_id = ''req1'', bi_trusted_time_iso = ''2025-01-01T00:00:00'',
     bi_runtime_mode = Mode_SIMULATION, bi_expected_queue_revision = None\<rparr>"

lemma stored_runtime_ok: "store_ok (srt_db stored_runtime)"
proof -
  obtain leads policies where "stored_database
      = queued_database\<lparr>db_leads := leads, db_policies := policies\<rparr>"
    by (simp add: stored_database_def policy_register_default_def lead_save_def Let_def)
  moreover have "store_ok (queued_database\<lparr>db_leads := leads, db_policies := policies\<rparr>)" for leads policies
    using queued_database_ok by (simp add: store_ok_def queue_ok_def sessions_ok_def find_entry_def)
  ultimately have "store_ok stored_database" by metis
  then show ?thesis by (simp add: stored_runtime_def)
qed

abbreviation started_runtime :: "bootstrap_result res \<times> (unit, unit) sales_runtime" where
  "started_runtime \<equiv> start_session echo_config stored_runtime first_request planned_campaign"

lemma started_runtime_status: "map_sum (\<lambda>e. ()) bsr_status (fst started_runtime) = Inr BS_CREATED"
  by code_simp

lemma started_runtime_created:
  "isl (fst started_runtime) = False" "bsr_status (projr (fst started_runtime)) = BS_CREATED"
  using started_runtime_status by (cases "fst started_runtime"; simp)+

lemma started_runtime_ok: "store_ok (srt_db (snd started_runtime))"
  using runtime_step_below [of stored_runtime echo_config "EStart first_request planned_campaign"]
    store_belowD(1) stored_runtime_ok by auto


abbreviation answered_runtime :: "persistent_turn_result res \<times> (unit, unit) sales_runtime" where
  "answered_runtime \<equiv> persistent_process_turn echo_config (snd started_runtime) ''s1'' ''hi'' 1 ''t1''"

lemma answered_runtime_result:
  "map_sum (\<lambda>e. ()) (\<lambda>r. (ptr_replayed_from_idempotency r, ptr_committed_revision r)) (fst answered_runtime)
     = Inr (False, 1)"
  by code_simp

lemma answered_runtime_ok: "isl (fst answered_runtime) = False"
  "ptr_replayed_from_idempotency (projr (fst answered_runtime)) = False"
  "ptr_committed_revision (projr (fst answered_runtime)) = 1"
  using answered_runtime_result by (cases "fst answered_runtime"; simp)+

lemma persistent_turn_exactly_once_witness:
  "\<exists>r rt'. answered_runtime = (Inr r, rt') \<and> \<not> ptr_replayed_from_idempotency r
     \<and> ptr_committed_revision r = 1
     \<and> persistent_process_turn echo_config rt' ''s1'' ''other'' 7 ''t1''
       = (Inr (r\<lparr>ptr_replayed_from_idempotency := True\<rparr>), rt')"
proof -
  obtain r rt' where out: "answered_runtime = (Inr r, rt')"
    using outcome_Inr [OF answered_runtime_ok(1)] by blast
  have "\<not> ptr_replayed_from_idempotency r" using answered_runtime_ok(2) out by simp
  moreover note answered_runtime_ok(3)
  ultimately show ?thesis
    using persistent_turn_exactly_once [OF started_runtime_ok, where cfg = echo_config
      and sid = "''s1''" and message = "''hi''" and seq = 1 and request = "''t1''"]
    unfolding out prod.case sum.case by (force dest: spec [of _ "[]"])
qed

end
