(* ===== verification/Prospect.thy ===== *)
theory Prospect
  imports Documents
begin

text \<open>
  \<^verbatim>\<open>conversation/prospect_intelligence\<close>: what is known about a prospect, split into facts the
  prospect stated (observed) and guesses of the model (inferred), each with its provenance,
  and the updater that merges the evidence of a turn. The checks of the constructors that
  depend on values are here; the checks of types hold by typing.
\<close>

section \<open>Vocabulary\<close>

datatype prospect_role =
    PRole_OWNER | PRole_FOUNDER | PRole_DECISION_MAKER | PRole_MANAGER | PRole_OPERATIONS_MANAGER |
    PRole_TECHNICAL_MANAGER | PRole_SALES_MANAGER | PRole_FINANCE_CONTACT | PRole_ASSISTANT |
    PRole_ASSISTANT_MANAGER | PRole_RECEPTIONIST | PRole_GATEKEEPER | PRole_STAFF | PRole_UNKNOWN

fun prospect_role_value :: "prospect_role \<Rightarrow> str" where
  "prospect_role_value PRole_OWNER = ''owner''"
| "prospect_role_value PRole_FOUNDER = ''founder''"
| "prospect_role_value PRole_DECISION_MAKER = ''decision_maker''"
| "prospect_role_value PRole_MANAGER = ''manager''"
| "prospect_role_value PRole_OPERATIONS_MANAGER = ''operations_manager''"
| "prospect_role_value PRole_TECHNICAL_MANAGER = ''technical_manager''"
| "prospect_role_value PRole_SALES_MANAGER = ''sales_manager''"
| "prospect_role_value PRole_FINANCE_CONTACT = ''finance_contact''"
| "prospect_role_value PRole_ASSISTANT = ''assistant''"
| "prospect_role_value PRole_ASSISTANT_MANAGER = ''assistant_manager''"
| "prospect_role_value PRole_RECEPTIONIST = ''receptionist''"
| "prospect_role_value PRole_GATEKEEPER = ''gatekeeper''"
| "prospect_role_value PRole_STAFF = ''staff''"
| "prospect_role_value PRole_UNKNOWN = ''unknown''"

definition all_prospect_role :: "prospect_role list" where
  "all_prospect_role =
     [PRole_OWNER, PRole_FOUNDER, PRole_DECISION_MAKER, PRole_MANAGER, PRole_OPERATIONS_MANAGER,
     PRole_TECHNICAL_MANAGER, PRole_SALES_MANAGER, PRole_FINANCE_CONTACT, PRole_ASSISTANT,
     PRole_ASSISTANT_MANAGER, PRole_RECEPTIONIST, PRole_GATEKEEPER, PRole_STAFF, PRole_UNKNOWN]"

lemma prospect_role_of_value [simp]: "enum_of prospect_role_value all_prospect_role (prospect_role_value x) = Inr x"
  by (cases x) (simp_all add: enum_of_def all_prospect_role_def)

datatype decision_authority =
    DA_UNKNOWN | DA_LOW | DA_MEDIUM | DA_HIGH | DA_FINAL

fun authority_value :: "decision_authority \<Rightarrow> str" where
  "authority_value DA_UNKNOWN = ''unknown''"
| "authority_value DA_LOW = ''low''"
| "authority_value DA_MEDIUM = ''medium''"
| "authority_value DA_HIGH = ''high''"
| "authority_value DA_FINAL = ''final''"

definition all_authority :: "decision_authority list" where
  "all_authority =
     [DA_UNKNOWN, DA_LOW, DA_MEDIUM, DA_HIGH, DA_FINAL]"

lemma authority_of_value [simp]: "enum_of authority_value all_authority (authority_value x) = Inr x"
  by (cases x) (simp_all add: enum_of_def all_authority_def)

datatype information_level =
    IL_UNKNOWN | IL_LOW | IL_MEDIUM | IL_HIGH

fun level_value :: "information_level \<Rightarrow> str" where
  "level_value IL_UNKNOWN = ''unknown''"
| "level_value IL_LOW = ''low''"
| "level_value IL_MEDIUM = ''medium''"
| "level_value IL_HIGH = ''high''"

definition all_level :: "information_level list" where
  "all_level =
     [IL_UNKNOWN, IL_LOW, IL_MEDIUM, IL_HIGH]"

lemma level_of_value [simp]: "enum_of level_value all_level (level_value x) = Inr x"
  by (cases x) (simp_all add: enum_of_def all_level_def)

datatype buying_stage =
    BS_UNKNOWN | BS_UNAWARE | BS_EXPLORING | BS_PROBLEM_AWARE | BS_SOLUTION_AWARE | BS_EVALUATING |
    BS_READY_FOR_NEXT_STEP

fun stage_value :: "buying_stage \<Rightarrow> str" where
  "stage_value BS_UNKNOWN = ''unknown''"
| "stage_value BS_UNAWARE = ''unaware''"
| "stage_value BS_EXPLORING = ''exploring''"
| "stage_value BS_PROBLEM_AWARE = ''problem_aware''"
| "stage_value BS_SOLUTION_AWARE = ''solution_aware''"
| "stage_value BS_EVALUATING = ''evaluating''"
| "stage_value BS_READY_FOR_NEXT_STEP = ''ready_for_next_step''"

definition all_stage :: "buying_stage list" where
  "all_stage =
     [BS_UNKNOWN, BS_UNAWARE, BS_EXPLORING, BS_PROBLEM_AWARE, BS_SOLUTION_AWARE, BS_EVALUATING,
     BS_READY_FOR_NEXT_STEP]"

lemma stage_of_value [simp]: "enum_of stage_value all_stage (stage_value x) = Inr x"
  by (cases x) (simp_all add: enum_of_def all_stage_def)

datatype objection_type =
    Obj_NONE | Obj_PRICE | Obj_NO_TIME | Obj_ALREADY_HAVE_PROVIDER | Obj_NO_NEED |
    Obj_NOT_DECISION_MAKER | Obj_SEND_INFORMATION | Obj_BAD_TIMING | Obj_TRUST | Obj_IMPLEMENTATION
    | Obj_INTEGRATION | Obj_INTERNAL_TEAM | Obj_CONTRACT_LOCK | Obj_UNKNOWN

fun objection_value :: "objection_type \<Rightarrow> str" where
  "objection_value Obj_NONE = ''none''"
| "objection_value Obj_PRICE = ''price''"
| "objection_value Obj_NO_TIME = ''no_time''"
| "objection_value Obj_ALREADY_HAVE_PROVIDER = ''already_have_provider''"
| "objection_value Obj_NO_NEED = ''no_need''"
| "objection_value Obj_NOT_DECISION_MAKER = ''not_decision_maker''"
| "objection_value Obj_SEND_INFORMATION = ''send_information''"
| "objection_value Obj_BAD_TIMING = ''bad_timing''"
| "objection_value Obj_TRUST = ''trust''"
| "objection_value Obj_IMPLEMENTATION = ''implementation''"
| "objection_value Obj_INTEGRATION = ''integration''"
| "objection_value Obj_INTERNAL_TEAM = ''internal_team''"
| "objection_value Obj_CONTRACT_LOCK = ''contract_lock''"
| "objection_value Obj_UNKNOWN = ''unknown''"

definition all_objection :: "objection_type list" where
  "all_objection =
     [Obj_NONE, Obj_PRICE, Obj_NO_TIME, Obj_ALREADY_HAVE_PROVIDER, Obj_NO_NEED,
     Obj_NOT_DECISION_MAKER, Obj_SEND_INFORMATION, Obj_BAD_TIMING, Obj_TRUST, Obj_IMPLEMENTATION,
     Obj_INTEGRATION, Obj_INTERNAL_TEAM, Obj_CONTRACT_LOCK, Obj_UNKNOWN]"

lemma objection_of_value [simp]: "enum_of objection_value all_objection (objection_value x) = Inr x"
  by (cases x) (simp_all add: enum_of_def all_objection_def)

datatype next_step =
    NS_UNKNOWN | NS_CONTINUE_CALL | NS_SEND_INFORMATION | NS_CALLBACK | NS_DEMO | NS_HUMAN_FOLLOW_UP
    | NS_EMAIL | NS_END_CONVERSATION

fun next_step_value :: "next_step \<Rightarrow> str" where
  "next_step_value NS_UNKNOWN = ''unknown''"
| "next_step_value NS_CONTINUE_CALL = ''continue_call''"
| "next_step_value NS_SEND_INFORMATION = ''send_information''"
| "next_step_value NS_CALLBACK = ''callback''"
| "next_step_value NS_DEMO = ''demo''"
| "next_step_value NS_HUMAN_FOLLOW_UP = ''human_follow_up''"
| "next_step_value NS_EMAIL = ''email''"
| "next_step_value NS_END_CONVERSATION = ''end_conversation''"

definition all_next_step :: "next_step list" where
  "all_next_step =
     [NS_UNKNOWN, NS_CONTINUE_CALL, NS_SEND_INFORMATION, NS_CALLBACK, NS_DEMO, NS_HUMAN_FOLLOW_UP,
     NS_EMAIL, NS_END_CONVERSATION]"

lemma next_step_of_value [simp]: "enum_of next_step_value all_next_step (next_step_value x) = Inr x"
  by (cases x) (simp_all add: enum_of_def all_next_step_def)

datatype satisfaction =
    Sat_UNKNOWN | Sat_LOW | Sat_MEDIUM | Sat_HIGH

fun satisfaction_value :: "satisfaction \<Rightarrow> str" where
  "satisfaction_value Sat_UNKNOWN = ''unknown''"
| "satisfaction_value Sat_LOW = ''low''"
| "satisfaction_value Sat_MEDIUM = ''medium''"
| "satisfaction_value Sat_HIGH = ''high''"

definition all_satisfaction :: "satisfaction list" where
  "all_satisfaction =
     [Sat_UNKNOWN, Sat_LOW, Sat_MEDIUM, Sat_HIGH]"

lemma satisfaction_of_value [simp]: "enum_of satisfaction_value all_satisfaction (satisfaction_value x) = Inr x"
  by (cases x) (simp_all add: enum_of_def all_satisfaction_def)

datatype pain_category =
    Pain_TIME | Pain_COST | Pain_OPERATIONS | Pain_GROWTH | Pain_QUALITY | Pain_IMPLEMENTATION |
    Pain_INTEGRATION | Pain_OTHER | Pain_UNKNOWN

fun pain_value :: "pain_category \<Rightarrow> str" where
  "pain_value Pain_TIME = ''time''"
| "pain_value Pain_COST = ''cost''"
| "pain_value Pain_OPERATIONS = ''operations''"
| "pain_value Pain_GROWTH = ''growth''"
| "pain_value Pain_QUALITY = ''quality''"
| "pain_value Pain_IMPLEMENTATION = ''implementation''"
| "pain_value Pain_INTEGRATION = ''integration''"
| "pain_value Pain_OTHER = ''other''"
| "pain_value Pain_UNKNOWN = ''unknown''"

definition all_pain :: "pain_category list" where
  "all_pain =
     [Pain_TIME, Pain_COST, Pain_OPERATIONS, Pain_GROWTH, Pain_QUALITY, Pain_IMPLEMENTATION,
     Pain_INTEGRATION, Pain_OTHER, Pain_UNKNOWN]"

lemma pain_of_value [simp]: "enum_of pain_value all_pain (pain_value x) = Inr x"
  by (cases x) (simp_all add: enum_of_def all_pain_def)

datatype evidence_source =
    ES_EXPLICIT_STATEMENT | ES_STRUCTURED_SIGNAL | ES_INFERENCE

fun evidence_source_value :: "evidence_source \<Rightarrow> str" where
  "evidence_source_value ES_EXPLICIT_STATEMENT = ''explicit_statement''"
| "evidence_source_value ES_STRUCTURED_SIGNAL = ''structured_signal''"
| "evidence_source_value ES_INFERENCE = ''inference''"

definition all_evidence_source :: "evidence_source list" where
  "all_evidence_source =
     [ES_EXPLICIT_STATEMENT, ES_STRUCTURED_SIGNAL, ES_INFERENCE]"

lemma evidence_source_of_value [simp]: "enum_of evidence_source_value all_evidence_source (evidence_source_value x) = Inr x"
  by (cases x) (simp_all add: enum_of_def all_evidence_source_def)

section \<open>Facts and inferences\<close>

definition text_within :: "nat \<Rightarrow> str \<Rightarrow> bool" where
  "text_within limit s \<longleftrightarrow> \<not> blank s \<and> \<not> length s > limit"

definition turn_id_ok :: "str \<Rightarrow> bool" where
  "turn_id_ok s \<longleftrightarrow> s \<noteq> [] \<and> \<not> length s > 100"

definition optional_text :: "nat \<Rightarrow> str option \<Rightarrow> bool" where
  "optional_text limit x = (case x of None \<Rightarrow> True | Some s \<Rightarrow> text_within limit s)"

text \<open>
  \<^verbatim>\<open>_validate_bounded_value\<close> looks at strings only: enumeration members and booleans are
  always accepted.
\<close>

definition bounded_text :: "str \<Rightarrow> bool" where
  "bounded_text = text_within 160"

abbreviation any_value :: "'a \<Rightarrow> bool" where
  "any_value \<equiv> \<lambda>_. True"

record provenance =
  pv_source_turn_id :: str
  pv_source_kind :: evidence_source

definition mk_provenance :: "provenance \<Rightarrow> provenance res" where
  "mk_provenance p = rbind (guard (turn_id_ok (pv_source_turn_id p)) ValueError) (\<lambda>_. Inr p)"

record 'a observed =
  ov_value :: 'a
  ov_provenance :: provenance

definition mk_observed :: "('a \<Rightarrow> bool) \<Rightarrow> 'a observed \<Rightarrow> 'a observed res" where
  "mk_observed bounded v =
     rbind (guard (pv_source_kind (ov_provenance v) \<noteq> ES_INFERENCE) ValueError) (\<lambda>_.
     rbind (guard (bounded (ov_value v)) ValueError) (\<lambda>_. Inr v))"

record 'a inferred =
  iv_value :: 'a
  iv_confidence :: py_float
  iv_provenance :: provenance

definition in_unit :: "py_float \<Rightarrow> bool" where
  "in_unit c \<longleftrightarrow> py_le (Fin 0) c \<and> py_le c (Fin 1)"

definition mk_inferred :: "('a \<Rightarrow> bool) \<Rightarrow> 'a inferred \<Rightarrow> 'a inferred res" where
  "mk_inferred bounded v =
     rbind (guard (in_unit (iv_confidence v)) ValueError) (\<lambda>_.
     rbind (guard (pv_source_kind (iv_provenance v) = ES_INFERENCE) ValueError) (\<lambda>_.
     rbind (guard (bounded (iv_value v)) ValueError) (\<lambda>_. Inr v)))"

record solution_context =
  sc_name :: str
  sc_category :: "str option"
  sc_satisfaction :: satisfaction
  sc_provenance :: provenance

definition mk_solution :: "solution_context \<Rightarrow> solution_context res" where
  "mk_solution s =
     rbind (guard (text_within 100 (sc_name s)) ValueError) (\<lambda>_.
     rbind (guard (optional_text 80 (sc_category s)) ValueError) (\<lambda>_.
     rbind (guard (pv_source_kind (sc_provenance s) \<noteq> ES_INFERENCE) ValueError) (\<lambda>_. Inr s)))"

record prospect_pain =
  pp_category :: pain_category
  pp_summary :: str
  pp_provenance :: provenance

definition mk_pain :: "prospect_pain \<Rightarrow> prospect_pain res" where
  "mk_pain p =
     rbind (guard (text_within 160 (pp_summary p)) ValueError) (\<lambda>_.
     rbind (guard (pv_source_kind (pp_provenance p) \<noteq> ES_INFERENCE) ValueError) (\<lambda>_. Inr p))"

record observed_facts =
  of_role :: "prospect_role observed option"
  of_solution :: "solution_context option"
  of_pains :: "prospect_pain list"
  of_interest :: "bool observed option"
  of_busy :: "bool observed option"
  of_human :: "bool observed option"
  of_next_step :: "next_step observed option"
  of_authority :: "decision_authority observed option"
  of_timing :: "str observed option"
  of_objection :: "objection_type observed option"

definition mk_observed_facts :: "observed_facts \<Rightarrow> observed_facts res" where
  "mk_observed_facts f = rbind (guard (\<not> length (of_pains f) > 3) ValueError) (\<lambda>_. Inr f)"

record inferred_state =
  is_role :: "prospect_role inferred option"
  is_authority :: "decision_authority inferred option"
  is_influence :: "information_level inferred option"
  is_stage :: "buying_stage inferred option"
  is_openness :: "information_level inferred option"
  is_urgency :: "information_level inferred option"
  is_objection :: "objection_type inferred option"
  is_pain_summary :: "str inferred option"
  is_satisfaction :: "satisfaction inferred option"
  is_next_step :: "next_step inferred option"

record prospect_snapshot =
  ps_observed :: observed_facts
  ps_inferred :: inferred_state

definition no_facts :: observed_facts where
  "no_facts = \<lparr>of_role = None, of_solution = None, of_pains = [], of_interest = None, of_busy = None,
     of_human = None, of_next_step = None, of_authority = None, of_timing = None, of_objection = None\<rparr>"

definition no_inferences :: inferred_state where
  "no_inferences = \<lparr>is_role = None, is_authority = None, is_influence = None, is_stage = None,
     is_openness = None, is_urgency = None, is_objection = None, is_pain_summary = None,
     is_satisfaction = None, is_next_step = None\<rparr>"

definition empty_prospect :: prospect_snapshot where
  "empty_prospect = \<lparr>ps_observed = no_facts, ps_inferred = no_inferences\<rparr>"

record prospect_summary =
  psm_explicit_role :: "prospect_role observed option"
  psm_likely_role :: "prospect_role inferred option"
  psm_explicit_authority :: "decision_authority observed option"
  psm_inferred_authority :: "decision_authority inferred option"
  psm_stage :: "buying_stage inferred option"
  psm_openness :: "information_level inferred option"
  psm_urgency :: "information_level inferred option"
  psm_explicit_objection :: "objection_type observed option"
  psm_inferred_objection :: "objection_type inferred option"
  psm_solution :: "solution_context option"
  psm_pains :: "prospect_pain list"
  psm_pain_summary :: "str inferred option"
  psm_explicit_next_step :: "next_step observed option"
  psm_inferred_next_step :: "next_step inferred option"
  psm_busy :: "bool observed option"
  psm_interested :: "bool observed option"
  psm_human_requested :: "bool observed option"

definition mk_summary :: "prospect_summary \<Rightarrow> prospect_summary res" where
  "mk_summary s = rbind (mk_observed_facts (no_facts\<lparr>of_role := psm_explicit_role s,
       of_solution := psm_solution s, of_pains := psm_pains s, of_interest := psm_interested s,
       of_busy := psm_busy s, of_human := psm_human_requested s, of_next_step := psm_explicit_next_step s,
       of_authority := psm_explicit_authority s, of_objection := psm_explicit_objection s\<rparr>))
     (\<lambda>observed. Inr (s\<lparr>psm_pains := of_pains observed\<rparr>))"

definition to_brain_summary :: "prospect_snapshot \<Rightarrow> prospect_summary res" where
  "to_brain_summary p = (let obs = ps_observed p; guess = ps_inferred p in
     mk_summary \<lparr>psm_explicit_role = of_role obs, psm_likely_role = is_role guess,
       psm_explicit_authority = of_authority obs, psm_inferred_authority = is_authority guess,
       psm_stage = is_stage guess, psm_openness = is_openness guess, psm_urgency = is_urgency guess,
       psm_explicit_objection = of_objection obs, psm_inferred_objection = is_objection guess,
       psm_solution = of_solution obs, psm_pains = of_pains obs, psm_pain_summary = is_pain_summary guess,
       psm_explicit_next_step = of_next_step obs, psm_inferred_next_step = is_next_step guess,
       psm_busy = of_busy obs, psm_interested = of_interest obs, psm_human_requested = of_human obs\<rparr>)"

section \<open>The evidence of a turn\<close>

record solution_evidence =
  se_name :: str
  se_category :: "str option"
  se_satisfaction :: satisfaction

definition mk_solution_evidence :: "solution_evidence \<Rightarrow> solution_evidence res" where
  "mk_solution_evidence s =
     rbind (guard (text_within 100 (se_name s)) ValueError) (\<lambda>_.
     rbind (guard (optional_text 80 (se_category s)) ValueError) (\<lambda>_. Inr s))"

record pain_evidence =
  pe_category :: pain_category
  pe_summary :: str

definition mk_pain_evidence :: "pain_evidence \<Rightarrow> pain_evidence res" where
  "mk_pain_evidence p = rbind (guard (text_within 160 (pe_summary p)) ValueError) (\<lambda>_. Inr p)"

record 'a candidate_value =
  cv_value :: 'a
  cv_confidence :: py_float

definition mk_candidate_value :: "('a \<Rightarrow> bool) \<Rightarrow> 'a candidate_value \<Rightarrow> 'a candidate_value res" where
  "mk_candidate_value bounded c =
     rbind (guard (in_unit (cv_confidence c)) ValueError) (\<lambda>_.
     rbind (guard (bounded (cv_value c)) ValueError) (\<lambda>_. Inr c))"

record observed_evidence =
  oe_source_turn_id :: str
  oe_source_kind :: evidence_source
  oe_role :: "prospect_role option"
  oe_solution :: "solution_evidence option"
  oe_pain :: "pain_evidence option"
  oe_interest :: "bool option"
  oe_busy :: "bool option"
  oe_human :: "bool option"
  oe_next_step :: "next_step option"
  oe_authority :: "decision_authority option"
  oe_timing :: "str option"
  oe_objection :: "objection_type option"

definition mk_observed_evidence :: "observed_evidence \<Rightarrow> observed_evidence res" where
  "mk_observed_evidence e =
     rbind (guard (turn_id_ok (oe_source_turn_id e)) ValueError) (\<lambda>_.
     rbind (guard (oe_source_kind e \<noteq> ES_INFERENCE) ValueError) (\<lambda>_.
     rbind (guard (optional_text 120 (oe_timing e)) ValueError) (\<lambda>_. Inr e)))"

record inferred_evidence =
  ie_source_turn_id :: str
  ie_role :: "prospect_role candidate_value option"
  ie_authority :: "decision_authority candidate_value option"
  ie_influence :: "information_level candidate_value option"
  ie_stage :: "buying_stage candidate_value option"
  ie_openness :: "information_level candidate_value option"
  ie_urgency :: "information_level candidate_value option"
  ie_objection :: "objection_type candidate_value option"
  ie_pain_summary :: "str candidate_value option"
  ie_satisfaction :: "satisfaction candidate_value option"
  ie_next_step :: "next_step candidate_value option"

definition mk_inferred_evidence :: "inferred_evidence \<Rightarrow> inferred_evidence res" where
  "mk_inferred_evidence e = rbind (guard (turn_id_ok (ie_source_turn_id e)) ValueError) (\<lambda>_. Inr e)"

record prospect_evidence =
  pev_observed :: "observed_evidence option"
  pev_inferred :: "inferred_evidence option"

definition mk_evidence :: "prospect_evidence \<Rightarrow> prospect_evidence res" where
  "mk_evidence e =
     rbind (guard (\<not> (pev_observed e = None \<and> pev_inferred e = None)) ValueError) (\<lambda>_. Inr e)"

section \<open>The updater\<close>

definition infer :: "('a \<Rightarrow> bool) \<Rightarrow> 'a candidate_value \<Rightarrow> str \<Rightarrow> 'a inferred res" where
  "infer bounded c turn =
     rbind (mk_provenance \<lparr>pv_source_turn_id = turn, pv_source_kind = ES_INFERENCE\<rparr>) (\<lambda>p.
     mk_inferred bounded \<lparr>iv_value = cv_value c, iv_confidence = cv_confidence c, iv_provenance = p\<rparr>)"

text \<open>A field of \<^verbatim>\<open>replace(previous, **changes)\<close>: the change if there is one.\<close>

definition inferred_field ::
  "('a \<Rightarrow> bool) \<Rightarrow> str \<Rightarrow> 'a candidate_value option \<Rightarrow> 'a inferred option \<Rightarrow> 'a inferred option res" where
  "inferred_field bounded turn c old = (case c of
       None \<Rightarrow> Inr old
     | Some x \<Rightarrow> rbind (infer bounded x turn) (\<lambda>v. Inr (Some v)))"

definition merge_inferred :: "inferred_state \<Rightarrow> inferred_evidence option \<Rightarrow> inferred_state res" where
  "merge_inferred prev evidence = (case evidence of
       None \<Rightarrow> Inr prev
     | Some e \<Rightarrow> (let t = ie_source_turn_id e in
         rbind (inferred_field any_value t (ie_role e) (is_role prev)) (\<lambda>role.
         rbind (inferred_field any_value t (ie_authority e) (is_authority prev)) (\<lambda>authority.
         rbind (inferred_field any_value t (ie_influence e) (is_influence prev)) (\<lambda>influence.
         rbind (inferred_field any_value t (ie_stage e) (is_stage prev)) (\<lambda>stage.
         rbind (inferred_field any_value t (ie_openness e) (is_openness prev)) (\<lambda>openness.
         rbind (inferred_field any_value t (ie_urgency e) (is_urgency prev)) (\<lambda>urgency.
         rbind (inferred_field any_value t (ie_objection e) (is_objection prev)) (\<lambda>objection.
         rbind (inferred_field bounded_text t (ie_pain_summary e) (is_pain_summary prev)) (\<lambda>pain.
         rbind (inferred_field any_value t (ie_satisfaction e) (is_satisfaction prev)) (\<lambda>satisfaction.
         rbind (inferred_field any_value t (ie_next_step e) (is_next_step prev)) (\<lambda>next.
         Inr \<lparr>is_role = role, is_authority = authority, is_influence = influence, is_stage = stage,
           is_openness = openness, is_urgency = urgency, is_objection = objection,
           is_pain_summary = pain, is_satisfaction = satisfaction, is_next_step = next\<rparr>))))))))))))"

definition unless :: "bool \<Rightarrow> 'a option \<Rightarrow> 'a option" where
  "unless shadowed x = (if shadowed then None else x)"

definition clear_shadowed_inferences :: "observed_facts \<Rightarrow> inferred_state \<Rightarrow> inferred_state" where
  "clear_shadowed_inferences obs guess = guess\<lparr>
     is_role := unless (of_role obs \<noteq> None) (is_role guess),
     is_authority := unless (of_authority obs \<noteq> None) (is_authority guess),
     is_satisfaction := unless (\<exists>s \<in> set_option (of_solution obs). sc_satisfaction s \<noteq> Sat_UNKNOWN)
       (is_satisfaction guess),
     is_pain_summary := unless (of_pains obs \<noteq> []) (is_pain_summary guess),
     is_next_step := unless (of_next_step obs \<noteq> None) (is_next_step guess),
     is_objection := unless (of_objection obs \<noteq> None) (is_objection guess)\<rparr>"

definition observed_field ::
  "('a \<Rightarrow> bool) \<Rightarrow> provenance \<Rightarrow> 'a option \<Rightarrow> 'a observed option \<Rightarrow> 'a observed option res" where
  "observed_field bounded prov x old = (case x of
       None \<Rightarrow> Inr old
     | Some v \<Rightarrow> rbind (mk_observed bounded \<lparr>ov_value = v, ov_provenance = prov\<rparr>) (\<lambda>w. Inr (Some w)))"

definition solution_field ::
  "provenance \<Rightarrow> solution_evidence option \<Rightarrow> solution_context option \<Rightarrow> solution_context option res" where
  "solution_field prov x old = (case x of
       None \<Rightarrow> Inr old
     | Some s \<Rightarrow> rbind (mk_solution \<lparr>sc_name = se_name s, sc_category = se_category s,
         sc_satisfaction = se_satisfaction s, sc_provenance = prov\<rparr>) (\<lambda>c. Inr (Some c)))"

definition pain_field ::
  "provenance \<Rightarrow> pain_evidence option \<Rightarrow> prospect_pain list \<Rightarrow> prospect_pain list res" where
  "pain_field prov x old = (case x of
       None \<Rightarrow> Inr old
     | Some p \<Rightarrow> rbind (mk_pain \<lparr>pp_category = pe_category p, pp_summary = pe_summary p,
         pp_provenance = prov\<rparr>) (\<lambda>q. Inr (last_n 3 (old @ [q]))))"

definition merge_observed ::
  "observed_facts \<Rightarrow> inferred_state \<Rightarrow> observed_evidence option \<Rightarrow> (observed_facts \<times> inferred_state) res" where
  "merge_observed prev guess0 evidence =
     (let guess = clear_shadowed_inferences prev guess0 in case evidence of
        None \<Rightarrow> Inr (prev, guess)
      | Some e \<Rightarrow>
          rbind (mk_provenance \<lparr>pv_source_turn_id = oe_source_turn_id e, pv_source_kind = oe_source_kind e\<rparr>) (\<lambda>p.
          rbind (observed_field any_value p (oe_role e) (of_role prev)) (\<lambda>role.
          rbind (solution_field p (oe_solution e) (of_solution prev)) (\<lambda>solution.
          rbind (pain_field p (oe_pain e) (of_pains prev)) (\<lambda>pains.
          rbind (observed_field any_value p (oe_interest e) (of_interest prev)) (\<lambda>interest.
          rbind (observed_field any_value p (oe_busy e) (of_busy prev)) (\<lambda>busy.
          rbind (observed_field any_value p (oe_human e) (of_human prev)) (\<lambda>human.
          rbind (observed_field any_value p (oe_next_step e) (of_next_step prev)) (\<lambda>next.
          rbind (observed_field any_value p (oe_authority e) (of_authority prev)) (\<lambda>authority.
          rbind (observed_field bounded_text p (oe_timing e) (of_timing prev)) (\<lambda>timing.
          rbind (observed_field any_value p (oe_objection e) (of_objection prev)) (\<lambda>objection.
          rbind (mk_observed_facts \<lparr>of_role = role, of_solution = solution, of_pains = pains,
            of_interest = interest, of_busy = busy, of_human = human, of_next_step = next,
            of_authority = authority, of_timing = timing, of_objection = objection\<rparr>) (\<lambda>observed.
          Inr (observed, guess\<lparr>
            is_role := unless (oe_role e \<noteq> None) (is_role guess),
            is_satisfaction := unless (oe_solution e \<noteq> None) (is_satisfaction guess),
            is_pain_summary := unless (oe_pain e \<noteq> None) (is_pain_summary guess),
            is_next_step := unless (oe_next_step e \<noteq> None) (is_next_step guess),
            is_authority := unless (oe_authority e \<noteq> None) (is_authority guess),
            is_objection := unless (oe_objection e \<noteq> None) (is_objection guess)\<rparr>))))))))))))))"

definition prospect_update :: "prospect_snapshot \<Rightarrow> prospect_evidence \<Rightarrow> prospect_snapshot res" where
  "prospect_update prev e =
     rbind (merge_inferred (ps_inferred prev) (pev_inferred e)) (\<lambda>guess.
     rbind (merge_observed (ps_observed prev) guess (pev_observed e)) (\<lambda>(observed, inferred).
     Inr \<lparr>ps_observed = observed, ps_inferred = inferred\<rparr>))"

section \<open>What the updater guarantees\<close>

definition explicit :: "provenance \<Rightarrow> bool" where
  "explicit p \<longleftrightarrow> turn_id_ok (pv_source_turn_id p) \<and> pv_source_kind p \<noteq> ES_INFERENCE"

definition observed_ok :: "('a \<Rightarrow> bool) \<Rightarrow> 'a observed option \<Rightarrow> bool" where
  "observed_ok bounded x \<longleftrightarrow> (\<forall>v \<in> set_option x. bounded (ov_value v) \<and> explicit (ov_provenance v))"

definition inferred_ok :: "('a \<Rightarrow> bool) \<Rightarrow> 'a inferred option \<Rightarrow> bool" where
  "inferred_ok bounded x \<longleftrightarrow> (\<forall>v \<in> set_option x. bounded (iv_value v) \<and> in_unit (iv_confidence v)
     \<and> turn_id_ok (pv_source_turn_id (iv_provenance v)) \<and> pv_source_kind (iv_provenance v) = ES_INFERENCE)"

definition solution_ok :: "solution_context \<Rightarrow> bool" where
  "solution_ok s \<longleftrightarrow> text_within 100 (sc_name s) \<and> optional_text 80 (sc_category s) \<and> explicit (sc_provenance s)"

definition pain_ok :: "prospect_pain \<Rightarrow> bool" where
  "pain_ok p \<longleftrightarrow> text_within 160 (pp_summary p) \<and> explicit (pp_provenance p)"

definition facts_ok :: "observed_facts \<Rightarrow> bool" where
  "facts_ok f \<longleftrightarrow> observed_ok any_value (of_role f) \<and> (\<forall>s \<in> set_option (of_solution f). solution_ok s)
     \<and> length (of_pains f) \<le> 3 \<and> (\<forall>p \<in> set (of_pains f). pain_ok p)
     \<and> observed_ok any_value (of_interest f) \<and> observed_ok any_value (of_busy f)
     \<and> observed_ok any_value (of_human f) \<and> observed_ok any_value (of_next_step f)
     \<and> observed_ok any_value (of_authority f) \<and> observed_ok bounded_text (of_timing f)
     \<and> observed_ok any_value (of_objection f)"

definition guesses_ok :: "inferred_state \<Rightarrow> bool" where
  "guesses_ok g \<longleftrightarrow> inferred_ok any_value (is_role g) \<and> inferred_ok any_value (is_authority g)
     \<and> inferred_ok any_value (is_influence g) \<and> inferred_ok any_value (is_stage g)
     \<and> inferred_ok any_value (is_openness g) \<and> inferred_ok any_value (is_urgency g)
     \<and> inferred_ok any_value (is_objection g) \<and> inferred_ok bounded_text (is_pain_summary g)
     \<and> inferred_ok any_value (is_satisfaction g) \<and> inferred_ok any_value (is_next_step g)"

definition prospect_ok :: "prospect_snapshot \<Rightarrow> bool" where
  "prospect_ok s \<longleftrightarrow> facts_ok (ps_observed s) \<and> guesses_ok (ps_inferred s)"

text \<open>Evidence every part of which its constructor accepted.\<close>

definition candidate_ok :: "('a \<Rightarrow> bool) \<Rightarrow> 'a candidate_value option \<Rightarrow> bool" where
  "candidate_ok bounded x \<longleftrightarrow> (\<forall>c \<in> set_option x. mk_candidate_value bounded c = Inr c)"

definition observed_evidence_ok :: "observed_evidence \<Rightarrow> bool" where
  "observed_evidence_ok e \<longleftrightarrow> mk_observed_evidence e = Inr e
     \<and> (\<forall>s \<in> set_option (oe_solution e). mk_solution_evidence s = Inr s)
     \<and> (\<forall>p \<in> set_option (oe_pain e). mk_pain_evidence p = Inr p)"

definition inferred_evidence_ok :: "inferred_evidence \<Rightarrow> bool" where
  "inferred_evidence_ok e \<longleftrightarrow> mk_inferred_evidence e = Inr e
     \<and> candidate_ok any_value (ie_role e) \<and> candidate_ok any_value (ie_authority e)
     \<and> candidate_ok any_value (ie_influence e) \<and> candidate_ok any_value (ie_stage e)
     \<and> candidate_ok any_value (ie_openness e) \<and> candidate_ok any_value (ie_urgency e)
     \<and> candidate_ok any_value (ie_objection e) \<and> candidate_ok bounded_text (ie_pain_summary e)
     \<and> candidate_ok any_value (ie_satisfaction e) \<and> candidate_ok any_value (ie_next_step e)"

definition evidence_ok :: "prospect_evidence \<Rightarrow> bool" where
  "evidence_ok e \<longleftrightarrow> mk_evidence e = Inr e
     \<and> (\<forall>x \<in> set_option (pev_observed e). observed_evidence_ok x)
     \<and> (\<forall>x \<in> set_option (pev_inferred e). inferred_evidence_ok x)"

text \<open>The value of a field after a turn.\<close>

definition stated :: "provenance \<Rightarrow> 'a option \<Rightarrow> 'a observed option \<Rightarrow> 'a observed option" where
  "stated p x old = (case x of None \<Rightarrow> old | Some v \<Rightarrow> Some \<lparr>ov_value = v, ov_provenance = p\<rparr>)"

definition guessed :: "str \<Rightarrow> 'a candidate_value option \<Rightarrow> 'a inferred option \<Rightarrow> 'a inferred option" where
  "guessed turn c old = (case c of None \<Rightarrow> old | Some x \<Rightarrow> Some \<lparr>iv_value = cv_value x,
     iv_confidence = cv_confidence x,
     iv_provenance = \<lparr>pv_source_turn_id = turn, pv_source_kind = ES_INFERENCE\<rparr>\<rparr>)"

lemma inferred_field_ok:
  assumes "turn_id_ok t" and "candidate_ok bounded c"
  shows "inferred_field bounded t c old = Inr (guessed t c old)"
    and "inferred_ok bounded old \<Longrightarrow> inferred_ok bounded (guessed t c old)"
  using assms
  by (auto simp: inferred_field_def guessed_def infer_def mk_provenance_def mk_inferred_def candidate_ok_def
      mk_candidate_value_def inferred_ok_def res_simps split: option.splits)

lemma observed_field_ok:
  assumes "explicit p" and "\<forall>v \<in> set_option x. bounded v"
  shows "observed_field bounded p x old = Inr (stated p x old)"
    and "observed_ok bounded old \<Longrightarrow> observed_ok bounded (stated p x old)"
  using assms
  by (auto simp: observed_field_def stated_def mk_observed_def observed_ok_def explicit_def split: option.splits)

definition stated_solution :: "provenance \<Rightarrow> solution_evidence option \<Rightarrow> solution_context option \<Rightarrow> solution_context option" where
  "stated_solution p x old = (case x of None \<Rightarrow> old | Some c \<Rightarrow> Some \<lparr>sc_name = se_name c,
     sc_category = se_category c, sc_satisfaction = se_satisfaction c, sc_provenance = p\<rparr>)"

definition stated_pains :: "provenance \<Rightarrow> pain_evidence option \<Rightarrow> prospect_pain list \<Rightarrow> prospect_pain list" where
  "stated_pains p x old = (case x of None \<Rightarrow> old | Some c \<Rightarrow> last_n 3 (old @ [\<lparr>pp_category = pe_category c,
     pp_summary = pe_summary c, pp_provenance = p\<rparr>]))"

lemma solution_field_ok:
  assumes "explicit p" and "\<forall>s \<in> set_option x. mk_solution_evidence s = Inr s"
  shows "solution_field p x old = Inr (stated_solution p x old)"
    and "(\<forall>c \<in> set_option old. solution_ok c) \<Longrightarrow> (\<forall>c \<in> set_option (stated_solution p x old). solution_ok c)"
  using assms
  by (cases x; auto simp: solution_field_def mk_solution_def mk_solution_evidence_def solution_ok_def explicit_def
      stated_solution_def res_simps)+

lemma pain_field_ok:
  assumes "explicit p" and "\<forall>s \<in> set_option x. mk_pain_evidence s = Inr s"
  shows "pain_field p x old = Inr (stated_pains p x old)"
    and "length old \<le> 3 \<Longrightarrow> length (stated_pains p x old) \<le> 3"
    and "\<forall>c \<in> set old. pain_ok c \<Longrightarrow> \<forall>c \<in> set (stated_pains p x old). pain_ok c"
proof -
  have q: "text_within 160 (pe_summary c) \<and> pain_ok \<lparr>pp_category = pe_category c, pp_summary = pe_summary c, pp_provenance = p\<rparr>"
    if "x = Some c" for c
    using assms that by (auto simp: mk_pain_evidence_def pain_ok_def res_simps)
  show "pain_field p x old = Inr (stated_pains p x old)"
    using q assms(1) by (auto simp: pain_field_def mk_pain_def stated_pains_def explicit_def split: option.split)
  show "length old \<le> 3 \<Longrightarrow> length (stated_pains p x old) \<le> 3"
    by (simp add: stated_pains_def split: option.split)
  show "\<forall>c \<in> set old. pain_ok c \<Longrightarrow> \<forall>c \<in> set (stated_pains p x old). pain_ok c"
    using q set_last_n by (fastforce simp: stated_pains_def split: option.splits)
qed

lemma merge_inferred_ok:
  assumes "inferred_evidence_ok e"
  defines "t \<equiv> ie_source_turn_id e"
  defines "g' \<equiv> \<lambda>g. \<lparr>is_role = guessed t (ie_role e) (is_role g),
     is_authority = guessed t (ie_authority e) (is_authority g),
     is_influence = guessed t (ie_influence e) (is_influence g), is_stage = guessed t (ie_stage e) (is_stage g),
     is_openness = guessed t (ie_openness e) (is_openness g), is_urgency = guessed t (ie_urgency e) (is_urgency g),
     is_objection = guessed t (ie_objection e) (is_objection g),
     is_pain_summary = guessed t (ie_pain_summary e) (is_pain_summary g),
     is_satisfaction = guessed t (ie_satisfaction e) (is_satisfaction g),
     is_next_step = guessed t (ie_next_step e) (is_next_step g)\<rparr>"
  shows "merge_inferred g (Some e) = Inr (g' g)" and "guesses_ok g \<Longrightarrow> guesses_ok (g' g)"
proof -
  have t: "turn_id_ok t" using assms(1) by (simp add: t_def inferred_evidence_ok_def mk_inferred_evidence_def res_simps)
  have c: "candidate_ok any_value (ie_role e)" "candidate_ok any_value (ie_authority e)"
    "candidate_ok any_value (ie_influence e)" "candidate_ok any_value (ie_stage e)"
    "candidate_ok any_value (ie_openness e)" "candidate_ok any_value (ie_urgency e)"
    "candidate_ok any_value (ie_objection e)" "candidate_ok bounded_text (ie_pain_summary e)"
    "candidate_ok any_value (ie_satisfaction e)" "candidate_ok any_value (ie_next_step e)"
    using assms(1) by (simp_all add: inferred_evidence_ok_def)
  show "merge_inferred g (Some e) = Inr (g' g)"
    by (simp add: merge_inferred_def t_def [symmetric] c inferred_field_ok(1) [OF t] g'_def)
  show "guesses_ok g \<Longrightarrow> guesses_ok (g' g)"
    by (simp add: guesses_ok_def g'_def c inferred_field_ok(2) [OF t])
qed

lemma unless_ok: "inferred_ok bounded x \<Longrightarrow> inferred_ok bounded (unless b x)"
  by (simp add: unless_def inferred_ok_def)

lemma clear_shadowed_ok: "guesses_ok g \<Longrightarrow> guesses_ok (clear_shadowed_inferences f g)"
  by (simp add: guesses_ok_def clear_shadowed_inferences_def unless_ok)

lemma unless_unless [simp]: "unless a (unless b x) = unless (a \<or> b) x"
  by (simp add: unless_def)

lemma merge_observed_ok:
  assumes "observed_evidence_ok e"
  defines "p \<equiv> \<lparr>pv_source_turn_id = oe_source_turn_id e, pv_source_kind = oe_source_kind e\<rparr>"
  defines "f' \<equiv> \<lambda>f. \<lparr>of_role = stated p (oe_role e) (of_role f),
     of_solution = stated_solution p (oe_solution e) (of_solution f),
     of_pains = stated_pains p (oe_pain e) (of_pains f),
     of_interest = stated p (oe_interest e) (of_interest f), of_busy = stated p (oe_busy e) (of_busy f),
     of_human = stated p (oe_human e) (of_human f), of_next_step = stated p (oe_next_step e) (of_next_step f),
     of_authority = stated p (oe_authority e) (of_authority f), of_timing = stated p (oe_timing e) (of_timing f),
     of_objection = stated p (oe_objection e) (of_objection f)\<rparr>"
  assumes old: "facts_ok f"
  shows "merge_observed f g (Some e) = Inr (f' f, (clear_shadowed_inferences f g)\<lparr>
      is_role := unless (oe_role e \<noteq> None \<or> of_role f \<noteq> None) (is_role g),
      is_satisfaction := unless (oe_solution e \<noteq> None
        \<or> (\<exists>s \<in> set_option (of_solution f). sc_satisfaction s \<noteq> Sat_UNKNOWN)) (is_satisfaction g),
      is_pain_summary := unless (oe_pain e \<noteq> None \<or> of_pains f \<noteq> []) (is_pain_summary g),
      is_next_step := unless (oe_next_step e \<noteq> None \<or> of_next_step f \<noteq> None) (is_next_step g),
      is_authority := unless (oe_authority e \<noteq> None \<or> of_authority f \<noteq> None) (is_authority g),
      is_objection := unless (oe_objection e \<noteq> None \<or> of_objection f \<noteq> None) (is_objection g)\<rparr>)"
    and "facts_ok (f' f)"
proof -
  have e: "turn_id_ok (oe_source_turn_id e)" "explicit p" "\<forall>s \<in> set_option (oe_solution e). mk_solution_evidence s = Inr s"
    "\<forall>s \<in> set_option (oe_pain e). mk_pain_evidence s = Inr s" "\<forall>v \<in> set_option (oe_timing e). bounded_text v"
    using assms(1) by (auto simp: observed_evidence_ok_def mk_observed_evidence_def p_def explicit_def
        optional_text_def bounded_text_def text_within_def res_simps)
  have len: "\<not> 3 < length (stated_pains p (oe_pain e) (of_pains f))"
    using pain_field_ok(2) [OF e(2,4), of "of_pains f"] old by (simp add: facts_ok_def)
  have prov: "mk_provenance \<lparr>pv_source_turn_id = oe_source_turn_id e, pv_source_kind = oe_source_kind e\<rparr> = Inr p"
    using e(1) by (simp add: mk_provenance_def p_def)
  have facts: "mk_observed_facts (f' f) = Inr (f' f)" using len by (simp add: mk_observed_facts_def f'_def)
  have "\<forall>c \<in> set_option (stated_solution p (oe_solution e) (of_solution f)). solution_ok c"
    using old by (intro solution_field_ok(2) [OF e(2,3)]) (simp add: facts_ok_def)
  moreover have "\<forall>c \<in> set (stated_pains p (oe_pain e) (of_pains f)). pain_ok c"
    using old by (intro pain_field_ok(3) [OF e(2,4)]) (simp add: facts_ok_def)
  ultimately show "facts_ok (f' f)"
    using old len e(5) unfolding facts_ok_def f'_def
    by (intro conjI) (simp_all add: observed_field_ok(2) [OF e(2)])
  show "merge_observed f g (Some e) = Inr (f' f, (clear_shadowed_inferences f g)\<lparr>
      is_role := unless (oe_role e \<noteq> None \<or> of_role f \<noteq> None) (is_role g),
      is_satisfaction := unless (oe_solution e \<noteq> None
        \<or> (\<exists>s \<in> set_option (of_solution f). sc_satisfaction s \<noteq> Sat_UNKNOWN)) (is_satisfaction g),
      is_pain_summary := unless (oe_pain e \<noteq> None \<or> of_pains f \<noteq> []) (is_pain_summary g),
      is_next_step := unless (oe_next_step e \<noteq> None \<or> of_next_step f \<noteq> None) (is_next_step g),
      is_authority := unless (oe_authority e \<noteq> None \<or> of_authority f \<noteq> None) (is_authority g),
      is_objection := unless (oe_objection e \<noteq> None \<or> of_objection f \<noteq> None) (is_objection g)\<rparr>)"
    using facts unfolding f'_def
    by (simp add: merge_observed_def Let_def prov observed_field_ok(1) [OF e(2)] e(5)
        solution_field_ok(1) [OF e(2,3)] pain_field_ok(1) [OF e(2,4)] clear_shadowed_inferences_def)
qed

text \<open>No guess stands beside the fact it guesses at.\<close>

definition shadow_free :: "prospect_snapshot \<Rightarrow> bool" where
  "shadow_free s \<longleftrightarrow> (let f = ps_observed s; g = ps_inferred s in
       (of_role f \<noteq> None \<longrightarrow> is_role g = None) \<and> (of_authority f \<noteq> None \<longrightarrow> is_authority g = None)
     \<and> (of_next_step f \<noteq> None \<longrightarrow> is_next_step g = None) \<and> (of_objection f \<noteq> None \<longrightarrow> is_objection g = None)
     \<and> (of_pains f \<noteq> [] \<longrightarrow> is_pain_summary g = None)
     \<and> ((\<exists>c \<in> set_option (of_solution f). sc_satisfaction c \<noteq> Sat_UNKNOWN) \<longrightarrow> is_satisfaction g = None))"

definition facts_after :: "observed_facts \<Rightarrow> observed_evidence option \<Rightarrow> observed_facts" where
  "facts_after f evidence = (case evidence of None \<Rightarrow> f | Some e \<Rightarrow>
     (let p = \<lparr>pv_source_turn_id = oe_source_turn_id e, pv_source_kind = oe_source_kind e\<rparr> in
      \<lparr>of_role = stated p (oe_role e) (of_role f), of_solution = stated_solution p (oe_solution e) (of_solution f),
       of_pains = stated_pains p (oe_pain e) (of_pains f),
       of_interest = stated p (oe_interest e) (of_interest f), of_busy = stated p (oe_busy e) (of_busy f),
       of_human = stated p (oe_human e) (of_human f), of_next_step = stated p (oe_next_step e) (of_next_step f),
       of_authority = stated p (oe_authority e) (of_authority f), of_timing = stated p (oe_timing e) (of_timing f),
       of_objection = stated p (oe_objection e) (of_objection f)\<rparr>))"

definition newest :: "(inferred_evidence \<Rightarrow> 'a candidate_value option) \<Rightarrow> inferred_evidence option
    \<Rightarrow> 'a inferred option \<Rightarrow> 'a inferred option" where
  "newest part evidence old = (case evidence of None \<Rightarrow> old
     | Some e \<Rightarrow> guessed (ie_source_turn_id e) (part e) old)"

text \<open>A guess is this turn's, or the one before, unless the fact is stated (observed fields shadow).\<close>

definition guesses_follow :: "observed_facts \<Rightarrow> inferred_state \<Rightarrow> inferred_evidence option \<Rightarrow> inferred_state \<Rightarrow> bool" where
  "guesses_follow f h ie g \<longleftrightarrow>
         is_role g = unless (of_role f \<noteq> None) (newest ie_role ie (is_role h))
       \<and> is_authority g = unless (of_authority f \<noteq> None) (newest ie_authority ie (is_authority h))
       \<and> is_next_step g = unless (of_next_step f \<noteq> None) (newest ie_next_step ie (is_next_step h))
       \<and> is_objection g = unless (of_objection f \<noteq> None) (newest ie_objection ie (is_objection h))
       \<and> is_pain_summary g = unless (of_pains f \<noteq> []) (newest ie_pain_summary ie (is_pain_summary h))
       \<and> is_influence g = newest ie_influence ie (is_influence h) \<and> is_stage g = newest ie_stage ie (is_stage h)
       \<and> is_openness g = newest ie_openness ie (is_openness h) \<and> is_urgency g = newest ie_urgency ie (is_urgency h)"

lemma stated_None [simp]: "stated p x old = None \<longleftrightarrow> x = None \<and> old = None"
  by (simp add: stated_def split: option.split)

lemma stated_solution_None [simp]: "stated_solution p x old = None \<longleftrightarrow> x = None \<and> old = None"
  by (simp add: stated_solution_def split: option.split)

lemma stated_pains_Nil [simp]: "stated_pains p x old = [] \<longleftrightarrow> x = None \<and> old = []"
  by (simp add: stated_pains_def last_n_def split: option.split)

lemma prospect_update_spec:
  assumes "prospect_ok prev" and "evidence_ok e"
  obtains s where "prospect_update prev e = Inr s" and "prospect_ok s" and "shadow_free s"
    and "ps_observed s = facts_after (ps_observed prev) (pev_observed e)"
    and "guesses_follow (ps_observed s) (ps_inferred prev) (pev_inferred e) (ps_inferred s)"
proof -
  have prev: "facts_ok (ps_observed prev)" "guesses_ok (ps_inferred prev)"
    using assms(1) by (simp_all add: prospect_ok_def)
  obtain g1 where g1: "merge_inferred (ps_inferred prev) (pev_inferred e) = Inr g1" "guesses_ok g1"
    "is_role g1 = newest ie_role (pev_inferred e) (is_role (ps_inferred prev))"
    "is_authority g1 = newest ie_authority (pev_inferred e) (is_authority (ps_inferred prev))"
    "is_next_step g1 = newest ie_next_step (pev_inferred e) (is_next_step (ps_inferred prev))"
    "is_objection g1 = newest ie_objection (pev_inferred e) (is_objection (ps_inferred prev))"
    "is_pain_summary g1 = newest ie_pain_summary (pev_inferred e) (is_pain_summary (ps_inferred prev))"
    "is_influence g1 = newest ie_influence (pev_inferred e) (is_influence (ps_inferred prev))"
    "is_stage g1 = newest ie_stage (pev_inferred e) (is_stage (ps_inferred prev))"
    "is_openness g1 = newest ie_openness (pev_inferred e) (is_openness (ps_inferred prev))"
    "is_urgency g1 = newest ie_urgency (pev_inferred e) (is_urgency (ps_inferred prev))"
  proof (cases "pev_inferred e")
    case None
    then show thesis using prev(2) by (intro that [of "ps_inferred prev"]) (simp_all add: merge_inferred_def newest_def)
  next
    case (Some ie)
    then have "inferred_evidence_ok ie" using assms(2) by (simp add: evidence_ok_def)
    from merge_inferred_ok [OF this, of "ps_inferred prev"] Some prev(2) show thesis
      by (intro that) (auto simp: newest_def)
  qed
  let ?f = "facts_after (ps_observed prev) (pev_observed e)"
  obtain g2 where g2: "merge_observed (ps_observed prev) g1 (pev_observed e) = Inr (?f, g2)" "facts_ok ?f" "guesses_ok g2"
    "is_role g2 = unless (of_role ?f \<noteq> None) (is_role g1)"
    "is_authority g2 = unless (of_authority ?f \<noteq> None) (is_authority g1)"
    "is_next_step g2 = unless (of_next_step ?f \<noteq> None) (is_next_step g1)"
    "is_objection g2 = unless (of_objection ?f \<noteq> None) (is_objection g1)"
    "is_pain_summary g2 = unless (of_pains ?f \<noteq> []) (is_pain_summary g1)"
    "is_influence g2 = is_influence g1" "is_stage g2 = is_stage g1" "is_openness g2 = is_openness g1"
    "is_urgency g2 = is_urgency g1"
    "(\<exists>c \<in> set_option (of_solution ?f). sc_satisfaction c \<noteq> Sat_UNKNOWN) \<Longrightarrow> is_satisfaction g2 = None"
  proof (cases "pev_observed e")
    case None
    then show thesis using prev(1) clear_shadowed_ok [OF g1(2)]
      by (intro that [of "clear_shadowed_inferences (ps_observed prev) g1"])
        (simp_all add: merge_observed_def facts_after_def clear_shadowed_inferences_def unless_def)
  next
    case (Some oe)
    then have oe: "observed_evidence_ok oe" using assms(2) by (simp add: evidence_ok_def)
    have sat: "oe_solution oe \<noteq> None \<or> (\<exists>c \<in> set_option (of_solution (ps_observed prev)). sc_satisfaction c \<noteq> Sat_UNKNOWN)"
      if "\<exists>c \<in> set_option (stated_solution p (oe_solution oe) (of_solution (ps_observed prev))). sc_satisfaction c \<noteq> Sat_UNKNOWN" for p
      using that by (auto simp: stated_solution_def split: option.splits)
    note m = merge_observed_ok [OF oe prev(1)]
    let ?p = "\<lparr>pv_source_turn_id = oe_source_turn_id oe, pv_source_kind = oe_source_kind oe\<rparr>"
    show thesis
      by (rule that [unfolded facts_after_def Some option.case Let_def], rule m(1), rule m(2))
        (use g1(2) sat [of ?p] in \<open>simp_all add: clear_shadowed_inferences_def guesses_ok_def unless_ok disj_commute\<close>,
          use sat [of ?p] in \<open>auto simp: unless_def\<close>)
  qed
  let ?s = "\<lparr>ps_observed = ?f, ps_inferred = g2\<rparr>"
  have "prospect_update prev e = Inr ?s" by (simp add: prospect_update_def g1(1) g2(1))
  moreover have "prospect_ok ?s" using g2(2,3) by (simp add: prospect_ok_def)
  moreover have "shadow_free ?s" using g2(4-8,13) by (simp add: shadow_free_def Let_def unless_def)
  ultimately show thesis
    by (rule that) (simp, use g1(3-11) g2(4-12) in \<open>simp add: guesses_follow_def\<close>)
qed

lemma empty_prospect_ok: "prospect_ok empty_prospect"
  by (simp add: prospect_ok_def facts_ok_def guesses_ok_def observed_ok_def inferred_ok_def empty_prospect_def
      no_facts_def no_inferences_def)

lemma prospect_history_ok:
  "\<lbrakk>prospect_ok s; \<forall>e \<in> set es. evidence_ok e\<rbrakk> \<Longrightarrow> \<exists>s'. rfold prospect_update s es = Inr s' \<and> prospect_ok s'"
proof (induction es arbitrary: s)
  case Nil
  then show ?case by simp
next
  case (Cons e es)
  have "evidence_ok e" using Cons.prems(2) by simp
  with Cons.prems(1) obtain s1 where "prospect_update s e = Inr s1" "prospect_ok s1"
    by (rule prospect_update_spec)
  with Cons show ?case by simp
qed

text \<open>
  C26. What the prospect said wins over what was guessed, along any history. Updating never
  raises on well-formed evidence, however much came before. Every fact becomes what this turn
  stated, with this turn's provenance, or stays as it was stated before; only the last three
  pain points are kept. A guess becomes this turn's guess, or stays, except where the
  prospect has stated the fact: there is none then. All values, confidences and provenances
  satisfy the checks of their constructors.
\<close>

theorem explicit_evidence_wins:
  assumes "\<forall>x \<in> set history. evidence_ok x" and "evidence_ok e"
  shows "\<exists>prev s. rfold prospect_update empty_prospect history = Inr prev \<and> prospect_update prev e = Inr s
    \<and> prospect_ok s \<and> shadow_free s
    \<and> ps_observed s = facts_after (ps_observed prev) (pev_observed e)
    \<and> guesses_follow (ps_observed s) (ps_inferred prev) (pev_inferred e) (ps_inferred s)"
proof -
  from prospect_history_ok [OF empty_prospect_ok assms(1)] obtain prev where
    prev: "rfold prospect_update empty_prospect history = Inr prev" "prospect_ok prev" by blast
  from prev(2) assms(2) show ?thesis
    by (rule prospect_update_spec) (use prev(1) in blast)
qed

definition no_observed_evidence :: observed_evidence where
  "no_observed_evidence = \<lparr>oe_source_turn_id = ''t1'', oe_source_kind = ES_EXPLICIT_STATEMENT, oe_role = None,
     oe_solution = None, oe_pain = None, oe_interest = None, oe_busy = None, oe_human = None,
     oe_next_step = None, oe_authority = None, oe_timing = None, oe_objection = None\<rparr>"

definition no_inferred_evidence :: inferred_evidence where
  "no_inferred_evidence = \<lparr>ie_source_turn_id = ''t1'', ie_role = None, ie_authority = None, ie_influence = None,
     ie_stage = None, ie_openness = None, ie_urgency = None, ie_objection = None, ie_pain_summary = None,
     ie_satisfaction = None, ie_next_step = None\<rparr>"

definition guess_evidence :: prospect_evidence where
  "guess_evidence = \<lparr>pev_observed = None, pev_inferred = Some (no_inferred_evidence\<lparr>
     ie_role := Some \<lparr>cv_value = PRole_OWNER, cv_confidence = Fin (7/10)\<rparr>\<rparr>)\<rparr>"

definition role_evidence :: prospect_evidence where
  "role_evidence = \<lparr>pev_observed = Some (no_observed_evidence\<lparr>oe_source_turn_id := ''t2'',
       oe_role := Some PRole_RECEPTIONIST\<rparr>),
     pev_inferred = Some (no_inferred_evidence\<lparr>ie_source_turn_id := ''t2'',
       ie_role := Some \<lparr>cv_value = PRole_OWNER, cv_confidence = Fin 1\<rparr>\<rparr>)\<rparr>"

lemma explicit_evidence_wins_witness:
  "\<exists>prev s. rfold prospect_update empty_prospect [guess_evidence] = Inr prev
     \<and> prospect_update prev role_evidence = Inr s
     \<and> is_role (ps_inferred s) = None
     \<and> of_role (ps_observed s) = Some \<lparr>ov_value = PRole_RECEPTIONIST,
         ov_provenance = \<lparr>pv_source_turn_id = ''t2'', pv_source_kind = ES_EXPLICIT_STATEMENT\<rparr>\<rparr>"
proof -
  have ok: "evidence_ok guess_evidence" "evidence_ok role_evidence"
    by (simp_all add: evidence_ok_def guess_evidence_def role_evidence_def mk_evidence_def observed_evidence_ok_def
        inferred_evidence_ok_def no_observed_evidence_def no_inferred_evidence_def mk_observed_evidence_def
        mk_inferred_evidence_def turn_id_ok_def optional_text_def candidate_ok_def mk_candidate_value_def in_unit_def)
  have "\<forall>x \<in> set [guess_evidence]. evidence_ok x" using ok(1) by simp
  from explicit_evidence_wins [OF this ok(2)] show ?thesis
    by (auto simp: Let_def facts_after_def role_evidence_def no_observed_evidence_def stated_def unless_def
        guesses_follow_def)
qed

end
