(* ===== verification/Business.thy ===== *)
theory Business
  imports Prospect
begin

text \<open>
  What is known about the prospect's business: \<^verbatim>\<open>conversation/business_conversation\<close> (facts,
  problems, goals and hypotheses of the current conversation), \<^verbatim>\<open>conversation/qualification\<close>
  (the fields a campaign asks for) and \<^verbatim>\<open>conversation/business_diagnostic\<close> (the projection
  of both into findings and a focus).
\<close>

section \<open>Vocabulary\<close>

datatype fact_kind =
    FK_INDUSTRY | FK_BUSINESS_TYPE | FK_BRANCHES | FK_EMPLOYEES | FK_CURRENT_WORKFLOW |
    FK_MANUAL_STEP | FK_SOFTWARE | FK_INTEGRATION | FK_REPORTING | FK_COMMUNICATION | FK_WEBSITE |
    FK_CRM

fun fact_kind_value :: "fact_kind \<Rightarrow> str" where
  "fact_kind_value FK_INDUSTRY = ''industry''"
| "fact_kind_value FK_BUSINESS_TYPE = ''business_type''"
| "fact_kind_value FK_BRANCHES = ''branches''"
| "fact_kind_value FK_EMPLOYEES = ''employees''"
| "fact_kind_value FK_CURRENT_WORKFLOW = ''current_workflow''"
| "fact_kind_value FK_MANUAL_STEP = ''manual_step''"
| "fact_kind_value FK_SOFTWARE = ''software''"
| "fact_kind_value FK_INTEGRATION = ''integration''"
| "fact_kind_value FK_REPORTING = ''reporting''"
| "fact_kind_value FK_COMMUNICATION = ''communication''"
| "fact_kind_value FK_WEBSITE = ''website''"
| "fact_kind_value FK_CRM = ''crm''"

definition all_fact_kind :: "fact_kind list" where
  "all_fact_kind =
     [FK_INDUSTRY, FK_BUSINESS_TYPE, FK_BRANCHES, FK_EMPLOYEES, FK_CURRENT_WORKFLOW, FK_MANUAL_STEP,
     FK_SOFTWARE, FK_INTEGRATION, FK_REPORTING, FK_COMMUNICATION, FK_WEBSITE, FK_CRM]"

lemma fact_kind_of_value [simp]: "enum_of fact_kind_value all_fact_kind (fact_kind_value x) = Inr x"
  by (cases x) (simp_all add: enum_of_def all_fact_kind_def)

datatype problem_kind =
    PK_OPERATIONAL | PK_TECHNICAL | PK_MARKETING | PK_SALES | PK_FINANCIAL | PK_CUSTOMER_EXPERIENCE
    | PK_TIME | PK_QUALITY | PK_ERRORS | PK_FOLLOW_UPS

fun problem_kind_value :: "problem_kind \<Rightarrow> str" where
  "problem_kind_value PK_OPERATIONAL = ''operational''"
| "problem_kind_value PK_TECHNICAL = ''technical''"
| "problem_kind_value PK_MARKETING = ''marketing''"
| "problem_kind_value PK_SALES = ''sales''"
| "problem_kind_value PK_FINANCIAL = ''financial''"
| "problem_kind_value PK_CUSTOMER_EXPERIENCE = ''customer_experience''"
| "problem_kind_value PK_TIME = ''time''"
| "problem_kind_value PK_QUALITY = ''quality''"
| "problem_kind_value PK_ERRORS = ''errors''"
| "problem_kind_value PK_FOLLOW_UPS = ''follow_ups''"

definition all_problem_kind :: "problem_kind list" where
  "all_problem_kind =
     [PK_OPERATIONAL, PK_TECHNICAL, PK_MARKETING, PK_SALES, PK_FINANCIAL, PK_CUSTOMER_EXPERIENCE,
     PK_TIME, PK_QUALITY, PK_ERRORS, PK_FOLLOW_UPS]"

lemma problem_kind_of_value [simp]: "enum_of problem_kind_value all_problem_kind (problem_kind_value x) = Inr x"
  by (cases x) (simp_all add: enum_of_def all_problem_kind_def)

datatype goal_kind =
    GK_INCREASE_SALES | GK_REDUCE_TIME | GK_REDUCE_COST | GK_GROW_BUSINESS | GK_SCALE_OPERATIONS |
    GK_IMPROVE_CUSTOMER_EXPERIENCE | GK_GENERATE_LEADS | GK_VISIBILITY | GK_EFFICIENCY

fun goal_value :: "goal_kind \<Rightarrow> str" where
  "goal_value GK_INCREASE_SALES = ''increase_sales''"
| "goal_value GK_REDUCE_TIME = ''reduce_time''"
| "goal_value GK_REDUCE_COST = ''reduce_cost''"
| "goal_value GK_GROW_BUSINESS = ''grow_business''"
| "goal_value GK_SCALE_OPERATIONS = ''scale_operations''"
| "goal_value GK_IMPROVE_CUSTOMER_EXPERIENCE = ''improve_customer_experience''"
| "goal_value GK_GENERATE_LEADS = ''generate_leads''"
| "goal_value GK_VISIBILITY = ''visibility''"
| "goal_value GK_EFFICIENCY = ''efficiency''"

definition all_goal :: "goal_kind list" where
  "all_goal =
     [GK_INCREASE_SALES, GK_REDUCE_TIME, GK_REDUCE_COST, GK_GROW_BUSINESS, GK_SCALE_OPERATIONS,
     GK_IMPROVE_CUSTOMER_EXPERIENCE, GK_GENERATE_LEADS, GK_VISIBILITY, GK_EFFICIENCY]"

lemma goal_of_value [simp]: "enum_of goal_value all_goal (goal_value x) = Inr x"
  by (cases x) (simp_all add: enum_of_def all_goal_def)

datatype constraint_kind =
    CK_BUDGET | CK_TIME | CK_RESOURCES | CK_STAFF | CK_TECHNOLOGY | CK_APPROVAL | CK_CURRENT_VENDOR
    | CK_RISK

fun constraint_value :: "constraint_kind \<Rightarrow> str" where
  "constraint_value CK_BUDGET = ''budget''"
| "constraint_value CK_TIME = ''time''"
| "constraint_value CK_RESOURCES = ''resources''"
| "constraint_value CK_STAFF = ''staff''"
| "constraint_value CK_TECHNOLOGY = ''technology''"
| "constraint_value CK_APPROVAL = ''approval''"
| "constraint_value CK_CURRENT_VENDOR = ''current_vendor''"
| "constraint_value CK_RISK = ''risk''"

definition all_constraint :: "constraint_kind list" where
  "all_constraint =
     [CK_BUDGET, CK_TIME, CK_RESOURCES, CK_STAFF, CK_TECHNOLOGY, CK_APPROVAL, CK_CURRENT_VENDOR,
     CK_RISK]"

lemma constraint_of_value [simp]: "enum_of constraint_value all_constraint (constraint_value x) = Inr x"
  by (cases x) (simp_all add: enum_of_def all_constraint_def)

datatype unknown_area =
    UA_ORDER_VOLUME | UA_CURRENT_SOFTWARE | UA_REPORTING_PROCESS | UA_DECISION_MAKER | UA_INVENTORY
    | UA_BILLING | UA_CRM | UA_INTEGRATIONS

fun unknown_value :: "unknown_area \<Rightarrow> str" where
  "unknown_value UA_ORDER_VOLUME = ''order_volume''"
| "unknown_value UA_CURRENT_SOFTWARE = ''current_software''"
| "unknown_value UA_REPORTING_PROCESS = ''reporting_process''"
| "unknown_value UA_DECISION_MAKER = ''decision_maker''"
| "unknown_value UA_INVENTORY = ''inventory''"
| "unknown_value UA_BILLING = ''billing''"
| "unknown_value UA_CRM = ''crm''"
| "unknown_value UA_INTEGRATIONS = ''integrations''"

definition all_unknown :: "unknown_area list" where
  "all_unknown =
     [UA_ORDER_VOLUME, UA_CURRENT_SOFTWARE, UA_REPORTING_PROCESS, UA_DECISION_MAKER, UA_INVENTORY,
     UA_BILLING, UA_CRM, UA_INTEGRATIONS]"

lemma unknown_of_value [simp]: "enum_of unknown_value all_unknown (unknown_value x) = Inr x"
  by (cases x) (simp_all add: enum_of_def all_unknown_def)

datatype conversation_topic =
    CT_OPERATIONS | CT_WEBSITE | CT_CRM | CT_SALES | CT_MARKETING | CT_REPORTING

fun topic_value :: "conversation_topic \<Rightarrow> str" where
  "topic_value CT_OPERATIONS = ''operations''"
| "topic_value CT_WEBSITE = ''website''"
| "topic_value CT_CRM = ''crm''"
| "topic_value CT_SALES = ''sales''"
| "topic_value CT_MARKETING = ''marketing''"
| "topic_value CT_REPORTING = ''reporting''"

definition all_topic :: "conversation_topic list" where
  "all_topic =
     [CT_OPERATIONS, CT_WEBSITE, CT_CRM, CT_SALES, CT_MARKETING, CT_REPORTING]"

lemma topic_of_value [simp]: "enum_of topic_value all_topic (topic_value x) = Inr x"
  by (cases x) (simp_all add: enum_of_def all_topic_def)

datatype root_cause =
    RC_NO_CENTRAL_SYSTEM | RC_MANUAL_DEPENDENCY | RC_PROCESS_GAP | RC_ADOPTION_GAP |
    RC_REPORTING_GAP | RC_AUTOMATION_GAP

fun root_cause_value :: "root_cause \<Rightarrow> str" where
  "root_cause_value RC_NO_CENTRAL_SYSTEM = ''no_central_system''"
| "root_cause_value RC_MANUAL_DEPENDENCY = ''manual_dependency''"
| "root_cause_value RC_PROCESS_GAP = ''process_gap''"
| "root_cause_value RC_ADOPTION_GAP = ''adoption_gap''"
| "root_cause_value RC_REPORTING_GAP = ''reporting_gap''"
| "root_cause_value RC_AUTOMATION_GAP = ''automation_gap''"

definition all_root_cause :: "root_cause list" where
  "all_root_cause =
     [RC_NO_CENTRAL_SYSTEM, RC_MANUAL_DEPENDENCY, RC_PROCESS_GAP, RC_ADOPTION_GAP, RC_REPORTING_GAP,
     RC_AUTOMATION_GAP]"

lemma root_cause_of_value [simp]: "enum_of root_cause_value all_root_cause (root_cause_value x) = Inr x"
  by (cases x) (simp_all add: enum_of_def all_root_cause_def)

datatype qualification_evidence_kind =
    QE_OBSERVED | QE_INFERRED

fun qualification_evidence_value :: "qualification_evidence_kind \<Rightarrow> str" where
  "qualification_evidence_value QE_OBSERVED = ''observed''"
| "qualification_evidence_value QE_INFERRED = ''inferred''"

definition all_qualification_evidence :: "qualification_evidence_kind list" where
  "all_qualification_evidence =
     [QE_OBSERVED, QE_INFERRED]"

lemma qualification_evidence_of_value [simp]: "enum_of qualification_evidence_value all_qualification_evidence (qualification_evidence_value x) = Inr x"
  by (cases x) (simp_all add: enum_of_def all_qualification_evidence_def)

datatype qualification_state =
    QS_OBSERVED | QS_INFERRED | QS_UNKNOWN

fun qualification_state_value :: "qualification_state \<Rightarrow> str" where
  "qualification_state_value QS_OBSERVED = ''observed''"
| "qualification_state_value QS_INFERRED = ''inferred''"
| "qualification_state_value QS_UNKNOWN = ''unknown''"

definition all_qualification_state :: "qualification_state list" where
  "all_qualification_state =
     [QS_OBSERVED, QS_INFERRED, QS_UNKNOWN]"

lemma qualification_state_of_value [simp]: "enum_of qualification_state_value all_qualification_state (qualification_state_value x) = Inr x"
  by (cases x) (simp_all add: enum_of_def all_qualification_state_def)

datatype completeness =
    QC_VERY_EARLY | QC_PARTIAL | QC_MOSTLY_KNOWN | QC_SUFFICIENT

fun completeness_value :: "completeness \<Rightarrow> str" where
  "completeness_value QC_VERY_EARLY = ''very_early''"
| "completeness_value QC_PARTIAL = ''partial''"
| "completeness_value QC_MOSTLY_KNOWN = ''mostly_known''"
| "completeness_value QC_SUFFICIENT = ''sufficient''"

definition all_completeness :: "completeness list" where
  "all_completeness =
     [QC_VERY_EARLY, QC_PARTIAL, QC_MOSTLY_KNOWN, QC_SUFFICIENT]"

lemma completeness_of_value [simp]: "enum_of completeness_value all_completeness (completeness_value x) = Inr x"
  by (cases x) (simp_all add: enum_of_def all_completeness_def)

datatype qualification_progress =
    QP_ADVANCING | QP_STABLE | QP_REGRESSED | QP_CORRECTED | QP_COMPLETE

fun progress_value :: "qualification_progress \<Rightarrow> str" where
  "progress_value QP_ADVANCING = ''advancing''"
| "progress_value QP_STABLE = ''stable''"
| "progress_value QP_REGRESSED = ''regressed''"
| "progress_value QP_CORRECTED = ''corrected''"
| "progress_value QP_COMPLETE = ''complete''"

definition all_progress :: "qualification_progress list" where
  "all_progress =
     [QP_ADVANCING, QP_STABLE, QP_REGRESSED, QP_CORRECTED, QP_COMPLETE]"

lemma progress_of_value [simp]: "enum_of progress_value all_progress (progress_value x) = Inr x"
  by (cases x) (simp_all add: enum_of_def all_progress_def)

section \<open>The business conversation\<close>

record business_fact =
  bf_kind :: fact_kind
  bf_value :: str
  bf_source_turn_id :: str

definition mk_business_fact :: "business_fact \<Rightarrow> business_fact res" where
  "mk_business_fact f =
     rbind (guard (text_within 160 (bf_value f)) ValueError) (\<lambda>_.
     rbind (guard (text_within 100 (bf_source_turn_id f)) ValueError) (\<lambda>_. Inr f))"

record business_problem =
  bp_kind :: problem_kind
  bp_detail :: str
  bp_source_turn_id :: str
  bp_primary :: bool

definition mk_business_problem :: "business_problem \<Rightarrow> business_problem res" where
  "mk_business_problem p =
     rbind (guard (text_within 200 (bp_detail p)) ValueError) (\<lambda>_.
     rbind (guard (text_within 100 (bp_source_turn_id p)) ValueError) (\<lambda>_. Inr p))"

record hypothesis =
  hy_kind :: root_cause
  hy_confidence :: py_float
  hy_reason :: str
  hy_support :: "str list"

definition mk_hypothesis :: "hypothesis \<Rightarrow> hypothesis res" where
  "mk_hypothesis h =
     rbind (guard (in_unit (hy_confidence h)) ValueError) (\<lambda>_.
     rbind (guard (text_within 240 (hy_reason h)) ValueError) (\<lambda>_.
     rbind (guard (hy_support h \<noteq> [] \<and> \<not> length (hy_support h) > 6) ValueError) (\<lambda>_.
     rbind (guard (list_all (text_within 160) (hy_support h)) ValueError) (\<lambda>_. Inr h))))"

record business_evidence =
  be_facts :: "business_fact list"
  be_problems :: "business_problem list"
  be_goals :: "goal_kind set"
  be_constraints :: "constraint_kind set"
  be_unknown_areas :: "unknown_area set"
  be_current_focus :: "conversation_topic option"
  be_corrections :: "(fact_kind + problem_kind) set"
  be_pending_topic :: "conversation_topic option"

definition mk_business_evidence :: "business_evidence \<Rightarrow> business_evidence res" where
  "mk_business_evidence e =
     rbind (guard (\<not> (length (be_facts e) > 12 \<or> length (be_problems e) > 8)) ValueError) (\<lambda>_. Inr e)"

record business_snapshot =
  bs_facts :: "business_fact list"
  bs_problems :: "business_problem list"
  bs_goals :: "goal_kind set"
  bs_constraints :: "constraint_kind set"
  bs_unknown_areas :: "unknown_area set"
  bs_hypotheses :: "hypothesis list"
  bs_current_focus :: "conversation_topic option"
  bs_pending_topic :: "conversation_topic option"
  bs_archived_facts :: "business_fact list"
  bs_archived_problems :: "business_problem list"

definition mk_business_snapshot :: "business_snapshot \<Rightarrow> business_snapshot res" where
  "mk_business_snapshot s =
     rbind (guard (\<not> (length (bs_facts s) > 24 \<or> length (bs_problems s) > 16 \<or> length (bs_hypotheses s) > 6))
       ValueError) (\<lambda>_. Inr s)"

definition empty_business :: business_snapshot where
  "empty_business = \<lparr>bs_facts = [], bs_problems = [], bs_goals = {}, bs_constraints = {},
     bs_unknown_areas = {}, bs_hypotheses = [], bs_current_focus = None, bs_pending_topic = None,
     bs_archived_facts = [], bs_archived_problems = []\<rparr>"

text \<open>\<^verbatim>\<open>{kind(item): item for item in xs}\<close>\<close>

definition latest_by :: "('a \<Rightarrow> 'k) \<Rightarrow> 'a list \<Rightarrow> ('k, 'a) dict" where
  "latest_by kind xs = foldl (\<lambda>d x. dset (kind x) x d) [] xs"

definition reconcile_kinds ::
  "'a list \<Rightarrow> 'a list \<Rightarrow> 'a list \<Rightarrow> 'k set \<Rightarrow> ('a \<Rightarrow> 'k) \<Rightarrow> 'a list \<times> 'a list" where
  "reconcile_kinds current archived incoming corrections kind =
     (let affected = kind ` set incoming \<union> corrections;
          removed = filter (\<lambda>x. kind x \<in> affected) current;
          retained = filter (\<lambda>x. kind x \<notin> affected) current in
      (last_n 24 (retained @ map snd (latest_by kind incoming)), last_n 24 (archived @ removed)))"

fun unknown_of :: "fact_kind \<Rightarrow> unknown_area option" where
  "unknown_of FK_CRM = Some UA_CRM"
| "unknown_of FK_SOFTWARE = Some UA_CURRENT_SOFTWARE"
| "unknown_of FK_REPORTING = Some UA_REPORTING_PROCESS"
| "unknown_of FK_INTEGRATION = Some UA_INTEGRATIONS"
| "unknown_of _ = None"

definition known_unknowns :: "business_fact list \<Rightarrow> unknown_area set" where
  "known_unknowns facts = set (List.map_filter (\<lambda>f. unknown_of (bf_kind f)) facts)"

definition hypothesis_candidates :: "fact_kind set \<Rightarrow> problem_kind set \<Rightarrow> (root_cause \<times> py_float \<times> str) list" where
  "hypothesis_candidates fk pk =
     (if FK_MANUAL_STEP \<in> fk \<or> FK_CURRENT_WORKFLOW \<in> fk
      then [(RC_MANUAL_DEPENDENCY, Fin (75/100), ''manual workflow is observed'')] else [])
   @ (if PK_ERRORS \<in> pk \<or> PK_FOLLOW_UPS \<in> pk
      then [(RC_PROCESS_GAP, Fin (65/100), ''errors or missed follow-ups are observed'')] else [])
   @ (if FK_BRANCHES \<in> fk \<and> FK_CURRENT_WORKFLOW \<in> fk
      then [(RC_NO_CENTRAL_SYSTEM, Fin (55/100), ''multiple branches and a workflow are observed'')] else [])
   @ (if FK_REPORTING \<notin> fk \<and> PK_OPERATIONAL \<in> pk
      then [(RC_REPORTING_GAP, Fin (4/10), ''operational issue is observed while reporting remains unknown'')]
      else [])"

definition observations :: "business_fact list \<Rightarrow> business_problem list \<Rightarrow> str list" where
  "observations facts problems = map bp_detail problems @ map bf_value facts"

definition hypotheses_of :: "business_fact list \<Rightarrow> business_problem list \<Rightarrow> hypothesis list res" where
  "hypotheses_of facts problems =
     (let support = observations facts problems in
      if support = [] then Inr []
      else rmap (\<lambda>(kind, confidence, reason). mk_hypothesis \<lparr>hy_kind = kind, hy_confidence = confidence,
          hy_reason = reason, hy_support = take 6 support\<rparr>)
        (take 6 (hypothesis_candidates (bf_kind ` set facts) (bp_kind ` set problems))))"

definition fact_corrections :: "(fact_kind + problem_kind) set \<Rightarrow> fact_kind set" where
  "fact_corrections cs = set (filter (\<lambda>k. Inl k \<in> cs) all_fact_kind)"

definition problem_corrections :: "(fact_kind + problem_kind) set \<Rightarrow> problem_kind set" where
  "problem_corrections cs = set (filter (\<lambda>k. Inr k \<in> cs) all_problem_kind)"

definition business_update :: "business_snapshot \<Rightarrow> business_evidence \<Rightarrow> business_snapshot res" where
  "business_update prior e =
     (let (facts, archived_facts) = reconcile_kinds (bs_facts prior) (bs_archived_facts prior) (be_facts e)
            (fact_corrections (be_corrections e)) bf_kind;
          (problems, archived_problems) = reconcile_kinds (bs_problems prior) (bs_archived_problems prior)
            (be_problems e) (problem_corrections (be_corrections e)) bp_kind in
      rbind (hypotheses_of facts problems) (\<lambda>hypotheses.
      mk_business_snapshot \<lparr>bs_facts = facts, bs_problems = problems, bs_goals = bs_goals prior \<union> be_goals e,
        bs_constraints = bs_constraints prior \<union> be_constraints e,
        bs_unknown_areas = (bs_unknown_areas prior \<union> be_unknown_areas e) - known_unknowns facts,
        bs_hypotheses = hypotheses,
        bs_current_focus = (case be_current_focus e of None \<Rightarrow> bs_current_focus prior | f \<Rightarrow> f),
        bs_pending_topic = (case be_pending_topic e of None \<Rightarrow> bs_pending_topic prior | t \<Rightarrow> t),
        bs_archived_facts = archived_facts, bs_archived_problems = archived_problems\<rparr>))"

section \<open>What an update of the conversation guarantees\<close>

lemma enum_of_members: "(\<And>x. enum_of value members (value x) = Inr x) \<Longrightarrow> x \<in> set members"
  by (metis enum_of_def find_Some_in option_res_simps(3))

lemma all_fact_kinds [simp]: "k \<in> set all_fact_kind"
  by (rule enum_of_members [OF fact_kind_of_value])

lemma all_problem_kinds [simp]: "k \<in> set all_problem_kind"
  by (rule enum_of_members [OF problem_kind_of_value])

lemma corrections_simps [simp]:
  "k \<in> fact_corrections cs \<longleftrightarrow> Inl k \<in> cs" "k' \<in> problem_corrections cs \<longleftrightarrow> Inr k' \<in> cs"
  by (simp_all add: fact_corrections_def problem_corrections_def)

text \<open>The entry of a kind, and the last one of a kind in a list.\<close>

definition entry_of :: "('a \<Rightarrow> 'k) \<Rightarrow> 'a list \<Rightarrow> 'k \<Rightarrow> 'a option" where
  "entry_of kind xs k = map_of (map (\<lambda>x. (kind x, x)) xs) k"

definition last_of :: "('a \<Rightarrow> 'k) \<Rightarrow> 'a list \<Rightarrow> 'k \<Rightarrow> 'a option" where
  "last_of kind xs k = entry_of kind (rev xs) k"

definition keyed :: "('a \<Rightarrow> 'k) \<Rightarrow> ('k, 'a) dict \<Rightarrow> bool" where
  "keyed kind d \<longleftrightarrow> distinct (dkeys d) \<and> (\<forall>(k, x) \<in> set d. kind x = k)"

lemma keyed_dset: "keyed kind d \<Longrightarrow> keyed kind (dset (kind x) x d)"
  by (auto simp: keyed_def dest!: dset_member)

lemma latest_by_keyed: "keyed kind (latest_by kind xs)"
proof -
  have "keyed kind d \<Longrightarrow> keyed kind (foldl (\<lambda>d x. dset (kind x) x d) d xs)" for d
    by (induction xs arbitrary: d) (simp_all add: keyed_dset)
  moreover have "keyed kind []" by (simp add: keyed_def)
  ultimately show ?thesis unfolding latest_by_def by blast
qed

lemma latest_by_get: "dget (latest_by kind xs) k = last_of kind xs k"
proof -
  have "dget (foldl (\<lambda>d x. dset (kind x) x d) d xs) k
      = (case last_of kind xs k of None \<Rightarrow> dget d k | r \<Rightarrow> r)" for d
    by (induction xs arbitrary: d) (auto simp: last_of_def entry_of_def map_add_def split: option.split)
  then show ?thesis by (simp add: latest_by_def split: option.split)
qed

lemma keyed_values: "keyed kind d \<Longrightarrow> map kind (map snd d) = dkeys d"
  by (auto simp: keyed_def)

lemma entry_of_values: "keyed kind d \<Longrightarrow> entry_of kind (map snd d) k = dget d k"
proof (induction d)
  case Nil
  show ?case by (simp add: entry_of_def)
next
  case (Cons p d)
  then show ?case by (cases p) (auto simp: entry_of_def keyed_def)
qed

lemma entry_of_None: "entry_of kind xs k = None \<longleftrightarrow> k \<notin> kind ` set xs"
  by (auto simp: entry_of_def map_of_eq_None_iff image_image)

lemma last_of_None: "last_of kind xs k = None \<longleftrightarrow> k \<notin> kind ` set xs"
  by (simp add: last_of_def entry_of_None)

lemma entry_of_append: "entry_of kind (xs @ ys) k = (case entry_of kind xs k of None \<Rightarrow> entry_of kind ys k | r \<Rightarrow> r)"
  by (simp add: entry_of_def map_add_def split: option.split)

lemma entry_of_filter:
  "entry_of kind (filter (\<lambda>x. kind x \<notin> K) xs) k = (if k \<in> K then None else entry_of kind xs k)"
  by (induction xs) (auto simp: entry_of_def)

lemma dkeys_latest: "set (dkeys (latest_by kind xs)) = kind ` set xs"
proof -
  have "k \<in> set (dkeys (latest_by kind xs)) \<longleftrightarrow> k \<in> kind ` set xs" for k
    using last_of_None [of kind xs k] unfolding dget_dom latest_by_get by (metis not_Some_eq)
  then show ?thesis by blast
qed

lemma latest_by_members: "snd ` set (latest_by kind xs) \<subseteq> set xs"
proof -
  have "snd ` set (foldl (\<lambda>d x. dset (kind x) x d) d xs) \<subseteq> snd ` set d \<union> set xs" for d
  proof (induction xs arbitrary: d)
    case Nil
    show ?case by simp
  next
    case (Cons x xs)
    have "snd ` set (dset (kind x) x d) \<subseteq> insert x (snd ` set d)" by (auto dest!: dset_member)
    with Cons.IH [of "dset (kind x) x d"] show ?case by auto
  qed
  from this [of "[]"] show ?thesis by (simp add: latest_by_def)
qed

text \<open>
  Reconciliation, when every kind occurs at most once and all kinds together fit the bound:
  the newest entry of a kind stands, corrected kinds without a new entry are gone, all others
  stay, and what was displaced is archived.
\<close>

lemma reconcile_kinds_spec:
  fixes kind :: "'a \<Rightarrow> 'k"
  assumes fin: "card (UNIV :: 'k set) \<le> 24" "finite (UNIV :: 'k set)" and dist: "distinct (map kind current)"
    and r: "reconcile_kinds current archived incoming corrections kind = (new, archived')"
  shows "distinct (map kind new)" and "length new \<le> card (UNIV :: 'k set)"
    and "entry_of kind new k = (case last_of kind incoming k of
        Some x \<Rightarrow> Some x | None \<Rightarrow> if k \<in> corrections then None else entry_of kind current k)"
    and "set new \<subseteq> set current \<union> set incoming"
    and "\<forall>x \<in> set current. kind x \<in> corrections \<union> kind ` set incoming \<longrightarrow> x \<in> set archived'
          \<or> length (archived @ filter (\<lambda>x. kind x \<in> kind ` set incoming \<union> corrections) current) > 24"
    and "length archived' \<le> 24"
proof -
  let ?K = "kind ` set incoming \<union> corrections"
  let ?d = "latest_by kind incoming"
  let ?all = "filter (\<lambda>x. kind x \<notin> ?K) current @ map snd ?d"
  note keyed = latest_by_keyed [of kind incoming]
  have "set (map kind (map snd ?d)) = kind ` set incoming"
    unfolding keyed_values [OF keyed] by (rule dkeys_latest)
  moreover have "distinct (map kind (map snd ?d))" unfolding keyed_values [OF keyed] using keyed by (simp add: keyed_def)
  moreover have "distinct (map kind (filter (\<lambda>x. kind x \<notin> ?K) current))" using dist by (rule distinct_map_filter)
  moreover have "set (map kind (filter (\<lambda>x. kind x \<notin> ?K) current)) \<inter> kind ` set incoming = {}" by auto
  ultimately have dist_all: "distinct (map kind ?all)" unfolding map_append distinct_append by blast
  have len: "length ?all \<le> card (UNIV :: 'k set)"
  proof -
    have "length ?all = card (set (map kind ?all))" using distinct_card [OF dist_all] by simp
    also have "\<dots> \<le> card (UNIV :: 'k set)" by (rule card_mono [OF fin(2)]) simp
    finally show ?thesis .
  qed
  then have new: "new = ?all" and arch: "archived' = last_n 24 (archived @ filter (\<lambda>x. kind x \<in> ?K) current)"
    using r fin(1) by (auto simp: reconcile_kinds_def Let_def last_n_def)
  show "distinct (map kind new)" unfolding new by (rule dist_all)
  show "length new \<le> card (UNIV :: 'k set)" unfolding new by (rule len)
  show "entry_of kind new k = (case last_of kind incoming k of
        Some x \<Rightarrow> Some x | None \<Rightarrow> if k \<in> corrections then None else entry_of kind current k)"
    unfolding new entry_of_append entry_of_filter entry_of_values [OF keyed] latest_by_get
    using last_of_None [of kind incoming k] by (auto split: option.splits)
  have "set (map snd ?d) \<subseteq> set incoming" using latest_by_members [of kind incoming] by simp
  then show "set new \<subseteq> set current \<union> set incoming" unfolding new by auto
  show "\<forall>x \<in> set current. kind x \<in> corrections \<union> kind ` set incoming \<longrightarrow> x \<in> set archived'
          \<or> length (archived @ filter (\<lambda>x. kind x \<in> kind ` set incoming \<union> corrections) current) > 24"
    unfolding arch by (auto simp: last_n_def not_less)
  show "length archived' \<le> 24" unfolding arch by simp
qed

definition business_ok :: "business_snapshot \<Rightarrow> bool" where
  "business_ok s \<longleftrightarrow> distinct (map bf_kind (bs_facts s)) \<and> distinct (map bp_kind (bs_problems s))
     \<and> (\<forall>f \<in> set (bs_facts s). mk_business_fact f = Inr f)
     \<and> (\<forall>p \<in> set (bs_problems s). mk_business_problem p = Inr p)
     \<and> (\<forall>h \<in> set (bs_hypotheses s). mk_hypothesis h = Inr h)
     \<and> bs_unknown_areas s \<inter> known_unknowns (bs_facts s) = {}"

definition business_evidence_ok :: "business_evidence \<Rightarrow> bool" where
  "business_evidence_ok e \<longleftrightarrow> mk_business_evidence e = Inr e
     \<and> (\<forall>f \<in> set (be_facts e). mk_business_fact f = Inr f)
     \<and> (\<forall>p \<in> set (be_problems e). mk_business_problem p = Inr p)"

lemma fact_kinds: "finite (UNIV :: fact_kind set)" "card (UNIV :: fact_kind set) = 12"
proof -
  have U: "UNIV = set all_fact_kind" by auto
  show "finite (UNIV :: fact_kind set)" unfolding U by simp
  show "card (UNIV :: fact_kind set) = 12" unfolding U by (simp add: all_fact_kind_def)
qed

lemma problem_kinds: "finite (UNIV :: problem_kind set)" "card (UNIV :: problem_kind set) = 10"
proof -
  have U: "UNIV = set all_problem_kind" by auto
  show "finite (UNIV :: problem_kind set)" unfolding U by simp
  show "card (UNIV :: problem_kind set) = 10" unfolding U by (simp add: all_problem_kind_def)
qed

lemma candidates_text: "(kind, confidence, reason) \<in> set (hypothesis_candidates fk pk)
    \<Longrightarrow> in_unit confidence \<and> text_within 240 reason"
  by (auto simp: hypothesis_candidates_def in_unit_def text_within_def blank_iff py_isspace_def split: if_splits)

lemma rmap_error:
  assumes "rmap f xs = Inl e"
  shows "\<exists>x \<in> set xs. f x = Inl e"
  using assms by (induction xs) (auto simp: res_simps)

lemma hypotheses_of_Inl:
  assumes "hypotheses_of facts problems = Inl e"
  shows "e = ValueError \<and> (\<exists>x \<in> set (observations facts problems). \<not> text_within 160 x)"
proof -
  let ?support = "observations facts problems"
  from assms have ne: "?support \<noteq> []" by (auto simp: hypotheses_of_def Let_def)
  with assms obtain c where c: "c \<in> set (take 6 (hypothesis_candidates (bf_kind ` set facts) (bp_kind ` set problems)))"
    "(\<lambda>(kind, confidence, reason). mk_hypothesis \<lparr>hy_kind = kind, hy_confidence = confidence,
        hy_reason = reason, hy_support = take 6 ?support\<rparr>) c = Inl e"
    by (auto simp: hypotheses_of_def Let_def dest!: rmap_error)
  obtain kind confidence reason where "c = (kind, confidence, reason)" by (cases c) auto
  with c(1) c(2) have "mk_hypothesis \<lparr>hy_kind = kind, hy_confidence = confidence, hy_reason = reason,
      hy_support = take 6 ?support\<rparr> = Inl e" "in_unit confidence" "text_within 240 reason"
    using candidates_text by (auto dest!: in_set_takeD)
  then have "e = ValueError" "\<exists>x \<in> set (take 6 ?support). \<not> text_within 160 x"
    using ne by (auto simp: mk_hypothesis_def res_simps list_all_iff)
  then show ?thesis by (auto dest: in_set_takeD)
qed

lemma hypotheses_of_Inr:
  assumes "hypotheses_of facts problems = Inr hs" and "h \<in> set hs"
  shows "mk_hypothesis h = Inr h" and "set (hy_support h) \<subseteq> set (observations facts problems)"
    and "hy_support h \<noteq> []"
proof -
  let ?support = "observations facts problems"
  from assms obtain kind confidence reason where
    "mk_hypothesis \<lparr>hy_kind = kind, hy_confidence = confidence, hy_reason = reason, hy_support = take 6 ?support\<rparr> = Inr h"
    by (fastforce simp: hypotheses_of_def Let_def dest!: rmap_in_set split: if_splits)
  then have "mk_hypothesis h = Inr h" "hy_support h = take 6 ?support" "hy_support h \<noteq> []"
    by (auto simp: mk_hypothesis_def res_simps)
  then show "mk_hypothesis h = Inr h" "set (hy_support h) \<subseteq> set ?support" "hy_support h \<noteq> []"
    by (auto dest: in_set_takeD)
qed

lemma hypotheses_length: "hypotheses_of facts problems = Inr hs \<Longrightarrow> length hs \<le> 6"
  by (auto simp: hypotheses_of_def Let_def dest!: rmap_length split: if_splits)


definition workflow_fact :: "str \<Rightarrow> str \<Rightarrow> business_fact" where
  "workflow_fact value turn = \<lparr>bf_kind = FK_CURRENT_WORKFLOW, bf_value = value, bf_source_turn_id = turn\<rparr>"

definition no_evidence :: business_evidence where
  "no_evidence = \<lparr>be_facts = [], be_problems = [], be_goals = {}, be_constraints = {}, be_unknown_areas = {},
     be_current_focus = None, be_corrections = {}, be_pending_topic = None\<rparr>"


text \<open>The exception does occur: a problem of 161 characters is accepted and then breaks the update.\<close>

definition long_problem :: business_problem where
  "long_problem = \<lparr>bp_kind = PK_ERRORS, bp_detail = replicate 161 (CHR ''x''), bp_source_turn_id = ''t1'', bp_primary = False\<rparr>"

lemma long_problem_breaks_update:
  "mk_business_problem long_problem = Inr long_problem
   \<and> business_update empty_business (no_evidence\<lparr>be_problems := [long_problem]\<rparr>) = Inl ValueError"
proof -
  have "\<not> blank (replicate 161 (CHR ''x''))" by (simp add: blank_iff py_isspace_def)
  then have "mk_business_problem long_problem = Inr long_problem"
    by (simp add: mk_business_problem_def long_problem_def text_within_def blank_iff py_isspace_def)
  moreover have "business_update empty_business (no_evidence\<lparr>be_problems := [long_problem]\<rparr>) = Inl ValueError"
    by code_simp
  ultimately show ?thesis by simp
qed

section \<open>Qualification\<close>

record qualification_field =
  qf_field_id :: str
  qf_display_label :: str
  qf_mandatory :: bool
  qf_evidence_kind :: qualification_evidence_kind
  qf_allowed_values :: "str set"

definition mk_qualification_field :: "qualification_field \<Rightarrow> qualification_field res" where
  "mk_qualification_field f =
     rbind (guard (\<not> (qf_field_id f = [] \<or> length (qf_field_id f) > 80 \<or> qf_display_label f = []
       \<or> length (qf_display_label f) > 120)) ValueError) (\<lambda>_. Inr f)"

record qualification_configuration =
  qcf_tenant_id :: str
  qcf_business_id :: str
  qcf_campaign_id :: str
  qcf_fields :: "qualification_field list"

definition mk_qualification_configuration :: "qualification_configuration \<Rightarrow> qualification_configuration res" where
  "mk_qualification_configuration c =
     rbind (guard (\<not> (\<not> (qcf_tenant_id c \<noteq> [] \<and> qcf_business_id c \<noteq> [] \<and> qcf_campaign_id c \<noteq> [])
       \<or> length (qcf_fields c) > 30
       \<or> \<not> distinct (map qf_field_id (qcf_fields c)))) ValueError) (\<lambda>_. Inr c)"

record qualification_observation =
  qo_field_id :: str
  qo_value :: str
  qo_evidence_kind :: qualification_evidence_kind
  qo_evidence_ids :: "str list"
  qo_source_turn_id :: str

definition mk_qualification_observation :: "qualification_observation \<Rightarrow> qualification_observation res" where
  "mk_qualification_observation q =
     rbind (guard (\<not> (qo_field_id q = [] \<or> qo_value q = [] \<or> qo_source_turn_id q = []
       \<or> length (qo_evidence_ids q) > 6)) ValueError) (\<lambda>_. Inr q)"

record qualification_evidence =
  qev_observations :: "qualification_observation list"
  qev_corrections :: "str set"

record qualification_field_state =
  qfs_field_id :: str
  qfs_state :: qualification_state
  qfs_value :: "str option"
  qfs_evidence_ids :: "str list"
  qfs_source_turn_id :: "str option"

record qualification_snapshot =
  qsn_configuration_id :: "str \<times> str \<times> str"
  qsn_fields :: "qualification_field_state list"
  qsn_completeness :: completeness
  qsn_progress :: qualification_progress
  qsn_newly_observed :: "str set"
  qsn_corrected :: "str set"
  qsn_replaced :: "str set"
  qsn_archived :: "qualification_observation list"

text \<open>
  One field of the configuration: its new state, the observation it displaced if its value
  changed, and whether it was observed now.
\<close>

definition displaced :: "str \<Rightarrow> qualification_field_state \<Rightarrow> qualification_observation res" where
  "displaced field_id old = mk_qualification_observation \<lparr>qo_field_id = field_id,
     qo_value = (case qfs_value old of None \<Rightarrow> [] | Some v \<Rightarrow> v),
     qo_evidence_kind = (if qfs_state old = QS_OBSERVED then QE_OBSERVED else QE_INFERRED),
     qo_evidence_ids = qfs_evidence_ids old,
     qo_source_turn_id = (if truthy (qfs_source_turn_id old) then the (qfs_source_turn_id old) else ''archived'')\<rparr>"

definition qualify_field ::
  "str \<Rightarrow> qualification_field_state option \<Rightarrow> qualification_observation option
    \<Rightarrow> (qualification_field_state \<times> qualification_observation option \<times> bool) res" where
  "qualify_field field_id old obs =
     (let keep = (case old of
          Some st \<Rightarrow> st
        | None \<Rightarrow> \<lparr>qfs_field_id = field_id, qfs_state = QS_UNKNOWN, qfs_value = None, qfs_evidence_ids = [],
            qfs_source_turn_id = None\<rparr>) in
      case obs of
        None \<Rightarrow> Inr (keep, None, False)
      | Some q \<Rightarrow>
          if qo_evidence_kind q = QE_OBSERVED \<or> old = None \<or> qfs_state (the old) \<noteq> QS_OBSERVED then
            rbind (case old of
                None \<Rightarrow> Inr None
              | Some st \<Rightarrow> if qfs_value st \<noteq> None \<and> qfs_value st \<noteq> Some (qo_value q)
                  then rbind (displaced field_id st) (\<lambda>a. Inr (Some a)) else Inr None) (\<lambda>archived.
            Inr (\<lparr>qfs_field_id = field_id,
              qfs_state = (if qo_evidence_kind q = QE_OBSERVED then QS_OBSERVED else QS_INFERRED),
              qfs_value = Some (qo_value q), qfs_evidence_ids = qo_evidence_ids q,
              qfs_source_turn_id = Some (qo_source_turn_id q)\<rparr>, archived, True))
          else Inr (keep, None, False))"

definition qualification_update ::
  "qualification_configuration \<Rightarrow> qualification_evidence \<Rightarrow> qualification_snapshot option
    \<Rightarrow> qualification_snapshot res" where
  "qualification_update config e prior0 =
     (let identity = (qcf_tenant_id config, qcf_business_id config, qcf_campaign_id config);
          prior = (case prior0 of None \<Rightarrow> None
            | Some p \<Rightarrow> if qsn_configuration_id p \<noteq> identity then None else Some p);
          prior_values = (case prior of None \<Rightarrow> [] | Some p \<Rightarrow> latest_by qfs_field_id (qsn_fields p));
          ids = set (map qf_field_id (qcf_fields config));
          incoming = latest_by qo_field_id (filter (\<lambda>q. qo_field_id q \<in> ids) (qev_observations e)) in
      rbind (rmap (\<lambda>f. qualify_field (qf_field_id f) (dget prior_values (qf_field_id f))
          (dget incoming (qf_field_id f))) (qcf_fields config)) (\<lambda>results.
      let states = map fst results;
          newly = set (map (qfs_field_id \<circ> fst) (filter (snd \<circ> snd) results));
          replaced = set (map (qfs_field_id \<circ> fst) (filter (\<lambda>r. fst (snd r) \<noteq> None) results));
          corrected = newly \<inter> qev_corrections e;
          archived = (case prior of None \<Rightarrow> [] | Some p \<Rightarrow> qsn_archived p)
            @ List.map_filter (fst \<circ> snd) results;
          known = filter (\<lambda>st. qfs_state st \<noteq> QS_UNKNOWN) states;
          mandatory = length (filter qf_mandatory (qcf_fields config));
          known_mandatory = length (filter (\<lambda>st. qfs_state st \<noteq> QS_UNKNOWN
            \<and> (\<exists>f \<in> set_option (List.find (\<lambda>f. qf_field_id f = qfs_field_id st) (qcf_fields config)). qf_mandatory f))
            states);
          completeness = (if mandatory \<noteq> 0 \<and> known_mandatory = mandatory then QC_SUFFICIENT
            else if known \<noteq> [] then QC_MOSTLY_KNOWN else QC_VERY_EARLY) in
      Inr \<lparr>qsn_configuration_id = identity, qsn_fields = states, qsn_completeness = completeness,
        qsn_progress = (if corrected \<noteq> {} then QP_CORRECTED
          else if completeness = QC_SUFFICIENT then QP_COMPLETE
          else if newly \<noteq> {} then QP_ADVANCING else QP_STABLE),
        qsn_newly_observed = newly, qsn_corrected = corrected, qsn_replaced = replaced,
        qsn_archived = last_n 30 archived\<rparr>))"

definition state_ok :: "qualification_field_state \<Rightarrow> bool" where
  "state_ok st \<longleftrightarrow> qfs_field_id st \<noteq> [] \<and> (qfs_state st = QS_UNKNOWN \<longleftrightarrow> qfs_value st = None)
     \<and> qfs_value st \<noteq> Some [] \<and> length (qfs_evidence_ids st) \<le> 6"

definition qualification_ok :: "qualification_snapshot \<Rightarrow> bool" where
  "qualification_ok s \<longleftrightarrow> distinct (map qfs_field_id (qsn_fields s)) \<and> (\<forall>st \<in> set (qsn_fields s). state_ok st)
     \<and> length (qsn_archived s) \<le> 30 \<and> (\<forall>a \<in> set (qsn_archived s). mk_qualification_observation a = Inr a)"

definition unknown_field :: "str \<Rightarrow> qualification_field_state" where
  "unknown_field i = \<lparr>qfs_field_id = i, qfs_state = QS_UNKNOWN, qfs_value = None, qfs_evidence_ids = [],
     qfs_source_turn_id = None\<rparr>"

text \<open>The state of a field after a turn: observations displace anything, inferences only what is not observed.\<close>

definition field_after :: "qualification_field_state \<Rightarrow> qualification_observation option \<Rightarrow> qualification_field_state" where
  "field_after st obs = (case obs of None \<Rightarrow> st
     | Some q \<Rightarrow> if qo_evidence_kind q = QE_OBSERVED \<or> qfs_state st \<noteq> QS_OBSERVED
         then \<lparr>qfs_field_id = qfs_field_id st,
           qfs_state = (if qo_evidence_kind q = QE_OBSERVED then QS_OBSERVED else QS_INFERRED),
           qfs_value = Some (qo_value q), qfs_evidence_ids = qo_evidence_ids q,
           qfs_source_turn_id = Some (qo_source_turn_id q)\<rparr> else st)"

lemma displaced_ok:
  assumes "state_ok st" and "qfs_value st \<noteq> None" and "i \<noteq> []"
  obtains a where "displaced i st = Inr a" and "mk_qualification_observation a = Inr a"
proof -
  obtain v where v: "qfs_value st = Some v" "v \<noteq> []" "length (qfs_evidence_ids st) \<le> 6"
    using assms by (auto simp: state_ok_def)
  define turn where "turn = (if truthy (qfs_source_turn_id st) then the (qfs_source_turn_id st) else ''archived'')"
  have "turn \<noteq> []" by (cases "qfs_source_turn_id st") (auto simp: turn_def)
  let ?a = "\<lparr>qo_field_id = i, qo_value = v,
     qo_evidence_kind = (if qfs_state st = QS_OBSERVED then QE_OBSERVED else QE_INFERRED),
     qo_evidence_ids = qfs_evidence_ids st, qo_source_turn_id = turn\<rparr>"
  have ok: "mk_qualification_observation ?a = Inr ?a"
    using v assms(3) \<open>turn \<noteq> []\<close> by (simp add: mk_qualification_observation_def)
  moreover have "displaced i st = mk_qualification_observation ?a" by (simp add: displaced_def v(1) turn_def)
  ultimately show thesis by (intro that [of ?a]) simp_all
qed

lemma qualify_field_ok:
  assumes old: "\<forall>st \<in> set_option old. state_ok st \<and> qfs_field_id st = i"
    and obs: "\<forall>q \<in> set_option obs. mk_qualification_observation q = Inr q" and i: "i \<noteq> []"
  defines "st \<equiv> case old of None \<Rightarrow> unknown_field i | Some st \<Rightarrow> st"
  obtains a b where "qualify_field i old obs = Inr (field_after st obs, a, b)"
    and "\<forall>x \<in> set_option a. mk_qualification_observation x = Inr x"
    and "state_ok (field_after st obs)" and "qfs_field_id (field_after st obs) = i"
proof -
  have st: "state_ok st" "qfs_field_id st = i"
    using old i by (auto simp: st_def unknown_field_def state_ok_def split: option.splits)
  have new: "state_ok (field_after st obs)" "qfs_field_id (field_after st obs) = i"
    using st obs by (auto simp: field_after_def state_ok_def mk_qualification_observation_def res_simps split: option.splits)
  show thesis
  proof (cases "\<exists>q s. obs = Some q \<and> old = Some s \<and> (qo_evidence_kind q = QE_OBSERVED \<or> qfs_state s \<noteq> QS_OBSERVED)
      \<and> qfs_value s \<noteq> None \<and> qfs_value s \<noteq> Some (qo_value q)")
    case True
    then obtain q s where qs: "obs = Some q" "old = Some s" "qo_evidence_kind q = QE_OBSERVED \<or> qfs_state s \<noteq> QS_OBSERVED"
      "qfs_value s \<noteq> None" "qfs_value s \<noteq> Some (qo_value q)" by blast
    then have "state_ok s" "s = st" using old by (auto simp: st_def)
    from displaced_ok [OF this(1) qs(4) i] obtain a where a: "displaced i s = Inr a" "mk_qualification_observation a = Inr a" .
    show thesis
      by (rule that [of "Some a" True]) (use qs a st(2) new \<open>s = st\<close> in \<open>auto simp: qualify_field_def field_after_def Let_def\<close>)
  next
    case False
    show thesis
    proof (cases obs)
      case None
      then show thesis using new
        by (intro that [of None False]) (simp_all add: qualify_field_def field_after_def st_def unknown_field_def Let_def split: option.split)
    next
      case (Some q)
      with False new st(2) show thesis
        by (intro that [of None "qo_evidence_kind q = QE_OBSERVED \<or> qfs_state st \<noteq> QS_OBSERVED"])
          (auto simp: qualify_field_def field_after_def st_def unknown_field_def Let_def split: option.splits)
    qed
  qed
qed

definition configuration_id :: "qualification_configuration \<Rightarrow> str \<times> str \<times> str" where
  "configuration_id c = (qcf_tenant_id c, qcf_business_id c, qcf_campaign_id c)"

text \<open>What the fields were before: a snapshot of another campaign counts for nothing.\<close>

definition field_before :: "qualification_configuration \<Rightarrow> qualification_snapshot option \<Rightarrow> str \<Rightarrow> qualification_field_state" where
  "field_before c prior i = (case prior of
       None \<Rightarrow> unknown_field i
     | Some p \<Rightarrow> if qsn_configuration_id p \<noteq> configuration_id c then unknown_field i
         else (case entry_of qfs_field_id (qsn_fields p) i of None \<Rightarrow> unknown_field i | Some st \<Rightarrow> st))"

lemma rmap_Inr:
  assumes "\<forall>x \<in> set xs. f x = Inr (g x)"
  shows "rmap f xs = Inr (map g xs)"
  using assms by (induction xs) simp_all

lemma last_of_distinct: "distinct (map kind xs) \<Longrightarrow> last_of kind xs k = entry_of kind xs k"
proof (induction xs)
  case Nil
  then show ?case by (simp add: last_of_def entry_of_def)
next
  case (Cons x xs)
  then have "entry_of kind (rev xs) k = entry_of kind xs k" by (simp add: last_of_def)
  moreover have "kind x = k \<Longrightarrow> entry_of kind xs k = None" using Cons.prems by (auto simp: entry_of_None)
  ultimately show ?case by (auto simp: last_of_def entry_of_append) (auto simp: entry_of_def split: option.split)
qed

lemma entry_of_Some: "entry_of kind xs k = Some x \<Longrightarrow> x \<in> set xs \<and> kind x = k"
  by (auto simp: entry_of_def dest!: map_of_SomeD)

lemma last_of_Some: "last_of kind xs k = Some x \<Longrightarrow> x \<in> set xs \<and> kind x = k"
  by (auto simp: last_of_def dest!: entry_of_Some)

lemma last_of_filter: "k \<in> K \<Longrightarrow> last_of kind (filter (\<lambda>x. kind x \<in> K) xs) k = last_of kind xs k"
proof -
  assume "k \<in> K"
  then have "entry_of kind (filter (\<lambda>x. kind x \<in> K) ys) k = entry_of kind ys k" for ys
    by (induction ys) (auto simp: entry_of_def)
  from this [of "rev xs"] show ?thesis by (simp add: last_of_def rev_filter)
qed

lemma length_filter_all: "length (filter P xs) = length xs \<longleftrightarrow> (\<forall>x \<in> set xs. P x)"
proof (induction xs)
  case Nil
  show ?case by simp
next
  case (Cons x xs)
  have "length (filter P xs) \<noteq> Suc (length xs)" using length_filter_le [of P xs] by linarith
  with Cons show ?case by auto
qed

lemma find_unique:
  assumes "distinct (map kind xs)" and "x \<in> set xs"
  shows "List.find (\<lambda>y. kind y = kind x) xs = Some x"
  using assms by (induction xs) auto


definition budget_configuration :: qualification_configuration where
  "budget_configuration = \<lparr>qcf_tenant_id = ''t'', qcf_business_id = ''b'', qcf_campaign_id = ''c'',
     qcf_fields = [\<lparr>qf_field_id = ''budget'', qf_display_label = ''Budget'', qf_mandatory = True,
       qf_evidence_kind = QE_OBSERVED, qf_allowed_values = {}\<rparr>]\<rparr>"

definition budget_observation :: "str \<Rightarrow> qualification_evidence_kind \<Rightarrow> qualification_evidence" where
  "budget_observation value kind = \<lparr>qev_observations = [\<lparr>qo_field_id = ''budget'', qo_value = value,
     qo_evidence_kind = kind, qo_evidence_ids = [], qo_source_turn_id = ''t1''\<rparr>], qev_corrections = {}\<rparr>"


section \<open>The business diagnosis\<close>

datatype diagnostic_confidence =
    DC_OBSERVED | DC_LIKELY | DC_POSSIBLE | DC_UNKNOWN

datatype business_maturity =
    BM_EARLY_DIGITAL | BM_GROWING | BM_OPTIMIZING | BM_ADVANCED | BM_UNKNOWN

datatype capability_area =
    CA_ONLINE_PRESENCE | CA_WORKFLOW | CA_LEAD_TRACKING | CA_CRM | CA_REPORTING | CA_ANALYTICS

fun capability_value :: "capability_area \<Rightarrow> str" where
  "capability_value CA_ONLINE_PRESENCE = ''online_presence''"
| "capability_value CA_WORKFLOW = ''workflow''"
| "capability_value CA_LEAD_TRACKING = ''lead_tracking''"
| "capability_value CA_CRM = ''crm''"
| "capability_value CA_REPORTING = ''reporting''"
| "capability_value CA_ANALYTICS = ''analytics''"

definition all_capability :: "capability_area list" where
  "all_capability =
     [CA_ONLINE_PRESENCE, CA_WORKFLOW, CA_LEAD_TRACKING, CA_CRM, CA_REPORTING, CA_ANALYTICS]"

lemma capability_of_value [simp]: "enum_of capability_value all_capability (capability_value x) = Inr x"
  by (cases x) (simp_all add: enum_of_def all_capability_def)

datatype diagnostic_focus =
    DF_WORKFLOW | DF_WEBSITE_PERFORMANCE | DF_SALES_PROCESS | DF_LEAD_MANAGEMENT | DF_REPORTING |
    DF_BUSINESS_CONTEXT

datatype diagnostic_kind =
    DK_MANUAL_DEPENDENCY | DK_PROCESS_GAP | DK_CENTRALIZATION_GAP | DK_REPORTING_GAP

record finding =
  fi_area :: capability_area
  fi_confidence :: diagnostic_confidence
  fi_support :: "str list"
  fi_evidence_ids :: "str list"

definition mk_finding :: "finding \<Rightarrow> finding res" where
  "mk_finding f =
     rbind (guard (fi_support f \<noteq> [] \<and> \<not> length (fi_support f) > 6) ValueError) (\<lambda>_.
     rbind (guard (\<not> length (fi_evidence_ids f) > 6 \<and> list_all (text_within 100) (fi_evidence_ids f))
       ValueError) (\<lambda>_. Inr f))"

record diagnostic_hypothesis =
  dh_kind :: diagnostic_kind
  dh_confidence :: diagnostic_confidence
  dh_support :: "str list"
  dh_evidence_ids :: "str list"

definition mk_diagnostic_hypothesis :: "diagnostic_hypothesis \<Rightarrow> diagnostic_hypothesis res" where
  "mk_diagnostic_hypothesis h =
     rbind (guard (dh_confidence h \<noteq> DC_OBSERVED) ValueError) (\<lambda>_.
     rbind (guard (dh_support h \<noteq> []) ValueError) (\<lambda>_. Inr h))"

record consultant_summary =
  cs_current_situation :: "capability_area list"
  cs_primary_problem :: "capability_area option"
  cs_secondary_problems :: "capability_area list"
  cs_business_goals :: "goal_kind set"
  cs_current_workflow_known :: bool
  cs_known_constraints :: "constraint_kind set"
  cs_remaining_unknowns :: "capability_area list"

record diagnostic_snapshot =
  ds_maturity :: business_maturity
  ds_maturity_confidence :: diagnostic_confidence
  ds_findings :: "finding list"
  ds_capability_gaps :: "finding list"
  ds_hypotheses :: "diagnostic_hypothesis list"
  ds_diagnostic_focus :: diagnostic_focus
  ds_question_concept :: diagnostic_focus
  ds_summary :: consultant_summary

definition mk_diagnostic_snapshot :: "diagnostic_snapshot \<Rightarrow> diagnostic_snapshot res" where
  "mk_diagnostic_snapshot s =
     rbind (guard (\<not> (length (ds_findings s) > 8 \<or> length (ds_capability_gaps s) > 8 \<or> length (ds_hypotheses s) > 6))
       ValueError) (\<lambda>_. Inr s)"

definition finding_areas :: "(fact_kind \<times> capability_area) list" where
  "finding_areas = [(FK_WEBSITE, CA_ONLINE_PRESENCE), (FK_CRM, CA_CRM), (FK_REPORTING, CA_REPORTING),
     (FK_CURRENT_WORKFLOW, CA_WORKFLOW), (FK_MANUAL_STEP, CA_WORKFLOW)]"

definition gap_areas :: "(unknown_area \<times> capability_area) list" where
  "gap_areas = [(UA_CRM, CA_CRM), (UA_REPORTING_PROCESS, CA_REPORTING), (UA_ORDER_VOLUME, CA_LEAD_TRACKING)]"

definition finding_of :: "capability_area \<Rightarrow> diagnostic_confidence \<Rightarrow> business_fact \<Rightarrow> finding res" where
  "finding_of area confidence f = mk_finding \<lparr>fi_area = area, fi_confidence = confidence,
     fi_support = [bf_value f], fi_evidence_ids = [bf_source_turn_id f]\<rparr>"

definition findings_of :: "(fact_kind, business_fact) dict \<Rightarrow> finding list res" where
  "findings_of facts = rmap (\<lambda>(area, f). finding_of area DC_OBSERVED f)
     (List.map_filter (\<lambda>(kind, area). map_option (\<lambda>f. (area, f)) (dget facts kind)) finding_areas)"

definition gaps_of :: "unknown_area set \<Rightarrow> finding list res" where
  "gaps_of unknowns = rmap (\<lambda>(_, area). mk_finding \<lparr>fi_area = area, fi_confidence = DC_UNKNOWN,
     fi_support = [capability_value area], fi_evidence_ids = []\<rparr>)
     (filter (\<lambda>(unknown, _). unknown \<in> unknowns) gap_areas)"

definition diagnostic_candidates :: "fact_kind set \<Rightarrow> problem_kind set \<Rightarrow> (diagnostic_kind \<times> diagnostic_confidence) list" where
  "diagnostic_candidates fk pk =
     (if FK_MANUAL_STEP \<in> fk then [(DK_MANUAL_DEPENDENCY, DC_LIKELY)] else [])
   @ (if PK_ERRORS \<in> pk \<or> PK_FOLLOW_UPS \<in> pk then [(DK_PROCESS_GAP, DC_LIKELY)] else [])
   @ (if FK_BRANCHES \<in> fk \<and> FK_CURRENT_WORKFLOW \<in> fk then [(DK_CENTRALIZATION_GAP, DC_POSSIBLE)] else [])"

definition diagnostic_hypotheses ::
  "(fact_kind, business_fact) dict \<Rightarrow> business_problem list \<Rightarrow> diagnostic_hypothesis list res" where
  "diagnostic_hypotheses facts problems =
     (let support = map (bf_value \<circ> snd) facts @ map bp_detail problems;
          ids = map (bf_source_turn_id \<circ> snd) facts @ map bp_source_turn_id problems in
      rmap (\<lambda>(kind, confidence). mk_diagnostic_hypothesis \<lparr>dh_kind = kind, dh_confidence = confidence,
          dh_support = take 6 support, dh_evidence_ids = take 6 ids\<rparr>)
        (diagnostic_candidates (set (dkeys facts)) (bp_kind ` set problems)))"

definition focus_of :: "(fact_kind, business_fact) dict \<Rightarrow> business_problem list \<Rightarrow> diagnostic_focus" where
  "focus_of facts problems =
     (let kinds = bp_kind ` set problems; known = set (dkeys facts) in
      if PK_FOLLOW_UPS \<in> kinds then DF_LEAD_MANAGEMENT
      else if FK_MANUAL_STEP \<in> known \<or> FK_CURRENT_WORKFLOW \<in> known \<or> PK_ERRORS \<in> kinds then DF_WORKFLOW
      else if FK_WEBSITE \<in> known then DF_WEBSITE_PERFORMANCE
      else if FK_REPORTING \<in> known then DF_REPORTING
      else DF_BUSINESS_CONTEXT)"

definition maturity_of :: "(fact_kind, business_fact) dict \<Rightarrow> business_maturity \<times> diagnostic_confidence" where
  "maturity_of facts =
     (let digital = length (filter (\<lambda>k. k \<in> set (dkeys facts)) [FK_WEBSITE, FK_CRM, FK_REPORTING]) in
      if digital \<ge> 3 then (BM_OPTIMIZING, DC_OBSERVED)
      else if digital \<ge> 2 then (BM_GROWING, DC_OBSERVED)
      else if digital = 1 then (BM_EARLY_DIGITAL, DC_OBSERVED)
      else (BM_UNKNOWN, DC_UNKNOWN))"

fun area_for_problem :: "problem_kind \<Rightarrow> capability_area" where
  "area_for_problem PK_FOLLOW_UPS = CA_LEAD_TRACKING"
| "area_for_problem PK_ERRORS = CA_WORKFLOW"
| "area_for_problem PK_SALES = CA_LEAD_TRACKING"
| "area_for_problem PK_MARKETING = CA_ONLINE_PRESENCE"
| "area_for_problem _ = CA_WORKFLOW"

definition diagnose :: "business_snapshot \<Rightarrow> diagnostic_snapshot res" where
  "diagnose s =
     (let facts = latest_by bf_kind (bs_facts s); problems = bs_problems s;
          focus = focus_of facts problems; (maturity, confidence) = maturity_of facts in
      rbind (findings_of facts) (\<lambda>findings.
      rbind (gaps_of (bs_unknown_areas s)) (\<lambda>gaps.
      rbind (diagnostic_hypotheses facts problems) (\<lambda>hypotheses.
      let areas = map fi_area findings;
          primary = (case problems of p # _ \<Rightarrow> Some (area_for_problem (bp_kind p))
            | [] \<Rightarrow> (case areas of a # _ \<Rightarrow> Some a | [] \<Rightarrow> None)) in
      mk_diagnostic_snapshot \<lparr>ds_maturity = maturity, ds_maturity_confidence = confidence,
        ds_findings = findings, ds_capability_gaps = gaps, ds_hypotheses = hypotheses,
        ds_diagnostic_focus = focus, ds_question_concept = focus,
        ds_summary = \<lparr>cs_current_situation = areas, cs_primary_problem = primary,
          cs_secondary_problems = filter (\<lambda>a. Some a \<noteq> primary) areas,
          cs_business_goals = bs_goals s, cs_current_workflow_known = FK_CURRENT_WORKFLOW \<in> set (dkeys facts),
          cs_known_constraints = bs_constraints s, cs_remaining_unknowns = map fi_area gaps\<rparr>\<rparr>))))"

text \<open>
  A diagnosis of a well-formed conversation never raises. Every finding quotes a held fact and
  every gap an unknown area, and no area is both found and missing.
\<close>

lemma diagnose_sound:
  assumes "business_ok s"
  obtains d where "diagnose s = Inr d"
    and "\<forall>x \<in> set (ds_findings d). \<exists>f \<in> set (bs_facts s). fi_support x = [bf_value f]
          \<and> fi_evidence_ids x = [bf_source_turn_id f] \<and> (bf_kind f, fi_area x) \<in> set finding_areas"
    and "\<forall>x \<in> set (ds_capability_gaps d). \<exists>u \<in> bs_unknown_areas s. (u, fi_area x) \<in> set gap_areas"
    and "fi_area ` set (ds_findings d) \<inter> fi_area ` set (ds_capability_gaps d) = {}"
proof -
  let ?facts = "latest_by bf_kind (bs_facts s)"
  have held: "f \<in> set (bs_facts s) \<and> bf_kind f = k" if "dget ?facts k = Some f" for k f
    using that by (auto simp: latest_by_get dest!: last_of_Some)
  let ?pairs = "List.map_filter (\<lambda>(kind, area). map_option (\<lambda>f. (area, f)) (dget ?facts kind)) finding_areas"
  let ?finding = "\<lambda>(area, f). \<lparr>fi_area = area, fi_confidence = DC_OBSERVED, fi_support = [bf_value f],
      fi_evidence_ids = [bf_source_turn_id f]\<rparr>"
  have pairs: "\<forall>(area, f) \<in> set ?pairs. f \<in> set (bs_facts s) \<and> (bf_kind f, area) \<in> set finding_areas"
    using held by (auto simp: map_filter_def)
  have findings: "findings_of ?facts = Inr (map ?finding ?pairs)"
    unfolding findings_of_def
  proof (rule rmap_Inr, rule ballI)
    fix p assume "p \<in> set ?pairs"
    moreover obtain area f where p: "p = (area, f)" by (cases p)
    ultimately have "mk_business_fact f = Inr f" using pairs assms by (auto simp: business_ok_def)
    then show "(case p of (area, f) \<Rightarrow> finding_of area DC_OBSERVED f) = Inr (?finding p)"
      unfolding p by (simp add: finding_of_def mk_finding_def mk_business_fact_def res_simps)
  qed
  have few: "length ?pairs \<le> 5"
    by (simp add: map_filter_def finding_areas_def)
  let ?gap = "\<lambda>(u :: unknown_area, area). \<lparr>fi_area = area, fi_confidence = DC_UNKNOWN,
     fi_support = [capability_value area], fi_evidence_ids = []\<rparr>"
  let ?missing = "filter (\<lambda>(unknown, _). unknown \<in> bs_unknown_areas s) gap_areas"
  have gaps: "gaps_of (bs_unknown_areas s) = Inr (map ?gap ?missing)"
    unfolding gaps_of_def by (rule rmap_Inr) (auto simp: mk_finding_def)
  have few_gaps: "length ?missing \<le> 3" using length_filter_le [of _ gap_areas] by (simp add: gap_areas_def)
  let ?cands = "diagnostic_candidates (set (dkeys ?facts)) (bp_kind ` set (bs_problems s))"
  let ?support = "map (bf_value \<circ> snd) ?facts @ map bp_detail (bs_problems s)"
  let ?ids = "map (bf_source_turn_id \<circ> snd) ?facts @ map bp_source_turn_id (bs_problems s)"
  let ?hyp = "\<lambda>(kind, confidence). \<lparr>dh_kind = kind, dh_confidence = confidence, dh_support = take 6 ?support,
     dh_evidence_ids = take 6 ?ids\<rparr>"
  have cands: "\<forall>(k, c) \<in> set ?cands. c \<noteq> DC_OBSERVED" "?cands \<noteq> [] \<Longrightarrow> ?support \<noteq> []" "length ?cands \<le> 3"
    by (auto simp: diagnostic_candidates_def)
  have "diagnostic_hypotheses ?facts (bs_problems s) = Inr (map ?hyp ?cands)"
    unfolding diagnostic_hypotheses_def Let_def
  proof (rule rmap_Inr, rule ballI)
    fix p assume p: "p \<in> set ?cands"
    then have "snd p \<noteq> DC_OBSERVED" using cands(1) by (cases p) auto
    moreover from p have "?support \<noteq> []" using cands(2) by (metis empty_iff empty_set)
    ultimately show "(case p of (kind, confidence) \<Rightarrow> mk_diagnostic_hypothesis \<lparr>dh_kind = kind,
        dh_confidence = confidence, dh_support = take 6 ?support, dh_evidence_ids = take 6 ?ids\<rparr>) = Inr (?hyp p)"
      by (cases p) (simp add: mk_diagnostic_hypothesis_def)
  qed
  then obtain hs where hs: "diagnostic_hypotheses ?facts (bs_problems s) = Inr hs" "length hs \<le> 3"
    using cands(3) by simp
  obtain m c where "maturity_of ?facts = (m, c)" by force
  then obtain d where d: "diagnose s = Inr d" "ds_findings d = map ?finding ?pairs" "ds_capability_gaps d = map ?gap ?missing"
    using few few_gaps hs by (simp add: diagnose_def findings gaps Let_def mk_diagnostic_snapshot_def)
  have "\<forall>x \<in> set (ds_findings d). \<exists>f \<in> set (bs_facts s). fi_support x = [bf_value f]
        \<and> fi_evidence_ids x = [bf_source_turn_id f] \<and> (bf_kind f, fi_area x) \<in> set finding_areas"
    using pairs unfolding d(2) by fastforce
  moreover have "\<forall>x \<in> set (ds_capability_gaps d). \<exists>u \<in> bs_unknown_areas s. (u, fi_area x) \<in> set gap_areas"
    unfolding d(3) by fastforce
  moreover have "fi_area ` set (ds_findings d) \<inter> fi_area ` set (ds_capability_gaps d) = {}"
  proof -
    have "unknown_of (bf_kind f) \<noteq> Some u" if "f \<in> set (bs_facts s)" "u \<in> bs_unknown_areas s" for f u
    proof
      assume "unknown_of (bf_kind f) = Some u"
      then have "u \<in> known_unknowns (bs_facts s)"
        using that(1) by (force simp: known_unknowns_def map_filter_def)
      then show False using assms that(2) by (auto simp: business_ok_def)
    qed
    moreover have "unknown_of k = Some u" if "(k, a) \<in> set finding_areas" "(u, a) \<in> set gap_areas" for k u a
      using that by (auto simp: finding_areas_def gap_areas_def)
    ultimately show ?thesis
      using pairs unfolding d(2,3) by fastforce
  qed
  ultimately show thesis using d(1) by (intro that)
qed

end
