(* ===== verification/Strategy.thy ===== *)
theory Strategy
  imports Prospect Coordinator
begin

text \<open>
  \<^verbatim>\<open>conversation/strategy\<close>: what the agent should try next, recommended from the stage of the
  sale, the signals of the turn and what is known about the prospect; and
  \<^verbatim>\<open>conversation/supervisor\<close>: the buffer through which a slower second reader of the
  conversation passes guesses and hints to a later turn.
\<close>

section \<open>Vocabulary\<close>

datatype sales_stage =
    Stage_OPENING | Stage_DISCOVERY | Stage_QUALIFICATION | Stage_VALUE_EXPLORATION |
    Stage_NEXT_STEP

fun sales_stage_value :: "sales_stage \<Rightarrow> str" where
  "sales_stage_value Stage_OPENING = ''opening''"
| "sales_stage_value Stage_DISCOVERY = ''discovery''"
| "sales_stage_value Stage_QUALIFICATION = ''qualification''"
| "sales_stage_value Stage_VALUE_EXPLORATION = ''value_exploration''"
| "sales_stage_value Stage_NEXT_STEP = ''next_step''"

definition all_sales_stage :: "sales_stage list" where
  "all_sales_stage =
     [Stage_OPENING, Stage_DISCOVERY, Stage_QUALIFICATION, Stage_VALUE_EXPLORATION,
     Stage_NEXT_STEP]"

lemma sales_stage_of_value [simp]: "enum_of sales_stage_value all_sales_stage (sales_stage_value x) = Inr x"
  by (cases x) (simp_all add: enum_of_def all_sales_stage_def)

datatype conversation_mode =
    Mode_NORMAL | Mode_QUESTION_DETOUR | Mode_OBJECTION | Mode_BUSY | Mode_CLARIFICATION |
    Mode_ROLE_ROUTING

datatype strategy_type =
    Strat_OPEN_CONVERSATION | Strat_DISCOVER_NEED | Strat_UNDERSTAND_CURRENT_SOLUTION | Strat_QUALIFY_NEED |
    Strat_HANDLE_QUESTION | Strat_HANDLE_OBJECTION | Strat_EXPLAIN_VALUE | Strat_ASK_MICRO_COMMITMENT |
    Strat_PROPOSE_NEXT_STEP | Strat_CLARIFY | Strat_ROUTE_TO_DECISION_MAKER | Strat_DISCOVER_BUSINESS_IMPACT

datatype information_gap =
    Gap_ROLE | Gap_CURRENT_WORKFLOW | Gap_PAIN_POINT | Gap_CURRENT_SOLUTION | Gap_SATISFACTION |
    Gap_DECISION_AUTHORITY | Gap_URGENCY | Gap_NEXT_STEP_PREFERENCE

datatype micro_commitment =
    MC_NONE | MC_PERMISSION_TO_CONTINUE | MC_ANSWER_ONE_QUESTION | MC_SEND_INFORMATION |
    MC_SHARE_CONTACT | MC_CALLBACK | MC_DEMO | MC_HUMAN_FOLLOW_UP

record strategy_hint =
  sh_strategy_type :: strategy_type
  sh_confidence :: py_float

definition mk_strategy_hint :: "strategy_hint \<Rightarrow> strategy_hint res" where
  "mk_strategy_hint h = rbind (guard (in_unit (sh_confidence h)) ValueError) (\<lambda>_. Inr h)"

record strategy_input =
  sin_current_stage :: sales_stage
  sin_current_state :: conversation_state
  sin_campaign_goal :: "str option"
  sin_satisfied :: "information_gap set"
  sin_pain_present :: bool
  sin_meaningful_interest :: bool
  sin_busy :: bool
  sin_current_solution_present :: bool
  sin_objection_present :: bool
  sin_question_present :: bool
  sin_clarification_needed :: bool
  sin_explicit_next_step :: "micro_commitment option"
  sin_interruption :: interruption_context
  sin_campaign_context_label :: "str option"
  sin_prospect :: "prospect_snapshot option"
  sin_hint :: "strategy_hint option"

definition mk_strategy_input :: "strategy_input \<Rightarrow> strategy_input res" where
  "mk_strategy_input i =
     rbind (guard (\<forall>g \<in> set_option (sin_campaign_goal i). \<not> length g > 200) ValueError) (\<lambda>_.
     rbind (guard (\<forall>l \<in> set_option (sin_campaign_context_label i). \<not> length l > 100) ValueError) (\<lambda>_. Inr i))"

record strategy =
  sg_sales_stage :: sales_stage
  sg_mode :: conversation_mode
  sg_goal :: str
  sg_type :: strategy_type
  sg_gaps :: "information_gap list"
  sg_micro_commitment :: micro_commitment
  sg_resume_previous_goal :: bool

definition mk_strategy :: "strategy \<Rightarrow> strategy res" where
  "mk_strategy s =
     rbind (guard (\<not> (blank (sg_goal s) \<or> length (sg_goal s) > 240)) ValueError) (\<lambda>_.
     rbind (guard (\<not> (length (sg_gaps s) > 3 \<or> \<not> distinct (sg_gaps s))) ValueError) (\<lambda>_. Inr s))"

section \<open>What is known\<close>

definition GAP_ORDER :: "information_gap list" where
  "GAP_ORDER = [Gap_ROLE, Gap_CURRENT_WORKFLOW, Gap_PAIN_POINT, Gap_CURRENT_SOLUTION, Gap_SATISFACTION,
     Gap_DECISION_AUTHORITY, Gap_URGENCY, Gap_NEXT_STEP_PREFERENCE]"

text \<open>\<^verbatim>\<open>value.explicit_next_step not in (None, MicroCommitment.NONE)\<close>\<close>

definition given_step :: "micro_commitment option \<Rightarrow> bool" where
  "given_step x \<longleftrightarrow> x \<noteq> None \<and> x \<noteq> Some MC_NONE"

text \<open>The gaps that the observed facts fill: \<^verbatim>\<open>satisfied.add(...)\<close> for each.\<close>

definition filled_by :: "observed_facts \<Rightarrow> information_gap set" where
  "filled_by obs =
     (if \<exists>r \<in> set_option (of_role obs). ov_value r \<noteq> PRole_UNKNOWN then {Gap_ROLE} else {})
   \<union> (if of_pains obs \<noteq> [] then {Gap_PAIN_POINT} else {})
   \<union> (case of_solution obs of None \<Rightarrow> {}
      | Some sol \<Rightarrow> insert Gap_CURRENT_SOLUTION (if sc_satisfaction sol \<noteq> Sat_UNKNOWN then {Gap_SATISFACTION} else {}))
   \<union> (if \<exists>a \<in> set_option (of_authority obs). ov_value a \<noteq> DA_UNKNOWN then {Gap_DECISION_AUTHORITY} else {})
   \<union> (if of_timing obs \<noteq> None then {Gap_URGENCY} else {})
   \<union> (if \<exists>n \<in> set_option (of_next_step obs). ov_value n \<noteq> NS_UNKNOWN then {Gap_NEXT_STEP_PREFERENCE} else {})"

definition satisfied_gaps :: "strategy_input \<Rightarrow> information_gap set" where
  "satisfied_gaps i = sin_satisfied i
   \<union> (case sin_prospect i of None \<Rightarrow> {} | Some p \<Rightarrow> filled_by (ps_observed p))
   \<union> (if sin_pain_present i then {Gap_PAIN_POINT} else {})
   \<union> (if sin_current_solution_present i then {Gap_CURRENT_SOLUTION} else {})
   \<union> (if given_step (sin_explicit_next_step i) then {Gap_NEXT_STEP_PREFERENCE} else {})"

definition remaining_gaps :: "strategy_input \<Rightarrow> information_gap list" where
  "remaining_gaps i = take 3 (filter (\<lambda>g. g \<notin> satisfied_gaps i) GAP_ORDER)"

definition role_of :: "strategy_input \<Rightarrow> prospect_role" where
  "role_of i = (case sin_prospect i of None \<Rightarrow> PRole_UNKNOWN
     | Some p \<Rightarrow> (case of_role (ps_observed p) of Some v \<Rightarrow> ov_value v
         | None \<Rightarrow> (case is_role (ps_inferred p) of Some v \<Rightarrow> iv_value v | None \<Rightarrow> PRole_UNKNOWN)))"

definition authority_of :: "strategy_input \<Rightarrow> decision_authority" where
  "authority_of i = (case sin_prospect i of None \<Rightarrow> DA_UNKNOWN
     | Some p \<Rightarrow> (case of_authority (ps_observed p) of Some v \<Rightarrow> ov_value v
         | None \<Rightarrow> (case is_authority (ps_inferred p) of Some v \<Rightarrow> iv_value v | None \<Rightarrow> DA_UNKNOWN)))"

definition objection_of :: "strategy_input \<Rightarrow> objection_type" where
  "objection_of i = (case sin_prospect i of None \<Rightarrow> Obj_NONE
     | Some p \<Rightarrow> (case of_objection (ps_observed p) of Some v \<Rightarrow> ov_value v
         | None \<Rightarrow> (case is_objection (ps_inferred p) of Some v \<Rightarrow> iv_value v | None \<Rightarrow> Obj_NONE)))"

definition has_current_solution :: "strategy_input \<Rightarrow> bool" where
  "has_current_solution i \<longleftrightarrow> sin_current_solution_present i
     \<or> (\<exists>p \<in> set_option (sin_prospect i). of_solution (ps_observed p) \<noteq> None)"

definition has_observed_pain :: "strategy_input \<Rightarrow> bool" where
  "has_observed_pain i \<longleftrightarrow> (\<exists>p \<in> set_option (sin_prospect i). of_pains (ps_observed p) \<noteq> [])"

definition satisfaction_known :: "strategy_input \<Rightarrow> bool" where
  "satisfaction_known i \<longleftrightarrow> Gap_SATISFACTION \<in> sin_satisfied i
     \<or> (\<exists>p \<in> set_option (sin_prospect i). \<exists>sol \<in> set_option (of_solution (ps_observed p)).
          sc_satisfaction sol \<noteq> Sat_UNKNOWN)"

definition observed_true :: "bool observed option \<Rightarrow> bool" where
  "observed_true x \<longleftrightarrow> (\<exists>v \<in> set_option x. ov_value v)"

definition observed_busy :: "strategy_input \<Rightarrow> bool" where
  "observed_busy i \<longleftrightarrow> (\<exists>p \<in> set_option (sin_prospect i). observed_true (of_busy (ps_observed p)))"

definition observed_interest :: "strategy_input \<Rightarrow> bool" where
  "observed_interest i \<longleftrightarrow> (\<exists>p \<in> set_option (sin_prospect i). observed_true (of_interest (ps_observed p)))"

fun commitment_for :: "next_step \<Rightarrow> micro_commitment option" where
  "commitment_for NS_SEND_INFORMATION = Some MC_SEND_INFORMATION"
| "commitment_for NS_CALLBACK = Some MC_CALLBACK"
| "commitment_for NS_DEMO = Some MC_DEMO"
| "commitment_for NS_HUMAN_FOLLOW_UP = Some MC_HUMAN_FOLLOW_UP"
| "commitment_for NS_EMAIL = Some MC_SHARE_CONTACT"
| "commitment_for _ = None"

definition preferred_micro_commitment :: "strategy_input \<Rightarrow> micro_commitment option" where
  "preferred_micro_commitment i = (case sin_prospect i of None \<Rightarrow> None
     | Some p \<Rightarrow> if observed_true (of_human (ps_observed p)) then Some MC_HUMAN_FOLLOW_UP
         else commitment_for (case of_next_step (ps_observed p) of Some v \<Rightarrow> ov_value v
           | None \<Rightarrow> (case is_next_step (ps_inferred p) of Some v \<Rightarrow> iv_value v | None \<Rightarrow> NS_UNKNOWN)))"

definition has_explicit_next_step :: "strategy_input \<Rightarrow> bool" where
  "has_explicit_next_step i \<longleftrightarrow> given_step (sin_explicit_next_step i)
     \<or> (\<exists>p \<in> set_option (sin_prospect i). of_next_step (ps_observed p) \<noteq> None \<or> observed_true (of_human (ps_observed p)))"

definition satisfaction_first :: "information_gap list \<Rightarrow> information_gap list" where
  "satisfaction_first gaps = take 3 (Gap_SATISFACTION # filter (\<lambda>g. g \<noteq> Gap_SATISFACTION) gaps)"

definition opening_goal :: "str option \<Rightarrow> str" where
  "opening_goal goal = (case goal of
       None \<Rightarrow> ''open the conversation and earn permission to continue''
     | Some g \<Rightarrow> if blank g then ''open the conversation and earn permission to continue''
         else take 240 (''earn permission to explore the configured goal: '' @ g))"

section \<open>The recommendation\<close>

definition strategy_with ::
  "sales_stage \<Rightarrow> conversation_mode \<Rightarrow> str \<Rightarrow> strategy_type \<Rightarrow> information_gap list \<Rightarrow> micro_commitment \<Rightarrow> bool
    \<Rightarrow> strategy res" where
  "strategy_with stage mode goal t gaps micro resume = mk_strategy \<lparr>sg_sales_stage = stage, sg_mode = mode,
     sg_goal = goal, sg_type = t, sg_gaps = gaps, sg_micro_commitment = micro, sg_resume_previous_goal = resume\<rparr>"

text \<open>The step the input names, or else the one the prospect prefers.\<close>

definition step_of :: "strategy_input \<Rightarrow> micro_commitment option" where
  "step_of i = (if given_step (sin_explicit_next_step i) then sin_explicit_next_step i
     else preferred_micro_commitment i)"

text \<open>The part of \<^verbatim>\<open>recommend\<close> after the signals of the turn: by the stage of the sale.\<close>

definition recommend_by_stage :: "strategy_input \<Rightarrow> strategy res" where
  "recommend_by_stage i =
     (let gaps = remaining_gaps i; stage = sin_current_stage i; role = role_of i;
          interested = (sin_meaningful_interest i \<or> observed_interest i);
          pain_present = (sin_pain_present i \<or> has_observed_pain i) in
      if stage = Stage_OPENING then
        (if sin_current_state i = St_NEW_CALL \<or> sin_current_state i = St_GREETING
         then strategy_with Stage_OPENING Mode_NORMAL (opening_goal (sin_campaign_goal i)) Strat_OPEN_CONVERSATION
           gaps MC_PERMISSION_TO_CONTINUE False
         else strategy_with Stage_DISCOVERY Mode_NORMAL ''understand the prospect's current workflow and unmet need''
           Strat_DISCOVER_NEED gaps MC_NONE False)
      else if stage = Stage_DISCOVERY then
        (if pain_present then
           strategy_with Stage_VALUE_EXPLORATION Mode_NORMAL
             ''connect the established need to relevant value without overclaiming'' Strat_EXPLAIN_VALUE gaps MC_NONE False
         else if interested then
           (if gaps = [] then
              strategy_with Stage_NEXT_STEP Mode_NORMAL ''ask which reasonable next step the prospect prefers''
                Strat_ASK_MICRO_COMMITMENT [] MC_ANSWER_ONE_QUESTION False
            else
              strategy_with Stage_VALUE_EXPLORATION Mode_NORMAL
                ''explore relevant value while resolving the highest-priority gap'' Strat_EXPLAIN_VALUE gaps MC_NONE False)
         else if role = PRole_OWNER \<or> role = PRole_DECISION_MAKER \<or> authority_of i = DA_HIGH \<or> authority_of i = DA_FINAL then
           strategy_with Stage_DISCOVERY Mode_NORMAL
             ''understand the business impact and highest-priority unmet need'' Strat_DISCOVER_BUSINESS_IMPACT gaps MC_NONE False
         else if role = PRole_MANAGER \<or> role = PRole_ASSISTANT_MANAGER then
           (if \<exists>h \<in> set_option (sin_hint i). sh_strategy_type h = Strat_DISCOVER_BUSINESS_IMPACT then
              strategy_with Stage_DISCOVERY Mode_NORMAL
                ''understand operational business impact and the current workflow'' Strat_DISCOVER_BUSINESS_IMPACT gaps MC_NONE False
            else
              strategy_with Stage_DISCOVERY Mode_NORMAL ''understand the current workflow and operational impact''
                Strat_DISCOVER_NEED gaps MC_NONE False)
         else if sin_prospect i \<noteq> None \<and> role = PRole_UNKNOWN then
           strategy_with Stage_QUALIFICATION Mode_NORMAL ''lightly clarify the prospect's role and current workflow''
             Strat_QUALIFY_NEED gaps MC_NONE False
         else
           strategy_with Stage_DISCOVERY Mode_NORMAL ''learn the highest-priority missing information''
             Strat_DISCOVER_NEED gaps MC_NONE False)
      else if stage = Stage_VALUE_EXPLORATION then
        (if interested \<and> gaps = [] then
           strategy_with Stage_NEXT_STEP Mode_NORMAL ''ask which reasonable next step the prospect prefers''
             Strat_ASK_MICRO_COMMITMENT [] MC_ANSWER_ONE_QUESTION False
         else
           strategy_with Stage_VALUE_EXPLORATION Mode_NORMAL
             ''explain relevant value while resolving the remaining information gap'' Strat_EXPLAIN_VALUE gaps MC_NONE False)
      else strategy_with stage Mode_NORMAL ''qualify the next missing point without forcing a scripted sequence''
        Strat_QUALIFY_NEED gaps MC_NONE False)"

definition recommend :: "strategy_input \<Rightarrow> strategy res" where
  "recommend i =
     (let gaps = remaining_gaps i; stage = sin_current_stage i;
          resumable = (\<exists>p \<in> set_option (ict_previous_intent (sin_interruption i)). intent_active p);
          role = role_of i; objection = objection_of i;
          current_solution = has_current_solution i; known = satisfaction_known i;
          next_step = step_of i in
      if objection = Obj_ALREADY_HAVE_PROVIDER \<and> current_solution \<and> \<not> known then
        strategy_with stage Mode_OBJECTION ''understand satisfaction and any gap in the current solution''
          Strat_UNDERSTAND_CURRENT_SOLUTION (satisfaction_first gaps) MC_NONE False
      else if sin_objection_present i \<or> (objection \<noteq> Obj_NONE \<and> objection \<noteq> Obj_UNKNOWN) then
        strategy_with stage Mode_OBJECTION ''understand and address the prospect's objection before progressing''
          Strat_HANDLE_OBJECTION gaps MC_NONE False
      else if sin_question_present i then
        strategy_with stage Mode_QUESTION_DETOUR
          ''answer the prospect's question safely before returning to the prior goal''
          Strat_HANDLE_QUESTION gaps MC_ANSWER_ONE_QUESTION resumable
      else if sin_clarification_needed i then
        strategy_with stage Mode_CLARIFICATION ''clarify the current meaning before continuing'' Strat_CLARIFY gaps MC_NONE False
      else if sin_busy i \<or> observed_busy i then
        strategy_with stage Mode_BUSY ''reduce pressure and ask for the smallest reasonable next step''
          Strat_ASK_MICRO_COMMITMENT gaps MC_CALLBACK False
      else if given_step next_step then
        strategy_with Stage_NEXT_STEP Mode_NORMAL
          (if has_explicit_next_step i then ''respond to the prospect's explicit request for a next step''
           else ''explore the likely preferred next step without assuming commitment'')
          Strat_PROPOSE_NEXT_STEP gaps (the next_step) False
      else if current_solution \<and> \<not> known then
        strategy_with stage Mode_NORMAL ''understand satisfaction and any gap in the current solution''
          Strat_UNDERSTAND_CURRENT_SOLUTION (satisfaction_first gaps) MC_NONE False
      else if role = PRole_RECEPTIONIST \<or> role = PRole_GATEKEEPER then
        strategy_with stage Mode_ROLE_ROUTING
          ''state the purpose briefly and respectfully identify the appropriate person''
          Strat_ROUTE_TO_DECISION_MAKER gaps MC_NONE False
      else recommend_by_stage i)"

section \<open>The supervisor\<close>

record 'c supervisor_input =
  svi_call_id :: str
  svi_turn_id :: str
  svi_source_turn_sequence :: int
  svi_context :: 'c

definition mk_supervisor_input :: "'c supervisor_input \<Rightarrow> 'c supervisor_input res" where
  "mk_supervisor_input i =
     rbind (guard (turn_id_ok (svi_call_id i)) ValueError) (\<lambda>_.
     rbind (guard (turn_id_ok (svi_turn_id i)) ValueError) (\<lambda>_.
     rbind (guard (\<not> svi_source_turn_sequence i < 0) ValueError) (\<lambda>_. Inr i)))"

record supervisor_insight =
  sup_call_id :: str
  sup_source_turn_id :: str
  sup_source_turn_sequence :: int
  sup_evidence :: "prospect_evidence option"
  sup_hint :: "strategy_hint option"

definition mk_insight :: "supervisor_insight \<Rightarrow> supervisor_insight res" where
  "mk_insight x =
     rbind (guard (turn_id_ok (sup_call_id x)) ValueError) (\<lambda>_.
     rbind (guard (turn_id_ok (sup_source_turn_id x)) ValueError) (\<lambda>_.
     rbind (guard (\<not> sup_source_turn_sequence x < 0) ValueError) (\<lambda>_.
     rbind (guard (\<not> (sup_evidence x = None \<and> sup_hint x = None)) ValueError) (\<lambda>_.
     case sup_evidence x of
       None \<Rightarrow> Inr x
     | Some e \<Rightarrow> rbind (guard (pev_observed e = None) ValueError) (\<lambda>_.
         rbind (guard (\<exists>g \<in> set_option (pev_inferred e). ie_source_turn_id g = sup_source_turn_id x) ValueError) (\<lambda>_.
         Inr x))))))"

datatype buffer_write = BW_ACCEPTED | BW_STALE_REJECTED | BW_DUPLICATE_IGNORED | BW_INVALID_REJECTED

text \<open>The buffer; its snapshot has the same fields.\<close>

record strategy_buffer =
  sbf_call_id :: str
  sbf_latest :: "supervisor_insight option"
  sbf_consumed :: "int option"

definition new_buffer :: "str \<Rightarrow> strategy_buffer res" where
  "new_buffer call_id = rbind (guard (turn_id_ok call_id) ValueError) (\<lambda>_.
     Inr \<lparr>sbf_call_id = call_id, sbf_latest = None, sbf_consumed = None\<rparr>)"

definition buffer_record :: "supervisor_insight \<Rightarrow> strategy_buffer \<Rightarrow> buffer_write \<times> strategy_buffer" where
  "buffer_record x b =
     (if sup_call_id x \<noteq> sbf_call_id b then (BW_INVALID_REJECTED, b)
      else let accepted = (BW_ACCEPTED, b\<lparr>sbf_latest := Some x, sbf_consumed := None\<rparr>) in
      case sbf_latest b of
        None \<Rightarrow> accepted
      | Some l \<Rightarrow>
          if sup_source_turn_sequence x < sup_source_turn_sequence l then (BW_STALE_REJECTED, b)
          else if sup_source_turn_sequence x = sup_source_turn_sequence l then (BW_DUPLICATE_IGNORED, b)
          else accepted)"

definition latest_applicable_for :: "int \<Rightarrow> strategy_buffer \<Rightarrow> supervisor_insight option res" where
  "latest_applicable_for n b =
     (if n < 0 then Inl ValueError
      else Inr (case sbf_latest b of
          None \<Rightarrow> None
        | Some x \<Rightarrow> if sup_source_turn_sequence x \<ge> n then None
            else if Some (sup_source_turn_sequence x) = sbf_consumed b then None else Some x))"

definition consume_for :: "int \<Rightarrow> strategy_buffer \<Rightarrow> supervisor_insight option res \<times> strategy_buffer" where
  "consume_for n b = (case latest_applicable_for n b of
       Inr (Some x) \<Rightarrow> (Inr (Some x), b\<lparr>sbf_consumed := Some (sup_source_turn_sequence x)\<rparr>)
     | other \<Rightarrow> (other, b))"

datatype supervisor_outcome = SO_STORED | SO_STALE_REJECTED | SO_DUPLICATE_IGNORED | SO_FAILED | SO_INVALID_OUTPUT

fun run_outcome :: "buffer_write \<Rightarrow> supervisor_outcome" where
  "run_outcome BW_ACCEPTED = SO_STORED"
| "run_outcome BW_STALE_REJECTED = SO_STALE_REJECTED"
| "run_outcome BW_DUPLICATE_IGNORED = SO_DUPLICATE_IGNORED"
| "run_outcome BW_INVALID_REJECTED = SO_INVALID_OUTPUT"

definition matches_input :: "supervisor_insight option \<Rightarrow> 'c supervisor_input \<Rightarrow> bool" where
  "matches_input x i \<longleftrightarrow> (\<exists>v \<in> set_option x. sup_call_id v = svi_call_id i
     \<and> sup_source_turn_id v = svi_turn_id i \<and> sup_source_turn_sequence v = svi_source_turn_sequence i)"

text \<open>
  The provider is an argument; it may raise, and \<open>None\<close> stands for an answer that is not an
  insight. Only its declared exception is caught.
\<close>

definition analyze ::
  "('c supervisor_input \<Rightarrow> supervisor_insight option res) \<Rightarrow> 'c supervisor_input \<Rightarrow> strategy_buffer
    \<Rightarrow> (supervisor_outcome \<times> strategy_buffer) res \<times> strategy_buffer" where
  "analyze provider i b =
     (case provider i of
        Inl e \<Rightarrow> (if e = SupervisorError then Inr (SO_FAILED, b) else Inl e, b)
      | Inr x \<Rightarrow>
          if \<not> matches_input x i then (Inr (SO_INVALID_OUTPUT, b), b)
          else (case buffer_record (the x) b of (w, b') \<Rightarrow> (Inr (run_outcome w, b'), b')))"

section \<open>What the recommendation guarantees\<close>

fun stage_rank :: "sales_stage \<Rightarrow> nat" where
  "stage_rank Stage_OPENING = 0" | "stage_rank Stage_DISCOVERY = 1" | "stage_rank Stage_QUALIFICATION = 2"
| "stage_rank Stage_VALUE_EXPLORATION = 3" | "stage_rank Stage_NEXT_STEP = 4"

lemma stage_rank_le [simp]: "stage_rank x \<le> 4"
  by (cases x) simp_all

definition objected :: "strategy_input \<Rightarrow> bool" where
  "objected i \<longleftrightarrow> sin_objection_present i \<or> (objection_of i \<noteq> Obj_NONE \<and> objection_of i \<noteq> Obj_UNKNOWN)"

text \<open>How the signals of a turn are ranked.\<close>

definition mode_for :: "strategy_input \<Rightarrow> conversation_mode" where
  "mode_for i =
     (if objected i then Mode_OBJECTION
      else if sin_question_present i then Mode_QUESTION_DETOUR
      else if sin_clarification_needed i then Mode_CLARIFICATION
      else if sin_busy i \<or> observed_busy i then Mode_BUSY
      else if \<not> given_step (step_of i) \<and> \<not> (has_current_solution i \<and> \<not> satisfaction_known i)
        \<and> (role_of i = PRole_RECEPTIONIST \<or> role_of i = PRole_GATEKEEPER) then Mode_ROLE_ROUTING
      else Mode_NORMAL)"

definition gaps_ok :: "strategy_input \<Rightarrow> information_gap list \<Rightarrow> bool" where
  "gaps_ok i gaps \<longleftrightarrow> length gaps \<le> 3 \<and> distinct gaps \<and> set gaps \<inter> satisfied_gaps i = {}"

lemma blank_Cons [simp]: "blank (c # s) \<longleftrightarrow> py_isspace c \<and> blank s"
  by (simp add: blank_iff)

definition goal_ok :: "str \<Rightarrow> bool" where
  "goal_ok g \<longleftrightarrow> \<not> blank g \<and> length g \<le> 240"

lemma goal_texts [simp]:
  "goal_ok ''understand satisfaction and any gap in the current solution''"
  "goal_ok ''understand and address the prospect's objection before progressing''"
  "goal_ok ''answer the prospect's question safely before returning to the prior goal''"
  "goal_ok ''clarify the current meaning before continuing''"
  "goal_ok ''reduce pressure and ask for the smallest reasonable next step''"
  "goal_ok ''respond to the prospect's explicit request for a next step''"
  "goal_ok ''explore the likely preferred next step without assuming commitment''"
  "goal_ok ''state the purpose briefly and respectfully identify the appropriate person''"
  "goal_ok ''understand the prospect's current workflow and unmet need''"
  "goal_ok ''connect the established need to relevant value without overclaiming''"
  "goal_ok ''ask which reasonable next step the prospect prefers''"
  "goal_ok ''explore relevant value while resolving the highest-priority gap''"
  "goal_ok ''understand the business impact and highest-priority unmet need''"
  "goal_ok ''understand operational business impact and the current workflow''"
  "goal_ok ''understand the current workflow and operational impact''"
  "goal_ok ''lightly clarify the prospect's role and current workflow''"
  "goal_ok ''learn the highest-priority missing information''"
  "goal_ok ''explain relevant value while resolving the remaining information gap''"
  "goal_ok ''qualify the next missing point without forcing a scripted sequence''"
  "goal_ok ''open the conversation and earn permission to continue''"
  by (simp_all add: goal_ok_def py_isspace_def)

lemma goal_ok_opening [simp]: "goal_ok (opening_goal g)"
  by (auto simp: opening_goal_def goal_ok_def py_isspace_def split: option.splits)

lemma strategy_with_Inr:
  "goal_ok goal \<Longrightarrow> gaps_ok i gaps \<Longrightarrow> strategy_with stage mode goal t gaps micro resume = Inr \<lparr>sg_sales_stage = stage,
     sg_mode = mode, sg_goal = goal, sg_type = t, sg_gaps = gaps, sg_micro_commitment = micro,
     sg_resume_previous_goal = resume\<rparr>"
  by (simp add: strategy_with_def mk_strategy_def goal_ok_def gaps_ok_def)

lemma remaining_gaps_ok: "gaps_ok i (remaining_gaps i)"
  by (auto simp: gaps_ok_def remaining_gaps_def GAP_ORDER_def dest!: in_set_takeD)

lemma satisfaction_unknown: "\<not> satisfaction_known i \<Longrightarrow> Gap_SATISFACTION \<notin> satisfied_gaps i"
  by (auto simp: satisfied_gaps_def satisfaction_known_def filled_by_def split: option.splits if_splits)

lemma satisfaction_first_ok:
  assumes "\<not> satisfaction_known i"
  shows "gaps_ok i (satisfaction_first (remaining_gaps i))"
  using remaining_gaps_ok [of i] satisfaction_unknown [OF assms]
  by (auto simp: gaps_ok_def satisfaction_first_def distinct_take dest!: in_set_takeD)

lemma no_gaps_ok: "gaps_ok i []"
  by (simp add: gaps_ok_def)

text \<open>What a recommendation owes its input.\<close>

definition follows_input :: "strategy_input \<Rightarrow> strategy \<Rightarrow> bool" where
  "follows_input i s \<longleftrightarrow> stage_rank (sin_current_stage i) \<le> stage_rank (sg_sales_stage s)
     \<and> gaps_ok i (sg_gaps s) \<and> goal_ok (sg_goal s) \<and> sg_mode s = mode_for i
     \<and> (sg_type s = Strat_HANDLE_QUESTION \<longleftrightarrow> mode_for i = Mode_QUESTION_DETOUR)
     \<and> (sg_resume_previous_goal s \<longrightarrow> sg_type s = Strat_HANDLE_QUESTION
          \<and> (\<exists>p. ict_previous_intent (sin_interruption i) = Some p \<and> intent_active p))
     \<and> (sg_type s = Strat_PROPOSE_NEXT_STEP \<longrightarrow> Some (sg_micro_commitment s) = step_of i
          \<and> (has_explicit_next_step i \<or> sg_goal s = ''explore the likely preferred next step without assuming commitment''))
     \<and> (sg_sales_stage s = Stage_VALUE_EXPLORATION \<and> sin_current_stage i = Stage_DISCOVERY \<longrightarrow>
          sin_pain_present i \<or> has_observed_pain i \<or> sin_meaningful_interest i \<or> observed_interest i)"

lemma recommend_by_stage_follows:
  assumes "mode_for i = Mode_NORMAL"
  shows "\<exists>s. recommend_by_stage i = Inr s \<and> follows_input i s"
  using remaining_gaps_ok [of i] no_gaps_ok [of i] assms
  by (cases "sin_current_stage i")
    (simp_all add: recommend_by_stage_def Let_def strategy_with_Inr [where i = i] follows_input_def)


text \<open>
  Qualification is left for a next step only: neither pain, nor interest, nor an owner on the
  line ever brings the call to the stage that explores value.
\<close>

lemma strategy_with_stage: "strategy_with stage mode goal t gaps micro resume = Inr s \<Longrightarrow> sg_sales_stage s = stage"
  by (auto simp: strategy_with_def mk_strategy_def res_simps)

lemma qualification_is_not_left:
  assumes "sin_current_stage i = Stage_QUALIFICATION" and "recommend i = Inr s"
  shows "sg_sales_stage s = Stage_QUALIFICATION \<or> sg_sales_stage s = Stage_NEXT_STEP"
proof -
  have "recommend_by_stage i = Inr s \<Longrightarrow> sg_sales_stage s = Stage_QUALIFICATION"
    using assms(1) by (simp add: recommend_by_stage_def Let_def strategy_with_stage)
  with assms show ?thesis
    unfolding recommend_def Let_def by (auto dest: strategy_with_stage simp del: list.inject split: if_split_asm)
qed

section \<open>What the supervisor can do\<close>

datatype buffer_event = Supervised supervisor_insight | Turn int

text \<open>The buffer and the insights taken from it, each with the turn that took it.\<close>

fun supervise ::
  "strategy_buffer \<times> (int \<times> supervisor_insight) list \<Rightarrow> buffer_event \<Rightarrow> strategy_buffer \<times> (int \<times> supervisor_insight) list" where
  "supervise (b, used) (Supervised x) = (snd (buffer_record x b), used)"
| "supervise (b, used) (Turn n) = (case consume_for n b of (out, b') \<Rightarrow>
     (b', used @ (case out of Inr (Some x) \<Rightarrow> [(n, x)] | _ \<Rightarrow> [])))"

lemma buffer_record_cases:
  "snd (buffer_record x b) = b \<or> sup_call_id x = sbf_call_id b
     \<and> snd (buffer_record x b) = b\<lparr>sbf_latest := Some x, sbf_consumed := None\<rparr>"
  by (simp add: buffer_record_def Let_def split: option.split)

lemma supervise_turn_cases:
  "supervise (b, used) (Turn n) = (b, used) \<or> (\<exists>x. sbf_latest b = Some x \<and> sup_source_turn_sequence x < n
     \<and> sbf_consumed b \<noteq> Some (sup_source_turn_sequence x)
     \<and> supervise (b, used) (Turn n) = (b\<lparr>sbf_consumed := Some (sup_source_turn_sequence x)\<rparr>, used @ [(n, x)]))"
  by (auto simp: consume_for_def latest_applicable_for_def split: option.splits)

abbreviation seq_of :: "int \<times> supervisor_insight \<Rightarrow> int" where
  "seq_of \<equiv> \<lambda>u. sup_source_turn_sequence (snd u)"

definition used_ok :: "strategy_buffer \<times> (int \<times> supervisor_insight) list \<Rightarrow> bool" where
  "used_ok s \<longleftrightarrow> (case s of (b, used) \<Rightarrow>
     sorted_wrt (<) (map seq_of used)
     \<and> (\<forall>u \<in> set used. seq_of u < fst u \<and> (\<exists>l. sbf_latest b = Some l \<and> seq_of u \<le> sup_source_turn_sequence l
          \<and> (seq_of u = sup_source_turn_sequence l \<longrightarrow> sbf_consumed b = Some (sup_source_turn_sequence l)))))"

interpretation supervised: kept supervise used_ok
proof unfold_locales
  fix s e assume ok: "used_ok s"
  obtain b used where s: "s = (b, used)" by force
  show "used_ok (supervise s e)"
  proof (cases e)
    case (Supervised x)
    have "used_ok (snd (buffer_record x b), used)"
    proof (cases "snd (buffer_record x b) = b")
      case True
      with ok s show ?thesis by simp
    next
      case False
      have newer: "\<forall>l \<in> set_option (sbf_latest b). sup_source_turn_sequence l < sup_source_turn_sequence x"
        using False by (auto simp: buffer_record_def Let_def split: if_splits)
      with False ok s buffer_record_cases [of x b] show ?thesis by (fastforce simp: used_ok_def)
    qed
    with s Supervised show ?thesis by simp
  next
    case (Turn n)
    with ok s supervise_turn_cases [of b used n] show ?thesis
      by (fastforce simp: used_ok_def sorted_wrt_append)
  qed
qed

definition recorded_in :: "str \<Rightarrow> buffer_event list \<Rightarrow> supervisor_insight \<Rightarrow> bool" where
  "recorded_in call events x \<longleftrightarrow> Supervised x \<in> set events \<and> sup_call_id x = call"

lemma used_were_recorded:
  assumes "foldl supervise (b0, []) events = (b, used)" and "sbf_latest b0 = None"
  shows "sbf_call_id b = sbf_call_id b0 \<and> pred_option (recorded_in (sbf_call_id b0) events) (sbf_latest b)
    \<and> (\<forall>u \<in> set used. recorded_in (sbf_call_id b0) events (snd u))"
  using assms(1)
proof (induction events arbitrary: b used rule: rev_induct)
  case Nil
  with assms(2) show ?case by auto
next
  case (snoc e events)
  let ?call = "sbf_call_id b0"
  have mono: "recorded_in ?call events x \<Longrightarrow> recorded_in ?call (events @ [e]) x" for x
    by (simp add: recorded_in_def)
  obtain b1 used1 where run: "foldl supervise (b0, []) events = (b1, used1)" by force
  from snoc.IH [OF run] have IH: "sbf_call_id b1 = ?call"
    "pred_option (recorded_in ?call (events @ [e])) (sbf_latest b1)"
    "\<forall>u \<in> set used1. recorded_in ?call (events @ [e]) (snd u)"
    using mono by (auto simp: option.pred_set)
  show ?case
  proof (cases e)
    case (Supervised x)
    have b: "b = snd (buffer_record x b1)" and used: "used = used1"
      using snoc.prems run Supervised by simp_all
    from buffer_record_cases [of x b1] show ?thesis
    proof
      assume "snd (buffer_record x b1) = b1"
      with b used IH show ?thesis by simp
    next
      assume new: "sup_call_id x = sbf_call_id b1 \<and> snd (buffer_record x b1) = b1\<lparr>sbf_latest := Some x, sbf_consumed := None\<rparr>"
      have "recorded_in ?call (events @ [e]) x" using new IH(1) Supervised by (simp add: recorded_in_def)
      with new b used IH show ?thesis by simp
    qed
  next
    case (Turn n)
    have step: "supervise (b1, used1) (Turn n) = (b, used)" using snoc.prems run Turn by simp
    from supervise_turn_cases [of b1 used1 n] show ?thesis
    proof (elim disjE exE conjE)
      assume "supervise (b1, used1) (Turn n) = (b1, used1)"
      with step IH show ?thesis by simp
    next
      fix y assume y: "sbf_latest b1 = Some y"
        "supervise (b1, used1) (Turn n) = (b1\<lparr>sbf_consumed := Some (sup_source_turn_sequence y)\<rparr>, used1 @ [(n, y)])"
      from y(2) step have "b = b1\<lparr>sbf_consumed := Some (sup_source_turn_sequence y)\<rparr>" "used = used1 @ [(n, y)]" by simp_all
      with IH y(1) show ?thesis by simp
    qed
  qed
qed

lemma insight_states_no_fact:
  assumes "mk_insight x = Inr x" and "sup_evidence x = Some e" and "prospect_update p e = Inr p'"
  shows "ps_observed p' = ps_observed p"
proof -
  have "pev_observed e = None"
    using assms(1,2) by (auto simp: mk_insight_def res_simps)
  then have "merge_observed (ps_observed p) g (pev_observed e) = Inr (ps_observed p, clear_shadowed_inferences (ps_observed p) g)" for g
    by (simp add: merge_observed_def)
  with assms(3) show ?thesis
    by (auto simp: prospect_update_def res_simps simp del: split_paired_Ex)
qed


definition guessed_insight :: supervisor_insight where
  "guessed_insight = \<lparr>sup_call_id = ''call'', sup_source_turn_id = ie_source_turn_id no_inferred_evidence,
     sup_source_turn_sequence = 3, sup_evidence = None,
     sup_hint = Some \<lparr>sh_strategy_type = Strat_DISCOVER_BUSINESS_IMPACT, sh_confidence = Fin (1 / 2)\<rparr>\<rparr>"

definition call_buffer :: strategy_buffer where
  "call_buffer = \<lparr>sbf_call_id = ''call'', sbf_latest = None, sbf_consumed = None\<rparr>"


end
