(* ===== verification/Context.thy ===== *)
theory Context
  imports Strategy Engine Policies
begin

text \<open>
  \<^verbatim>\<open>conversation/context\<close> and \<^verbatim>\<open>brain/business_intelligence.py\<close>: the signals about a business,
  and the builder of the lean context, the only view of a call that the language models get.
  \<^verbatim>\<open>EvidenceConflictError\<close> is a subclass of \<^verbatim>\<open>ValueError\<close> and is \<^term>\<open>ValueError\<close> here. The views
  for the brain and for the supervisor wrap the context and nothing else.
\<close>

section \<open>Signals about a business\<close>

datatype source_kind = SK_CLIENT_STATED | SK_AGENT_STATED | SK_LEAD_IMPORT | SK_EXTERNAL_DATA

record signal_provenance =
  spv_source_kind :: source_kind
  spv_source_turn :: "int option"
  spv_detail :: "str option"

record observed_signal =
  osg_field :: str
  osg_value :: str
  osg_provenance :: signal_provenance

record inferred_signal =
  isg_field :: str
  isg_value :: str
  isg_confidence :: py_float
  isg_basis :: "str list"
  isg_source_turn :: "int option"

text \<open>A known unknown is the name of its field.\<close>

record business_intelligence =
  bi_observed :: "observed_signal list"
  bi_inferred :: "inferred_signal list"
  bi_unknown :: "str list"

definition record_observed :: "str \<Rightarrow> str \<Rightarrow> signal_provenance \<Rightarrow> business_intelligence \<Rightarrow> business_intelligence" where
  "record_observed f v p bi = bi\<lparr>bi_observed := bi_observed bi @ [\<lparr>osg_field = f, osg_value = v, osg_provenance = p\<rparr>],
     bi_unknown := filter (\<lambda>u. u \<noteq> f) (bi_unknown bi)\<rparr>"

definition record_inferred ::
  "str \<Rightarrow> str \<Rightarrow> py_float \<Rightarrow> str list \<Rightarrow> int option \<Rightarrow> business_intelligence \<Rightarrow> business_intelligence" where
  "record_inferred f v c basis turn bi = bi\<lparr>bi_inferred := bi_inferred bi @ [\<lparr>isg_field = f, isg_value = v,
     isg_confidence = c, isg_basis = basis, isg_source_turn = turn\<rparr>]\<rparr>"

definition record_unknown :: "str \<Rightarrow> business_intelligence \<Rightarrow> business_intelligence" where
  "record_unknown f bi = (if f \<in> set (bi_unknown bi) then bi else bi\<lparr>bi_unknown := bi_unknown bi @ [f]\<rparr>)"

text \<open>\<^verbatim>\<open>matches[-1] if matches else None\<close>\<close>

definition last_match :: "('a \<Rightarrow> bool) \<Rightarrow> 'a list \<Rightarrow> 'a option" where
  "last_match P xs = (case filter P xs of [] \<Rightarrow> None | ms \<Rightarrow> Some (last ms))"

definition latest_observed :: "str \<Rightarrow> business_intelligence \<Rightarrow> observed_signal option" where
  "latest_observed f bi = last_match (\<lambda>s. osg_field s = f) (bi_observed bi)"

definition latest_inferred :: "str \<Rightarrow> business_intelligence \<Rightarrow> inferred_signal option" where
  "latest_inferred f bi = last_match (\<lambda>s. isg_field s = f) (bi_inferred bi)"

definition bi_is_known :: "str \<Rightarrow> business_intelligence \<Rightarrow> bool" where
  "bi_is_known f bi \<longleftrightarrow> (\<exists>s \<in> set (bi_observed bi). osg_field s = f)"

section \<open>The parts of a lean context\<close>

record context_bounds =
  cb_message_chars :: int
  cb_recent_turns :: int
  cb_recent_turn_chars :: int
  cb_evidence_items :: int
  cb_service_ids :: int
  cb_business_fields :: int
  cb_discovery_priorities :: int

definition mk_context_bounds :: "context_bounds \<Rightarrow> context_bounds res" where
  "mk_context_bounds b = rbind (guard (\<not> (cb_message_chars b \<le> 0 \<or> cb_recent_turns b \<le> 0
     \<or> cb_recent_turn_chars b \<le> 0 \<or> cb_evidence_items b \<le> 0 \<or> cb_service_ids b \<le> 0
     \<or> cb_business_fields b \<le> 0 \<or> cb_discovery_priorities b \<le> 0)) ValueError) (\<lambda>_. Inr b)"

definition DEFAULT_CONTEXT_BOUNDS :: context_bounds where
  "DEFAULT_CONTEXT_BOUNDS = \<lparr>cb_message_chars = 2000, cb_recent_turns = 4, cb_recent_turn_chars = 300,
     cb_evidence_items = 8, cb_service_ids = 12, cb_business_fields = 6, cb_discovery_priorities = 4\<rparr>"

datatype turn_speaker = Speaker_USER | Speaker_AGENT

record recent_turn =
  rtn_turn_id :: str
  rtn_speaker :: turn_speaker
  rtn_content :: str

definition mk_recent_turn :: "recent_turn \<Rightarrow> recent_turn res" where
  "mk_recent_turn t = rbind (guard (text_within 100 (rtn_turn_id t)) ValueError) (\<lambda>_.
     rbind (guard (text_within 300 (rtn_content t)) ValueError) (\<lambda>_. Inr t))"

definition mk_user_input :: "str \<Rightarrow> str res" where
  "mk_user_input m = rbind (guard (text_within 2000 m) ValueError) (\<lambda>_. Inr m)"

datatype evidence_type =
    ET_SERVICE_DESCRIPTION | ET_APPROVED_CLAIM | ET_CASE_STUDY | ET_TECHNICAL_FACT | ET_POLICY_FACT

datatype evidence_origin =
    EO_CATALOG_CLAIM | EO_CURATED_CAMPAIGN | EO_CURATED_SERVICE | EO_TRUSTED_POLICY

datatype evidence_scope_kind =
    ESK_GLOBAL | ESK_CAMPAIGN | ESK_SERVICE

record evidence_scope =
  esc_kind :: evidence_scope_kind
  esc_scope_id :: "str option"

definition some_text :: "nat \<Rightarrow> str option \<Rightarrow> bool" where
  "some_text limit x \<longleftrightarrow> (\<exists>s \<in> set_option x. text_within limit s)"

definition mk_evidence_scope :: "evidence_scope \<Rightarrow> evidence_scope res" where
  "mk_evidence_scope s =
     rbind (guard (\<not> (esc_kind s = ESK_GLOBAL \<and> esc_scope_id s \<noteq> None)) ValueError) (\<lambda>_.
     rbind (guard (esc_kind s = ESK_GLOBAL \<or> some_text 100 (esc_scope_id s)) ValueError) (\<lambda>_. Inr s))"

record evidence_item =
  ev_id :: str
  ev_fact_key :: str
  ev_type :: evidence_type
  ev_statement :: str
  ev_source_kind :: evidence_origin
  ev_scope :: evidence_scope
  ev_source_reference :: "str option"

definition mk_evidence_item :: "evidence_item \<Rightarrow> evidence_item res" where
  "mk_evidence_item e =
     rbind (guard (text_within 100 (ev_id e)) ValueError) (\<lambda>_.
     rbind (guard (text_within 100 (ev_fact_key e)) ValueError) (\<lambda>_.
     rbind (guard (text_within 240 (ev_statement e)) ValueError) (\<lambda>_.
     rbind (guard (optional_text 100 (ev_source_reference e)) ValueError) (\<lambda>_. Inr e))))"

record policy_context =
  pcx_authority_policy_id :: str
  pcx_pricing_disclosure_allowed :: bool
  pcx_default_tier :: authority_tier

definition mk_policy_context :: "policy_context \<Rightarrow> policy_context res" where
  "mk_policy_context p = rbind (guard (text_within 100 (pcx_authority_policy_id p)) ValueError) (\<lambda>_. Inr p)"

record business_field =
  bfd_field :: str
  bfd_value :: str
  bfd_source_kind :: source_kind

definition mk_business_field :: "business_field \<Rightarrow> business_field res" where
  "mk_business_field f = rbind (guard (text_within 80 (bfd_field f)) ValueError) (\<lambda>_.
     rbind (guard (text_within 160 (bfd_value f)) ValueError) (\<lambda>_. Inr f))"

record business_guess =
  bgs_field :: str
  bgs_value :: str
  bgs_confidence :: py_float
  bgs_basis :: "str list"

definition mk_business_guess :: "business_guess \<Rightarrow> business_guess res" where
  "mk_business_guess g = rbind (guard (text_within 80 (bgs_field g)) ValueError) (\<lambda>_.
     rbind (guard (text_within 160 (bgs_value g)) ValueError) (\<lambda>_.
     rbind (guard (in_unit (bgs_confidence g)) ValueError) (\<lambda>_.
     rbind (guard (\<not> length (bgs_basis g) > 3) ValueError) (\<lambda>_.
     rbind (guard (\<forall>b \<in> set (bgs_basis g). text_within 80 b) ValueError) (\<lambda>_. Inr g)))))"

record business_context =
  bcx_observed :: "business_field list"
  bcx_inferred :: "business_guess list"
  bcx_unknown_fields :: "str list"

definition mk_business_context :: "business_context \<Rightarrow> business_context res" where
  "mk_business_context b = rbind (guard (\<not> length (bcx_observed b) + length (bcx_inferred b)
     + length (bcx_unknown_fields b) > 6) ValueError) (\<lambda>_. Inr b)"

record campaign_context =
  ccx_campaign_id :: "str option"
  ccx_campaign_goal :: "str option"
  ccx_discovery_priorities :: "str list"

definition mk_campaign_context :: "campaign_context \<Rightarrow> campaign_context res" where
  "mk_campaign_context c = rbind (guard (optional_text 100 (ccx_campaign_id c)) ValueError) (\<lambda>_.
     rbind (guard (optional_text 200 (ccx_campaign_goal c)) ValueError) (\<lambda>_.
     rbind (guard (\<not> length (ccx_discovery_priorities c) > 4) ValueError) (\<lambda>_.
     rbind (guard (\<forall>p \<in> set (ccx_discovery_priorities c). text_within 100 p) ValueError) (\<lambda>_. Inr c))))"

datatype contact_status = CST_NONE | CST_CANDIDATE | CST_CONFIRMED | CST_REFERENCE

record contact_view =
  cvw_status :: contact_status
  cvw_channel :: "str option"
  cvw_reference :: "str option"

definition mk_contact_view :: "contact_view \<Rightarrow> contact_view res" where
  "mk_contact_view c = rbind (guard (optional_text 40 (cvw_channel c)) ValueError) (\<lambda>_.
     rbind (guard (optional_text 80 (cvw_reference c)) ValueError) (\<lambda>_. Inr c))"

record supervisor_advice =
  sad_source_turn_id :: str
  sad_inferred_prospect :: "inferred_state option"
  sad_strategy_hint :: "strategy_hint option"

definition mk_supervisor_advice :: "supervisor_advice \<Rightarrow> supervisor_advice res" where
  "mk_supervisor_advice a = rbind (guard (text_within 100 (sad_source_turn_id a)) ValueError) (\<lambda>_. Inr a)"

record lean_context =
  lc_message :: str
  lc_current_state :: conversation_state
  lc_strategy :: "strategy option"
  lc_recent_turns :: "recent_turn list"
  lc_prospect :: "prospect_summary option"
  lc_pending_intent :: "pending_intent option"
  lc_eligible_services :: "str list"
  lc_offered_services :: "str list"
  lc_evidence :: "evidence_item list"
  lc_policy :: "policy_context option"
  lc_business :: business_context
  lc_campaign :: campaign_context
  lc_contact :: contact_view
  lc_interruption :: interruption_context
  lc_category :: interruption_category
  lc_addressee :: addressee_status
  lc_advice :: "supervisor_advice option"

definition mk_lean_context :: "lean_context \<Rightarrow> lean_context res" where
  "mk_lean_context c =
     rbind (guard (\<not> int (length (lc_recent_turns c)) > cb_recent_turns DEFAULT_CONTEXT_BOUNDS) ValueError) (\<lambda>_.
     rbind (guard (\<not> int (length (lc_evidence c)) > cb_evidence_items DEFAULT_CONTEXT_BOUNDS) ValueError) (\<lambda>_.
     rbind (guard (\<not> int (length (lc_eligible_services c)) > cb_service_ids DEFAULT_CONTEXT_BOUNDS) ValueError) (\<lambda>_.
     rbind (guard (\<not> int (length (lc_offered_services c)) > cb_service_ids DEFAULT_CONTEXT_BOUNDS) ValueError) (\<lambda>_.
     rbind (guard (sort (remdups (lc_eligible_services c)) = lc_eligible_services c) ValueError) (\<lambda>_.
     rbind (guard (sort (remdups (lc_offered_services c)) = lc_offered_services c) ValueError) (\<lambda>_. Inr c))))))"

section \<open>Building it\<close>

record build_input =
  bin_call_id :: str
  bin_turn_id :: str
  bin_turn_sequence :: int
  bin_message :: str
  bin_state :: conversation_state
  bin_context :: conversation_context
  bin_strategy :: "strategy option"
  bin_recent_turns :: "recent_turn list"
  bin_prospect :: "prospect_snapshot option"
  bin_prospect_summary :: "prospect_summary option"
  bin_pending_intent :: "pending_intent option"
  bin_evidence :: "evidence_item list"
  bin_authority_policy :: "authority_policy option"
  bin_business :: "business_intelligence option"
  bin_business_fields :: "str list"
  bin_campaign_goal :: "str option"
  bin_discovery_priorities :: "str list"
  bin_contact :: "contact_view option"
  bin_interruption :: interruption_context
  bin_category :: interruption_category
  bin_addressee :: addressee_status
  bin_insight :: "supervisor_insight option"

definition mk_build_input :: "build_input \<Rightarrow> build_input res" where
  "mk_build_input i =
     rbind (guard (\<not> (bin_call_id i = [] \<or> bin_turn_id i = [])) ValueError) (\<lambda>_.
     rbind (guard (\<not> bin_turn_sequence i < 0) ValueError) (\<lambda>_.
     rbind (guard (ctx_call_id (bin_context i) = bin_call_id i) ValueError) (\<lambda>_.
     rbind (guard (\<not> (bin_prospect i \<noteq> None \<and> bin_prospect_summary i \<noteq> None)) ValueError) (\<lambda>_. Inr i))))"

definition stable_ids :: "str list \<Rightarrow> nat \<Rightarrow> str list" where
  "stable_ids values limit = take limit (sort (remdups (filter (\<lambda>v. \<not> blank v) values)))"

definition optional_prefix :: "str option \<Rightarrow> nat \<Rightarrow> str option" where
  "optional_prefix x limit = (case x of None \<Rightarrow> None | Some s \<Rightarrow> if blank s then None else Some (take limit s))"

definition scope_applies :: "evidence_scope \<Rightarrow> str option \<Rightarrow> str set \<Rightarrow> bool" where
  "scope_applies s campaign services = (case esc_kind s of
       ESK_GLOBAL \<Rightarrow> True
     | ESK_CAMPAIGN \<Rightarrow> esc_scope_id s = campaign
     | ESK_SERVICE \<Rightarrow> (\<exists>sid \<in> set_option (esc_scope_id s). sid \<in> services))"

definition add_evidence ::
  "(str, evidence_item) dict \<times> (evidence_scope \<times> str, evidence_item) dict \<Rightarrow> evidence_item
    \<Rightarrow> ((str, evidence_item) dict \<times> (evidence_scope \<times> str, evidence_item) dict) res" where
  "add_evidence seen e = (case seen of (by_id, by_fact) \<Rightarrow>
     rbind (guard (\<forall>old \<in> set_option (dget by_id (ev_id e)). old = e) ValueError) (\<lambda>_.
     rbind (guard (\<forall>old \<in> set_option (dget by_fact (ev_scope e, ev_fact_key e)). ev_statement old = ev_statement e)
       ValueError) (\<lambda>_.
     Inr (dset (ev_id e) e by_id, dset (ev_scope e, ev_fact_key e) e by_fact))))"

definition applicable_evidence ::
  "context_bounds \<Rightarrow> evidence_item list \<Rightarrow> str option \<Rightarrow> str set \<Rightarrow> evidence_item list res" where
  "applicable_evidence b items campaign services =
     rbind (rfold add_evidence ([], []) (filter (\<lambda>e. scope_applies (ev_scope e) campaign services) items)) (\<lambda>(by_id, _).
     Inr (take (nat (cb_evidence_items b)) (sort_key ev_id (map snd by_id))))"

text \<open>One relevant field: a fact if one was observed, else a guess, else a known unknown, else nothing.\<close>

definition add_business_field ::
  "business_intelligence \<Rightarrow> business_context \<Rightarrow> str \<Rightarrow> business_context res" where
  "add_business_field bi acc f = (case latest_observed f bi of
       Some s \<Rightarrow> rbind (mk_business_field \<lparr>bfd_field = take 80 (osg_field s), bfd_value = take 160 (osg_value s),
           bfd_source_kind = spv_source_kind (osg_provenance s)\<rparr>) (\<lambda>x.
         Inr (acc\<lparr>bcx_observed := bcx_observed acc @ [x]\<rparr>))
     | None \<Rightarrow> (case latest_inferred f bi of
           Some s \<Rightarrow> rbind (mk_business_guess \<lparr>bgs_field = take 80 (isg_field s), bgs_value = take 160 (isg_value s),
               bgs_confidence = isg_confidence s, bgs_basis = map (take 80) (take 3 (isg_basis s))\<rparr>) (\<lambda>x.
             Inr (acc\<lparr>bcx_inferred := bcx_inferred acc @ [x]\<rparr>))
         | None \<Rightarrow> Inr (if f \<in> set (bi_unknown bi)
             then acc\<lparr>bcx_unknown_fields := bcx_unknown_fields acc @ [take 80 f]\<rparr> else acc)))"

definition no_business :: business_context where
  "no_business = \<lparr>bcx_observed = [], bcx_inferred = [], bcx_unknown_fields = []\<rparr>"

definition business_view ::
  "context_bounds \<Rightarrow> business_intelligence option \<Rightarrow> str list \<Rightarrow> business_context res" where
  "business_view b snapshot relevant = (case snapshot of
       None \<Rightarrow> mk_business_context no_business
     | Some bi \<Rightarrow> rbind (rfold (add_business_field bi) no_business
           (take (nat (cb_business_fields b)) (sort (remdups relevant)))) mk_business_context)"

definition approve_catalog_claim ::
  "scoped_catalog \<Rightarrow> str \<Rightarrow> str \<Rightarrow> str \<Rightarrow> str \<Rightarrow> str option \<Rightarrow> evidence_item option res" where
  "approve_catalog_claim catalog evidence_id fact_key service_id claim_id subservice_id =
     (if \<not> cvr_authorized (validate_claim catalog service_id claim_id subservice_id) then Inr None
      else rbind (mk_evidence_scope \<lparr>esc_kind = ESK_SERVICE, esc_scope_id = Some service_id\<rparr>) (\<lambda>scope.
        rbind (mk_evidence_item \<lparr>ev_id = evidence_id, ev_fact_key = fact_key, ev_type = ET_APPROVED_CLAIM,
          ev_statement = claim_id, ev_source_kind = EO_CATALOG_CLAIM, ev_scope = scope,
          ev_source_reference = Some claim_id\<rparr>) (\<lambda>e. Inr (Some e))))"

definition policy_view :: "authority_policy option \<Rightarrow> policy_context option res" where
  "policy_view policy = (case policy of
       None \<Rightarrow> Inr None
     | Some p \<Rightarrow> rbind (mk_policy_context \<lparr>pcx_authority_policy_id = ap_policy_id p,
         pcx_pricing_disclosure_allowed = (\<exists>d \<in> set_option (ap_pricing_disclosure p). pd_allowed d),
         pcx_default_tier = ap_default_tier p\<rparr>) (\<lambda>x. Inr (Some x)))"

definition contact_of :: "conversation_context \<Rightarrow> contact_view res" where
  "contact_of c = (case ctx_contact_candidate c of
       None \<Rightarrow> mk_contact_view \<lparr>cvw_status = CST_NONE, cvw_channel = None, cvw_reference = None\<rparr>
     | Some _ \<Rightarrow> mk_contact_view \<lparr>cvw_status = (if ctx_contact_confirmed c then CST_CONFIRMED else CST_CANDIDATE),
         cvw_channel = ctx_contact_candidate_channel c, cvw_reference = None\<rparr>)"

text \<open>What the supervisor guessed, less what the prospect has said since.\<close>

definition without_stated :: "prospect_summary \<Rightarrow> inferred_state \<Rightarrow> inferred_state" where
  "without_stated p g = g\<lparr>is_role := unless (psm_explicit_role p \<noteq> None) (is_role g),
     is_authority := unless (psm_explicit_authority p \<noteq> None) (is_authority g),
     is_objection := unless (psm_explicit_objection p \<noteq> None) (is_objection g),
     is_pain_summary := unless (psm_pains p \<noteq> []) (is_pain_summary g),
     is_next_step := unless (psm_explicit_next_step p \<noteq> None) (is_next_step g)\<rparr>"

definition advice_of :: "build_input \<Rightarrow> prospect_summary option \<Rightarrow> supervisor_advice option res" where
  "advice_of i prospect = (case bin_insight i of
       None \<Rightarrow> Inr None
     | Some x \<Rightarrow>
         if sup_call_id x \<noteq> bin_call_id i \<or> sup_source_turn_sequence x \<ge> bin_turn_sequence i then Inr None
         else rbind (case sup_evidence x of
             None \<Rightarrow> Inr None
           | Some e \<Rightarrow> if pev_inferred e = None then Inr None
               else rbind (prospect_update empty_prospect e) (\<lambda>p. Inr (Some (ps_inferred p)))) (\<lambda>guess.
         rbind (mk_supervisor_advice \<lparr>sad_source_turn_id = sup_source_turn_id x,
           sad_inferred_prospect = (case prospect of None \<Rightarrow> guess | Some p \<Rightarrow> map_option (without_stated p) guess),
           sad_strategy_hint = sup_hint x\<rparr>) (\<lambda>a. Inr (Some a))))"

definition build_context :: "context_bounds \<Rightarrow> build_input \<Rightarrow> lean_context res" where
  "build_context b i =
     (let message = take (nat (cb_message_chars b)) (bin_message i);
          candidates = filter (\<lambda>t. rtn_turn_id t \<noteq> bin_turn_id i) (bin_recent_turns i);
          eligible = stable_ids (ctx_eligible_alternative_service_ids (bin_context i)) (nat (cb_service_ids b));
          offered = stable_ids (ctx_offered_service_ids (bin_context i)) (nat (cb_service_ids b)) in
      rbind (guard (\<not> blank message) ValueError) (\<lambda>_.
      rbind (rmap (\<lambda>t. mk_recent_turn (t\<lparr>rtn_content := take (nat (cb_recent_turn_chars b)) (rtn_content t)\<rparr>))
        (last_n (nat (cb_recent_turns b)) candidates)) (\<lambda>recent.
      rbind (applicable_evidence b (bin_evidence i) (ctx_campaign_id (bin_context i)) (set eligible \<union> set offered))
        (\<lambda>evidence.
      rbind (case bin_prospect i of
          Some p \<Rightarrow> rbind (to_brain_summary p) (\<lambda>s. Inr (Some s))
        | None \<Rightarrow> Inr (bin_prospect_summary i)) (\<lambda>prospect.
      rbind (mk_user_input message) (\<lambda>user_input.
      rbind (policy_view (bin_authority_policy i)) (\<lambda>policy.
      rbind (business_view b (bin_business i) (bin_business_fields i)) (\<lambda>business.
      rbind (mk_campaign_context \<lparr>ccx_campaign_id = ctx_campaign_id (bin_context i),
          ccx_campaign_goal = optional_prefix (bin_campaign_goal i) 200,
          ccx_discovery_priorities = map (take 100) (filter (\<lambda>p. \<not> blank p)
            (take (nat (cb_discovery_priorities b)) (bin_discovery_priorities i)))\<rparr>) (\<lambda>campaign.
      rbind (case bin_contact i of Some c \<Rightarrow> Inr c | None \<Rightarrow> contact_of (bin_context i)) (\<lambda>contact.
      rbind (advice_of i prospect) (\<lambda>advice.
      mk_lean_context \<lparr>lc_message = user_input, lc_current_state = bin_state i, lc_strategy = bin_strategy i,
        lc_recent_turns = recent, lc_prospect = prospect, lc_pending_intent = bin_pending_intent i,
        lc_eligible_services = eligible, lc_offered_services = offered, lc_evidence = evidence,
        lc_policy = policy, lc_business = business, lc_campaign = campaign, lc_contact = contact,
        lc_interruption = bin_interruption i, lc_category = bin_category i, lc_addressee = bin_addressee i,
        lc_advice = advice\<rparr>)))))))))))"

section \<open>What the models get to see\<close>

lemma stable_ids_spec:
  "set (stable_ids values limit) \<subseteq> set values" "distinct (stable_ids values limit)"
  "sorted (stable_ids values limit)" "length (stable_ids values limit) \<le> limit"
  by (auto simp: stable_ids_def distinct_take sorted_wrt_take dest: in_set_takeD)

lemma sorted_distinct_fixed: "sorted xs \<Longrightarrow> distinct xs \<Longrightarrow> sort (remdups xs) = xs"
  by (simp add: distinct_remdups_id sorted_sort_id)

definition evidence_seen ::
  "evidence_item set \<Rightarrow> (str, evidence_item) dict \<times> (evidence_scope \<times> str, evidence_item) dict \<Rightarrow> bool" where
  "evidence_seen S seen \<longleftrightarrow> (case seen of (by_id, by_fact) \<Rightarrow> distinct (dkeys by_id)
     \<and> (\<forall>(k, e) \<in> set by_id. k = ev_id e \<and> e \<in> S
        \<and> (\<exists>f. dget by_fact (ev_scope e, ev_fact_key e) = Some f \<and> ev_statement f = ev_statement e)))"

lemma add_evidence_seen:
  assumes "evidence_seen S seen" and "e \<in> S" and "add_evidence seen e = Inr seen'"
  shows "evidence_seen S seen'"
proof -
  obtain by_id by_fact where s: "seen = (by_id, by_fact)" by force
  have fact: "\<forall>old. dget by_fact (ev_scope e, ev_fact_key e) = Some old \<longrightarrow> ev_statement old = ev_statement e"
    and seen': "seen' = (dset (ev_id e) e by_id, dset (ev_scope e, ev_fact_key e) e by_fact)"
    using assms(3) s by (auto simp: add_evidence_def res_simps)
  have "k = ev_id x \<and> x \<in> S \<and> (\<exists>f. dget (dset (ev_scope e, ev_fact_key e) e by_fact) (ev_scope x, ev_fact_key x) = Some f
        \<and> ev_statement f = ev_statement x)" if "(k, x) \<in> set (dset (ev_id e) e by_id)" for k x
    using dset_member [OF that] assms(1,2) fact s by (fastforce simp: evidence_seen_def)
  then have "\<forall>(k, x) \<in> set (dset (ev_id e) e by_id). k = ev_id x \<and> x \<in> S
      \<and> (\<exists>f. dget (dset (ev_scope e, ev_fact_key e) e by_fact) (ev_scope x, ev_fact_key x) = Some f
        \<and> ev_statement f = ev_statement x)" by blast
  moreover have "distinct (dkeys (dset (ev_id e) e by_id))"
    using assms(1) s by (simp add: evidence_seen_def distinct_update)
  ultimately show ?thesis
    unfolding evidence_seen_def seen' by (simp only: prod.case)
qed

definition consistent_evidence :: "evidence_item list \<Rightarrow> bool" where
  "consistent_evidence es \<longleftrightarrow> distinct (map ev_id es)
     \<and> (\<forall>e \<in> set es. \<forall>f \<in> set es. ev_scope e = ev_scope f \<and> ev_fact_key e = ev_fact_key f
          \<longrightarrow> ev_statement e = ev_statement f)"

lemma applicable_evidence_spec:
  assumes "applicable_evidence b items campaign services = Inr es"
  shows "length es \<le> nat (cb_evidence_items b)" "sorted (map ev_id es)" "consistent_evidence es"
    "set es \<subseteq> {e \<in> set items. scope_applies (ev_scope e) campaign services}"
proof -
  let ?S = "{e \<in> set items. scope_applies (ev_scope e) campaign services}"
  from assms obtain by_id by_fact where
    run: "rfold add_evidence ([], []) (filter (\<lambda>e. scope_applies (ev_scope e) campaign services) items) = Inr (by_id, by_fact)"
    and es: "es = take (nat (cb_evidence_items b)) (sort_key ev_id (map snd by_id))"
    by (auto simp: applicable_evidence_def res_simps)
  have seen: "evidence_seen ?S (by_id, by_fact)"
  proof (rule rfold_invariant [OF run])
    show "evidence_seen ?S ([], [])" by (simp add: evidence_seen_def)
  qed (rule add_evidence_seen, auto)
  then have keys: "map ev_id (map snd by_id) = dkeys by_id" and sub: "set (map snd by_id) \<subseteq> ?S"
    by (auto simp: evidence_seen_def)
  let ?all = "sort_key ev_id (map snd by_id)"
  have "mset (map ev_id ?all) = mset (map ev_id (map snd by_id))"
    by (simp only: mset_map mset_sort)
  moreover have "distinct (dkeys by_id)" using seen by (simp add: evidence_seen_def)
  ultimately have dist: "distinct (map ev_id ?all)"
    using keys by (metis mset_eq_imp_distinct_iff)
  have agree: "ev_statement x = ev_statement y"
    if "x \<in> set ?all" "y \<in> set ?all" "ev_scope x = ev_scope y" "ev_fact_key x = ev_fact_key y" for x y
  proof -
    have "\<exists>f. dget by_fact (ev_scope z, ev_fact_key z) = Some f \<and> ev_statement f = ev_statement z"
      if "z \<in> set ?all" for z
      using that seen by (auto simp: evidence_seen_def)
    from this [OF that(1)] this [OF that(2)] that(3,4) show ?thesis by auto
  qed
  have part: "set es \<subseteq> set ?all" unfolding es by (rule set_take_subset)
  show "length es \<le> nat (cb_evidence_items b)" using es by simp
  have "map ev_id es = take (nat (cb_evidence_items b)) (map ev_id ?all)" using es by (simp only: take_map)
  moreover have "sorted (map ev_id ?all)" by simp
  ultimately show "sorted (map ev_id es)" by (simp only: sorted_wrt_take)
  have "distinct (map ev_id es)"
    using dist \<open>map ev_id es = _\<close> by (simp only: distinct_take)
  with part agree show "consistent_evidence es" unfolding consistent_evidence_def by blast
  show "set es \<subseteq> ?S" using part sub by auto
qed

lemma last_match_Some:
  assumes "last_match P xs = Some x"
  shows "x \<in> set xs" "P x"
  using assms last_in_set [of "filter P xs"] by (auto simp: last_match_def split: list.splits)

lemma last_match_None: "last_match P xs = None \<longleftrightarrow> filter P xs = []"
  by (simp add: last_match_def split: list.split)

text \<open>A field is shown as a fact only if it was observed, and as a guess only if it never was.\<close>

definition business_sound :: "business_intelligence \<Rightarrow> business_context \<Rightarrow> bool" where
  "business_sound bi c \<longleftrightarrow>
     (\<forall>x \<in> set (bcx_observed c). \<exists>s \<in> set (bi_observed bi). bfd_field x = take 80 (osg_field s)
        \<and> bfd_value x = take 160 (osg_value s) \<and> latest_observed (osg_field s) bi = Some s)
     \<and> (\<forall>x \<in> set (bcx_inferred c). \<exists>s \<in> set (bi_inferred bi). bgs_field x = take 80 (isg_field s)
        \<and> bgs_value x = take 160 (isg_value s) \<and> \<not> bi_is_known (isg_field s) bi)
     \<and> (\<forall>u \<in> set (bcx_unknown_fields c). \<exists>f \<in> set (bi_unknown bi). u = take 80 f \<and> \<not> bi_is_known f bi)"

lemma latest_observed_None: "latest_observed f bi = None \<longleftrightarrow> \<not> bi_is_known f bi"
  by (auto simp: latest_observed_def last_match_None bi_is_known_def filter_empty_conv)

lemma add_business_field_sound:
  assumes "business_sound bi acc" and "add_business_field bi acc f = Inr acc'"
  shows "business_sound bi acc'"
proof (cases "latest_observed f bi")
  case (Some s)
  then have m: "last_match (\<lambda>s. osg_field s = f) (bi_observed bi) = Some s" by (simp add: latest_observed_def)
  from last_match_Some [OF m] have "s \<in> set (bi_observed bi)" "osg_field s = f" .
  moreover have "acc' = acc\<lparr>bcx_observed := bcx_observed acc @ [\<lparr>bfd_field = take 80 (osg_field s),
      bfd_value = take 160 (osg_value s), bfd_source_kind = spv_source_kind (osg_provenance s)\<rparr>]\<rparr>"
    using Some assms(2) by (auto simp: add_business_field_def mk_business_field_def res_simps)
  ultimately show ?thesis using Some assms(1) by (auto simp: business_sound_def)
next
  case None
  then have unknown: "\<not> bi_is_known f bi" by (simp add: latest_observed_None)
  show ?thesis
  proof (cases "latest_inferred f bi")
    case (Some s)
    then have m: "last_match (\<lambda>s. isg_field s = f) (bi_inferred bi) = Some s" by (simp add: latest_inferred_def)
    from last_match_Some [OF m] have "s \<in> set (bi_inferred bi)" "isg_field s = f" .
    moreover have "acc' = acc\<lparr>bcx_inferred := bcx_inferred acc @ [\<lparr>bgs_field = take 80 (isg_field s),
        bgs_value = take 160 (isg_value s), bgs_confidence = isg_confidence s,
        bgs_basis = map (take 80) (take 3 (isg_basis s))\<rparr>]\<rparr>"
      using Some None assms(2) by (auto simp: add_business_field_def mk_business_guess_def res_simps)
    ultimately show ?thesis using unknown assms(1) by (auto simp: business_sound_def)
  next
    case none: None
    then have acc': "acc' = (if f \<in> set (bi_unknown bi)
        then acc\<lparr>bcx_unknown_fields := bcx_unknown_fields acc @ [take 80 f]\<rparr> else acc)"
      using None assms(2) by (simp add: add_business_field_def)
    show ?thesis
    proof (cases "f \<in> set (bi_unknown bi)")
      case True
      then have "bcx_unknown_fields acc' = bcx_unknown_fields acc @ [take 80 f]" "bcx_observed acc' = bcx_observed acc"
        "bcx_inferred acc' = bcx_inferred acc" by (simp_all add: acc')
      with True assms(1) unknown show ?thesis unfolding business_sound_def by (simp del: bex_simps) blast
    next
      case False
      with acc' assms(1) show ?thesis by simp
    qed
  qed
qed

lemma business_view_sound:
  assumes "business_view b (Some bi) relevant = Inr c"
  shows "business_sound bi c" and "length (bcx_observed c) + length (bcx_inferred c) + length (bcx_unknown_fields c) \<le> 6"
proof -
  from assms obtain c' where run: "rfold (add_business_field bi) no_business
      (take (nat (cb_business_fields b)) (sort (remdups relevant))) = Inr c'" and mk: "mk_business_context c' = Inr c"
    by (auto simp: business_view_def res_simps)
  have "business_sound bi c'"
  proof (rule rfold_invariant [OF run])
    show "business_sound bi no_business" by (simp add: business_sound_def no_business_def)
  qed (rule add_business_field_sound)
  with mk show "business_sound bi c" "length (bcx_observed c) + length (bcx_inferred c) + length (bcx_unknown_fields c) \<le> 6"
    by (auto simp: mk_business_context_def res_simps)
qed

lemma advice_spec:
  assumes "advice_of i prospect = Inr (Some a)"
  obtains x where "bin_insight i = Some x" "sup_call_id x = bin_call_id i"
    "sup_source_turn_sequence x < bin_turn_sequence i" "sad_source_turn_id a = sup_source_turn_id x"
    "sad_strategy_hint a = sup_hint x"
    "\<forall>g p. sad_inferred_prospect a = Some g \<and> prospect = Some p \<longrightarrow> without_stated p g = g"
proof -
  from assms obtain x where insight: "bin_insight i = Some x" by (cases "bin_insight i") (auto simp: advice_of_def)
  have current: "\<not> (sup_call_id x \<noteq> bin_call_id i \<or> sup_source_turn_sequence x \<ge> bin_turn_sequence i)"
    using assms insight by (simp add: advice_of_def split: if_split_asm)
  obtain guess where a: "a = \<lparr>sad_source_turn_id = sup_source_turn_id x,
           sad_inferred_prospect = (case prospect of None \<Rightarrow> guess | Some p \<Rightarrow> map_option (without_stated p) guess),
           sad_strategy_hint = sup_hint x\<rparr>"
    using assms insight current unfolding advice_of_def mk_supervisor_advice_def
    by (simp only: option.case if_False rbind_eq_Inr guard_simps sum.inject option.inject) (elim exE conjE, rule that, erule trans [OF sym], erule sym)
  have x: "bin_insight i = Some x" "sup_call_id x = bin_call_id i" "sup_source_turn_sequence x < bin_turn_sequence i"
    using insight current by auto
  have "without_stated p (without_stated p g) = without_stated p g" for p g
    by (simp add: without_stated_def)
  then have stated: "\<forall>g p. sad_inferred_prospect a = Some g \<and> prospect = Some p \<longrightarrow> without_stated p g = g"
    unfolding a by (cases guess; cases prospect) simp_all
  show thesis by (rule that [OF x _ _ stated]) (simp_all add: a)
qed

lemma built_evidence:
  assumes "build_context b i = Inr c"
  shows "\<exists>services. applicable_evidence b (bin_evidence i) (ctx_campaign_id (bin_context i)) services = Inr (lc_evidence c)"
  using assms unfolding build_context_def Let_def mk_lean_context_def
  by (simp only: rbind_eq_Inr guard_simps sum.inject) (elim exE conjE, hypsubst, simp only: lean_context.select_convs, rule exI)

text \<open>The promise of a lean context, by its parts.\<close>

definition turns_sound :: "build_input \<Rightarrow> lean_context \<Rightarrow> bool" where
  "turns_sound i c \<longleftrightarrow> length (lc_recent_turns c) \<le> 4
     \<and> (\<forall>t \<in> set (lc_recent_turns c). rtn_turn_id t \<noteq> bin_turn_id i \<and> length (rtn_content t) \<le> 300
        \<and> (\<exists>u \<in> set (bin_recent_turns i). rtn_turn_id u = rtn_turn_id t \<and> rtn_speaker u = rtn_speaker t
              \<and> rtn_content t = take 300 (rtn_content u)))"

definition evidence_sound :: "build_input \<Rightarrow> lean_context \<Rightarrow> bool" where
  "evidence_sound i c \<longleftrightarrow> length (lc_evidence c) \<le> 8 \<and> sorted (map ev_id (lc_evidence c))
     \<and> consistent_evidence (lc_evidence c)
     \<and> (\<forall>e \<in> set (lc_evidence c). e \<in> set (bin_evidence i) \<and> scope_applies (ev_scope e)
          (ctx_campaign_id (bin_context i)) (set (lc_eligible_services c) \<union> set (lc_offered_services c)))"

definition services_sound :: "str list \<Rightarrow> str list \<Rightarrow> bool" where
  "services_sound given shown \<longleftrightarrow> length shown \<le> 12 \<and> sorted shown \<and> distinct shown \<and> set shown \<subseteq> set given"

definition business_shown_sound :: "build_input \<Rightarrow> lean_context \<Rightarrow> bool" where
  "business_shown_sound i c \<longleftrightarrow> (case bin_business i of
       None \<Rightarrow> lc_business c = no_business
     | Some bi \<Rightarrow> business_sound bi (lc_business c) \<and> length (bcx_observed (lc_business c))
         + length (bcx_inferred (lc_business c)) + length (bcx_unknown_fields (lc_business c)) \<le> 6)"

definition contact_sound :: "build_input \<Rightarrow> lean_context \<Rightarrow> bool" where
  "contact_sound i c \<longleftrightarrow> bin_contact i = Some (lc_contact c) \<or> bin_contact i = None
     \<and> (cvw_status (lc_contact c) = CST_CONFIRMED \<longleftrightarrow>
          ctx_contact_candidate (bin_context i) \<noteq> None \<and> ctx_contact_confirmed (bin_context i))"

definition advice_sound :: "build_input \<Rightarrow> lean_context \<Rightarrow> bool" where
  "advice_sound i c \<longleftrightarrow> (\<forall>a. lc_advice c = Some a \<longrightarrow> (\<exists>x. bin_insight i = Some x \<and> sup_call_id x = bin_call_id i
     \<and> sup_source_turn_sequence x < bin_turn_sequence i
     \<and> (\<forall>g p. sad_inferred_prospect a = Some g \<and> lc_prospect c = Some p \<longrightarrow> without_stated p g = g)))"


definition web_evidence :: evidence_item where
  "web_evidence = \<lparr>ev_id = ''ev-1'', ev_fact_key = ''uptime'', ev_type = ET_TECHNICAL_FACT,
     ev_statement = ''Monitored around the clock'', ev_source_kind = EO_CURATED_CAMPAIGN,
     ev_scope = \<lparr>esc_kind = ESK_GLOBAL, esc_scope_id = None\<rparr>, ev_source_reference = None\<rparr>"

definition hello_input :: build_input where
  "hello_input = \<lparr>bin_call_id = ctx_call_id blank_context, bin_turn_id = ''t2'', bin_turn_sequence = 2,
     bin_message = ''Hello'', bin_state = St_GREETING, bin_context = blank_context, bin_strategy = None,
     bin_recent_turns = [\<lparr>rtn_turn_id = ''t1'', rtn_speaker = Speaker_AGENT, rtn_content = ''Good morning''\<rparr>],
     bin_prospect = Some empty_prospect, bin_prospect_summary = None, bin_pending_intent = None,
     bin_evidence = [web_evidence], bin_authority_policy = None, bin_business = None, bin_business_fields = [],
     bin_campaign_goal = None, bin_discovery_priorities = [], bin_contact = None,
     bin_interruption = \<lparr>ict_was_interrupted = False, ict_category = IC_OTHER, ict_previous_intent = None,
       ict_voice_activity = \<lparr>va_barge_in_detected = False, va_overlapping_speech = False,
         va_speech_started_during_agent_output = False\<rparr>\<rparr>,
     bin_category = IC_OTHER, bin_addressee = AD_ADDRESSED_TO_AGENT, bin_insight = Some guessed_insight\<rparr>"


end
