(* ===== verification/Escalation.thy ===== *)
theory Escalation
  imports Context
begin

text \<open>
  \<^verbatim>\<open>conversation/escalation\<close>: what to do when the agent may not or cannot simply answer. The
  policy looks for approved evidence, otherwise admits not knowing, asks, redirects, or offers
  a follow-up the campaign really has.
\<close>

datatype escalation_reason =
    ER_NONE | ER_MISSING_APPROVED_EVIDENCE | ER_UNKNOWN_TECHNICAL_DETAIL |
    ER_UNKNOWN_PRODUCT_CAPABILITY | ER_COMMERCIAL_AUTHORITY_REQUIRED | ER_HUMAN_REQUESTED |
    ER_OUT_OF_SCOPE | ER_AMBIGUOUS_REQUEST | ER_CAPABILITY_UNAVAILABLE | ER_POLICY_RESTRICTED |
    ER_EVIDENCE_CONFLICT

datatype recovery_mode =
    RM_PROCEED_NORMALLY | RM_ANSWER_WITH_EVIDENCE | RM_ACKNOWLEDGE_UNKNOWN |
    RM_ASK_CLARIFYING_QUESTION | RM_OFFER_HUMAN_FOLLOW_UP | RM_OFFER_CALLBACK |
    RM_OFFER_INFORMATION_FOLLOW_UP | RM_SAFE_REDIRECT | RM_POLITE_WRAP_UP

datatype escalation_capability =
    Cap_HUMAN_HANDOFF | Cap_CALLBACK | Cap_EMAIL | Cap_MESSAGE | Cap_TECHNICAL_REVIEW

datatype knowledge_request_kind =
    KR_NONE | KR_FACT | KR_TECHNICAL_DETAIL | KR_PRODUCT_CAPABILITY | KR_COMMERCIAL | KR_AMBIGUOUS

datatype requested_follow_up =
    FU_NONE | FU_HUMAN_HANDOFF | FU_CALLBACK | FU_EMAIL | FU_MESSAGE | FU_TECHNICAL_REVIEW

datatype disclosure_status =
    Disclosure_ALLOWED | Disclosure_RESTRICTED

record capabilities =
  cap_human_handoff :: bool
  cap_callback :: bool
  cap_email :: bool
  cap_messaging :: bool
  cap_technical :: bool

fun supports :: "capabilities \<Rightarrow> escalation_capability \<Rightarrow> bool" where
  "supports c Cap_HUMAN_HANDOFF = cap_human_handoff c"
| "supports c Cap_CALLBACK = cap_callback c"
| "supports c Cap_EMAIL = cap_email c"
| "supports c Cap_MESSAGE = cap_messaging c"
| "supports c Cap_TECHNICAL_REVIEW = cap_technical c"

record escalation_request =
  erq_kind :: knowledge_request_kind
  erq_fact_key :: "str option"
  erq_evidence_type :: "evidence_type option"
  erq_service_id :: "str option"
  erq_follow_up :: requested_follow_up
  erq_disclosure :: disclosure_status

definition mk_escalation_request :: "escalation_request \<Rightarrow> escalation_request res" where
  "mk_escalation_request r = rbind (guard (optional_text 100 (erq_fact_key r)) ValueError) (\<lambda>_.
     rbind (guard (optional_text 100 (erq_service_id r)) ValueError) (\<lambda>_. Inr r))"

record escalation_input =
  ein_context :: lean_context
  ein_request :: escalation_request
  ein_capabilities :: capabilities
  ein_scope :: "scope_category option"
  ein_tier :: "authority_tier option"

record escalation_decision =
  esd_reason :: escalation_reason
  esd_recovery_mode :: recovery_mode
  esd_answerable :: bool
  esd_evidence_ids :: "str list"
  esd_capability_required :: "escalation_capability option"
  esd_capability_available :: "bool option"
  esd_resume_previous_goal :: bool

fun offer_capability :: "recovery_mode \<Rightarrow> escalation_capability option" where
  "offer_capability RM_OFFER_HUMAN_FOLLOW_UP = Some Cap_HUMAN_HANDOFF"
| "offer_capability RM_OFFER_CALLBACK = Some Cap_CALLBACK"
| "offer_capability _ = None"

definition mk_escalation_decision :: "escalation_decision \<Rightarrow> escalation_decision res" where
  "mk_escalation_decision d =
     rbind (guard (\<not> (length (esd_evidence_ids d) > 8 \<or> \<not> distinct (esd_evidence_ids d))) ValueError) (\<lambda>_.
     rbind (guard (esd_evidence_ids d = sort (esd_evidence_ids d)) ValueError) (\<lambda>_.
     rbind (guard (esd_answerable d = (esd_evidence_ids d \<noteq> [])) ValueError) (\<lambda>_.
     rbind (guard (\<not> (esd_recovery_mode d = RM_ANSWER_WITH_EVIDENCE \<and> \<not> esd_answerable d)) ValueError) (\<lambda>_.
     rbind (guard (\<not> (esd_answerable d \<and> esd_recovery_mode d \<noteq> RM_ANSWER_WITH_EVIDENCE)) ValueError) (\<lambda>_.
     rbind (guard ((esd_capability_required d = None) = (esd_capability_available d = None)) ValueError) (\<lambda>_.
     rbind (guard (\<forall>expected \<in> set_option (offer_capability (esd_recovery_mode d)).
        esd_capability_required d = Some expected \<and> esd_capability_available d = Some True) ValueError) (\<lambda>_.
     rbind (guard (\<not> (esd_recovery_mode d = RM_OFFER_INFORMATION_FOLLOW_UP
        \<and> (esd_capability_required d \<notin> {Some Cap_EMAIL, Some Cap_MESSAGE, Some Cap_TECHNICAL_REVIEW}
           \<or> esd_capability_available d \<noteq> Some True))) ValueError) (\<lambda>_. Inr d))))))))"

section \<open>Approved evidence\<close>

datatype match_status = MS_MATCHED | MS_NOT_FOUND | MS_CONFLICT

definition scope_matches :: "evidence_item \<Rightarrow> str option \<Rightarrow> str option \<Rightarrow> bool" where
  "scope_matches e campaign service = (case esc_kind (ev_scope e) of
       ESK_GLOBAL \<Rightarrow> True
     | ESK_CAMPAIGN \<Rightarrow> esc_scope_id (ev_scope e) = campaign
     | ESK_SERVICE \<Rightarrow> service \<noteq> None \<and> esc_scope_id (ev_scope e) = service)"

definition evidence_matches ::
  "evidence_item list \<Rightarrow> str \<Rightarrow> evidence_type option \<Rightarrow> str option \<Rightarrow> str option \<Rightarrow> evidence_item list" where
  "evidence_matches evidence key etype campaign service = sort_key ev_id (filter (\<lambda>e. ev_fact_key e = key
     \<and> (\<forall>t \<in> set_option etype. ev_type e = t) \<and> scope_matches e campaign service) evidence)"

definition match_evidence ::
  "evidence_item list \<Rightarrow> str option \<Rightarrow> evidence_type option \<Rightarrow> str option \<Rightarrow> str option \<Rightarrow> match_status \<times> evidence_item list" where
  "match_evidence evidence fact_key etype campaign service = (case fact_key of
       None \<Rightarrow> (MS_NOT_FOUND, [])
     | Some key \<Rightarrow> (let matches = evidence_matches evidence key etype campaign service in
         if matches = [] then (MS_NOT_FOUND, [])
         else if card (set (map ev_statement matches)) > 1 then (MS_CONFLICT, [])
         else (MS_MATCHED, take 8 matches)))"

section \<open>The policy\<close>

definition human_requested :: "escalation_input \<Rightarrow> bool" where
  "human_requested v \<longleftrightarrow> (\<exists>p \<in> set_option (lc_prospect (ein_context v)). observed_true (psm_human_requested p))"

definition wrap_up_requested :: "escalation_input \<Rightarrow> bool" where
  "wrap_up_requested v \<longleftrightarrow> (\<exists>p \<in> set_option (lc_prospect (ein_context v)).
     \<exists>n \<in> set_option (psm_explicit_next_step p). ov_value n = NS_END_CONVERSATION)"

definition resumes :: "escalation_input \<Rightarrow> bool" where
  "resumes v \<longleftrightarrow> (\<exists>p \<in> set_option (lc_pending_intent (ein_context v)). intent_active p)"

definition recover_with ::
  "escalation_reason \<Rightarrow> recovery_mode \<Rightarrow> escalation_input \<Rightarrow> (escalation_capability \<times> bool) option \<Rightarrow> escalation_decision res" where
  "recover_with reason mode v cap = mk_escalation_decision \<lparr>esd_reason = reason, esd_recovery_mode = mode,
     esd_answerable = False, esd_evidence_ids = [], esd_capability_required = map_option fst cap,
     esd_capability_available = map_option snd cap, esd_resume_previous_goal = resumes v\<rparr>"

definition human_offer :: "escalation_reason \<Rightarrow> escalation_input \<Rightarrow> escalation_decision res" where
  "human_offer reason v = (let available = cap_human_handoff (ein_capabilities v) in
     recover_with reason (if available then RM_OFFER_HUMAN_FOLLOW_UP else RM_ACKNOWLEDGE_UNKNOWN) v
       (Some (Cap_HUMAN_HANDOFF, available)))"

definition contact_confirmed :: "escalation_input \<Rightarrow> bool" where
  "contact_confirmed v \<longleftrightarrow> cvw_status (lc_contact (ein_context v)) = CST_CONFIRMED"

definition human_request :: "escalation_input \<Rightarrow> escalation_decision res" where
  "human_request v = (let caps = ein_capabilities v; available = cap_human_handoff caps in
     if \<not> available \<and> cap_callback caps then
       recover_with ER_HUMAN_REQUESTED RM_OFFER_CALLBACK v (Some (Cap_CALLBACK, True))
     else if \<not> available \<and> cap_email caps \<and> contact_confirmed v then
       recover_with ER_HUMAN_REQUESTED RM_OFFER_INFORMATION_FOLLOW_UP v (Some (Cap_EMAIL, True))
     else human_offer ER_HUMAN_REQUESTED v)"

fun follow_up_capability :: "requested_follow_up \<Rightarrow> (escalation_capability \<times> recovery_mode) option" where
  "follow_up_capability FU_NONE = None"
| "follow_up_capability FU_HUMAN_HANDOFF = Some (Cap_HUMAN_HANDOFF, RM_OFFER_HUMAN_FOLLOW_UP)"
| "follow_up_capability FU_CALLBACK = Some (Cap_CALLBACK, RM_OFFER_CALLBACK)"
| "follow_up_capability FU_EMAIL = Some (Cap_EMAIL, RM_OFFER_INFORMATION_FOLLOW_UP)"
| "follow_up_capability FU_MESSAGE = Some (Cap_MESSAGE, RM_OFFER_INFORMATION_FOLLOW_UP)"
| "follow_up_capability FU_TECHNICAL_REVIEW = Some (Cap_TECHNICAL_REVIEW, RM_OFFER_INFORMATION_FOLLOW_UP)"

definition requested_offer :: "escalation_input \<Rightarrow> escalation_decision option res" where
  "requested_offer v = (let requested = erq_follow_up (ein_request v) in
     case follow_up_capability requested of
       None \<Rightarrow> Inr None
     | Some (cap, recovery) \<Rightarrow>
         rbind (if \<not> supports (ein_capabilities v) cap then
             recover_with ER_CAPABILITY_UNAVAILABLE RM_ACKNOWLEDGE_UNKNOWN v (Some (cap, False))
           else if (requested = FU_EMAIL \<or> requested = FU_MESSAGE) \<and> \<not> contact_confirmed v then
             recover_with ER_CAPABILITY_UNAVAILABLE RM_ASK_CLARIFYING_QUESTION v (Some (cap, True))
           else recover_with ER_NONE recovery v (Some (cap, True))) (\<lambda>d. Inr (Some d)))"

definition unknown_answer :: "escalation_input \<Rightarrow> escalation_decision res" where
  "unknown_answer v = (let kind = erq_kind (ein_request v);
       reason = (if kind = KR_TECHNICAL_DETAIL then ER_UNKNOWN_TECHNICAL_DETAIL
         else if kind = KR_PRODUCT_CAPABILITY then ER_UNKNOWN_PRODUCT_CAPABILITY
         else ER_MISSING_APPROVED_EVIDENCE) in
     if (kind = KR_TECHNICAL_DETAIL \<or> kind = KR_PRODUCT_CAPABILITY) \<and> cap_technical (ein_capabilities v) then
       recover_with reason RM_OFFER_INFORMATION_FOLLOW_UP v (Some (Cap_TECHNICAL_REVIEW, True))
     else recover_with reason RM_ACKNOWLEDGE_UNKNOWN v None)"

definition matched_for :: "escalation_input \<Rightarrow> match_status \<times> evidence_item list" where
  "matched_for v = match_evidence (lc_evidence (ein_context v)) (erq_fact_key (ein_request v))
     (erq_evidence_type (ein_request v)) (ccx_campaign_id (lc_campaign (ein_context v))) (erq_service_id (ein_request v))"

definition evaluate_request :: "escalation_input \<Rightarrow> escalation_decision res" where
  "evaluate_request v =
     (if ein_scope v = Some Scope_OUT_OF_SCOPE then recover_with ER_OUT_OF_SCOPE RM_SAFE_REDIRECT v None
      else if ein_scope v = Some Scope_UNKNOWN_SCOPE then
        recover_with ER_AMBIGUOUS_REQUEST RM_ASK_CLARIFYING_QUESTION v None
      else if ein_tier v = Some Tier_HUMAN_APPROVAL_REQUIRED then human_offer ER_COMMERCIAL_AUTHORITY_REQUIRED v
      else if ein_tier v = Some Tier_DENIED then recover_with ER_POLICY_RESTRICTED RM_SAFE_REDIRECT v None
      else if wrap_up_requested v then recover_with ER_NONE RM_POLITE_WRAP_UP v None
      else if human_requested v then human_request v
      else if erq_kind (ein_request v) = KR_AMBIGUOUS then
        recover_with ER_AMBIGUOUS_REQUEST RM_ASK_CLARIFYING_QUESTION v None
      else rbind (requested_offer v) (\<lambda>offer. case offer of
          Some d \<Rightarrow> Inr d
        | None \<Rightarrow>
            if erq_kind (ein_request v) = KR_NONE then recover_with ER_NONE RM_PROCEED_NORMALLY v None
            else if fst (matched_for v) = MS_CONFLICT then
              recover_with ER_EVIDENCE_CONFLICT RM_ACKNOWLEDGE_UNKNOWN v None
            else if erq_disclosure (ein_request v) = Disclosure_RESTRICTED then
              recover_with ER_POLICY_RESTRICTED RM_SAFE_REDIRECT v None
            else if fst (matched_for v) = MS_MATCHED then
              mk_escalation_decision \<lparr>esd_reason = ER_NONE, esd_recovery_mode = RM_ANSWER_WITH_EVIDENCE,
                esd_answerable = True, esd_evidence_ids = map ev_id (snd (matched_for v)),
                esd_capability_required = None, esd_capability_available = None,
                esd_resume_previous_goal = resumes v\<rparr>
            else unknown_answer v))"

text \<open>\<^verbatim>\<open>evaluate\<close> turns any exception into an admission that the evidence is missing.\<close>

definition escalate :: "escalation_input \<Rightarrow> escalation_decision res" where
  "escalate v = (case evaluate_request v of
       Inr d \<Rightarrow> Inr d
     | Inl _ \<Rightarrow> recover_with ER_MISSING_APPROVED_EVIDENCE RM_ACKNOWLEDGE_UNKNOWN v None)"

section \<open>Honest answers\<close>

definition may_answer :: "escalation_input \<Rightarrow> bool" where
  "may_answer v \<longleftrightarrow> ein_scope v \<noteq> Some Scope_OUT_OF_SCOPE \<and> ein_scope v \<noteq> Some Scope_UNKNOWN_SCOPE
     \<and> ein_tier v \<noteq> Some Tier_HUMAN_APPROVAL_REQUIRED \<and> ein_tier v \<noteq> Some Tier_DENIED
     \<and> \<not> wrap_up_requested v \<and> \<not> human_requested v
     \<and> erq_kind (ein_request v) \<noteq> KR_AMBIGUOUS \<and> erq_kind (ein_request v) \<noteq> KR_NONE
     \<and> erq_follow_up (ein_request v) = FU_NONE \<and> erq_disclosure (ein_request v) = Disclosure_ALLOWED"

definition relevant :: "escalation_input \<Rightarrow> evidence_item set" where
  "relevant v = {e \<in> set (lc_evidence (ein_context v)). Some (ev_fact_key e) = erq_fact_key (ein_request v)
     \<and> (\<forall>t. erq_evidence_type (ein_request v) = Some t \<longrightarrow> ev_type e = t)
     \<and> scope_matches e (ccx_campaign_id (lc_campaign (ein_context v))) (erq_service_id (ein_request v))}"

text \<open>There is approved evidence for what is asked, and it speaks with one voice.\<close>

definition supported :: "escalation_input \<Rightarrow> bool" where
  "supported v \<longleftrightarrow> (\<exists>s. ev_statement ` relevant v = {s})"

lemma evidence_matches_relevant:
  assumes "erq_fact_key (ein_request v) = Some key"
  shows "set (evidence_matches (lc_evidence (ein_context v)) key (erq_evidence_type (ein_request v))
    (ccx_campaign_id (lc_campaign (ein_context v))) (erq_service_id (ein_request v))) = relevant v"
  using assms by (auto simp: evidence_matches_def relevant_def)

lemma one_statement: "finite S \<Longrightarrow> S \<noteq> {} \<Longrightarrow> \<not> card S > 1 \<longleftrightarrow> (\<exists>s. S = {s})"
  by (metis One_nat_def card_1_singletonE card_gt_0_iff is_singletonI less_one linorder_neqE_nat not_less_iff_gr_or_eq
      is_singleton_altdef)

lemma matched_iff: "fst (matched_for v) = MS_MATCHED \<longleftrightarrow> supported v"
proof (cases "erq_fact_key (ein_request v)")
  case None
  then have "relevant v = {}" by (simp add: relevant_def)
  with None show ?thesis by (simp add: matched_for_def match_evidence_def supported_def)
next
  case (Some key)
  define ms where "ms = evidence_matches (lc_evidence (ein_context v)) key (erq_evidence_type (ein_request v))
    (ccx_campaign_id (lc_campaign (ein_context v))) (erq_service_id (ein_request v))"
  have rel: "set ms = relevant v" unfolding ms_def by (rule evidence_matches_relevant [OF Some])
  have match: "matched_for v = (if ms = [] then (MS_NOT_FOUND, [])
      else if card (set (map ev_statement ms)) > 1 then (MS_CONFLICT, []) else (MS_MATCHED, take 8 ms))"
    using Some by (simp add: matched_for_def match_evidence_def ms_def)
  show ?thesis
  proof (cases "ms = []")
    case True
    with rel match show ?thesis by (simp add: supported_def)
  next
    case False
    with one_statement [of "set (map ev_statement ms)"] have "\<not> card (set (map ev_statement ms)) > 1 \<longleftrightarrow> supported v"
      by (simp add: supported_def rel [symmetric])
    with False match show ?thesis by (cases "card (set (map ev_statement ms)) > 1") auto
  qed
qed

lemma matched_items:
  assumes "distinct (map ev_id (lc_evidence (ein_context v)))" and "fst (matched_for v) = MS_MATCHED"
  shows "set (snd (matched_for v)) \<subseteq> relevant v" "snd (matched_for v) \<noteq> []" "length (snd (matched_for v)) \<le> 8"
    "distinct (map ev_id (snd (matched_for v)))" "sorted (map ev_id (snd (matched_for v)))"
proof -
  from assms(2) obtain key where key: "erq_fact_key (ein_request v) = Some key"
    by (auto simp: matched_for_def match_evidence_def split: option.splits)
  let ?ms = "evidence_matches (lc_evidence (ein_context v)) key (erq_evidence_type (ein_request v))
    (ccx_campaign_id (lc_campaign (ein_context v))) (erq_service_id (ein_request v))"
  have items: "snd (matched_for v) = take 8 ?ms" "?ms \<noteq> []"
    using assms(2) key by (auto simp: matched_for_def match_evidence_def Let_def split: if_splits)
  have "distinct (map ev_id ?ms)"
  proof -
    have "mset (map ev_id ?ms) = mset (map ev_id (filter (\<lambda>e. ev_fact_key e = key \<and>
        (\<forall>t \<in> set_option (erq_evidence_type (ein_request v)). ev_type e = t) \<and> scope_matches e
        (ccx_campaign_id (lc_campaign (ein_context v))) (erq_service_id (ein_request v))) (lc_evidence (ein_context v))))"
      by (simp only: evidence_matches_def mset_map mset_sort)
    then show ?thesis
      using distinct_map_filter [OF assms(1)] by (rule iffD2 [OF mset_eq_imp_distinct_iff])
  qed
  moreover have "sorted (map ev_id ?ms)" by (simp add: evidence_matches_def)
  ultimately show "distinct (map ev_id (snd (matched_for v)))" "sorted (map ev_id (snd (matched_for v)))"
    unfolding items(1) take_map [symmetric] by (simp_all only: distinct_take sorted_wrt_take)
  show "set (snd (matched_for v)) \<subseteq> relevant v"
    unfolding items(1) evidence_matches_relevant [OF key, symmetric] by (rule set_take_subset)
  show "snd (matched_for v) \<noteq> []" "length (snd (matched_for v)) \<le> 8" using items by simp_all
qed

definition offer_ok :: "escalation_input \<Rightarrow> escalation_decision \<Rightarrow> bool" where
  "offer_ok v d \<longleftrightarrow> (esd_recovery_mode d \<in> {RM_OFFER_HUMAN_FOLLOW_UP, RM_OFFER_CALLBACK, RM_OFFER_INFORMATION_FOLLOW_UP} \<longrightarrow>
     (\<exists>cap. esd_capability_required d = Some cap \<and> supports (ein_capabilities v) cap
        \<and> (cap = Cap_EMAIL \<or> cap = Cap_MESSAGE \<longrightarrow> contact_confirmed v)))"

text \<open>A decision that does not answer: what it offers exists, and it raises nothing.\<close>

definition silent :: "escalation_input \<Rightarrow> escalation_decision res \<Rightarrow> bool" where
  "silent v r \<longleftrightarrow> (\<exists>d. r = Inr d \<and> mk_escalation_decision d = Inr d \<and> \<not> esd_answerable d \<and> offer_ok v d)"

lemma recover_with_silent:
  assumes "mode \<noteq> RM_ANSWER_WITH_EVIDENCE"
    and "mode \<in> {RM_OFFER_HUMAN_FOLLOW_UP, RM_OFFER_CALLBACK, RM_OFFER_INFORMATION_FOLLOW_UP} \<Longrightarrow> \<exists>c. cap = Some (c, True)
      \<and> supports (ein_capabilities v) c \<and> (c = Cap_EMAIL \<or> c = Cap_MESSAGE \<longrightarrow> contact_confirmed v)
      \<and> (case offer_capability mode of Some x \<Rightarrow> c = x | None \<Rightarrow> c \<in> {Cap_EMAIL, Cap_MESSAGE, Cap_TECHNICAL_REVIEW})"
  shows "silent v (recover_with reason mode v cap)"
proof -
  let ?d = "\<lparr>esd_reason = reason, esd_recovery_mode = mode, esd_answerable = False, esd_evidence_ids = [],
     esd_capability_required = map_option fst cap, esd_capability_available = map_option snd cap,
     esd_resume_previous_goal = resumes v\<rparr>"
  have "mk_escalation_decision ?d = Inr ?d"
    using assms by (cases mode) (auto simp: mk_escalation_decision_def ex_bool_eq)
  moreover have "offer_ok v ?d"
    using assms(2) by (auto simp: offer_ok_def)
  ultimately show ?thesis unfolding silent_def recover_with_def by (intro exI [of _ ?d]) simp
qed

lemma human_offer_silent: "silent v (human_offer reason v)"
  by (auto simp: human_offer_def Let_def intro!: recover_with_silent)

lemma human_request_silent: "silent v (human_request v)"
  using human_offer_silent [of v ER_HUMAN_REQUESTED]
  by (auto simp: human_request_def Let_def intro!: recover_with_silent)

lemma unknown_answer_silent: "silent v (unknown_answer v)"
  by (auto simp: unknown_answer_def Let_def intro!: recover_with_silent)

lemma requested_offer_cases:
  assumes "erq_follow_up (ein_request v) \<noteq> FU_NONE"
  shows "\<exists>d. requested_offer v = Inr (Some d) \<and> silent v (Inr d)"
proof -
  obtain cap mode where cap: "follow_up_capability (erq_follow_up (ein_request v)) = Some (cap, mode)"
    using assms by (cases "erq_follow_up (ein_request v)") auto
  have "silent v (if \<not> supports (ein_capabilities v) cap then
             recover_with ER_CAPABILITY_UNAVAILABLE RM_ACKNOWLEDGE_UNKNOWN v (Some (cap, False))
           else if (erq_follow_up (ein_request v) = FU_EMAIL \<or> erq_follow_up (ein_request v) = FU_MESSAGE) \<and> \<not> contact_confirmed v then
             recover_with ER_CAPABILITY_UNAVAILABLE RM_ASK_CLARIFYING_QUESTION v (Some (cap, True))
           else recover_with ER_NONE mode v (Some (cap, True)))" (is "silent v ?r")
    using cap by (cases "erq_follow_up (ein_request v)") (auto intro!: recover_with_silent)
  then obtain d where "?r = Inr d" "silent v (Inr d)" by (auto simp: silent_def)
  with cap show ?thesis by (auto simp: requested_offer_def Let_def)
qed

lemma not_answering:
  assumes "\<not> (may_answer v \<and> fst (matched_for v) = MS_MATCHED)"
  shows "silent v (evaluate_request v)"
proof (cases "erq_follow_up (ein_request v) = FU_NONE")
  case True
  then have "requested_offer v = Inr None" by (simp add: requested_offer_def)
  with assms True show ?thesis
    using human_offer_silent human_request_silent unknown_answer_silent
    by (cases "erq_disclosure (ein_request v)") (auto simp: evaluate_request_def may_answer_def intro!: recover_with_silent)
next
  case False
  with requested_offer_cases [OF False] show ?thesis
    using human_offer_silent human_request_silent
    by (auto simp: evaluate_request_def intro!: recover_with_silent)
qed

text \<open>
  C34. Graceful escalation. For every context the builder makes, the policy decides, and its
  decision satisfies its contract. It answers exactly when the request is in scope, within the
  authority, not restricted, the prospect wants neither a person nor to stop, and approved
  evidence for the fact exists that does not contradict itself; the answer then cites only such
  evidence, at most eight pieces. Every follow-up it offers is one the campaign has, and one
  that needs an address only when the contact is confirmed.
\<close>

theorem escalation_is_honest:
  assumes "build_context DEFAULT_CONTEXT_BOUNDS i = Inr (ein_context v)"
  shows "\<exists>d. escalate v = Inr d \<and> mk_escalation_decision d = Inr d \<and> offer_ok v d
    \<and> (esd_answerable d \<longleftrightarrow> may_answer v \<and> supported v)
    \<and> (esd_answerable d \<longrightarrow> esd_evidence_ids d \<noteq> [] \<and> length (esd_evidence_ids d) \<le> 8
        \<and> set (esd_evidence_ids d) \<subseteq> ev_id ` relevant v)"
proof (cases "may_answer v \<and> fst (matched_for v) = MS_MATCHED")
  case True
  obtain campaign services where "applicable_evidence DEFAULT_CONTEXT_BOUNDS (bin_evidence i) campaign services
      = Inr (lc_evidence (ein_context v))"
    using built_evidence [OF assms] by blast
  from applicable_evidence_spec(3) [OF this] have "distinct (map ev_id (lc_evidence (ein_context v)))"
    by (simp add: consistent_evidence_def)
  note items = matched_items [OF this conjunct2 [OF True]]
  have "requested_offer v = Inr None"
    using True by (simp add: requested_offer_def may_answer_def)
  let ?d = "\<lparr>esd_reason = ER_NONE, esd_recovery_mode = RM_ANSWER_WITH_EVIDENCE,
     esd_answerable = True, esd_evidence_ids = map ev_id (snd (matched_for v)),
     esd_capability_required = None, esd_capability_available = None, esd_resume_previous_goal = resumes v\<rparr>"
  from \<open>requested_offer v = Inr None\<close> have "evaluate_request v = Inr ?d" and made: "mk_escalation_decision ?d = Inr ?d"
    using True items by (simp_all add: evaluate_request_def may_answer_def mk_escalation_decision_def sorted_sort_id)
  then have "escalate v = Inr ?d" by (simp add: escalate_def)
  moreover have "supported v" using True by (simp add: matched_iff)
  ultimately show ?thesis
    using made True items by (intro exI [of _ ?d]) (auto simp: offer_ok_def)
next
  case False
  from not_answering [OF this] obtain d where "evaluate_request v = Inr d" "mk_escalation_decision d = Inr d"
    "\<not> esd_answerable d" "offer_ok v d" by (auto simp: silent_def)
  with False show ?thesis by (intro exI [of _ d]) (auto simp: escalate_def matched_iff)
qed

definition uptime_question :: escalation_input where
  "uptime_question = \<lparr>ein_context = projr (build_context DEFAULT_CONTEXT_BOUNDS hello_input),
     ein_request = \<lparr>erq_kind = KR_FACT, erq_fact_key = Some ''uptime'', erq_evidence_type = None,
       erq_service_id = None, erq_follow_up = FU_NONE, erq_disclosure = Disclosure_ALLOWED\<rparr>,
     ein_capabilities = \<lparr>cap_human_handoff = False, cap_callback = False, cap_email = False,
       cap_messaging = False, cap_technical = False\<rparr>,
     ein_scope = Some Scope_IN_SCOPE, ein_tier = Some Tier_AUTO_EXECUTE\<rparr>"

lemma escalation_is_honest_witness:
  "\<exists>d. escalate uptime_question = Inr d \<and> esd_answerable d \<and> esd_evidence_ids d \<noteq> []
     \<and> set (esd_evidence_ids d) \<subseteq> {''ev-1''}"
proof -
  have "isl (build_context DEFAULT_CONTEXT_BOUNDS hello_input) = False" by code_simp
  then have built: "build_context DEFAULT_CONTEXT_BOUNDS hello_input = Inr (ein_context uptime_question)"
    by (simp add: uptime_question_def not_isl_Inr)
  have "fst (matched_for uptime_question) = MS_MATCHED" "may_answer uptime_question"
    "lc_evidence (ein_context uptime_question) = [web_evidence]" by code_simp+
  moreover from this(3) have "relevant uptime_question \<subseteq> {web_evidence}" by (auto simp: relevant_def)
  ultimately show ?thesis
    using escalation_is_honest [OF built] by (fastforce simp: matched_iff web_evidence_def)
qed

end
