(* ===== verification/Participant.thy ===== *)
theory Participant
  imports Prospect
begin

text \<open>
  \<^verbatim>\<open>conversation/participant\<close> and the part of \<^verbatim>\<open>application/production_turn_processor.py\<close> that
  keeps track of who is on the line: the references of participants, the decision whether the
  speaker is still the same person, what happens to the knowledge about a person who hands the
  call over, and which explanations each person has already heard.
\<close>

section \<open>Language of a speaker\<close>

datatype language_script = LS_LATIN | LS_URDU_ARABIC | LS_DEVANAGARI | LS_OTHER | LS_UNKNOWN

datatype register = Reg_CASUAL | Reg_NEUTRAL | Reg_FORMAL | Reg_UNKNOWN

record language_profile =
  lp_primary_language :: str
  lp_secondary_language :: "str option"
  lp_mixed_language :: bool
  lp_script :: language_script
  lp_register :: register
  lp_preferred_language :: "str option"
  lp_preferred_script :: "language_script option"

text \<open>\<^verbatim>\<open>str.isalpha\<close> and \<^verbatim>\<open>str.isalnum\<close> of one character among the code points 0 to 255.\<close>

definition py_isalpha :: "char \<Rightarrow> bool" where
  "py_isalpha c = (let n = (of_char c :: nat) in (65 \<le> n \<and> n \<le> 90) \<or> (97 \<le> n \<and> n \<le> 122)
     \<or> n = 170 \<or> n = 181 \<or> n = 186 \<or> (192 \<le> n \<and> n \<le> 255 \<and> n \<noteq> 215 \<and> n \<noteq> 247))"

definition py_isalnum :: "char \<Rightarrow> bool" where
  "py_isalnum c = (let n = (of_char c :: nat) in py_isalpha c \<or> (48 \<le> n \<and> n \<le> 57)
     \<or> n = 178 \<or> n = 179 \<or> n = 185 \<or> (188 \<le> n \<and> n \<le> 190))"

definition language_tag :: "str \<Rightarrow> bool" where
  "language_tag s \<longleftrightarrow> text_within 35 s \<and> py_isalpha (hd s) \<and> (\<forall>c \<in> set s. py_isalnum c \<or> c = CHR ''-'')"

definition mk_language_profile :: "language_profile \<Rightarrow> language_profile res" where
  "mk_language_profile p =
     rbind (guard (language_tag (lp_primary_language p)) ValueError) (\<lambda>_.
     rbind (guard (\<forall>s \<in> set_option (lp_secondary_language p). language_tag s) ValueError) (\<lambda>_.
     rbind (guard (\<forall>s \<in> set_option (lp_preferred_language p). language_tag s
         \<and> (s = lp_primary_language p \<or> Some s = lp_secondary_language p)) ValueError) (\<lambda>_.
     rbind (guard (lp_mixed_language p = (lp_secondary_language p \<noteq> None)) ValueError) (\<lambda>_.
     rbind (guard ((lp_preferred_language p = None) = (lp_preferred_script p = None)) ValueError) (\<lambda>_.
     Inr p)))))"

section \<open>Participants\<close>

datatype continuity_state = CS_SAME_CONFIRMED | CS_NEW_CONFIRMED | CS_LIKELY_NEW | CS_UNCERTAIN | CS_UNKNOWN

datatype participant_evidence_kind =
    PEv_NONE | PEv_SELF_IDENTIFICATION | PEv_NOT_PART_OF_PRIOR_DISCUSSION | PEv_HANDOFF
  | PEv_CORRECTION | PEv_INFERRED

datatype role_hint =
    RH_UNKNOWN | RH_OWNER | RH_MANAGER | RH_EMPLOYEE | RH_COLLEAGUE | RH_GATEKEEPER | RH_ASSISTANT | RH_CUSTOMER

record participant_reference =
  pr_reference_id :: str
  pr_role_hint :: role_hint
  pr_display_label :: "str option"

definition mk_reference :: "participant_reference \<Rightarrow> participant_reference res" where
  "mk_reference r =
     rbind (guard (\<not> (pr_reference_id r = [] \<or> length (pr_reference_id r) > 80)) ValueError) (\<lambda>_.
     rbind (guard (\<forall>l \<in> set_option (pr_display_label r). \<not> length l > 120) ValueError) (\<lambda>_. Inr r))"

record participant_evidence =
  pe_kind :: participant_evidence_kind
  pe_source_turn_id :: str
  pe_claimed_role_hint :: role_hint

definition mk_participant_evidence :: "participant_evidence \<Rightarrow> participant_evidence res" where
  "mk_participant_evidence e = rbind (guard (turn_id_ok (pe_source_turn_id e)) ValueError) (\<lambda>_. Inr e)"

record continuity_decision =
  pcd_state :: continuity_state
  pcd_active_participant :: participant_reference
  pcd_evidence_kind :: participant_evidence_kind
  pcd_archived_prior :: "participant_reference option"

definition mk_continuity_decision :: "continuity_decision \<Rightarrow> continuity_decision res" where
  "mk_continuity_decision d =
     (if pcd_state d = CS_NEW_CONFIRMED then
        (case pcd_archived_prior d of
           None \<Rightarrow> Inl ValueError
         | Some prior \<Rightarrow> if pr_reference_id prior = pr_reference_id (pcd_active_participant d)
             then Inl ValueError else Inr d)
      else Inr d)"

record participant_state =
  pst_participant :: participant_reference
  pst_heard :: "str set"
  pst_role_hint :: role_hint
  pst_interest_observed :: "bool option"
  pst_objection_concepts :: "str set"
  pst_language_preference :: "str option"
  pst_busy_observed :: "bool option"

definition mk_participant_state :: "participant_state \<Rightarrow> participant_state res" where
  "mk_participant_state s =
     rbind (guard (\<not> card (pst_heard s) > 32) ValueError) (\<lambda>_.
     rbind (guard (\<not> card (pst_objection_concepts s) > 16) ValueError) (\<lambda>_. Inr s))"

section \<open>Who has heard what\<close>

datatype explanation_depth = ED_NONE | ED_MENTIONED | ED_BRIEF | ED_EXPLAINED | ED_DETAILED

text \<open>The \<^verbatim>\<open>order\<close> dictionary of \<^verbatim>\<open>depth_for\<close>.\<close>

fun depth_rank :: "explanation_depth \<Rightarrow> nat" where
  "depth_rank ED_NONE = 0" | "depth_rank ED_MENTIONED = 1" | "depth_rank ED_BRIEF = 2"
| "depth_rank ED_EXPLAINED = 3" | "depth_rank ED_DETAILED = 4"

record coverage_entry =
  dce_participant :: str
  dce_concept :: str
  dce_depth :: explanation_depth
  dce_source_turn_id :: str

definition mk_coverage_entry :: "coverage_entry \<Rightarrow> coverage_entry res" where
  "mk_coverage_entry e =
     rbind (guard (\<not> (dce_participant e = [] \<or> length (dce_participant e) > 80)) ValueError) (\<lambda>_.
     rbind (guard (\<not> (dce_concept e = [] \<or> length (dce_concept e) > 100)) ValueError) (\<lambda>_.
     rbind (guard (turn_id_ok (dce_source_turn_id e)) ValueError) (\<lambda>_. Inr e)))"

record coverage =
  dcs_entries :: "coverage_entry list"
  dcs_asked_questions :: "(str \<times> str) list"
  dcs_handled_objections :: "(str \<times> str) list"
  dcs_discussed_evidence :: "str set"

definition mk_coverage :: "coverage \<Rightarrow> coverage res" where
  "mk_coverage c =
     rbind (guard (\<not> length (dcs_entries c) > 128) ValueError) (\<lambda>_.
     rbind (guard (\<not> length (dcs_asked_questions c) > 128) ValueError) (\<lambda>_.
     rbind (guard (\<not> length (dcs_handled_objections c) > 64) ValueError) (\<lambda>_.
     rbind (guard (\<not> card (dcs_discussed_evidence c) > 128) ValueError) (\<lambda>_. Inr c))))"

definition empty_coverage :: coverage where
  "empty_coverage = \<lparr>dcs_entries = [], dcs_asked_questions = [], dcs_handled_objections = [],
     dcs_discussed_evidence = {}\<rparr>"

definition heard_by :: "coverage \<Rightarrow> str \<Rightarrow> str set" where
  "heard_by c pid = set (map dce_concept (filter (\<lambda>e. dce_participant e = pid) (dcs_entries c)))"

definition depth_for :: "coverage \<Rightarrow> str \<Rightarrow> str \<Rightarrow> explanation_depth" where
  "depth_for c pid concept = foldl (\<lambda>best e.
     if dce_participant e = pid \<and> dce_concept e = concept \<and> depth_rank (dce_depth e) > depth_rank best
     then dce_depth e else best) ED_NONE (dcs_entries c)"

section \<open>The same person or another one\<close>

text \<open>
  \<^verbatim>\<open>deterministic_participant_factory\<close>: the counter is advanced before the reference is
  built, also when building it fails.
\<close>

definition reference_id :: "str \<Rightarrow> nat \<Rightarrow> str" where
  "reference_id session n = session @ '':participant_'' @ nat_str n"

definition new_reference :: "str \<Rightarrow> nat \<Rightarrow> role_hint \<Rightarrow> participant_reference res \<times> nat" where
  "new_reference session counter hint =
     (mk_reference \<lparr>pr_reference_id = reference_id session (Suc counter), pr_role_hint = hint,
        pr_display_label = None\<rparr>, Suc counter)"

text \<open>The placeholder that stands for the unknown person before the first participant.\<close>

definition prior_placeholder :: "participant_reference \<Rightarrow> participant_reference res" where
  "prior_placeholder r = mk_reference \<lparr>pr_reference_id = pr_reference_id r @ ''__prior_placeholder'',
     pr_role_hint = RH_UNKNOWN, pr_display_label = None\<rparr>"

definition confirmed_new ::
  "str \<Rightarrow> nat \<Rightarrow> participant_reference option \<Rightarrow> participant_evidence
    \<Rightarrow> continuity_decision res \<times> nat" where
  "confirmed_new session counter active e =
     (case new_reference session counter (pe_claimed_role_hint e) of (ref, counter') \<Rightarrow>
       (rbind ref (\<lambda>new_ref.
        rbind (case active of None \<Rightarrow> prior_placeholder new_ref | Some a \<Rightarrow> Inr a) (\<lambda>prior.
        mk_continuity_decision \<lparr>pcd_state = CS_NEW_CONFIRMED, pcd_active_participant = new_ref,
          pcd_evidence_kind = pe_kind e, pcd_archived_prior = Some prior\<rparr>)), counter'))"

definition decision_with ::
  "continuity_state \<Rightarrow> participant_evidence_kind \<Rightarrow> participant_reference \<Rightarrow> continuity_decision res" where
  "decision_with state kind ref = mk_continuity_decision \<lparr>pcd_state = state, pcd_active_participant = ref,
     pcd_evidence_kind = kind, pcd_archived_prior = None\<rparr>"

definition first_participant ::
  "str \<Rightarrow> nat \<Rightarrow> continuity_state \<Rightarrow> participant_evidence_kind \<Rightarrow> role_hint
    \<Rightarrow> continuity_decision res \<times> nat" where
  "first_participant session counter state kind hint =
     (case new_reference session counter hint of (ref, counter') \<Rightarrow>
       (rbind ref (decision_with state kind), counter'))"

definition decide_participant ::
  "str \<Rightarrow> nat \<Rightarrow> participant_reference option \<Rightarrow> participant_evidence
    \<Rightarrow> continuity_decision res \<times> nat" where
  "decide_participant session counter active e =
     (let kind = pe_kind e; hint = pe_claimed_role_hint e in
      if kind = PEv_NOT_PART_OF_PRIOR_DISCUSSION \<or> kind = PEv_HANDOFF then
        confirmed_new session counter active e
      else if kind = PEv_SELF_IDENTIFICATION then
        (case active of
           None \<Rightarrow> first_participant session counter CS_SAME_CONFIRMED kind hint
         | Some a \<Rightarrow> (rbind (mk_reference (a\<lparr>pr_role_hint :=
               (if hint \<noteq> RH_UNKNOWN then hint else pr_role_hint a)\<rparr>))
               (decision_with CS_SAME_CONFIRMED kind), counter))
      else if kind = PEv_CORRECTION then
        (case active of
           None \<Rightarrow> first_participant session counter CS_UNCERTAIN kind hint
         | Some a \<Rightarrow> (decision_with CS_SAME_CONFIRMED kind a, counter))
      else if kind = PEv_INFERRED then
        (case active of
           None \<Rightarrow> first_participant session counter CS_LIKELY_NEW kind hint
         | Some a \<Rightarrow> (decision_with CS_LIKELY_NEW kind a, counter))
      else
        (case active of
           Some a \<Rightarrow> (decision_with CS_SAME_CONFIRMED PEv_NONE a, counter)
         | None \<Rightarrow> first_participant session counter CS_UNKNOWN PEv_NONE RH_UNKNOWN))"

section \<open>Explaining again\<close>

datatype re_explanation_intent =
    RI_NONE | RI_RECAP_REQUEST | RI_SIMPLIFY_REQUEST | RI_DEEPEN_REQUEST | RI_DIRECT_SERVICE_QUESTION
  | RI_CATALOG_REQUEST

datatype re_explanation_strategy =
    RS_SUPPRESS | RS_CONCISE_RECAP | RS_FULL_RE_EXPLAIN | RS_DEEPEN | RS_SIMPLIFY | RS_NO_PRIOR_COVERAGE

record re_explanation_decision =
  red_strategy :: re_explanation_strategy
  red_concept_id :: str
  red_participant_reference_id :: str
  red_prior_depth :: explanation_depth
  red_reason :: str

definition mk_re_explanation_decision :: "re_explanation_decision \<Rightarrow> re_explanation_decision res" where
  "mk_re_explanation_decision d =
     rbind (guard (\<not> (red_reason d = [] \<or> length (red_reason d) > 200)) ValueError) (\<lambda>_. Inr d)"

definition re_explain ::
  "continuity_state \<Rightarrow> str \<Rightarrow> str \<Rightarrow> coverage \<Rightarrow> re_explanation_intent \<Rightarrow> re_explanation_decision res" where
  "re_explain continuity active_id concept cov intent =
     (let prior_depth = depth_for cov active_id concept;
          heard_elsewhere = (\<exists>e \<in> set (dcs_entries cov). dce_concept e = concept \<and> dce_participant e \<noteq> active_id);
          is_new = (continuity = CS_NEW_CONFIRMED \<or> continuity = CS_LIKELY_NEW);
          decision = (\<lambda>strategy reason. mk_re_explanation_decision \<lparr>red_strategy = strategy,
            red_concept_id = concept, red_participant_reference_id = active_id,
            red_prior_depth = prior_depth, red_reason = reason\<rparr>) in
      if intent = RI_SIMPLIFY_REQUEST then decision RS_SIMPLIFY ''participant requested simplification''
      else if intent = RI_DEEPEN_REQUEST then decision RS_DEEPEN ''participant requested deeper explanation''
      else if intent = RI_RECAP_REQUEST then
        (if is_new then decision RS_FULL_RE_EXPLAIN ''new participant asking for context''
         else decision RS_CONCISE_RECAP ''same participant requested recap'')
      else if intent = RI_DIRECT_SERVICE_QUESTION \<and> is_new then
        decision RS_FULL_RE_EXPLAIN ''new participant asked a direct service question''
      else if intent = RI_DIRECT_SERVICE_QUESTION \<and> prior_depth \<noteq> ED_NONE then
        decision RS_CONCISE_RECAP ''same participant explicitly re-asked a direct service question''
      else if prior_depth = ED_NONE \<and> \<not> heard_elsewhere then
        decision RS_NO_PRIOR_COVERAGE ''concept has not been discussed''
      else if is_new \<and> heard_elsewhere \<and> prior_depth = ED_NONE then
        decision RS_FULL_RE_EXPLAIN ''new participant has not yet heard concept''
      else if prior_depth = ED_EXPLAINED \<or> prior_depth = ED_DETAILED then
        decision RS_SUPPRESS ''participant already received a full explanation''
      else decision RS_SUPPRESS ''no re-explanation signal'')"

record explained_concept =
  ec_concept_id :: str
  ec_delivered_depth :: explanation_depth

definition mk_explained_concept :: "explained_concept \<Rightarrow> explained_concept res" where
  "mk_explained_concept x =
     rbind (guard (\<not> (ec_concept_id x = [] \<or> length (ec_concept_id x) > 120)) ValueError) (\<lambda>_.
     rbind (guard (ec_delivered_depth x \<noteq> ED_NONE) ValueError) (\<lambda>_. Inr x))"

section \<open>The participants of a call\<close>

text \<open>
  The fields of the processor this part reads and writes. The counter is the cell inside the
  factory; a processor that continues a stored call starts it at the number of participants it
  has restored.
\<close>

record participants =
  pt_session :: str
  pt_counter :: nat
  pt_active :: "participant_reference option"
  pt_archived :: "participant_state list"
  pt_decision :: "continuity_decision option"
  pt_coverage :: coverage
  pt_prospect :: prospect_snapshot
  pt_prospect_archive :: "(str \<times> prospect_snapshot) list"
  pt_language :: "language_profile option"

definition start_participants ::
  "str \<Rightarrow> participant_reference option \<Rightarrow> participant_state list \<Rightarrow> coverage \<Rightarrow> prospect_snapshot
    \<Rightarrow> (str \<times> prospect_snapshot) list \<Rightarrow> language_profile option \<Rightarrow> participants" where
  "start_participants session active archived cov prospect archive language =
     \<lparr>pt_session = session, pt_counter = length archived + (if active \<noteq> None then 1 else 0),
      pt_active = active, pt_archived = archived, pt_decision = None, pt_coverage = cov,
      pt_prospect = prospect, pt_prospect_archive = archive, pt_language = language\<rparr>"

definition apply_participant_decision :: "continuity_decision \<Rightarrow> participants \<Rightarrow> unit res \<times> participants" where
  "apply_participant_decision d s =
     (if pcd_state d = CS_NEW_CONFIRMED then
        (case (case pt_active s of
             None \<Rightarrow> Inr s
           | Some a \<Rightarrow> rbind (mk_participant_state \<lparr>pst_participant = a,
                 pst_heard = heard_by (pt_coverage s) (pr_reference_id a), pst_role_hint = pr_role_hint a,
                 pst_interest_observed = None, pst_objection_concepts = {},
                 pst_language_preference = map_option lp_primary_language (pt_language s),
                 pst_busy_observed = None\<rparr>) (\<lambda>archived.
               Inr (s\<lparr>pt_archived := pt_archived s @ [archived],
                 pt_prospect_archive := pt_prospect_archive s @ [(pr_reference_id a, pt_prospect s)]\<rparr>))) of
           Inl x \<Rightarrow> (Inl x, s)
         | Inr s' \<Rightarrow> (Inr (), s'\<lparr>pt_active := Some (pcd_active_participant d),
             pt_prospect := empty_prospect, pt_language := None\<rparr>))
      else if pcd_state d = CS_SAME_CONFIRMED then
        (Inr (), s\<lparr>pt_active := Some (pcd_active_participant d)\<rparr>)
      else (Inr (), s))"

definition participant_turn :: "participant_evidence \<Rightarrow> participants \<Rightarrow> unit res \<times> participants" where
  "participant_turn e s =
     (case decide_participant (pt_session s) (pt_counter s) (pt_active s) e of
        (Inl x, counter) \<Rightarrow> (Inl x, s\<lparr>pt_counter := counter\<rparr>)
      | (Inr d, counter) \<Rightarrow>
          apply_participant_decision d (s\<lparr>pt_counter := counter, pt_decision := Some d\<rparr>))"

definition record_discussion_coverage ::
  "str \<Rightarrow> explanation_depth \<Rightarrow> str \<Rightarrow> participants \<Rightarrow> unit res \<times> participants" where
  "record_discussion_coverage concept depth turn_id s =
     (case pt_active s of
        None \<Rightarrow> (Inr (), s)
      | Some a \<Rightarrow>
          (case rbind (mk_coverage_entry \<lparr>dce_participant = pr_reference_id a, dce_concept = concept,
                dce_depth = depth, dce_source_turn_id = turn_id\<rparr>) (\<lambda>entry.
              mk_coverage ((pt_coverage s)\<lparr>dcs_entries := dcs_entries (pt_coverage s) @ [entry]\<rparr>)) of
             Inl x \<Rightarrow> (Inl x, s)
           | Inr cov \<Rightarrow> (Inr (), s\<lparr>pt_coverage := cov\<rparr>)))"

record planner_fields =
  plf_strategy :: "re_explanation_strategy option"
  plf_concept_id :: "str option"
  plf_prior_depth :: "explanation_depth option"
  plf_participant_ref :: "str option"
  plf_catalog_request :: bool

text \<open>
  What an optional provider answers: nothing is configured, it raises, or it returns a value
  (for the intent provider \<open>None\<close> when the value is not an intent).
\<close>

type_synonym 'a provided = "'a option res option"

definition provided_value :: "'a provided \<Rightarrow> 'a option" where
  "provided_value p = (case p of Some (Inr v) \<Rightarrow> v | _ \<Rightarrow> None)"

definition decision_state :: "participants \<Rightarrow> continuity_state" where
  "decision_state s = (case pt_decision s of None \<Rightarrow> CS_UNKNOWN | Some d \<Rightarrow> pcd_state d)"

definition query_re_explanation :: "participants \<Rightarrow> str \<Rightarrow> re_explanation_intent option \<Rightarrow> re_explanation_decision res" where
  "query_re_explanation s concept intent =
     re_explain (decision_state s)
       (case pt_active s of None \<Rightarrow> ''unknown'' | Some a \<Rightarrow> pr_reference_id a) concept (pt_coverage s)
       (case intent of None \<Rightarrow> RI_NONE | Some i \<Rightarrow> i)"

definition resolve_planner_fields ::
  "participants \<Rightarrow> re_explanation_intent provided \<Rightarrow> str provided \<Rightarrow> planner_fields res" where
  "resolve_planner_fields s intent_answer concept_answer =
     (let none = \<lparr>plf_strategy = None, plf_concept_id = None, plf_prior_depth = None,
            plf_participant_ref = None, plf_catalog_request = False\<rparr> in
      case pt_active s of
        None \<Rightarrow> Inr none
      | Some a \<Rightarrow>
          (let known = none\<lparr>plf_participant_ref := Some (pr_reference_id a)\<rparr>;
               intent = (case provided_value intent_answer of None \<Rightarrow> RI_NONE | Some i \<Rightarrow> i) in
           if intent = RI_CATALOG_REQUEST then Inr (known\<lparr>plf_catalog_request := True\<rparr>)
           else if \<not> truthy (provided_value concept_answer) then Inr known
           else (let concept = the (provided_value concept_answer) in
             rbind (re_explain (decision_state s) (pr_reference_id a) concept (pt_coverage s) intent) (\<lambda>d.
             Inr (known\<lparr>plf_concept_id := Some concept,
               plf_prior_depth := Some (depth_for (pt_coverage s) (pr_reference_id a) concept),
               plf_strategy := Some (red_strategy d)\<rparr>)))))"

fun delivered_depth :: "re_explanation_strategy \<Rightarrow> explanation_depth option" where
  "delivered_depth RS_NO_PRIOR_COVERAGE = Some ED_EXPLAINED"
| "delivered_depth RS_FULL_RE_EXPLAIN = Some ED_EXPLAINED"
| "delivered_depth RS_CONCISE_RECAP = Some ED_BRIEF"
| "delivered_depth RS_DEEPEN = Some ED_DETAILED"
| "delivered_depth RS_SIMPLIFY = Some ED_BRIEF"
| "delivered_depth RS_SUPPRESS = None"

definition compute_delivered :: "planner_fields \<Rightarrow> explained_concept option res" where
  "compute_delivered f =
     (if \<not> truthy (plf_concept_id f) then Inr None
      else case plf_strategy f of
        None \<Rightarrow> Inr None
      | Some strategy \<Rightarrow> (case delivered_depth strategy of
            None \<Rightarrow> Inr None
          | Some depth \<Rightarrow> rbind (mk_explained_concept \<lparr>ec_concept_id = the (plf_concept_id f),
              ec_delivered_depth = depth\<rparr>) (\<lambda>x. Inr (Some x))))"

definition auto_advance_coverage ::
  "str \<Rightarrow> explained_concept option \<Rightarrow> participants \<Rightarrow> unit res \<times> participants" where
  "auto_advance_coverage turn_id delivered s =
     (case delivered of
        None \<Rightarrow> (Inr (), s)
      | Some x \<Rightarrow> record_discussion_coverage (ec_concept_id x) (ec_delivered_depth x) turn_id s)"

section \<open>References are never reused\<close>

definition read_nat :: "str \<Rightarrow> nat" where
  "read_nat s = foldl (\<lambda>n c. 10 * n + (of_char c - 48)) 0 s"

lemma read_nat_str [simp]: "read_nat (nat_str n) = n"
proof (induction n rule: nat_str.induct)
  case (1 n)
  show ?case
  proof (cases "n < 10")
    case True
    then show ?thesis by (simp add: nat_str.simps [of n] read_nat_def)
  next
    case False
    have "n mod 10 < 10" by simp
    then have "of_char (char_of (48 + n mod 10) :: char) = 48 + n mod 10" by (simp only: of_char_of) simp
    with False 1 show ?thesis
      by (simp add: nat_str.simps [of n] read_nat_def)
  qed
qed

lemma nat_str_inject [simp]: "nat_str m = nat_str n \<longleftrightarrow> m = n"
  using read_nat_str by metis

lemma reference_id_inject [simp]: "reference_id session m = reference_id session n \<longleftrightarrow> m = n"
  by (simp add: reference_id_def)

lemma reference_id_not_Nil [simp]: "reference_id session n \<noteq> []"
  by (simp add: reference_id_def)

lemma placeholder_differs [simp]: "ref @ ''__prior_placeholder'' \<noteq> ref"
  by simp

text \<open>Everything that can happen to the participants of a call.\<close>

datatype participant_event =
    Speaker participant_evidence
  | Explained str explanation_depth str
  | Learned prospect_snapshot
  | Heard_language "language_profile option"

fun participant_step :: "participants \<Rightarrow> participant_event \<Rightarrow> participants" where
  "participant_step s (Speaker e) = snd (participant_turn e s)"
| "participant_step s (Explained concept depth turn_id) = snd (record_discussion_coverage concept depth turn_id s)"
| "participant_step s (Learned p) = s\<lparr>pt_prospect := p\<rparr>"
| "participant_step s (Heard_language l) = s\<lparr>pt_language := l\<rparr>"

definition archived_ids :: "participants \<Rightarrow> str list" where
  "archived_ids s = map (pr_reference_id \<circ> pst_participant) (pt_archived s)"

fun reference_ids :: "participant_reference option \<Rightarrow> str list" where
  "reference_ids None = []"
| "reference_ids (Some a) = [pr_reference_id a]"

definition participant_ids :: "participants \<Rightarrow> str list" where
  "participant_ids s = archived_ids s @ reference_ids (pt_active s)"

definition participants_ok :: "participants \<Rightarrow> bool" where
  "participants_ok s \<longleftrightarrow>
     (\<exists>ns. participant_ids s = map (reference_id (pt_session s)) ns \<and> distinct ns \<and> (\<forall>n \<in> set ns. n \<le> pt_counter s))
     \<and> map fst (pt_prospect_archive s) = archived_ids s
     \<and> (\<forall>e \<in> set (dcs_entries (pt_coverage s)). dce_participant e \<in> set (participant_ids s))"

definition is_handoff :: "participant_evidence \<Rightarrow> bool" where
  "is_handoff e \<longleftrightarrow> pe_kind e = PEv_HANDOFF \<or> pe_kind e = PEv_NOT_PART_OF_PRIOR_DISCUSSION"

lemma fresh_reference:
  assumes "participants_ok s"
  shows "reference_id (pt_session s) (Suc (pt_counter s)) \<notin> set (participant_ids s)"
proof
  assume bad: "reference_id (pt_session s) (Suc (pt_counter s)) \<in> set (participant_ids s)"
  from assms obtain ns where "participant_ids s = map (reference_id (pt_session s)) ns" "\<forall>n \<in> set ns. n \<le> pt_counter s"
    by (auto simp: participants_ok_def)
  with bad show False by fastforce
qed

lemma new_reference_simps:
  "new_reference session counter hint = (ref, counter') \<longleftrightarrow>
     counter' = Suc counter \<and> ref = mk_reference \<lparr>pr_reference_id = reference_id session (Suc counter),
       pr_role_hint = hint, pr_display_label = None\<rparr>"
  by (auto simp: new_reference_def)

lemma mk_reference_Inr: "mk_reference r = Inr r' \<longleftrightarrow>
    r' = r \<and> pr_reference_id r \<noteq> [] \<and> length (pr_reference_id r) \<le> 80
    \<and> (\<forall>l \<in> set_option (pr_display_label r). length l \<le> 120)"
  by (auto simp: mk_reference_def res_simps)

text \<open>
  What a decision can be: a confirmed newcomer has the next reference of the factory; every
  other decision keeps the reference of the person who is active.
\<close>

lemma decide_participant_cases:
  assumes "decide_participant session counter active e = (Inr d, counter')"
  obtains
    (newcomer) "is_handoff e" "pcd_state d = CS_NEW_CONFIRMED" "counter' = Suc counter"
      "pr_reference_id (pcd_active_participant d) = reference_id session (Suc counter)"
  | (first) "\<not> is_handoff e" "active = None" "pcd_state d \<noteq> CS_NEW_CONFIRMED" "counter' = Suc counter"
      "pr_reference_id (pcd_active_participant d) = reference_id session (Suc counter)"
  | (same) a where "\<not> is_handoff e" "active = Some a" "pcd_state d \<noteq> CS_NEW_CONFIRMED" "counter' = counter"
      "pr_reference_id (pcd_active_participant d) = pr_reference_id a"
  using assms
  by (cases "is_handoff e"; cases active)
     (auto simp: decide_participant_def is_handoff_def confirmed_new_def first_participant_def new_reference_def
        decision_with_def mk_continuity_decision_def mk_reference_Inr res_simps Let_def
        split: option.splits if_splits prod.splits)

lemma decide_participant_counter: "decide_participant session counter active e = (r, counter') \<Longrightarrow> counter \<le> counter'"
  by (auto simp: decide_participant_def confirmed_new_def first_participant_def new_reference_def Let_def
      split: option.splits if_splits prod.splits)

lemma participants_ok_step:
  assumes "participants_ok s" and "pt_session s' = pt_session s" and "pt_counter s \<le> pt_counter s'"
    and "participant_ids s' = participant_ids s
      \<or> participant_ids s' = participant_ids s @ [reference_id (pt_session s) (Suc (pt_counter s))]
        \<and> Suc (pt_counter s) \<le> pt_counter s'"
    and "map fst (pt_prospect_archive s') = archived_ids s'"
    and "\<forall>e \<in> set (dcs_entries (pt_coverage s')). dce_participant e \<in> set (participant_ids s')"
  shows "participants_ok s'"
proof -
  from assms(1) obtain ns where ns: "participant_ids s = map (reference_id (pt_session s)) ns" "distinct ns"
      "\<forall>n \<in> set ns. n \<le> pt_counter s"
    by (auto simp: participants_ok_def)
  from assms(4) have "\<exists>ns. participant_ids s' = map (reference_id (pt_session s')) ns \<and> distinct ns
      \<and> (\<forall>n \<in> set ns. n \<le> pt_counter s')"
  proof
    assume "participant_ids s' = participant_ids s"
    with ns assms(2,3) show ?thesis by (intro exI [of _ ns]) (auto intro: le_trans)
  next
    assume "participant_ids s' = participant_ids s @ [reference_id (pt_session s) (Suc (pt_counter s))]
        \<and> Suc (pt_counter s) \<le> pt_counter s'"
    with ns assms(2,3) show ?thesis
      by (intro exI [of _ "ns @ [Suc (pt_counter s)]"]) (auto dest: bspec intro: le_trans)
  qed
  with assms(5,6) show ?thesis by (simp add: participants_ok_def)
qed

lemma participants_okD:
  assumes "participants_ok s"
  shows "map fst (pt_prospect_archive s) = archived_ids s"
    and "\<forall>e \<in> set (dcs_entries (pt_coverage s)). dce_participant e \<in> set (participant_ids s)"
  using assms by (simp_all add: participants_ok_def)

lemma apply_newcomer:
  assumes "pcd_state d = CS_NEW_CONFIRMED"
  shows "apply_participant_decision d s =
    (case pt_active s of
       None \<Rightarrow> (Inr (), s\<lparr>pt_active := Some (pcd_active_participant d), pt_prospect := empty_prospect, pt_language := None\<rparr>)
     | Some a \<Rightarrow> if card (heard_by (pt_coverage s) (pr_reference_id a)) > 32 then (Inl ValueError, s)
         else (Inr (), s\<lparr>pt_active := Some (pcd_active_participant d), pt_prospect := empty_prospect, pt_language := None,
           pt_archived := pt_archived s @ [\<lparr>pst_participant = a,
             pst_heard = heard_by (pt_coverage s) (pr_reference_id a), pst_role_hint = pr_role_hint a,
             pst_interest_observed = None, pst_objection_concepts = {},
             pst_language_preference = map_option lp_primary_language (pt_language s),
             pst_busy_observed = None\<rparr>],
           pt_prospect_archive := pt_prospect_archive s @ [(pr_reference_id a, pt_prospect s)]\<rparr>))"
  using assms by (auto simp: apply_participant_decision_def mk_participant_state_def split: option.splits)

lemmas ids_defs = participant_ids_def archived_ids_def

lemma participant_turn_ok:
  assumes ok: "participants_ok s"
  shows "participants_ok (snd (participant_turn e s))"
proof -
  obtain r counter where d: "decide_participant (pt_session s) (pt_counter s) (pt_active s) e = (r, counter)"
    by force
  from decide_participant_counter [OF d] have le: "pt_counter s \<le> counter" .
  have still: "participants_ok (s\<lparr>pt_counter := counter, pt_decision := x\<rparr>)" "participants_ok (s\<lparr>pt_counter := counter\<rparr>)" for x
    using le participants_okD [OF ok] by (auto intro!: participants_ok_step [OF ok] simp: ids_defs)
  show ?thesis
  proof (cases r)
    case (Inl x)
    with d still show ?thesis by (simp add: participant_turn_def)
  next
    case (Inr dec)
    let ?s = "s\<lparr>pt_counter := counter, pt_decision := Some dec\<rparr>"
    have turn: "participant_turn e s = apply_participant_decision dec ?s"
      using d Inr by (simp add: participant_turn_def)
    from d Inr have "decide_participant (pt_session s) (pt_counter s) (pt_active s) e = (Inr dec, counter)" by simp
    then show ?thesis
    proof (cases rule: decide_participant_cases)
      case newcomer
      show ?thesis
      proof (cases "pt_active s")
        case None
        with newcomer participants_okD [OF ok] show ?thesis unfolding turn apply_newcomer [OF newcomer(2)]
          by (auto intro!: participants_ok_step [OF ok] simp: ids_defs)
      next
        case (Some a)
        with newcomer participants_okD [OF ok] still(1) show ?thesis unfolding turn apply_newcomer [OF newcomer(2)]
          by (auto intro!: participants_ok_step [OF ok] simp: ids_defs)
      qed
    next
      case first
      with participants_okD [OF ok] still(1) show ?thesis unfolding turn
        by (auto intro!: participants_ok_step [OF ok] simp: ids_defs apply_participant_decision_def)
    next
      case (same a)
      with participants_okD [OF ok] still(1) show ?thesis unfolding turn
        by (auto intro!: participants_ok_step [OF ok] simp: ids_defs apply_participant_decision_def)
    qed
  qed
qed

lemma record_coverage_ok:
  assumes ok: "participants_ok s"
  shows "participants_ok (snd (record_discussion_coverage concept depth turn_id s))"
proof (cases "pt_active s")
  case None
  with ok show ?thesis by (simp add: record_discussion_coverage_def)
next
  case (Some a)
  show ?thesis
  proof (cases "fst (record_discussion_coverage concept depth turn_id s)")
    case (Inl x)
    with Some ok show ?thesis by (simp add: record_discussion_coverage_def split: sum.splits)
  next
    case (Inr u)
    with Some participants_okD [OF ok] show ?thesis
      by (auto intro!: participants_ok_step [OF ok] simp: record_discussion_coverage_def ids_defs
          mk_coverage_def mk_coverage_entry_def res_simps split: sum.splits)
  qed
qed

interpretation participants: kept participant_step participants_ok
proof unfold_locales
  fix s e assume ok: "participants_ok s"
  show "participants_ok (participant_step s e)"
  proof (cases e)
    case (Speaker x)
    with ok show ?thesis by (simp add: participant_turn_ok)
  next
    case (Explained concept depth turn_id)
    with ok show ?thesis by (simp add: record_coverage_ok)
  next
    case (Learned p)
    with participants_okD [OF ok] show ?thesis by (auto intro!: participants_ok_step [OF ok] simp: ids_defs)
  next
    case (Heard_language l)
    with participants_okD [OF ok] show ?thesis by (auto intro!: participants_ok_step [OF ok] simp: ids_defs)
  qed
qed

definition no_participants :: "str \<Rightarrow> participants" where
  "no_participants session = start_participants session None [] empty_coverage empty_prospect [] None"

lemma no_participants_ok: "participants_ok (no_participants session)"
  by (simp add: no_participants_def start_participants_def participants_ok_def ids_defs empty_coverage_def)

lemma participants_distinct: "participants_ok s \<Longrightarrow> distinct (participant_ids s)"
  by (auto simp: participants_ok_def distinct_map inj_on_def)

lemma heard_by_stranger:
  assumes "participants_ok s" and "pid \<notin> set (participant_ids s)"
  shows "heard_by (pt_coverage s) pid = {}"
  using assms by (auto simp: participants_ok_def heard_by_def)


definition self_identification :: participant_evidence where
  "self_identification = \<lparr>pe_kind = PEv_SELF_IDENTIFICATION, pe_source_turn_id = ''t1'',
     pe_claimed_role_hint = RH_ASSISTANT\<rparr>"

definition handoff_evidence :: participant_evidence where
  "handoff_evidence = \<lparr>pe_kind = PEv_HANDOFF, pe_source_turn_id = ''t2'', pe_claimed_role_hint = RH_OWNER\<rparr>"

definition assistant_call :: participants where
  "assistant_call = foldl participant_step (no_participants ''call'')
     [Speaker self_identification, Explained ''service:web'' ED_EXPLAINED ''t1'']"

definition first_assistant :: participant_reference where
  "first_assistant = \<lparr>pr_reference_id = ''call:participant_1'', pr_role_hint = RH_ASSISTANT, pr_display_label = None\<rparr>"

lemma assistant_call_simps:
  "pt_counter assistant_call = 1" "heard_by (pt_coverage assistant_call) ''call:participant_1'' = {''service:web''}"
  "pt_active assistant_call = Some first_assistant" "pt_prospect_archive assistant_call = []"
  by code_simp+


text \<open>
  The counter restored from a stored call counts the participants that were kept. A reference
  the factory made for a correction before anybody was active is thrown away and not counted,
  so after a restart the factory makes the reference of the active participant again, and the
  next handover raises out of the turn.
\<close>

definition corrected_call :: participants where
  "corrected_call = foldl participant_step (no_participants ''call'')
     [Speaker (self_identification\<lparr>pe_kind := PEv_CORRECTION\<rparr>), Speaker self_identification]"

definition restarted :: "participants \<Rightarrow> participants" where
  "restarted s = start_participants (pt_session s) (pt_active s) (pt_archived s) (pt_coverage s)
     (pt_prospect s) (pt_prospect_archive s) (pt_language s)"

lemma restart_reuses_reference:
  "isl (fst (participant_turn handoff_evidence corrected_call)) = False"
  "fst (participant_turn handoff_evidence (restarted corrected_call)) = Inl ValueError"
  by code_simp+

section \<open>What a person hears again\<close>

lemma depth_for_snoc:
  "depth_for (c\<lparr>dcs_entries := es @ [e]\<rparr>) pid concept =
    (let best = depth_for (c\<lparr>dcs_entries := es\<rparr>) pid concept in
     if dce_participant e = pid \<and> dce_concept e = concept \<and> depth_rank (dce_depth e) > depth_rank best
     then dce_depth e else best)"
  by (simp add: depth_for_def Let_def)

lemma depth_for_NONE:
  assumes "depth_for c pid concept \<noteq> ED_NONE"
  shows "\<exists>e \<in> set (dcs_entries c). dce_participant e = pid \<and> dce_concept e = concept"
proof (rule ccontr)
  assume none: "\<not> ?thesis"
  have "foldl (\<lambda>best e. if dce_participant e = pid \<and> dce_concept e = concept \<and> depth_rank (dce_depth e) > depth_rank best
     then dce_depth e else best) b es = b"
    if "\<forall>e \<in> set es. \<not> (dce_participant e = pid \<and> dce_concept e = concept)" for b es
    using that by (induction es arbitrary: b) auto
  with assms none show False unfolding depth_for_def by blast
qed

lemma re_explain_Inr:
  "re_explain continuity pid concept cov intent = Inr \<lparr>
     red_strategy = red_strategy (projr (re_explain continuity pid concept cov intent)),
     red_concept_id = concept, red_participant_reference_id = pid,
     red_prior_depth = depth_for cov pid concept,
     red_reason = red_reason (projr (re_explain continuity pid concept cov intent))\<rparr>"
  by (simp add: re_explain_def mk_re_explanation_decision_def Let_def)

definition strategy_for ::
  "continuity_state \<Rightarrow> str \<Rightarrow> str \<Rightarrow> coverage \<Rightarrow> re_explanation_intent \<Rightarrow> re_explanation_strategy" where
  "strategy_for continuity pid concept cov intent = red_strategy (projr (re_explain continuity pid concept cov intent))"

lemma re_explain_strategy: "\<exists>d. re_explain continuity pid concept cov intent = Inr d
    \<and> red_strategy d = strategy_for continuity pid concept cov intent"
  by (subst re_explain_Inr) (simp add: strategy_for_def)

lemma strategy_unasked:
  "strategy_for continuity pid concept cov RI_NONE =
    (if depth_for cov pid concept = ED_NONE \<and> \<not> (\<exists>e \<in> set (dcs_entries cov). dce_concept e = concept \<and> dce_participant e \<noteq> pid)
     then RS_NO_PRIOR_COVERAGE
     else if (continuity = CS_NEW_CONFIRMED \<or> continuity = CS_LIKELY_NEW) \<and> depth_for cov pid concept = ED_NONE
     then RS_FULL_RE_EXPLAIN else RS_SUPPRESS)"
  by (auto simp: strategy_for_def re_explain_def mk_re_explanation_decision_def Let_def)

definition explain_turn ::
  "participants \<Rightarrow> re_explanation_intent provided \<Rightarrow> str \<Rightarrow> str \<Rightarrow> (explained_concept option \<times> unit res \<times> participants) res" where
  "explain_turn s intent concept turn_id =
     rbind (resolve_planner_fields s intent (Some (Inr (Some concept)))) (\<lambda>f.
     rbind (compute_delivered f) (\<lambda>x. Inr (x, auto_advance_coverage turn_id x s)))"



end
