(* ===== verification/Consultative.thy ===== *)
theory Consultative
  imports Escalation Participant
begin

text \<open>
  \<^verbatim>\<open>conversation/consultative\<close>: the problem of a prospect as far as it is known, the question
  which service of the campaign fits it, and the move that follows: ask, explain or close.
\<close>

section \<open>Vocabulary\<close>

datatype problem_category =
    PC_LEAD_FLOW | PC_FOLLOW_UP | PC_CUSTOMER_QUESTIONS | PC_WORKFLOW | PC_WEBSITE | PC_VISIBILITY |
    PC_BRANDING | PC_OTHER | PC_UNKNOWN

datatype problem_basis =
    PB_EXPLICIT | PB_INFERRED

datatype problem_field =
    PF_UNDERLYING_PROBLEM | PF_CURRENT_PROCESS | PF_FRICTION | PF_IMPACT | PF_DESIRED_OUTCOME |
    PF_SOURCE_OR_CHANNEL | PF_PROVIDER_SATISFACTION | PF_OBJECTION_REASON | PF_ROLE_ROUTING |
    PF_APPROVED_EVIDENCE | PF_POLICY_DISCLOSURE | PF_ALREADY_OFFERED

fun problem_field_value :: "problem_field \<Rightarrow> str" where
  "problem_field_value PF_UNDERLYING_PROBLEM = ''underlying_problem''"
| "problem_field_value PF_CURRENT_PROCESS = ''current_process''"
| "problem_field_value PF_FRICTION = ''friction''"
| "problem_field_value PF_IMPACT = ''impact''"
| "problem_field_value PF_DESIRED_OUTCOME = ''desired_outcome''"
| "problem_field_value PF_SOURCE_OR_CHANNEL = ''source_or_channel''"
| "problem_field_value PF_PROVIDER_SATISFACTION = ''provider_satisfaction''"
| "problem_field_value PF_OBJECTION_REASON = ''objection_reason''"
| "problem_field_value PF_ROLE_ROUTING = ''role_routing''"
| "problem_field_value PF_APPROVED_EVIDENCE = ''approved_evidence''"
| "problem_field_value PF_POLICY_DISCLOSURE = ''policy_disclosure''"
| "problem_field_value PF_ALREADY_OFFERED = ''already_offered''"

definition all_problem_field :: "problem_field list" where
  "all_problem_field =
     [PF_UNDERLYING_PROBLEM, PF_CURRENT_PROCESS, PF_FRICTION, PF_IMPACT, PF_DESIRED_OUTCOME,
     PF_SOURCE_OR_CHANNEL, PF_PROVIDER_SATISFACTION, PF_OBJECTION_REASON, PF_ROLE_ROUTING,
     PF_APPROVED_EVIDENCE, PF_POLICY_DISCLOSURE, PF_ALREADY_OFFERED]"

lemma problem_field_of_value [simp]: "enum_of problem_field_value all_problem_field (problem_field_value x) = Inr x"
  by (cases x) (simp_all add: enum_of_def all_problem_field_def)

datatype fit_status =
    SFS_INSUFFICIENT_CONTEXT | SFS_NO_AUTHORIZED_FIT | SFS_POSSIBLE_FIT | SFS_SUPPORTED_FIT

datatype consultative_objective =
    CO_OPEN_TRUTHFULLY | CO_UNDERSTAND | CO_EXPLAIN | CO_ANSWER | CO_PROGRESS | CO_CLOSE |
    CO_RECOVER

datatype consultative_move =
    CM_OPEN_CONVERSATION | CM_CLARIFY | CM_DISCOVER_PROBLEM | CM_UNDERSTAND_CURRENT_PROCESS |
    CM_UNDERSTAND_IMPACT | CM_UNDERSTAND_EXISTING_SOLUTION | CM_QUALIFY_ROLE | CM_QUALIFY_AUTHORITY
    | CM_EXPLAIN_RELEVANT_FIT | CM_HANDLE_OBJECTION | CM_ANSWER_DIRECT_QUESTION |
    CM_ASK_MICRO_COMMITMENT | CM_ROUTE_TO_DECISION_MAKER | CM_LOW_PRESSURE_CALLBACK |
    CM_SIMPLIFY_EXPLANATION | CM_GRACEFUL_CLOSE

datatype question_policy =
    QPol_NONE | QPol_ONE_PRIMARY | QPol_SHORT_CONTRAST

datatype acknowledgement_intent =
    AI_NONE | AI_ACKNOWLEDGE | AI_REFLECT | AI_CONFIRM

datatype response_length =
    RL_SHORT | RL_MODERATE | RL_DETAILED

section \<open>The problem\<close>

record problem =
  pb_category :: problem_category
  pb_description :: "str option"
  pb_requested_solution :: "str option"
  pb_current_process :: "str option"
  pb_friction :: "str option"
  pb_impact :: "str option"
  pb_desired_outcome :: "str option"
  pb_source_or_channel :: "str option"
  pb_basis :: problem_basis
  pb_source_turn_id :: "str option"

definition mk_problem :: "problem \<Rightarrow> problem res" where
  "mk_problem p =
     rbind (guard (optional_text 200 (pb_description p)) ValueError) (\<lambda>_.
     rbind (guard (optional_text 100 (pb_requested_solution p)) ValueError) (\<lambda>_.
     rbind (guard (optional_text 200 (pb_current_process p)) ValueError) (\<lambda>_.
     rbind (guard (optional_text 160 (pb_friction p)) ValueError) (\<lambda>_.
     rbind (guard (optional_text 160 (pb_impact p)) ValueError) (\<lambda>_.
     rbind (guard (optional_text 160 (pb_desired_outcome p)) ValueError) (\<lambda>_.
     rbind (guard (optional_text 100 (pb_source_or_channel p)) ValueError) (\<lambda>_.
     rbind (guard (optional_text 100 (pb_source_turn_id p)) ValueError) (\<lambda>_. Inr p))))))))"

definition no_problem :: problem where
  "no_problem = \<lparr>pb_category = PC_UNKNOWN, pb_description = None, pb_requested_solution = None,
     pb_current_process = None, pb_friction = None, pb_impact = None, pb_desired_outcome = None,
     pb_source_or_channel = None, pb_basis = PB_INFERRED, pb_source_turn_id = None\<rparr>"

definition meaningful :: "problem \<Rightarrow> bool" where
  "meaningful p \<longleftrightarrow> pb_description p \<noteq> None \<or> pb_friction p \<noteq> None"

record problem_evidence =
  pbe_source_turn_id :: str
  pbe_category :: problem_category
  pbe_description :: "str option"
  pbe_requested_solution :: "str option"
  pbe_current_process :: "str option"
  pbe_friction :: "str option"
  pbe_impact :: "str option"
  pbe_desired_outcome :: "str option"
  pbe_source_or_channel :: "str option"
  pbe_basis :: problem_basis
  pbe_correction :: bool

definition from_evidence :: "problem_evidence \<Rightarrow> problem res" where
  "from_evidence e = mk_problem \<lparr>pb_category = pbe_category e, pb_description = pbe_description e,
     pb_requested_solution = pbe_requested_solution e, pb_current_process = pbe_current_process e,
     pb_friction = pbe_friction e, pb_impact = pbe_impact e, pb_desired_outcome = pbe_desired_outcome e,
     pb_source_or_channel = pbe_source_or_channel e, pb_basis = pbe_basis e,
     pb_source_turn_id = Some (pbe_source_turn_id e)\<rparr>"

definition mk_problem_evidence :: "problem_evidence \<Rightarrow> problem_evidence res" where
  "mk_problem_evidence e = rbind (from_evidence e) (\<lambda>_. Inr e)"

text \<open>A field of \<^verbatim>\<open>replace(previous, **changes)\<close>.\<close>

definition newer :: "'a option \<Rightarrow> 'a option \<Rightarrow> 'a option" where
  "newer new old = (case new of None \<Rightarrow> old | Some _ \<Rightarrow> new)"

definition problem_update :: "problem \<Rightarrow> problem_evidence \<Rightarrow> problem res" where
  "problem_update prev e =
     (if pbe_correction e then from_evidence e
      else if pb_basis prev = PB_EXPLICIT \<and> pbe_basis e = PB_INFERRED then Inr prev
      else mk_problem (prev\<lparr>pb_category := (if pbe_category e = PC_UNKNOWN then pb_category prev else pbe_category e),
        pb_description := newer (pbe_description e) (pb_description prev),
        pb_requested_solution := newer (pbe_requested_solution e) (pb_requested_solution prev),
        pb_current_process := newer (pbe_current_process e) (pb_current_process prev),
        pb_friction := newer (pbe_friction e) (pb_friction prev),
        pb_impact := newer (pbe_impact e) (pb_impact prev),
        pb_desired_outcome := newer (pbe_desired_outcome e) (pb_desired_outcome prev),
        pb_source_or_channel := newer (pbe_source_or_channel e) (pb_source_or_channel prev),
        pb_basis := pbe_basis e, pb_source_turn_id := Some (pbe_source_turn_id e)\<rparr>))"

section \<open>Which service fits\<close>

definition bounded_texts :: "nat \<Rightarrow> nat \<Rightarrow> str list \<Rightarrow> bool" where
  "bounded_texts n limit xs \<longleftrightarrow> \<not> (length xs > n \<or> (\<exists>x \<in> set xs. blank x \<or> length x > limit))"

record service_fit =
  sf_status :: fit_status
  sf_service_id :: "str option"
  sf_aspects :: "str list"
  sf_missing :: "problem_field list"
  sf_evidence_ids :: "str list"
  sf_explanation_allowed :: bool

definition mk_service_fit :: "service_fit \<Rightarrow> service_fit res" where
  "mk_service_fit f =
     rbind (guard (bounded_texts 4 100 (sf_aspects f)) ValueError) (\<lambda>_.
     rbind (guard (\<not> length (sf_missing f) > 3) ValueError) (\<lambda>_.
     rbind (guard (\<not> (length (sf_evidence_ids f) > 8 \<or> sort (remdups (sf_evidence_ids f)) \<noteq> sf_evidence_ids f)) ValueError) (\<lambda>_.
     rbind (guard (optional_text 100 (sf_service_id f)) ValueError) (\<lambda>_.
     rbind (guard (\<not> (sf_status f = SFS_SUPPORTED_FIT
         \<and> (sf_service_id f = None \<or> sf_evidence_ids f = [] \<or> \<not> sf_explanation_allowed f))) ValueError) (\<lambda>_.
     rbind (guard (\<not> (sf_explanation_allowed f \<and> sf_status f \<noteq> SFS_SUPPORTED_FIT)) ValueError) (\<lambda>_. Inr f))))))"

record service_answer =
  sa_service_id :: str
  sa_service_name :: str
  sa_description :: "str option"
  sa_capabilities :: "str list"
  sa_evidence :: "evidence_item list"
  sa_problem_summary :: str
  sa_current_process :: "str option"
  sa_disclosure_allowed :: bool
  sa_technical_questions :: "str list"

definition mk_service_answer :: "service_answer \<Rightarrow> service_answer res" where
  "mk_service_answer a =
     rbind (guard (text_within 100 (sa_service_id a)) ValueError) (\<lambda>_.
     rbind (guard (text_within 120 (sa_service_name a)) ValueError) (\<lambda>_.
     rbind (guard (text_within 200 (sa_problem_summary a)) ValueError) (\<lambda>_.
     rbind (guard (optional_text 240 (sa_description a)) ValueError) (\<lambda>_.
     rbind (guard (optional_text 200 (sa_current_process a)) ValueError) (\<lambda>_.
     rbind (guard (bounded_texts 4 100 (sa_capabilities a)) ValueError) (\<lambda>_.
     rbind (guard (\<not> (sa_evidence a = [] \<or> length (sa_evidence a) > 8)) ValueError) (\<lambda>_.
     rbind (guard (bounded_texts 2 160 (sa_technical_questions a)) ValueError) (\<lambda>_. Inr a))))))))"

record relevance_rule =
  rr_service_id :: str
  rr_categories :: "problem_category set"
  rr_aspects :: "str list"
  rr_required :: "problem_field set"
  rr_fact_keys :: "str set"

definition mk_relevance_rule :: "relevance_rule \<Rightarrow> relevance_rule res" where
  "mk_relevance_rule r =
     rbind (guard (text_within 100 (rr_service_id r)) ValueError) (\<lambda>_.
     rbind (guard (rr_categories r \<noteq> {}) ValueError) (\<lambda>_.
     rbind (guard (bounded_texts 4 100 (rr_aspects r)) ValueError) (\<lambda>_.
     rbind (guard (\<not> (card (rr_fact_keys r) > 8 \<or> (\<exists>k \<in> rr_fact_keys r. blank k \<or> length k > 100))) ValueError) (\<lambda>_.
     Inr r))))"

record resolver =
  rsv_catalog :: scoped_catalog
  rsv_rules :: "relevance_rule list"

definition new_resolver :: "scoped_catalog \<Rightarrow> relevance_rule list \<Rightarrow> resolver res" where
  "new_resolver catalog rules =
     rbind (guard (distinct (map rr_service_id rules)) ValueError) (\<lambda>_.
     rbind (guard (\<forall>r \<in> set rules. is_service_authorized catalog (rr_service_id r)) ValueError) (\<lambda>_.
     Inr \<lparr>rsv_catalog = catalog, rsv_rules = rules\<rparr>))"

definition rule_scope_matches :: "evidence_item \<Rightarrow> str \<Rightarrow> str \<Rightarrow> bool" where
  "rule_scope_matches e service campaign = (case esc_kind (ev_scope e) of
       ESK_GLOBAL \<Rightarrow> True
     | ESK_CAMPAIGN \<Rightarrow> esc_scope_id (ev_scope e) = Some campaign
     | ESK_SERVICE \<Rightarrow> esc_scope_id (ev_scope e) = Some service)"

definition rule_evidence :: "evidence_item list \<Rightarrow> relevance_rule \<Rightarrow> str \<Rightarrow> evidence_item list" where
  "rule_evidence items r campaign =
     (let matches = sort_key ev_id (filter (\<lambda>e. ev_fact_key e \<in> rr_fact_keys r
        \<and> rule_scope_matches e (rr_service_id r) campaign) items) in
      if \<exists>e \<in> set matches. \<exists>f \<in> set matches. ev_fact_key e = ev_fact_key f \<and> ev_statement e \<noteq> ev_statement f
      then [] else take 8 matches)"

fun field_known :: "problem \<Rightarrow> problem_field \<Rightarrow> bool" where
  "field_known p PF_UNDERLYING_PROBLEM = meaningful p"
| "field_known p PF_CURRENT_PROCESS = (pb_current_process p \<noteq> None)"
| "field_known p PF_FRICTION = (pb_friction p \<noteq> None)"
| "field_known p PF_IMPACT = (pb_impact p \<noteq> None)"
| "field_known p PF_DESIRED_OUTCOME = (pb_desired_outcome p \<noteq> None)"
| "field_known p PF_SOURCE_OR_CHANNEL = (pb_source_or_channel p \<noteq> None)"
| "field_known p _ = False"

definition highest_value_gap :: "problem \<Rightarrow> problem_field" where
  "highest_value_gap p = (case List.find (\<lambda>f. \<not> field_known p f)
       [PF_CURRENT_PROCESS, PF_FRICTION, PF_IMPACT, PF_DESIRED_OUTCOME] of
     Some f \<Rightarrow> f | None \<Rightarrow> PF_UNDERLYING_PROBLEM)"

definition fit_without :: "fit_status \<Rightarrow> problem_field list \<Rightarrow> service_fit res" where
  "fit_without status missing = mk_service_fit \<lparr>sf_status = status, sf_service_id = None, sf_aspects = [],
     sf_missing = missing, sf_evidence_ids = [], sf_explanation_allowed = False\<rparr>"

definition possible_fit :: "relevance_rule \<Rightarrow> problem_field list \<Rightarrow> service_fit res" where
  "possible_fit r missing = mk_service_fit \<lparr>sf_status = SFS_POSSIBLE_FIT, sf_service_id = Some (rr_service_id r),
     sf_aspects = rr_aspects r, sf_missing = missing, sf_evidence_ids = [], sf_explanation_allowed = False\<rparr>"

definition rules_for :: "resolver \<Rightarrow> problem \<Rightarrow> str list \<Rightarrow> relevance_rule list" where
  "rules_for rs p eligible = filter (\<lambda>r. rr_service_id r \<in> authorized_service_ids (rsv_catalog rs) \<inter> set eligible
     \<and> pb_category p \<in> rr_categories r) (rsv_rules rs)"

text \<open>The iteration order of a set of fields does not matter: the missing ones are sorted.\<close>

definition missing_fields :: "problem \<Rightarrow> relevance_rule \<Rightarrow> problem_field list" where
  "missing_fields p r = sort_key problem_field_value
     (filter (\<lambda>f. f \<in> rr_required r \<and> \<not> field_known p f) all_problem_field)"

definition resolve_fit ::
  "resolver \<Rightarrow> problem \<Rightarrow> str list \<Rightarrow> str list \<Rightarrow> evidence_item list \<Rightarrow> bool \<Rightarrow> service_fit res" where
  "resolve_fit rs p eligible offered evidence disclosure_allowed =
     (if \<not> meaningful p then fit_without SFS_INSUFFICIENT_CONTEXT [PF_UNDERLYING_PROBLEM]
      else let relevant = rules_for rs p eligible in
      case filter (\<lambda>r. rr_service_id r \<notin> set offered) relevant of
        [] \<Rightarrow> if filter (\<lambda>r. rr_service_id r \<in> set offered) relevant \<noteq> []
              then fit_without SFS_INSUFFICIENT_CONTEXT [PF_ALREADY_OFFERED]
              else fit_without SFS_NO_AUTHORIZED_FIT []
      | r # others \<Rightarrow>
          if others \<noteq> [] then fit_without SFS_INSUFFICIENT_CONTEXT [highest_value_gap p]
          else let missing = missing_fields p r in
          if missing \<noteq> [] then possible_fit r (take 3 missing)
          else if \<not> disclosure_allowed then possible_fit r [PF_POLICY_DISCLOSURE]
          else let found = rule_evidence evidence r (sc_campaign_id (rsv_catalog rs)) in
          if found = [] then possible_fit r [PF_APPROVED_EVIDENCE]
          else mk_service_fit \<lparr>sf_status = SFS_SUPPORTED_FIT, sf_service_id = Some (rr_service_id r),
            sf_aspects = rr_aspects r, sf_missing = [], sf_evidence_ids = map ev_id found,
            sf_explanation_allowed = True\<rparr>)"

text \<open>\<^verbatim>\<open>a or b\<close> of two optional strings.\<close>

definition str_or :: "str option \<Rightarrow> str option \<Rightarrow> str option" where
  "str_or a b = (if truthy a then a else b)"

definition build_answer ::
  "resolver \<Rightarrow> service_fit \<Rightarrow> problem \<Rightarrow> evidence_item list \<Rightarrow> bool \<Rightarrow> str list \<Rightarrow> service_answer option res" where
  "build_answer rs fit p evidence disclosure_allowed questions =
     (case sf_service_id fit of
        None \<Rightarrow> Inr None
      | Some sid \<Rightarrow>
          if sf_status fit \<noteq> SFS_SUPPORTED_FIT \<or> \<not> sf_explanation_allowed fit \<or> \<not> disclosure_allowed then Inr None
          else case get_service (rsv_catalog rs) sid of
            None \<Rightarrow> Inr None
          | Some svc \<Rightarrow>
              (case List.find (\<lambda>r. rr_service_id r = sid) (rsv_rules rs) of
                 None \<Rightarrow> Inr None
               | Some r \<Rightarrow> (let found = rule_evidence evidence r (sc_campaign_id (rsv_catalog rs)) in
                   if map ev_id found \<noteq> sf_evidence_ids fit then Inr None
                   else rbind (mk_service_answer \<lparr>sa_service_id = svc_id svc, sa_service_name = svc_name svc,
                     sa_description = map_option ev_statement (List.find (\<lambda>e. ev_type e = ET_SERVICE_DESCRIPTION) found),
                     sa_capabilities = take 4 (svc_capabilities svc), sa_evidence = found,
                     sa_problem_summary = the (str_or (str_or (pb_description p) (pb_friction p)) (Some ''current problem'')),
                     sa_current_process = pb_current_process p, sa_disclosure_allowed = True,
                     sa_technical_questions = questions\<rparr>) (\<lambda>a. Inr (Some a)))))"

section \<open>The next move\<close>

record consultative_decision =
  cd_objective :: consultative_objective
  cd_move :: consultative_move
  cd_gap :: "problem_field option"
  cd_problem_summary :: "str option"
  cd_service_fit :: "service_fit option"
  cd_depth :: response_length
  cd_question_policy :: question_policy
  cd_acknowledgement :: acknowledgement_intent
  cd_commercial_transparency :: bool
  cd_simplification :: bool
  cd_resume_previous_goal :: bool

definition mk_consultative_decision :: "consultative_decision \<Rightarrow> consultative_decision res" where
  "mk_consultative_decision d =
     rbind (guard (optional_text 200 (cd_problem_summary d)) ValueError) (\<lambda>_.
     rbind (guard (\<not> (cd_question_policy d \<noteq> QPol_NONE \<and> cd_gap d = None)) ValueError) (\<lambda>_. Inr d))"

record consultative_signals =
  cs_direct_question :: bool
  cs_commercial_purpose_question :: bool
  cs_service_information_request :: bool
  cs_misunderstanding :: bool
  cs_correction :: bool
  cs_two_way_ambiguity :: bool
  cs_explicit_no_problem :: bool
  cs_buying_signal :: bool
  cs_explanation_requested :: bool

record consultative_input =
  ci_problem :: problem
  ci_service_fit :: service_fit
  ci_prospect :: "prospect_summary option"
  ci_strategy :: "strategy option"
  ci_language_profile :: "language_profile option"
  ci_signals :: consultative_signals
  ci_category :: interruption_category
  ci_addressee :: addressee_status
  ci_pending :: "pending_intent option"

definition summary_of :: "consultative_input \<Rightarrow> str option" where
  "summary_of v = str_or (pb_description (ci_problem v)) (pb_friction (ci_problem v))"

definition resumable :: "consultative_input \<Rightarrow> bool" where
  "resumable v \<longleftrightarrow> (\<exists>p \<in> set_option (ci_pending v). intent_active p)"

definition busy_and_interested :: "consultative_input \<Rightarrow> bool" where
  "busy_and_interested v \<longleftrightarrow> (\<exists>p \<in> set_option (ci_prospect v). observed_true (psm_busy p) \<and> observed_true (psm_interested p))"

definition routing_role :: "consultative_input \<Rightarrow> bool" where
  "routing_role v \<longleftrightarrow> (\<exists>p \<in> set_option (ci_prospect v). \<exists>r \<in> set_option (psm_explicit_role p).
     ov_value r = PRole_RECEPTIONIST \<or> ov_value r = PRole_GATEKEEPER)"

definition unknown_objection_reason :: "consultative_input \<Rightarrow> bool" where
  "unknown_objection_reason v \<longleftrightarrow> (\<exists>p \<in> set_option (ci_prospect v). \<exists>o1 \<in> set_option (psm_explicit_objection p).
     ov_value o1 \<noteq> Obj_NONE \<and> ov_value o1 \<noteq> Obj_UNKNOWN) \<and> pb_friction (ci_problem v) = None"

definition provider_needs_context :: "consultative_input \<Rightarrow> bool" where
  "provider_needs_context v \<longleftrightarrow> (\<exists>p \<in> set_option (ci_prospect v). \<exists>s \<in> set_option (psm_solution p).
     sc_satisfaction s = Sat_UNKNOWN)"

definition asking ::
  "consultative_objective \<Rightarrow> consultative_move \<Rightarrow> problem_field \<Rightarrow> consultative_input \<Rightarrow> consultative_decision res" where
  "asking objective move gap v = mk_consultative_decision \<lparr>cd_objective = objective, cd_move = move, cd_gap = Some gap,
     cd_problem_summary = summary_of v, cd_service_fit = Some (ci_service_fit v), cd_depth = RL_SHORT,
     cd_question_policy = (if cs_two_way_ambiguity (ci_signals v) then QPol_SHORT_CONTRAST else QPol_ONE_PRIMARY),
     cd_acknowledgement = (if meaningful (ci_problem v) then AI_REFLECT else AI_NONE),
     cd_commercial_transparency = False, cd_simplification = False, cd_resume_previous_goal = False\<rparr>"

text \<open>A decision that asks nothing; the remaining fields have their defaults.\<close>

definition stating :: "consultative_objective \<Rightarrow> consultative_move \<Rightarrow> consultative_decision" where
  "stating objective move = \<lparr>cd_objective = objective, cd_move = move, cd_gap = None, cd_problem_summary = None,
     cd_service_fit = None, cd_depth = RL_SHORT, cd_question_policy = QPol_NONE, cd_acknowledgement = AI_NONE,
     cd_commercial_transparency = False, cd_simplification = False, cd_resume_previous_goal = False\<rparr>"

definition explaining :: "consultative_input \<Rightarrow> consultative_decision res" where
  "explaining v = mk_consultative_decision ((stating CO_EXPLAIN CM_EXPLAIN_RELEVANT_FIT)\<lparr>
     cd_problem_summary := summary_of v, cd_service_fit := Some (ci_service_fit v),
     cd_depth := (if cs_explanation_requested (ci_signals v) then RL_DETAILED else RL_MODERATE),
     cd_acknowledgement := AI_REFLECT\<rparr>)"

text \<open>The part of \<^verbatim>\<open>decide\<close> that looks at the problem and the fit.\<close>

definition decide_by_problem :: "consultative_input \<Rightarrow> consultative_decision res" where
  "decide_by_problem v =
     (let p = ci_problem v; fit = ci_service_fit v; sig = ci_signals v in
      if cs_service_information_request sig then
        (if sf_status fit = SFS_SUPPORTED_FIT then explaining v
         else asking CO_UNDERSTAND CM_DISCOVER_PROBLEM PF_UNDERLYING_PROBLEM v)
      else if sf_status fit = SFS_SUPPORTED_FIT then
        (if cs_buying_signal sig then mk_consultative_decision ((stating CO_PROGRESS CM_ASK_MICRO_COMMITMENT)\<lparr>
           cd_problem_summary := summary_of v, cd_service_fit := Some fit\<rparr>)
         else explaining v)
      else if truthy (pb_requested_solution p) \<and> \<not> meaningful p then
        asking CO_UNDERSTAND CM_DISCOVER_PROBLEM PF_UNDERLYING_PROBLEM v
      else if \<not> meaningful p \<and> (\<exists>s \<in> set_option (ci_strategy v). sg_sales_stage s = Stage_OPENING) then
        asking CO_OPEN_TRUTHFULLY CM_OPEN_CONVERSATION PF_UNDERLYING_PROBLEM v
      else if \<not> meaningful p then asking CO_UNDERSTAND CM_DISCOVER_PROBLEM PF_UNDERLYING_PROBLEM v
      else if pb_current_process p = None then
        asking CO_UNDERSTAND CM_UNDERSTAND_CURRENT_PROCESS PF_CURRENT_PROCESS v
      else if pb_impact p = None then asking CO_UNDERSTAND CM_UNDERSTAND_IMPACT PF_IMPACT v
      else if sf_status fit = SFS_NO_AUTHORIZED_FIT then
        mk_consultative_decision ((stating CO_CLOSE CM_GRACEFUL_CLOSE)\<lparr>cd_problem_summary := summary_of v\<rparr>)
      else asking CO_UNDERSTAND CM_CLARIFY
        (case sf_missing fit of [] \<Rightarrow> PF_DESIRED_OUTCOME | f # _ \<Rightarrow> f) v)"

definition decide_consultative :: "consultative_input \<Rightarrow> consultative_decision res" where
  "decide_consultative v =
     (let p = ci_problem v; sig = ci_signals v in
      if ci_addressee v \<noteq> AD_ADDRESSED_TO_AGENT then asking CO_RECOVER CM_CLARIFY PF_UNDERLYING_PROBLEM v
      else if cs_commercial_purpose_question sig then
        mk_consultative_decision ((stating CO_ANSWER CM_ANSWER_DIRECT_QUESTION)\<lparr>cd_problem_summary := summary_of v,
          cd_commercial_transparency := True\<rparr>)
      else if cs_misunderstanding sig then
        mk_consultative_decision ((stating CO_RECOVER CM_SIMPLIFY_EXPLANATION)\<lparr>cd_problem_summary := summary_of v,
          cd_simplification := True, cd_resume_previous_goal := resumable v\<rparr>)
      else if cs_direct_question sig then
        mk_consultative_decision ((stating CO_ANSWER CM_ANSWER_DIRECT_QUESTION)\<lparr>cd_problem_summary := summary_of v,
          cd_service_fit := Some (ci_service_fit v),
          cd_depth := (if cs_explanation_requested sig then RL_DETAILED else RL_SHORT),
          cd_resume_previous_goal := resumable v\<rparr>)
      else if busy_and_interested v then
        mk_consultative_decision ((stating CO_PROGRESS CM_LOW_PRESSURE_CALLBACK)\<lparr>cd_problem_summary := summary_of v\<rparr>)
      else if cs_explicit_no_problem sig then mk_consultative_decision (stating CO_CLOSE CM_GRACEFUL_CLOSE)
      else if routing_role v then asking CO_UNDERSTAND CM_ROUTE_TO_DECISION_MAKER PF_ROLE_ROUTING v
      else if provider_needs_context v then
        asking CO_UNDERSTAND CM_UNDERSTAND_EXISTING_SOLUTION PF_PROVIDER_SATISFACTION v
      else if unknown_objection_reason v then asking CO_UNDERSTAND CM_HANDLE_OBJECTION PF_OBJECTION_REASON v
      else if (cs_correction sig \<or> ci_category v = IC_CORRECTION) \<and> \<not> meaningful p then
        asking CO_UNDERSTAND CM_CLARIFY PF_UNDERLYING_PROBLEM v
      else decide_by_problem v)"

section \<open>Only supported fits are explained\<close>

lemma all_problem_field_complete [simp]: "f \<in> set all_problem_field"
  by (cases f) (simp_all add: all_problem_field_def)

definition rule_supports :: "relevance_rule \<Rightarrow> str \<Rightarrow> evidence_item \<Rightarrow> bool" where
  "rule_supports r campaign e \<longleftrightarrow> ev_fact_key e \<in> rr_fact_keys r \<and> rule_scope_matches e (rr_service_id r) campaign"

definition undisputed :: "evidence_item set \<Rightarrow> bool" where
  "undisputed es \<longleftrightarrow> (\<forall>e \<in> es. \<forall>f \<in> es. ev_fact_key e = ev_fact_key f \<longrightarrow> ev_statement e = ev_statement f)"

lemma rule_evidence_spec:
  assumes "distinct (map ev_id items)"
  shows "set (rule_evidence items r campaign) \<subseteq> {e \<in> set items. rule_supports r campaign e}"
    "length (rule_evidence items r campaign) \<le> 8"
    "sort (remdups (map ev_id (rule_evidence items r campaign))) = map ev_id (rule_evidence items r campaign)"
    "rule_evidence items r campaign \<noteq> [] \<Longrightarrow> undisputed {e \<in> set items. rule_supports r campaign e}"
proof -
  define ms where "ms = sort_key ev_id (filter (\<lambda>e. ev_fact_key e \<in> rr_fact_keys r
        \<and> rule_scope_matches e (rr_service_id r) campaign) items)"
  have cases: "rule_evidence items r campaign = [] \<or> rule_evidence items r campaign = take 8 ms"
    by (simp add: rule_evidence_def ms_def Let_def)
  have members: "set ms = {e \<in> set items. rule_supports r campaign e}" by (auto simp: ms_def rule_supports_def)
  then show "set (rule_evidence items r campaign) \<subseteq> {e \<in> set items. rule_supports r campaign e}"
    using cases set_take_subset [of 8 ms] by auto
  show "undisputed {e \<in> set items. rule_supports r campaign e}" if "rule_evidence items r campaign \<noteq> []"
  proof -
    have "\<not> (\<exists>e \<in> set ms. \<exists>f \<in> set ms. ev_fact_key e = ev_fact_key f \<and> ev_statement e \<noteq> ev_statement f)"
      using that unfolding rule_evidence_def ms_def [symmetric] Let_def by (rule contrapos_nn) simp
    then show ?thesis unfolding undisputed_def members by blast
  qed
  show "length (rule_evidence items r campaign) \<le> 8" using cases by auto
  have "mset (map ev_id ms) = mset (map ev_id (filter (\<lambda>e. ev_fact_key e \<in> rr_fact_keys r
        \<and> rule_scope_matches e (rr_service_id r) campaign) items))"
    by (simp only: ms_def mset_map mset_sort)
  then have "distinct (map ev_id ms)"
    using distinct_map_filter [OF assms] by (rule iffD2 [OF mset_eq_imp_distinct_iff])
  moreover have "sorted (map ev_id ms)" by (simp add: ms_def)
  ultimately have "sort (remdups (map ev_id (take 8 ms))) = map ev_id (take 8 ms)"
    by (intro sorted_distinct_fixed) (simp_all only: take_map [symmetric] sorted_wrt_take distinct_take)
  with cases show "sort (remdups (map ev_id (rule_evidence items r campaign))) = map ev_id (rule_evidence items r campaign)"
    by auto
qed

text \<open>The one rule that fits, if there is exactly one that was not offered before.\<close>

definition sole_rule :: "resolver \<Rightarrow> problem \<Rightarrow> str list \<Rightarrow> str list \<Rightarrow> relevance_rule \<Rightarrow> bool" where
  "sole_rule rs p eligible offered r \<longleftrightarrow>
     filter (\<lambda>r. rr_service_id r \<notin> set offered) (rules_for rs p eligible) = [r]"

definition fully_supported ::
  "resolver \<Rightarrow> problem \<Rightarrow> str list \<Rightarrow> str list \<Rightarrow> evidence_item list \<Rightarrow> relevance_rule \<Rightarrow> bool" where
  "fully_supported rs p eligible offered evidence r \<longleftrightarrow> meaningful p \<and> sole_rule rs p eligible offered r
     \<and> (\<forall>f \<in> rr_required r. field_known p f)
     \<and> rule_evidence evidence r (sc_campaign_id (rsv_catalog rs)) \<noteq> []"

lemma sole_ruleD:
  assumes "sole_rule rs p eligible offered r"
  shows "r \<in> set (rsv_rules rs)" "rr_service_id r \<in> authorized_service_ids (rsv_catalog rs)"
    "rr_service_id r \<in> set eligible" "rr_service_id r \<notin> set offered" "pb_category p \<in> rr_categories r"
proof -
  have "r \<in> set (filter (\<lambda>r. rr_service_id r \<notin> set offered) (rules_for rs p eligible))"
    using assms by (simp add: sole_rule_def)
  then show "r \<in> set (rsv_rules rs)" "rr_service_id r \<in> authorized_service_ids (rsv_catalog rs)"
    "rr_service_id r \<in> set eligible" "rr_service_id r \<notin> set offered" "pb_category p \<in> rr_categories r"
    by (simp_all add: rules_for_def)
qed

lemma fit_without_Inr: "length missing \<le> 3 \<Longrightarrow> status \<noteq> SFS_SUPPORTED_FIT \<Longrightarrow>
    \<exists>f. fit_without status missing = Inr f \<and> sf_status f = status"
  by (simp add: fit_without_def mk_service_fit_def bounded_texts_def optional_text_def)

lemma possible_fit_Inr: "mk_relevance_rule r = Inr r \<Longrightarrow> length missing \<le> 3 \<Longrightarrow>
    \<exists>f. possible_fit r missing = Inr f \<and> sf_status f = SFS_POSSIBLE_FIT"
  by (auto simp: possible_fit_def mk_service_fit_def mk_relevance_rule_def optional_text_def res_simps)

lemma resolve_fit_spec:
  assumes rules: "\<forall>r \<in> set (rsv_rules rs). mk_relevance_rule r = Inr r"
    and evidence: "distinct (map ev_id evidence)"
  shows "\<exists>f. resolve_fit rs p eligible offered evidence True = Inr f
    \<and> (sf_status f = SFS_SUPPORTED_FIT \<longleftrightarrow> (\<exists>r. fully_supported rs p eligible offered evidence r))
    \<and> (\<forall>r. fully_supported rs p eligible offered evidence r \<longrightarrow> sf_service_id f = Some (rr_service_id r)
        \<and> sf_evidence_ids f = map ev_id (rule_evidence evidence r (sc_campaign_id (rsv_catalog rs))))"
proof (cases "meaningful p")
  case False
  with fit_without_Inr [of "[PF_UNDERLYING_PROBLEM]" SFS_INSUFFICIENT_CONTEXT] show ?thesis
    by (auto simp: resolve_fit_def fully_supported_def)
next
  case True
  define fresh where "fresh = filter (\<lambda>r. rr_service_id r \<notin> set offered) (rules_for rs p eligible)"
  have no_rule: "\<not> fully_supported rs p eligible offered evidence r'" if "\<forall>r. fresh \<noteq> [r]" for r'
    using that by (simp add: fully_supported_def sole_rule_def fresh_def)
  show ?thesis
  proof (cases fresh)
    case Nil
    then show ?thesis
      using no_rule fit_without_Inr [of "[PF_ALREADY_OFFERED]" SFS_INSUFFICIENT_CONTEXT]
        fit_without_Inr [of "[]" SFS_NO_AUTHORIZED_FIT] True
      by (fastforce simp: resolve_fit_def fresh_def [symmetric] Let_def)
  next
    case (Cons r others)
    show ?thesis
    proof (cases others)
      case (Cons r2 rest)
      with \<open>fresh = r # others\<close> show ?thesis
        using no_rule fit_without_Inr [of "[highest_value_gap p]" SFS_INSUFFICIENT_CONTEXT] True
        by (fastforce simp: resolve_fit_def fresh_def [symmetric] Let_def)
    next
      case Nil
      then have fresh: "fresh = [r]" using \<open>fresh = r # others\<close> by simp
      then have sole: "sole_rule rs p eligible offered r' \<longleftrightarrow> r' = r" for r' by (auto simp: sole_rule_def fresh_def)
      have "r \<in> set (rsv_rules rs)" using sole sole_ruleD(1) by blast
      then have r: "mk_relevance_rule r = Inr r" using rules by blast
      let ?found = "rule_evidence evidence r (sc_campaign_id (rsv_catalog rs))"
      have known: "missing_fields p r = [] \<longleftrightarrow> (\<forall>f \<in> rr_required r. field_known p f)"
        by (auto simp: missing_fields_def filter_empty_conv)
      have full: "fully_supported rs p eligible offered evidence r' \<longleftrightarrow> r' = r \<and> missing_fields p r = [] \<and> ?found \<noteq> []" for r'
        using True known by (auto simp: fully_supported_def sole)
      have step: "resolve_fit rs p eligible offered evidence True =
          (if missing_fields p r \<noteq> [] then possible_fit r (take 3 (missing_fields p r))
           else if ?found = [] then possible_fit r [PF_APPROVED_EVIDENCE]
           else mk_service_fit \<lparr>sf_status = SFS_SUPPORTED_FIT, sf_service_id = Some (rr_service_id r),
            sf_aspects = rr_aspects r, sf_missing = [], sf_evidence_ids = map ev_id ?found,
            sf_explanation_allowed = True\<rparr>)"
        using True fresh by (simp add: resolve_fit_def fresh_def [symmetric] Let_def)
      show ?thesis
      proof (cases "missing_fields p r = [] \<and> ?found \<noteq> []")
        case True
        with rule_evidence_spec [OF evidence, of r "sc_campaign_id (rsv_catalog rs)"] r show ?thesis
          by (auto simp: step full mk_service_fit_def mk_relevance_rule_def optional_text_def res_simps)
      next
        case False
        then show ?thesis
          using possible_fit_Inr [OF r, of "take 3 (missing_fields p r)"] possible_fit_Inr [OF r, of "[PF_APPROVED_EVIDENCE]"]
          by (auto simp: step full)
      qed
    qed
  qed
qed

text \<open>What every branch of the decision has in common.\<close>

definition sound_move :: "consultative_input \<Rightarrow> consultative_decision \<Rightarrow> bool" where
  "sound_move v d \<longleftrightarrow> (cd_question_policy d \<noteq> QPol_NONE \<longleftrightarrow> cd_gap d \<noteq> None)
     \<and> (cd_move d = CM_EXPLAIN_RELEVANT_FIT \<longrightarrow> sf_status (ci_service_fit v) = SFS_SUPPORTED_FIT)
     \<and> (cd_commercial_transparency d \<longleftrightarrow>
          ci_addressee v = AD_ADDRESSED_TO_AGENT \<and> cs_commercial_purpose_question (ci_signals v))
     \<and> (ci_addressee v \<noteq> AD_ADDRESSED_TO_AGENT \<longrightarrow> cd_objective d = CO_RECOVER)"

lemma summary_of_bounded:
  assumes "mk_problem (ci_problem v) = Inr (ci_problem v)"
  shows "optional_text 200 (summary_of v)"
proof -
  have "optional_text 200 (pb_description (ci_problem v))" "optional_text 160 (pb_friction (ci_problem v))"
    using assms by (simp_all add: mk_problem_def res_simps)
  then show ?thesis
    by (cases "pb_friction (ci_problem v)") (auto simp: summary_of_def str_or_def optional_text_def text_within_def)
qed

lemma made_decision:
  assumes "optional_text 200 (cd_problem_summary d)" "sound_move v d"
  shows "\<exists>d'. mk_consultative_decision d = Inr d' \<and> sound_move v d'"
  using assms by (cases "cd_gap d") (auto simp: mk_consultative_decision_def sound_move_def)

lemma no_summary [simp]: "optional_text n None"
  by (simp add: optional_text_def)

lemma asking_sound:
  assumes "mk_problem (ci_problem v) = Inr (ci_problem v)" "move \<noteq> CM_EXPLAIN_RELEVANT_FIT"
    and "ci_addressee v = AD_ADDRESSED_TO_AGENT \<longrightarrow> \<not> cs_commercial_purpose_question (ci_signals v)"
    and "ci_addressee v \<noteq> AD_ADDRESSED_TO_AGENT \<longrightarrow> objective = CO_RECOVER"
  shows "\<exists>d. asking objective move gap v = Inr d \<and> sound_move v d"
  unfolding asking_def using assms summary_of_bounded [OF assms(1)] by (intro made_decision) (auto simp: sound_move_def)

lemma explaining_sound:
  assumes "mk_problem (ci_problem v) = Inr (ci_problem v)" "sf_status (ci_service_fit v) = SFS_SUPPORTED_FIT"
    and "ci_addressee v = AD_ADDRESSED_TO_AGENT" "\<not> cs_commercial_purpose_question (ci_signals v)"
  shows "\<exists>d. explaining v = Inr d \<and> sound_move v d"
  unfolding explaining_def using assms summary_of_bounded [OF assms(1)]
  by (intro made_decision) (auto simp: sound_move_def stating_def)

lemma stating_sound:
  assumes "mk_problem (ci_problem v) = Inr (ci_problem v)" "mv \<noteq> CM_EXPLAIN_RELEVANT_FIT"
    and "ci_addressee v = AD_ADDRESSED_TO_AGENT"
    and "tr \<longleftrightarrow> cs_commercial_purpose_question (ci_signals v)" and "su = None \<or> su = summary_of v"
  shows "\<exists>d. mk_consultative_decision (stating ob mv
    \<lparr>cd_problem_summary := su, cd_service_fit := f, cd_depth := de, cd_commercial_transparency := tr,
     cd_simplification := si, cd_resume_previous_goal := re\<rparr>) = Inr d \<and> sound_move v d"
  using assms summary_of_bounded [OF assms(1)] by (intro made_decision) (auto simp: sound_move_def stating_def)

lemma decide_by_problem_sound:
  assumes p: "mk_problem (ci_problem v) = Inr (ci_problem v)"
    and addressed: "ci_addressee v = AD_ADDRESSED_TO_AGENT" "\<not> cs_commercial_purpose_question (ci_signals v)"
  shows "\<exists>d. decide_by_problem v = Inr d \<and> sound_move v d"
proof -
  have stated: "\<exists>d. mk_consultative_decision (stating ob mv\<lparr>cd_problem_summary := summary_of v,
      cd_service_fit := f\<rparr>) = Inr d \<and> sound_move v d"
    "\<exists>d. mk_consultative_decision (stating ob mv\<lparr>cd_problem_summary := summary_of v\<rparr>) = Inr d \<and> sound_move v d"
    if "mv \<noteq> CM_EXPLAIN_RELEVANT_FIT" for ob mv f
    using stating_sound [OF p that addressed(1), where tr = False and ob = ob and f = f and su = "summary_of v"
        and de = RL_SHORT and si = False and re = False]
      stating_sound [OF p that addressed(1), where tr = False and ob = ob and f = None and su = "summary_of v"
        and de = RL_SHORT and si = False and re = False] addressed
    by (simp_all add: stating_def)
  have asked: "\<exists>d. asking ob mv g v = Inr d \<and> sound_move v d" if "mv \<noteq> CM_EXPLAIN_RELEVANT_FIT" for ob mv g
    using asking_sound [OF p that] addressed by simp
  have explained: "\<exists>d. explaining v = Inr d \<and> sound_move v d" if "sf_status (ci_service_fit v) = SFS_SUPPORTED_FIT"
    using explaining_sound [OF p that addressed] .
  show ?thesis
    unfolding decide_by_problem_def Let_def
    by (simp add: stated asked explained)
qed

lemma decide_consultative_sound:
  assumes p: "mk_problem (ci_problem v) = Inr (ci_problem v)"
  shows "\<exists>d. decide_consultative v = Inr d \<and> sound_move v d"
proof (cases "ci_addressee v = AD_ADDRESSED_TO_AGENT")
  case False
  then show ?thesis using asking_sound [OF p] by (simp add: decide_consultative_def Let_def)
next
  case addressed: True
  note stated = stating_sound [OF p _ addressed]
  show ?thesis
  proof (cases "cs_commercial_purpose_question (ci_signals v)")
    case True
    with stated [where mv = CM_ANSWER_DIRECT_QUESTION and ob = CO_ANSWER and tr = True and f = None
        and su = "summary_of v" and de = RL_SHORT and si = False and re = False] addressed
    show ?thesis by (simp add: decide_consultative_def Let_def stating_def)
  next
    case False
    then have asked: "\<exists>d. asking ob mv g v = Inr d \<and> sound_move v d" if "mv \<noteq> CM_EXPLAIN_RELEVANT_FIT" for ob mv g
      using asking_sound [OF p that] addressed by simp
    have simplified: "\<exists>d. mk_consultative_decision (stating CO_RECOVER CM_SIMPLIFY_EXPLANATION\<lparr>cd_problem_summary := summary_of v,
        cd_simplification := True, cd_resume_previous_goal := resumable v\<rparr>) = Inr d \<and> sound_move v d"
      using stated [where mv = CM_SIMPLIFY_EXPLANATION and ob = CO_RECOVER and tr = False and f = None
        and su = "summary_of v" and de = RL_SHORT and si = True and re = "resumable v"] False by (simp add: stating_def)
    have answered: "\<exists>d. mk_consultative_decision (stating CO_ANSWER CM_ANSWER_DIRECT_QUESTION\<lparr>cd_problem_summary := summary_of v,
        cd_service_fit := f, cd_depth := de, cd_resume_previous_goal := resumable v\<rparr>) = Inr d \<and> sound_move v d" for f de
      using stated [where mv = CM_ANSWER_DIRECT_QUESTION and ob = CO_ANSWER and tr = False and f = f
        and su = "summary_of v" and de = de and si = False and re = "resumable v"] False by (simp add: stating_def)
    have called: "\<exists>d. mk_consultative_decision (stating CO_PROGRESS CM_LOW_PRESSURE_CALLBACK\<lparr>cd_problem_summary := summary_of v\<rparr>)
        = Inr d \<and> sound_move v d"
      using stated [where mv = CM_LOW_PRESSURE_CALLBACK and ob = CO_PROGRESS and tr = False and f = None
        and su = "summary_of v" and de = RL_SHORT and si = False and re = False] False by (simp add: stating_def)
    have ended: "\<exists>d. mk_consultative_decision (stating CO_CLOSE CM_GRACEFUL_CLOSE) = Inr d \<and> sound_move v d"
      using stated [where mv = CM_GRACEFUL_CLOSE and ob = CO_CLOSE and tr = False and f = None
        and su = None and de = RL_SHORT and si = False and re = False] False by (simp add: stating_def)
    show ?thesis
      unfolding decide_consultative_def Let_def
      using False addressed by (simp add: asked simplified answered called ended decide_by_problem_sound [OF p])
  qed
qed

text \<open>What has to be there before a service is explained.\<close>

definition explained_for ::
  "scoped_catalog \<Rightarrow> relevance_rule list \<Rightarrow> problem \<Rightarrow> lean_context \<Rightarrow> service_fit \<Rightarrow> bool" where
  "explained_for catalog rules p c f \<longleftrightarrow> (\<exists>r \<in> set rules.
     let offered = set (lc_offered_services c); eligible = set (lc_eligible_services c);
         evidence = {e \<in> set (lc_evidence c). rule_supports r (sc_campaign_id catalog) e} in
     sf_service_id f = Some (rr_service_id r) \<and> is_service_authorized catalog (rr_service_id r)
     \<and> rr_service_id r \<in> eligible - offered \<and> pb_category p \<in> rr_categories r
     \<and> (\<forall>q \<in> set rules. rr_service_id q \<in> eligible - offered \<and> pb_category p \<in> rr_categories q \<longrightarrow> q = r)
     \<and> (\<forall>q \<in> rr_required r. field_known p q)
     \<and> sf_evidence_ids f \<noteq> [] \<and> set (sf_evidence_ids f) \<subseteq> ev_id ` evidence \<and> undisputed evidence)"

lemma supported_is_explained:
  assumes r: "fully_supported \<lparr>rsv_catalog = catalog, rsv_rules = rules\<rparr> p (lc_eligible_services c)
      (lc_offered_services c) (lc_evidence c) r"
    and distinct: "distinct (map ev_id (lc_evidence c))"
    and authorized: "\<forall>r \<in> set rules. is_service_authorized catalog (rr_service_id r)"
    and "sf_service_id f = Some (rr_service_id r)"
    and ids: "sf_evidence_ids f = map ev_id (rule_evidence (lc_evidence c) r (sc_campaign_id catalog))"
  shows "explained_for catalog rules p c f"
proof -
  let ?rs = "\<lparr>rsv_catalog = catalog, rsv_rules = rules\<rparr>"
  have sole: "sole_rule ?rs p (lc_eligible_services c) (lc_offered_services c) r"
    using r by (simp add: fully_supported_def)
  note member = sole_ruleD [OF sole]
  have only: "q = r" if "q \<in> set rules" "rr_service_id q \<in> set (lc_eligible_services c)"
      "rr_service_id q \<notin> set (lc_offered_services c)" "pb_category p \<in> rr_categories q" for q
  proof -
    have "q \<in> set (filter (\<lambda>r. rr_service_id r \<notin> set (lc_offered_services c)) (rules_for ?rs p (lc_eligible_services c)))"
      using that authorized by (simp add: rules_for_def authorized_service_ids_def is_service_authorized_def)
    then show ?thesis using sole unfolding sole_rule_def by (simp del: set_filter)
  qed
  have found: "rule_evidence (lc_evidence c) r (sc_campaign_id catalog) \<noteq> []"
    using r by (simp add: fully_supported_def)
  note spec = rule_evidence_spec [OF distinct, where r = r and campaign = "sc_campaign_id catalog"]
  from image_mono [OF spec(1), where f = ev_id]
  have cited: "set (sf_evidence_ids f) \<subseteq> ev_id ` {e \<in> set (lc_evidence c). rule_supports r (sc_campaign_id catalog) e}"
    by (simp add: ids)
  have rule: "r \<in> set rules" using member(1) by simp
  have known: "\<forall>q \<in> rr_required r. field_known p q" using r by (simp add: fully_supported_def)
  have "\<forall>q \<in> set rules. rr_service_id q \<in> set (lc_eligible_services c) - set (lc_offered_services c)
      \<and> pb_category p \<in> rr_categories q \<longrightarrow> q = r"
    using only by blast
  moreover have "sf_evidence_ids f \<noteq> []" using found by (simp add: ids)
  moreover have "rr_service_id r \<in> set (lc_eligible_services c) - set (lc_offered_services c)" using member(3,4) by blast
  moreover have "is_service_authorized catalog (rr_service_id r)" using authorized rule by blast
  ultimately show ?thesis
    unfolding explained_for_def Let_def using rule known cited spec(4) [OF found] member(5) assms(4)
    by (intro bexI [of _ r] conjI)
qed

text \<open>
  C35. Diagnose before prescribing. With rules for authorized services only and the evidence the
  context builder selected, the resolver and the engine always reach a decision. It explains a
  service only if that service is authorized in the campaign, eligible, not offered before, is
  the only such service whose rule covers the problem, all the information its rule requires is
  known, and approved evidence for it exists and does not contradict itself. It asks a question
  exactly when it names the information it wants, discloses the commercial purpose exactly when
  asked for it, and only recovers when the words were not meant for it.
\<close>

theorem consultative_explains_supported_fit:
  assumes resolver: "new_resolver catalog rules = Inr rs"
    and rules: "\<forall>r \<in> set rules. mk_relevance_rule r = Inr r"
    and p: "mk_problem p = Inr p"
    and built: "build_context DEFAULT_CONTEXT_BOUNDS i = Inr c"
  shows "\<exists>f d. resolve_fit rs p (lc_eligible_services c) (lc_offered_services c) (lc_evidence c) True = Inr f
    \<and> decide_consultative (v\<lparr>ci_problem := p, ci_service_fit := f\<rparr>) = Inr d
    \<and> sound_move (v\<lparr>ci_problem := p, ci_service_fit := f\<rparr>) d
    \<and> (cd_move d = CM_EXPLAIN_RELEVANT_FIT \<longrightarrow> explained_for catalog rules p c f)"
proof -
  have rs: "rs = \<lparr>rsv_catalog = catalog, rsv_rules = rules\<rparr>" and
    authorized: "\<forall>r \<in> set rules. is_service_authorized catalog (rr_service_id r)"
    using resolver by (auto simp: new_resolver_def res_simps)
  obtain campaign services where "applicable_evidence DEFAULT_CONTEXT_BOUNDS (bin_evidence i) campaign services
      = Inr (lc_evidence c)"
    using built_evidence [OF built] by blast
  from applicable_evidence_spec(3) [OF this] have distinct: "distinct (map ev_id (lc_evidence c))"
    by (simp add: consistent_evidence_def)
  from rules have "\<forall>r \<in> set (rsv_rules rs). mk_relevance_rule r = Inr r" by (simp add: rs)
  from resolve_fit_spec [OF this distinct] obtain f where
    f: "resolve_fit rs p (lc_eligible_services c) (lc_offered_services c) (lc_evidence c) True = Inr f"
    and status: "sf_status f = SFS_SUPPORTED_FIT \<longleftrightarrow>
        (\<exists>r. fully_supported rs p (lc_eligible_services c) (lc_offered_services c) (lc_evidence c) r)"
    and found: "\<And>r. fully_supported rs p (lc_eligible_services c) (lc_offered_services c) (lc_evidence c) r \<Longrightarrow>
        sf_service_id f = Some (rr_service_id r)
        \<and> sf_evidence_ids f = map ev_id (rule_evidence (lc_evidence c) r (sc_campaign_id (rsv_catalog rs)))"
    by metis
  let ?v = "v\<lparr>ci_problem := p, ci_service_fit := f\<rparr>"
  from p have "mk_problem (ci_problem ?v) = Inr (ci_problem ?v)" by simp
  from decide_consultative_sound [OF this] obtain d where d: "decide_consultative ?v = Inr d" "sound_move ?v d" by blast
  have "explained_for catalog rules p c f" if "cd_move d = CM_EXPLAIN_RELEVANT_FIT"
  proof -
    from d(2) that have "sf_status f = SFS_SUPPORTED_FIT" by (simp add: sound_move_def)
    then obtain r where r: "fully_supported rs p (lc_eligible_services c) (lc_offered_services c) (lc_evidence c) r"
      using status by blast
    with found [OF r] show ?thesis unfolding rs by (intro supported_is_explained [OF r [unfolded rs] distinct authorized]) auto
  qed
  with f d show ?thesis by blast
qed

definition website_problem :: problem where
  "website_problem = no_problem\<lparr>pb_category := PC_WEBSITE, pb_description := Some ''The site is down'',
     pb_basis := PB_EXPLICIT, pb_source_turn_id := Some ''t1''\<rparr>"

definition website_rule :: relevance_rule where
  "website_rule = \<lparr>rr_service_id = ''web'', rr_categories = {PC_WEBSITE}, rr_aspects = [''uptime''],
     rr_required = {PF_UNDERLYING_PROBLEM}, rr_fact_keys = {''uptime''}\<rparr>"

definition website_service :: service where
  "website_service = \<lparr>svc_id = ''web'', svc_name = ''Web'', svc_capabilities = [''Hosting''],
     svc_applicable_when = {}, svc_allowed_claims = {}, svc_forbidden_claims = {}, svc_subservices = []\<rparr>"

definition website_resolver :: resolver where
  "website_resolver = \<lparr>rsv_catalog = \<lparr>sc_campaign_id = ''c1'', sc_services = [(''web'', website_service)]\<rparr>,
     rsv_rules = [website_rule]\<rparr>"

definition website_input :: build_input where
  "website_input = hello_input\<lparr>bin_context :=
     blank_context\<lparr>ctx_eligible_alternative_service_ids := [''web'']\<rparr>\<rparr>"

definition calm_turn :: consultative_input where
  "calm_turn = \<lparr>ci_problem = no_problem, ci_service_fit = projr (fit_without SFS_NO_AUTHORIZED_FIT []),
     ci_prospect = None, ci_strategy = None, ci_language_profile = None,
     ci_signals = \<lparr>cs_direct_question = False, cs_commercial_purpose_question = False,
       cs_service_information_request = True, cs_misunderstanding = False, cs_correction = False,
       cs_two_way_ambiguity = False, cs_explicit_no_problem = False, cs_buying_signal = False,
       cs_explanation_requested = False\<rparr>,
     ci_category = IC_OTHER, ci_addressee = AD_ADDRESSED_TO_AGENT, ci_pending = None\<rparr>"

lemma consultative_explains_supported_fit_witness:
  "\<exists>c f d. build_context DEFAULT_CONTEXT_BOUNDS website_input = Inr c
     \<and> resolve_fit website_resolver website_problem (lc_eligible_services c) (lc_offered_services c) (lc_evidence c) True = Inr f
     \<and> decide_consultative (calm_turn\<lparr>ci_problem := website_problem, ci_service_fit := f\<rparr>) = Inr d
     \<and> cd_move d = CM_EXPLAIN_RELEVANT_FIT \<and> sf_service_id f = Some ''web'' \<and> sf_evidence_ids f \<noteq> []"
proof -
  let ?out = "build_context DEFAULT_CONTEXT_BOUNDS website_input"
  let ?c = "projr ?out"
  have "isl ?out = False" by code_simp
  then have built: "?out = Inr ?c" by (rule not_isl_Inr)
  have lists: "lc_eligible_services ?c = [''web'']" "lc_offered_services ?c = []" "lc_evidence ?c = [web_evidence]"
    by code_simp+
  have resolver: "new_resolver (rsv_catalog website_resolver) [website_rule] = Inr website_resolver"
    by (simp add: new_resolver_def website_resolver_def website_rule_def is_service_authorized_def)
  have rules: "\<forall>r \<in> set [website_rule]. mk_relevance_rule r = Inr r" by code_simp
  have p: "mk_problem website_problem = Inr website_problem" by code_simp
  have fit: "resolve_fit website_resolver website_problem [''web''] [] [web_evidence] True =
      Inr \<lparr>sf_status = SFS_SUPPORTED_FIT, sf_service_id = Some ''web'', sf_aspects = [''uptime''],
        sf_missing = [], sf_evidence_ids = [''ev-1''], sf_explanation_allowed = True\<rparr>" (is "_ = Inr ?f") by code_simp
  have "decide_consultative (calm_turn\<lparr>ci_problem := website_problem, ci_service_fit := ?f\<rparr>)
      = explaining (calm_turn\<lparr>ci_problem := website_problem, ci_service_fit := ?f\<rparr>)" by code_simp
  moreover have "\<And>d. explaining (calm_turn\<lparr>ci_problem := website_problem, ci_service_fit := ?f\<rparr>) = Inr d \<Longrightarrow>
      cd_move d = CM_EXPLAIN_RELEVANT_FIT"
    by (auto simp: explaining_def mk_consultative_decision_def stating_def res_simps)
  moreover obtain f d where
    f: "resolve_fit website_resolver website_problem (lc_eligible_services ?c) (lc_offered_services ?c) (lc_evidence ?c) True = Inr f"
    and d: "decide_consultative (calm_turn\<lparr>ci_problem := website_problem, ci_service_fit := f\<rparr>) = Inr d"
    using consultative_explains_supported_fit [OF resolver rules p built, of calm_turn] by blast
  moreover have "f = ?f"
  proof -
    have "Inr ?f = (Inr f :: service_fit res)" using f fit by (simp only: lists)
    then show ?thesis by simp
  qed
  ultimately have "cd_move d = CM_EXPLAIN_RELEVANT_FIT" "sf_service_id f = Some ''web''" "sf_evidence_ids f \<noteq> []"
    by simp_all
  with built f d show ?thesis by blast
qed

section \<open>Two limits the contracts do not share\<close>

text \<open>
  The catalogue bounds neither names nor capabilities; the answer contract does, so a supported
  fit with a long capability raises instead of answering.
\<close>

lemma unbounded_answer: "\<not> bounded_texts 4 100 (sa_capabilities a) \<Longrightarrow> mk_service_answer a = Inl ValueError"
  by (simp add: mk_service_answer_def guard_def)

lemma long_capability_breaks_answer:
  assumes "sf_service_id fit = Some sid" "sf_status fit = SFS_SUPPORTED_FIT" "sf_explanation_allowed fit"
    and "get_service (rsv_catalog rs) sid = Some svc" "List.find (\<lambda>r. rr_service_id r = sid) (rsv_rules rs) = Some r"
    and "map ev_id (rule_evidence evidence r (sc_campaign_id (rsv_catalog rs))) = sf_evidence_ids fit"
    and "k \<in> set (take 4 (svc_capabilities svc))" "length k > 100"
  shows "build_answer rs fit p evidence True questions = Inl ValueError"
proof -
  have "\<not> bounded_texts 4 100 (take 4 (svc_capabilities svc))" using assms(7,8) by (auto simp: bounded_texts_def)
  then show ?thesis
    using assms(1-6) by (simp add: build_answer_def unbounded_answer Let_def)
qed

text \<open>
  An update keeps the older texts but takes the basis of the newer evidence: a description that was
  only inferred counts as stated once anything else is stated.
\<close>

lemma guess_becomes_statement:
  assumes "\<not> pbe_correction e" "pbe_basis e = PB_EXPLICIT" "pb_basis prev = PB_INFERRED" "pbe_description e = None"
    and "problem_update prev e = Inr p"
  shows "pb_basis p = PB_EXPLICIT \<and> pb_description p = pb_description prev"
  using assms by (auto simp: problem_update_def mk_problem_def newer_def res_simps)

end
