(* ===== verification/Cognition.thy ===== *)
theory Cognition
  imports Consultative "HOL-Library.Product_Lexorder"
begin

text \<open>
  \<^verbatim>\<open>conversation/sales_cognition\<close>: how the conversation feels and which single question is worth asking;
  \<^verbatim>\<open>conversation/sales_playbook\<close>: which service of the playbooks is an opportunity; and the part of
  \<^verbatim>\<open>production_turn_processor.py\<close> that remembers the questions asked last.
\<close>

section \<open>Vocabulary of the guidance\<close>

datatype momentum =
    Mom_UNKNOWN | Mom_IMPROVING | Mom_STABLE | Mom_DECLINING | Mom_RECOVERING

datatype trust_state =
    Trust_UNKNOWN | Trust_BUILDING | Trust_ESTABLISHED | Trust_FRAGILE

datatype interest_strength =
    Int_UNKNOWN | Int_NONE | Int_WEAK | Int_MODERATE | Int_STRONG | Int_BUYING_SIGNAL |
    Int_RESEARCH_MODE

datatype discovery_readiness =
    DR_NEED_PROBLEM | DR_NEED_WORKFLOW | DR_NEED_IMPACT | DR_NEED_DECISION_CONTEXT |
    DR_READY_FOR_FIT | DR_READY_FOR_NEXT_STEP

datatype objection_understanding =
    OU_NONE | OU_NO_TIME | OU_BUDGET | OU_EXISTING_PROVIDER | OU_NO_NEED | OU_NO_TRUST |
    OU_INTERNAL_TEAM | OU_CONTRACT_LOCK | OU_RESEARCH_ONLY | OU_UNKNOWN

datatype energy =
    En_FAST | En_NORMAL | En_SLOW | En_FATIGUED

datatype question_priority =
    QPri_NONE | QPri_PROBLEM | QPri_WORKFLOW | QPri_IMPACT | QPri_PROVIDER_GAP |
    QPri_DECISION_CONTEXT | QPri_FIT_CLARIFICATION

datatype relationship =
    Rel_FIRST_CONTACT | Rel_DEVELOPING | Rel_RETURNING_DISCUSSION | Rel_KNOWN_CONTEXT

datatype pressure =
    Press_COMFORTABLE | Press_NEEDS_SLOWING | Press_NEEDS_CLARIFICATION | Press_READY_TO_CONTINUE

datatype curiosity_focus =
    Cur_UNDERLYING_PROBLEM | Cur_CURRENT_WORKFLOW | Cur_BUSINESS_IMPACT | Cur_PROVIDER_EXPERIENCE |
    Cur_ROLE_ROUTING | Cur_FIT_UNCERTAINTY | Cur_NONE

datatype role_style =
    RStyle_BRIEF_ROUTING | RStyle_OWNER_VALUE | RStyle_OPERATIONS_WORKFLOW |
    RStyle_TECHNICAL_PRECISION | RStyle_SALES_PROCESS | RStyle_FINANCIAL_RESTRAINT |
    RStyle_SUPPORTIVE | RStyle_GENERAL_CONSULTATIVE

datatype emotional_posture =
    Emo_NEUTRAL | Emo_CONFUSED | Emo_SKEPTICAL | Emo_FRUSTRATED | Emo_CURIOUS | Emo_BUSY |
    Emo_INTERESTED

datatype buying_guidance =
    BG_CONTINUE_DISCOVERY | BG_EXPLAIN_FIT | BG_HANDLE_OBJECTION | BG_SUGGEST_MICRO_COMMITMENT |
    BG_GRACEFUL_CLOSE

section \<open>The guidance\<close>

record cognition_signals =
  cgs_confused :: bool
  cgs_skeptical :: bool
  cgs_frustrated :: bool
  cgs_curious :: bool
  cgs_fatigued :: bool
  cgs_correction :: bool
  cgs_research_only :: bool
  cgs_explicit_no_need :: bool
  cgs_detailed_explanation_requested :: bool

record guidance =
  gd_momentum :: momentum
  gd_trust :: trust_state
  gd_interest :: interest_strength
  gd_readiness :: discovery_readiness
  gd_objection :: objection_understanding
  gd_energy :: energy
  gd_question_priority :: question_priority
  gd_question_focus :: "problem_field option"
  gd_relationship :: relationship
  gd_pressure :: pressure
  gd_curiosity :: curiosity_focus
  gd_role_style :: role_style
  gd_emotion :: emotional_posture
  gd_buying :: buying_guidance
  gd_depth :: response_length
  gd_max_primary_questions :: int

definition mk_guidance :: "guidance \<Rightarrow> guidance res" where
  "mk_guidance g =
     rbind (guard (gd_max_primary_questions g = 1) ValueError) (\<lambda>_.
     rbind (guard ((gd_question_priority g = QPri_NONE) = (gd_question_focus g = None)) ValueError) (\<lambda>_. Inr g))"

record cognition_input =
  sci_prospect :: prospect_summary
  sci_problem :: problem
  sci_fit :: service_fit
  sci_strategy :: "strategy option"
  sci_decision :: consultative_decision
  sci_signals :: cognition_signals
  sci_recent :: "problem_field list"
  sci_prior :: "guidance option"
  sci_returning :: bool

definition mk_cognition_input :: "cognition_input \<Rightarrow> cognition_input res" where
  "mk_cognition_input v = rbind (guard (\<not> length (sci_recent v) > 4) ValueError) (\<lambda>_. Inr v)"

definition interest_of :: "cognition_input \<Rightarrow> interest_strength" where
  "interest_of v =
     (let step = map_option ov_value (psm_explicit_next_step (sci_prospect v));
          interested = map_option ov_value (psm_interested (sci_prospect v)) in
      if step = Some NS_DEMO \<or> step = Some NS_HUMAN_FOLLOW_UP \<or> step = Some NS_CALLBACK then Int_BUYING_SIGNAL
      else if cgs_research_only (sci_signals v) \<or> step = Some NS_SEND_INFORMATION then Int_RESEARCH_MODE
      else if interested = Some False then Int_NONE
      else if interested = Some True then
        (if \<exists>g \<in> set_option (sci_prior v). gd_interest g = Int_MODERATE \<or> gd_interest g = Int_STRONG
         then Int_STRONG else Int_MODERATE)
      else if meaningful (sci_problem v) then Int_WEAK
      else Int_UNKNOWN)"

definition momentum_of :: "cognition_input \<Rightarrow> interest_strength \<Rightarrow> momentum" where
  "momentum_of v interest =
     (if cgs_correction (sci_signals v) \<or> cgs_confused (sci_signals v) then Mom_RECOVERING
      else if cgs_explicit_no_need (sci_signals v) \<or> interest = Int_NONE then Mom_DECLINING
      else if interest = Int_STRONG \<or> interest = Int_BUYING_SIGNAL then Mom_IMPROVING
      else if sci_prior v \<noteq> None \<or> meaningful (sci_problem v) then Mom_STABLE
      else Mom_UNKNOWN)"

definition trust_of :: "cognition_input \<Rightarrow> trust_state" where
  "trust_of v =
     (let interested = map_option ov_value (psm_interested (sci_prospect v)) in
      if cgs_confused (sci_signals v) \<or> cgs_skeptical (sci_signals v) \<or> cgs_correction (sci_signals v) then Trust_FRAGILE
      else if sci_returning v then Trust_ESTABLISHED
      else if (\<exists>g \<in> set_option (sci_prior v). gd_trust g = Trust_BUILDING) \<and> interested = Some True then Trust_ESTABLISHED
      else if meaningful (sci_problem v) \<or> interested \<noteq> None then Trust_BUILDING
      else Trust_UNKNOWN)"

fun objection_meaning :: "objection_type option \<Rightarrow> objection_understanding" where
  "objection_meaning (Some Obj_NONE) = OU_NONE"
| "objection_meaning (Some Obj_NO_TIME) = OU_NO_TIME"
| "objection_meaning (Some Obj_BAD_TIMING) = OU_NO_TIME"
| "objection_meaning (Some Obj_PRICE) = OU_BUDGET"
| "objection_meaning (Some Obj_ALREADY_HAVE_PROVIDER) = OU_EXISTING_PROVIDER"
| "objection_meaning (Some Obj_NO_NEED) = OU_NO_NEED"
| "objection_meaning (Some Obj_TRUST) = OU_NO_TRUST"
| "objection_meaning (Some Obj_INTERNAL_TEAM) = OU_INTERNAL_TEAM"
| "objection_meaning (Some Obj_CONTRACT_LOCK) = OU_CONTRACT_LOCK"
| "objection_meaning (Some Obj_SEND_INFORMATION) = OU_RESEARCH_ONLY"
| "objection_meaning _ = OU_UNKNOWN"

definition understood_objection :: "cognition_input \<Rightarrow> objection_understanding" where
  "understood_objection v = objection_meaning (map_option ov_value (psm_explicit_objection (sci_prospect v)))"

definition readiness_of :: "cognition_input \<Rightarrow> interest_strength \<Rightarrow> discovery_readiness" where
  "readiness_of v interest =
     (if interest = Int_BUYING_SIGNAL \<and> sf_status (sci_fit v) = SFS_SUPPORTED_FIT then DR_READY_FOR_NEXT_STEP
      else if sf_status (sci_fit v) = SFS_SUPPORTED_FIT then DR_READY_FOR_FIT
      else if \<not> meaningful (sci_problem v) then DR_NEED_PROBLEM
      else if pb_current_process (sci_problem v) = None then DR_NEED_WORKFLOW
      else if pb_impact (sci_problem v) = None then DR_NEED_IMPACT
      else DR_NEED_DECISION_CONTEXT)"

definition question_candidates :: "cognition_input \<Rightarrow> problem_field option list" where
  "question_candidates v =
     (let p = sci_problem v; only = (\<lambda>b f. if b then Some f else None) in
      [only (\<exists>s \<in> set_option (psm_solution (sci_prospect v)). sc_satisfaction s = Sat_UNKNOWN) PF_PROVIDER_SATISFACTION,
       cd_gap (sci_decision v),
       only (\<not> meaningful p) PF_UNDERLYING_PROBLEM,
       only (pb_current_process p = None) PF_CURRENT_PROCESS,
       only (pb_impact p = None) PF_IMPACT,
       only (pb_desired_outcome p = None) PF_DESIRED_OUTCOME])"

definition question_focus :: "cognition_input \<Rightarrow> problem_field option" where
  "question_focus v = List.find (\<lambda>f. f \<notin> set (sci_recent v))
     (List.map_filter id (question_candidates v))"

fun priority_of_focus :: "problem_field option \<Rightarrow> question_priority" where
  "priority_of_focus None = QPri_NONE"
| "priority_of_focus (Some PF_UNDERLYING_PROBLEM) = QPri_PROBLEM"
| "priority_of_focus (Some PF_CURRENT_PROCESS) = QPri_WORKFLOW"
| "priority_of_focus (Some PF_IMPACT) = QPri_IMPACT"
| "priority_of_focus (Some PF_PROVIDER_SATISFACTION) = QPri_PROVIDER_GAP"
| "priority_of_focus (Some PF_ROLE_ROUTING) = QPri_DECISION_CONTEXT"
| "priority_of_focus (Some _) = QPri_FIT_CLARIFICATION"

fun curiosity_of_focus :: "problem_field option \<Rightarrow> curiosity_focus" where
  "curiosity_of_focus None = Cur_NONE"
| "curiosity_of_focus (Some PF_UNDERLYING_PROBLEM) = Cur_UNDERLYING_PROBLEM"
| "curiosity_of_focus (Some PF_CURRENT_PROCESS) = Cur_CURRENT_WORKFLOW"
| "curiosity_of_focus (Some PF_IMPACT) = Cur_BUSINESS_IMPACT"
| "curiosity_of_focus (Some PF_PROVIDER_SATISFACTION) = Cur_PROVIDER_EXPERIENCE"
| "curiosity_of_focus (Some PF_ROLE_ROUTING) = Cur_ROLE_ROUTING"
| "curiosity_of_focus (Some _) = Cur_FIT_UNCERTAINTY"

definition relationship_of :: "cognition_input \<Rightarrow> relationship" where
  "relationship_of v =
     (if sci_returning v then Rel_RETURNING_DISCUSSION
      else if sci_prior v \<noteq> None \<and> meaningful (sci_problem v) then Rel_KNOWN_CONTEXT
      else if meaningful (sci_problem v) \<or> sci_prior v \<noteq> None then Rel_DEVELOPING
      else Rel_FIRST_CONTACT)"

definition busy_now :: "prospect_summary \<Rightarrow> bool" where
  "busy_now p \<longleftrightarrow> map_option ov_value (psm_busy p) = Some True"

definition energy_of :: "cognition_input \<Rightarrow> energy" where
  "energy_of v =
     (if cgs_fatigued (sci_signals v) then En_FATIGUED
      else if busy_now (sci_prospect v) then En_FAST
      else if cgs_confused (sci_signals v) \<or> cgs_frustrated (sci_signals v) then En_SLOW
      else En_NORMAL)"

definition pressure_of :: "cognition_input \<Rightarrow> interest_strength \<Rightarrow> pressure" where
  "pressure_of v interest =
     (if cgs_confused (sci_signals v) \<or> cgs_correction (sci_signals v) then Press_NEEDS_CLARIFICATION
      else if cgs_fatigued (sci_signals v) \<or> busy_now (sci_prospect v) then Press_NEEDS_SLOWING
      else if interest = Int_STRONG \<or> interest = Int_BUYING_SIGNAL then Press_READY_TO_CONTINUE
      else Press_COMFORTABLE)"

fun style_of_role :: "prospect_role option \<Rightarrow> role_style" where
  "style_of_role (Some PRole_RECEPTIONIST) = RStyle_BRIEF_ROUTING"
| "style_of_role (Some PRole_GATEKEEPER) = RStyle_BRIEF_ROUTING"
| "style_of_role (Some PRole_OWNER) = RStyle_OWNER_VALUE"
| "style_of_role (Some PRole_FOUNDER) = RStyle_OWNER_VALUE"
| "style_of_role (Some PRole_MANAGER) = RStyle_OPERATIONS_WORKFLOW"
| "style_of_role (Some PRole_OPERATIONS_MANAGER) = RStyle_OPERATIONS_WORKFLOW"
| "style_of_role (Some PRole_TECHNICAL_MANAGER) = RStyle_TECHNICAL_PRECISION"
| "style_of_role (Some PRole_SALES_MANAGER) = RStyle_SALES_PROCESS"
| "style_of_role (Some PRole_FINANCE_CONTACT) = RStyle_FINANCIAL_RESTRAINT"
| "style_of_role (Some PRole_ASSISTANT_MANAGER) = RStyle_SUPPORTIVE"
| "style_of_role (Some PRole_ASSISTANT) = RStyle_SUPPORTIVE"
| "style_of_role _ = RStyle_GENERAL_CONSULTATIVE"

definition emotion_of :: "cognition_input \<Rightarrow> emotional_posture" where
  "emotion_of v =
     (let sig = sci_signals v in
      if cgs_confused sig then Emo_CONFUSED
      else if cgs_skeptical sig then Emo_SKEPTICAL
      else if cgs_frustrated sig then Emo_FRUSTRATED
      else if busy_now (sci_prospect v) then Emo_BUSY
      else if cgs_curious sig then Emo_CURIOUS
      else if map_option ov_value (psm_interested (sci_prospect v)) = Some True then Emo_INTERESTED
      else Emo_NEUTRAL)"

definition buying_of :: "cognition_input \<Rightarrow> interest_strength \<Rightarrow> objection_understanding \<Rightarrow> buying_guidance" where
  "buying_of v interest objection =
     (if cgs_explicit_no_need (sci_signals v) \<or> interest = Int_NONE then BG_GRACEFUL_CLOSE
      else if objection \<noteq> OU_NONE \<and> objection \<noteq> OU_UNKNOWN then BG_HANDLE_OBJECTION
      else if interest = Int_BUYING_SIGNAL \<and> sf_status (sci_fit v) = SFS_SUPPORTED_FIT then BG_SUGGEST_MICRO_COMMITMENT
      else if sf_status (sci_fit v) = SFS_SUPPORTED_FIT then BG_EXPLAIN_FIT
      else BG_CONTINUE_DISCOVERY)"

definition depth_of :: "cognition_input \<Rightarrow> response_length" where
  "depth_of v =
     (let sig = sci_signals v in
      if cgs_confused sig \<or> cgs_fatigued sig \<or> busy_now (sci_prospect v) then RL_SHORT
      else if cgs_detailed_explanation_requested sig then RL_DETAILED
      else if cgs_curious sig \<or> cgs_research_only sig then RL_MODERATE
      else cd_depth (sci_decision v))"

definition validate_guidance :: "guidance \<Rightarrow> cognition_input \<Rightarrow> guidance res" where
  "validate_guidance g v =
     rbind (guard (\<not> (\<exists>f \<in> set_option (gd_question_focus g). f \<in> set (sci_recent v))) ValueError) (\<lambda>_.
     rbind (guard (\<not> (gd_buying g = BG_EXPLAIN_FIT \<and> sf_status (sci_fit v) \<noteq> SFS_SUPPORTED_FIT)) ValueError) (\<lambda>_.
     rbind (guard (\<not> (gd_buying g = BG_SUGGEST_MICRO_COMMITMENT \<and> gd_interest g \<noteq> Int_BUYING_SIGNAL)) ValueError) (\<lambda>_.
     Inr g)))"

definition evaluate_cognition :: "cognition_input \<Rightarrow> guidance res" where
  "evaluate_cognition v =
     (let interest = interest_of v; objection = understood_objection v; focus = question_focus v in
      rbind (mk_guidance \<lparr>gd_momentum = momentum_of v interest, gd_trust = trust_of v, gd_interest = interest,
        gd_readiness = readiness_of v interest, gd_objection = objection, gd_energy = energy_of v,
        gd_question_priority = priority_of_focus focus, gd_question_focus = focus,
        gd_relationship = relationship_of v, gd_pressure = pressure_of v interest,
        gd_curiosity = curiosity_of_focus focus,
        gd_role_style = style_of_role (map_option ov_value (psm_explicit_role (sci_prospect v))),
        gd_emotion = emotion_of v, gd_buying = buying_of v interest objection, gd_depth = depth_of v,
        gd_max_primary_questions = 1\<rparr>) (\<lambda>g. validate_guidance g v))"

section \<open>Vocabulary of the playbooks\<close>

datatype business_situation =
    Sit_NO_ONLINE_PRESENCE | Sit_WEBSITE_EXISTS | Sit_POOR_TRUST | Sit_LOW_VISIBILITY |
    Sit_NO_ONLINE_ORDERS | Sit_POOR_BRANDING | Sit_MANUAL_WORKFLOW | Sit_REPEATED_TASKS |
    Sit_HUMAN_ERRORS | Sit_SLOW_WORKFLOW | Sit_LOST_TIME | Sit_NO_TRAFFIC | Sit_POOR_RANKING |
    Sit_CRM_EXISTS | Sit_CRM_UNDERPERFORMING | Sit_CURRENT_PROVIDER | Sit_NO_IDENTIFIED_NEED

fun situation_value :: "business_situation \<Rightarrow> str" where
  "situation_value Sit_NO_ONLINE_PRESENCE = ''no_online_presence''"
| "situation_value Sit_WEBSITE_EXISTS = ''website_exists''"
| "situation_value Sit_POOR_TRUST = ''poor_trust''"
| "situation_value Sit_LOW_VISIBILITY = ''low_visibility''"
| "situation_value Sit_NO_ONLINE_ORDERS = ''no_online_orders''"
| "situation_value Sit_POOR_BRANDING = ''poor_branding''"
| "situation_value Sit_MANUAL_WORKFLOW = ''manual_workflow''"
| "situation_value Sit_REPEATED_TASKS = ''repeated_tasks''"
| "situation_value Sit_HUMAN_ERRORS = ''human_errors''"
| "situation_value Sit_SLOW_WORKFLOW = ''slow_workflow''"
| "situation_value Sit_LOST_TIME = ''lost_time''"
| "situation_value Sit_NO_TRAFFIC = ''no_traffic''"
| "situation_value Sit_POOR_RANKING = ''poor_ranking''"
| "situation_value Sit_CRM_EXISTS = ''crm_exists''"
| "situation_value Sit_CRM_UNDERPERFORMING = ''crm_underperforming''"
| "situation_value Sit_CURRENT_PROVIDER = ''current_provider''"
| "situation_value Sit_NO_IDENTIFIED_NEED = ''no_identified_need''"

definition all_situation :: "business_situation list" where
  "all_situation =
     [Sit_NO_ONLINE_PRESENCE, Sit_WEBSITE_EXISTS, Sit_POOR_TRUST, Sit_LOW_VISIBILITY,
     Sit_NO_ONLINE_ORDERS, Sit_POOR_BRANDING, Sit_MANUAL_WORKFLOW, Sit_REPEATED_TASKS,
     Sit_HUMAN_ERRORS, Sit_SLOW_WORKFLOW, Sit_LOST_TIME, Sit_NO_TRAFFIC, Sit_POOR_RANKING,
     Sit_CRM_EXISTS, Sit_CRM_UNDERPERFORMING, Sit_CURRENT_PROVIDER, Sit_NO_IDENTIFIED_NEED]"

lemma situation_of_value [simp]: "enum_of situation_value all_situation (situation_value x) = Inr x"
  by (cases x) (simp_all add: enum_of_def all_situation_def)

datatype discovery_topic =
    Topic_CURRENT_WEBSITE | Topic_GOOGLE_PRESENCE | Topic_ONLINE_ORDERS | Topic_CUSTOMER_JOURNEY |
    Topic_CURRENT_WORKFLOW | Topic_BUSINESS_IMPACT | Topic_CURRENT_SOFTWARE |
    Topic_PROVIDER_SATISFACTION | Topic_BUSINESS_GOAL | Topic_OBJECTION_REASON

datatype qualification_signal =
    QSig_DECISION_MAKER | QSig_BUDGET_MENTIONED | QSig_CURRENT_PROCESS_KNOWN | QSig_PAIN_CONFIRMED |
    QSig_BUSINESS_SIZE_KNOWN | QSig_CURRENT_SOFTWARE_KNOWN

datatype buying_signal =
    BSig_INTERESTED | BSig_ASKING_QUESTIONS | BSig_FUTURE_PLANNING | BSig_EXPANSION | BSig_SCALING |
    BSig_HIRING | BSig_GROWTH | BSig_MANUAL_PROBLEMS

datatype benefit_category =
    Ben_OPERATIONAL | Ben_FINANCIAL | Ben_MARKETING | Ben_CUSTOMER_EXPERIENCE | Ben_TIME_SAVINGS |
    Ben_AUTOMATION | Ben_TRUST | Ben_VISIBILITY

fun benefit_value :: "benefit_category \<Rightarrow> str" where
  "benefit_value Ben_OPERATIONAL = ''operational''"
| "benefit_value Ben_FINANCIAL = ''financial''"
| "benefit_value Ben_MARKETING = ''marketing''"
| "benefit_value Ben_CUSTOMER_EXPERIENCE = ''customer_experience''"
| "benefit_value Ben_TIME_SAVINGS = ''time_savings''"
| "benefit_value Ben_AUTOMATION = ''automation''"
| "benefit_value Ben_TRUST = ''trust''"
| "benefit_value Ben_VISIBILITY = ''visibility''"

definition all_benefit :: "benefit_category list" where
  "all_benefit =
     [Ben_OPERATIONAL, Ben_FINANCIAL, Ben_MARKETING, Ben_CUSTOMER_EXPERIENCE, Ben_TIME_SAVINGS,
     Ben_AUTOMATION, Ben_TRUST, Ben_VISIBILITY]"

lemma benefit_of_value [simp]: "enum_of benefit_value all_benefit (benefit_value x) = Inr x"
  by (cases x) (simp_all add: enum_of_def all_benefit_def)

datatype acknowledgement_strategy =
    Ack_ACKNOWLEDGE_CONSTRAINT | Ack_ACKNOWLEDGE_EXISTING_CHOICE | Ack_ACKNOWLEDGE_UNCERTAINTY |
    Ack_ACKNOWLEDGE_PREFERENCE

datatype clarification_strategy =
    Clar_CLARIFY_TIMING | Clar_CLARIFY_BUDGET_CONTEXT | Clar_CLARIFY_CURRENT_SATISFACTION |
    Clar_CLARIFY_NEED | Clar_CLARIFY_CONCERN

datatype education_strategy =
    Edu_EXPLAIN_RELEVANT_OUTCOME | Edu_EXPLAIN_OPTIMIZATION_PATH |
    Edu_EXPLAIN_WITH_APPROVED_EVIDENCE | Edu_DEFER_EDUCATION

datatype pitch_readiness =
    Pitch_DISCOVERY_REQUIRED | Pitch_DISCOVERY_COMPLETE | Pitch_EDUCATION | Pitch_VALUE_DISCUSSION |
    Pitch_READY_FOR_MICRO_COMMITMENT | Pitch_NO_FIT

datatype consultant_step =
    CStep_UNDERSTAND | CStep_CLARIFY | CStep_EDUCATE | CStep_RELATE | CStep_RECOMMEND |
    CStep_MICRO_COMMITMENT | CStep_GRACEFUL_END

datatype playbook_restriction =
    PRes_NO_GUARANTEED_RANKINGS | PRes_NO_GUARANTEED_REVENUE | PRes_NO_GUARANTEED_ROI |
    PRes_NO_FAKE_TIMELINES | PRes_NO_FAKE_INTEGRATIONS | PRes_NO_PRESSURE_LANGUAGE

text \<open>
  \<^verbatim>\<open>^[a-z0-9][a-z0-9_-]{0,99}$\<close>, matched against the whole string.
\<close>

definition id_char :: "char \<Rightarrow> bool" where
  "id_char c = (let n = (of_char c :: nat) in (97 \<le> n \<and> n \<le> 122) \<or> (48 \<le> n \<and> n \<le> 57))"

definition identifier_ok :: "str \<Rightarrow> bool" where
  "identifier_ok s = (case s of [] \<Rightarrow> False
     | c # cs \<Rightarrow> id_char c \<and> length cs \<le> 99 \<and> (\<forall>d \<in> set cs. id_char d \<or> d = CHR ''_'' \<or> d = CHR ''-''))"

text \<open>
  \<^verbatim>\<open>str.casefold\<close>. The micro sign, which folds to a letter beyond code point 255, is left alone:
  an identifier contains neither.
\<close>

definition py_casefold :: "str \<Rightarrow> str" where
  "py_casefold s = concat (map (\<lambda>c. if of_char c = (223 :: nat) then ''ss'' else [py_lower_char c]) s)"

section \<open>Playbooks\<close>

record objection_guidance =
  og_objection :: objection_type
  og_acknowledgement :: acknowledgement_strategy
  og_clarification :: clarification_strategy
  og_education :: education_strategy

record playbook =
  pbk_service_id :: str
  pbk_name :: str
  pbk_category :: str
  pbk_description :: str
  pbk_industries :: "str set"
  pbk_solved :: "business_situation set"
  pbk_topics :: "discovery_topic list"
  pbk_qualification :: "qualification_signal set"
  pbk_buying :: "buying_signal set"
  pbk_objections :: "objection_guidance list"
  pbk_benefits :: "benefit_category set"
  pbk_future :: "str list"
  pbk_restrictions :: "playbook_restriction set"
  pbk_priority :: int

definition MANDATORY_RESTRICTIONS :: "playbook_restriction set" where
  "MANDATORY_RESTRICTIONS = {PRes_NO_GUARANTEED_REVENUE, PRes_NO_GUARANTEED_ROI, PRes_NO_PRESSURE_LANGUAGE}"

definition mk_playbook :: "playbook \<Rightarrow> playbook res" where
  "mk_playbook p =
     (let industries = py_casefold ` pbk_industries p in
      rbind (guard (identifier_ok (pbk_service_id p)) ValueError) (\<lambda>_.
      rbind (guard (text_within 120 (pbk_name p)) ValueError) (\<lambda>_.
      rbind (guard (text_within 80 (pbk_category p)) ValueError) (\<lambda>_.
      rbind (guard (text_within 300 (pbk_description p)) ValueError) (\<lambda>_.
      rbind (guard (\<not> (card industries > 20 \<or> (\<exists>i \<in> industries. \<not> identifier_ok i))) ValueError) (\<lambda>_.
      rbind (guard (\<not> (pbk_solved p = {} \<or> card (pbk_solved p) > 12)) ValueError) (\<lambda>_.
      rbind (guard (\<not> (pbk_topics p = [] \<or> length (pbk_topics p) > 10 \<or> \<not> distinct (pbk_topics p))) ValueError) (\<lambda>_.
      rbind (guard (\<not> (length (pbk_future p) > 6 \<or> \<not> distinct (pbk_future p))) ValueError) (\<lambda>_.
      rbind (guard (\<forall>i \<in> set (pbk_future p). identifier_ok i) ValueError) (\<lambda>_.
      rbind (guard (0 \<le> pbk_priority p \<and> pbk_priority p \<le> 1000) ValueError) (\<lambda>_.
      rbind (guard (distinct (map og_objection (pbk_objections p))) ValueError) (\<lambda>_.
      Inr (p\<lparr>pbk_industries := industries,
        pbk_restrictions := pbk_restrictions p \<union> MANDATORY_RESTRICTIONS\<rparr>)))))))))))))"

record playbook_context =
  pbc_industry :: str
  pbc_situations :: "business_situation set"
  pbc_known_topics :: "discovery_topic set"
  pbc_qualification :: "qualification_signal set"
  pbc_buying :: "buying_signal set"
  pbc_existing :: "str set"
  pbc_no_fit :: bool
  pbc_ambiguity :: bool

definition mk_playbook_context :: "playbook_context \<Rightarrow> playbook_context res" where
  "mk_playbook_context c =
     rbind (guard (identifier_ok (py_casefold (pbc_industry c))) ValueError) (\<lambda>_.
     rbind (guard (\<not> (card (pbc_situations c) > 16 \<or> card (pbc_known_topics c) > 12)) ValueError) (\<lambda>_.
     rbind (guard (\<forall>i \<in> pbc_existing c. identifier_ok i) ValueError) (\<lambda>_.
     Inr (c\<lparr>pbc_industry := py_casefold (pbc_industry c)\<rparr>))))"

text \<open>
  The engine reads of the input what is listed here; the decision, the strategy and the snapshots
  of the other engines, which it carries along, are not part of the model.
\<close>

record playbook_input =
  pin_context :: playbook_context
  pin_playbooks :: "playbook list"
  pin_eligible :: "str set"
  pin_prospect :: prospect_summary
  pin_problem :: problem
  pin_guidance :: "guidance option"
  pin_discussed :: "str set"

definition mk_playbook_input :: "playbook_input \<Rightarrow> playbook_input res" where
  "mk_playbook_input v =
     rbind (guard (\<not> (length (pin_playbooks v) > 50 \<or> \<not> distinct (map pbk_service_id (pin_playbooks v)))) ValueError) (\<lambda>_.
     rbind (guard (\<forall>i \<in> pin_eligible v. identifier_ok i) ValueError) (\<lambda>_. Inr v))"

record opportunity =
  opp_service :: "str option"
  opp_situations :: "business_situation list"
  opp_readiness :: pitch_readiness
  opp_step :: consultant_step
  opp_primary :: "discovery_topic option"
  opp_secondary :: "discovery_topic option"
  opp_objection :: "objection_guidance option"
  opp_benefits :: "benefit_category list"
  opp_future :: "str list"
  opp_restrictions :: "playbook_restriction set"
  opp_existing :: bool

definition mk_opportunity :: "opportunity \<Rightarrow> opportunity res" where
  "mk_opportunity g =
     rbind (guard (\<forall>s \<in> set_option (opp_service g). identifier_ok s) ValueError) (\<lambda>_.
     rbind (guard (\<not> (opp_primary g \<noteq> None \<and> opp_primary g = opp_secondary g)) ValueError) (\<lambda>_.
     rbind (guard (\<not> (opp_secondary g \<noteq> None \<and> opp_primary g = None)) ValueError) (\<lambda>_.
     rbind (guard (\<not> (opp_service g = None \<and> opp_readiness g \<noteq> Pitch_NO_FIT \<and> opp_readiness g \<noteq> Pitch_DISCOVERY_REQUIRED)) ValueError) (\<lambda>_.
     rbind (guard (\<not> length (opp_future g) > 3) ValueError) (\<lambda>_.
     rbind (guard (distinct (opp_future g)) ValueError) (\<lambda>_.
     rbind (guard (\<forall>i \<in> set (opp_future g). identifier_ok i) ValueError) (\<lambda>_.
     rbind (guard (distinct (opp_benefits g)) ValueError) (\<lambda>_. Inr g))))))))"

section \<open>The opportunity\<close>

text \<open>\<^verbatim>\<open>dict.fromkeys(xs)\<close>: the distinct elements in the order of their first occurrence.\<close>

definition uniq :: "'a list \<Rightarrow> 'a list" where
  "uniq xs = rev (remdups (rev xs))"

lemma uniq_simps [simp]: "set (uniq xs) = set xs" "distinct (uniq xs)" "uniq [] = []"
  by (simp_all add: uniq_def)

definition matched_situations :: "playbook \<Rightarrow> playbook_input \<Rightarrow> business_situation list" where
  "matched_situations p v = sort_key situation_value
     (filter (\<lambda>s. s \<in> pbk_solved p \<and> s \<in> pbc_situations (pin_context v)) all_situation)"

definition opportunity_score :: "playbook \<Rightarrow> business_situation list \<Rightarrow> playbook_input \<Rightarrow> int" where
  "opportunity_score p matched v = int (length matched) * 100
     + int (card (pbk_qualification p \<inter> pbc_qualification (pin_context v))) * 10
     + int (card (pbk_buying p \<inter> pbc_buying (pin_context v))) * 5"

definition is_candidate :: "playbook_input \<Rightarrow> playbook \<Rightarrow> bool" where
  "is_candidate v p \<longleftrightarrow> pbk_service_id p \<in> pin_eligible v
     \<and> \<not> (pbk_industries p \<noteq> {} \<and> pbc_industry (pin_context v) \<notin> pbk_industries p)
     \<and> matched_situations p v \<noteq> []"

definition candidate_key :: "playbook_input \<Rightarrow> playbook \<times> business_situation list \<Rightarrow> int \<times> int \<times> str" where
  "candidate_key v x = (- opportunity_score (fst x) (snd x) v, pbk_priority (fst x), pbk_service_id (fst x))"

definition candidates :: "playbook_input \<Rightarrow> (playbook \<times> business_situation list) list" where
  "candidates v = sort_key (candidate_key v)
     (map (\<lambda>p. (p, matched_situations p v)) (filter (is_candidate v) (pin_playbooks v)))"

definition playbook_questions ::
  "playbook_input \<Rightarrow> discovery_topic list \<Rightarrow> objection_type option \<Rightarrow> discovery_topic option \<times> discovery_topic option" where
  "playbook_questions v missing objection =
     (if busy_now (pin_prospect v) then (None, None)
      else case uniq ((if objection = Some Obj_ALREADY_HAVE_PROVIDER then [Topic_PROVIDER_SATISFACTION] else []) @ missing) of
          [] \<Rightarrow> (None, None)
        | [a] \<Rightarrow> (Some a, None)
        | a # b # _ \<Rightarrow> (Some a, if pbc_ambiguity (pin_context v) then Some b else None))"

definition pitch_of ::
  "playbook_input \<Rightarrow> playbook \<Rightarrow> discovery_topic option \<Rightarrow> objection_guidance option \<Rightarrow> pitch_readiness \<times> consultant_step" where
  "pitch_of v p question objection =
     (if busy_now (pin_prospect v) then (Pitch_DISCOVERY_REQUIRED, CStep_CLARIFY)
      else if objection \<noteq> None then (Pitch_EDUCATION, CStep_CLARIFY)
      else if question \<noteq> None then (Pitch_DISCOVERY_REQUIRED, CStep_UNDERSTAND)
      else if (pbk_buying p \<inter> pbc_buying (pin_context v) \<noteq> {}
               \<or> (\<exists>g \<in> set_option (pin_guidance v). gd_interest g = Int_STRONG \<or> gd_interest g = Int_BUYING_SIGNAL))
             \<and> pb_impact (pin_problem v) \<noteq> None
        then (Pitch_READY_FOR_MICRO_COMMITMENT, CStep_MICRO_COMMITMENT)
      else if pb_impact (pin_problem v) \<noteq> None then (Pitch_VALUE_DISCUSSION, CStep_RELATE)
      else if meaningful (pin_problem v) then (Pitch_EDUCATION, CStep_EDUCATE)
      else (Pitch_DISCOVERY_COMPLETE, CStep_RECOMMEND))"

definition objection_guidance_for :: "playbook \<Rightarrow> objection_type option \<Rightarrow> objection_guidance option" where
  "objection_guidance_for p objection = (case objection of
       None \<Rightarrow> None
     | Some ob \<Rightarrow>
         if ob = Obj_NONE then None
         else case List.find (\<lambda>g. og_objection g = ob) (pbk_objections p) of
           Some g \<Rightarrow> Some g
         | None \<Rightarrow> Some (
             if ob = Obj_ALREADY_HAVE_PROVIDER then \<lparr>og_objection = ob, og_acknowledgement = Ack_ACKNOWLEDGE_EXISTING_CHOICE,
               og_clarification = Clar_CLARIFY_CURRENT_SATISFACTION, og_education = Edu_EXPLAIN_OPTIMIZATION_PATH\<rparr>
             else if ob = Obj_NO_TIME \<or> ob = Obj_BAD_TIMING then \<lparr>og_objection = ob, og_acknowledgement = Ack_ACKNOWLEDGE_CONSTRAINT,
               og_clarification = Clar_CLARIFY_TIMING, og_education = Edu_DEFER_EDUCATION\<rparr>
             else if ob = Obj_PRICE then \<lparr>og_objection = ob, og_acknowledgement = Ack_ACKNOWLEDGE_CONSTRAINT,
               og_clarification = Clar_CLARIFY_BUDGET_CONTEXT, og_education = Edu_EXPLAIN_RELEVANT_OUTCOME\<rparr>
             else \<lparr>og_objection = ob, og_acknowledgement = Ack_ACKNOWLEDGE_UNCERTAINTY,
               og_clarification = Clar_CLARIFY_CONCERN, og_education = Edu_EXPLAIN_WITH_APPROVED_EVIDENCE\<rparr>))"

definition future_opportunities ::
  "playbook_input \<Rightarrow> playbook \<Rightarrow> (playbook \<times> business_situation list) list \<Rightarrow> str list" where
  "future_opportunities v selected cs =
     take 3 (filter (\<lambda>i. i \<in> pin_eligible v
         \<and> i \<notin> pin_discussed v \<union> pbc_existing (pin_context v) \<union> {pbk_service_id selected})
       (uniq (map (\<lambda>c. pbk_service_id (fst c)) (tl cs) @ pbk_future selected)))"

definition no_opportunity :: "opportunity res" where
  "no_opportunity = mk_opportunity \<lparr>opp_service = None, opp_situations = [], opp_readiness = Pitch_NO_FIT,
     opp_step = CStep_GRACEFUL_END, opp_primary = None, opp_secondary = None, opp_objection = None,
     opp_benefits = [], opp_future = [], opp_restrictions = MANDATORY_RESTRICTIONS, opp_existing = False\<rparr>"

definition validate_opportunity :: "opportunity \<Rightarrow> playbook_input \<Rightarrow> opportunity res" where
  "validate_opportunity g v =
     rbind (guard (\<forall>s \<in> set_option (opp_service g). s \<in> pin_eligible v) ValueError) (\<lambda>_.
     rbind (guard (\<forall>s \<in> set (opp_future g). s \<in> pin_eligible v) ValueError) (\<lambda>_.
     rbind (guard (\<not> (opp_secondary g \<noteq> None \<and> \<not> pbc_ambiguity (pin_context v))) ValueError) (\<lambda>_.
     rbind (guard (MANDATORY_RESTRICTIONS \<subseteq> opp_restrictions g) ValueError) (\<lambda>_.
     rbind (guard (\<not> (opp_existing g \<and> opp_service g \<notin> Some ` pbc_existing (pin_context v))) ValueError) (\<lambda>_.
     rbind (guard (\<not> (opp_readiness g = Pitch_NO_FIT
         \<and> (opp_service g \<noteq> None \<or> opp_primary g \<noteq> None \<or> opp_future g \<noteq> []))) ValueError) (\<lambda>_. Inr g))))))"

definition evaluate_playbooks :: "playbook_input \<Rightarrow> opportunity res" where
  "evaluate_playbooks v =
     (if pbc_no_fit (pin_context v) \<or> map_option ov_value (psm_interested (pin_prospect v)) = Some False
      then rbind no_opportunity (\<lambda>g. validate_opportunity g v)
      else case candidates v of
          [] \<Rightarrow> rbind no_opportunity (\<lambda>g. validate_opportunity g v)
        | (selected, matched) # _ \<Rightarrow>
            let objection = map_option ov_value (psm_explicit_objection (pin_prospect v));
                advice = objection_guidance_for selected objection;
                missing = filter (\<lambda>t. t \<notin> pbc_known_topics (pin_context v)) (pbk_topics selected);
                questions = playbook_questions v missing objection;
                pitch = pitch_of v selected (fst questions) advice in
            rbind (mk_opportunity \<lparr>opp_service = Some (pbk_service_id selected), opp_situations = matched,
              opp_readiness = fst pitch, opp_step = snd pitch, opp_primary = fst questions,
              opp_secondary = snd questions, opp_objection = advice,
              opp_benefits = sort_key benefit_value (filter (\<lambda>b. b \<in> pbk_benefits selected) all_benefit),
              opp_future = future_opportunities v selected (candidates v),
              opp_restrictions = pbk_restrictions selected \<union> {PRes_NO_PRESSURE_LANGUAGE},
              opp_existing = (pbk_service_id selected \<in> pbc_existing (pin_context v))\<rparr>)
              (\<lambda>g. validate_opportunity g v))"

section \<open>What the processor remembers\<close>

text \<open>
  A turn off the normal path has no guidance (\<open>None\<close>) and clears the one of the turn before; a
  question counts as asked when the response plan asks one.
\<close>

record cognition_state =
  cst_recent :: "problem_field list"
  cst_prior :: "guidance option"

definition cognition_turn :: "cognition_input option \<Rightarrow> bool \<Rightarrow> cognition_state \<Rightarrow> guidance option res \<times> cognition_state" where
  "cognition_turn input asks s = (case input of
       None \<Rightarrow> (Inr None, s\<lparr>cst_prior := None\<rparr>)
     | Some v \<Rightarrow>
         (case rbind (mk_cognition_input (v\<lparr>sci_recent := cst_recent s, sci_prior := cst_prior s\<rparr>)) evaluate_cognition of
            Inl x \<Rightarrow> (Inl x, s)
          | Inr g \<Rightarrow> (Inr (Some g), \<lparr>cst_recent = (case gd_question_focus g of
                Some f \<Rightarrow> if asks then last_n 4 (cst_recent s @ [f]) else cst_recent s
              | None \<Rightarrow> cst_recent s), cst_prior = Some g\<rparr>)))"

section \<open>One question at a time, and none twice in a row\<close>

lemma set_map_filter_id: "f \<in> set (List.map_filter id xs) \<longleftrightarrow> Some f \<in> set xs"
  by (induction xs) (auto simp: List.map_filter_def split: option.splits)

lemma question_focus_Some:
  "question_focus v = Some f \<Longrightarrow> Some f \<in> set (question_candidates v) \<and> f \<notin> set (sci_recent v)"
  using find_Some_in unfolding question_focus_def by (metis (no_types, lifting) set_map_filter_id)

lemma question_focus_None:
  "question_focus v = None \<Longrightarrow> Some f \<in> set (question_candidates v) \<Longrightarrow> f \<in> set (sci_recent v)"
  by (auto simp: question_focus_def find_None_iff set_map_filter_id)

lemma priority_of_focus_NONE: "priority_of_focus f = QPri_NONE \<longleftrightarrow> f = None"
  by (cases f rule: priority_of_focus.cases) auto

definition asked_next_step :: "cognition_input \<Rightarrow> bool" where
  "asked_next_step v \<longleftrightarrow>
     map_option ov_value (psm_explicit_next_step (sci_prospect v)) \<in> {Some NS_DEMO, Some NS_HUMAN_FOLLOW_UP, Some NS_CALLBACK}"

definition objecting :: "cognition_input \<Rightarrow> bool" where
  "objecting v \<longleftrightarrow> understood_objection v \<noteq> OU_NONE \<and> understood_objection v \<noteq> OU_UNKNOWN"

definition interested_now :: "cognition_input \<Rightarrow> bool option" where
  "interested_now v = map_option ov_value (psm_interested (sci_prospect v))"

text \<open>What the guidance of a turn promises.\<close>

definition restrained :: "cognition_input \<Rightarrow> guidance \<Rightarrow> bool" where
  "restrained v g \<longleftrightarrow>
     (case gd_question_focus g of
        Some f \<Rightarrow> Some f \<in> set (question_candidates v) \<and> f \<notin> set (sci_recent v)
      | None \<Rightarrow> \<forall>f. Some f \<in> set (question_candidates v) \<longrightarrow> f \<in> set (sci_recent v))
     \<and> gd_max_primary_questions g = 1
     \<and> (gd_interest g = Int_BUYING_SIGNAL \<longleftrightarrow> asked_next_step v)
     \<and> (gd_interest g = Int_STRONG \<longrightarrow> interested_now v = Some True
          \<and> (\<exists>h. sci_prior v = Some h \<and> (gd_interest h = Int_MODERATE \<or> gd_interest h = Int_STRONG)))
     \<and> (gd_interest g = Int_NONE \<longrightarrow> interested_now v = Some False)
     \<and> (gd_buying g = BG_GRACEFUL_CLOSE \<longleftrightarrow> cgs_explicit_no_need (sci_signals v) \<or> gd_interest g = Int_NONE)
     \<and> (gd_buying g = BG_EXPLAIN_FIT \<or> gd_buying g = BG_SUGGEST_MICRO_COMMITMENT \<longrightarrow>
          sf_status (sci_fit v) = SFS_SUPPORTED_FIT \<and> \<not> objecting v)
     \<and> (gd_buying g = BG_SUGGEST_MICRO_COMMITMENT \<longrightarrow> asked_next_step v)
     \<and> (cgs_confused (sci_signals v) \<or> cgs_fatigued (sci_signals v) \<or> busy_now (sci_prospect v) \<longrightarrow>
          gd_depth g = RL_SHORT \<and> gd_pressure g \<noteq> Press_READY_TO_CONTINUE)"

lemma interest_facts:
  "interest_of v = Int_BUYING_SIGNAL \<longleftrightarrow> asked_next_step v"
  "interest_of v = Int_NONE \<Longrightarrow> interested_now v = Some False"
  "interest_of v = Int_STRONG \<Longrightarrow> interested_now v = Some True
     \<and> (\<exists>h. sci_prior v = Some h \<and> (gd_interest h = Int_MODERATE \<or> gd_interest h = Int_STRONG))"
  by (auto simp: interest_of_def asked_next_step_def interested_now_def Let_def split: if_splits)

lemma evaluate_cognition_restrained: "\<exists>g. evaluate_cognition v = Inr g \<and> restrained v g"
proof -
  let ?interest = "interest_of v" and ?objection = "understood_objection v" and ?focus = "question_focus v"
  define g where "g = \<lparr>gd_momentum = momentum_of v ?interest, gd_trust = trust_of v, gd_interest = ?interest,
        gd_readiness = readiness_of v ?interest, gd_objection = ?objection, gd_energy = energy_of v,
        gd_question_priority = priority_of_focus ?focus, gd_question_focus = ?focus,
        gd_relationship = relationship_of v, gd_pressure = pressure_of v ?interest,
        gd_curiosity = curiosity_of_focus ?focus,
        gd_role_style = style_of_role (map_option ov_value (psm_explicit_role (sci_prospect v))),
        gd_emotion = emotion_of v, gd_buying = buying_of v ?interest ?objection, gd_depth = depth_of v,
        gd_max_primary_questions = 1\<rparr>"
  have fields: "gd_interest g = ?interest" "gd_question_focus g = ?focus" "gd_buying g = buying_of v ?interest ?objection"
    "gd_depth g = depth_of v" "gd_pressure g = pressure_of v ?interest" "gd_max_primary_questions g = 1"
    by (simp_all add: g_def)
  have made: "mk_guidance g = Inr g" by (simp add: mk_guidance_def g_def priority_of_focus_NONE)
  have "validate_guidance g v = Inr g"
    using question_focus_Some [of v]
    by (auto simp: validate_guidance_def fields buying_of_def res_simps split: if_splits)
  with made have "evaluate_cognition v = Inr g" by (simp add: evaluate_cognition_def Let_def g_def)
  moreover have "case ?focus of Some f \<Rightarrow> Some f \<in> set (question_candidates v) \<and> f \<notin> set (sci_recent v)
      | None \<Rightarrow> \<forall>f. Some f \<in> set (question_candidates v) \<longrightarrow> f \<in> set (sci_recent v)"
    using question_focus_Some [of v] question_focus_None [of v] by (auto split: option.splits)
  moreover have "cgs_confused (sci_signals v) \<or> cgs_fatigued (sci_signals v) \<or> busy_now (sci_prospect v) \<longrightarrow>
      depth_of v = RL_SHORT \<and> pressure_of v ?interest \<noteq> Press_READY_TO_CONTINUE"
    by (auto simp: depth_of_def pressure_of_def Let_def)
  ultimately show ?thesis
    using interest_facts [of v]
    by (intro exI [of _ g]) (auto simp: restrained_def fields buying_of_def objecting_def)
qed

definition spaced :: "'a list \<Rightarrow> bool" where
  "spaced xs \<longleftrightarrow> (\<forall>i j. i < j \<and> j < length xs \<and> j \<le> i + 4 \<longrightarrow> xs ! i \<noteq> xs ! j)"

lemma in_last_n: "x \<in> set (last_n n xs) \<longleftrightarrow> (\<exists>i. length xs - n \<le> i \<and> i < length xs \<and> xs ! i = x)"
proof
  assume "x \<in> set (last_n n xs)"
  then obtain k where "k < length xs - (length xs - n)" "xs ! (length xs - n + k) = x"
    by (auto simp: last_n_def in_set_conv_nth)
  then show "\<exists>i. length xs - n \<le> i \<and> i < length xs \<and> xs ! i = x"
    by (intro exI [of _ "length xs - n + k"]) auto
next
  assume "\<exists>i. length xs - n \<le> i \<and> i < length xs \<and> xs ! i = x"
  then obtain i where "length xs - n \<le> i" "i < length xs" "xs ! i = x" by blast
  then show "x \<in> set (last_n n xs)"
    unfolding last_n_def in_set_conv_nth by (intro exI [of _ "i - (length xs - n)"]) auto
qed

lemma spaced_snoc: "spaced xs \<Longrightarrow> x \<notin> set (last_n 4 xs) \<Longrightarrow> spaced (xs @ [x])"
  unfolding spaced_def in_last_n by (auto simp: nth_append less_Suc_eq)

lemma last_n_snoc: "0 < n \<Longrightarrow> last_n n (last_n n xs @ [x]) = last_n n (xs @ [x])"
  by (cases "length xs < n") (auto simp: last_n_def Suc_diff_le)

text \<open>The log of the questions that were asked, beside the state.\<close>

definition cognition_step ::
  "cognition_state \<times> problem_field list \<Rightarrow> cognition_input option \<times> bool \<Rightarrow> cognition_state \<times> problem_field list" where
  "cognition_step sl e = (case cognition_turn (fst e) (snd e) (fst sl) of
       (Inr (Some g), s') \<Rightarrow> (s', snd sl @ (case gd_question_focus g of Some f \<Rightarrow> if snd e then [f] else [] | None \<Rightarrow> []))
     | (_, s') \<Rightarrow> (s', snd sl))"

definition asked_ok :: "cognition_state \<times> problem_field list \<Rightarrow> bool" where
  "asked_ok sl \<longleftrightarrow> cst_recent (fst sl) = last_n 4 (snd sl) \<and> spaced (snd sl)"

lemma cognition_turn_answers:
  assumes "length (cst_recent s) \<le> 4"
  obtains g where "evaluate_cognition (v\<lparr>sci_recent := cst_recent s, sci_prior := cst_prior s\<rparr>) = Inr g"
    "restrained (v\<lparr>sci_recent := cst_recent s, sci_prior := cst_prior s\<rparr>) g"
    "fst (cognition_turn (Some v) asks s) = Inr (Some g)"
    "cst_recent (snd (cognition_turn (Some v) asks s)) = (case gd_question_focus g of
        Some f \<Rightarrow> if asks then last_n 4 (cst_recent s @ [f]) else cst_recent s | None \<Rightarrow> cst_recent s)"
  using evaluate_cognition_restrained [of "v\<lparr>sci_recent := cst_recent s, sci_prior := cst_prior s\<rparr>"] assms that
  by (auto simp: cognition_turn_def mk_cognition_input_def)

lemma asked_ok_step: "asked_ok sl \<Longrightarrow> asked_ok (cognition_step sl e)"
proof (cases sl; cases e)
  fix s log input asks
  assume ok: "asked_ok sl" and sl: "sl = (s, log)" and e: "e = (input, asks)"
  show ?thesis
  proof (cases input)
    case None
    with ok show ?thesis by (simp add: sl e asked_ok_def cognition_step_def cognition_turn_def)
  next
    case (Some v)
    from ok have recent: "cst_recent s = last_n 4 log" "spaced log" by (simp_all add: sl asked_ok_def)
    then have "length (cst_recent s) \<le> 4" by simp
    then obtain g where g: "restrained (v\<lparr>sci_recent := cst_recent s, sci_prior := cst_prior s\<rparr>) g"
      "fst (cognition_turn (Some v) asks s) = Inr (Some g)"
      "cst_recent (snd (cognition_turn (Some v) asks s)) = (case gd_question_focus g of
        Some f \<Rightarrow> if asks then last_n 4 (cst_recent s @ [f]) else cst_recent s | None \<Rightarrow> cst_recent s)"
      by (rule cognition_turn_answers)
    then have "f \<notin> set (last_n 4 log)" if "gd_question_focus g = Some f" for f
      using that recent by (simp add: restrained_def)
    with g recent show ?thesis
      by (cases "cognition_turn (Some v) asks s"; cases "gd_question_focus g")
        (auto simp: Some sl e asked_ok_def cognition_step_def last_n_snoc spaced_snoc)
  qed
qed

definition first_turn :: cognition_state where
  "first_turn = \<lparr>cst_recent = [], cst_prior = None\<rparr>"

interpretation asked: kept cognition_step asked_ok
  by unfold_locales (rule asked_ok_step)

text \<open>
  C36. One question at a time. Over any sequence of turns the guidance is given on every
  turn of the normal path and is restrained: its one question is about something still open that
  was not asked lately; interest counts as strong only when it was already there on the turn
  before; a fit is explained, and a next step suggested, only when the fit is supported and
  nobody objects, the latter only when the prospect named a next step; somebody without need
  or interest is let go; somebody busy, tired or confused is neither pressed nor lectured. No
  question is asked again within the next four questions.
\<close>

theorem questions_are_spaced:
  fixes events :: "(cognition_input option \<times> bool) list"
  defines "run \<equiv> foldl cognition_step (first_turn, []) events"
  shows "spaced (snd run) \<and> (\<exists>g. evaluate_cognition (v\<lparr>sci_recent := cst_recent (fst run), sci_prior := cst_prior (fst run)\<rparr>) = Inr g
      \<and> restrained (v\<lparr>sci_recent := cst_recent (fst run), sci_prior := cst_prior (fst run)\<rparr>) g
      \<and> fst (cognition_turn (Some v) asks (fst run)) = Inr (Some g))"
proof -
  have "asked_ok (first_turn, [])" by (simp add: asked_ok_def first_turn_def last_n_def spaced_def)
  then have ok: "asked_ok run" unfolding run_def by (rule asked.run_keeps)
  then have "length (cst_recent (fst run)) \<le> 4" by (simp add: asked_ok_def)
  then obtain g where "evaluate_cognition (v\<lparr>sci_recent := cst_recent (fst run), sci_prior := cst_prior (fst run)\<rparr>) = Inr g"
    "restrained (v\<lparr>sci_recent := cst_recent (fst run), sci_prior := cst_prior (fst run)\<rparr>) g"
    "fst (cognition_turn (Some v) asks (fst run)) = Inr (Some g)"
    by (rule cognition_turn_answers)
  with ok show ?thesis by (auto simp: asked_ok_def)
qed

section \<open>Only what fits is sold\<close>

lemma all_situation_complete [simp]: "s \<in> set all_situation"
  by (cases s) (simp_all add: all_situation_def)

lemma distinct_all_benefit [simp]: "distinct all_benefit"
  by (simp add: all_benefit_def)

lemma set_matched_situations [simp]:
  "set (matched_situations p v) = pbk_solved p \<inter> pbc_situations (pin_context v)"
  by (auto simp: matched_situations_def)

lemma is_candidate_iff: "is_candidate v p \<longleftrightarrow> pbk_service_id p \<in> pin_eligible v
    \<and> (pbk_industries p = {} \<or> pbc_industry (pin_context v) \<in> pbk_industries p)
    \<and> pbk_solved p \<inter> pbc_situations (pin_context v) \<noteq> {}"
  by (auto simp: is_candidate_def set_empty [symmetric] simp del: set_empty)

lemma candidates_set: "set (candidates v) = (\<lambda>p. (p, matched_situations p v)) ` {p \<in> set (pin_playbooks v). is_candidate v p}"
  by (auto simp: candidates_def)

lemma candidates_Cons:
  assumes "candidates v = (p, matched) # rest"
  shows "p \<in> set (pin_playbooks v)" "is_candidate v p" "matched = matched_situations p v"
    "\<And>q. q \<in> set (pin_playbooks v) \<Longrightarrow> is_candidate v q \<Longrightarrow>
       candidate_key v (p, matched) \<le> candidate_key v (q, matched_situations q v)"
proof -
  have "(p, matched) \<in> set (candidates v)" by (simp add: assms)
  then show "p \<in> set (pin_playbooks v)" "is_candidate v p" "matched = matched_situations p v"
    by (auto simp: candidates_set)
  fix q assume "q \<in> set (pin_playbooks v)" "is_candidate v q"
  then have "(q, matched_situations q v) \<in> set (candidates v)" by (auto simp: candidates_set)
  moreover have "sorted (map (candidate_key v) (candidates v))" by (simp add: candidates_def)
  ultimately show "candidate_key v (p, matched) \<le> candidate_key v (q, matched_situations q v)"
    by (auto simp: assms)
qed

text \<open>The better opportunity: the higher score, then the smaller priority number, then the smaller identifier.\<close>

definition at_least_as_good :: "playbook_input \<Rightarrow> playbook \<Rightarrow> playbook \<Rightarrow> bool" where
  "at_least_as_good v p q \<longleftrightarrow>
     (let a = opportunity_score p (matched_situations p v) v; b = opportunity_score q (matched_situations q v) v in
      b < a \<or> a = b \<and> (pbk_priority p < pbk_priority q \<or> pbk_priority p = pbk_priority q \<and> pbk_service_id p \<le> pbk_service_id q))"

lemma candidate_key_le:
  "candidate_key v (p, matched_situations p v) \<le> candidate_key v (q, matched_situations q v) \<longleftrightarrow> at_least_as_good v p q"
  by (auto simp: candidate_key_def at_least_as_good_def Let_def less_eq_prod_def)

text \<open>Questions are about topics of the playbook the business has not talked about, or about the present provider.\<close>

definition questions_ok :: "playbook_input \<Rightarrow> playbook \<Rightarrow> opportunity \<Rightarrow> bool" where
  "questions_ok v p g \<longleftrightarrow>
     (let open_topics = {t. t \<in> set (pbk_topics p) \<and> t \<notin> pbc_known_topics (pin_context v)}
          \<union> {t. t = Topic_PROVIDER_SATISFACTION \<and> map_option ov_value (psm_explicit_objection (pin_prospect v)) = Some Obj_ALREADY_HAVE_PROVIDER} in
      set_option (opp_primary g) \<union> set_option (opp_secondary g) \<subseteq> open_topics
      \<and> (opp_primary g = None \<longleftrightarrow> busy_now (pin_prospect v) \<or> open_topics = {})
      \<and> (opp_secondary g \<noteq> None \<longrightarrow> pbc_ambiguity (pin_context v) \<and> opp_primary g \<noteq> None \<and> opp_primary g \<noteq> opp_secondary g))"

definition future_ok :: "playbook_input \<Rightarrow> str \<Rightarrow> str list \<Rightarrow> bool" where
  "future_ok v s ids \<longleftrightarrow> length ids \<le> 3 \<and> distinct ids
     \<and> set ids \<subseteq> pin_eligible v - pin_discussed v - pbc_existing (pin_context v) - {s}"

lemma future_opportunities_ok: "future_ok v (pbk_service_id p) (future_opportunities v p cs)"
proof -
  define P where "P = (\<lambda>i. i \<in> pin_eligible v
      \<and> i \<notin> pin_discussed v \<union> pbc_existing (pin_context v) \<union> {pbk_service_id p})"
  define xs where "xs = filter P (uniq (map (\<lambda>c. pbk_service_id (fst c)) (tl cs) @ pbk_future p))"
  have "distinct xs" "set xs \<subseteq> Collect P" by (auto simp: xs_def)
  then have "distinct (take 3 xs)" "set (take 3 xs) \<subseteq> Collect P" using set_take_subset [of 3 xs] by auto
  moreover have "future_opportunities v p cs = take 3 xs" by (simp add: future_opportunities_def xs_def P_def)
  ultimately show ?thesis by (auto simp: future_ok_def P_def)
qed

lemma uniq_split:
  "uniq xs = [] \<Longrightarrow> xs = []"
  "uniq xs = a # ys \<Longrightarrow> a \<in> set xs \<and> set ys \<subseteq> set xs \<and> a \<notin> set ys"
proof -
  show "uniq xs = [] \<Longrightarrow> xs = []" using uniq_simps(1) [of xs] by simp
  show "uniq xs = a # ys \<Longrightarrow> a \<in> set xs \<and> set ys \<subseteq> set xs \<and> a \<notin> set ys"
    using uniq_simps(1,2) [of xs] by auto
qed

lemma playbook_questions_ok:
  fixes v p
  defines "missing \<equiv> filter (\<lambda>t. t \<notin> pbc_known_topics (pin_context v)) (pbk_topics p)"
    and "objection \<equiv> map_option ov_value (psm_explicit_objection (pin_prospect v))"
  assumes "opp_primary g = fst (playbook_questions v missing objection)" "opp_secondary g = snd (playbook_questions v missing objection)"
  shows "questions_ok v p g"
proof -
  define topics where "topics = (if objection = Some Obj_ALREADY_HAVE_PROVIDER then [Topic_PROVIDER_SATISFACTION] else []) @ missing"
  have set_topics: "set topics = {t. t \<in> set (pbk_topics p) \<and> t \<notin> pbc_known_topics (pin_context v)}
          \<union> {t. t = Topic_PROVIDER_SATISFACTION \<and> objection = Some Obj_ALREADY_HAVE_PROVIDER}"
    by (auto simp: topics_def missing_def)
  have asked: "playbook_questions v missing objection = (if busy_now (pin_prospect v) then (None, None)
      else case uniq topics of [] \<Rightarrow> (None, None) | [a] \<Rightarrow> (Some a, None)
        | a # b # _ \<Rightarrow> (Some a, if pbc_ambiguity (pin_context v) then Some b else None))"
    by (simp only: playbook_questions_def topics_def)
  have "questions_ok v p g \<longleftrightarrow> set_option (opp_primary g) \<union> set_option (opp_secondary g) \<subseteq> set topics
      \<and> (opp_primary g = None \<longleftrightarrow> busy_now (pin_prospect v) \<or> set topics = {})
      \<and> (opp_secondary g \<noteq> None \<longrightarrow> pbc_ambiguity (pin_context v) \<and> opp_primary g \<noteq> None \<and> opp_primary g \<noteq> opp_secondary g)"
    by (simp only: questions_ok_def Let_def set_topics objection_def)
  moreover have "\<dots>"
  proof (cases "uniq topics")
    case Nil
    then show ?thesis using uniq_split(1) [OF Nil] assms(3,4) by (simp add: asked)
  next
    case (Cons a ys)
    from uniq_split(2) [OF this] Cons assms(3,4) show ?thesis
      by (cases ys) (auto simp: asked)
  qed
  ultimately show ?thesis by blast
qed

lemma identifier_of_playbook: "mk_playbook q = Inr p \<Longrightarrow> identifier_ok (pbk_service_id p) \<and> MANDATORY_RESTRICTIONS \<subseteq> pbk_restrictions p"
  by (auto simp: mk_playbook_def res_simps Let_def)

lemma no_opportunity_Inr: "\<exists>g. rbind no_opportunity (\<lambda>g. validate_opportunity g v) = Inr g \<and> opp_service g = None
    \<and> opp_readiness g = Pitch_NO_FIT \<and> opp_primary g = None \<and> opp_secondary g = None \<and> opp_future g = []
    \<and> opp_restrictions g = MANDATORY_RESTRICTIONS"
  by (simp add: no_opportunity_def mk_opportunity_def validate_opportunity_def)

definition sells_nothing :: "opportunity \<Rightarrow> bool" where
  "sells_nothing g \<longleftrightarrow> opp_service g = None \<and> opp_readiness g = Pitch_NO_FIT \<and> opp_primary g = None
     \<and> opp_secondary g = None \<and> opp_future g = []"

definition sells :: "playbook_input \<Rightarrow> playbook \<Rightarrow> opportunity \<Rightarrow> bool" where
  "sells v p g \<longleftrightarrow> opp_service g = Some (pbk_service_id p)
     \<and> set (opp_situations g) = pbk_solved p \<inter> pbc_situations (pin_context v)
     \<and> questions_ok v p g \<and> future_ok v (pbk_service_id p) (opp_future g)
     \<and> (opp_existing g \<longleftrightarrow> pbk_service_id p \<in> pbc_existing (pin_context v))
     \<and> (opp_readiness g = Pitch_READY_FOR_MICRO_COMMITMENT \<longrightarrow>
          \<not> busy_now (pin_prospect v) \<and> opp_objection g = None \<and> opp_primary g = None \<and> pb_impact (pin_problem v) \<noteq> None)"

lemma pitch_ready: "fst (pitch_of v p question objection) = Pitch_READY_FOR_MICRO_COMMITMENT \<Longrightarrow>
    \<not> busy_now (pin_prospect v) \<and> objection = None \<and> question = None \<and> pb_impact (pin_problem v) \<noteq> None"
  by (auto simp: pitch_of_def split: if_splits)

lemma pitch_not_no_fit: "fst (pitch_of v p question objection) \<noteq> Pitch_NO_FIT"
  by (auto simp: pitch_of_def split: if_splits)

lemma selected_opportunity:
  assumes made: "mk_playbook q = Inr p" and eligible: "\<forall>i \<in> pin_eligible v. identifier_ok i"
    and open_sale: "\<not> (pbc_no_fit (pin_context v) \<or> map_option ov_value (psm_interested (pin_prospect v)) = Some False)"
    and best: "candidates v = (p, matched) # rest"
  shows "\<exists>g. evaluate_playbooks v = Inr g \<and> sells v p g \<and> MANDATORY_RESTRICTIONS \<subseteq> opp_restrictions g"
proof -
  define objection where "objection = map_option ov_value (psm_explicit_objection (pin_prospect v))"
  define missing where "missing = filter (\<lambda>t. t \<notin> pbc_known_topics (pin_context v)) (pbk_topics p)"
  define questions where "questions = playbook_questions v missing objection"
  define pitch where "pitch = pitch_of v p (fst questions) (objection_guidance_for p objection)"
  define g where "g = \<lparr>opp_service = Some (pbk_service_id p), opp_situations = matched,
              opp_readiness = fst pitch, opp_step = snd pitch, opp_primary = fst questions,
              opp_secondary = snd questions, opp_objection = objection_guidance_for p objection,
              opp_benefits = sort_key benefit_value (filter (\<lambda>b. b \<in> pbk_benefits p) all_benefit),
              opp_future = future_opportunities v p (candidates v),
              opp_restrictions = pbk_restrictions p \<union> {PRes_NO_PRESSURE_LANGUAGE},
              opp_existing = (pbk_service_id p \<in> pbc_existing (pin_context v))\<rparr>"
  note selected = candidates_Cons [OF best]
  have candidate: "pbk_service_id p \<in> pin_eligible v" using selected(2) by (simp add: is_candidate_def)
  have future: "future_ok v (pbk_service_id p) (opp_future g)" by (simp add: g_def future_opportunities_ok)
  have asked: "questions_ok v p g"
    by (rule playbook_questions_ok) (simp_all add: g_def questions_def missing_def objection_def)
  note made = identifier_of_playbook [OF made]
  have "mk_opportunity g = Inr g"
  proof -
    have "\<not> (opp_primary g \<noteq> None \<and> opp_primary g = opp_secondary g)" "\<not> (opp_secondary g \<noteq> None \<and> opp_primary g = None)"
      using asked by (auto simp: questions_ok_def Let_def)
    moreover have "\<not> length (opp_future g) > 3" "distinct (opp_future g)" "\<forall>i \<in> set (opp_future g). identifier_ok i"
      using future eligible by (auto simp: future_ok_def)
    moreover have "\<forall>s \<in> set_option (opp_service g). identifier_ok s" "distinct (opp_benefits g)" "opp_service g \<noteq> None"
      using made by (simp_all add: g_def)
    ultimately show ?thesis unfolding mk_opportunity_def by simp
  qed
  moreover have "validate_opportunity g v = Inr g"
  proof -
    have "opp_readiness g \<noteq> Pitch_NO_FIT" by (simp add: g_def pitch_def pitch_not_no_fit)
    moreover have "\<forall>s \<in> set (opp_future g). s \<in> pin_eligible v" using future by (auto simp: future_ok_def)
    moreover have "\<not> (opp_secondary g \<noteq> None \<and> \<not> pbc_ambiguity (pin_context v))"
      using asked by (auto simp: questions_ok_def Let_def)
    moreover have "MANDATORY_RESTRICTIONS \<subseteq> opp_restrictions g" using made by (auto simp: g_def)
    moreover have "\<not> (opp_existing g \<and> opp_service g \<notin> Some ` pbc_existing (pin_context v))" by (simp add: g_def)
    moreover have "\<forall>s \<in> set_option (opp_service g). s \<in> pin_eligible v" using candidate by (simp add: g_def)
    ultimately show ?thesis unfolding validate_opportunity_def by simp
  qed
  moreover have "evaluate_playbooks v = rbind (mk_opportunity g) (\<lambda>g. validate_opportunity g v)"
    by (simp only: evaluate_playbooks_def if_not_P [OF open_sale] best list.case prod.case Let_def
        g_def pitch_def questions_def missing_def objection_def)
  ultimately have "evaluate_playbooks v = Inr g" by simp
  moreover have "sells v p g"
    using asked future pitch_ready [of v p "fst questions" "objection_guidance_for p objection"] selected(3)
    by (auto simp: sells_def g_def pitch_def)
  moreover have "MANDATORY_RESTRICTIONS \<subseteq> opp_restrictions g" using made by (auto simp: g_def)
  ultimately show ?thesis by blast
qed


definition website_playbook :: playbook where
  "website_playbook = \<lparr>pbk_service_id = ''web'', pbk_name = ''Web'', pbk_category = ''sites'',
     pbk_description = ''Sites'', pbk_industries = {''retail''}, pbk_solved = {Sit_NO_ONLINE_PRESENCE},
     pbk_topics = [Topic_CURRENT_WEBSITE, Topic_BUSINESS_GOAL], pbk_qualification = {}, pbk_buying = {},
     pbk_objections = [], pbk_benefits = {Ben_VISIBILITY}, pbk_future = [''seo''], pbk_restrictions = MANDATORY_RESTRICTIONS,
     pbk_priority = 100\<rparr>"

definition shop :: playbook_input where
  "shop = \<lparr>pin_context = \<lparr>pbc_industry = ''retail'', pbc_situations = {Sit_NO_ONLINE_PRESENCE},
       pbc_known_topics = {Topic_CURRENT_WEBSITE}, pbc_qualification = {}, pbc_buying = {}, pbc_existing = {},
       pbc_no_fit = False, pbc_ambiguity = False\<rparr>,
     pin_playbooks = [website_playbook], pin_eligible = {''web'', ''seo''},
     pin_prospect = projr (to_brain_summary empty_prospect), pin_problem = no_problem, pin_guidance = None, pin_discussed = {}\<rparr>"


text \<open>
  The topics already known are never asked again, but the question about the present provider is:
  it is put in front whatever is known.
\<close>

lemma provider_question_repeats:
  assumes "psm_explicit_objection (pin_prospect v) = Some ob" "ov_value ob = Obj_ALREADY_HAVE_PROVIDER"
    and "\<not> busy_now (pin_prospect v)" and "opp_service g = Some s" and "evaluate_playbooks v = Inr g"
  shows "opp_primary g = Some Topic_PROVIDER_SATISFACTION"
proof -
  have first: "uniq (x # xs) = x # uniq (filter (\<lambda>y. y \<noteq> x) xs)" for x :: discovery_topic and xs
    by (induction xs rule: rev_induct) (auto simp: uniq_def)
  have "fst (playbook_questions v missing (Some Obj_ALREADY_HAVE_PROVIDER)) = Some Topic_PROVIDER_SATISFACTION" for missing
    using assms(3) by (simp add: playbook_questions_def first split: list.splits)
  then show ?thesis
    using assms by (auto simp: evaluate_playbooks_def mk_opportunity_def validate_opportunity_def no_opportunity_def
        Let_def res_simps split: if_splits list.splits prod.splits)
qed

end
