(* ===== verification/Outcome.thy ===== *)
theory Outcome
  imports SalesRuntime Business Cognition
begin

text \<open>
  \<^verbatim>\<open>runtime/chat/outcome\<close>: what a finished conversation means for the lead, and the composition with
  the state of the processor and the store in \<^verbatim>\<open>PersistentSalesRuntime.finish_session\<close>.
\<close>

section \<open>The outcome\<close>

datatype outcome_status =
    OS_INTERESTED | OS_NOT_INTERESTED | OS_DNC | OS_FOLLOW_UP | OS_NO_FIT |
    OS_NEEDS_MORE_INFORMATION | OS_COMPLETED_NO_COMMITMENT | OS_UNKNOWN

fun outcome_value :: "outcome_status \<Rightarrow> str" where
  "outcome_value OS_INTERESTED = ''interested''"
| "outcome_value OS_NOT_INTERESTED = ''not_interested''"
| "outcome_value OS_DNC = ''dnc''"
| "outcome_value OS_FOLLOW_UP = ''follow_up''"
| "outcome_value OS_NO_FIT = ''no_fit''"
| "outcome_value OS_NEEDS_MORE_INFORMATION = ''needs_more_information''"
| "outcome_value OS_COMPLETED_NO_COMMITMENT = ''completed_no_commitment''"
| "outcome_value OS_UNKNOWN = ''unknown''"

datatype execution_status =
    ES_COMPLETED | ES_FAILED

datatype interest_level =
    IntL_EXPLICIT_INTEREST | IntL_POSSIBLE_INTEREST | IntL_NO_INTEREST | IntL_UNKNOWN

fun interest_level_value :: "interest_level \<Rightarrow> str" where
  "interest_level_value IntL_EXPLICIT_INTEREST = ''explicit_interest''"
| "interest_level_value IntL_POSSIBLE_INTEREST = ''possible_interest''"
| "interest_level_value IntL_NO_INTEREST = ''no_interest''"
| "interest_level_value IntL_UNKNOWN = ''unknown''"

datatype dnc_status =
    DS_NOT_DNC | DS_DNC_CONFIRMED

datatype decision_maker_status =
    DM_CONFIRMED | DM_NOT_DECISION_MAKER | DM_UNKNOWN

fun decision_maker_value :: "decision_maker_status \<Rightarrow> str" where
  "decision_maker_value DM_CONFIRMED = ''confirmed''"
| "decision_maker_value DM_NOT_DECISION_MAKER = ''not_decision_maker''"
| "decision_maker_value DM_UNKNOWN = ''unknown''"

datatype follow_up_need =
    FUN_NEEDED | FUN_NOT_NEEDED | FUN_UNKNOWN

datatype termination_reason =
    TR_NATURAL_COMPLETION | TR_DNC_REQUEST | TR_NOT_INTERESTED_EXIT | TR_BUDGET_EXHAUSTED |
    TR_MANUAL_TERMINATION | TR_RUNTIME_ERROR | TR_UNKNOWN

datatype field_confidence =
    FC_OBSERVED | FC_INFERRED | FC_UNKNOWN

record identified_problem =
  ip_description :: str
  ip_confidence :: field_confidence

definition mk_identified_problem :: "str \<Rightarrow> field_confidence \<Rightarrow> identified_problem res" where
  "mk_identified_problem description confidence =
     rbind (guard (\<not> blank description) ValueError) (\<lambda>_.
     rbind (guard (\<not> length description > 200) ValueError) (\<lambda>_.
     Inr \<lparr>ip_description = description, ip_confidence = confidence\<rparr>))"

record relevant_service =
  rs_service_id :: str
  rs_match_reason :: str
  rs_confidence :: field_confidence

definition mk_relevant_service :: "str \<Rightarrow> str \<Rightarrow> field_confidence \<Rightarrow> relevant_service res" where
  "mk_relevant_service sid reason confidence =
     rbind (guard (\<not> blank sid) ValueError) (\<lambda>_.
     rbind (guard (\<not> blank reason) ValueError) (\<lambda>_.
     rbind (guard (\<not> length reason > 200) ValueError) (\<lambda>_.
     Inr \<lparr>rs_service_id = sid, rs_match_reason = reason, rs_confidence = confidence\<rparr>)))"

record recorded_objection =
  ro_type :: str
  ro_confidence :: field_confidence

definition mk_recorded_objection :: "str \<Rightarrow> field_confidence \<Rightarrow> recorded_objection res" where
  "mk_recorded_objection t confidence =
     rbind (guard (\<not> blank t) ValueError) (\<lambda>_. Inr \<lparr>ro_type = t, ro_confidence = confidence\<rparr>)"

text \<open>A line of the summary: a label and a value.\<close>

type_synonym summary_line = "str \<times> str"

definition mk_summary_line :: "str \<Rightarrow> str \<Rightarrow> summary_line res" where
  "mk_summary_line label val =
     rbind (guard (\<not> blank label) ValueError) (\<lambda>_.
     rbind (guard (\<not> blank val) ValueError) (\<lambda>_.
     rbind (guard (\<not> length label > 60) ValueError) (\<lambda>_.
     rbind (guard (\<not> length val > 300) ValueError) (\<lambda>_. Inr (label, val)))))"

record lead_outcome =
  lo_lead_id :: str
  lo_campaign_id :: str
  lo_session_id :: str
  lo_tenant_id :: str
  lo_status :: outcome_status
  lo_interest :: interest_level
  lo_dnc :: dnc_status
  lo_execution :: execution_status
  lo_termination :: termination_reason
  lo_problems :: "identified_problem list"
  lo_services :: "relevant_service list"
  lo_objections :: "recorded_objection list"
  lo_decision_maker :: decision_maker_status
  lo_qualification :: "str option"
  lo_next_step :: "str option"
  lo_follow_up :: follow_up_need
  lo_questions :: "str list"
  lo_summary :: "summary_line list"

definition mk_lead_outcome :: "lead_outcome \<Rightarrow> lead_outcome res" where
  "mk_lead_outcome o1 =
     rbind (guard (\<not> blank (lo_lead_id o1)) ValueError) (\<lambda>_.
     rbind (guard (\<not> blank (lo_campaign_id o1)) ValueError) (\<lambda>_.
     rbind (guard (\<not> blank (lo_session_id o1)) ValueError) (\<lambda>_.
     rbind (guard (\<not> blank (lo_tenant_id o1)) ValueError) (\<lambda>_.
     rbind (guard (\<not> (lo_dnc o1 = DS_DNC_CONFIRMED \<and> lo_status o1 \<noteq> OS_DNC)) ValueError) (\<lambda>_.
     rbind (guard (\<not> length (lo_problems o1) > 10) ValueError) (\<lambda>_.
     rbind (guard (\<not> length (lo_services o1) > 10) ValueError) (\<lambda>_.
     rbind (guard (\<not> length (lo_objections o1) > 10) ValueError) (\<lambda>_.
     rbind (guard (\<not> length (lo_questions o1) > 10) ValueError) (\<lambda>_.
     rbind (guard (\<not> length (lo_summary o1) > 20) ValueError) (\<lambda>_. Inr o1))))))))))"

text \<open>
  The input as the resolver reads it: a source that is absent or of another type is \<open>None\<close>. Diagnosis,
  memory and offered services, which the resolver does not read, are left out.
\<close>

record outcome_input =
  oi_lead_id :: str
  oi_campaign_id :: str
  oi_session_id :: str
  oi_tenant_id :: str
  oi_is_dnc :: bool
  oi_is_not_interested :: bool
  oi_session_error :: bool
  oi_termination :: termination_reason
  oi_terminal :: bool
  oi_observed :: "observed_facts option"
  oi_inferred :: "inferred_state option"
  oi_business :: "business_snapshot option"
  oi_qualification :: "qualification_snapshot option"
  oi_playbook :: "opportunity option"

definition mk_outcome_input :: "outcome_input \<Rightarrow> outcome_input res" where
  "mk_outcome_input i =
     rbind (guard (\<not> blank (oi_lead_id i)) ValueError) (\<lambda>_.
     rbind (guard (\<not> blank (oi_session_id i)) ValueError) (\<lambda>_. Inr i))"

section \<open>The resolvers\<close>

text \<open>A field of a source that may be absent, as may the field.\<close>

definition stated_in :: "(observed_facts \<Rightarrow> 'a observed option) \<Rightarrow> outcome_input \<Rightarrow> 'a option" where
  "stated_in field i = Option.bind (oi_observed i) (\<lambda>f. map_option ov_value (field f))"

definition guessed_in :: "(inferred_state \<Rightarrow> 'a inferred option) \<Rightarrow> outcome_input \<Rightarrow> 'a option" where
  "guessed_in field i = Option.bind (oi_inferred i) (\<lambda>f. map_option iv_value (field f))"

definition dnc_of :: "outcome_input \<Rightarrow> dnc_status" where
  "dnc_of i = (if oi_is_dnc i then DS_DNC_CONFIRMED else DS_NOT_DNC)"

definition execution_of :: "outcome_input \<Rightarrow> execution_status" where
  "execution_of i = (if oi_session_error i then ES_FAILED else ES_COMPLETED)"

definition next_step_of :: "outcome_input \<Rightarrow> str option" where
  "next_step_of i = (case filter (\<lambda>s. s \<noteq> NS_UNKNOWN)
       (List.map_filter id [stated_in of_next_step i, guessed_in is_next_step i]) of
     [] \<Rightarrow> None | s # _ \<Rightarrow> Some (next_step_value s))"

definition status_of :: "outcome_input \<Rightarrow> dnc_status \<Rightarrow> outcome_status" where
  "status_of i dnc =
     (let interested = stated_in of_interest i = Some True; step = next_step_of i \<noteq> None in
      if dnc = DS_DNC_CONFIRMED then OS_DNC
      else if oi_is_not_interested i then OS_NOT_INTERESTED
      else if interested \<and> step then OS_FOLLOW_UP
      else if interested then OS_INTERESTED
      else if \<exists>g \<in> set_option (oi_playbook i). opp_service g \<noteq> None then
        (if step then OS_FOLLOW_UP else OS_NEEDS_MORE_INFORMATION)
      else if \<not> oi_terminal i then OS_UNKNOWN
      else OS_COMPLETED_NO_COMMITMENT)"

definition interest_level_of :: "outcome_input \<Rightarrow> interest_level" where
  "interest_level_of i =
     (if oi_is_dnc i \<or> oi_is_not_interested i then IntL_NO_INTEREST
      else case stated_in of_interest i of
          Some b \<Rightarrow> if b then IntL_EXPLICIT_INTEREST else IntL_NO_INTEREST
        | None \<Rightarrow> if guessed_in is_openness i = Some IL_HIGH \<or> guessed_in is_openness i = Some IL_MEDIUM
            then IntL_POSSIBLE_INTEREST else IntL_UNKNOWN)"

definition add_problem :: "identified_problem list \<Rightarrow> business_problem \<Rightarrow> identified_problem list res" where
  "add_problem acc p =
     (let description = take 200 (bp_detail p) in
      if \<exists>x \<in> set acc. ip_description x = description then Inr acc
      else rbind (mk_identified_problem description FC_OBSERVED) (\<lambda>x. Inr (acc @ [x])))"

definition problems_of :: "outcome_input \<Rightarrow> identified_problem list res" where
  "problems_of i =
     rbind (rmap (\<lambda>p. mk_identified_problem (take 200 (pp_summary p)) FC_OBSERVED)
       (case oi_observed i of None \<Rightarrow> [] | Some f \<Rightarrow> of_pains f)) (\<lambda>stated.
     rbind (rfold add_problem stated (case oi_business i of None \<Rightarrow> [] | Some b \<Rightarrow> bs_problems b)) (\<lambda>all.
     Inr (take 10 all)))"

text \<open>\<^verbatim>\<open>", ".join(xs)\<close>\<close>

fun comma_join :: "str list \<Rightarrow> str" where
  "comma_join [] = []"
| "comma_join [x] = x"
| "comma_join (x # xs) = x @ '', '' @ comma_join xs"

definition services_of :: "outcome_input \<Rightarrow> relevant_service list res" where
  "services_of i = (case oi_playbook i of
       None \<Rightarrow> Inr []
     | Some g \<Rightarrow> (case opp_service g of
           None \<Rightarrow> Inr []
         | Some sid \<Rightarrow>
             let situations = (if opp_situations g \<noteq> [] then comma_join (map situation_value (opp_situations g))
               else ''playbook match'') in
             rbind (mk_relevant_service sid (take 200 situations) FC_OBSERVED) (\<lambda>selected.
             rbind (rmap (\<lambda>f. mk_relevant_service f ''future opportunity from playbook'' FC_INFERRED)
               (filter (\<lambda>f. f \<noteq> sid) (opp_future g))) (\<lambda>future.
             Inr (take 10 (selected # future))))))"

definition objections_of :: "outcome_input \<Rightarrow> recorded_objection list res" where
  "objections_of i =
     rbind (case stated_in of_objection i of
         Some ob \<Rightarrow> if ob \<noteq> Obj_NONE then rbind (mk_recorded_objection (objection_value ob) FC_OBSERVED) (\<lambda>x. Inr [x]) else Inr []
       | None \<Rightarrow> Inr []) (\<lambda>acc.
     rbind (case guessed_in is_objection i of
         Some ob \<Rightarrow> if ob \<noteq> Obj_NONE \<and> \<not> (\<exists>x \<in> set acc. ro_type x = objection_value ob)
           then rbind (mk_recorded_objection (objection_value ob) FC_INFERRED) (\<lambda>x. Inr (acc @ [x])) else Inr acc
       | None \<Rightarrow> Inr acc) (\<lambda>all. Inr (take 10 all)))"

fun maker_status :: "decision_authority option \<Rightarrow> decision_maker_status option" where
  "maker_status (Some DA_FINAL) = Some DM_CONFIRMED"
| "maker_status (Some DA_HIGH) = Some DM_CONFIRMED"
| "maker_status (Some DA_LOW) = Some DM_NOT_DECISION_MAKER"
| "maker_status _ = None"

definition decision_maker_of :: "outcome_input \<Rightarrow> decision_maker_status" where
  "decision_maker_of i = (case maker_status (stated_in of_authority i) of
       Some s \<Rightarrow> s
     | None \<Rightarrow> (case maker_status (guessed_in is_authority i) of Some s \<Rightarrow> s | None \<Rightarrow> DM_UNKNOWN))"

definition qualification_of :: "outcome_input \<Rightarrow> str option" where
  "qualification_of i = map_option (\<lambda>q. completeness_value (qsn_completeness q)) (oi_qualification i)"

definition follow_up_of :: "outcome_input \<Rightarrow> outcome_status \<Rightarrow> str option \<Rightarrow> follow_up_need" where
  "follow_up_of i outcome step =
     (if oi_is_dnc i then FUN_NOT_NEEDED
      else if oi_is_not_interested i then FUN_NOT_NEEDED
      else if oi_session_error i then FUN_NEEDED
      else if outcome = OS_FOLLOW_UP then FUN_NEEDED
      else if step \<noteq> None then FUN_NEEDED
      else if outcome = OS_INTERESTED then FUN_NEEDED
      else if outcome = OS_NEEDS_MORE_INFORMATION then FUN_NEEDED
      else FUN_UNKNOWN)"

text \<open>
  The unknown areas are a frozen set, whose order of iteration is the parameter \<open>order\<close>. The fields
  of a qualification have neither of the attributes the second loop looks for, so it adds nothing.
\<close>

definition questions_of :: "(unknown_area set \<Rightarrow> unknown_area list) \<Rightarrow> outcome_input \<Rightarrow> str list" where
  "questions_of order i = take 10 (case oi_business i of
       None \<Rightarrow> [] | Some b \<Rightarrow> map unknown_value (order (bs_unknown_areas b)))"

definition summary_lines ::
  "outcome_status \<Rightarrow> interest_level \<Rightarrow> dnc_status \<Rightarrow> identified_problem list \<Rightarrow> relevant_service list
    \<Rightarrow> recorded_objection list \<Rightarrow> str option \<Rightarrow> decision_maker_status \<Rightarrow> str list \<Rightarrow> summary_line list res" where
  "summary_lines outcome interest dnc problems services objections step maker questions =
     rmap (\<lambda>(label, val). mk_summary_line label val)
       ([(''Outcome'', outcome_value outcome), (''Interest'', interest_level_value interest)]
        @ (if dnc = DS_DNC_CONFIRMED then [(''DNC'', ''Confirmed'')] else [])
        @ (case problems of [] \<Rightarrow> [] | p # _ \<Rightarrow> [(''Problem'', ip_description p)])
        @ (case services of [] \<Rightarrow> [] | s # _ \<Rightarrow> [(''Relevant service'', rs_service_id s)])
        @ (case objections of [] \<Rightarrow> [] | ob # _ \<Rightarrow> [(''Objection'', ro_type ob)])
        @ (if maker \<noteq> DM_UNKNOWN then [(''Decision maker'', decision_maker_value maker)] else [])
        @ (case step of None \<Rightarrow> [] | Some s \<Rightarrow> [(''Next step'', s)])
        @ (case questions of [] \<Rightarrow> [] | q # _ \<Rightarrow> [(''Outstanding question'', q)]))"

definition resolve_outcome :: "(unknown_area set \<Rightarrow> unknown_area list) \<Rightarrow> outcome_input \<Rightarrow> lead_outcome res" where
  "resolve_outcome order i =
     (let dnc = dnc_of i; outcome = status_of i dnc; interest = interest_level_of i;
          maker = decision_maker_of i; step = next_step_of i; questions = questions_of order i in
      rbind (problems_of i) (\<lambda>problems.
      rbind (services_of i) (\<lambda>services.
      rbind (objections_of i) (\<lambda>objections.
      rbind (summary_lines outcome interest dnc problems services objections step maker questions) (\<lambda>summary.
      mk_lead_outcome \<lparr>lo_lead_id = oi_lead_id i, lo_campaign_id = oi_campaign_id i, lo_session_id = oi_session_id i,
        lo_tenant_id = oi_tenant_id i, lo_status = outcome, lo_interest = interest, lo_dnc = dnc,
        lo_execution = execution_of i, lo_termination = oi_termination i, lo_problems = problems,
        lo_services = services, lo_objections = objections, lo_decision_maker = maker,
        lo_qualification = qualification_of i, lo_next_step = step, lo_follow_up = follow_up_of i outcome step,
        lo_questions = questions, lo_summary = summary\<rparr>)))))"

section \<open>Finishing a session of the persistent runtime\<close>

text \<open>What a live processor shows of its state.\<close>

record outcome_sources =
  src_observed :: "observed_facts option"
  src_inferred :: "inferred_state option"
  src_business :: "business_snapshot option"
  src_qualification :: "qualification_snapshot option"
  src_playbook :: "opportunity option"

definition no_sources :: outcome_sources where
  "no_sources = \<lparr>src_observed = None, src_inferred = None, src_business = None, src_qualification = None,
     src_playbook = None\<rparr>"

definition sources_of ::
  "(('cov, 'rest) processor \<Rightarrow> outcome_sources) \<Rightarrow> ('cov, 'rest) sales_runtime \<Rightarrow> str \<Rightarrow> outcome_sources" where
  "sources_of show_sources rt sid = (case dget (srt_processors rt) sid of
       None \<Rightarrow> no_sources | Some proc \<Rightarrow> show_sources proc)"

definition outcome_input_for ::
  "str \<Rightarrow> planned_session \<Rightarrow> outcome_sources \<Rightarrow> bool \<Rightarrow> bool \<Rightarrow> bool \<Rightarrow> termination_reason \<Rightarrow> outcome_input" where
  "outcome_input_for sid s src is_dnc is_not_interested session_error reason =
     \<lparr>oi_lead_id = cse_lead_id s, oi_campaign_id = cse_campaign_id s, oi_session_id = sid,
      oi_tenant_id = cse_tenant_id s, oi_is_dnc = is_dnc, oi_is_not_interested = is_not_interested,
      oi_session_error = session_error, oi_termination = reason, oi_terminal = True,
      oi_observed = src_observed src, oi_inferred = src_inferred src, oi_business = src_business src,
      oi_qualification = src_qualification src, oi_playbook = src_playbook src\<rparr>"

record lifecycle_end =
  le_session :: planned_session
  le_outcome :: lead_outcome
  le_execution :: execution_status

definition finish_session ::
  "(unknown_area set \<Rightarrow> unknown_area list) \<Rightarrow> (('cov, 'rest) processor \<Rightarrow> outcome_sources) \<Rightarrow> ('cov, 'rest) sales_runtime
    \<Rightarrow> str \<Rightarrow> bool \<Rightarrow> bool \<Rightarrow> bool \<Rightarrow> termination_reason \<Rightarrow> lifecycle_end res \<times> ('cov, 'rest) sales_runtime" where
  "finish_session order show_sources rt sid is_dnc is_not_interested session_error reason =
     (case rbind (sq_get (srt_db rt) sid) (\<lambda>s.
           rbind (mk_outcome_input (outcome_input_for sid s (sources_of show_sources rt sid) is_dnc is_not_interested
             session_error reason)) (\<lambda>i.
           rbind (resolve_outcome order i) (\<lambda>outcome. Inr (s, outcome)))) of
        Inl e \<Rightarrow> (Inl e, rt)
      | Inr (s, outcome) \<Rightarrow>
          (case close_session (srt_db rt) s is_dnc session_error of
             (Inl e, db) \<Rightarrow> (Inl e, rt\<lparr>srt_db := db\<rparr>)
           | (Inr s', db) \<Rightarrow> (Inr \<lparr>le_session = s', le_outcome = outcome,
                le_execution = (if session_error then ES_FAILED else ES_COMPLETED)\<rparr>, rt\<lparr>srt_db := db\<rparr>)))"

section \<open>An outcome says what the conversation established\<close>

lemma rmap_Inr_map: "(\<And>x. x \<in> set xs \<Longrightarrow> f x = Inr (g x)) \<Longrightarrow> rmap f xs = Inr (map g xs)"
  by (induction xs) auto

definition pains_in :: "outcome_input \<Rightarrow> prospect_pain list" where
  "pains_in i = (case oi_observed i of None \<Rightarrow> [] | Some f \<Rightarrow> of_pains f)"

definition details_in :: "outcome_input \<Rightarrow> business_problem list" where
  "details_in i = (case oi_business i of None \<Rightarrow> [] | Some b \<Rightarrow> bs_problems b)"

text \<open>What the constructors of the sources promise.\<close>

definition sources_ok :: "outcome_input \<Rightarrow> bool" where
  "sources_ok i \<longleftrightarrow> (\<forall>p \<in> set (pains_in i). mk_pain p = Inr p) \<and> (\<forall>p \<in> set (details_in i). mk_business_problem p = Inr p)
     \<and> length (pains_in i) \<le> 3 \<and> pred_option (\<lambda>g. mk_opportunity g = Inr g) (oi_playbook i)"

lemma problem_Inr: "text_within 200 d \<Longrightarrow> mk_identified_problem d c = Inr \<lparr>ip_description = d, ip_confidence = c\<rparr>"
  by (simp add: mk_identified_problem_def text_within_def)

lemma add_problems:
  assumes "\<forall>p \<in> set ps. mk_business_problem p = Inr p"
  shows "\<exists>new. rfold add_problem acc ps = Inr (acc @ new) \<and> (\<forall>x \<in> set new. ip_confidence x = FC_OBSERVED)
    \<and> ip_description ` set new \<subseteq> bp_detail ` set ps"
  using assms
proof (induction ps arbitrary: acc)
  case Nil
  then show ?case by simp
next
  case (Cons p ps)
  then have detail: "text_within 200 (bp_detail p)" by (simp add: mk_business_problem_def res_simps)
  then have short: "take 200 (bp_detail p) = bp_detail p" by (simp add: text_within_def)
  obtain new where new: "add_problem acc p = Inr (acc @ new)" "\<forall>x \<in> set new. ip_confidence x = FC_OBSERVED"
    "ip_description ` set new \<subseteq> {bp_detail p}"
  proof (cases "\<exists>x \<in> set acc. ip_description x = bp_detail p")
    case True
    then show thesis by (intro that [of "[]"]) (auto simp: add_problem_def Let_def short)
  next
    case False
    then show thesis
      using problem_Inr [OF detail, of FC_OBSERVED]
      by (intro that [of "[\<lparr>ip_description = bp_detail p, ip_confidence = FC_OBSERVED\<rparr>]"]) (auto simp: add_problem_def Let_def short)
  qed
  obtain rest where "rfold add_problem (acc @ new) ps = Inr ((acc @ new) @ rest)" "\<forall>x \<in> set rest. ip_confidence x = FC_OBSERVED"
    "ip_description ` set rest \<subseteq> bp_detail ` set ps"
    using Cons.IH [of "acc @ new"] Cons.prems by auto
  with new show ?case by (intro exI [of _ "new @ rest"]) auto
qed

lemma problems_known:
  assumes "sources_ok i"
  shows "\<exists>ps. problems_of i = Inr ps \<and> length ps \<le> 10 \<and> (\<forall>p \<in> set ps. ip_confidence p = FC_OBSERVED)
    \<and> ip_description ` set ps \<subseteq> pp_summary ` set (pains_in i) \<union> bp_detail ` set (details_in i)
    \<and> pp_summary ` set (pains_in i) \<subseteq> ip_description ` set ps"
proof -
  let ?pain = "\<lambda>p. \<lparr>ip_description = pp_summary p, ip_confidence = FC_OBSERVED\<rparr>"
  have pain: "mk_identified_problem (take 200 (pp_summary p)) FC_OBSERVED = Inr (?pain p)" if "p \<in> set (pains_in i)" for p
  proof -
    have "mk_pain p = Inr p" using assms that by (simp add: sources_ok_def)
    then have "text_within 160 (pp_summary p)" by (simp add: mk_pain_def res_simps)
    then have "text_within 200 (pp_summary p)" "take 200 (pp_summary p) = pp_summary p" by (simp_all add: text_within_def)
    then show ?thesis by (simp add: problem_Inr)
  qed
  then have pains: "rmap (\<lambda>p. mk_identified_problem (take 200 (pp_summary p)) FC_OBSERVED) (pains_in i) = Inr (map ?pain (pains_in i))"
    by (rule rmap_Inr_map)
  have "\<forall>p \<in> set (details_in i). mk_business_problem p = Inr p" and few: "length (pains_in i) \<le> 3"
    using assms by (simp_all add: sources_ok_def)
  from add_problems [OF this(1), of "map ?pain (pains_in i)"] obtain new where
    new: "rfold add_problem (map ?pain (pains_in i)) (details_in i) = Inr (map ?pain (pains_in i) @ new)"
    "\<forall>x \<in> set new. ip_confidence x = FC_OBSERVED" "ip_description ` set new \<subseteq> bp_detail ` set (details_in i)" by blast
  have out: "problems_of i = Inr (map ?pain (pains_in i) @ take (10 - length (pains_in i)) new)"
    using pains new(1) few by (simp add: problems_of_def pains_in_def [symmetric] details_in_def [symmetric])
  moreover have "set (take (10 - length (pains_in i)) new) \<subseteq> set new" by (rule set_take_subset)
  moreover from image_mono [OF this, of ip_description] new(3)
  have "ip_description ` set (take (10 - length (pains_in i)) new) \<subseteq> bp_detail ` set (details_in i)" by (rule subset_trans)
  ultimately show ?thesis
    using new(2) few
    by (intro exI [of _ "map ?pain (pains_in i) @ take (10 - length (pains_in i)) new"]) (auto simp: image_Un image_image)
qed

lemma identifier_not_blank:
  assumes "identifier_ok s"
  shows "\<not> blank s \<and> length s \<le> 100"
proof (cases s)
  case Nil
  with assms show ?thesis by (simp add: identifier_ok_def)
next
  case (Cons c cs)
  with assms have "id_char c" "length cs \<le> 99" by (simp_all add: identifier_ok_def)
  moreover from this(1) have "\<not> py_isspace c" by (auto simp: id_char_def py_isspace_def Let_def)
  ultimately show ?thesis by (simp add: Cons)
qed

definition services_in :: "outcome_input \<Rightarrow> str set" where
  "services_in i = (case oi_playbook i of None \<Rightarrow> {} | Some g \<Rightarrow> (case opp_service g of
      None \<Rightarrow> {} | Some s \<Rightarrow> insert s (set (opp_future g))))"

lemma join_not_blank:
  assumes "xs \<noteq> []"
  shows "\<not> blank (take 200 (comma_join (map situation_value xs)))"
proof -
  obtain x ys where xs: "xs = x # ys" using assms by (cases xs) auto
  obtain c cs where starts: "situation_value x = c # cs" "\<not> py_isspace c"
    by (cases x) (auto simp: py_isspace_def)
  obtain rest where "comma_join (map situation_value xs) = c # rest"
    using starts(1) by (cases ys) (simp_all add: xs)
  then show ?thesis using starts(2) by simp
qed

lemma services_known:
  assumes "sources_ok i"
  shows "\<exists>ss. services_of i = Inr ss \<and> length ss \<le> 10 \<and> rs_service_id ` set ss \<subseteq> services_in i
    \<and> (\<forall>s \<in> set ss. \<not> blank (rs_service_id s) \<and> length (rs_service_id s) \<le> 100)
    \<and> (services_in i \<noteq> {} \<longrightarrow> ss \<noteq> [])
    \<and> (\<forall>s \<in> set ss. rs_confidence s = FC_OBSERVED \<longrightarrow> (\<exists>g. oi_playbook i = Some g \<and> opp_service g = Some (rs_service_id s)))"
proof (cases "services_in i = {}")
  case True
  then have "services_of i = Inr []" by (auto simp: services_of_def services_in_def split: option.splits)
  with True show ?thesis by simp
next
  case False
  then obtain g sid where g: "oi_playbook i = Some g" "opp_service g = Some sid"
    by (auto simp: services_in_def split: option.splits)
  have made: "mk_opportunity g = Inr g" using assms g by (simp add: sources_ok_def)
  then have ids: "identifier_ok sid" "\<forall>f \<in> set (opp_future g). identifier_ok f" "length (opp_future g) \<le> 3"
    using g(2) by (simp_all add: mk_opportunity_def res_simps)
  let ?future = "\<lambda>f. \<lparr>rs_service_id = f, rs_match_reason = ''future opportunity from playbook'', rs_confidence = FC_INFERRED\<rparr>"
  define reason where "reason = take 200 (if opp_situations g \<noteq> [] then comma_join (map situation_value (opp_situations g))
      else ''playbook match'')"
  have reason: "\<not> blank reason" "\<not> length reason > 200"
    using join_not_blank [of "opp_situations g"] by (auto simp: reason_def py_isspace_def)
  have "rmap (\<lambda>f. mk_relevant_service f ''future opportunity from playbook'' FC_INFERRED) (filter (\<lambda>f. f \<noteq> sid) (opp_future g))
      = Inr (map ?future (filter (\<lambda>f. f \<noteq> sid) (opp_future g)))"
    using ids(2) identifier_not_blank by (intro rmap_Inr_map) (auto simp: mk_relevant_service_def py_isspace_def)
  moreover have "mk_relevant_service sid reason FC_OBSERVED = Inr \<lparr>rs_service_id = sid, rs_match_reason = reason, rs_confidence = FC_OBSERVED\<rparr>"
    using ids(1) identifier_not_blank reason by (simp add: mk_relevant_service_def)
  moreover have "length (filter (\<lambda>f. f \<noteq> sid) (opp_future g)) \<le> 3" using ids(3) length_filter_le [of "\<lambda>f. f \<noteq> sid" "opp_future g"] by linarith
  ultimately have "services_of i = Inr (\<lparr>rs_service_id = sid, rs_match_reason = reason, rs_confidence = FC_OBSERVED\<rparr>
      # map ?future (filter (\<lambda>f. f \<noteq> sid) (opp_future g)))"
    by (simp add: services_of_def g Let_def reason_def [symmetric])
  with ids identifier_not_blank \<open>length (filter (\<lambda>f. f \<noteq> sid) (opp_future g)) \<le> 3\<close> show ?thesis
    by (auto simp: g services_in_def)
qed

lemma objection_texts [simp]:
  "\<not> blank (objection_value ob)" "length (objection_value ob) \<le> 300"
  by (cases ob; simp add: py_isspace_def)+

definition objection_known :: "outcome_input \<Rightarrow> recorded_objection \<Rightarrow> bool" where
  "objection_known i r \<longleftrightarrow> (\<exists>ob. ob \<noteq> Obj_NONE \<and> ro_type r = objection_value ob
     \<and> (if ro_confidence r = FC_OBSERVED then stated_in of_objection i = Some ob
        else guessed_in is_objection i = Some ob \<and> stated_in of_objection i \<noteq> Some ob))"

lemma objection_knownI:
  assumes "ob \<noteq> Obj_NONE"
  shows "stated_in of_objection i = Some ob \<Longrightarrow> objection_known i \<lparr>ro_type = objection_value ob, ro_confidence = FC_OBSERVED\<rparr>"
    and "guessed_in is_objection i = Some ob \<Longrightarrow> stated_in of_objection i \<noteq> Some ob \<Longrightarrow>
      objection_known i \<lparr>ro_type = objection_value ob, ro_confidence = FC_INFERRED\<rparr>"
  using assms by (auto simp: objection_known_def)

lemma objections_known:
  "\<exists>rs. objections_of i = Inr rs \<and> length rs \<le> 10 \<and> (\<forall>r \<in> set rs. objection_known i r)
    \<and> (\<forall>ob. stated_in of_objection i = Some ob \<and> ob \<noteq> Obj_NONE \<longrightarrow> ro_type ` set rs \<supseteq> {objection_value ob})"
proof -
  have made: "mk_recorded_objection (objection_value ob) c = Inr \<lparr>ro_type = objection_value ob, ro_confidence = c\<rparr>" for ob c
    by (simp add: mk_recorded_objection_def)
  define first where "first = (case stated_in of_objection i of
      Some ob \<Rightarrow> if ob \<noteq> Obj_NONE then [\<lparr>ro_type = objection_value ob, ro_confidence = FC_OBSERVED\<rparr>] else [] | None \<Rightarrow> [])"
  define second where "second = (case guessed_in is_objection i of
      Some ob \<Rightarrow> if ob \<noteq> Obj_NONE \<and> \<not> (\<exists>x \<in> set first. ro_type x = objection_value ob)
        then [\<lparr>ro_type = objection_value ob, ro_confidence = FC_INFERRED\<rparr>] else [] | None \<Rightarrow> [])"
  have "objections_of i = Inr (take 10 (first @ second))"
    by (simp add: objections_of_def first_def second_def made split: option.splits)
  moreover have "take 10 (first @ second) = first @ second"
    by (auto simp: first_def second_def split: option.splits)
  moreover have "\<forall>r \<in> set first. objection_known i r"
    by (auto simp: first_def split: option.splits if_splits intro!: objection_knownI)
  moreover have "\<forall>r \<in> set second. objection_known i r"
  proof
    fix r assume "r \<in> set second"
    then obtain ob where ob: "guessed_in is_objection i = Some ob" "ob \<noteq> Obj_NONE"
      "\<not> (\<exists>x \<in> set first. ro_type x = objection_value ob)" "r = \<lparr>ro_type = objection_value ob, ro_confidence = FC_INFERRED\<rparr>"
      by (cases "guessed_in is_objection i") (auto simp: second_def split: if_splits)
    have "stated_in of_objection i \<noteq> Some ob"
    proof
      assume "stated_in of_objection i = Some ob"
      then have "\<lparr>ro_type = objection_value ob, ro_confidence = FC_OBSERVED\<rparr> \<in> set first" using ob(2) by (simp add: first_def)
      with ob(3) show False by fastforce
    qed
    with ob show "objection_known i r" by (simp add: objection_knownI)
  qed
  ultimately show ?thesis
    by (intro exI [of _ "first @ second"]) (auto simp: first_def second_def split: option.splits)
qed

text \<open>What the outcome of a conversation says, field by field.\<close>

definition outcome_follows :: "outcome_input \<Rightarrow> lead_outcome \<Rightarrow> bool" where
  "outcome_follows i o1 \<longleftrightarrow>
     (lo_status o1 = OS_DNC \<longleftrightarrow> oi_is_dnc i) \<and> (lo_dnc o1 = DS_DNC_CONFIRMED \<longleftrightarrow> oi_is_dnc i)
     \<and> (lo_status o1 = OS_NOT_INTERESTED \<longleftrightarrow> oi_is_not_interested i \<and> \<not> oi_is_dnc i)
     \<and> (lo_status o1 \<in> {OS_FOLLOW_UP, OS_INTERESTED, OS_NEEDS_MORE_INFORMATION} \<longleftrightarrow>
          \<not> oi_is_dnc i \<and> \<not> oi_is_not_interested i \<and> (stated_in of_interest i = Some True \<or> services_in i \<noteq> {}))
     \<and> (lo_interest o1 = IntL_EXPLICIT_INTEREST \<longleftrightarrow>
          \<not> oi_is_dnc i \<and> \<not> oi_is_not_interested i \<and> stated_in of_interest i = Some True)
     \<and> (oi_is_dnc i \<or> oi_is_not_interested i \<longrightarrow> lo_follow_up o1 = FUN_NOT_NEEDED)
     \<and> (lo_execution o1 = ES_FAILED \<longleftrightarrow> oi_session_error i)
     \<and> (\<forall>p \<in> set (lo_problems o1). ip_confidence p = FC_OBSERVED)
     \<and> pp_summary ` set (pains_in i) \<subseteq> ip_description ` set (lo_problems o1)
     \<and> ip_description ` set (lo_problems o1) \<subseteq> pp_summary ` set (pains_in i) \<union> bp_detail ` set (details_in i)
     \<and> rs_service_id ` set (lo_services o1) \<subseteq> services_in i
     \<and> (\<forall>r \<in> set (lo_objections o1). objection_known i r)
     \<and> (oi_business i = None \<longrightarrow> lo_questions o1 = [])
     \<and> (\<forall>b. oi_business i = Some b \<longrightarrow> set (lo_questions o1) \<subseteq> unknown_value ` bs_unknown_areas b)"

lemma constant_texts [simp]:
  "\<not> blank (outcome_value a)" "length (outcome_value a) \<le> 300"
  by (cases a; simp add: py_isspace_def)+

lemma interest_texts [simp]:
  "\<not> blank (interest_level_value a)" "length (interest_level_value a) \<le> 300"
  by (cases a; simp add: py_isspace_def)+

lemma decision_maker_texts [simp]:
  "\<not> blank (decision_maker_value a)" "length (decision_maker_value a) \<le> 300"
  by (cases a; simp add: py_isspace_def)+

lemma next_step_texts [simp]:
  "\<not> blank (next_step_value a)" "length (next_step_value a) \<le> 300"
  by (cases a; simp add: py_isspace_def)+

lemma unknown_texts [simp]:
  "\<not> blank (unknown_value a)" "length (unknown_value a) \<le> 300"
  by (cases a; simp add: py_isspace_def)+

lemma status_cases:
  assumes "s = status_of i (dnc_of i)"
  shows "s = OS_DNC \<longleftrightarrow> oi_is_dnc i"
    and "s = OS_NOT_INTERESTED \<longleftrightarrow> oi_is_not_interested i \<and> \<not> oi_is_dnc i"
    and "s \<in> {OS_FOLLOW_UP, OS_INTERESTED, OS_NEEDS_MORE_INFORMATION} \<longleftrightarrow>
          \<not> oi_is_dnc i \<and> \<not> oi_is_not_interested i \<and> (stated_in of_interest i = Some True \<or> services_in i \<noteq> {})"
proof -
  have sold: "(\<exists>g \<in> set_option (oi_playbook i). opp_service g \<noteq> None) \<longleftrightarrow> services_in i \<noteq> {}"
    by (auto simp: services_in_def split: option.splits)
  show "s = OS_DNC \<longleftrightarrow> oi_is_dnc i" by (simp add: assms status_of_def dnc_of_def Let_def)
  show "s = OS_NOT_INTERESTED \<longleftrightarrow> oi_is_not_interested i \<and> \<not> oi_is_dnc i" by (simp add: assms status_of_def dnc_of_def Let_def)
  show "s \<in> {OS_FOLLOW_UP, OS_INTERESTED, OS_NEEDS_MORE_INFORMATION} \<longleftrightarrow>
          \<not> oi_is_dnc i \<and> \<not> oi_is_not_interested i \<and> (stated_in of_interest i = Some True \<or> services_in i \<noteq> {})"
    unfolding assms status_of_def dnc_of_def Let_def sold by simp
qed

lemma explicit_interest:
  "interest_level_of i = IntL_EXPLICIT_INTEREST \<longleftrightarrow> \<not> oi_is_dnc i \<and> \<not> oi_is_not_interested i \<and> stated_in of_interest i = Some True"
  by (auto simp: interest_level_of_def split: option.splits)

lemma next_step_not_blank: "next_step_of i = Some s \<Longrightarrow> \<not> blank s \<and> length s \<le> 300"
  by (auto simp: next_step_of_def split: list.splits)

lemma summary_Inr:
  assumes "\<And>p. p \<in> set problems \<Longrightarrow> \<not> blank (ip_description p) \<and> length (ip_description p) \<le> 300"
    and "\<And>s. s \<in> set services \<Longrightarrow> \<not> blank (rs_service_id s) \<and> length (rs_service_id s) \<le> 300"
    and "\<And>r. r \<in> set objections \<Longrightarrow> \<not> blank (ro_type r) \<and> length (ro_type r) \<le> 300"
    and "\<And>s. step = Some s \<Longrightarrow> \<not> blank s \<and> length s \<le> 300"
    and "\<And>q. q \<in> set questions \<Longrightarrow> \<not> blank q \<and> length q \<le> 300"
  shows "\<exists>ls. summary_lines outcome interest dnc problems services objections step maker questions = Inr ls \<and> length ls \<le> 9"
proof -
  define ls where "ls = [(''Outcome'', outcome_value outcome), (''Interest'', interest_level_value interest)]
        @ (if dnc = DS_DNC_CONFIRMED then [(''DNC'', ''Confirmed'')] else [])
        @ (case problems of [] \<Rightarrow> [] | p # _ \<Rightarrow> [(''Problem'', ip_description p)])
        @ (case services of [] \<Rightarrow> [] | s # _ \<Rightarrow> [(''Relevant service'', rs_service_id s)])
        @ (case objections of [] \<Rightarrow> [] | ob # _ \<Rightarrow> [(''Objection'', ro_type ob)])
        @ (if maker \<noteq> DM_UNKNOWN then [(''Decision maker'', decision_maker_value maker)] else [])
        @ (case step of None \<Rightarrow> [] | Some s \<Rightarrow> [(''Next step'', s)])
        @ (case questions of [] \<Rightarrow> [] | q # _ \<Rightarrow> [(''Outstanding question'', q)])"
  have labels: "\<forall>x \<in> {''Outcome'', ''Interest'', ''DNC'', ''Problem'', ''Relevant service'', ''Objection'', ''Decision maker'',
      ''Next step'', ''Outstanding question''}. \<not> blank x \<and> length x \<le> 60"
    by (simp add: py_isspace_def)
  have "\<forall>l \<in> set ls. (\<not> blank (fst l) \<and> length (fst l) \<le> 60) \<and> \<not> blank (snd l) \<and> length (snd l) \<le> 300"
    using assms labels
    by (auto simp: ls_def py_isspace_def split: list.splits option.splits if_splits)
  then have "rmap (\<lambda>(label, val). mk_summary_line label val) ls = Inr (map id ls)"
    by (intro rmap_Inr_map) (auto simp: mk_summary_line_def)
  moreover have "length ls \<le> 9" by (auto simp: ls_def split: list.splits option.splits)
  moreover have "summary_lines outcome interest dnc problems services objections step maker questions
      = rmap (\<lambda>(label, val). mk_summary_line label val) ls"
    by (simp only: summary_lines_def ls_def)
  ultimately show ?thesis by simp
qed

lemma resolve_outcome_follows:
  assumes ids: "\<not> blank (oi_lead_id i)" "\<not> blank (oi_campaign_id i)" "\<not> blank (oi_session_id i)" "\<not> blank (oi_tenant_id i)"
    and ok: "sources_ok i" and order: "\<And>S. set (order S) = S"
  shows "\<exists>o1. resolve_outcome order i = Inr o1 \<and> outcome_follows i o1 \<and> lo_session_id o1 = oi_session_id i
    \<and> lo_lead_id o1 = oi_lead_id i \<and> lo_campaign_id o1 = oi_campaign_id i \<and> lo_tenant_id o1 = oi_tenant_id i"
proof -
  obtain ps where ps: "problems_of i = Inr ps" "length ps \<le> 10" "\<forall>p \<in> set ps. ip_confidence p = FC_OBSERVED"
    "ip_description ` set ps \<subseteq> pp_summary ` set (pains_in i) \<union> bp_detail ` set (details_in i)"
    "pp_summary ` set (pains_in i) \<subseteq> ip_description ` set ps"
    using problems_known [OF ok] by blast
  obtain ss where ss: "services_of i = Inr ss" "length ss \<le> 10" "rs_service_id ` set ss \<subseteq> services_in i"
    "\<forall>s \<in> set ss. \<not> blank (rs_service_id s) \<and> length (rs_service_id s) \<le> 100"
    using services_known [OF ok] by blast
  obtain rs where rs: "objections_of i = Inr rs" "length rs \<le> 10" "\<forall>r \<in> set rs. objection_known i r"
    using objections_known [of i] by blast
  have texts: "\<forall>d \<in> pp_summary ` set (pains_in i) \<union> bp_detail ` set (details_in i). \<not> blank d \<and> length d \<le> 300"
    using ok by (fastforce simp: sources_ok_def mk_pain_def mk_business_problem_def text_within_def res_simps)
  have questions: "length (questions_of order i) \<le> 10" "set (questions_of order i) \<subseteq> range unknown_value"
    "\<And>b. oi_business i = Some b \<Longrightarrow> set (questions_of order i) \<subseteq> unknown_value ` bs_unknown_areas b"
    using set_take_subset [of 10] order by (fastforce simp: questions_of_def split: option.splits)+
  have "\<exists>ls. summary_lines (status_of i (dnc_of i)) (interest_level_of i) (dnc_of i) ps ss rs (next_step_of i)
      (decision_maker_of i) (questions_of order i) = Inr ls \<and> length ls \<le> 9"
  proof (rule summary_Inr)
    show "\<not> blank (ip_description p) \<and> length (ip_description p) \<le> 300" if "p \<in> set ps" for p
      using that ps(4) texts by blast
    show "\<not> blank (rs_service_id s) \<and> length (rs_service_id s) \<le> 300" if "s \<in> set ss" for s
      using that ss(4) by fastforce
    show "\<not> blank (ro_type r) \<and> length (ro_type r) \<le> 300" if "r \<in> set rs" for r
    proof -
      from that rs(3) obtain ob where "ro_type r = objection_value ob" by (auto simp: objection_known_def)
      then show ?thesis by simp
    qed
    show "\<not> blank s \<and> length s \<le> 300" if "next_step_of i = Some s" for s
      using next_step_not_blank [OF that] by simp
    show "\<not> blank q \<and> length q \<le> 300" if q: "q \<in> set (questions_of order i)" for q
    proof -
      from q questions(2) obtain a where "q = unknown_value a" by blast
      then show ?thesis by simp
    qed
  qed
  then obtain ls where ls: "summary_lines (status_of i (dnc_of i)) (interest_level_of i) (dnc_of i) ps ss rs (next_step_of i)
      (decision_maker_of i) (questions_of order i) = Inr ls" "length ls \<le> 9" by blast
  define o1 where "o1 = \<lparr>lo_lead_id = oi_lead_id i, lo_campaign_id = oi_campaign_id i, lo_session_id = oi_session_id i,
        lo_tenant_id = oi_tenant_id i, lo_status = status_of i (dnc_of i), lo_interest = interest_level_of i,
        lo_dnc = dnc_of i, lo_execution = execution_of i, lo_termination = oi_termination i, lo_problems = ps,
        lo_services = ss, lo_objections = rs, lo_decision_maker = decision_maker_of i,
        lo_qualification = qualification_of i, lo_next_step = next_step_of i,
        lo_follow_up = follow_up_of i (status_of i (dnc_of i)) (next_step_of i),
        lo_questions = questions_of order i, lo_summary = ls\<rparr>"
  note status = status_cases [OF refl, of i]
  have "mk_lead_outcome o1 = Inr o1"
    using ids status(1) ps(2) ss(2) rs(2) questions(1) ls(2) by (simp add: mk_lead_outcome_def o1_def dnc_of_def)
  then have "resolve_outcome order i = Inr o1"
    by (simp add: resolve_outcome_def Let_def ps(1) ss(1) rs(1) ls(1) o1_def)
  moreover have "outcome_follows i o1"
    unfolding outcome_follows_def
    using status ps(3-5) ss(3) rs(3) questions(3) explicit_interest [of i]
    by (simp add: o1_def dnc_of_def execution_of_def follow_up_of_def questions_of_def)
  ultimately show ?thesis by (intro exI [of _ o1]) (simp add: o1_def)
qed

section \<open>Finishing is final\<close>

lemma stored_session_facts:
  assumes "store_ok db" "sq_get db sid = Inr s"
  shows "cse_session_id s = sid" "ChatRuntime.session_ok s"
  using assms by (simp_all add: store_ok_def sq_get_iff stored_ok_def)

lemma session_outcome:
  assumes session: "cse_session_id s = sid" "ChatRuntime.session_ok s" and order: "\<And>S. set (order S) = S"
    and sources: "sources_ok (outcome_input_for sid s src is_dnc is_not_interested session_error reason)"
  shows "\<exists>o1. rbind (mk_outcome_input (outcome_input_for sid s src is_dnc is_not_interested session_error reason))
      (resolve_outcome order) = Inr o1
    \<and> outcome_follows (outcome_input_for sid s src is_dnc is_not_interested session_error reason) o1
    \<and> lo_session_id o1 = sid \<and> lo_lead_id o1 = cse_lead_id s
    \<and> lo_campaign_id o1 = cse_campaign_id s \<and> lo_tenant_id o1 = cse_tenant_id s"
proof -
  let ?i = "outcome_input_for sid s src is_dnc is_not_interested session_error reason"
  have ids: "\<not> blank (oi_lead_id ?i)" "\<not> blank (oi_campaign_id ?i)" "\<not> blank (oi_session_id ?i)" "\<not> blank (oi_tenant_id ?i)"
    using session by (auto simp: outcome_input_for_def ChatRuntime.session_ok_def check_session_def res_simps)
  then have "mk_outcome_input ?i = Inr ?i" by (simp add: mk_outcome_input_def)
  with resolve_outcome_follows [OF ids sources order] show ?thesis by (auto simp: outcome_input_for_def)
qed

lemmas finished_outcome = session_outcome [OF stored_session_facts]

lemma no_sources_ok [simp]:
  "sources_ok (outcome_input_for sid s no_sources is_dnc is_not_interested session_error reason)"
  by (simp add: sources_ok_def outcome_input_for_def no_sources_def pains_in_def details_in_def)


definition started_by_request :: "(unit, unit) sales_runtime" where
  "started_by_request = snd (start_session echo_config stored_runtime first_request planned_campaign)"

lemma all_unknown_complete [simp]: "a \<in> set all_unknown"
  by (cases a) (simp_all add: all_unknown_def)

lemma started_session_stored: "\<exists>s. sq_get (srt_db started_by_request) (bi_session_id first_request) = Inr s"
proof -
  have new: "bootstrap_lookup (srt_db stored_runtime) (bi_bootstrap_request_id first_request) = None" by code_simp
  from stored_runtime_ok new show ?thesis
  proof (cases rule: start_session_cases [where cfg = echo_config and campaign = planned_campaign])
    case (started lead ctx policy plan entry rt')
    then show ?thesis by (simp add: started_by_request_def)
  qed (use started_runtime_created in auto)
qed


text \<open>
  A wish to end the conversation is a next step like the others, so it calls for a follow-up, even
  when the prospect said they are not interested.
\<close>

lemma ending_needs_follow_up:
  assumes "stated_in of_next_step i = Some NS_END_CONVERSATION" "stated_in of_interest i = Some False"
    and "\<not> oi_is_dnc i" "\<not> oi_is_not_interested i" "resolve_outcome order i = Inr o1"
  shows "lo_follow_up o1 = FUN_NEEDED \<and> lo_next_step o1 = Some ''end_conversation'' \<and> lo_interest o1 = IntL_NO_INTEREST"
proof -
  have "next_step_of i = Some ''end_conversation''" using assms(1) by (simp add: next_step_of_def List.map_filter_def)
  with assms(2-) show ?thesis
    by (auto simp: resolve_outcome_def mk_lead_outcome_def follow_up_of_def interest_level_of_def Let_def res_simps)
qed

end
