(* ===== verification/Lifecycle.thy ===== *)
theory Lifecycle
  imports Outcome
begin

text \<open>
  \<^verbatim>\<open>runtime/chat/bootstrap\<close> and \<^verbatim>\<open>runtime/chat/lifecycle\<close>: starting an in-memory session from a lead of the
  queue, processing its turns and resolving its outcome. The service and the chat runtime are wired
  to one session repository, which is the state here; the lead resolver, the context resolver and the
  transition of the queue entry are functions handed in by the caller. Diagnostics are not modelled.
\<close>

section \<open>The policy registry\<close>

record policy_registry =
  pr_policies :: "(str \<times> str, discovery_policy) dict"
  pr_defaults :: "(str, discovery_policy) dict"

definition registry_register :: "str \<Rightarrow> discovery_policy \<Rightarrow> policy_registry \<Rightarrow> policy_registry" where
  "registry_register campaign policy r = r\<lparr>pr_policies := dset (campaign, dp_version policy) policy (pr_policies r)\<rparr>"

definition registry_register_default :: "str \<Rightarrow> discovery_policy \<Rightarrow> policy_registry \<Rightarrow> policy_registry" where
  "registry_register_default campaign policy r =
     registry_register campaign policy (r\<lparr>pr_defaults := dset campaign policy (pr_defaults r)\<rparr>)"

definition registry_resolve :: "str \<Rightarrow> str option \<Rightarrow> policy_registry \<Rightarrow> discovery_policy option" where
  "registry_resolve campaign version r = (case version of
       Some v \<Rightarrow> dget (pr_policies r) (campaign, v) | None \<Rightarrow> dget (pr_defaults r) campaign)"

section \<open>Starting a session\<close>

fun eligibility_value :: "call_eligibility \<Rightarrow> str" where
  "eligibility_value CE_ELIGIBLE = ''eligible''"
| "eligibility_value CE_DAILY_LIMIT_REACHED = ''daily_limit_reached''"
| "eligibility_value CE_OUTSIDE_CALLING_WINDOW = ''outside_calling_window''"
| "eligibility_value CE_GAP_NOT_ELAPSED = ''gap_not_elapsed''"
| "eligibility_value CE_CAMPAIGN_PAUSED = ''campaign_paused''"
| "eligibility_value CE_CAMPAIGN_NOT_ACTIVE = ''campaign_not_active''"
| "eligibility_value CE_LEAD_DNC = ''lead_dnc''"
| "eligibility_value CE_LEAD_NOT_READY = ''lead_not_ready''"
| "eligibility_value CE_MAX_RETRIES_EXHAUSTED = ''max_retries_exhausted''"
| "eligibility_value CE_CONCURRENCY_LIMIT = ''concurrency_limit''"
| "eligibility_value CE_NO_LEADS_AVAILABLE = ''no_leads_available''"

record boot_service =
  bss_sessions :: "conversation_plan session_table"
  bss_policies :: policy_registry
  bss_completed :: "(str, bootstrap_result) dict"

record boot_config =
  bcf_lead_resolver :: "str \<Rightarrow> str \<Rightarrow> str \<Rightarrow> lead_record option res"
  bcf_context_resolver :: "lead_record \<Rightarrow> Leads.business_context res"

record boot_request =
  brq_input :: bootstrap_input
  brq_campaign :: campaign_config
  brq_entry :: lead_queue_entry
  brq_eligibility :: call_eligibility
  brq_transitioner :: "(lead_queue_entry \<Rightarrow> lead_queue_entry res) option"

definition finish_request :: "bootstrap_result \<Rightarrow> str \<Rightarrow> boot_service \<Rightarrow> bootstrap_result res \<times> boot_service" where
  "finish_request r req svc = (case mk_bootstrap_result r of
       Inl e \<Rightarrow> (Inl e, svc)
     | Inr r' \<Rightarrow> (Inr r', svc\<lparr>bss_completed := dset req r' (bss_completed svc)\<rparr>))"

definition reject_request :: "bootstrap_status \<Rightarrow> str \<Rightarrow> str \<Rightarrow> boot_service \<Rightarrow> bootstrap_result res \<times> boot_service" where
  "reject_request status reason req svc = finish_request \<lparr>bsr_status = status, bsr_session = None, bsr_queue_entry = None,
     bsr_pre_call_plan = None, bsr_rejection_reason = Some reason\<rparr> req svc"

text \<open>Everything before the session is created.\<close>

definition prepare_request :: "boot_config \<Rightarrow> boot_service \<Rightarrow> boot_request \<Rightarrow> (conversation_plan \<times> planned_session) checked" where
  "prepare_request cfg svc q =
     (let b = brq_input q; campaign = brq_campaign q; entry = brq_entry q in
      checked (reject_unless (bi_tenant_id b = cf_tenant_id campaign)
        (BS_CONTEXT_INVALID, ''tenant_id mismatch between input and campaign'')) (\<lambda>_.
      checked (reject_unless (bi_campaign_id b = cf_campaign_id campaign)
        (BS_CONTEXT_INVALID, ''campaign_id mismatch between input and campaign'')) (\<lambda>_.
      checked (reject_unless (bi_tenant_id b = qe_tenant_id entry)
        (BS_CONTEXT_INVALID, ''tenant_id mismatch between input and queue entry'')) (\<lambda>_.
      checked (reject_unless (bi_campaign_id b = qe_campaign_id entry)
        (BS_CONTEXT_INVALID, ''campaign_id mismatch between input and queue entry'')) (\<lambda>_.
      checked (reject_unless (bi_lead_id b = qe_lead_id entry)
        (BS_CONTEXT_INVALID, ''lead_id mismatch between input and queue entry'')) (\<lambda>_.
      checked (reject_unless (brq_eligibility q = CE_ELIGIBLE)
        (BS_NOT_ELIGIBLE, ''queue ineligible: '' @ eligibility_value (brq_eligibility q))) (\<lambda>_.
      checked (reject_unless (\<not> qe_is_dnc entry) (BS_NOT_ELIGIBLE, ''lead is DNC'')) (\<lambda>_.
      checked (reject_unless (qe_status entry \<noteq> LQ_IN_PROGRESS)
        (BS_CONCURRENCY_CONFLICT, ''lead already in progress'')) (\<lambda>_.
      checked (reject_unless (\<not> session_exists (bss_sessions svc) (bi_session_id b))
        (BS_CONCURRENCY_CONFLICT, ''session_id already exists'')) (\<lambda>_.
      checked (found_or (BS_LEAD_NOT_FOUND, ''lead not found'')
        (bcf_lead_resolver cfg (bi_tenant_id b) (bi_campaign_id b) (bi_lead_id b))) (\<lambda>lead.
      checked (reject_unless (lrec_tenant_id lead = bi_tenant_id b)
        (BS_CONTEXT_INVALID, ''tenant_id mismatch between input and lead'')) (\<lambda>_.
      checked (reject_unless (lrec_campaign_id lead = bi_campaign_id b)
        (BS_CONTEXT_INVALID, ''campaign_id mismatch between input and lead'')) (\<lambda>_.
      checked (caught (\<lambda>_. (BS_CONTEXT_INVALID, ''failed to build pre-call context from lead''))
        (bcf_context_resolver cfg lead)) (\<lambda>ctx.
      checked (found_or (BS_POLICY_NOT_FOUND, ''no policy registered for campaign'')
        (Inr (registry_resolve (bi_campaign_id b) None (bss_policies svc)))) (\<lambda>policy.
      checked (caught (\<lambda>_. (BS_PCIE_FAILED, ''pre-call intelligence engine failed''))
        (precall_plan ctx campaign policy)) (\<lambda>plan.
      rbind (check_session \<lparr>cse_session_id = bi_session_id b, cse_tenant_id = bi_tenant_id b,
        cse_campaign_id = bi_campaign_id b, cse_lead_id = bi_lead_id b, cse_status = SS_ACTIVE,
        cse_mode = bi_runtime_mode b, cse_revision = 0, cse_transcript = [], cse_turn_count = 0,
        cse_pre_call_plan = Some plan\<rparr>) (\<lambda>s. Inr (Inr (plan, s)))))))))))))))))))"

definition bootstrap :: "boot_config \<Rightarrow> boot_service \<Rightarrow> boot_request \<Rightarrow> bootstrap_result res \<times> boot_service" where
  "bootstrap cfg svc q =
     (let b = brq_input q; req = bi_bootstrap_request_id b in
      case dget (bss_completed svc) req of
        Some r \<Rightarrow> (Inr r, svc)
      | None \<Rightarrow> (case prepare_request cfg svc q of
          Inl e \<Rightarrow> (Inl e, svc)
        | Inr (Inl (status, reason)) \<Rightarrow> reject_request status reason req svc
        | Inr (Inr (plan, s)) \<Rightarrow>
            (case session_create (bss_sessions svc) s of
               (Inl e, t) \<Rightarrow> reject_request BS_SESSION_CREATION_FAILED ''session repository rejected creation'' req
                   (svc\<lparr>bss_sessions := t\<rparr>)
             | (Inr created, t) \<Rightarrow>
                 (case (case brq_transitioner q of None \<Rightarrow> Inr (brq_entry q) | Some f \<Rightarrow> f (brq_entry q)) of
                    Inl e \<Rightarrow> reject_request BS_QUEUE_TRANSITION_FAILED ''queue transition failed after session creation'' req
                      (svc\<lparr>bss_sessions := session_delete t (bi_session_id b)\<rparr>)
                  | Inr entry \<Rightarrow> finish_request \<lparr>bsr_status = BS_CREATED, bsr_session = Some created,
                      bsr_queue_entry = Some entry, bsr_pre_call_plan = Some plan, bsr_rejection_reason = None\<rparr> req
                      (svc\<lparr>bss_sessions := t\<rparr>)))))"

section \<open>The life of a session\<close>

datatype lifecycle_status =
    LS_BOOTSTRAP_REJECTED | LS_ACTIVE | LS_TURN_REJECTED | LS_PROVIDER_FAILURE | LS_RUNTIME_FAILURE |
    LS_TERMINATED | LS_COMPLETED

record lifecycle_result =
  lcr_status :: lifecycle_status
  lcr_session :: "planned_session option"
  lcr_turn :: "chat_turn_result option"
  lcr_outcome :: "lead_outcome option"
  lcr_execution :: "execution_status option"

definition mk_lifecycle_result :: "lifecycle_result \<Rightarrow> lifecycle_result res" where
  "mk_lifecycle_result r = rbind (guard (\<not> (lcr_status r = LS_COMPLETED \<and> lcr_outcome r = None)) ValueError) (\<lambda>_. Inr r)"

record lifecycle =
  lcy_service :: boot_service
  lcy_processors :: "(str, turn_processor) dict"

definition runtime_of :: "lifecycle \<Rightarrow> conversation_plan session_table chat_runtime" where
  "runtime_of l = \<lparr>crt_repository = bss_sessions (lcy_service l), crt_processors = lcy_processors l\<rparr>"

definition with_runtime :: "lifecycle \<Rightarrow> conversation_plan session_table chat_runtime \<Rightarrow> lifecycle" where
  "with_runtime l rt = l\<lparr>lcy_service := (lcy_service l)\<lparr>bss_sessions := crt_repository rt\<rparr>, lcy_processors := crt_processors rt\<rparr>"

definition bootstrap_session ::
  "boot_config \<Rightarrow> lifecycle \<Rightarrow> boot_request \<Rightarrow> turn_processor \<Rightarrow> lifecycle_result res \<times> lifecycle" where
  "bootstrap_session cfg l q proc = (case bootstrap cfg (lcy_service l) q of
       (Inl e, svc) \<Rightarrow> (Inl e, l\<lparr>lcy_service := svc\<rparr>)
     | (Inr r, svc) \<Rightarrow> (let l' = l\<lparr>lcy_service := svc\<rparr> in
         case bsr_session r of
           Some s \<Rightarrow> if bsr_status r = BS_CREATED
             then (mk_lifecycle_result \<lparr>lcr_status = LS_ACTIVE, lcr_session = Some s, lcr_turn = None,
                 lcr_outcome = None, lcr_execution = None\<rparr>,
               with_runtime l' (register_processor (cse_session_id s) proc (runtime_of l')))
             else (mk_lifecycle_result \<lparr>lcr_status = LS_BOOTSTRAP_REJECTED, lcr_session = None, lcr_turn = None,
                 lcr_outcome = None, lcr_execution = None\<rparr>, l')
         | None \<Rightarrow> if bsr_status r = BS_CREATED then (Inl AttributeError, l')
             else (mk_lifecycle_result \<lparr>lcr_status = LS_BOOTSTRAP_REJECTED, lcr_session = None, lcr_turn = None,
                 lcr_outcome = None, lcr_execution = None\<rparr>, l')))"

definition generate_outcome ::
  "(unknown_area set \<Rightarrow> unknown_area list) \<Rightarrow> lifecycle \<Rightarrow> str \<Rightarrow> outcome_sources \<Rightarrow> bool \<Rightarrow> bool \<Rightarrow> bool
    \<Rightarrow> termination_reason \<Rightarrow> lead_outcome res" where
  "generate_outcome order l sid src is_dnc is_not_interested session_error reason =
     rbind (session_get (bss_sessions (lcy_service l)) sid) (\<lambda>s.
     rbind (mk_outcome_input (outcome_input_for (cse_session_id s) s src is_dnc is_not_interested session_error reason))
       (resolve_outcome order))"

definition lifecycle_turn ::
  "(unknown_area set \<Rightarrow> unknown_area list) \<Rightarrow> lifecycle \<Rightarrow> str \<Rightarrow> str \<Rightarrow> int \<Rightarrow> lifecycle_result res \<times> lifecycle" where
  "lifecycle_turn order l sid message seq = (case mk_turn_input sid message seq of
       Inl e \<Rightarrow> (Inl e, l)
     | Inr inp \<Rightarrow> (case chat_process_turn session_get session_update (runtime_of l) inp of
           (Inl e, rt) \<Rightarrow> (let l' = with_runtime l rt in
             (if e = DuplicateTurnError then mk_lifecycle_result \<lparr>lcr_status = LS_TURN_REJECTED, lcr_session = None,
                lcr_turn = None, lcr_outcome = None, lcr_execution = None\<rparr>
              else if e = SessionTerminatedError then
                rbind (session_get (crt_repository rt) sid) (\<lambda>s. mk_lifecycle_result \<lparr>lcr_status = LS_TERMINATED,
                  lcr_session = Some s, lcr_turn = None, lcr_outcome = None, lcr_execution = None\<rparr>)
              else mk_lifecycle_result \<lparr>lcr_status = LS_RUNTIME_FAILURE, lcr_session = None, lcr_turn = None,
                lcr_outcome = None, lcr_execution = Some ES_FAILED\<rparr>, l'))
         | (Inr result, rt) \<Rightarrow> (let l' = with_runtime l rt in
             (rbind (session_get (crt_repository rt) sid) (\<lambda>s.
              if ctr_conversation_terminal result then
                rbind (generate_outcome order l' (cse_session_id s) no_sources False False False TR_NATURAL_COMPLETION) (\<lambda>o1.
                mk_lifecycle_result \<lparr>lcr_status = LS_COMPLETED, lcr_session = Some s, lcr_turn = Some result,
                  lcr_outcome = Some o1, lcr_execution = Some ES_COMPLETED\<rparr>)
              else mk_lifecycle_result \<lparr>lcr_status = LS_ACTIVE, lcr_session = Some s, lcr_turn = Some result,
                lcr_outcome = None, lcr_execution = None\<rparr>), l'))))"

section \<open>A request is answered once\<close>

definition request_session :: "boot_request \<Rightarrow> conversation_plan \<Rightarrow> planned_session" where
  "request_session q plan = started_session (brq_input q) plan"

text \<open>What has to hold before a session is created.\<close>

definition request_granted :: "boot_config \<Rightarrow> boot_service \<Rightarrow> boot_request \<Rightarrow> conversation_plan \<Rightarrow> bool" where
  "request_granted cfg svc q plan \<longleftrightarrow>
     (let b = brq_input q; entry = brq_entry q in
      bi_tenant_id b = cf_tenant_id (brq_campaign q) \<and> bi_campaign_id b = cf_campaign_id (brq_campaign q)
      \<and> bi_tenant_id b = qe_tenant_id entry \<and> bi_campaign_id b = qe_campaign_id entry \<and> bi_lead_id b = qe_lead_id entry
      \<and> brq_eligibility q = CE_ELIGIBLE \<and> \<not> qe_is_dnc entry \<and> qe_status entry \<noteq> LQ_IN_PROGRESS
      \<and> dget (bss_sessions svc) (bi_session_id b) = None
      \<and> (\<exists>lead ctx policy. bcf_lead_resolver cfg (bi_tenant_id b) (bi_campaign_id b) (bi_lead_id b) = Inr (Some lead)
          \<and> lrec_tenant_id lead = bi_tenant_id b \<and> lrec_campaign_id lead = bi_campaign_id b
          \<and> bcf_context_resolver cfg lead = Inr ctx \<and> registry_resolve (bi_campaign_id b) None (bss_policies svc) = Some policy
          \<and> precall_plan ctx (brq_campaign q) policy = Inr plan))"

lemma prepare_request_Inr:
  assumes "prepare_request cfg svc q = Inr (Inr (plan, s))"
  shows "s = request_session q plan \<and> request_granted cfg svc q plan"
proof -
  have "s = request_session q plan"
    using assms unfolding prepare_request_def Let_def checked_simps
    by (auto simp: request_session_def started_session_def check_session_def res_simps)
  moreover have "request_granted cfg svc q plan"
    using assms unfolding prepare_request_def Let_def checked_simps request_granted_def
    by (auto simp: session_exists_def res_simps)
  ultimately show ?thesis ..
qed

lemma prepare_request_status:
  "prepare_request cfg svc q = Inr (Inl (status, reason)) \<Longrightarrow> status \<noteq> BS_CREATED"
  unfolding prepare_request_def Let_def checked_simps by (auto simp: res_simps)

lemma reject_request_out:
  "status \<noteq> BS_CREATED \<Longrightarrow> reject_request status reason req svc =
    (Inr \<lparr>bsr_status = status, bsr_session = None, bsr_queue_entry = None, bsr_pre_call_plan = None,
        bsr_rejection_reason = Some reason\<rparr>,
     svc\<lparr>bss_completed := dset req \<lparr>bsr_status = status, bsr_session = None, bsr_queue_entry = None, bsr_pre_call_plan = None,
        bsr_rejection_reason = Some reason\<rparr> (bss_completed svc)\<rparr>)"
  by (simp add: reject_request_def finish_request_def mk_bootstrap_result_def)

text \<open>How a new request ends: it raises before anything is written, it is rejected, or a session is created.\<close>

lemma bootstrap_cases:
  assumes new: "dget (bss_completed svc) (bi_bootstrap_request_id (brq_input q)) = None"
  obtains (raised) e where "bootstrap cfg svc q = (Inl e, svc)"
  | (rejected) r svc' where "bootstrap cfg svc q = (Inr r, svc')" "bsr_status r \<noteq> BS_CREATED" "bsr_session r = None"
      "svc' = svc\<lparr>bss_completed := dset (bi_bootstrap_request_id (brq_input q)) r (bss_completed svc)\<rparr>"
  | (created) plan entry r svc' where "bootstrap cfg svc q = (Inr r, svc')" "request_granted cfg svc q plan"
      "r = \<lparr>bsr_status = BS_CREATED, bsr_session = Some (request_session q plan), bsr_queue_entry = Some entry,
          bsr_pre_call_plan = Some plan, bsr_rejection_reason = None\<rparr>"
      "(case brq_transitioner q of None \<Rightarrow> Inr (brq_entry q) | Some f \<Rightarrow> f (brq_entry q)) = Inr entry"
      "svc' = svc\<lparr>bss_sessions := bss_sessions svc @ [(bi_session_id (brq_input q), request_session q plan)],
          bss_completed := dset (bi_bootstrap_request_id (brq_input q)) r (bss_completed svc)\<rparr>"
proof (cases "prepare_request cfg svc q")
  case (Inl e)
  then show thesis by (intro raised [of e]) (simp add: bootstrap_def new Let_def)
next
  case (Inr verdict)
  show thesis
  proof (cases verdict)
    case (Inl r)
    obtain status reason where r: "r = (status, reason)" by force
    then have "status \<noteq> BS_CREATED" using prepare_request_status Inl Inr by blast
    with reject_request_out [OF this] Inl Inr r show thesis by (intro rejected) (auto simp: bootstrap_def new Let_def)
  next
    case ready: (Inr ready)
    obtain plan s where verdict: "ready = (plan, s)" by (cases ready)
    from prepare_request_Inr [OF Inr [unfolded ready verdict]]
    have s: "s = request_session q plan" and granted: "request_granted cfg svc q plan" by auto
    have sid: "cse_session_id s = bi_session_id (brq_input q)" "s\<lparr>cse_revision := 0\<rparr> = s"
      by (simp_all add: s request_session_def started_session_def)
    have free: "dget (bss_sessions svc) (bi_session_id (brq_input q)) = None" using granted by (simp add: request_granted_def Let_def)
    then have "bi_session_id (brq_input q) \<notin> set (dkeys (bss_sessions svc))" by (simp add: map_of_eq_None_iff)
    then have appended: "dset (bi_session_id (brq_input q)) s (bss_sessions svc) = bss_sessions svc @ [(bi_session_id (brq_input q), s)]"
      and removed: "ddel (bi_session_id (brq_input q)) (bss_sessions svc @ [(bi_session_id (brq_input q), s)]) = bss_sessions svc"
      by (simp_all add: dset_new) (force simp: AList.delete_eq filter_id_conv image_iff)
    have create: "session_create (bss_sessions svc) s = (Inr s, bss_sessions svc @ [(bi_session_id (brq_input q), s)])"
      using free by (simp add: session_create_def sid appended Let_def)
    show thesis
    proof (cases "case brq_transitioner q of None \<Rightarrow> Inr (brq_entry q) | Some f \<Rightarrow> f (brq_entry q)")
      case (Inl e)
      then have "bootstrap cfg svc q = reject_request BS_QUEUE_TRANSITION_FAILED ''queue transition failed after session creation''
          (bi_bootstrap_request_id (brq_input q)) svc"
        using Inr ready verdict create removed by (simp add: bootstrap_def new Let_def session_delete_def)
      then show thesis by (intro rejected) (auto simp: reject_request_out)
    next
      case entry: (Inr entry)
      then show thesis
        using Inr ready verdict create granted
        by (intro created [of _ _ plan entry]) (auto simp: bootstrap_def new Let_def finish_request_def mk_bootstrap_result_def s)
    qed
  qed
qed

lemma completed_kept:
  assumes "dget (bss_completed svc) req = Some r"
  shows "dget (bss_completed (snd (bootstrap cfg svc q))) req = Some r"
proof (cases "dget (bss_completed svc) (bi_bootstrap_request_id (brq_input q))")
  case None
  with assms have "req \<noteq> bi_bootstrap_request_id (brq_input q)" by auto
  with None assms show ?thesis by (cases rule: bootstrap_cases [where cfg = cfg, OF None]) auto
next
  case (Some x)
  with assms show ?thesis by (simp add: bootstrap_def Let_def)
qed

interpretation answered: kept "\<lambda>svc q. snd (bootstrap cfg svc q)" "\<lambda>svc. dget (bss_completed svc) req = Some r" for cfg req r
  by unfold_locales (rule completed_kept)

text \<open>
  C39. A request is answered once. A new request that creates a session does so only for a lead, a
  queue entry and a campaign that agree with it, a lead that is eligible, neither do-not-call nor in
  progress, and a free session identifier; the session with the pre-call plan is the only thing
  added. A rejected request leaves the sessions alone, also when the queue transition fails after
  the session was created; one that raises changes nothing. Repeating the request, whatever was
  requested in between, gives the same answer and changes nothing.
\<close>

theorem bootstrap_once_and_atomic:
  assumes "dget (bss_completed svc) (bi_bootstrap_request_id (brq_input q)) = None"
  shows "case bootstrap cfg svc q of
      (Inl e, svc') \<Rightarrow> svc' = svc
    | (Inr r, svc') \<Rightarrow>
        (if bsr_status r = BS_CREATED then \<exists>plan. request_granted cfg svc q plan
            \<and> bsr_session r = Some (request_session q plan) \<and> bsr_pre_call_plan r = Some plan
            \<and> bss_sessions svc' = bss_sessions svc @ [(bi_session_id (brq_input q), request_session q plan)]
         else bsr_session r = None \<and> bss_sessions svc' = bss_sessions svc)
        \<and> bss_policies svc' = bss_policies svc
        \<and> (\<forall>later. let svc'' = foldl (\<lambda>v x. snd (bootstrap cfg v x)) svc' later in
             bootstrap cfg svc'' q = (Inr r, svc''))"
proof -
  have again: "bootstrap cfg (foldl (\<lambda>v x. snd (bootstrap cfg v x)) svc' later) q
      = (Inr r, foldl (\<lambda>v x. snd (bootstrap cfg v x)) svc' later)"
    if "dget (bss_completed svc') (bi_bootstrap_request_id (brq_input q)) = Some r" for r svc' later
    using answered.run_keeps [OF that] by (simp add: bootstrap_def Let_def)
  from assms show ?thesis
  proof (cases rule: bootstrap_cases [where cfg = cfg])
    case (raised e)
    then show ?thesis by simp
  next
    case (rejected r svc')
    with again [of svc' r] show ?thesis by (simp add: Let_def)
  next
    case (created plan entry r svc')
    with again [of svc' r] show ?thesis by (auto simp: Let_def)
  qed
qed


section \<open>A service with one lead\<close>

definition lead_of_queue :: lead_record where
  "lead_of_queue = lead_fixture\<lparr>lrec_tenant_id := ''t'', lrec_campaign_id := ''c''\<rparr>"

definition resolving_config :: boot_config where
  "resolving_config = \<lparr>bcf_lead_resolver = (\<lambda>t c i. Inr (if i = lrec_lead_id lead_of_queue then Some lead_of_queue else None)),
     bcf_context_resolver = (\<lambda>lead. reconcile lead None)\<rparr>"

definition empty_service :: boot_service where
  "empty_service = \<lparr>bss_sessions = [], bss_policies = registry_register_default ''c'' sample_discovery
     \<lparr>pr_policies = [], pr_defaults = []\<rparr>, bss_completed = []\<rparr>"

definition first_boot :: boot_request where
  "first_boot = \<lparr>brq_input = first_request, brq_campaign = planned_campaign, brq_entry = stored_entry,
     brq_eligibility = CE_ELIGIBLE, brq_transitioner = None\<rparr>"

lemma first_boot_created:
  "map_sum (\<lambda>e. ()) bsr_status (fst (bootstrap resolving_config empty_service first_boot)) = Inr BS_CREATED"
  by code_simp

lemma first_boot:
  obtains r svc' where "bootstrap resolving_config empty_service first_boot = (Inr r, svc')" "bsr_status r = BS_CREATED"
  using first_boot_created by (cases "bootstrap resolving_config empty_service first_boot";
    cases "fst (bootstrap resolving_config empty_service first_boot)") auto

lemma first_boot_new:
  "dget (bss_completed empty_service) (bi_bootstrap_request_id (brq_input first_boot)) = None"
  "bi_session_id (brq_input first_boot) = ''s1''" "bss_sessions empty_service = []"
  by (simp_all add: first_boot_def first_request_def empty_service_def)

lemma bootstrap_once_and_atomic_witness:
  "\<exists>r svc' s. bootstrap resolving_config empty_service first_boot = (Inr r, svc')
     \<and> bsr_session r = Some s \<and> bss_sessions svc' = [(''s1'', s)]
     \<and> bootstrap resolving_config svc' first_boot = (Inr r, svc')"
proof -
  obtain r svc' where out: "bootstrap resolving_config empty_service first_boot = (Inr r, svc')"
    and created: "bsr_status r = BS_CREATED" by (rule first_boot)
  from bootstrap_once_and_atomic [OF first_boot_new(1), where cfg = resolving_config]
  show ?thesis unfolding out prod.case sum.case if_P [OF created] first_boot_new(2,3)
    by (elim conjE exE) (drule spec [of _ "[]"], simp add: Let_def)
qed

section \<open>The turns of a session\<close>

lemma with_runtime_same [simp]: "with_runtime l (runtime_of l) = l"
  by (simp add: with_runtime_def runtime_of_def)

lemma raised_after_get:
  assumes "chat_process_turn session_get upd rt inp = (Inl e, rt')" "e \<noteq> SessionNotFoundError"
  shows "\<exists>s. session_get (crt_repository rt) (cti_session_id inp) = Inr s"
  using assms by (cases "session_get (crt_repository rt) (cti_session_id inp)")
    (auto simp: chat_process_turn_def session_get_def option_res_def split: option.splits)

lemma mk_turn_input_fields:
  "mk_turn_input sid message seq = Inr inp \<Longrightarrow> cti_session_id inp = sid \<and> cti_message inp = message \<and> cti_turn_sequence inp = seq"
  by (auto simp: mk_turn_input_def res_simps)

text \<open>
  C40. Every well-formed turn of the lifecycle gets an answer. A turn that was processed belongs to an
  active session and moves it, alone, to the number of the turn; when it ended the conversation the
  result is completed, the session closed and the outcome is resolved from the session alone, so it
  never says do-not-call or not interested. Any other answer leaves the lifecycle as it was and
  carries no outcome.
\<close>

theorem lifecycle_turn_answers:
  assumes ok: "table_ok (bss_sessions (lcy_service l))" and order: "\<And>S. set (order S) = S"
    and turn: "mk_turn_input sid message seq = Inr inp"
  shows "\<exists>r l'. lifecycle_turn order l sid message seq = (Inr r, l') \<and>
    (if lcr_status r \<in> {LS_ACTIVE, LS_COMPLETED} then
       \<exists>s s'. dget (bss_sessions (lcy_service l)) sid = Some s \<and> cse_status s = SS_ACTIVE \<and> cse_turn_count s < seq
         \<and> dget (bss_sessions (lcy_service l')) sid = Some s' \<and> lcr_session r = Some s' \<and> cse_turn_count s' = seq
         \<and> (cse_status s' = SS_ACTIVE \<longleftrightarrow> lcr_status r = LS_ACTIVE)
         \<and> (\<forall>x. x \<noteq> sid \<longrightarrow> dget (bss_sessions (lcy_service l')) x = dget (bss_sessions (lcy_service l)) x)
         \<and> (case lcr_outcome r of
              None \<Rightarrow> lcr_status r = LS_ACTIVE
            | Some o1 \<Rightarrow> lcr_status r = LS_COMPLETED \<and> lo_lead_id o1 = cse_lead_id s
                \<and> outcome_follows (outcome_input_for sid s' no_sources False False False TR_NATURAL_COMPLETION) o1
                \<and> lo_status o1 \<notin> {OS_DNC, OS_NOT_INTERESTED} \<and> lo_dnc o1 \<noteq> DS_DNC_CONFIRMED)
     else l' = l \<and> lcr_outcome r = None)"
proof -
  note [simp] = mk_turn_input_fields [OF turn]
  have ok': "table_ok (crt_repository (runtime_of l))" using ok by (simp add: runtime_of_def)
  then show ?thesis
  proof (cases rule: memory.process_turn_cases [where inp = inp])
    case (raised e)
    show ?thesis
    proof (cases "e = SessionTerminatedError")
      case True
      with raised_after_get [OF raised] obtain s where "session_get (crt_repository (runtime_of l)) sid = Inr s" by auto
      with raised True show ?thesis by (simp add: lifecycle_turn_def turn mk_lifecycle_result_def Let_def)
    next
      case False
      with raised show ?thesis by (simp add: lifecycle_turn_def turn mk_lifecycle_result_def Let_def)
    qed
  next
    case (processed s proc turn' out rt')
    define s' where "s' = s\<lparr>cse_turn_count := cti_turn_sequence inp,
        cse_status := (if to_conversation_terminal out then SS_COMPLETED else SS_ACTIVE),
        cse_transcript := cse_transcript s @ exchange (cti_turn_sequence inp, cti_message inp, to_rendered_text out),
        cse_revision := cse_revision s + 1\<rparr>"
    let ?rt = "runtime_of l" and ?l' = "with_runtime l rt'"
    from processed(8) have moved: "session_get (crt_repository ?rt) sid = Inr s" "table_ok (crt_repository rt')"
      "\<And>x. session_get (crt_repository rt') x = (if x = sid then Inr s' else session_get (crt_repository ?rt) x)"
      by (simp_all add: memory.moves_def s'_def)
    have sessions: "bss_sessions (lcy_service ?l') = crt_repository rt'" "crt_repository ?rt = bss_sessions (lcy_service l)"
      by (simp_all add: with_runtime_def runtime_of_def)
    have known: "dget t x = Some y \<longleftrightarrow> session_get t x = Inr y" for t :: "conversation_plan session_table" and x y
      by (simp add: session_get_def)
    have others: "dget (crt_repository rt') x = dget (bss_sessions (lcy_service l)) x" if "x \<noteq> sid" for x
      using moved(3) [of x] that sessions(2)
      by (cases "dget (crt_repository rt') x"; cases "dget (bss_sessions (lcy_service l)) x") (auto simp: session_get_def)
    have now: "dget (crt_repository rt') sid = Some s'" "dget (bss_sessions (lcy_service l)) sid = Some s"
      using moved(1) moved(3) [of sid] sessions(2) by (simp_all add: known)
    have s'ok: "cse_session_id s' = sid" "ChatRuntime.session_ok s'"
      using moved(2) now(1) by (simp_all add: table_ok_def)
    have s': "cse_status s' = (if to_conversation_terminal out then SS_COMPLETED else SS_ACTIVE)" "cse_turn_count s' = seq"
      "cse_lead_id s' = cse_lead_id s"
      by (simp_all add: s'_def)
    show ?thesis
    proof (cases "to_conversation_terminal out")
      case False
      with processed(2,3) processed(7) moved(3) [of sid] s' now others show ?thesis
        by (simp add: lifecycle_turn_def turn mk_lifecycle_result_def Let_def sessions)
    next
      case True
      let ?i = "outcome_input_for sid s' no_sources False False False TR_NATURAL_COMPLETION"
      obtain o1 where o1: "rbind (mk_outcome_input ?i) (resolve_outcome order) = Inr o1" "outcome_follows ?i o1"
        "lo_lead_id o1 = cse_lead_id s'"
        using session_outcome [OF s'ok order no_sources_ok] by blast
      from o1(2) have quiet: "lo_status o1 \<notin> {OS_DNC, OS_NOT_INTERESTED} \<and> lo_dnc o1 \<noteq> DS_DNC_CONFIRMED"
        by (simp add: outcome_follows_def outcome_input_for_def)
      have "generate_outcome order ?l' sid no_sources False False False TR_NATURAL_COMPLETION = Inr o1"
        using o1(1) moved(3) [of sid] by (simp add: generate_outcome_def sessions s'ok)
      with True processed(2,3) processed(7) moved(3) [of sid] s' now others o1 quiet show ?thesis
        by (simp add: lifecycle_turn_def turn mk_lifecycle_result_def Let_def sessions s'ok)
    qed
  qed
qed

definition closing_processor :: turn_processor where
  "closing_processor t = Inr \<lparr>to_turn_id = cut_turn_id t, to_response_plan =
      \<lparr>rpl_communicative_goal = Move_COMMUNICATE_RESULT, rpl_pending_intent = None\<rparr>,
    to_rendered_text = ''goodbye'', to_unfinished_point_summary = None,
    to_pipeline_outcome = Some AR_EXECUTED, to_conversation_terminal = True\<rparr>"

definition started_lifecycle :: lifecycle where
  "started_lifecycle = snd (bootstrap_session resolving_config \<lparr>lcy_service = empty_service, lcy_processors = []\<rparr>
     first_boot closing_processor)"

lemma started_lifecycle_state:
  obtains plan where "bss_sessions (lcy_service started_lifecycle) = [(''s1'', request_session first_boot plan)]"
    "lcy_processors started_lifecycle = [(''s1'', closing_processor)]"
proof -
  obtain r svc' where out: "bootstrap resolving_config empty_service first_boot = (Inr r, svc')" "bsr_status r = BS_CREATED"
    by (rule first_boot)
  from first_boot_new(1) show thesis
  proof (cases rule: bootstrap_cases [where cfg = resolving_config])
    case (created plan entry r' svc'')
    then show thesis
      by (intro that [of plan]) (simp_all add: started_lifecycle_def bootstrap_session_def Let_def with_runtime_def runtime_of_def
        register_processor_def request_session_def started_session_def first_boot_def first_request_def
        empty_service_def)
  qed (use out in auto)
qed

lemma started_lifecycle_ok: "table_ok (bss_sessions (lcy_service started_lifecycle))"
proof -
  have "ChatRuntime.session_ok (request_session first_boot plan)" for plan
    by (simp add: ChatRuntime.session_ok_def check_session_def request_session_def started_session_def first_boot_def first_request_def
      blank_iff py_isspace_def)
  moreover have "cse_session_id (request_session first_boot plan) = ''s1''" for plan
    by (simp add: request_session_def started_session_def first_boot_def first_request_def)
  moreover obtain plan where "bss_sessions (lcy_service started_lifecycle) = [(''s1'', request_session first_boot plan)]"
    by (rule started_lifecycle_state)
  ultimately show ?thesis by (simp add: table_ok_def)
qed

lemma started_turn: "mk_turn_input ''s1'' ''hi'' 1 = Inr \<lparr>cti_session_id = ''s1'', cti_message = ''hi'', cti_turn_sequence = 1\<rparr>"
  by code_simp

lemma coordinated_turn:
  "\<exists>t. to_coordinated_turn \<lparr>cti_session_id = ''s1'', cti_message = ''hi'', cti_turn_sequence = 1\<rparr> = Inr t"
proof -
  have "isl (to_coordinated_turn \<lparr>cti_session_id = ''s1'', cti_message = ''hi'', cti_turn_sequence = 1\<rparr>) = False"
    by code_simp
  then show ?thesis
    by (cases "to_coordinated_turn \<lparr>cti_session_id = ''s1'', cti_message = ''hi'', cti_turn_sequence = 1\<rparr>") auto
qed

lemma started_turn_completed:
  obtains c rt' where "chat_process_turn session_get session_update (runtime_of started_lifecycle)
      \<lparr>cti_session_id = ''s1'', cti_message = ''hi'', cti_turn_sequence = 1\<rparr> = (Inr c, rt')" "ctr_conversation_terminal c"
proof -
  obtain plan where "bss_sessions (lcy_service started_lifecycle) = [(''s1'', request_session first_boot plan)]"
    "lcy_processors started_lifecycle = [(''s1'', closing_processor)]" by (rule started_lifecycle_state)
  then have rt: "runtime_of started_lifecycle
      = \<lparr>crt_repository = [(''s1'', request_session first_boot plan)], crt_processors = [(''s1'', closing_processor)]\<rparr>"
    by (simp add: runtime_of_def)
  have "map_sum (\<lambda>e. ()) ctr_conversation_terminal (fst (chat_process_turn session_get session_update
      \<lparr>crt_repository = [(''s1'', request_session first_boot plan)], crt_processors = [(''s1'', closing_processor)]\<rparr>
      \<lparr>cti_session_id = ''s1'', cti_message = ''hi'', cti_turn_sequence = 1\<rparr>)) = Inr True"
    using coordinated_turn
    by (auto simp: chat_process_turn_def session_get_def session_update_def after_turn_def mk_transcript_entry_def check_session_def
      check_turn_result_def closing_processor_def Let_def request_session_def started_session_def first_boot_def first_request_def
      blank_iff py_isspace_def)
  with that rt show thesis
    by (cases "fst (chat_process_turn session_get session_update (runtime_of started_lifecycle)
      \<lparr>cti_session_id = ''s1'', cti_message = ''hi'', cti_turn_sequence = 1\<rparr>)"; cases "chat_process_turn session_get session_update (runtime_of started_lifecycle)
      \<lparr>cti_session_id = ''s1'', cti_message = ''hi'', cti_turn_sequence = 1\<rparr>") auto
qed

lemma lifecycle_turn_answers_witness:
  "\<exists>r l' s' o1. lifecycle_turn (\<lambda>S. filter (\<lambda>a. a \<in> S) all_unknown) started_lifecycle ''s1'' ''hi'' 1 = (Inr r, l')
     \<and> lcr_status r = LS_COMPLETED \<and> lcr_session r = Some s' \<and> cse_status s' \<noteq> SS_ACTIVE
     \<and> lcr_outcome r = Some o1 \<and> lo_status o1 \<noteq> OS_DNC"
proof -
  let ?order = "\<lambda>S. filter (\<lambda>a. a \<in> S) all_unknown"
  have order: "set (?order S) = S" for S by auto
  obtain r l' where out: "lifecycle_turn ?order started_lifecycle ''s1'' ''hi'' 1 = (Inr r, l')"
    using lifecycle_turn_answers [OF started_lifecycle_ok order started_turn] by blast
  obtain c rt' where "chat_process_turn session_get session_update (runtime_of started_lifecycle)
      \<lparr>cti_session_id = ''s1'', cti_message = ''hi'', cti_turn_sequence = 1\<rparr> = (Inr c, rt')" "ctr_conversation_terminal c"
    by (rule started_turn_completed)
  with out have "lcr_status r = LS_COMPLETED"
    by (auto simp: lifecycle_turn_def started_turn Let_def mk_lifecycle_result_def res_simps)
  with lifecycle_turn_answers [OF started_lifecycle_ok order started_turn] out show ?thesis
    by (auto split: option.splits)
qed

end
