(* ===== verification/Spec2Isabelle.thy ===== *)
theory Spec2Isabelle
  imports Brain Campaign Lifecycle
begin

text \<open>
  Verification library of call_forge, an agent that makes outbound sales calls. Source paths are
  relative to \<^verbatim>\<open>src/app\<close>.

  \<^bold>\<open>The program.\<close> Language models propose, deterministic code decides. Leads are imported, normalised
  and enriched; a campaign queue decides whether and whom to call; the pre-call engine turns a lead into
  the plan of a conversation. During a call the turn coordinator turns speech events into turns, the chat
  runtime attaches them to a session, the orchestrator takes the proposal of a reasoning model through
  priority, budget, scope and authority, and the conversation engine executes what was approved as at most
  one transition of a state machine whose configuration ships with the program. Around it, projections
  collect what is known about the person and the business and derive strategy, questions, explanations and
  escalations from it. Sessions, queue, plans and answers are stored in SQLite; after a restart recovery
  restores what can be restored. At the end the outcome of the call is resolved from trusted state.

  \<^bold>\<open>Conventions.\<close> An operation that may raise returns \<open>exn + 'a\<close>, one that also changes an object
  returns the outcome together with the new object, so "nothing changes on failure" is a statement about the
  model. A class is a record, \<open>mk_\<close>\<^emph>\<open>name\<close> or \<open>check_\<close>\<^emph>\<open>name\<close> is its \<^verbatim>\<open>__post_init__\<close>; an
  enumeration is a datatype with its values (\<open>_value\<close>) and conversion (\<open>_of\<close>). Python's integers
  are \<open>int\<close>, its dictionaries association lists in insertion order, its strings lists of characters with
  code points up to 255, floats are rationals, infinities and NaN. Recursion is structural or
  bounded by the input; the one loop with fuel, dialling a lead that never answers, is shown to end within
  the retries that are left. Every definition is total and evaluates. Sequences of operations are lists of
  events folded over the state.

  \<^bold>\<open>Theories, from the ground up.\<close>
  \<^item> \<open>Prelude\<close>: exceptions as values, strings, floats, dictionaries; the locale \<open>kept\<close> (what one step keeps, a
    run keeps) and the locale \<open>monotone\<close> (what one step only increases, a run only increases), on which
    the properties about arbitrary sequences rest.
  \<^item> \<open>Constants\<close> (\<^verbatim>\<open>core/constants.py\<close>), \<open>Regex\<close> (the regular expressions the program uses, by derivatives,
    with their language), \<open>Contact\<close> (\<^verbatim>\<open>contracts/contact_info.py\<close>, \<^verbatim>\<open>conversation/contact\<close>).
  \<^item> \<open>StateMachine\<close>, \<open>Machine\<close>, \<open>ShippedConfig\<close> (\<^verbatim>\<open>conversation/state_machine\<close> and the YAML document): loader,
    machine with its detour stack, and what the shipped document guarantees: it loads, a loaded machine stays
    inside its configuration, do-not-call is available at every moment.
  \<^item> \<open>Guardrails\<close> (\<^verbatim>\<open>conversation/guardrails\<close>), \<open>Catalog\<close> (\<^verbatim>\<open>catalog\<close>, \<^verbatim>\<open>services/service_offering_service.py\<close>),
    \<open>ContactMethods\<close> (\<^verbatim>\<open>models/contact_method.py\<close>, its repository and service), \<open>Engine\<close>
    (\<^verbatim>\<open>conversation/engine.py\<close>): every path of the engine describes exactly the transition it made; a
    pending do-not-call is never talked over; an offer is in scope whatever the selector says.
  \<^item> \<open>Policies\<close>, \<open>Brain\<close> (\<^verbatim>\<open>brain\<close>): budget, scope, authority and the orchestrator over them; an action is
    approved exactly when it passed every gate, and only an approved action is executed.
  \<^item> \<open>Coordinator\<close> (\<^verbatim>\<open>runtime/turn_coordinator.py\<close>), \<open>ChatRuntime\<close> (\<^verbatim>\<open>runtime/chat\<close>): turns are processed
    once and in order. The locale \<open>session_repository\<close> is the contract of the runtime with its store; the
    in-memory table and the SQLite repository are its interpretations \<open>memory\<close> and \<open>sqlite\<close>.
  \<^item> \<open>Leads\<close> (\<^verbatim>\<open>leads\<close>), \<open>Campaign\<close> (\<^verbatim>\<open>leads/campaign\<close>), \<open>Precall\<close> (\<^verbatim>\<open>precall\<close>): import and
    enrichment, queue selection and retry bounds, and the plan of a conversation.
  \<^item> \<open>Documents\<close>, \<open>SqliteStore\<close>, \<open>SqliteQueue\<close> (\<^verbatim>\<open>persistence/sqlite\<close>): stored JSON documents and their round
    trips; tables, repositories and transactions; refinement of the in-memory repository; do-not-call and
    taken leads under every sequence of queue operations.
  \<^item> \<open>Recovery\<close>, \<open>SalesRuntime\<close>, \<open>Outcome\<close>, \<open>Lifecycle\<close> (\<^verbatim>\<open>application/sales_runtime\<close>, \<^verbatim>\<open>runtime/chat/bootstrap\<close>,
    \<^verbatim>\<open>runtime/chat/outcome\<close>, \<^verbatim>\<open>runtime/chat/lifecycle\<close>): starting, running, finishing and restoring
    sessions, over SQLite and in memory. The interpretation \<open>runtime\<close> states what every operation of the
    persistent runtime leaves below the later store; exactly-once answers and the finality of a finished
    session rest on it.
  \<^item> \<open>Prospect\<close>, \<open>Business\<close>, \<open>Participant\<close>, \<open>Strategy\<close>, \<open>Context\<close>, \<open>Escalation\<close>, \<open>Consultative\<close>, \<open>Cognition\<close> (the
    packages \<^verbatim>\<open>prospect_intelligence\<close>, \<^verbatim>\<open>business_conversation\<close>, \<^verbatim>\<open>qualification\<close>, \<^verbatim>\<open>business_diagnostic\<close>,
    \<^verbatim>\<open>participant\<close>, \<^verbatim>\<open>strategy\<close>, \<^verbatim>\<open>supervisor\<close>, \<^verbatim>\<open>context\<close>, \<^verbatim>\<open>escalation\<close>, \<^verbatim>\<open>consultative\<close>,
    \<^verbatim>\<open>sales_cognition\<close>, \<^verbatim>\<open>sales_playbook\<close> of \<^verbatim>\<open>conversation\<close>, and \<^verbatim>\<open>brain/business_intelligence.py\<close>):
    what was said is never displaced by a guess, nobody inherits another person's state, questions are spaced,
    explanations and answers are backed by approved evidence.

  \<^bold>\<open>Parameters.\<close> Code that is not part of the repository, or that the program itself takes as a callable, is
  an argument: the \<^verbatim>\<open>phonenumbers\<close> package, the service selector and the reasoning provider with the builder of
  its view, turn processors and their factory, \<^verbatim>\<open>json.loads\<close> on payload texts, the lead and context
  resolvers, the time, the texts of exceptions, and the order in which a set is iterated. What a theorem
  needs of them is a hypothesis of the theorem.

  \<^bold>\<open>Lemma groups.\<close> Each theory has its case lemma (\<open>process_turn_cases\<close>, \<open>bootstrap_cases\<close>, \<open>start_session_cases\<close>
  and the like) which lists the ways an operation ends, the invariant with its preservation, and the property
  built from both; \<open>res_simps\<close> and \<open>checked_simps\<close> unfold error plumbing. Lemmas about defects of the code
  carry their concrete input in the statement.

  \<^bold>\<open>Not modelled.\<close> The web interface, the network clients of language models and voices, file export, the
  ORM tables and their single queries, and the simulations do input and output through libraries. Message
  texts of exceptions, diagnostics, metrics and log lines are left out. Of the production turn processor only
  the participant state and the remembered questions are here, its composition of the other stages is not; of
  the understanding providers, response planning, rendering and knowledge retrieval nothing is.
\<close>

end
